(* ===== verification/Prelude.thy ===== *)
theory Prelude
  imports Complex_Main "HOL-Library.Sublist" "HOL-Library.Char_ord" "HOL-Library.List_Lexorder"
begin

text \<open>
  Shared vocabulary of the development.

  \<^item> Raised exceptions are values: an operation returns \<open>'e + 'a\<close>, \<open>Inl\<close> holding the exception.
    A stateful operation returns the outcome together with the state it leaves behind.
  \<^item> A relational table with a primary key is the list of its rows in insertion order;
    \<open>select_row\<close>, \<open>insert_row\<close> and \<open>update_rows\<close> are the three statements the sources use on
    it, and the locale \<open>pk_table\<close> states the laws clients rely on.
  \<^item> The locale \<open>guarded_machine\<close> is the contract of a component whose operations keep an
    invariant whether or not they succeed: it lifts one-operation facts to whole runs.
  \<^item> A Python string is a \<open>string\<close>; one \<open>char\<close> is one code point below 256.
\<close>

named_theorems table_simps \<open>laws of keyed row lists\<close>

section \<open>Results\<close>

type_synonym ('e, 'a) result = "'e + 'a"

type_synonym ('s, 'e, 'a) outcome = "('e + 'a) \<times> 's"

definition bindE :: "('e, 'a) result \<Rightarrow> ('a \<Rightarrow> ('e, 'b) result) \<Rightarrow> ('e, 'b) result" where
  "bindE m f = (case m of Inl e \<Rightarrow> Inl e | Inr a \<Rightarrow> f a)"

definition guardE :: "bool \<Rightarrow> 'e \<Rightarrow> ('e, unit) result" where
  "guardE b e = (if b then Inr () else Inl e)"

fun is_ok :: "('e, 'a) result \<Rightarrow> bool" where
  "is_ok (Inr _) = True"
| "is_ok (Inl _) = False"

fun mapE :: "('a \<Rightarrow> ('e, 'b) result) \<Rightarrow> 'a list \<Rightarrow> ('e, 'b list) result" where
  "mapE f [] = Inr []"
| "mapE f (x # xs) = bindE (f x) (\<lambda>y. bindE (mapE f xs) (\<lambda>ys. Inr (y # ys)))"

lemma bindE_simps [simp]:
  "bindE (Inl e) f = Inl e"
  "bindE (Inr a) f = f a"
  by (simp_all add: bindE_def)

lemma bindE_Inr_iff: "bindE m f = Inr b \<longleftrightarrow> (\<exists>a. m = Inr a \<and> f a = Inr b)"
  by (cases m) auto

lemma bindE_Inl_iff: "bindE m f = Inl e \<longleftrightarrow> m = Inl e \<or> (\<exists>a. m = Inr a \<and> f a = Inl e)"
  by (cases m) auto

lemma guardE_Inr_iff [simp]: "guardE b e = Inr u \<longleftrightarrow> b"
  by (simp add: guardE_def)

lemma guardE_Inl_iff [simp]: "guardE b e = Inl e' \<longleftrightarrow> \<not> b \<and> e = e'"
  by (auto simp: guardE_def)

lemma guardE_simps [simp]: "guardE True e = Inr ()" "guardE False e = Inl e"
  by (simp_all add: guardE_def)

lemma is_ok_iff: "is_ok r \<longleftrightarrow> (\<exists>a. r = Inr a)"
  by (cases r) auto

section \<open>Tables with a primary key\<close>

definition select_row :: "('r \<Rightarrow> 'k) \<Rightarrow> 'k \<Rightarrow> 'r list \<Rightarrow> 'r option" where
  "select_row key k rows = List.find (\<lambda>r. key r = k) rows"

definition insert_row :: "'r \<Rightarrow> 'r list \<Rightarrow> 'r list" where
  "insert_row r rows = rows @ [r]"

definition update_rows :: "('r \<Rightarrow> bool) \<Rightarrow> ('r \<Rightarrow> 'r) \<Rightarrow> 'r list \<Rightarrow> 'r list" where
  "update_rows P f rows = map (\<lambda>r. if P r then f r else r) rows"

lemma select_row_Nil [simp]: "select_row key k [] = None"
  by (simp add: select_row_def)

lemma select_row_Cons [simp]:
  "select_row key k (r # rows) = (if key r = k then Some r else select_row key k rows)"
  by (simp add: select_row_def)

lemma select_row_SomeD: "select_row key k rows = Some r \<Longrightarrow> r \<in> set rows \<and> key r = k"
  by (induction rows) (auto split: if_splits)

lemma select_row_None_iff: "select_row key k rows = None \<longleftrightarrow> k \<notin> key ` set rows"
  by (induction rows) auto

lemma select_row_unique:
  "distinct (map key rows) \<Longrightarrow> r \<in> set rows \<Longrightarrow> select_row key (key r) rows = Some r"
  by (induction rows) (auto simp: image_iff)

lemma select_row_append [table_simps]:
  "select_row key k (xs @ ys) =
     (case select_row key k xs of None \<Rightarrow> select_row key k ys | Some r \<Rightarrow> Some r)"
  by (induction xs) auto

lemma select_insert_row [table_simps]:
  "select_row key k (insert_row r rows) =
     (case select_row key k rows of None \<Rightarrow> (if key r = k then Some r else None) | Some x \<Rightarrow> Some x)"
  by (simp add: insert_row_def select_row_append split: option.split)

lemma set_insert_row [table_simps, simp]: "set (insert_row r rows) = insert r (set rows)"
  by (simp add: insert_row_def)

lemma map_insert_row [table_simps]: "map f (insert_row r rows) = map f rows @ [f r]"
  by (simp add: insert_row_def)

lemma set_update_rows: "set (update_rows P f rows) = (\<lambda>r. if P r then f r else r) ` set rows"
  by (simp add: update_rows_def)

lemma map_update_rows:
  "(\<And>r. P r \<Longrightarrow> g (f r) = g r) \<Longrightarrow> map g (update_rows P f rows) = map g rows"
  by (simp add: update_rows_def)

lemma length_update_rows [simp]: "length (update_rows P f rows) = length rows"
  by (simp add: update_rows_def)

lemma select_update_rows:
  "(\<And>r. P r \<Longrightarrow> key (f r) = key r) \<Longrightarrow>
   select_row key k (update_rows P f rows) =
     map_option (\<lambda>r. if P r then f r else r) (select_row key k rows)"
  by (induction rows) (auto simp: update_rows_def)

lemma update_rows_id: "(\<And>r. r \<in> set rows \<Longrightarrow> P r \<Longrightarrow> f r = r) \<Longrightarrow> update_rows P f rows = rows"
  by (simp add: update_rows_def map_idI)

text \<open>The contract of such a table, as the stores below use it.\<close>

locale pk_table =
  fixes key :: "'r \<Rightarrow> 'k"
    and sel :: "'k \<Rightarrow> 't \<Rightarrow> 'r option"
    and ins :: "'r \<Rightarrow> 't \<Rightarrow> 't"
    and upd :: "'k \<Rightarrow> ('r \<Rightarrow> 'r) \<Rightarrow> 't \<Rightarrow> 't"
  assumes sel_key: "sel k t = Some r \<Longrightarrow> key r = k"
    and sel_ins: "sel k (ins r t) =
      (case sel k t of None \<Rightarrow> (if key r = k then Some r else None) | Some x \<Rightarrow> Some x)"
    and sel_upd: "(\<And>r. key (f r) = key r) \<Longrightarrow>
      sel k (upd k' f t) = (if k = k' then map_option f (sel k t) else sel k t)"
begin

lemma fresh_insert_found: "sel (key r) t = None \<Longrightarrow> sel (key r) (ins r t) = Some r"
  by (simp add: sel_ins)

lemma insert_keeps: "sel k t = Some x \<Longrightarrow> sel k (ins r t) = Some x"
  by (simp add: sel_ins)

lemma insert_other: "k \<noteq> key r \<Longrightarrow> sel k (ins r t) = sel k t"
  by (auto simp: sel_ins split: option.splits)

lemma update_found: "(\<And>r. key (f r) = key r) \<Longrightarrow> sel k t = Some x \<Longrightarrow> sel k (upd k f t) = Some (f x)"
  by (simp add: sel_upd)

lemma update_other: "(\<And>r. key (f r) = key r) \<Longrightarrow> k \<noteq> k' \<Longrightarrow> sel k (upd k' f t) = sel k t"
  by (simp add: sel_upd)

end

definition update_key :: "('r \<Rightarrow> 'k) \<Rightarrow> 'k \<Rightarrow> ('r \<Rightarrow> 'r) \<Rightarrow> 'r list \<Rightarrow> 'r list" where
  "update_key key k f rows = update_rows (\<lambda>r. key r = k) f rows"

interpretation rows: pk_table key "select_row key" insert_row "update_key key"
  for key :: "'r \<Rightarrow> 'k"
proof unfold_locales
  show "select_row key k t = Some r \<Longrightarrow> key r = k" for k t and r :: 'r
    by (blast dest: select_row_SomeD)
  show "select_row key k (insert_row r t) =
      (case select_row key k t of None \<Rightarrow> (if key r = k then Some r else None) | Some x \<Rightarrow> Some x)"
    for k t and r :: 'r by (rule select_insert_row)
  show "select_row key k (update_key key k' f t) =
      (if k = k' then map_option f (select_row key k t) else select_row key k t)"
    if "\<And>r. key (f r) = key r" for f :: "'r \<Rightarrow> 'r" and k k' t
    using that by (induction t) (auto simp: update_key_def update_rows_def)
qed

section \<open>Machines whose operations keep an invariant\<close>

text \<open>
  \<open>step\<close> runs one operation and leaves a state behind even when it raises. The two laws are what
  every store of the program promises of each operation: the invariant is kept, and the states
  before and after are related by \<open>mono\<close>, a preorder. Runs inherit both.
\<close>

fun run_ops :: "('op \<Rightarrow> 's \<Rightarrow> ('s, 'e, 'a) outcome) \<Rightarrow> 'op list \<Rightarrow> 's \<Rightarrow> 's" where
  "run_ops step [] s = s"
| "run_ops step (x # xs) s = run_ops step xs (snd (step x s))"

fun outcomes :: "('op \<Rightarrow> 's \<Rightarrow> ('s, 'e, 'a) outcome) \<Rightarrow> 'op list \<Rightarrow> 's \<Rightarrow> ('e + 'a) list" where
  "outcomes step [] s = []"
| "outcomes step (x # xs) s = fst (step x s) # outcomes step xs (snd (step x s))"

lemma run_ops_append: "run_ops step (xs @ ys) s = run_ops step ys (run_ops step xs s)"
  by (induction xs arbitrary: s) auto

locale guarded_machine =
  fixes step :: "'op \<Rightarrow> 's \<Rightarrow> ('s, 'e, 'a) outcome"
    and inv :: "'s \<Rightarrow> bool"
    and mono :: "'s \<Rightarrow> 's \<Rightarrow> bool"
  assumes step_inv: "inv s \<Longrightarrow> inv (snd (step x s))"
    and step_mono: "inv s \<Longrightarrow> mono s (snd (step x s))"
    and mono_refl: "mono s s"
    and mono_trans: "mono s t \<Longrightarrow> mono t u \<Longrightarrow> mono s u"
begin

lemma run_inv: "inv s \<Longrightarrow> inv (run_ops step xs s)"
  by (induction xs arbitrary: s) (auto simp: step_inv)

lemma run_mono: "inv s \<Longrightarrow> mono s (run_ops step xs s)"
proof (induction xs arbitrary: s)
  case Nil
  show ?case by (simp add: mono_refl)
next
  case (Cons x xs)
  have "mono (snd (step x s)) (run_ops step xs (snd (step x s)))"
    by (rule Cons.IH) (rule step_inv [OF Cons.prems])
  with step_mono [OF Cons.prems] show ?case by (auto intro: mono_trans)
qed

end

text \<open>
  A machine that hands out one-time resources: \<open>used\<close> says which resources are spent, a step
  \<open>grants\<close> a resource only while it is unspent, and afterwards it is spent for good.
\<close>

locale one_time_machine =
  fixes step :: "'op \<Rightarrow> 's \<Rightarrow> ('s, 'e, 'a) outcome"
    and inv :: "'s \<Rightarrow> bool"
    and used :: "'k \<Rightarrow> 's \<Rightarrow> bool"
    and grants :: "'op \<Rightarrow> 's \<Rightarrow> 'k \<Rightarrow> bool"
  assumes one_inv: "inv s \<Longrightarrow> inv (snd (step x s))"
    and used_stays: "inv s \<Longrightarrow> used k s \<Longrightarrow> used k (snd (step x s))"
    and grant_fresh: "inv s \<Longrightarrow> grants x s k \<Longrightarrow> \<not> used k s"
    and grant_uses: "inv s \<Longrightarrow> grants x s k \<Longrightarrow> used k (snd (step x s))"
begin

lemma run_one_inv: "inv s \<Longrightarrow> inv (run_ops step xs s)"
  by (induction xs arbitrary: s) (auto intro: one_inv)

lemma run_used: "inv s \<Longrightarrow> used k s \<Longrightarrow> used k (run_ops step xs s)"
  by (induction xs arbitrary: s) (auto intro: one_inv used_stays)

lemma no_second_grant:
  assumes "inv s" "i < j" "j < length xs" "grants (xs ! i) (run_ops step (take i xs) s) k"
  shows "\<not> grants (xs ! j) (run_ops step (take j xs) s) k"
proof -
  let ?s = "run_ops step (take i xs) s"
  have inv: "inv ?s" by (rule run_one_inv [OF assms(1)])
  have "i < length (take j xs)" using assms(2,3) by simp
  from id_take_nth_drop [OF this] have "take j xs = take i xs @ xs ! i # drop (Suc i) (take j xs)"
    using assms(2) by (simp add: min_absorb1)
  then have "run_ops step (take j xs) s = run_ops step (drop (Suc i) (take j xs)) (snd (step (xs ! i) ?s))"
    by (metis run_ops.simps(2) run_ops_append)
  then have "used k (run_ops step (take j xs) s)"
    using run_used [OF one_inv [OF inv] grant_uses [OF inv assms(4)]] by simp
  with grant_fresh [OF run_one_inv [OF assms(1)]] show ?thesis by blast
qed

end

section \<open>Python strings\<close>

abbreviation quote_char :: char where
  "quote_char \<equiv> CHR 0x27"

definition quoted :: "string \<Rightarrow> string" where
  "quoted s = quote_char # s @ [quote_char]"

definition is_digit :: "char \<Rightarrow> bool" where
  "is_digit c \<longleftrightarrow> 48 \<le> (of_char c :: nat) \<and> (of_char c :: nat) \<le> 57"

definition is_lower :: "char \<Rightarrow> bool" where
  "is_lower c \<longleftrightarrow> 97 \<le> (of_char c :: nat) \<and> (of_char c :: nat) \<le> 122"

definition is_upper :: "char \<Rightarrow> bool" where
  "is_upper c \<longleftrightarrow> 65 \<le> (of_char c :: nat) \<and> (of_char c :: nat) \<le> 90"

definition is_alnum_ascii :: "char \<Rightarrow> bool" where
  "is_alnum_ascii c \<longleftrightarrow> is_digit c \<or> is_lower c \<or> is_upper c"

definition digit_val :: "char \<Rightarrow> int" where
  "digit_val c = int (of_char c) - 48"

definition nat_of_digits :: "string \<Rightarrow> int" where
  "nat_of_digits s = foldl (\<lambda>n c. 10 * n + digit_val c) 0 s"

end
