(* ===== verification/Lifecycle.thy ===== *)
theory Lifecycle
  imports Prelude
begin

text \<open>
  \<^verbatim>\<open>cops/contracts/lifecycle.py\<close>: the state machines of the operational contracts.

  Each contract type has a set of states and a table of allowed moves; \<open>validate_transition\<close>
  raises unless the move is in the table of the requested type. The locale \<open>lifecycle\<close> states
  what a table promises (every state has an entry, every move stays inside the states) and proves
  the facts about runs once; \<open>ranked_lifecycle\<close> adds a rank that every move lowers, which holds
  for every contract but the laboratory environment and bounds the length of a run.
\<close>

datatype contract_error = ContractError (err_code: string) (err_message: string)

section \<open>The tables\<close>

definition ENGAGEMENT_STATES :: "string list" where
  "ENGAGEMENT_STATES = [''planned'', ''active'', ''completed'', ''cancelled'', ''aborted'']"

definition ENGAGEMENT_TRANSITIONS :: "(string \<times> string list) list" where
  "ENGAGEMENT_TRANSITIONS = [
     (''planned'', [''active'', ''cancelled'']),
     (''active'', [''completed'', ''cancelled'', ''aborted'']),
     (''completed'', []),
     (''cancelled'', []),
     (''aborted'', [])]"

definition ACTION_PLAN_STATES :: "string list" where
  "ACTION_PLAN_STATES =
     [''draft'', ''pending_approval'', ''approved'', ''executing'', ''fulfilled'', ''rejected'', ''cancelled'']"

definition ACTION_PLAN_TRANSITIONS :: "(string \<times> string list) list" where
  "ACTION_PLAN_TRANSITIONS = [
     (''draft'', [''pending_approval'', ''cancelled'']),
     (''pending_approval'', [''approved'', ''rejected'', ''cancelled'']),
     (''approved'', [''executing'', ''cancelled'']),
     (''executing'', [''fulfilled'', ''cancelled'']),
     (''fulfilled'', []),
     (''rejected'', []),
     (''cancelled'', [])]"

definition EXECUTION_AUTHORIZATION_STATES :: "string list" where
  "EXECUTION_AUTHORIZATION_STATES = [''approved'', ''consumed'', ''revoked'', ''expired'']"

definition EXECUTION_AUTHORIZATION_TRANSITIONS :: "(string \<times> string list) list" where
  "EXECUTION_AUTHORIZATION_TRANSITIONS = [
     (''approved'', [''consumed'', ''revoked'', ''expired'']),
     (''consumed'', []),
     (''revoked'', []),
     (''expired'', [])]"

definition SPECIALIST_HANDOFF_STATES :: "string list" where
  "SPECIALIST_HANDOFF_STATES = [''proposed'', ''accepted'', ''in_review'', ''completed'', ''rejected'']"

definition SPECIALIST_HANDOFF_TRANSITIONS :: "(string \<times> string list) list" where
  "SPECIALIST_HANDOFF_TRANSITIONS = [
     (''proposed'', [''accepted'', ''rejected'']),
     (''accepted'', [''in_review'', ''rejected'']),
     (''in_review'', [''completed'', ''rejected'']),
     (''completed'', []),
     (''rejected'', [])]"

definition LABORATORY_ENVIRONMENT_STATES :: "string list" where
  "LABORATORY_ENVIRONMENT_STATES =
     [''registered'', ''verified'', ''active'', ''resetting'', ''torn_down'', ''failed'']"

definition LABORATORY_ENVIRONMENT_TRANSITIONS :: "(string \<times> string list) list" where
  "LABORATORY_ENVIRONMENT_TRANSITIONS = [
     (''registered'', [''verified'', ''failed'', ''torn_down'']),
     (''verified'', [''active'', ''resetting'', ''failed'', ''torn_down'']),
     (''active'', [''verified'', ''resetting'', ''failed'', ''torn_down'']),
     (''resetting'', [''verified'', ''failed'', ''torn_down'']),
     (''failed'', [''resetting'', ''torn_down'']),
     (''torn_down'', [])]"

definition RUN_RESULT_STATUSES :: "string list" where
  "RUN_RESULT_STATUSES =
     [''success'', ''partial'', ''cancelled'', ''failed'', ''uncertain'', ''not_assessed'']"

definition dict_get_list :: "(string \<times> string list) list \<Rightarrow> string \<Rightarrow> string list" where
  "dict_get_list d k = (case map_of d k of None \<Rightarrow> [] | Some v \<Rightarrow> v)"

section \<open>The transition check\<close>

definition validate_in_table ::
  "string \<Rightarrow> string list \<Rightarrow> (string \<times> string list) list \<Rightarrow> string \<Rightarrow> string \<Rightarrow> (contract_error, unit) result" where
  "validate_in_table label states transitions current_state next_state =
     (if current_state \<notin> set states then
        Inl (ContractError ''invalid_contract'' (''unknown '' @ label @ '' state: '' @ current_state))
      else if next_state \<notin> set states then
        Inl (ContractError ''invalid_contract'' (''unknown target '' @ label @ '' state: '' @ next_state))
      else if next_state \<notin> set (dict_get_list transitions current_state) then
        Inl (ContractError ''illegal_transition''
          (''illegal '' @ label @ '' transition from '' @ quoted current_state @ '' to '' @ quoted next_state))
      else Inr ())"

text \<open>
  The five branches of the source differ only in the label and the two tables, so the branch body
  is \<open>validate_in_table\<close>; the dispatch on the contract type is written out.
\<close>

definition validate_transition :: "string \<Rightarrow> string \<Rightarrow> string \<Rightarrow> (contract_error, unit) result" where
  "validate_transition current_state next_state contract_type =
     (if contract_type = ''engagement'' then
        validate_in_table ''engagement'' ENGAGEMENT_STATES ENGAGEMENT_TRANSITIONS current_state next_state
      else if contract_type \<in> {''action_plan'', ''action-plan''} then
        validate_in_table ''action plan'' ACTION_PLAN_STATES ACTION_PLAN_TRANSITIONS current_state next_state
      else if contract_type \<in> {''execution_authorization'', ''execution-authorization''} then
        validate_in_table ''execution authorization'' EXECUTION_AUTHORIZATION_STATES
          EXECUTION_AUTHORIZATION_TRANSITIONS current_state next_state
      else if contract_type \<in> {''specialist_handoff'', ''specialist-handoff''} then
        validate_in_table ''specialist handoff'' SPECIALIST_HANDOFF_STATES
          SPECIALIST_HANDOFF_TRANSITIONS current_state next_state
      else if contract_type \<in> {''laboratory_environment'', ''laboratory-environment''} then
        validate_in_table ''laboratory environment'' LABORATORY_ENVIRONMENT_STATES
          LABORATORY_ENVIRONMENT_TRANSITIONS current_state next_state
      else Inl (ContractError ''invalid_contract''
        (''contract type '' @ quoted contract_type @ '' does not define lifecycle transitions'')))"

text \<open>
  A sequence of \<open>transition_to\<close> calls: each call moves only when the check accepts, so a refused
  call leaves the status as it was.
\<close>

definition transition_status :: "string \<Rightarrow> string \<Rightarrow> string \<Rightarrow> (string, contract_error, unit) outcome" where
  "transition_status contract_type next_state status =
     (case validate_transition status next_state contract_type of
        Inl e \<Rightarrow> (Inl e, status)
      | Inr _ \<Rightarrow> (Inr (), next_state))"

definition lifecycle_table ::
  "string \<Rightarrow> (string list \<times> (string \<times> string list) list) option" where
  "lifecycle_table contract_type =
     (if contract_type = ''engagement'' then Some (ENGAGEMENT_STATES, ENGAGEMENT_TRANSITIONS)
      else if contract_type \<in> {''action_plan'', ''action-plan''} then
        Some (ACTION_PLAN_STATES, ACTION_PLAN_TRANSITIONS)
      else if contract_type \<in> {''execution_authorization'', ''execution-authorization''} then
        Some (EXECUTION_AUTHORIZATION_STATES, EXECUTION_AUTHORIZATION_TRANSITIONS)
      else if contract_type \<in> {''specialist_handoff'', ''specialist-handoff''} then
        Some (SPECIALIST_HANDOFF_STATES, SPECIALIST_HANDOFF_TRANSITIONS)
      else if contract_type \<in> {''laboratory_environment'', ''laboratory-environment''} then
        Some (LABORATORY_ENVIRONMENT_STATES, LABORATORY_ENVIRONMENT_TRANSITIONS)
      else None)"

inductive lifecycle_step :: "string \<Rightarrow> string \<Rightarrow> string \<Rightarrow> bool" for contract_type where
  move: "lifecycle_table contract_type = Some (states, transitions) \<Longrightarrow> s \<in> set states \<Longrightarrow>
    t \<in> set states \<Longrightarrow> t \<in> set (dict_get_list transitions s) \<Longrightarrow> lifecycle_step contract_type s t"

inductive_simps lifecycle_step_iff: "lifecycle_step contract_type s t"

lemmas lifecycle_tables =
  ENGAGEMENT_STATES_def ENGAGEMENT_TRANSITIONS_def ACTION_PLAN_STATES_def ACTION_PLAN_TRANSITIONS_def
  EXECUTION_AUTHORIZATION_STATES_def EXECUTION_AUTHORIZATION_TRANSITIONS_def
  SPECIALIST_HANDOFF_STATES_def SPECIALIST_HANDOFF_TRANSITIONS_def
  LABORATORY_ENVIRONMENT_STATES_def LABORATORY_ENVIRONMENT_TRANSITIONS_def dict_get_list_def

section \<open>What a table promises\<close>

locale lifecycle =
  fixes ctype :: string
    and states :: "string list"
    and transitions :: "(string \<times> string list) list"
  assumes table: "lifecycle_table ctype = Some (states, transitions)"
    and moves_closed: "s \<in> set states \<Longrightarrow> set (dict_get_list transitions s) \<subseteq> set states"
    and dead_ends: "s \<notin> set states \<Longrightarrow> dict_get_list transitions s = []"
begin

lemma step_iff: "lifecycle_step ctype s t \<longleftrightarrow> t \<in> set (dict_get_list transitions s)"
  using moves_closed [of s] dead_ends [of s]
  by (cases "s \<in> set states") (auto simp: lifecycle_step_iff table)

lemma run_in_states: "(lifecycle_step ctype)\<^sup>*\<^sup>* s t \<Longrightarrow> s \<in> set states \<Longrightarrow> t \<in> set states"
  by (induction rule: rtranclp_induct) (auto simp: lifecycle_step_iff table)

lemma terminal_absorbing:
  "dict_get_list transitions s = [] \<Longrightarrow> (lifecycle_step ctype)\<^sup>*\<^sup>* s t \<Longrightarrow> t = s"
  by (erule converse_rtranclpE) (auto simp: step_iff)

end

locale ranked_lifecycle = lifecycle +
  fixes rank :: "string \<Rightarrow> nat"
  assumes rank_lowers: "t \<in> set (dict_get_list transitions s) \<Longrightarrow> rank t < rank s"
begin

lemma run_length: "(lifecycle_step ctype ^^ n) s t \<Longrightarrow> n + rank t \<le> rank s"
proof (induction n arbitrary: t)
  case (Suc n)
  then obtain u where u: "(lifecycle_step ctype ^^ n) s u" "lifecycle_step ctype u t" by auto
  from u(2) have "rank t < rank u" by (simp add: step_iff rank_lowers)
  with Suc.IH [OF u(1)] show ?case by simp
qed simp

lemma no_return: "(lifecycle_step ctype)\<^sup>+\<^sup>+ s t \<Longrightarrow> rank t < rank s"
  by (induction rule: tranclp_induct) (auto simp: step_iff dest: rank_lowers)

end

definition plan_rank :: "string \<Rightarrow> nat" where
  "plan_rank s = (if s = ''draft'' then 4 else if s = ''pending_approval'' then 3
     else if s = ''approved'' then 2 else if s = ''executing'' then 1 else 0)"

definition engagement_rank :: "string \<Rightarrow> nat" where
  "engagement_rank s = (if s = ''planned'' then 2 else if s = ''active'' then 1 else 0)"

definition authorization_rank :: "string \<Rightarrow> nat" where
  "authorization_rank s = (if s = ''approved'' then 1 else 0)"

definition handoff_rank :: "string \<Rightarrow> nat" where
  "handoff_rank s = (if s = ''proposed'' then 3 else if s = ''accepted'' then 2
     else if s = ''in_review'' then 1 else 0)"

interpretation engagement_cycle: ranked_lifecycle "''engagement''" ENGAGEMENT_STATES
  ENGAGEMENT_TRANSITIONS engagement_rank
  by unfold_locales
    (auto simp: lifecycle_table_def lifecycle_tables engagement_rank_def split: option.splits if_splits)

interpretation plan_cycle: ranked_lifecycle "''action_plan''" ACTION_PLAN_STATES
  ACTION_PLAN_TRANSITIONS plan_rank
  by unfold_locales
    (auto simp: lifecycle_table_def lifecycle_tables plan_rank_def split: option.splits if_splits)

interpretation authorization_cycle: ranked_lifecycle "''execution_authorization''"
  EXECUTION_AUTHORIZATION_STATES EXECUTION_AUTHORIZATION_TRANSITIONS authorization_rank
  by unfold_locales
    (auto simp: lifecycle_table_def lifecycle_tables authorization_rank_def split: option.splits if_splits)

interpretation handoff_cycle: ranked_lifecycle "''specialist_handoff''" SPECIALIST_HANDOFF_STATES
  SPECIALIST_HANDOFF_TRANSITIONS handoff_rank
  by unfold_locales
    (auto simp: lifecycle_table_def lifecycle_tables handoff_rank_def split: option.splits if_splits)

interpretation laboratory_cycle: lifecycle "''laboratory_environment''" LABORATORY_ENVIRONMENT_STATES
  LABORATORY_ENVIRONMENT_TRANSITIONS
  by unfold_locales
    (auto simp: lifecycle_table_def lifecycle_tables split: option.splits if_splits)

section \<open>The check implements the tables\<close>

lemma validate_in_table_ok:
  "validate_in_table l states transitions s t = Inr () \<longleftrightarrow>
     s \<in> set states \<and> t \<in> set states \<and> t \<in> set (dict_get_list transitions s)"
  by (simp add: validate_in_table_def)

definition lifecycle_label :: "string \<Rightarrow> string" where
  "lifecycle_label ctype =
     (if ctype = ''engagement'' then ''engagement''
      else if ctype \<in> {''action_plan'', ''action-plan''} then ''action plan''
      else if ctype \<in> {''execution_authorization'', ''execution-authorization''} then
        ''execution authorization''
      else if ctype \<in> {''specialist_handoff'', ''specialist-handoff''} then ''specialist handoff''
      else ''laboratory environment'')"

lemma validate_transition_dispatch:
  "validate_transition s t ctype = (case lifecycle_table ctype of
       None \<Rightarrow> Inl (ContractError ''invalid_contract''
         (''contract type '' @ quoted ctype @ '' does not define lifecycle transitions''))
     | Some (states, transitions) \<Rightarrow> validate_in_table (lifecycle_label ctype) states transitions s t)"
proof -
  note defs = validate_transition_def lifecycle_table_def lifecycle_label_def
  have chain: "P" if "b1 \<Longrightarrow> P" "\<not> b1 \<Longrightarrow> b2 \<Longrightarrow> P" "\<not> b1 \<Longrightarrow> \<not> b2 \<Longrightarrow> b3 \<Longrightarrow> P"
    "\<not> b1 \<Longrightarrow> \<not> b2 \<Longrightarrow> \<not> b3 \<Longrightarrow> b4 \<Longrightarrow> P" "\<not> b1 \<Longrightarrow> \<not> b2 \<Longrightarrow> \<not> b3 \<Longrightarrow> \<not> b4 \<Longrightarrow> b5 \<Longrightarrow> P"
    "\<not> b1 \<Longrightarrow> \<not> b2 \<Longrightarrow> \<not> b3 \<Longrightarrow> \<not> b4 \<Longrightarrow> \<not> b5 \<Longrightarrow> P" for P b1 b2 b3 b4 b5
    using that by blast
  show ?thesis
    by (rule chain [of "ctype = ''engagement''" _ "ctype \<in> {''action_plan'', ''action-plan''}"
          "ctype \<in> {''execution_authorization'', ''execution-authorization''}"
          "ctype \<in> {''specialist_handoff'', ''specialist-handoff''}"
          "ctype \<in> {''laboratory_environment'', ''laboratory-environment''}"];
        simp only: defs if_True if_False option.case prod.case simp_thms)
qed

lemma validate_transition_ok:
  "validate_transition s t ctype = Inr () \<longleftrightarrow> lifecycle_step ctype s t"
  by (auto simp: validate_transition_dispatch lifecycle_step_iff validate_in_table_ok
      split: option.splits prod.splits)

lemma transition_status_cases:
  "transition_status ctype t s =
     (if lifecycle_step ctype s t then (Inr (), t)
      else (validate_transition s t ctype, s))"
  by (auto simp: transition_status_def simp flip: validate_transition_ok split: sum.splits)

lemma snd_transition_status:
  "snd (transition_status ctype t s) = (if lifecycle_step ctype s t then t else s)"
  by (simp add: transition_status_cases)

lemma transition_status_ok: "is_ok (fst (transition_status ctype t s)) \<longleftrightarrow> lifecycle_step ctype s t"
  using validate_transition_ok [of s t ctype]
  by (cases "validate_transition s t ctype") (auto simp: transition_status_def)

lemma run_status_steps: "(lifecycle_step ctype)\<^sup>*\<^sup>* s (run_ops (transition_status ctype) moves s)"
proof (induction moves arbitrary: s)
  case (Cons t moves)
  show ?case
  proof (cases "lifecycle_step ctype s t")
    case True
    with Cons [of t] show ?thesis
      by (simp add: transition_status_cases converse_rtranclp_into_rtranclp)
  next
    case False
    with Cons [of s] show ?thesis by (simp add: transition_status_cases)
  qed
qed simp

lemma accepted_moves_step:
  "(lifecycle_step ctype ^^ length (filter is_ok (outcomes (transition_status ctype) moves s))) s
     (run_ops (transition_status ctype) moves s)"
proof (induction moves arbitrary: s)
  case (Cons t moves)
  show ?case
  proof (cases "lifecycle_step ctype s t")
    case True
    with relpowp_Suc_I2 [OF True Cons [of t]] show ?thesis
      by (simp add: transition_status_cases)
  next
    case False
    then have "\<not> is_ok (validate_transition s t ctype)"
      using transition_status_ok [of ctype t s] by (simp add: transition_status_cases)
    with False Cons [of s] show ?thesis by (simp add: transition_status_cases)
  qed
qed simp

text \<open>
  \<open>validate_transition\<close> accepts exactly the moves of the published tables; every other call
  raises, with code \<^verbatim>\<open>illegal_transition\<close> when both states are known for the contract type and
  \<^verbatim>\<open>invalid_contract\<close> when a state or the contract type itself is unknown.
\<close>

theorem validate_transition_exact:
  "(case validate_transition s t ctype of
      Inr _ \<Rightarrow> lifecycle_step ctype s t
    | Inl e \<Rightarrow> \<not> lifecycle_step ctype s t \<and>
        err_code e = (case lifecycle_table ctype of
            None \<Rightarrow> ''invalid_contract''
          | Some (states, _) \<Rightarrow>
              if s \<in> set states \<and> t \<in> set states then ''illegal_transition'' else ''invalid_contract''))"
  by (auto simp: validate_transition_dispatch lifecycle_step_iff validate_in_table_def
      split: option.splits prod.splits)

lemma plan_step_executing: "lifecycle_step ''action_plan'' s ''executing'' \<longleftrightarrow> s = ''approved''"
  by (auto simp: plan_cycle.step_iff lifecycle_tables split: option.splits if_splits)

lemma plan_step_fulfilled: "lifecycle_step ''action_plan'' s ''fulfilled'' \<longleftrightarrow> s = ''executing''"
  by (auto simp: plan_cycle.step_iff lifecycle_tables split: option.splits if_splits)

lemma plan_approved_before:
  "run_ops (transition_status ''action_plan'') moves ''draft'' \<in> {''executing'', ''fulfilled''} \<Longrightarrow>
   \<exists>pre post. moves = pre @ post \<and> run_ops (transition_status ''action_plan'') pre ''draft'' = ''approved''"
proof (induction moves rule: rev_induct)
  case (snoc t moves)
  let ?s = "run_ops (transition_status ''action_plan'') moves ''draft''"
  from snoc.prems have "?s = ''approved'' \<or> ?s \<in> {''executing'', ''fulfilled''}"
    by (auto simp: run_ops_append snd_transition_status plan_step_executing plan_step_fulfilled
        split: if_splits)
  then show ?case
  proof
    assume "?s = ''approved''"
    then show ?thesis by blast
  next
    assume "?s \<in> {''executing'', ''fulfilled''}"
    from snoc.IH [OF this] show ?thesis by (metis append.assoc)
  qed
qed simp

text \<open>
  No sequence of \<open>transition_to\<close> calls takes a fresh action plan to execution without passing
  through approval: if the plan ends up executing or fulfilled, some prefix of the calls left it
  \<^verbatim>\<open>approved\<close>; and at most four of the calls can have succeeded.
\<close>

theorem plan_execution_needs_approval:
  "(run_ops (transition_status ''action_plan'') moves ''draft'' \<in> {''executing'', ''fulfilled''} \<longrightarrow>
      (\<exists>pre post. moves = pre @ post \<and>
         run_ops (transition_status ''action_plan'') pre ''draft'' = ''approved'')) \<and>
   length (filter is_ok (outcomes (transition_status ''action_plan'') moves ''draft'')) \<le> 4"
  using plan_approved_before [of moves]
    plan_cycle.run_length [OF accepted_moves_step [of "''action_plan''" moves "''draft''"]]
  by (auto simp: plan_rank_def)

theorem plan_execution_needs_approval_witness:
  "run_ops (transition_status ''action_plan'')
     [''pending_approval'', ''executing'', ''approved'', ''executing''] ''draft'' = ''executing'' \<and>
   (\<exists>pre post. [''pending_approval'', ''executing'', ''approved'', ''executing''] = pre @ post \<and>
      run_ops (transition_status ''action_plan'') pre ''draft'' = ''approved'')"
proof -
  let ?moves = "[''pending_approval'', ''executing'', ''approved'', ''executing'']"
  have run: "run_ops (transition_status ''action_plan'') ?moves ''draft'' = ''executing''"
    by (simp add: transition_status_def validate_transition_def validate_in_table_def lifecycle_tables)
  with plan_execution_needs_approval [of ?moves] show ?thesis by simp
qed

text \<open>
  A spent authorization stays spent: whatever sequence of \<open>transition_to\<close> calls follows, an
  authorization that is consumed, revoked or expired keeps that status, so it can never be approved
  (and consumed) again.
\<close>

theorem authorization_never_revived:
  assumes "status \<in> {''consumed'', ''revoked'', ''expired''}"
  shows "run_ops (transition_status ''execution_authorization'') moves status = status"
proof -
  have "dict_get_list EXECUTION_AUTHORIZATION_TRANSITIONS status = []"
    using assms by (auto simp: lifecycle_tables)
  from authorization_cycle.terminal_absorbing [OF this run_status_steps] show ?thesis .
qed

theorem authorization_never_revived_witness:
  "''consumed'' \<in> {''consumed'', ''revoked'', ''expired''} \<and>
   run_ops (transition_status ''execution_authorization'') [''approved'', ''consumed''] ''consumed'' = ''consumed''"
  using authorization_never_revived [of "''consumed''" "[''approved'', ''consumed'']"] by simp

end
