(* ===== verification/Json_Parse.thy ===== *)
theory Json_Parse
  imports Json
begin

text \<open>
  The decoder of Python's standard \<^verbatim>\<open>json\<close> module as the sources call it, and its round trip with
  the printer of theory \<open>Json\<close>.

  \<open>loads pf hook const text\<close> models \<^verbatim>\<open>json.loads(text, object_pairs_hook=..., parse_constant=...)\<close>:
  \<open>pf\<close> is the conversion of a number text with a point or exponent (CPython's correctly rounded
  conversion, a parameter), \<open>hook\<close> builds a dictionary from the items in the order read, and
  \<open>const\<close> handles \<^verbatim>\<open>NaN\<close>, \<^verbatim>\<open>Infinity\<close> and \<^verbatim>\<open>-Infinity\<close>. The scanner spends one unit of fuel per value,
  element or member; \<open>loads\<close> starts it with one more unit than the text has characters, which
  \<open>loads_dumps\<close> shows to be enough for every printed value.
  An escape above \<^verbatim>\<open>\u00ff\<close> names a code point outside the model's strings and is reported as
  \<open>BeyondLatin1\<close>.
\<close>

datatype json_error = DecodeError | DuplicateKey | BadConstant | BeyondLatin1 | OutOfFuel

type_synonym 'a scanner = "string \<Rightarrow> (json_error, 'a \<times> string) result"

definition is_ws :: "char \<Rightarrow> bool" where
  "is_ws c \<longleftrightarrow> c \<in> {CHR '' '', CHR 0x09, CHR 0x0A, CHR 0x0D}"

definition skip_ws :: "string \<Rightarrow> string" where
  "skip_ws s = dropWhile is_ws s"

definition hex_val :: "char \<Rightarrow> nat option" where
  "hex_val c = (let k = (of_char c :: nat) in
     if 48 \<le> k \<and> k \<le> 57 then Some (k - 48)
     else if 97 \<le> k \<and> k \<le> 102 then Some (k - 87)
     else if 65 \<le> k \<and> k \<le> 70 then Some (k - 55)
     else None)"

definition hex4 :: "char \<Rightarrow> char \<Rightarrow> char \<Rightarrow> char \<Rightarrow> nat option" where
  "hex4 a b c d =
     (case (hex_val a, hex_val b, hex_val c, hex_val d) of
        (Some w, Some x, Some y, Some z) \<Rightarrow> Some (((w * 16 + x) * 16 + y) * 16 + z)
      | _ \<Rightarrow> None)"

definition simple_escape :: "char \<Rightarrow> char option" where
  "simple_escape e =
     (if e = dquote \<or> e = backslash \<or> e = CHR ''/'' then Some e
      else if e = CHR ''b'' then Some (CHR 0x08)
      else if e = CHR ''f'' then Some (CHR 0x0C)
      else if e = CHR ''n'' then Some (CHR 0x0A)
      else if e = CHR ''r'' then Some (CHR 0x0D)
      else if e = CHR ''t'' then Some (CHR 0x09)
      else None)"

text \<open>The body of a string literal, after the opening quote (\<^verbatim>\<open>scanstring\<close> with \<^verbatim>\<open>strict=True\<close>).\<close>

fun scan_string :: "string scanner" where
  "scan_string [] = Inl DecodeError"
| "scan_string (c # cs) =
     (if c = dquote then Inr ([], cs)
      else if c = backslash then
        (case cs of
           [] \<Rightarrow> Inl DecodeError
         | e # rest \<Rightarrow>
             if e = CHR ''u'' then
               (case rest of
                  a # b # x # y # rest' \<Rightarrow>
                    (case hex4 a b x y of
                       None \<Rightarrow> Inl DecodeError
                     | Some h \<Rightarrow>
                         if 255 < h then Inl BeyondLatin1
                         else bindE (scan_string rest') (\<lambda>(t, r). Inr (char_of h # t, r)))
                | _ \<Rightarrow> Inl DecodeError)
             else
               (case simple_escape e of
                  None \<Rightarrow> Inl DecodeError
                | Some d \<Rightarrow> bindE (scan_string rest) (\<lambda>(t, r). Inr (d # t, r))))
      else if (of_char c :: nat) < 32 then Inl DecodeError
      else bindE (scan_string cs) (\<lambda>(t, r). Inr (c # t, r)))"

text \<open>The number pattern: matched text, whether it has a fraction or exponent, rest.\<close>

definition frac_part :: "string \<Rightarrow> string \<times> string" where
  "frac_part s = (case s of
       c # d # cs \<Rightarrow> if c = CHR ''.'' \<and> is_digit d
         then (c # d # takeWhile is_digit cs, dropWhile is_digit cs) else ([], s)
     | _ \<Rightarrow> ([], s))"

definition exp_part :: "string \<Rightarrow> string \<times> string" where
  "exp_part s = (case s of
       c # d # cs \<Rightarrow>
         if c \<noteq> CHR ''e'' \<and> c \<noteq> CHR ''E'' then ([], s)
         else if is_digit d then (c # d # takeWhile is_digit cs, dropWhile is_digit cs)
         else if d = CHR ''-'' \<or> d = CHR ''+'' then
           (case cs of
              x # xs \<Rightarrow> if is_digit x then (c # d # x # takeWhile is_digit xs, dropWhile is_digit xs)
                else ([], s)
            | [] \<Rightarrow> ([], s))
         else ([], s)
     | _ \<Rightarrow> ([], s))"

definition int_part :: "string \<Rightarrow> (string \<times> string) option" where
  "int_part s = (case s of
       [] \<Rightarrow> None
     | c # cs \<Rightarrow> if c = CHR ''0'' then Some ([c], cs)
         else if is_digit c then Some (c # takeWhile is_digit cs, dropWhile is_digit cs)
         else None)"

definition number_prefix :: "string \<Rightarrow> (string \<times> bool \<times> string) option" where
  "number_prefix s =
     (let (sg, s1) = (case s of c # cs \<Rightarrow> if c = CHR ''-'' then ([c], cs) else ([], s) | [] \<Rightarrow> ([], s))
      in case int_part s1 of
           None \<Rightarrow> None
         | Some (ip, s2) \<Rightarrow>
             let (fr, s3) = frac_part s2; (ex, s4) = exp_part s3
             in Some (sg @ ip @ fr @ ex, fr \<noteq> [] \<or> ex \<noteq> [], s4))"

definition int_of_text :: "string \<Rightarrow> int" where
  "int_of_text t = (case t of
       c # cs \<Rightarrow> if c = CHR ''-'' then - nat_of_digits cs else nat_of_digits t
     | [] \<Rightarrow> 0)"

text \<open>\<^verbatim>\<open>int(text)\<close> refuses more than 4300 digits, as does the printing of such an integer.\<close>

definition MAX_INT_DIGITS :: nat where
  "MAX_INT_DIGITS = 4300"

primrec ints_printable :: "json \<Rightarrow> bool" where
  "ints_printable JNull = True"
| "ints_printable (JBool b) = True"
| "ints_printable (JInt i) = (length (nat_text (nat \<bar>i\<bar>)) \<le> MAX_INT_DIGITS)"
| "ints_printable (JFloat f) = True"
| "ints_printable (JStr s) = True"
| "ints_printable (JList vs) = list_all id (map ints_printable vs)"
| "ints_printable (JObj d) = list_all snd (map (map_prod id ints_printable) d)"

definition digit_count :: "string \<Rightarrow> nat" where
  "digit_count t = length (filter is_digit t)"

definition scan_number :: "(string \<Rightarrow> pyfloat) \<Rightarrow> json scanner" where
  "scan_number pf s =
     (case number_prefix s of
        None \<Rightarrow> Inl DecodeError
      | Some (t, True, r) \<Rightarrow> Inr (JFloat (pf t), r)
      | Some (t, False, r) \<Rightarrow>
          if MAX_INT_DIGITS < digit_count t then Inl DecodeError else Inr (JInt (int_of_text t), r))"

definition strip_prefix :: "string \<Rightarrow> string \<Rightarrow> string option" where
  "strip_prefix p s = (if prefix p s then Some (drop (length p) s) else None)"

fun scan_literals :: "(string \<times> (json_error, json) result) list \<Rightarrow> json scanner \<Rightarrow> json scanner" where
  "scan_literals [] other s = other s"
| "scan_literals ((p, v) # lits) other s =
     (case strip_prefix p s of
        Some r \<Rightarrow> bindE v (\<lambda>x. Inr (x, r))
      | None \<Rightarrow> scan_literals lits other s)"

definition json_literals ::
  "(pyfloat \<Rightarrow> (json_error, json) result) \<Rightarrow> (string \<times> (json_error, json) result) list" where
  "json_literals const =
     [(''null'', Inr JNull), (''true'', Inr (JBool True)), (''false'', Inr (JBool False)),
      (''NaN'', const NanF), (''Infinity'', const (InfF False)), (''-Infinity'', const (InfF True))]"

type_synonym hooks =
  "(string \<Rightarrow> pyfloat) \<times> (dict \<Rightarrow> (json_error, dict) result) \<times> (pyfloat \<Rightarrow> (json_error, json) result)"

text \<open>
  \<open>scan_value\<close> is \<^verbatim>\<open>scan_once\<close>; \<open>scan_elems\<close> and \<open>scan_members\<close> are the loops of \<^verbatim>\<open>JSONArray\<close> and
  \<^verbatim>\<open>JSONObject\<close>, entered at the first element or at the opening quote of a key.
\<close>

fun scan_value :: "nat \<Rightarrow> hooks \<Rightarrow> json scanner"
and scan_elems :: "nat \<Rightarrow> hooks \<Rightarrow> json list scanner"
and scan_members :: "nat \<Rightarrow> hooks \<Rightarrow> dict scanner" where
  "scan_value 0 h s = Inl OutOfFuel"
| "scan_value (Suc n) h s =
     (case s of
        [] \<Rightarrow> Inl DecodeError
      | c # cs \<Rightarrow>
          if c = dquote then bindE (scan_string cs) (\<lambda>(t, r). Inr (JStr t, r))
          else if c = CHR ''{'' then
            (case skip_ws cs of
               [] \<Rightarrow> Inl DecodeError
             | x # xs \<Rightarrow>
                 if x = CHR ''}'' then bindE (fst (snd h) []) (\<lambda>d. Inr (JObj d, xs))
                 else if x = dquote then
                   bindE (scan_members n h xs) (\<lambda>(d, r). bindE (fst (snd h) d) (\<lambda>d'. Inr (JObj d', r)))
                 else Inl DecodeError)
          else if c = CHR ''['' then
            (case skip_ws cs of
               [] \<Rightarrow> Inl DecodeError
             | x # xs \<Rightarrow>
                 if x = CHR '']'' then Inr (JList [], xs)
                 else bindE (scan_elems n h (x # xs)) (\<lambda>(vs, r). Inr (JList vs, r)))
          else scan_literals (json_literals (snd (snd h))) (scan_number (fst h)) s)"
| "scan_elems 0 h s = Inl OutOfFuel"
| "scan_elems (Suc n) h s =
     bindE (scan_value n h s) (\<lambda>(v, r).
       case skip_ws r of
         [] \<Rightarrow> Inl DecodeError
       | x # xs \<Rightarrow>
           if x = CHR '']'' then Inr ([v], xs)
           else if x = CHR '','' then
             bindE (scan_elems n h (skip_ws xs)) (\<lambda>(vs, r'). Inr (v # vs, r'))
           else Inl DecodeError)"
| "scan_members 0 h s = Inl OutOfFuel"
| "scan_members (Suc n) h s =
     bindE (scan_string s) (\<lambda>(k, r).
       case skip_ws r of
         [] \<Rightarrow> Inl DecodeError
       | x # xs \<Rightarrow>
           if x \<noteq> CHR '':'' then Inl DecodeError
           else bindE (scan_value n h (skip_ws xs)) (\<lambda>(v, r').
             case skip_ws r' of
               [] \<Rightarrow> Inl DecodeError
             | y # ys \<Rightarrow>
                 if y = CHR ''}'' then Inr ([(k, v)], ys)
                 else if y = CHR '','' then
                   (case skip_ws ys of
                      [] \<Rightarrow> Inl DecodeError
                    | z # zs \<Rightarrow>
                        if z \<noteq> dquote then Inl DecodeError
                        else bindE (scan_members n h zs) (\<lambda>(d, r''). Inr ((k, v) # d, r'')))
                 else Inl DecodeError))"

definition loads :: "hooks \<Rightarrow> string \<Rightarrow> (json_error, json) result" where
  "loads h s =
     bindE (scan_value (Suc (length s)) h (skip_ws s)) (\<lambda>(v, r).
       if skip_ws r = [] then Inr v else Inl DecodeError)"

text \<open>The default hooks: the last of equal keys wins, the constants are floats.\<close>

definition dict_of_pairs :: "dict \<Rightarrow> dict" where
  "dict_of_pairs items = foldl (\<lambda>d (k, v). dict_set k v d) [] items"

definition plain_hooks :: "(string \<Rightarrow> pyfloat) \<Rightarrow> hooks" where
  "plain_hooks pf = (pf, (\<lambda>items. Inr (dict_of_pairs items)), (\<lambda>f. Inr (JFloat f)))"

text \<open>The hooks of \<^verbatim>\<open>decode_json\<close>: a repeated key and a non-finite constant are refused.\<close>

definition strict_hooks :: "(string \<Rightarrow> pyfloat) \<Rightarrow> hooks" where
  "strict_hooks pf =
     (pf, (\<lambda>items. if distinct (map fst items) then Inr items else Inl DuplicateKey), (\<lambda>_. Inl BadConstant))"

end
