(* ===== verification/Json_Roundtrip.thy ===== *)
theory Json_Roundtrip
  imports Json_Parse
begin

text \<open>
  Printing and decoding are inverse: \<open>loads_dumps\<close> reads back every well-formed value up to the
  order of keys, so printing is injective up to that order (\<open>dumps_eq_iff\<close>). Both
  settings of \<^verbatim>\<open>ensure_ascii\<close> are covered.
\<close>

section \<open>Well-formed values and their normal form\<close>

primrec json_ok :: "json \<Rightarrow> bool" where
  "json_ok JNull = True"
| "json_ok (JBool b) = True"
| "json_ok (JInt i) = (length (nat_text (nat \<bar>i\<bar>)) \<le> MAX_INT_DIGITS)"
| "json_ok (JFloat f) = (case f of FinF t v \<Rightarrow> number_prefix t = Some (t, True, []) | _ \<Rightarrow> False)"
| "json_ok (JStr s) = True"
| "json_ok (JList vs) = list_all id (map json_ok vs)"
| "json_ok (JObj d) = (distinct (map fst d) \<and> list_all snd (map (map_prod id json_ok) d))"

primrec norm_json :: "(string \<Rightarrow> pyfloat) \<Rightarrow> json \<Rightarrow> json" where
  "norm_json pf JNull = JNull"
| "norm_json pf (JBool b) = JBool b"
| "norm_json pf (JInt i) = JInt i"
| "norm_json pf (JFloat f) = JFloat (case f of FinF t v \<Rightarrow> pf t | _ \<Rightarrow> f)"
| "norm_json pf (JStr s) = JStr s"
| "norm_json pf (JList vs) = JList (map (norm_json pf) vs)"
| "norm_json pf (JObj d) = JObj (sort_key fst (map (map_prod id (norm_json pf)) d))"

lemma insort_key_map_prod:
  "insort_key fst (map_prod id f x) (map (map_prod id f) ys) = map (map_prod id f) (insort_key fst x ys)"
  by (induction ys) auto

lemma sort_key_map_prod:
  "sort_key fst (map (map_prod id f) d) = map (map_prod id f) (sort_key fst d)"
  by (induction d) (simp_all add: insort_key_map_prod [unfolded id_def])

section \<open>Strings\<close>

lemma hex_val_hex_char: "n < 16 \<Longrightarrow> hex_val (hex_char n) = Some n"
  by (auto simp: hex_val_def hex_char_def Let_def)

lemma of_char_less: "(of_char c :: nat) < 256"
  by (metis of_char_mod_256 mod_less_divisor zero_less_numeral)

lemma hex4_escape:
  "hex4 (CHR ''0'') (CHR ''0'') (hex_char (of_char c div 16)) (hex_char (of_char c mod 16)) = Some (of_char c)"
proof -
  have "hex_val (CHR ''0'') = Some 0" by (simp add: hex_val_def)
  moreover have "of_char c div 16 < (16 :: nat)" using of_char_less [of c] by (simp add: less_mult_imp_div_less)
  ultimately show ?thesis by (simp add: hex4_def hex_val_hex_char)
qed

lemma of_char_escaped:
  "(of_char c :: nat) \<in> {34, 92, 10, 13, 9, 12, 8} \<longleftrightarrow>
   c \<in> {dquote, backslash, CHR 0x0A, CHR 0x0D, CHR 0x09, CHR 0x0C, CHR 0x08}"
proof -
  have "of_char ` {dquote, backslash, CHR 0x0A, CHR 0x0D, CHR 0x09, CHR 0x0C, CHR 0x08} =
      {34, 92, 10, 13, 9, 12, 8 :: nat}"
    by simp
  then have "(of_char c :: nat) \<in> {34, 92, 10, 13, 9, 12, 8} \<longleftrightarrow>
      (of_char c :: nat) \<in> of_char ` {dquote, backslash, CHR 0x0A, CHR 0x0D, CHR 0x09, CHR 0x0C, CHR 0x08}"
    by (simp only:)
  then show ?thesis by (simp only: inj_image_mem_iff [OF inj_of_char])
qed

lemma scan_escape:
  "scan_string (escape_char ea c @ w) = bindE (scan_string w) (\<lambda>(t, r). Inr (c # t, r))"
proof -
  let ?k = "of_char c :: nat"
  consider "?k \<in> {34, 92, 10, 13, 9, 12, 8}" | "?k \<notin> {34, 92, 10, 13, 9, 12, 8}" by blast
  then show ?thesis
  proof cases
    case 1
    then show ?thesis
      unfolding of_char_escaped by (auto simp: escape_char_def simple_escape_def)
  next
    case 2
    then have "c \<noteq> dquote" "c \<noteq> backslash" unfolding of_char_escaped by auto
    moreover have "\<not> 255 < ?k" using of_char_less [of c] by linarith
    ultimately show ?thesis
      using 2 by (auto simp: escape_char_def Let_def hex4_escape)
  qed
qed

lemma scan_string_text:
  "scan_string (concat (map (escape_char ea) s) @ dquote # r) = Inr (s, r)"
  by (induction s) (simp_all add: scan_escape)

section \<open>Numbers\<close>

text \<open>What may follow a printed value: the end of the text, a separator or a closing bracket.\<close>

definition stops :: "string \<Rightarrow> bool" where
  "stops r \<longleftrightarrow> (case r of [] \<Rightarrow> True | c # _ \<Rightarrow> c \<in> {CHR '','', CHR '']'', CHR ''}''})"

lemma stops_simps [simp]: "stops []" "stops (CHR '','' # r)" "stops (CHR '']'' # r)" "stops (CHR ''}'' # r)"
  by (simp_all add: stops_def)

lemma stops_cases:
  assumes "stops r"
  obtains "r = []" | c cs where "r = c # cs" "c \<in> {CHR '','', CHR '']'', CHR ''}''}"
  using assms by (auto simp: stops_def split: list.splits)

lemma digit_span_append:
  assumes "stops r"
  shows "takeWhile is_digit (xs @ r) = takeWhile is_digit xs"
    and "dropWhile is_digit (xs @ r) = dropWhile is_digit xs @ r"
proof -
  have r: "takeWhile is_digit r = []" "dropWhile is_digit r = r"
    using assms by (auto elim!: stops_cases simp: is_digit_def)
  show "takeWhile is_digit (xs @ r) = takeWhile is_digit xs"
    by (induction xs) (simp_all add: r)
  show "dropWhile is_digit (xs @ r) = dropWhile is_digit xs @ r"
    by (induction xs) (simp_all add: r)
qed

lemma frac_part_append:
  assumes "stops r"
  shows "frac_part (s @ r) = (fst (frac_part s), snd (frac_part s) @ r)"
  using assms
  by (cases s rule: list.exhaust; cases "tl s")
     (auto elim!: stops_cases simp: frac_part_def digit_span_append is_digit_def split: list.splits)

lemma exp_part_append:
  assumes "stops r"
  shows "exp_part (s @ r) = (fst (exp_part s), snd (exp_part s) @ r)"
proof (cases s)
  case Nil
  then show ?thesis using assms by (auto elim!: stops_cases simp: exp_part_def split: list.splits)
next
  case (Cons c cs)
  show ?thesis
  proof (cases cs)
    case Nil
    with Cons show ?thesis
      using assms by (auto elim!: stops_cases simp: exp_part_def is_digit_def split: list.splits)
  next
    case (Cons d ds)
    with \<open>s = c # cs\<close> show ?thesis
      using assms
      by (cases ds) (auto elim!: stops_cases simp: exp_part_def digit_span_append is_digit_def)
  qed
qed

lemma int_part_append:
  assumes "stops r" "s \<noteq> []"
  shows "int_part (s @ r) = map_option (\<lambda>(t, u). (t, u @ r)) (int_part s)"
  using assms by (cases s) (auto simp: int_part_def digit_span_append)

lemma number_prefix_append:
  assumes "stops r" "number_prefix s = Some (t, f, u)"
  shows "number_prefix (s @ r) = Some (t, f, u @ r)"
proof -
  have ne: "s \<noteq> []" using assms(2) by (auto simp: number_prefix_def int_part_def)
  obtain sg s1 where sg: "(case s of c # cs \<Rightarrow> if c = CHR ''-'' then ([c], cs) else ([], s) | [] \<Rightarrow> ([], s)) = (sg, s1)"
    by fastforce
  have sg': "(case s @ r of c # cs \<Rightarrow> if c = CHR ''-'' then ([c], cs) else ([], s @ r) | [] \<Rightarrow> ([], s @ r)) = (sg, s1 @ r)"
    using sg ne by (cases s) (auto split: if_splits)
  obtain ip s2 where ip: "int_part s1 = Some (ip, s2)"
    using assms(2) sg by (auto simp: number_prefix_def split: option.splits)
  then have "s1 \<noteq> []" by (auto simp: int_part_def)
  with ip have ip': "int_part (s1 @ r) = Some (ip, s2 @ r)"
    by (simp add: int_part_append [OF assms(1)])
  show ?thesis
    using assms(2) sg sg' ip ip'
    by (auto simp: number_prefix_def frac_part_append [OF assms(1)] exp_part_append [OF assms(1)]
        split: prod.splits)
qed

lemma is_digit_digit_char [simp]: "n < 10 \<Longrightarrow> is_digit (digit_char n)"
  by (simp add: is_digit_def digit_char_def)

lemma digit_val_digit_char [simp]: "n < 10 \<Longrightarrow> digit_val (digit_char n) = int n"
  by (simp add: digit_val_def digit_char_def)

lemma nat_text_digits: "list_all is_digit (nat_text n)"
proof (induction n rule: nat_text.induct)
  case (1 n)
  then show ?case by (subst nat_text.simps) auto
qed

lemma nat_of_digits_snoc: "nat_of_digits (s @ [c]) = 10 * nat_of_digits s + digit_val c"
  by (simp add: nat_of_digits_def)

lemma nat_of_digits_nat_text: "nat_of_digits (nat_text n) = int n"
proof (induction n rule: nat_text.induct)
  case (1 n)
  show ?case
  proof (cases "n < 10")
    case True
    then show ?thesis by (subst nat_text.simps) (simp add: nat_of_digits_def)
  next
    case False
    with 1 have "nat_of_digits (nat_text (n div 10)) = int (n div 10)" by simp
    moreover have "10 * int (n div 10) + int (n mod 10) = int n" by (simp add: zdiv_int zmod_int)
    ultimately show ?thesis
      using False by (subst nat_text.simps) (simp add: nat_of_digits_snoc)
  qed
qed

lemma nat_text_head:
  obtains c cs where "nat_text n = c # cs" "is_digit c" "c = CHR ''0'' \<Longrightarrow> cs = []"
proof -
  have "\<exists>c cs. nat_text n = c # cs \<and> is_digit c \<and> (c = CHR ''0'' \<longrightarrow> cs = [] \<and> n = 0)"
  proof (induction n rule: nat_text.induct)
    case (1 n)
    show ?case
    proof (cases "n < 10")
      case True
      have "digit_char n = CHR ''0'' \<Longrightarrow> n = 0"
        using True digit_val_digit_char [of n] by (auto simp: digit_val_def)
      with True show ?thesis by (subst (1) nat_text.simps) auto
    next
      case False
      then have "n div 10 \<noteq> 0" by simp
      with 1 [OF False] False show ?thesis by (subst nat_text.simps) auto
    qed
  qed
  then show thesis using that by blast
qed

lemma int_part_nat_text: "int_part (nat_text n) = Some (nat_text n, [])"
proof -
  obtain c cs where t: "nat_text n = c # cs" "is_digit c" "c = CHR ''0'' \<Longrightarrow> cs = []"
    using nat_text_head [of n] by blast
  have "list_all is_digit cs" using nat_text_digits [of n] t(1) by simp
  then have "takeWhile is_digit cs = cs" "dropWhile is_digit cs = []"
    by (simp_all add: list_all_iff takeWhile_eq_all_conv)
  with t show ?thesis by (auto simp: int_part_def)
qed

lemma number_prefix_int_text: "number_prefix (int_text i) = Some (int_text i, False, [])"
proof -
  have parts: "frac_part [] = ([], [])" "exp_part [] = ([], [])"
    by (simp_all add: frac_part_def exp_part_def)
  obtain c cs where t: "nat_text (nat i) = c # cs" "is_digit c"
    using nat_text_head [of "nat i"] by blast
  then have "c \<noteq> CHR ''-''" by (auto simp: is_digit_def)
  with t(1) int_part_nat_text [of "nat i"] show ?thesis
    by (auto simp: number_prefix_def int_text_def int_part_nat_text parts)
qed

lemma int_of_text_int_text: "int_of_text (int_text i) = i"
proof -
  obtain c cs where t: "nat_text (nat i) = c # cs" "is_digit c"
    using nat_text_head [of "nat i"] by blast
  then have "c \<noteq> CHR ''-''" by (auto simp: is_digit_def)
  with t show ?thesis
    using nat_of_digits_nat_text [of "nat i"] nat_of_digits_nat_text [of "nat (- i)"]
    by (auto simp: int_of_text_def int_text_def)
qed

lemma digit_count_int_text: "digit_count (int_text i) = length (nat_text (nat \<bar>i\<bar>))"
proof -
  have "filter is_digit (nat_text n) = nat_text n" for n
    using nat_text_digits [of n] by (simp add: list_all_iff)
  then show ?thesis by (auto simp: digit_count_def int_text_def is_digit_def)
qed

lemma scan_number_int:
  "json_ok (JInt i) \<Longrightarrow> stops r \<Longrightarrow> scan_number pf (int_text i @ r) = Inr (JInt i, r)"
  using number_prefix_append [OF _ number_prefix_int_text, of r i]
  by (simp add: scan_number_def digit_count_int_text int_of_text_int_text)

lemma scan_number_float:
  "json_ok (JFloat (FinF t v)) \<Longrightarrow> stops r \<Longrightarrow> scan_number pf (t @ r) = Inr (JFloat (pf t), r)"
  using number_prefix_append [of r t t True "[]"] by (simp add: scan_number_def)

section \<open>Values\<close>

definition number_head :: "string \<Rightarrow> bool" where
  "number_head s \<longleftrightarrow> (case s of
       c # cs \<Rightarrow> is_digit c \<or> c = CHR ''-'' \<and> cs \<noteq> [] \<and> is_digit (hd cs)
     | [] \<Rightarrow> False)"

lemma is_digit_zero [simp]: "is_digit (CHR ''0'')"
  by (simp add: is_digit_def)

lemma number_prefix_head: "number_prefix s = Some x \<Longrightarrow> number_head s"
  by (auto simp: number_prefix_def number_head_def int_part_def split: list.splits if_splits option.splits)

lemma number_head_append: "number_head s \<Longrightarrow> number_head (s @ r)"
  by (auto simp: number_head_def split: list.splits)

lemma scan_value_number:
  assumes "number_head s"
  shows "scan_value (Suc n) h s = scan_number (fst h) s"
proof -
  obtain c cs where s: "s = c # cs" and c: "is_digit c \<or> c = CHR ''-'' \<and> cs \<noteq> [] \<and> is_digit (hd cs)"
    using assms by (auto simp: number_head_def split: list.splits)
  have plain: "c \<noteq> dquote" "c \<noteq> CHR ''{''" "c \<noteq> CHR ''[''" "c \<noteq> CHR ''n''" "c \<noteq> CHR ''t''"
    "c \<noteq> CHR ''f''" "c \<noteq> CHR ''N''" "c \<noteq> CHR ''I''"
    using c by (auto simp: is_digit_def)
  have minus: "\<not> prefix ''-Infinity'' s"
    using s c by (cases cs) (auto simp: is_digit_def)
  have lits: "scan_literals (json_literals const) other s = other s" for const other
    using s plain minus by (auto simp: json_literals_def strip_prefix_def)
  show ?thesis
    using s plain lits [of "snd (snd h)" "scan_number (fst h)"] by simp
qed

lemma scan_value_literals [simp]:
  "scan_value (Suc n) h (CHR ''n'' # CHR ''u'' # CHR ''l'' # CHR ''l'' # r) = Inr (JNull, r)"
  "scan_value (Suc n) h (CHR ''t'' # CHR ''r'' # CHR ''u'' # CHR ''e'' # r) = Inr (JBool True, r)"
  "scan_value (Suc n) h (CHR ''f'' # CHR ''a'' # CHR ''l'' # CHR ''s'' # CHR ''e'' # r) = Inr (JBool False, r)"
  by (simp_all add: json_literals_def strip_prefix_def)

lemma dumps_head:
  "json_ok v \<Longrightarrow> \<exists>c cs. dumps ea v = c # cs \<and> \<not> is_ws c \<and> c \<noteq> CHR '']''"
proof (cases v)
  case (JInt i)
  obtain c cs where "nat_text (nat i) = c # cs" "is_digit c"
    using nat_text_head [of "nat i"] by blast
  with JInt show ?thesis by (auto simp: int_text_def is_ws_def is_digit_def)
next
  case (JFloat f)
  assume "json_ok v"
  with JFloat obtain t x where "f = FinF t x" "number_prefix t = Some (t, True, [])"
    by (cases f) auto
  with JFloat show ?thesis
    using number_prefix_head [of t] by (auto simp: number_head_def is_ws_def is_digit_def split: list.splits)
qed (auto simp: is_ws_def str_text_def)

lemma skip_ws_id: "s = c # cs \<Longrightarrow> \<not> is_ws c \<Longrightarrow> skip_ws s = s"
  by (simp add: skip_ws_def)

lemma skip_ws_sep [simp]:
  "skip_ws (CHR '','' # r) = CHR '','' # r" "skip_ws (CHR '']'' # r) = CHR '']'' # r"
  "skip_ws (CHR ''}'' # r) = CHR ''}'' # r" "skip_ws (CHR '':'' # r) = CHR '':'' # r"
  "skip_ws (dquote # r) = dquote # r" "skip_ws [] = []"
  by (simp_all add: skip_ws_def is_ws_def)

lemma skip_ws_dumps: "json_ok v \<Longrightarrow> skip_ws (dumps ea v @ r) = dumps ea v @ r"
  using dumps_head [of v ea] skip_ws_id by fastforce

text \<open>What the induction over the printed value needs of one value.\<close>

definition reads_back :: "bool \<Rightarrow> hooks \<Rightarrow> json \<Rightarrow> bool" where
  "reads_back ea h v \<longleftrightarrow>
     (\<forall>n r. length (dumps ea v) \<le> n \<longrightarrow> stops r \<longrightarrow>
        scan_value n h (dumps ea v @ r) = Inr (norm_json (fst h) v, r))"

lemma dumps_pos: "json_ok v \<Longrightarrow> 0 < length (dumps ea v)"
  using dumps_head [of v ea] by auto

lemma scan_elems_text:
  assumes "vs \<noteq> []" "\<And>v. v \<in> set vs \<Longrightarrow> json_ok v \<and> reads_back ea h v"
    and "length (join_comma (map (dumps ea) vs)) < n"
  shows "scan_elems n h (join_comma (map (dumps ea) vs) @ CHR '']'' # r) =
    Inr (map (norm_json (fst h)) vs, r)"
  using assms
proof (induction vs arbitrary: n)
  case (Cons v vs)
  then obtain m where n: "n = Suc m" by (cases n) auto
  have v: "json_ok v" "reads_back ea h v" using Cons.prems(2) by auto
  show ?case
  proof (cases vs)
    case Nil
    with Cons.prems(3) n v show ?thesis by (simp add: reads_back_def)
  next
    case (Cons w ws)
    let ?rest = "join_comma (map (dumps ea) vs)"
    have shape: "join_comma (map (dumps ea) (v # vs)) = dumps ea v @ CHR '','' # ?rest"
      using Cons by simp
    have "length (dumps ea v) + 1 + length ?rest < n"
      using Cons.prems(3) unfolding shape by simp
    then have len: "length ?rest < m" "length (dumps ea v) \<le> m"
      using n dumps_pos [OF v(1), of ea] by linarith+
    have "scan_value m h (dumps ea v @ CHR '','' # ?rest @ CHR '']'' # r) =
        Inr (norm_json (fst h) v, CHR '','' # ?rest @ CHR '']'' # r)"
      using v(2) len(2) by (simp add: reads_back_def)
    moreover have "skip_ws (?rest @ CHR '']'' # r) = ?rest @ CHR '']'' # r"
    proof -
      have "json_ok w" using Cons.prems(2) Cons by simp
      then obtain c cs where "dumps ea w = c # cs" "\<not> is_ws c" using dumps_head by blast
      then show ?thesis using Cons by (cases ws) (auto simp: skip_ws_def)
    qed
    moreover have "scan_elems m h (?rest @ CHR '']'' # r) = Inr (map (norm_json (fst h)) vs, r)"
      using Cons.IH [of m] Cons.prems(2) Cons len(1) by simp
    ultimately show ?thesis unfolding shape using n by simp
  qed
qed simp

fun member_text :: "bool \<Rightarrow> string \<times> json \<Rightarrow> string" where
  "member_text ea (k, v) = str_text ea k @ CHR '':'' # dumps ea v"

lemma scan_members_text:
  assumes "d \<noteq> []" "\<And>k v. (k, v) \<in> set d \<Longrightarrow> json_ok v \<and> reads_back ea h v"
    and "length (join_comma (map (member_text ea) d)) \<le> n"
  shows "scan_members n h (tl (join_comma (map (member_text ea) d) @ CHR ''}'' # r)) =
    Inr (map (map_prod id (norm_json (fst h))) d, r)"
  using assms
proof (induction d arbitrary: n)
  case (Cons kv d)
  obtain k v where kv: "kv = (k, v)" by fastforce
  have v: "json_ok v" "reads_back ea h v" using Cons.prems(2) kv by auto
  show ?case
  proof (cases d)
    case Nil
    with Cons.prems(3) kv obtain m where n: "n = Suc m" "length (dumps ea v) \<le> m"
      by (cases n) (auto simp: str_text_def)
    with Nil kv v show ?thesis
      by (simp add: str_text_def scan_string_text skip_ws_dumps reads_back_def)
  next
    case (Cons kv' d')
    let ?rest = "join_comma (map (member_text ea) d)"
    have shape: "join_comma (map (member_text ea) (kv # d)) =
        str_text ea k @ CHR '':'' # dumps ea v @ CHR '','' # ?rest"
      using Cons kv by simp
    have "length (dumps ea v) + 1 + length ?rest < n"
      using Cons.prems(3) unfolding shape by (simp add: str_text_def)
    then obtain m where n: "n = Suc m" "length (dumps ea v) \<le> m" "length ?rest \<le> m"
      by (cases n) auto
    obtain rest' where rest': "?rest = dquote # rest'"
      using Cons by (cases d'; cases kv') (auto simp: str_text_def)
    have "scan_value m h (dumps ea v @ CHR '','' # ?rest @ CHR ''}'' # r) =
        Inr (norm_json (fst h) v, CHR '','' # ?rest @ CHR ''}'' # r)"
      using v(2) n(2) by (simp add: reads_back_def)
    moreover have "scan_members m h (tl (?rest @ CHR ''}'' # r)) = Inr (map (map_prod id (norm_json (fst h))) d, r)"
      by (rule Cons.IH) (use Cons.prems(2) Cons n(3) in auto)
    then have "scan_members m h (rest' @ CHR ''}'' # r) = Inr (map (map_prod id (norm_json (fst h))) d, r)"
      by (simp only: rest' append_Cons list.sel)
    ultimately show ?thesis
      unfolding shape using n(1) kv v(1) rest'
      by (simp add: str_text_def scan_string_text skip_ws_dumps id_def)
  qed
qed simp

definition keeps_distinct :: "hooks \<Rightarrow> bool" where
  "keeps_distinct h \<longleftrightarrow> (\<forall>items. distinct (map fst items) \<longrightarrow> fst (snd h) items = Inr items)"

lemma dumps_obj: "dumps ea (JObj d) = CHR ''{'' # join_comma (map (member_text ea) (sort_key fst d)) @ ''}''"
proof -
  have "(\<lambda>(k, t). str_text ea k @ CHR '':'' # t) \<circ> map_prod id (dumps ea) = member_text ea"
    by (rule ext) auto
  then show ?thesis by (simp add: sort_key_map_prod)
qed

lemma scan_obj_text:
  assumes "keeps_distinct h" "distinct (map fst d)"
    and "\<And>k v. (k, v) \<in> set d \<Longrightarrow> json_ok v \<and> reads_back ea h v"
    and "length (join_comma (map (member_text ea) d)) + 1 < n"
  shows "scan_value n h (CHR ''{'' # join_comma (map (member_text ea) d) @ CHR ''}'' # r) =
    Inr (JObj (map (map_prod id (norm_json (fst h))) d), r)"
proof -
  obtain m where n: "n = Suc m" using assms(4) by (cases n) auto
  have hook: "fst (snd h) (map (map_prod id (norm_json (fst h))) d) = Inr (map (map_prod id (norm_json (fst h))) d)"
    using assms(1,2) by (simp add: keeps_distinct_def comp_def)
  show ?thesis
  proof (cases d)
    case Nil
    then show ?thesis using n hook by simp
  next
    case (Cons kv d')
    then obtain t where t: "join_comma (map (member_text ea) d) = dquote # t"
      by (cases d'; cases kv) (auto simp: str_text_def)
    have "scan_members m h (t @ CHR ''}'' # r) = Inr (map (map_prod id (norm_json (fst h))) d, r)"
      using scan_members_text [of d ea h m r] assms(3,4) Cons n t by simp
    then show ?thesis using n hook t by simp
  qed
qed

lemma reads_back_number:
  assumes "number_head t" "dumps ea v = t"
    and "\<And>r. stops r \<Longrightarrow> scan_number (fst h) (t @ r) = Inr (norm_json (fst h) v, r)"
  shows "reads_back ea h v"
  unfolding reads_back_def
proof (intro allI impI)
  fix n r
  assume n: "length (dumps ea v) \<le> n" and r: "stops r"
  have "t \<noteq> []" using assms(1) by (auto simp: number_head_def)
  with n assms(2) obtain m where m: "n = Suc m" by (cases n) auto
  have "scan_value (Suc m) h (t @ r) = scan_number (fst h) (t @ r)"
    by (rule scan_value_number, rule number_head_append, rule assms(1))
  with m assms(2) assms(3) [OF r] show "scan_value n h (dumps ea v @ r) = Inr (norm_json (fst h) v, r)"
    by (simp only:)
qed

lemma reads_back_ok:
  assumes "keeps_distinct h"
  shows "json_ok v \<Longrightarrow> reads_back ea h v"
proof (induction v)
  case (JInt i)
  show ?case
    by (rule reads_back_number [of "int_text i"])
       (use JInt in \<open>auto intro: number_prefix_head number_prefix_int_text scan_number_int\<close>)
next
  case (JFloat f)
  then obtain t x where "f = FinF t x" "number_prefix t = Some (t, True, [])"
    by (cases f) auto
  then show ?case
    by (intro reads_back_number [of t]) (auto intro: number_prefix_head scan_number_float)
next
  case (JStr s)
  show ?case
    unfolding reads_back_def
  proof (intro allI impI)
    fix n r
    assume "length (dumps ea (JStr s)) \<le> n"
    then obtain m where "n = Suc m" by (cases n) (auto simp: str_text_def)
    then show "scan_value n h (dumps ea (JStr s) @ r) = Inr (norm_json (fst h) (JStr s), r)"
      by (simp add: str_text_def scan_string_text)
  qed
next
  case (JList vs)
  show ?case
    unfolding reads_back_def
  proof (intro allI impI)
    fix n r
    assume len: "length (dumps ea (JList vs)) \<le> n"
    then obtain m where m: "n = Suc m" by (cases n) auto
    have elems: "json_ok v \<and> reads_back ea h v" if "v \<in> set vs" for v
      using JList that by (auto simp: list_all_iff)
    show "scan_value n h (dumps ea (JList vs) @ r) = Inr (norm_json (fst h) (JList vs), r)"
    proof (cases vs)
      case Nil
      then show ?thesis using m by simp
    next
      case (Cons w ws)
      obtain c cs where c: "dumps ea w = c # cs" "\<not> is_ws c" "c \<noteq> CHR '']''"
        using dumps_head [of w ea] elems [of w] Cons by auto
      then obtain t where t: "join_comma (map (dumps ea) vs) = c # t"
        using Cons by (cases ws) auto
      have "scan_elems m h (join_comma (map (dumps ea) vs) @ CHR '']'' # r) = Inr (map (norm_json (fst h)) vs, r)"
        using scan_elems_text [of vs ea h m r] elems Cons len m by simp
      then show ?thesis using m t c by (simp add: skip_ws_def)
    qed
  qed
next
  case (JObj d)
  show ?case
    unfolding reads_back_def
  proof (intro allI impI)
    fix n r
    assume len: "length (dumps ea (JObj d)) \<le> n"
    let ?d = "sort_key fst d"
    have "json_ok v \<and> reads_back ea h v" if "(k, v) \<in> set ?d" for k v
    proof -
      have "(k, v) \<in> set d" using that by simp
      then show ?thesis using JObj by (fastforce simp: list_all_iff)
    qed
    moreover have "distinct (map fst ?d)"
      using JObj.prems by (simp add: distinct_map)
    ultimately show "scan_value n h (dumps ea (JObj d) @ r) = Inr (norm_json (fst h) (JObj d), r)"
      using scan_obj_text [OF assms, of ?d ea n r] len
      by (simp add: dumps_obj sort_key_map_prod del: dumps.simps)
  qed
qed (auto simp: reads_back_def Suc_le_eq simp del: scan_value.simps dest!: gr_implies_not0 not0_implies_Suc)

section \<open>The round trip\<close>

lemma loads_dumps:
  assumes "keeps_distinct h" "json_ok v"
  shows "loads h (dumps ea v) = Inr (norm_json (fst h) v)"
proof -
  have "scan_value (Suc (length (dumps ea v))) h (dumps ea v @ []) = Inr (norm_json (fst h) v, [])"
    using reads_back_ok [OF assms, of ea] unfolding reads_back_def
    by (metis le_SucI order_refl stops_simps(1))
  moreover have "skip_ws (dumps ea v) = dumps ea v"
    using skip_ws_dumps [OF assms(2), of ea "[]"] by simp
  ultimately show ?thesis by (simp add: loads_def)
qed

lemma strict_hooks_keep [simp]: "keeps_distinct (strict_hooks pf)"
  by (simp add: keeps_distinct_def strict_hooks_def)

lemma dict_set_fresh: "k \<notin> fst ` set d \<Longrightarrow> dict_set k v d = d @ [(k, v)]"
  by (induction k v d rule: dict_set.induct) auto

lemma dict_of_pairs_distinct: "distinct (map fst items) \<Longrightarrow> dict_of_pairs items = items"
proof (induction items rule: rev_induct)
  case (snoc x items)
  then show ?case
    by (cases x) (auto simp: dict_of_pairs_def dict_set_fresh)
qed (simp add: dict_of_pairs_def)

lemma plain_hooks_keep [simp]: "keeps_distinct (plain_hooks pf)"
  by (simp add: keeps_distinct_def plain_hooks_def dict_of_pairs_distinct)

lemma fst_hooks [simp]: "fst (plain_hooks pf) = pf" "fst (strict_hooks pf) = pf"
  by (simp_all add: plain_hooks_def strict_hooks_def)

text \<open>Printing depends on the normal form only.\<close>

abbreviation text_float :: "string \<Rightarrow> pyfloat" where
  "text_float \<equiv> \<lambda>t. FinF t 0"

lemma json_ok_norm: "json_ok v \<Longrightarrow> dumps ea (norm_json text_float v) = dumps ea v"
proof (induction v)
  case (JFloat f)
  then show ?case by (cases f) auto
next
  case (JList vs)
  then have "map (dumps ea \<circ> norm_json text_float) vs = map (dumps ea) vs"
    by (auto simp: list_all_iff)
  then show ?case by (simp del: map_eq_conv)
next
  case (JObj d)
  have "map (map_prod id (dumps ea)) (map (map_prod id (norm_json text_float)) (sort_key fst d)) =
      map (map_prod id (dumps ea)) (sort_key fst d)"
    using JObj by (fastforce simp: list_all_iff)
  then have "sort_key fst (map (map_prod id (dumps ea)) (sort_key fst (map (map_prod id (norm_json text_float)) d))) =
      sort_key fst (map (map_prod id (dumps ea)) d)"
    by (simp only: sort_key_map_prod sort_key_id_if_sorted [OF sorted_sort_key])
  then show ?case by simp
qed auto

lemma dumps_eq_iff:
  assumes "json_ok v" "json_ok w"
  shows "dumps ea v = dumps ea w \<longleftrightarrow> norm_json text_float v = norm_json text_float w"
proof
  assume "dumps ea v = dumps ea w"
  then have "loads (plain_hooks text_float) (dumps ea v) = loads (plain_hooks text_float) (dumps ea w)"
    by (simp only:)
  then show "norm_json text_float v = norm_json text_float w"
    by (simp add: loads_dumps assms)
next
  assume "norm_json text_float v = norm_json text_float w"
  then show "dumps ea v = dumps ea w"
    using json_ok_norm [OF assms(1)] json_ok_norm [OF assms(2)] by metis
qed

lemma dict_get_sorted: "distinct (map fst d) \<Longrightarrow> dict_get (sort_key fst d) k = dict_get d k"
proof -
  assume d: "distinct (map fst d)"
  then have "distinct (map fst (sort_key fst d))" by (simp add: distinct_map)
  with d have "map_of (sort_key fst d) = map_of d"
    by (intro map_of_eqI) (auto simp: map_of_eq_Some_iff)
  then show ?thesis by (simp add: dict_get_def)
qed

end
