(* ===== verification/Pytime.thy ===== *)
theory Pytime
  imports Prelude
begin

text \<open>
  The proleptic Gregorian calendar of Python's \<^verbatim>\<open>datetime\<close> module, as far as the sources read it:
  the ISO date of a price list (\<^verbatim>\<open>date.fromisoformat\<close> on \<^verbatim>\<open>YYYY-MM-DD\<close>) and the UTC timestamp
  \<^verbatim>\<open>YYYY-MM-DDThh:mm:ss[.ffffff]Z\<close> of every contract. A timestamp is the number of microseconds
  since 0001-01-01T00:00:00Z.
\<close>

definition is_leap :: "int \<Rightarrow> bool" where
  "is_leap y \<longleftrightarrow> y mod 4 = 0 \<and> (y mod 100 \<noteq> 0 \<or> y mod 400 = 0)"

definition days_in_month :: "int \<Rightarrow> int \<Rightarrow> int" where
  "days_in_month y m =
     (if m = 2 then (if is_leap y then 29 else 28)
      else if m \<in> {4, 6, 9, 11} then 30 else 31)"

definition valid_date :: "int \<Rightarrow> int \<Rightarrow> int \<Rightarrow> bool" where
  "valid_date y m d \<longleftrightarrow> 1 \<le> y \<and> y \<le> 9999 \<and> 1 \<le> m \<and> m \<le> 12 \<and> 1 \<le> d \<and> d \<le> days_in_month y m"

definition days_before_year :: "int \<Rightarrow> int" where
  "days_before_year y = (let p = y - 1 in p * 365 + p div 4 - p div 100 + p div 400)"

definition days_before_month :: "int \<Rightarrow> int \<Rightarrow> int" where
  "days_before_month y m = sum_list (map (days_in_month y) [1..m - 1])"

definition date_ordinal :: "int \<Rightarrow> int \<Rightarrow> int \<Rightarrow> int" where
  "date_ordinal y m d = days_before_year y + days_before_month y m + d"

definition digits_at :: "string \<Rightarrow> nat \<Rightarrow> nat \<Rightarrow> bool" where
  "digits_at s i n \<longleftrightarrow> list_all is_digit (take n (drop i s)) \<and> i + n \<le> length s"

definition num_at :: "string \<Rightarrow> nat \<Rightarrow> nat \<Rightarrow> int" where
  "num_at s i n = nat_of_digits (take n (drop i s))"

definition char_at :: "string \<Rightarrow> nat \<Rightarrow> char \<Rightarrow> bool" where
  "char_at s i c \<longleftrightarrow> i < length s \<and> s ! i = c"

text \<open>The pattern \<^verbatim>\<open>\d{4}-\d{2}-\d{2}\<close> at the start of a text, and the ordinal of the date it names.\<close>

definition date_shape :: "string \<Rightarrow> bool" where
  "date_shape s \<longleftrightarrow> digits_at s 0 4 \<and> char_at s 4 CHR ''-'' \<and> digits_at s 5 2 \<and> char_at s 7 CHR ''-'' \<and> digits_at s 8 2"

definition date_of :: "string \<Rightarrow> int option" where
  "date_of s =
     (let y = num_at s 0 4; m = num_at s 5 2; d = num_at s 8 2 in
      if date_shape s \<and> valid_date y m d then Some (date_ordinal y m d) else None)"

text \<open>\<^verbatim>\<open>date.fromisoformat\<close> on a text that is exactly ten characters of that pattern.\<close>

definition iso_date :: "string \<Rightarrow> int option" where
  "iso_date s = (if length s = 10 then date_of s else None)"

text \<open>The tail \<^verbatim>\<open>(?:\.\d{1,6})?Z\<close>, read as microseconds.\<close>

definition fraction_of :: "string \<Rightarrow> int option" where
  "fraction_of s =
     (if s = ''Z'' then Some 0
      else let ds = butlast (tl s); n = length ds in
        if s \<noteq> [] \<and> hd s = CHR ''.'' \<and> last s = CHR ''Z'' \<and> 1 \<le> n \<and> n \<le> 6 \<and> list_all is_digit ds
        then Some (nat_of_digits ds * 10 ^ (6 - n)) else None)"

definition time_shape :: "string \<Rightarrow> bool" where
  "time_shape s \<longleftrightarrow> char_at s 10 CHR ''T'' \<and> digits_at s 11 2 \<and> char_at s 13 CHR '':'' \<and> digits_at s 14 2 \<and>
     char_at s 16 CHR '':'' \<and> digits_at s 17 2"

definition parse_timestamp :: "string \<Rightarrow> int option" where
  "parse_timestamp s =
     (let hh = num_at s 11 2; mm = num_at s 14 2; ss = num_at s 17 2 in
      if time_shape s \<and> hh < 24 \<and> mm < 60 \<and> ss < 60 then
        (case (date_of s, fraction_of (drop 19 s)) of
           (Some day, Some us) \<Rightarrow> Some ((((day - 1) * 24 + hh) * 60 + mm) * 60 * 1000000 + ss * 1000000 + us)
         | _ \<Rightarrow> None)
      else None)"

lemma nat_of_digits_nonneg: "list_all is_digit s \<Longrightarrow> 0 \<le> nat_of_digits s"
proof -
  have "0 \<le> n \<Longrightarrow> list_all is_digit s \<Longrightarrow> 0 \<le> foldl (\<lambda>n c. 10 * n + digit_val c) n s" for n
    by (induction s arbitrary: n) (auto simp: digit_val_def is_digit_def)
  then show "list_all is_digit s \<Longrightarrow> ?thesis" by (simp add: nat_of_digits_def)
qed

lemma days_in_month_bounds: "28 \<le> days_in_month y m" "days_in_month y m \<le> 31"
  by (auto simp: days_in_month_def)

lemma date_ordinal_pos:
  assumes "valid_date y m d"
  shows "1 \<le> date_ordinal y m d"
proof -
  have "0 \<le> days_before_month y m"
    unfolding days_before_month_def
    by (intro sum_list_nonneg) (use days_in_month_bounds(1) in \<open>fastforce intro: order_trans [of 0 28]\<close>)
  moreover have "0 \<le> days_before_year y"
  proof -
    have "0 \<le> y - 1" using assms by (simp add: valid_date_def)
    then have "(y - 1) div 100 \<le> (y - 1) div 4" by linarith
    with \<open>0 \<le> y - 1\<close> show ?thesis by (simp add: days_before_year_def Let_def)
  qed
  ultimately show ?thesis using assms by (simp add: date_ordinal_def valid_date_def)
qed

text \<open>Every accepted timestamp is a point at or after the origin.\<close>

lemma parse_timestamp_nonneg:
  assumes "parse_timestamp s = Some t"
  shows "0 \<le> t"
proof -
  from assms obtain day us where
    shape: "time_shape s" and day: "date_of s = Some day" and us: "fraction_of (drop 19 s) = Some us"
    and t: "t = (((day - 1) * 24 + num_at s 11 2) * 60 + num_at s 14 2) * 60 * 1000000 + num_at s 17 2 * 1000000 + us"
    by (auto simp: parse_timestamp_def Let_def split: if_splits option.splits)
  have "1 \<le> day" using day date_ordinal_pos by (auto simp: date_of_def Let_def split: if_splits)
  moreover have "0 \<le> us" using us
    by (auto simp: fraction_of_def Let_def nat_of_digits_nonneg split: if_splits)
  moreover have "0 \<le> num_at s 11 2" "0 \<le> num_at s 14 2" "0 \<le> num_at s 17 2"
    using shape by (simp_all add: time_shape_def digits_at_def num_at_def nat_of_digits_nonneg)
  ultimately show ?thesis by (simp add: t)
qed

end
