(* ===== verification/Budget.thy ===== *)
theory Budget
  imports Json_Roundtrip Pytime
begin

text \<open>
  \<^verbatim>\<open>cops/assessment_budget.py\<close>: the engagement-scoped admission ledger.

  The SQLite file is a \<open>ledger\<close>: one optional engagement row and the five tables of \<^verbatim>\<open>_SCHEMA\<close> as
  row lists. Every public operation is one \<open>transaction\<close>: it checks the policy, reads the clock,
  moves the clock high-water mark, and runs a body whose failure rolls everything back but that mark.

  \<^item> A column of JSON text that encodes one of the module's dataclasses (\<^verbatim>\<open>policy_json\<close>, \<^verbatim>\<open>request_json\<close>,
    \<^verbatim>\<open>limits_json\<close>, \<^verbatim>\<open>payload_json\<close> of a receipt) is the record it encodes; theory \<open>Budget_Text\<close> proves
    that the texts are equal exactly when the records are, and that the limits read back.
    Payloads that callers supply (prerequisites, dispatch intents) stay texts.
  \<^item> The walks along parent links carry fuel, one more unit than the table has rows; running out is
    the error \<open>Nonterminating\<close>, which theory \<open>Budget_Inv\<close> shows never to happen.
  \<^item> \<open>clock\<close> is what the injected clock does on this call: \<open>None\<close> raises, \<open>Some v\<close> returns \<open>v\<close>.
    \<open>fromiso\<close> is \<^verbatim>\<open>datetime.fromisoformat\<close> followed by the conversion to milliseconds:
    \<open>None\<close> raises \<^verbatim>\<open>ValueError\<close>, \<open>Some None\<close> is a time without an offset.
  \<^item> \<open>SqlError\<close> is an \<^verbatim>\<open>sqlite3.Error\<close> raised by a statement; the transaction turns it into a
    \<open>BudgetStoreError\<close>.
\<close>

section \<open>Data\<close>

datatype budget_error =
    BudgetDenied string
  | BudgetStoreError string
  | ValueError string
  | TypeError
  | SqlError
  | CallbackError
  | Nonterminating

definition id_char :: "char \<Rightarrow> bool" where
  "id_char c \<longleftrightarrow> is_alnum_ascii c \<or> c \<in> {CHR ''.'', CHR ''_'', CHR '':'', CHR ''-''}"

definition ID_match :: "string \<Rightarrow> bool" where
  "ID_match s \<longleftrightarrow> s \<noteq> [] \<and> is_alnum_ascii (hd s) \<and> list_all id_char (tl s) \<and> length s \<le> 128"

definition check_identifier :: "json \<Rightarrow> string \<Rightarrow> (budget_error, string) result" where
  "check_identifier value field =
     (case value of
        JStr s \<Rightarrow> if ID_match s then Inr s else Inl (ValueError (''invalid '' @ field))
      | _ \<Rightarrow> Inl (ValueError (''invalid '' @ field)))"

definition integer_value :: "json \<Rightarrow> string \<Rightarrow> bool \<Rightarrow> (budget_error, int) result" where
  "integer_value value field positive =
     (case value of
        JInt i \<Rightarrow>
          if i < (if positive then 1 else 0) \<or> i > 2 ^ 63 - 1 then Inl (ValueError (''invalid '' @ field))
          else Inr i
      | _ \<Rightarrow> Inl (ValueError (''invalid '' @ field)))"

text \<open>\<^verbatim>\<open>_canonical\<close>: an integer of more than 4300 digits makes \<^verbatim>\<open>json.dumps\<close> raise.\<close>

definition budget_canonical :: "dict \<Rightarrow> (budget_error, string) result" where
  "budget_canonical d =
     (if ints_printable (JObj d) then Inr (dumps True (JObj d))
      else Inl (ValueError ''Exceeds the limit (4300 digits) for integer string conversion''))"

definition replace_Z :: "string \<Rightarrow> string" where
  "replace_Z s = concat (map (\<lambda>c. if c = CHR ''Z'' then ''+00:00'' else [c]) s)"

definition timestamp_ms ::
  "(string \<Rightarrow> int option option) \<Rightarrow> json option \<Rightarrow> string \<Rightarrow> (budget_error, int) result" where
  "timestamp_ms fromiso value field =
     (case value of
        Some (JStr s) \<Rightarrow>
          (case fromiso (replace_Z s) of
             Some (Some milliseconds) \<Rightarrow>
               if milliseconds < 0 \<or> milliseconds > 2 ^ 63 - 1 then Inl (ValueError (''invalid '' @ field))
               else Inr milliseconds
           | _ \<Rightarrow> Inl (ValueError (''invalid '' @ field)))
      | _ \<Rightarrow> Inl (ValueError (''invalid '' @ field)))"

record limits =
  max_attempts :: int
  max_estimated_tokens :: int
  max_estimated_cost_microunits :: int
  max_elapsed_ms :: int
  max_concurrency :: int
  max_retained_output_bytes :: int
  max_depth :: int
  max_children_per_parent :: int

text \<open>The constructor, from the eight arguments by name.\<close>

definition BudgetLimits :: "(string \<Rightarrow> json) \<Rightarrow> (budget_error, limits) result" where
  "BudgetLimits arg =
     bindE (integer_value (arg ''max_attempts'') ''max_attempts'' True) (\<lambda>a.
     bindE (integer_value (arg ''max_estimated_tokens'') ''max_estimated_tokens'' True) (\<lambda>b.
     bindE (integer_value (arg ''max_estimated_cost_microunits'') ''max_estimated_cost_microunits'' True) (\<lambda>c.
     bindE (integer_value (arg ''max_elapsed_ms'') ''max_elapsed_ms'' True) (\<lambda>d.
     bindE (integer_value (arg ''max_concurrency'') ''max_concurrency'' True) (\<lambda>e.
     bindE (integer_value (arg ''max_retained_output_bytes'') ''max_retained_output_bytes'' True) (\<lambda>f.
     bindE (integer_value (arg ''max_depth'') ''max_depth'' False) (\<lambda>g.
     bindE (integer_value (arg ''max_children_per_parent'') ''max_children_per_parent'' True) (\<lambda>h.
       Inr \<lparr>max_attempts = a, max_estimated_tokens = b, max_estimated_cost_microunits = c,
         max_elapsed_ms = d, max_concurrency = e, max_retained_output_bytes = f, max_depth = g,
         max_children_per_parent = h\<rparr>))))))))"

definition is_within :: "limits \<Rightarrow> limits \<Rightarrow> bool" where
  "is_within l parent \<longleftrightarrow>
     max_attempts l \<le> max_attempts parent \<and>
     max_estimated_tokens l \<le> max_estimated_tokens parent \<and>
     max_estimated_cost_microunits l \<le> max_estimated_cost_microunits parent \<and>
     max_elapsed_ms l \<le> max_elapsed_ms parent \<and>
     max_concurrency l \<le> max_concurrency parent \<and>
     max_retained_output_bytes l \<le> max_retained_output_bytes parent \<and>
     max_depth l \<le> max_depth parent \<and>
     max_children_per_parent l \<le> max_children_per_parent parent"

record budget_policy =
  engagement_id :: string
  policy_limits :: limits
  currency :: string
  price_source :: string
  price_version :: string
  price_effective_date :: string
  schema_version :: string
  price_error_policy :: string

definition currency_match :: "string \<Rightarrow> bool" where
  "currency_match s \<longleftrightarrow> length s = 3 \<and> list_all is_upper s"

definition BudgetPolicy ::
  "json \<Rightarrow> limits \<Rightarrow> json \<Rightarrow> json \<Rightarrow> json \<Rightarrow> json \<Rightarrow> json \<Rightarrow> json \<Rightarrow> (budget_error, budget_policy) result" where
  "BudgetPolicy eng_id lims cur_code source version effective schema error_policy =
     bindE (check_identifier eng_id ''engagement_id'') (\<lambda>eng.
     bindE (case cur_code of JStr s \<Rightarrow> if currency_match s then Inr s else Inl (ValueError ''invalid currency'')
              | _ \<Rightarrow> Inl (ValueError ''invalid currency'')) (\<lambda>cur.
     bindE (check_identifier source ''price_source'') (\<lambda>src.
     bindE (check_identifier version ''price_version'') (\<lambda>ver.
     bindE (case effective of
              JStr s \<Rightarrow> if iso_date s = None then Inl (ValueError ''invalid price_effective_date'') else Inr s
            | _ \<Rightarrow> Inl (ValueError ''invalid price_effective_date'')) (\<lambda>eff.
     if schema \<noteq> JStr ''cops.assessment-budget/v1'' \<or> error_policy \<noteq> JStr ''deny''
     then Inl (ValueError ''unsupported budget policy version or price error policy'')
     else Inr \<lparr>engagement_id = eng, policy_limits = lims, currency = cur, price_source = src,
       price_version = ver, price_effective_date = eff,
       schema_version = ''cops.assessment-budget/v1'', price_error_policy = ''deny''\<rparr>)))))"

record attempt_request =
  req_attempt_id :: string
  req_parent_id :: "string option"
  req_tokens :: int
  req_cost :: int
  req_output :: int

definition AttemptRequest ::
  "json \<Rightarrow> json \<Rightarrow> json \<Rightarrow> json \<Rightarrow> json \<Rightarrow> (budget_error, attempt_request) result" where
  "AttemptRequest attempt parent tokens cost output_bytes =
     bindE (check_identifier attempt ''attempt_id'') (\<lambda>a.
     bindE (if parent = JNull then Inr None
            else bindE (check_identifier parent ''parent_id'') (\<lambda>p.
              if p = a then Inl (ValueError ''attempt cannot be its own parent'') else Inr (Some p))) (\<lambda>p.
     bindE (integer_value tokens ''estimated_tokens'' False) (\<lambda>t.
     bindE (integer_value cost ''estimated_cost_microunits'' False) (\<lambda>c.
     bindE (integer_value output_bytes ''reserved_output_bytes'' False) (\<lambda>b.
       Inr \<lparr>req_attempt_id = a, req_parent_id = p, req_tokens = t, req_cost = c, req_output = b\<rparr>)))))"

definition OUTCOMES :: "string list" where
  "OUTCOMES = [''completed'', ''target_denied'', ''runner_stopped'', ''failed'', ''cancelled'']"

record receipt =
  rcpt_id :: string
  rcpt_attempt_id :: string
  rcpt_outcome :: string
  rcpt_tokens :: "int option"
  rcpt_cost :: "int option"
  rcpt_output :: "int option"

definition optional_integer :: "json \<Rightarrow> string \<Rightarrow> (budget_error, int option) result" where
  "optional_integer v field =
     (if v = JNull then Inr None else bindE (integer_value v field False) (\<lambda>i. Inr (Some i)))"

definition Receipt ::
  "json \<Rightarrow> json \<Rightarrow> json \<Rightarrow> json \<Rightarrow> json \<Rightarrow> json \<Rightarrow> (budget_error, receipt) result" where
  "Receipt rid attempt outcome tokens cost output_bytes =
     bindE (check_identifier rid ''receipt_id'') (\<lambda>r.
     bindE (check_identifier attempt ''attempt_id'') (\<lambda>a.
     bindE (case outcome of JStr s \<Rightarrow> if s \<in> set OUTCOMES then Inr s else Inl (ValueError ''invalid receipt outcome'')
              | _ \<Rightarrow> Inl (ValueError ''invalid receipt outcome'')) (\<lambda>oc.
     bindE (optional_integer tokens ''tokens'') (\<lambda>t.
     bindE (optional_integer cost ''cost_microunits'') (\<lambda>c.
     bindE (optional_integer output_bytes ''retained_output_bytes'') (\<lambda>b.
       Inr \<lparr>rcpt_id = r, rcpt_attempt_id = a, rcpt_outcome = oc,
         rcpt_tokens = t, rcpt_cost = c, rcpt_output = b\<rparr>))))))"

datatype attempt_state = Reserved | Dispatched | Uncertain | Usage_unknown | Settled | Released

definition ACTIVE :: "attempt_state list" where
  "ACTIVE = [Reserved, Dispatched, Uncertain]"

definition CHARGED :: "attempt_state list" where
  "CHARGED = ACTIVE @ [Usage_unknown, Settled]"

record attempt =
  att_id :: string
  att_parent :: "string option"
  att_state :: attempt_state
  att_depth :: int

record snapshot =
  charged_attempts :: int
  charged_tokens :: int
  charged_cost_microunits :: int
  charged_output_bytes :: int
  active_concurrency :: int
  over_budget :: bool

record cancel_report =
  rep_attempt_id :: string
  rep_requested :: bool
  rep_stop_confirmed :: bool
  rep_pending :: bool
  rep_final_consumption_known :: bool
  rep_outcome :: "string option"

section \<open>The tables\<close>

record engagement_row =
  eng_policy :: budget_policy
  started_at :: int
  last_seen :: int
  cancelled :: bool

record attempt_row =
  a_id :: string
  a_parent :: "string option"
  a_request :: attempt_request
  a_limits :: limits
  a_depth :: int
  a_state :: attempt_state
  est_tokens :: int
  est_cost :: int
  res_output :: int
  act_tokens :: "int option"
  act_cost :: "int option"
  act_output :: "int option"
  a_outcome :: "string option"
  cancel_requested :: bool

record receipt_row =
  r_id :: string
  r_attempt :: string
  r_payload :: receipt

record prerequisite_row =
  p_id :: string
  p_source :: string
  p_payload :: string
  p_consumed_by :: "string option"

record approval_row =
  ap_id :: string
  ap_attempt :: string

record intent_row =
  i_attempt :: string
  i_payload :: string

record ledger =
  engagement :: "engagement_row option"
  attempts :: "attempt_row list"
  receipts :: "receipt_row list"
  prerequisites :: "prerequisite_row list"
  approvals :: "approval_row list"
  intents :: "intent_row list"

definition empty_ledger :: ledger where
  "empty_ledger = \<lparr>engagement = None, attempts = [], receipts = [], prerequisites = [], approvals = [], intents = []\<rparr>"

abbreviation find_attempt :: "string \<Rightarrow> attempt_row list \<Rightarrow> attempt_row option" where
  "find_attempt \<equiv> select_row a_id"

section \<open>Opening and transactions\<close>

definition now_of :: "json option \<Rightarrow> (budget_error, int) result" where
  "now_of clock =
     (case clock of
        None \<Rightarrow> Inl (BudgetStoreError ''clock unavailable'')
      | Some v \<Rightarrow>
          (case v of
             JInt i \<Rightarrow>
               if i < 0 \<or> i > 2 ^ 63 - 1
               then Inl (BudgetStoreError ''clock returned an invalid millisecond timestamp'') else Inr i
           | _ \<Rightarrow> Inl (BudgetStoreError ''clock returned an invalid millisecond timestamp'')))"

definition set_last_seen :: "int \<Rightarrow> ledger \<Rightarrow> ledger" where
  "set_last_seen now led =
     led\<lparr>engagement := map_option (\<lambda>e. e\<lparr>last_seen := now\<rparr>) (engagement led)\<rparr>"

definition open_ledger :: "budget_policy \<Rightarrow> json option \<Rightarrow> ledger \<Rightarrow> (ledger, budget_error, unit) outcome" where
  "open_ledger policy clock led =
     (case now_of clock of
        Inl e \<Rightarrow> (Inl e, led)
      | Inr now \<Rightarrow>
          (case engagement led of
             None \<Rightarrow>
               (Inr (), led\<lparr>engagement := Some \<lparr>eng_policy = policy, started_at = now, last_seen = now, cancelled = False\<rparr>\<rparr>)
           | Some row \<Rightarrow>
               if eng_policy row \<noteq> policy then (Inl (BudgetStoreError ''ledger policy mismatch''), led)
               else if now < last_seen row then (Inl (BudgetStoreError ''clock moved backward''), led)
               else
                 (Inr (), (set_last_seen now led)\<lparr>attempts :=
                    update_rows (\<lambda>r. a_state r = Dispatched) (\<lambda>r. r\<lparr>a_state := Uncertain\<rparr>) (attempts led)\<rparr>)))"

type_synonym 'a body = "engagement_row \<Rightarrow> int \<Rightarrow> ledger \<Rightarrow> (budget_error, 'a \<times> ledger) result"

definition transaction :: "budget_policy \<Rightarrow> json option \<Rightarrow> 'a body \<Rightarrow> ledger \<Rightarrow> (ledger, budget_error, 'a) outcome" where
  "transaction policy clock body led =
     (case engagement led of
        None \<Rightarrow> (Inl (BudgetStoreError ''budget policy or engagement missing''), led)
      | Some eng \<Rightarrow>
          if eng_policy eng \<noteq> policy then (Inl (BudgetStoreError ''budget policy or engagement missing''), led)
          else
            (case now_of clock of
               Inl e \<Rightarrow> (Inl e, led)
             | Inr now \<Rightarrow>
                 if now < last_seen eng then (Inl (BudgetStoreError ''clock moved backward''), led)
                 else
                   let led1 = set_last_seen now led in
                   (case body eng now led1 of
                      Inl e \<Rightarrow> (Inl (if e = SqlError then BudgetStoreError ''budget storage unavailable'' else e), led1)
                    | Inr (a, led2) \<Rightarrow> (Inr a, led2))))"

section \<open>Charging\<close>

definition attempt_of :: "attempt_row \<Rightarrow> attempt" where
  "attempt_of row = \<lparr>att_id = a_id row, att_parent = a_parent row, att_state = a_state row, att_depth = a_depth row\<rparr>"

text \<open>\<open>None\<close>: a settled row without a figure, on which \<^verbatim>\<open>sum\<close> raises \<^verbatim>\<open>TypeError\<close>.\<close>

definition usage :: "attempt_row \<Rightarrow> (attempt_row \<Rightarrow> int option) \<Rightarrow> (attempt_row \<Rightarrow> int) \<Rightarrow> int option" where
  "usage row actual estimated =
     (let reported = actual row; reserved = estimated row in
      if a_state row = Settled then reported
      else case reported of Some v \<Rightarrow> Some (max reserved v) | None \<Rightarrow> Some reserved)"

fun sum_usage :: "(attempt_row \<Rightarrow> int option) \<Rightarrow> (attempt_row \<Rightarrow> int) \<Rightarrow> attempt_row list \<Rightarrow> int option" where
  "sum_usage actual estimated [] = Some 0"
| "sum_usage actual estimated (row # rows) =
     (case (usage row actual estimated, sum_usage actual estimated rows) of
        (Some v, Some w) \<Rightarrow> Some (v + w)
      | _ \<Rightarrow> None)"

definition charged :: "attempt_row list \<Rightarrow> (budget_error, snapshot) result" where
  "charged rows =
     (let ch = filter (\<lambda>r. a_state r \<in> set CHARGED) rows in
      case (sum_usage act_tokens est_tokens ch, sum_usage act_cost est_cost ch, sum_usage act_output res_output ch) of
        (Some t, Some c, Some b) \<Rightarrow>
          Inr \<lparr>charged_attempts = int (length ch), charged_tokens = t, charged_cost_microunits = c,
            charged_output_bytes = b,
            active_concurrency = int (length (filter (\<lambda>r. a_state r \<in> set ACTIVE) rows)), over_budget = False\<rparr>
      | _ \<Rightarrow> Inl TypeError)"

definition within_limits :: "snapshot \<Rightarrow> limits \<Rightarrow> bool" where
  "within_limits s l \<longleftrightarrow>
     charged_attempts s \<le> max_attempts l \<and>
     charged_tokens s \<le> max_estimated_tokens l \<and>
     charged_cost_microunits s \<le> max_estimated_cost_microunits l \<and>
     charged_output_bytes s \<le> max_retained_output_bytes l \<and>
     active_concurrency s \<le> max_concurrency l"

definition charged_within :: "attempt_row list \<Rightarrow> limits \<Rightarrow> string \<Rightarrow> (budget_error, unit) result" where
  "charged_within rows l message =
     bindE (charged rows) (\<lambda>s. if within_limits s l then Inr () else Inl (BudgetDenied message))"

section \<open>Parent links\<close>

definition parent_row :: "attempt_row list \<Rightarrow> attempt_row \<Rightarrow> attempt_row option" where
  "parent_row rows row = (case a_parent row of None \<Rightarrow> None | Some p \<Rightarrow> find_attempt p rows)"

text \<open>
  The loop \<^verbatim>\<open>while current is not None\<close> along the parent links: \<open>chk\<close> is what the loop body may
  raise for the current row; the result collects the rows visited.
\<close>

fun walk_up :: "nat \<Rightarrow> attempt_row list \<Rightarrow> (attempt_row \<Rightarrow> budget_error option) \<Rightarrow> attempt_row option \<Rightarrow>
    (budget_error, attempt_row list) result" where
  "walk_up n rows chk None = Inr []"
| "walk_up 0 rows chk (Some current) = Inl Nonterminating"
| "walk_up (Suc n) rows chk (Some current) =
     (case chk current of
        Some e \<Rightarrow> Inl e
      | None \<Rightarrow> bindE (walk_up n rows chk (parent_row rows current)) (\<lambda>visited. Inr (current # visited)))"

fun descends_from :: "nat \<Rightarrow> attempt_row list \<Rightarrow> attempt_row \<Rightarrow> string \<Rightarrow> (budget_error, bool) result" where
  "descends_from 0 rows row ancestor_id = Inl Nonterminating"
| "descends_from (Suc n) rows row ancestor_id =
     (if a_id row = ancestor_id then Inr True
      else case parent_row rows row of None \<Rightarrow> Inr False | Some p \<Rightarrow> descends_from n rows p ancestor_id)"

abbreviation row_fuel :: "attempt_row list \<Rightarrow> nat" where
  "row_fuel rows \<equiv> Suc (length rows)"

fun filterE :: "('a \<Rightarrow> (budget_error, bool) result) \<Rightarrow> 'a list \<Rightarrow> (budget_error, 'a list) result" where
  "filterE f [] = Inr []"
| "filterE f (x # xs) =
     bindE (f x) (\<lambda>b. bindE (filterE f xs) (\<lambda>ys. Inr (if b then x # ys else ys)))"

definition subtree_of :: "attempt_row list \<Rightarrow> string \<Rightarrow> (budget_error, attempt_row list) result" where
  "subtree_of rows ancestor_id = filterE (\<lambda>row. descends_from (row_fuel rows) rows row ancestor_id) rows"

section \<open>Reservation\<close>

definition inherited_limits :: "budget_policy \<Rightarrow> attempt_row list \<Rightarrow> attempt_row \<Rightarrow> (budget_error, limits) result" where
  "inherited_limits policy rows existing =
     (case a_parent existing of
        None \<Rightarrow> Inr (policy_limits policy)
      | Some p \<Rightarrow>
          (case find_attempt p rows of
             None \<Rightarrow> Inl (BudgetStoreError ''attempt parent missing'')
           | Some pr \<Rightarrow> Inr (a_limits pr)))"

definition reserve_existing ::
  "budget_policy \<Rightarrow> attempt_request \<Rightarrow> limits option \<Rightarrow> attempt_row \<Rightarrow> ledger \<Rightarrow> (budget_error, attempt \<times> ledger) result" where
  "reserve_existing policy request child_limits existing led =
     bindE (inherited_limits policy (attempts led) existing) (\<lambda>inherited.
       if a_request existing \<noteq> request \<or>
          a_limits existing \<noteq> (case child_limits of Some l \<Rightarrow> l | None \<Rightarrow> inherited)
       then Inl (BudgetDenied ''conflicting attempt id reuse'')
       else Inr (attempt_of existing, led))"

text \<open>The parent and the rows above it, the parent first.\<close>

definition reserve_ancestors ::
  "attempt_request \<Rightarrow> attempt_row list \<Rightarrow> (budget_error, attempt_row option \<times> attempt_row list) result" where
  "reserve_ancestors request rows =
     (case req_parent_id request of
        None \<Rightarrow> Inr (None, [])
      | Some p \<Rightarrow>
          (case find_attempt p rows of
             None \<Rightarrow> Inl (BudgetDenied ''parent attempt unavailable'')
           | Some parent \<Rightarrow>
               if a_state parent = Released then Inl (BudgetDenied ''parent attempt unavailable'')
               else bindE
                 (walk_up (row_fuel rows) rows
                    (\<lambda>r. if a_state r = Released then Some (BudgetDenied ''parent attempt unavailable'') else None)
                    (Some parent))
                 (\<lambda>ancestors. Inr (Some parent, ancestors))))"

definition new_attempt_row :: "attempt_request \<Rightarrow> limits \<Rightarrow> int \<Rightarrow> attempt_row" where
  "new_attempt_row request effective depth =
     \<lparr>a_id = req_attempt_id request, a_parent = req_parent_id request, a_request = request,
      a_limits = effective, a_depth = depth, a_state = Reserved,
      est_tokens = req_tokens request, est_cost = req_cost request, res_output = req_output request,
      act_tokens = None, act_cost = None, act_output = None, a_outcome = None, cancel_requested = False\<rparr>"

text \<open>The checks on the tables after the insertion: aggregate, every ancestor's subtree, the row alone.\<close>

fun check_subtrees :: "attempt_row list \<Rightarrow> attempt_row list \<Rightarrow> (budget_error, unit) result" where
  "check_subtrees rows [] = Inr ()"
| "check_subtrees rows (anc # ancs) =
     bindE (subtree_of rows (a_id anc)) (\<lambda>subtree.
     bindE (charged_within subtree (a_limits anc) ''subtree budget exceeded'') (\<lambda>_.
       check_subtrees rows ancs))"

definition reserve_insert ::
  "budget_policy \<Rightarrow> attempt_row \<Rightarrow> attempt_row list \<Rightarrow> ledger \<Rightarrow> (budget_error, attempt \<times> ledger) result" where
  "reserve_insert policy row ancestors led =
     (let rows = insert_row row (attempts led) in
      bindE (charged_within rows (policy_limits policy) ''aggregate budget exceeded'') (\<lambda>_.
      bindE (check_subtrees rows ancestors) (\<lambda>_.
      bindE (charged_within [row] (a_limits row) ''attempt exceeds child budget'') (\<lambda>_.
        Inr (attempt_of row, led\<lparr>attempts := rows\<rparr>)))))"

definition reserve_new ::
  "budget_policy \<Rightarrow> attempt_request \<Rightarrow> limits option \<Rightarrow> engagement_row \<Rightarrow> int \<Rightarrow> ledger \<Rightarrow>
   (budget_error, attempt \<times> ledger) result" where
  "reserve_new policy request child_limits eng now led =
     (let rows = attempts led in
      bindE (guardE (\<not> cancelled eng) (BudgetDenied ''engagement cancelled'')) (\<lambda>_.
      bindE (guardE (now - started_at eng \<le> max_elapsed_ms (policy_limits policy))
               (BudgetDenied ''budget deadline expired'')) (\<lambda>_.
      bindE (reserve_ancestors request rows) (\<lambda>(parent, ancestors).
      let parent_limits = (case parent of Some p \<Rightarrow> a_limits p | None \<Rightarrow> policy_limits policy);
          effective = (case child_limits of Some l \<Rightarrow> l | None \<Rightarrow> parent_limits);
          depth = (case parent of Some p \<Rightarrow> a_depth p + 1 | None \<Rightarrow> 0);
          siblings = length (filter (\<lambda>r. a_parent r = req_parent_id request) rows)
      in
      bindE (guardE (is_within effective parent_limits) (BudgetDenied ''child limits widen parent'')) (\<lambda>_.
      bindE (guardE (req_parent_id request = None \<or> int siblings < max_children_per_parent parent_limits)
               (BudgetDenied ''child fanout limit reached'')) (\<lambda>_.
      bindE (guardE (depth \<le> max_depth (policy_limits policy) \<and>
                 list_all (\<lambda>anc. depth - a_depth anc \<le> max_depth (a_limits anc)) ancestors)
               (BudgetDenied ''child depth limit reached'')) (\<lambda>_.
      bindE (guardE (list_all (\<lambda>anc. now - started_at eng \<le> max_elapsed_ms (a_limits anc)) ancestors)
               (BudgetDenied ''subtree deadline expired'')) (\<lambda>_.
        reserve_insert policy (new_attempt_row request effective depth) ancestors led))))))))"

definition reserve ::
  "budget_policy \<Rightarrow> json option \<Rightarrow> attempt_request \<Rightarrow> limits option \<Rightarrow> ledger \<Rightarrow> (ledger, budget_error, attempt) outcome" where
  "reserve policy clock request child_limits =
     transaction policy clock (\<lambda>eng now led.
       case find_attempt (req_attempt_id request) (attempts led) of
         Some existing \<Rightarrow> reserve_existing policy request child_limits existing led
       | None \<Rightarrow> reserve_new policy request child_limits eng now led)"

section \<open>Reading\<close>

definition get_attempt :: "budget_policy \<Rightarrow> json option \<Rightarrow> string \<Rightarrow> ledger \<Rightarrow> (ledger, budget_error, attempt) outcome" where
  "get_attempt policy clock attempt_id led =
     (case check_identifier (JStr attempt_id) ''attempt_id'' of
        Inl e \<Rightarrow> (Inl e, led)
      | Inr _ \<Rightarrow>
          transaction policy clock (\<lambda>eng now led.
            case find_attempt attempt_id (attempts led) of
              None \<Rightarrow> Inl (BudgetDenied ''attempt not found'')
            | Some row \<Rightarrow> Inr (attempt_of row, led)) led)"

definition get_dispatch_intent ::
  "(string \<Rightarrow> pyfloat) \<Rightarrow> budget_policy \<Rightarrow> json option \<Rightarrow> string \<Rightarrow> ledger \<Rightarrow> (ledger, budget_error, dict) outcome" where
  "get_dispatch_intent pf policy clock attempt_id led =
     (case check_identifier (JStr attempt_id) ''attempt_id'' of
        Inl e \<Rightarrow> (Inl e, led)
      | Inr _ \<Rightarrow>
          transaction policy clock (\<lambda>eng now led.
            case select_row i_attempt attempt_id (intents led) of
              None \<Rightarrow> Inl (BudgetDenied ''dispatch intent not found'')
            | Some row \<Rightarrow>
                (case loads (plain_hooks pf) (i_payload row) of
                   Inr (JObj payload) \<Rightarrow> Inr (payload, led)
                 | _ \<Rightarrow> Inl (BudgetStoreError ''dispatch intent is malformed''))) led)"

section \<open>Dispatch\<close>

definition MAX_DISPATCH_INTENT_BYTES :: int where
  "MAX_DISPATCH_INTENT_BYTES = 64 * 1024"

text \<open>The approval window in milliseconds and the stored text of a dispatch intent.\<close>

definition check_dispatch_intent ::
  "(string \<Rightarrow> int option option) \<Rightarrow> dict \<Rightarrow> (budget_error, int \<times> int \<times> string) result" where
  "check_dispatch_intent fromiso data =
     bindE (timestamp_ms fromiso (dict_get data ''approval_issued_at'') ''approval_issued_at'') (\<lambda>issued.
     bindE (timestamp_ms fromiso (dict_get data ''approval_expires_at'') ''approval_expires_at'') (\<lambda>expires.
     bindE (guardE (issued < expires) (ValueError ''invalid dispatch approval window'')) (\<lambda>_.
     bindE (budget_canonical data) (\<lambda>payload.
       if int (length (utf8 payload)) > MAX_DISPATCH_INTENT_BYTES then Inl (ValueError ''dispatch intent exceeds size limit'')
       else Inr (issued, expires, payload)))))"

record dispatch_args =
  approval_receipt_id :: "string option"
  dispatch_intent :: "dict option"
  prerequisite_receipt_id :: "string option"
  expected_prerequisite :: "dict option"

definition no_dispatch_args :: dispatch_args where
  "no_dispatch_args = \<lparr>approval_receipt_id = None, dispatch_intent = None,
     prerequisite_receipt_id = None, expected_prerequisite = None\<rparr>"

text \<open>The arguments after their checks: what the transaction uses.\<close>

record dispatch_plan =
  dp_approval :: "string option"
  dp_window :: "(int \<times> int) option"
  dp_intent :: "string option"
  dp_prerequisite :: "(string \<times> string) option"

definition check_dispatch_args ::
  "(string \<Rightarrow> int option option) \<Rightarrow> string \<Rightarrow> dispatch_args \<Rightarrow> (budget_error, dispatch_plan) result" where
  "check_dispatch_args fromiso attempt_id args =
     bindE (check_identifier (JStr attempt_id) ''attempt_id'') (\<lambda>_.
     bindE (case approval_receipt_id args of
              None \<Rightarrow> Inr None
            | Some a \<Rightarrow> bindE (check_identifier (JStr a) ''approval_receipt_id'') (\<lambda>x. Inr (Some x))) (\<lambda>approval.
     bindE (guardE ((approval_receipt_id args = None) = (dispatch_intent args = None))
              (ValueError ''approval receipt and dispatch intent must be supplied together'')) (\<lambda>_.
     bindE (case dispatch_intent args of
              None \<Rightarrow> Inr None
            | Some data \<Rightarrow> bindE (check_dispatch_intent fromiso data) (\<lambda>x. Inr (Some x))) (\<lambda>intent.
     bindE (guardE ((prerequisite_receipt_id args = None) = (expected_prerequisite args = None))
              (ValueError ''prerequisite receipt and payload must be supplied together'')) (\<lambda>_.
     bindE (case (prerequisite_receipt_id args, expected_prerequisite args) of
              (Some p, Some d) \<Rightarrow>
                bindE (check_identifier (JStr p) ''prerequisite_receipt_id'') (\<lambda>x.
                bindE (budget_canonical d) (\<lambda>t. Inr (Some (x, t))))
            | _ \<Rightarrow> Inr None) (\<lambda>prerequisite.
       Inr \<lparr>dp_approval = approval,
         dp_window = map_option (\<lambda>(i, e, t). (i, e)) intent,
         dp_intent = map_option (\<lambda>(i, e, t). t) intent,
         dp_prerequisite = prerequisite\<rparr>))))))"

definition consume_prerequisite ::
  "string \<Rightarrow> (string \<times> string) option \<Rightarrow> ledger \<Rightarrow> (budget_error, ledger) result" where
  "consume_prerequisite attempt_id prerequisite led =
     (case prerequisite of
        None \<Rightarrow> Inr led
      | Some (rid, expected_payload) \<Rightarrow>
          (case select_row p_id rid (prerequisites led) of
             None \<Rightarrow> Inl (BudgetDenied ''validation prerequisite is missing or does not match'')
           | Some row \<Rightarrow>
               if p_payload row \<noteq> expected_payload then
                 Inl (BudgetDenied ''validation prerequisite is missing or does not match'')
               else if p_consumed_by row \<noteq> None then
                 Inl (BudgetDenied ''validation prerequisite was already consumed'')
               else
                 let hit = (\<lambda>r. p_id r = rid \<and> p_consumed_by r = None) in
                 if length (filter hit (prerequisites led)) \<noteq> 1 then
                   Inl (BudgetDenied ''validation prerequisite could not be consumed'')
                 else Inr (led\<lparr>prerequisites :=
                   update_rows hit (\<lambda>r. r\<lparr>p_consumed_by := Some attempt_id\<rparr>) (prerequisites led)\<rparr>)))"

definition consume_approval :: "string \<Rightarrow> string option \<Rightarrow> ledger \<Rightarrow> (budget_error, ledger) result" where
  "consume_approval attempt_id approval led =
     (case approval of
        None \<Rightarrow> Inr led
      | Some rid \<Rightarrow>
          if select_row ap_id rid (approvals led) \<noteq> None then
            Inl (BudgetDenied ''approval receipt was already consumed'')
          else if attempt_id \<in> ap_attempt ` set (approvals led) then Inl SqlError
          else Inr (led\<lparr>approvals := insert_row \<lparr>ap_id = rid, ap_attempt = attempt_id\<rparr> (approvals led)\<rparr>))"

definition record_intent :: "string \<Rightarrow> string option \<Rightarrow> ledger \<Rightarrow> (budget_error, ledger) result" where
  "record_intent attempt_id payload led =
     (case payload of
        None \<Rightarrow> Inr led
      | Some t \<Rightarrow>
          if attempt_id \<in> i_attempt ` set (intents led) then Inl SqlError
          else Inr (led\<lparr>intents := insert_row \<lparr>i_attempt = attempt_id, i_payload = t\<rparr> (intents led)\<rparr>))"

definition set_state :: "string \<Rightarrow> attempt_state \<Rightarrow> ledger \<Rightarrow> ledger" where
  "set_state attempt_id st led =
     led\<lparr>attempts := update_key a_id attempt_id (\<lambda>r. r\<lparr>a_state := st\<rparr>) (attempts led)\<rparr>"

definition dispatch_walk_check :: "engagement_row \<Rightarrow> int \<Rightarrow> attempt_row \<Rightarrow> budget_error option" where
  "dispatch_walk_check eng now row =
     (if a_state row = Released then Some (BudgetDenied ''ancestor attempt unavailable'')
      else if now - started_at eng > max_elapsed_ms (a_limits row) then Some (BudgetDenied ''subtree deadline expired'')
      else None)"

definition dispatch_body :: "budget_policy \<Rightarrow> string \<Rightarrow> dispatch_plan \<Rightarrow> attempt body" where
  "dispatch_body policy attempt_id plan eng now led =
     (case find_attempt attempt_id (attempts led) of
        None \<Rightarrow> Inl (BudgetDenied ''attempt not found'')
      | Some row \<Rightarrow>
          bindE (guardE (\<not> cancelled eng) (BudgetDenied ''engagement cancelled'')) (\<lambda>_.
          bindE (guardE (now - started_at eng \<le> max_elapsed_ms (policy_limits policy))
                   (BudgetDenied ''budget deadline expired'')) (\<lambda>_.
          bindE (guardE (a_state row = Reserved) (BudgetDenied ''attempt is not reserved'')) (\<lambda>_.
          bindE (walk_up (row_fuel (attempts led)) (attempts led) (dispatch_walk_check eng now) (Some row)) (\<lambda>_.
          bindE (guardE (case dp_window plan of None \<Rightarrow> True | Some (issued, expires) \<Rightarrow> issued \<le> now \<and> now < expires)
                   (BudgetDenied ''dispatch approval is not currently valid'')) (\<lambda>_.
          bindE (consume_prerequisite attempt_id (dp_prerequisite plan) led) (\<lambda>led1.
          bindE (consume_approval attempt_id (dp_approval plan) led1) (\<lambda>led2.
          bindE (record_intent attempt_id (dp_intent plan) led2) (\<lambda>led3.
            Inr (\<lparr>att_id = attempt_id, att_parent = a_parent row, att_state = Dispatched, att_depth = a_depth row\<rparr>,
                 set_state attempt_id Dispatched led3))))))))))"

definition mark_dispatched ::
  "(string \<Rightarrow> int option option) \<Rightarrow> budget_policy \<Rightarrow> json option \<Rightarrow> string \<Rightarrow> dispatch_args \<Rightarrow> ledger \<Rightarrow>
   (ledger, budget_error, attempt) outcome" where
  "mark_dispatched fromiso policy clock attempt_id args led =
     (case check_dispatch_args fromiso attempt_id args of
        Inl e \<Rightarrow> (Inl e, led)
      | Inr plan \<Rightarrow> transaction policy clock (dispatch_body policy attempt_id plan) led)"

definition mark_uncertain ::
  "budget_policy \<Rightarrow> json option \<Rightarrow> string \<Rightarrow> ledger \<Rightarrow> (ledger, budget_error, attempt) outcome" where
  "mark_uncertain policy clock attempt_id led =
     (case check_identifier (JStr attempt_id) ''attempt_id'' of
        Inl e \<Rightarrow> (Inl e, led)
      | Inr _ \<Rightarrow>
          transaction policy clock (\<lambda>eng now led.
            case find_attempt attempt_id (attempts led) of
              None \<Rightarrow> Inl (BudgetDenied ''no dispatch intent to mark uncertain'')
            | Some row \<Rightarrow>
                if a_state row \<notin> {Dispatched, Uncertain} then
                  Inl (BudgetDenied ''no dispatch intent to mark uncertain'')
                else Inr (\<lparr>att_id = attempt_id, att_parent = a_parent row, att_state = Uncertain, att_depth = a_depth row\<rparr>,
                  set_state attempt_id Uncertain led)) led)"

text \<open>The generator inside \<^verbatim>\<open>any\<close>: it stops at the first live descendant.\<close>

fun any_live_descendant :: "attempt_row list \<Rightarrow> string \<Rightarrow> attempt_row list \<Rightarrow> (budget_error, bool) result" where
  "any_live_descendant rows attempt_id [] = Inr False"
| "any_live_descendant rows attempt_id (cand # cands) =
     (if a_id cand \<noteq> attempt_id \<and> a_state cand \<noteq> Released then
        bindE (descends_from (row_fuel rows) rows cand attempt_id) (\<lambda>d.
          if d then Inr True else any_live_descendant rows attempt_id cands)
      else any_live_descendant rows attempt_id cands)"

definition release_undispatched ::
  "budget_policy \<Rightarrow> json option \<Rightarrow> string \<Rightarrow> ledger \<Rightarrow> (ledger, budget_error, attempt) outcome" where
  "release_undispatched policy clock attempt_id led =
     (case check_identifier (JStr attempt_id) ''attempt_id'' of
        Inl e \<Rightarrow> (Inl e, led)
      | Inr _ \<Rightarrow>
          transaction policy clock (\<lambda>eng now led.
            case find_attempt attempt_id (attempts led) of
              None \<Rightarrow> Inl (BudgetDenied ''attempt may be in flight'')
            | Some row \<Rightarrow>
                if a_state row \<notin> {Reserved, Released} then Inl (BudgetDenied ''attempt may be in flight'')
                else bindE (any_live_descendant (attempts led) attempt_id (attempts led)) (\<lambda>live.
                  if live then Inl (BudgetDenied ''attempt has live descendants'')
                  else Inr (\<lparr>att_id = attempt_id, att_parent = a_parent row, att_state = Released, att_depth = a_depth row\<rparr>,
                    set_state attempt_id Released led))) led)"

section \<open>Reconciliation\<close>

text \<open>The shared argument checks of \<^verbatim>\<open>reconcile\<close> and \<^verbatim>\<open>reconciliation_is_durable\<close>.\<close>

definition check_prerequisite_args ::
  "receipt \<Rightarrow> string option \<Rightarrow> dict option \<Rightarrow> (budget_error, (string \<times> string) option) result" where
  "check_prerequisite_args rcpt prerequisite_id prerequisite =
     bindE (guardE ((prerequisite_id = None) = (prerequisite = None))
              (ValueError ''validation prerequisite id and payload must be supplied together'')) (\<lambda>_.
     case (prerequisite_id, prerequisite) of
       (Some p, Some d) \<Rightarrow>
         bindE (check_identifier (JStr p) ''validation_prerequisite_id'') (\<lambda>_.
         bindE (budget_canonical d) (\<lambda>payload.
         if rcpt_outcome rcpt \<noteq> ''completed''
         then Inl (ValueError ''only a completed attempt can establish a validation prerequisite'')
         else Inr (Some (p, payload))))
     | _ \<Rightarrow> Inr None)"

definition receipt_state :: "receipt \<Rightarrow> attempt_state" where
  "receipt_state rcpt =
     (if rcpt_tokens rcpt \<noteq> None \<and> rcpt_cost rcpt \<noteq> None \<and> rcpt_output rcpt \<noteq> None then Settled else Usage_unknown)"

definition prerequisite_matches :: "receipt \<Rightarrow> string \<Rightarrow> prerequisite_row \<Rightarrow> bool" where
  "prerequisite_matches rcpt payload row \<longleftrightarrow> p_source row = rcpt_attempt_id rcpt \<and> p_payload row = payload"

definition reconcile_duplicate ::
  "receipt \<Rightarrow> (string \<times> string) option \<Rightarrow> attempt_row \<Rightarrow> ledger \<Rightarrow> (budget_error, attempt \<times> ledger) result" where
  "reconcile_duplicate rcpt prerequisite row led =
     (case prerequisite of
        None \<Rightarrow> Inr (attempt_of row, led)
      | Some (pid, payload) \<Rightarrow>
          (case select_row p_id pid (prerequisites led) of
             None \<Rightarrow> Inl (BudgetDenied ''duplicate receipt cannot establish a validation prerequisite'')
           | Some existing \<Rightarrow>
               if prerequisite_matches rcpt payload existing then Inr (attempt_of row, led)
               else Inl (BudgetDenied ''duplicate receipt cannot establish a validation prerequisite'')))"

definition revises :: "int option \<Rightarrow> int option \<Rightarrow> bool" where
  "revises stored reported \<longleftrightarrow> stored \<noteq> None \<and> stored \<noteq> reported"

definition revision_conflict :: "receipt \<Rightarrow> attempt_row \<Rightarrow> bool" where
  "revision_conflict rcpt row \<longleftrightarrow>
     Some (rcpt_outcome rcpt) \<noteq> a_outcome row \<or>
     revises (act_tokens row) (rcpt_tokens rcpt) \<or>
     revises (act_cost row) (rcpt_cost rcpt) \<or>
     revises (act_output row) (rcpt_output rcpt)"

definition establish_prerequisite ::
  "receipt \<Rightarrow> (string \<times> string) option \<Rightarrow> ledger \<Rightarrow> (budget_error, ledger) result" where
  "establish_prerequisite rcpt prerequisite led =
     (case prerequisite of
        None \<Rightarrow> Inr led
      | Some (pid, payload) \<Rightarrow>
          (case select_row p_id pid (prerequisites led) of
             Some existing \<Rightarrow>
               if prerequisite_matches rcpt payload existing then Inr led
               else Inl (BudgetDenied ''conflicting validation prerequisite'')
           | None \<Rightarrow>
               if select_row p_source (rcpt_attempt_id rcpt) (prerequisites led) \<noteq> None
               then Inl (BudgetDenied ''attempt already established a validation prerequisite'')
               else Inr (led\<lparr>prerequisites := insert_row
                 \<lparr>p_id = pid, p_source = rcpt_attempt_id rcpt, p_payload = payload, p_consumed_by = None\<rparr>
                 (prerequisites led)\<rparr>)))"

definition apply_receipt :: "receipt \<Rightarrow> attempt_row \<Rightarrow> attempt_row" where
  "apply_receipt rcpt row =
     row\<lparr>a_state := receipt_state rcpt, act_tokens := rcpt_tokens rcpt, act_cost := rcpt_cost rcpt,
       act_output := rcpt_output rcpt, a_outcome := Some (rcpt_outcome rcpt)\<rparr>"

definition reconcile_fresh ::
  "receipt \<Rightarrow> (string \<times> string) option \<Rightarrow> attempt_row \<Rightarrow> ledger \<Rightarrow> (budget_error, attempt \<times> ledger) result" where
  "reconcile_fresh rcpt prerequisite row led =
     bindE (guardE (a_state row \<in> {Dispatched, Uncertain, Usage_unknown})
              (BudgetDenied ''conflicting terminal receipt'')) (\<lambda>_.
     bindE (guardE (\<not> (a_state row = Usage_unknown \<and> revision_conflict rcpt row))
              (BudgetDenied ''conflicting receipt revision'')) (\<lambda>_.
     bindE (guardE (case rcpt_output rcpt of None \<Rightarrow> True | Some b \<Rightarrow> b \<le> res_output row)
              (BudgetDenied ''retained output exceeds reservation'')) (\<lambda>_.
     bindE (establish_prerequisite rcpt prerequisite led) (\<lambda>led1.
       Inr (\<lparr>att_id = rcpt_attempt_id rcpt, att_parent = a_parent row, att_state = receipt_state rcpt,
              att_depth = a_depth row\<rparr>,
            led1\<lparr>attempts := update_key a_id (rcpt_attempt_id rcpt) (apply_receipt rcpt) (attempts led1),
              receipts := insert_row \<lparr>r_id = rcpt_id rcpt, r_attempt = rcpt_attempt_id rcpt, r_payload = rcpt\<rparr>
                (receipts led1)\<rparr>)))))"

definition reconcile_body :: "receipt \<Rightarrow> (string \<times> string) option \<Rightarrow> attempt body" where
  "reconcile_body rcpt prerequisite eng now led =
     (let duplicate = select_row r_id (rcpt_id rcpt) (receipts led) in
      bindE (guardE (case duplicate of None \<Rightarrow> True | Some d \<Rightarrow> r_payload d = rcpt)
               (BudgetDenied ''conflicting receipt id reuse'')) (\<lambda>_.
      case find_attempt (rcpt_attempt_id rcpt) (attempts led) of
        None \<Rightarrow> Inl (BudgetDenied ''attempt not found'')
      | Some row \<Rightarrow>
          if duplicate \<noteq> None then reconcile_duplicate rcpt prerequisite row led
          else reconcile_fresh rcpt prerequisite row led))"

definition reconcile ::
  "budget_policy \<Rightarrow> json option \<Rightarrow> receipt \<Rightarrow> string option \<Rightarrow> dict option \<Rightarrow> ledger \<Rightarrow>
   (ledger, budget_error, attempt) outcome" where
  "reconcile policy clock rcpt prerequisite_id prerequisite led =
     (case check_prerequisite_args rcpt prerequisite_id prerequisite of
        Inl e \<Rightarrow> (Inl e, led)
      | Inr pre \<Rightarrow> transaction policy clock (reconcile_body rcpt pre) led)"

definition reconciliation_is_durable ::
  "budget_policy \<Rightarrow> receipt \<Rightarrow> string option \<Rightarrow> dict option \<Rightarrow> ledger \<Rightarrow> (budget_error, bool) result" where
  "reconciliation_is_durable policy rcpt prerequisite_id prerequisite led =
     bindE (check_prerequisite_args rcpt prerequisite_id prerequisite) (\<lambda>pre.
     if map_option eng_policy (engagement led) \<noteq> Some policy
     then Inl (BudgetStoreError ''budget policy or engagement missing'')
     else
       (case select_row r_id (rcpt_id rcpt) (receipts led) of
          None \<Rightarrow> Inr False
        | Some stored \<Rightarrow>
            if r_attempt stored \<noteq> rcpt_attempt_id rcpt \<or> r_payload stored \<noteq> rcpt then Inr False
            else
              (case find_attempt (rcpt_attempt_id rcpt) (attempts led) of
                 None \<Rightarrow> Inr False
               | Some row \<Rightarrow>
                   if a_state row \<noteq> receipt_state rcpt \<or> act_tokens row \<noteq> rcpt_tokens rcpt \<or>
                      act_cost row \<noteq> rcpt_cost rcpt \<or> act_output row \<noteq> rcpt_output rcpt \<or>
                      a_outcome row \<noteq> Some (rcpt_outcome rcpt)
                   then Inr False
                   else
                     (case pre of
                        Some (pid, payload) \<Rightarrow>
                          (case select_row p_id pid (prerequisites led) of
                             None \<Rightarrow> Inr False
                           | Some p \<Rightarrow> Inr (p_source p = rcpt_attempt_id rcpt \<and> p_payload p = payload \<and> p_consumed_by p = None))
                      | None \<Rightarrow> Inr (select_row p_source (rcpt_attempt_id rcpt) (prerequisites led) = None)))))"

section \<open>Cancellation, usage and deadlines\<close>

text \<open>The two \<^verbatim>\<open>UPDATE attempts\<close> statements, in order.\<close>

definition cancel_rows :: "attempt_row list \<Rightarrow> attempt_row list" where
  "cancel_rows rows =
     update_rows (\<lambda>r. a_state r = Reserved) (\<lambda>r. r\<lparr>a_state := Released\<rparr>)
       (update_rows (\<lambda>r. a_state r \<in> {Reserved, Dispatched, Uncertain}) (\<lambda>r. r\<lparr>cancel_requested := True\<rparr>) rows)"

definition cancel_body :: "unit body" where
  "cancel_body eng now led =
     Inr ((), led\<lparr>engagement := map_option (\<lambda>e. e\<lparr>cancelled := True\<rparr>) (engagement led),
       attempts := cancel_rows (attempts led)\<rparr>)"

definition cancel :: "budget_policy \<Rightarrow> json option \<Rightarrow> ledger \<Rightarrow> (ledger, budget_error, unit) outcome" where
  "cancel policy clock = transaction policy clock cancel_body"

definition report_of :: "attempt_row \<Rightarrow> cancel_report" where
  "report_of row =
     (let requested = cancel_requested row;
          final = a_state row \<in> {Released, Settled};
          confirmed = requested \<and>
            (a_state row = Released \<or> a_outcome row \<in> {Some ''runner_stopped'', Some ''cancelled''})
      in \<lparr>rep_attempt_id = a_id row, rep_requested = requested, rep_stop_confirmed = confirmed,
          rep_pending = requested \<and> \<not> final, rep_final_consumption_known = final, rep_outcome = a_outcome row\<rparr>)"

definition cancellation_report ::
  "budget_policy \<Rightarrow> json option \<Rightarrow> string \<Rightarrow> ledger \<Rightarrow> (ledger, budget_error, cancel_report) outcome" where
  "cancellation_report policy clock attempt_id led =
     (case check_identifier (JStr attempt_id) ''attempt_id'' of
        Inl e \<Rightarrow> (Inl e, led)
      | Inr _ \<Rightarrow>
          transaction policy clock (\<lambda>eng now led.
            case find_attempt attempt_id (attempts led) of
              None \<Rightarrow> Inl (BudgetDenied ''attempt not found'')
            | Some row \<Rightarrow> Inr (report_of row, led)) led)"

definition budget_snapshot :: "budget_policy \<Rightarrow> json option \<Rightarrow> ledger \<Rightarrow> (ledger, budget_error, snapshot) outcome" where
  "budget_snapshot policy clock =
     transaction policy clock (\<lambda>eng now led.
       bindE (charged (attempts led)) (\<lambda>s. Inr (s\<lparr>over_budget := \<not> within_limits s (policy_limits policy)\<rparr>, led)))"

definition remaining_elapsed_ms ::
  "budget_policy \<Rightarrow> json option \<Rightarrow> string option \<Rightarrow> ledger \<Rightarrow> (ledger, budget_error, int) outcome" where
  "remaining_elapsed_ms policy clock attempt_id led =
     (case (case attempt_id of None \<Rightarrow> Inr [] | Some a \<Rightarrow> check_identifier (JStr a) ''attempt_id'') of
        Inl e \<Rightarrow> (Inl e, led)
      | Inr _ \<Rightarrow>
          transaction policy clock (\<lambda>eng now led.
            let elapsed = now - started_at eng; remaining = max_elapsed_ms (policy_limits policy) - elapsed in
            case attempt_id of
              None \<Rightarrow> Inr (max 0 remaining, led)
            | Some a \<Rightarrow>
                (case find_attempt a (attempts led) of
                   None \<Rightarrow> Inl (BudgetDenied ''attempt not found'')
                 | Some row \<Rightarrow>
                     bindE (walk_up (row_fuel (attempts led)) (attempts led) (\<lambda>_. None) (Some row)) (\<lambda>visited.
                       Inr (max 0 (foldl (\<lambda>m r. min m (max_elapsed_ms (a_limits r) - elapsed)) remaining visited), led)))) led)"

section \<open>The synthetic dispatch fixture\<close>

definition cancellation_requested ::
  "budget_policy \<Rightarrow> json option \<Rightarrow> string \<Rightarrow> ledger \<Rightarrow> (ledger, budget_error, bool) outcome" where
  "cancellation_requested policy clock attempt_id led =
     (case cancellation_report policy clock attempt_id led of
        (Inl e, led') \<Rightarrow> (Inl e, led')
      | (Inr r, led') \<Rightarrow> (Inr (rep_requested r), led'))"

text \<open>
  \<open>callback\<close> is the caller's function: it may read the ledger through the cancellation signal, so it
  takes and returns the ledger. \<open>clocks n\<close> is the clock at the fixture's \<open>n\<close>-th transaction.
\<close>

definition fixture_failed ::
  "budget_policy \<Rightarrow> json option \<Rightarrow> attempt_request \<Rightarrow> budget_error \<Rightarrow> ledger \<Rightarrow> (ledger, budget_error, attempt) outcome" where
  "fixture_failed policy clock request err led =
     (case mark_uncertain policy clock (req_attempt_id request) led of
        (Inl e, led') \<Rightarrow> (Inl e, led')
      | (Inr _, led') \<Rightarrow> (Inl err, led'))"

definition dispatch_fixture ::
  "(string \<Rightarrow> int option option) \<Rightarrow> budget_policy \<Rightarrow> (nat \<Rightarrow> json option) \<Rightarrow> attempt_request \<Rightarrow>
   (attempt_request \<Rightarrow> ledger \<Rightarrow> (ledger, budget_error, receipt) outcome) \<Rightarrow> ledger \<Rightarrow> (ledger, budget_error, attempt) outcome" where
  "dispatch_fixture fromiso policy clocks request callback led =
     (case reserve policy (clocks 0) request None led of
        (Inl e, led1) \<Rightarrow> (Inl e, led1)
      | (Inr _, led1) \<Rightarrow>
          (case mark_dispatched fromiso policy (clocks 1) (req_attempt_id request) no_dispatch_args led1 of
             (Inl e, led2) \<Rightarrow> (Inl e, led2)
           | (Inr _, led2) \<Rightarrow>
               (case callback request led2 of
                  (Inl e, led3) \<Rightarrow> fixture_failed policy (clocks 3) request e led3
                | (Inr rcpt, led3) \<Rightarrow>
                    if rcpt_attempt_id rcpt \<noteq> req_attempt_id request then
                      fixture_failed policy (clocks 3) request (BudgetDenied ''receipt attempt mismatch'') led3
                    else
                      (case reconcile policy (clocks 2) rcpt None None led3 of
                         (Inl e, led4) \<Rightarrow> fixture_failed policy (clocks 3) request e led4
                       | (Inr a, led4) \<Rightarrow> (Inr a, led4)))))"

end
