(* ===== verification/Budget_Text.thy ===== *)
theory Budget_Text
  imports Budget
begin

text \<open>
  The JSON texts that \<^verbatim>\<open>assessment_budget.py\<close> stores for its own dataclasses. The ledger model holds
  the records instead of the texts; the lemmas here are the licence for that: comparing the
  texts decides equality of the records, and the limits a row stores read back as they were.
\<close>

section \<open>The dictionaries behind the texts\<close>

definition limits_dict :: "limits \<Rightarrow> dict" where
  "limits_dict l = [
     (''max_attempts'', JInt (max_attempts l)),
     (''max_estimated_tokens'', JInt (max_estimated_tokens l)),
     (''max_estimated_cost_microunits'', JInt (max_estimated_cost_microunits l)),
     (''max_elapsed_ms'', JInt (max_elapsed_ms l)),
     (''max_concurrency'', JInt (max_concurrency l)),
     (''max_retained_output_bytes'', JInt (max_retained_output_bytes l)),
     (''max_depth'', JInt (max_depth l)),
     (''max_children_per_parent'', JInt (max_children_per_parent l))]"

definition opt_str :: "string option \<Rightarrow> json" where
  "opt_str x = (case x of None \<Rightarrow> JNull | Some s \<Rightarrow> JStr s)"

definition opt_int :: "int option \<Rightarrow> json" where
  "opt_int x = (case x of None \<Rightarrow> JNull | Some i \<Rightarrow> JInt i)"

definition request_dict :: "attempt_request \<Rightarrow> dict" where
  "request_dict r = [
     (''attempt_id'', JStr (req_attempt_id r)),
     (''parent_id'', opt_str (req_parent_id r)),
     (''estimated_tokens'', JInt (req_tokens r)),
     (''estimated_cost_microunits'', JInt (req_cost r)),
     (''reserved_output_bytes'', JInt (req_output r))]"

definition receipt_dict :: "receipt \<Rightarrow> dict" where
  "receipt_dict r = [
     (''receipt_id'', JStr (rcpt_id r)),
     (''attempt_id'', JStr (rcpt_attempt_id r)),
     (''outcome'', JStr (rcpt_outcome r)),
     (''tokens'', opt_int (rcpt_tokens r)),
     (''cost_microunits'', opt_int (rcpt_cost r)),
     (''retained_output_bytes'', opt_int (rcpt_output r))]"

definition policy_dict :: "budget_policy \<Rightarrow> dict" where
  "policy_dict p = [
     (''engagement_id'', JStr (engagement_id p)),
     (''limits'', JObj (limits_dict (policy_limits p))),
     (''currency'', JStr (currency p)),
     (''price_source'', JStr (price_source p)),
     (''price_version'', JStr (price_version p)),
     (''price_effective_date'', JStr (price_effective_date p)),
     (''schema_version'', JStr (schema_version p)),
     (''price_error_policy'', JStr (price_error_policy p))]"

definition stored_text :: "dict \<Rightarrow> string" where
  "stored_text d = dumps True (JObj d)"

text \<open>What the constructors promise of the integers they accept.\<close>

definition int_range :: "bool \<Rightarrow> int \<Rightarrow> bool" where
  "int_range positive i \<longleftrightarrow> (if positive then 1 else 0) \<le> i \<and> i \<le> 2 ^ 63 - 1"

definition valid_limits :: "limits \<Rightarrow> bool" where
  "valid_limits l \<longleftrightarrow>
     int_range True (max_attempts l) \<and> int_range True (max_estimated_tokens l) \<and>
     int_range True (max_estimated_cost_microunits l) \<and> int_range True (max_elapsed_ms l) \<and>
     int_range True (max_concurrency l) \<and> int_range True (max_retained_output_bytes l) \<and>
     int_range False (max_depth l) \<and> int_range True (max_children_per_parent l)"

definition valid_request :: "attempt_request \<Rightarrow> bool" where
  "valid_request r \<longleftrightarrow> ID_match (req_attempt_id r) \<and>
     (case req_parent_id r of None \<Rightarrow> True | Some p \<Rightarrow> ID_match p \<and> p \<noteq> req_attempt_id r) \<and>
     int_range False (req_tokens r) \<and> int_range False (req_cost r) \<and> int_range False (req_output r)"

definition valid_opt :: "int option \<Rightarrow> bool" where
  "valid_opt x \<longleftrightarrow> (case x of None \<Rightarrow> True | Some i \<Rightarrow> int_range False i)"

definition valid_receipt :: "receipt \<Rightarrow> bool" where
  "valid_receipt r \<longleftrightarrow> ID_match (rcpt_id r) \<and> ID_match (rcpt_attempt_id r) \<and> rcpt_outcome r \<in> set OUTCOMES \<and>
     valid_opt (rcpt_tokens r) \<and> valid_opt (rcpt_cost r) \<and> valid_opt (rcpt_output r)"

definition valid_policy :: "budget_policy \<Rightarrow> bool" where
  "valid_policy p \<longleftrightarrow> ID_match (engagement_id p) \<and> valid_limits (policy_limits p) \<and> currency_match (currency p) \<and>
     ID_match (price_source p) \<and> ID_match (price_version p) \<and> iso_date (price_effective_date p) \<noteq> None \<and>
     schema_version p = ''cops.assessment-budget/v1'' \<and> price_error_policy p = ''deny''"

section \<open>The constructors establish validity\<close>

lemma integer_value_ok: "integer_value v f pos = Inr i \<longleftrightarrow> v = JInt i \<and> int_range pos i"
  by (cases v) (auto simp: integer_value_def int_range_def not_less)

lemma check_identifier_ok: "check_identifier v f = Inr s \<longleftrightarrow> v = JStr s \<and> ID_match s"
  by (cases v) (auto simp: check_identifier_def)

lemma optional_integer_ok: "optional_integer v f = Inr x \<longleftrightarrow> v = opt_int x \<and> valid_opt x"
  by (cases x) (auto simp: optional_integer_def bindE_Inr_iff integer_value_ok opt_int_def valid_opt_def)

lemma BudgetLimits_ok: "BudgetLimits arg = Inr l \<Longrightarrow> valid_limits l"
  by (auto simp: BudgetLimits_def bindE_Inr_iff integer_value_ok valid_limits_def)

lemma AttemptRequest_ok: "AttemptRequest a p t c b = Inr r \<Longrightarrow> valid_request r"
  by (auto simp: AttemptRequest_def bindE_Inr_iff integer_value_ok check_identifier_ok valid_request_def
      split: if_splits)

lemma Receipt_ok: "Receipt i a oc t c b = Inr r \<Longrightarrow> valid_receipt r"
  by (auto simp: Receipt_def bindE_Inr_iff optional_integer_ok check_identifier_ok valid_receipt_def
      split: if_splits json.splits)

lemma BudgetPolicy_ok: "valid_limits l \<Longrightarrow> BudgetPolicy e l c s v d sc ep = Inr p \<Longrightarrow> valid_policy p"
  by (auto simp: BudgetPolicy_def bindE_Inr_iff check_identifier_ok valid_policy_def
      split: if_splits json.splits)

section \<open>Texts decide equality\<close>

lemma nat_text_length: "n < 10 ^ Suc k \<Longrightarrow> length (nat_text n) \<le> Suc k"
proof (induction k arbitrary: n)
  case (Suc k)
  have "n div 10 < 10 ^ Suc k" using Suc.prems by (simp add: div_less_iff_less_mult)
  from Suc.IH [OF this] show ?case by (subst nat_text.simps) simp
qed (simp add: nat_text.simps)

lemma json_ok_int_range: "int_range pos i \<Longrightarrow> json_ok (JInt i)"
proof -
  assume "int_range pos i"
  then have "nat \<bar>i\<bar> < 10 ^ Suc 18" by (auto simp: int_range_def split: if_splits)
  from nat_text_length [OF this] show ?thesis by (simp add: MAX_INT_DIGITS_def)
qed

lemma json_ok_opt: "valid_opt x \<Longrightarrow> json_ok (opt_int x)" "json_ok (opt_str y)"
  using json_ok_int_range [of False] by (auto simp: valid_opt_def opt_int_def opt_str_def split: option.splits)

lemma map_of_item: "distinct (map fst x) \<Longrightarrow> i < length x \<Longrightarrow> map_of x (fst (x ! i)) = Some (snd (x ! i))"
  by (rule map_of_is_SomeI) auto

lemma sorted_items_eq:
  fixes d e :: "(string \<times> 'v) list"
  assumes "distinct (map fst d)" "map fst d = map fst e" "sort_key fst d = sort_key fst e"
  shows "d = e"
proof -
  have sets: "set d = set e" by (metis assms(3) set_sort)
  have "map_of d = map_of e" using assms sets by (intro map_of_eqI) (auto simp: map_of_eq_Some_iff)
  moreover have "zip (map fst x) (map (the \<circ> map_of x) (map fst x)) = x"
    if "distinct (map fst x)" for x :: "(string \<times> 'v) list"
    using that by (intro nth_equalityI) (auto simp: prod_eq_iff map_of_item)
  ultimately show ?thesis using assms(1,2) by metis
qed

lemma norm_obj_eqD:
  assumes "distinct (map fst d)" "map fst d = map fst e" "norm_json pf (JObj d) = norm_json pf (JObj e)"
  shows "map (norm_json pf \<circ> snd) d = map (norm_json pf \<circ> snd) e"
proof -
  have "map (map_prod id (norm_json pf)) d = map (map_prod id (norm_json pf)) e"
    by (rule sorted_items_eq) (use assms in \<open>simp_all add: comp_def\<close>)
  then have "map snd (map (map_prod id (norm_json pf)) d) = map snd (map (map_prod id (norm_json pf)) e)"
    by (simp only:)
  then show ?thesis by (simp add: comp_def)
qed

lemma limits_keys:
  "map fst (limits_dict l) = map fst (limits_dict l')" "distinct (map fst (limits_dict l))"
  by (simp_all add: limits_dict_def)

lemma limits_json_ok: "valid_limits l \<Longrightarrow> json_ok (JObj (limits_dict l))"
  using limits_keys(2) [of l]
  by (simp add: limits_dict_def valid_limits_def) (auto dest!: json_ok_int_range)

lemma norm_limits_inj: "norm_json pf (JObj (limits_dict l)) = norm_json pf (JObj (limits_dict l')) \<longleftrightarrow> l = l'"
  by (auto dest!: norm_obj_eqD [OF limits_keys(2) limits_keys(1)] simp del: norm_json.simps(7))
    (simp add: limits_dict_def)

lemma opt_inj [simp]: "opt_int x = opt_int y \<longleftrightarrow> x = y" "opt_str s = opt_str t \<longleftrightarrow> s = t"
  by (auto simp: opt_int_def opt_str_def split: option.splits)

lemma norm_opt [simp]: "norm_json pf (opt_int x) = opt_int x" "norm_json pf (opt_str s) = opt_str s"
  by (auto simp: opt_int_def opt_str_def split: option.splits)

lemma request_json_ok: "valid_request r \<Longrightarrow> json_ok (JObj (request_dict r))"
  by (simp add: request_dict_def valid_request_def json_ok_opt del: json_ok.simps(3))
    (auto dest!: json_ok_int_range)

lemma receipt_json_ok: "valid_receipt r \<Longrightarrow> json_ok (JObj (receipt_dict r))"
  by (simp add: receipt_dict_def valid_receipt_def json_ok_opt)

lemma policy_json_ok: "valid_policy p \<Longrightarrow> json_ok (JObj (policy_dict p))"
  using limits_json_ok [of "policy_limits p"] by (simp add: policy_dict_def valid_policy_def del: json_ok.simps(7)) simp

lemma obj_text_inj:
  assumes "json_ok (JObj d)" "json_ok (JObj e)" "map fst d = map fst e" "stored_text d = stored_text e"
  shows "map (norm_json text_float \<circ> snd) d = map (norm_json text_float \<circ> snd) e"
  using assms dumps_eq_iff [OF assms(1,2), of True]
  by (intro norm_obj_eqD) (simp_all add: stored_text_def)

lemma limits_text_inj:
  "valid_limits l \<Longrightarrow> valid_limits l' \<Longrightarrow> stored_text (limits_dict l) = stored_text (limits_dict l') \<longleftrightarrow> l = l'"
  using obj_text_inj [OF limits_json_ok limits_json_ok limits_keys(1), of l l']
  by (auto simp: limits_dict_def)

lemma request_text_inj:
  assumes "valid_request r" "valid_request r'"
  shows "stored_text (request_dict r) = stored_text (request_dict r') \<longleftrightarrow> r = r'"
  using obj_text_inj [OF request_json_ok [OF assms(1)] request_json_ok [OF assms(2)]]
  by (auto simp: request_dict_def)

lemma receipt_text_inj:
  assumes "valid_receipt r" "valid_receipt r'"
  shows "stored_text (receipt_dict r) = stored_text (receipt_dict r') \<longleftrightarrow> r = r'"
  using obj_text_inj [OF receipt_json_ok [OF assms(1)] receipt_json_ok [OF assms(2)]]
  by (auto simp: receipt_dict_def)

lemma policy_text_inj:
  assumes "valid_policy p" "valid_policy p'"
  shows "stored_text (policy_dict p) = stored_text (policy_dict p') \<longleftrightarrow> p = p'"
proof
  assume "stored_text (policy_dict p) = stored_text (policy_dict p')"
  with obj_text_inj [OF policy_json_ok [OF assms(1)] policy_json_ok [OF assms(2)]]
  have "map (norm_json text_float \<circ> snd) (policy_dict p) = map (norm_json text_float \<circ> snd) (policy_dict p')"
    by (simp add: policy_dict_def)
  then show "p = p'"
    by (simp add: policy_dict_def norm_limits_inj del: norm_json.simps(7))
qed simp

lemma limits_dict_get:
  "dict_get (map (map_prod id (norm_json pf)) (limits_dict l)) k = dict_get (limits_dict l) k"
  by (simp add: limits_dict_def)

lemma BudgetLimits_dict:
  "valid_limits l \<Longrightarrow> (\<And>k. g k = dict_get (limits_dict l) k) \<Longrightarrow> BudgetLimits (\<lambda>k. the (g k)) = Inr l"
  by (simp add: BudgetLimits_def bindE_Inr_iff integer_value_ok valid_limits_def limits_dict_def)

text \<open>
  The JSON columns of the ledger are faithful: for values the constructors accept, the stored
  texts of two limits, requests, receipts or policies are equal exactly when the values are, and
  \<^verbatim>\<open>BudgetLimits(**json.loads(limits_json))\<close> gives back the limits that were stored.
\<close>

theorem ledger_texts_faithful:
  "(valid_limits l \<and> valid_limits l' \<longrightarrow> (stored_text (limits_dict l) = stored_text (limits_dict l') \<longleftrightarrow> l = l')) \<and>
   (valid_request r \<and> valid_request r' \<longrightarrow> (stored_text (request_dict r) = stored_text (request_dict r') \<longleftrightarrow> r = r')) \<and>
   (valid_receipt c \<and> valid_receipt c' \<longrightarrow> (stored_text (receipt_dict c) = stored_text (receipt_dict c') \<longleftrightarrow> c = c')) \<and>
   (valid_policy p \<and> valid_policy p' \<longrightarrow> (stored_text (policy_dict p) = stored_text (policy_dict p') \<longleftrightarrow> p = p')) \<and>
   (valid_limits l \<longrightarrow>
      (\<exists>d. loads (plain_hooks pf) (stored_text (limits_dict l)) = Inr (JObj d) \<and>
           BudgetLimits (\<lambda>k. the (dict_get d k)) = Inr l))"
proof (intro conjI impI)
  assume v: "valid_limits l"
  let ?e = "map (map_prod id (norm_json pf)) (limits_dict l)"
  have "loads (plain_hooks pf) (stored_text (limits_dict l)) = Inr (JObj (sort_key fst ?e))"
    using loads_dumps [OF plain_hooks_keep limits_json_ok [OF v], of pf True] by (simp add: stored_text_def)
  moreover have "BudgetLimits (\<lambda>k. the (dict_get (sort_key fst ?e) k)) = Inr l"
  proof (rule BudgetLimits_dict [OF v])
    have "distinct (map fst ?e)" using limits_keys(2) [of l] by (simp add: comp_def)
    then show "dict_get (sort_key fst ?e) k = dict_get (limits_dict l) k" for k
      by (simp only: dict_get_sorted limits_dict_get)
  qed
  ultimately show "\<exists>d. loads (plain_hooks pf) (stored_text (limits_dict l)) = Inr (JObj d) \<and>
      BudgetLimits (\<lambda>k. the (dict_get d k)) = Inr l" by blast
qed (auto simp: limits_text_inj request_text_inj receipt_text_inj policy_text_inj)

theorem ledger_texts_faithful_witness:
  "let l = \<lparr>max_attempts = 3, max_estimated_tokens = 100, max_estimated_cost_microunits = 50, max_elapsed_ms = 1000,
       max_concurrency = 2, max_retained_output_bytes = 10, max_depth = 1, max_children_per_parent = 2\<rparr> in
   valid_limits l \<and>
   (\<exists>d. loads (plain_hooks (\<lambda>_. NanF)) (stored_text (limits_dict l)) = Inr (JObj d) \<and>
        BudgetLimits (\<lambda>k. the (dict_get d k)) = Inr l)"
proof -
  let ?l = "\<lparr>max_attempts = 3, max_estimated_tokens = 100, max_estimated_cost_microunits = 50, max_elapsed_ms = 1000,
       max_concurrency = 2, max_retained_output_bytes = 10, max_depth = 1, max_children_per_parent = 2\<rparr>"
  have "valid_limits ?l" by (simp add: valid_limits_def int_range_def)
  with ledger_texts_faithful [of ?l _ _ _ _ _ _ _ "\<lambda>_. NanF"] show ?thesis by (simp add: Let_def)
qed

end
