(* ===== verification/Budget_Inv.thy ===== *)
theory Budget_Inv
  imports Budget_Text
begin

text \<open>
  The ledger's invariant. \<open>row_step\<close> is the state machine of one attempt; \<open>ledger_inv\<close> says that the
  parent links form a forest whose depth and limits are inherited, that the tables refer to each
  other consistently, and that attempts, retained output and concurrency stay within the limits of
  the engagement and of every subtree. Every operation keeps it, so in a reachable ledger the
  walks along parent links end and no statement fails.
\<close>

section \<open>One attempt\<close>

inductive row_step :: "attempt_row \<Rightarrow> attempt_row \<Rightarrow> bool" where
  dispatch: "a_state r = Reserved \<Longrightarrow> row_step r (r\<lparr>a_state := Dispatched\<rparr>)"
| lost: "a_state r \<in> {Dispatched, Uncertain} \<Longrightarrow> row_step r (r\<lparr>a_state := Uncertain\<rparr>)"
| release: "a_state r \<in> {Reserved, Released} \<Longrightarrow> row_step r (r\<lparr>a_state := Released\<rparr>)"
| request_cancel: "a_state r \<in> set ACTIVE \<Longrightarrow> row_step r (r\<lparr>cancel_requested := True\<rparr>)"
| reconciled: "a_state r \<in> {Dispatched, Uncertain, Usage_unknown} \<Longrightarrow>
    \<not> (a_state r = Usage_unknown \<and> revision_conflict rcpt r) \<Longrightarrow>
    (case rcpt_output rcpt of None \<Rightarrow> True | Some b \<Rightarrow> b \<le> res_output r) \<Longrightarrow>
    valid_receipt rcpt \<Longrightarrow> row_step r (apply_receipt rcpt r)"

text \<open>The columns no operation changes.\<close>

definition fixed_part :: "attempt_row \<Rightarrow> string \<times> string option \<times> attempt_request \<times> limits \<times> int \<times> int \<times> int \<times> int" where
  "fixed_part r = (a_id r, a_parent r, a_request r, a_limits r, a_depth r, est_tokens r, est_cost r, res_output r)"

definition row_ok :: "budget_policy \<Rightarrow> attempt_row \<Rightarrow> bool" where
  "row_ok policy r \<longleftrightarrow>
     valid_request (a_request r) \<and> a_id r = req_attempt_id (a_request r) \<and>
     a_parent r = req_parent_id (a_request r) \<and> est_tokens r = req_tokens (a_request r) \<and>
     est_cost r = req_cost (a_request r) \<and> res_output r = req_output (a_request r) \<and>
     valid_limits (a_limits r) \<and>
     0 \<le> a_depth r \<and> a_depth r \<le> max_depth (policy_limits policy) \<and>
     valid_opt (act_tokens r) \<and> valid_opt (act_cost r) \<and> valid_opt (act_output r) \<and>
     (case act_output r of None \<Rightarrow> True | Some b \<Rightarrow> b \<le> res_output r) \<and>
     (a_state r = Settled \<longrightarrow> act_tokens r \<noteq> None \<and> act_cost r \<noteq> None \<and> act_output r \<noteq> None) \<and>
     (a_state r \<in> {Reserved, Dispatched, Uncertain, Released} \<longrightarrow>
        act_tokens r = None \<and> act_cost r = None \<and> act_output r = None \<and> a_outcome r = None) \<and>
     (a_state r \<in> {Usage_unknown, Settled} \<longrightarrow> a_outcome r \<noteq> None)"

lemmas state_sets = ACTIVE_def CHARGED_def

lemma row_step_fixed: "row_step r r' \<Longrightarrow> fixed_part r' = fixed_part r"
  by (induction rule: row_step.induct) (auto simp: fixed_part_def apply_receipt_def)

lemma row_step_ok: "row_step r r' \<Longrightarrow> row_ok policy r \<Longrightarrow> row_ok policy r'"
  by (induction rule: row_step.induct)
    (auto simp: row_ok_def apply_receipt_def receipt_state_def valid_receipt_def valid_opt_def state_sets
      split: option.splits)

section \<open>Charges\<close>

text \<open>What a row contributes to each figure of a snapshot.\<close>

definition charge_of :: "(attempt_row \<Rightarrow> int option) \<Rightarrow> (attempt_row \<Rightarrow> int) \<Rightarrow> attempt_row \<Rightarrow> int" where
  "charge_of actual estimated r =
     (if a_state r \<in> set CHARGED then (case usage r actual estimated of Some v \<Rightarrow> v | None \<Rightarrow> 0) else 0)"

definition count_in :: "attempt_state list \<Rightarrow> attempt_row \<Rightarrow> int" where
  "count_in states r = (if a_state r \<in> set states then 1 else 0)"

definition snapshot_of :: "attempt_row list \<Rightarrow> snapshot" where
  "snapshot_of rows = \<lparr>
     charged_attempts = sum_list (map (count_in CHARGED) rows),
     charged_tokens = sum_list (map (charge_of act_tokens est_tokens) rows),
     charged_cost_microunits = sum_list (map (charge_of act_cost est_cost) rows),
     charged_output_bytes = sum_list (map (charge_of act_output res_output) rows),
     active_concurrency = sum_list (map (count_in ACTIVE) rows),
     over_budget = False\<rparr>"

lemma sum_usage_filter:
  "list_all (\<lambda>r. a_state r \<in> set CHARGED \<longrightarrow> usage r actual estimated \<noteq> None) rows \<Longrightarrow>
   sum_usage actual estimated (filter (\<lambda>r. a_state r \<in> set CHARGED) rows) =
     Some (sum_list (map (charge_of actual estimated) rows))"
  by (induction rows) (auto simp: charge_of_def)

lemma length_filter_count: "int (length (filter (\<lambda>r. a_state r \<in> set states) rows)) = sum_list (map (count_in states) rows)"
  by (induction rows) (auto simp: count_in_def)

lemma usage_defined:
  "row_ok policy r \<Longrightarrow> usage r act_tokens est_tokens \<noteq> None \<and> usage r act_cost est_cost \<noteq> None \<and>
     usage r act_output res_output \<noteq> None"
  by (auto simp: row_ok_def usage_def Let_def split: option.splits)

lemma charged_total: "list_all (row_ok policy) rows \<Longrightarrow> charged rows = Inr (snapshot_of rows)"
proof -
  assume ok: "list_all (row_ok policy) rows"
  then have "list_all (\<lambda>r. a_state r \<in> set CHARGED \<longrightarrow> usage r act_tokens est_tokens \<noteq> None) rows"
    "list_all (\<lambda>r. a_state r \<in> set CHARGED \<longrightarrow> usage r act_cost est_cost \<noteq> None) rows"
    "list_all (\<lambda>r. a_state r \<in> set CHARGED \<longrightarrow> usage r act_output res_output \<noteq> None) rows"
    by (auto simp: list_all_iff dest!: usage_defined)
  then show ?thesis
    by (simp add: charged_def Let_def sum_usage_filter length_filter_count snapshot_of_def)
qed

lemma charge_nonneg:
  assumes "row_ok policy r"
  shows "0 \<le> charge_of act_tokens est_tokens r" "0 \<le> charge_of act_cost est_cost r"
    "0 \<le> charge_of act_output res_output r" "0 \<le> count_in states r"
  using assms by (auto simp: row_ok_def charge_of_def usage_def Let_def count_in_def valid_request_def
      valid_opt_def int_range_def split: option.splits)

text \<open>The three figures that no later step raises.\<close>

definition caps :: "attempt_row \<Rightarrow> int \<times> int \<times> int" where
  "caps r = (count_in CHARGED r, charge_of act_output res_output r, count_in ACTIVE r)"

definition caps_le :: "attempt_row \<Rightarrow> attempt_row \<Rightarrow> bool" where
  "caps_le r' r \<longleftrightarrow> count_in CHARGED r' \<le> count_in CHARGED r \<and>
     charge_of act_output res_output r' \<le> charge_of act_output res_output r \<and> count_in ACTIVE r' \<le> count_in ACTIVE r"

lemma row_step_caps: "row_step r r' \<Longrightarrow> row_ok policy r \<Longrightarrow> caps_le r' r"
  by (induction rule: row_step.induct)
    (auto simp: caps_le_def count_in_def charge_of_def usage_def Let_def state_sets row_ok_def
      apply_receipt_def receipt_state_def valid_request_def int_range_def split: option.splits)

text \<open>Until a row is settled it stays charged with at least what it reserved.\<close>

lemma unsettled_charge:
  assumes "a_state r \<in> set CHARGED" "a_state r \<noteq> Settled"
  shows "est_tokens r \<le> charge_of act_tokens est_tokens r" "est_cost r \<le> charge_of act_cost est_cost r"
    "res_output r \<le> charge_of act_output res_output r"
  using assms by (auto simp: charge_of_def usage_def Let_def split: option.splits)

section \<open>Tables that evolve row by row\<close>

abbreviation row_steps :: "attempt_row \<Rightarrow> attempt_row \<Rightarrow> bool" where
  "row_steps \<equiv> row_step\<^sup>*\<^sup>*"

definition evolves :: "attempt_row list \<Rightarrow> attempt_row list \<Rightarrow> bool" where
  "evolves rows rows' \<longleftrightarrow> list_all2 row_steps rows rows'"

lemma row_steps_fixed: "row_steps r r' \<Longrightarrow> fixed_part r' = fixed_part r"
  by (induction rule: rtranclp_induct) (auto dest: row_step_fixed)

lemma row_steps_fields:
  assumes "row_steps r r'"
  shows "a_id r' = a_id r" "a_parent r' = a_parent r" "a_request r' = a_request r" "a_limits r' = a_limits r"
    "a_depth r' = a_depth r" "est_tokens r' = est_tokens r" "est_cost r' = est_cost r" "res_output r' = res_output r"
  using row_steps_fixed [OF assms] by (simp_all add: fixed_part_def)

lemma row_steps_ok: "row_steps r r' \<Longrightarrow> row_ok policy r \<Longrightarrow> row_ok policy r'"
  by (induction rule: rtranclp_induct) (auto dest: row_step_ok)

lemma row_steps_caps: "row_steps r r' \<Longrightarrow> row_ok policy r \<Longrightarrow> caps_le r' r"
proof (induction rule: rtranclp_induct)
  case base
  show ?case by (simp add: caps_le_def)
next
  case (step y z)
  from row_step_caps [OF step(2) row_steps_ok [OF step(1) step.prems]] step show ?case
    by (auto simp: caps_le_def)
qed

lemma evolves_refl [simp]: "evolves rows rows"
  by (simp add: evolves_def list_all2_refl)

lemma evolves_trans: "evolves a b \<Longrightarrow> evolves b c \<Longrightarrow> evolves a c"
  unfolding evolves_def using list_all2_trans [of row_steps row_steps row_steps a b c] by auto

lemma evolves_update_rows: "(\<And>r. r \<in> set rows \<Longrightarrow> P r \<Longrightarrow> row_steps r (f r)) \<Longrightarrow> evolves rows (update_rows P f rows)"
  by (simp add: evolves_def update_rows_def list_all2_map2 list_all2_same)

lemma evolves_length: "evolves rows rows' \<Longrightarrow> length rows' = length rows"
  by (simp add: evolves_def list_all2_lengthD)

lemma evolves_map: "evolves rows rows' \<Longrightarrow> (\<And>r r'. row_steps r r' \<Longrightarrow> g r' = g r) \<Longrightarrow> map g rows' = map g rows"
  unfolding evolves_def by (induction rule: list_all2_induct) auto

lemma evolves_ids: "evolves rows rows' \<Longrightarrow> map a_id rows' = map a_id rows"
  by (rule evolves_map) (auto dest: row_steps_fields)

lemma evolves_find: "evolves rows rows' \<Longrightarrow> rel_option row_steps (find_attempt k rows) (find_attempt k rows')"
  unfolding evolves_def by (induction rule: list_all2_induct) (auto dest: row_steps_fields)

lemma evolves_parent:
  "evolves rows rows' \<Longrightarrow> row_steps r r' \<Longrightarrow> rel_option row_steps (parent_row rows r) (parent_row rows' r')"
  by (auto simp: parent_row_def row_steps_fields evolves_find split: option.split)

section \<open>The forest of attempts\<close>

inductive descends :: "attempt_row list \<Rightarrow> attempt_row \<Rightarrow> string \<Rightarrow> bool" for rows where
  self: "descends rows r (a_id r)"
| up: "parent_row rows r = Some p \<Longrightarrow> descends rows p a \<Longrightarrow> descends rows r a"

definition link_ok :: "budget_policy \<Rightarrow> attempt_row list \<Rightarrow> attempt_row \<Rightarrow> bool" where
  "link_ok policy rows r \<longleftrightarrow>
     (case a_parent r of
        None \<Rightarrow> a_depth r = 0 \<and> is_within (a_limits r) (policy_limits policy)
      | Some p \<Rightarrow> (case find_attempt p rows of
            None \<Rightarrow> False
          | Some q \<Rightarrow> a_depth r = a_depth q + 1 \<and> is_within (a_limits r) (a_limits q)))"

definition children :: "attempt_row list \<Rightarrow> string \<Rightarrow> int" where
  "children rows p = int (length (filter (\<lambda>r. a_parent r = Some p) rows))"

definition fanout_ok :: "attempt_row list \<Rightarrow> attempt_row \<Rightarrow> bool" where
  "fanout_ok rows q \<longleftrightarrow> children rows (a_id q) \<le> max_children_per_parent (a_limits q)"

definition forest :: "budget_policy \<Rightarrow> attempt_row list \<Rightarrow> bool" where
  "forest policy rows \<longleftrightarrow> distinct (map a_id rows) \<and> list_all (row_ok policy) rows \<and>
     list_all (link_ok policy rows) rows \<and> list_all (fanout_ok rows) rows"

lemma is_within_refl [simp]: "is_within l l"
  by (simp add: is_within_def)

lemma is_within_trans: "is_within a b \<Longrightarrow> is_within b c \<Longrightarrow> is_within a c"
  by (auto simp: is_within_def)

lemma forestD:
  assumes "forest policy rows" "r \<in> set rows"
  shows "row_ok policy r" "link_ok policy rows r" "fanout_ok rows r"
  using assms by (auto simp: forest_def list_all_iff)

lemma forest_find: "forest policy rows \<Longrightarrow> r \<in> set rows \<Longrightarrow> find_attempt (a_id r) rows = Some r"
  by (auto simp: forest_def intro: select_row_unique)

lemma parent_row_in: "parent_row rows r = Some p \<Longrightarrow> p \<in> set rows"
  by (auto simp: parent_row_def dest: select_row_SomeD split: option.splits)

lemma forest_parent:
  assumes "forest policy rows" "r \<in> set rows" "parent_row rows r = Some p"
  shows "a_depth r = a_depth p + 1" "is_within (a_limits r) (a_limits p)" "p \<in> set rows" "a_parent r = Some (a_id p)"
  using forestD(2) [OF assms(1,2)] assms(3) parent_row_in [OF assms(3)]
  by (auto simp: link_ok_def parent_row_def dest: select_row_SomeD split: option.splits)

lemma forest_root:
  assumes "forest policy rows" "r \<in> set rows" "parent_row rows r = None"
  shows "a_depth r = 0" "a_parent r = None" "is_within (a_limits r) (policy_limits policy)"
  using forestD(2) [OF assms(1,2)] assms(3)
  by (auto simp: link_ok_def parent_row_def split: option.splits)

lemma row_ok_depth: "row_ok policy r \<Longrightarrow> 0 \<le> a_depth r"
  by (simp add: row_ok_def)

text \<open>Depths are small: the rows above a row have every smaller depth.\<close>

lemma forest_depths:
  assumes "forest policy rows" "r \<in> set rows" "0 \<le> d" "d \<le> a_depth r"
  shows "\<exists>q \<in> set rows. a_depth q = d"
  using assms(2,4)
proof (induction "nat (a_depth r)" arbitrary: r)
  case 0
  then show ?case using assms(3) by (intro bexI [of _ r]) auto
next
  case (Suc n)
  show ?case
  proof (cases "d = a_depth r")
    case True
    then show ?thesis using Suc.prems by blast
  next
    case False
    from Suc.hyps(2) obtain p where p: "parent_row rows r = Some p"
      using forest_root [OF assms(1) Suc.prems(1)] by (cases "parent_row rows r") auto
    note f = forest_parent [OF assms(1) Suc.prems(1) p]
    show ?thesis using Suc.hyps(2) Suc.prems(2) False f by (intro Suc.hyps(1) [of p]) auto
  qed
qed

lemma forest_depth_bound:
  assumes "forest policy rows" "r \<in> set rows"
  shows "nat (a_depth r) < length rows"
proof -
  have "{0..a_depth r} \<subseteq> a_depth ` set rows"
    using forest_depths [OF assms] by (fastforce simp: image_iff dest: sym)
  then have "card {0..a_depth r} \<le> card (a_depth ` set rows)" by (intro card_mono) auto
  also have "\<dots> \<le> length rows" by (meson card_image_le card_length finite_set le_trans)
  finally show ?thesis using row_ok_depth [OF forestD(1) [OF assms]] by simp
qed

text \<open>Induction from a row to the root of its tree.\<close>

lemma forest_induct [consumes 2, case_names root child]:
  assumes f: "forest policy rows" and r: "r \<in> set rows"
    and root: "\<And>r. r \<in> set rows \<Longrightarrow> parent_row rows r = None \<Longrightarrow> P r"
    and child: "\<And>r p. r \<in> set rows \<Longrightarrow> parent_row rows r = Some p \<Longrightarrow> p \<in> set rows \<Longrightarrow> P p \<Longrightarrow> P r"
  shows "P r"
  using r
proof (induction "nat (a_depth r)" arbitrary: r rule: less_induct)
  case less
  show ?case
  proof (cases "parent_row rows r")
    case None
    with less.prems show ?thesis by (rule root)
  next
    case (Some p)
    note fp = forest_parent [OF f less.prems Some]
    have "0 \<le> a_depth p" by (rule row_ok_depth [OF forestD(1) [OF f fp(3)]])
    with fp(1) have "nat (a_depth p) < nat (a_depth r)" by simp
    from less.hyps [OF this fp(3)] less.prems Some fp(3) show ?thesis by (auto intro: child)
  qed
qed

section \<open>Walks along the parent links\<close>

inductive_simps descends_iff: "descends rows r a"

definition ancestors :: "attempt_row list \<Rightarrow> attempt_row \<Rightarrow> attempt_row set" where
  "ancestors rows r = {q \<in> set rows. descends rows r (a_id q)}"

lemma forest_id_eq: "forest policy rows \<Longrightarrow> q \<in> set rows \<Longrightarrow> r \<in> set rows \<Longrightarrow> a_id q = a_id r \<Longrightarrow> q = r"
  by (metis forest_find option.inject)

lemma ancestors_rec:
  assumes "forest policy rows" "r \<in> set rows"
  shows "ancestors rows r = insert r (case parent_row rows r of None \<Rightarrow> {} | Some p \<Rightarrow> ancestors rows p)"
  using assms by (auto simp: ancestors_def descends_iff [of rows r] dest: forest_id_eq split: option.splits)

lemma walk_up_cases:
  assumes "forest policy rows" "r \<in> set rows" "nat (a_depth r) < n"
  shows "(\<exists>vs. walk_up n rows chk (Some r) = Inr vs \<and> set vs = ancestors rows r \<and> (\<forall>q \<in> set vs. chk q = None)) \<or>
    (\<exists>q e. q \<in> ancestors rows r \<and> chk q = Some e \<and> walk_up n rows chk (Some r) = Inl e)"
  using assms(2,3)
proof (induction n arbitrary: r)
  case (Suc n)
  note rec = ancestors_rec [OF assms(1) Suc.prems(1)]
  show ?case
  proof (cases "chk r")
    case (Some e)
    then show ?thesis using rec by auto
  next
    case None
    show ?thesis
    proof (cases "parent_row rows r")
      case None
      with \<open>chk r = None\<close> rec show ?thesis by auto
    next
      case (Some p)
      note fp = forest_parent [OF assms(1) Suc.prems(1) Some]
      have "0 \<le> a_depth p" by (rule row_ok_depth [OF forestD(1) [OF assms(1) fp(3)]])
      with fp(1) Suc.prems(2) have "nat (a_depth p) < n" by simp
      from Suc.IH [OF fp(3) this] show ?thesis
        using Some \<open>chk r = None\<close> rec by fastforce
    qed
  qed
qed simp

lemma walk_up_ok:
  assumes "forest policy rows" "r \<in> set rows" "walk_up (row_fuel rows) rows chk (Some r) = Inr vs"
  shows "set vs = ancestors rows r" "\<And>q. q \<in> ancestors rows r \<Longrightarrow> chk q = None"
  using walk_up_cases [OF assms(1,2) less_SucI [OF forest_depth_bound [OF assms(1,2)]], of chk] assms(3) by auto

lemma walk_up_err:
  assumes "forest policy rows" "r \<in> set rows" "walk_up (row_fuel rows) rows chk (Some r) = Inl e"
  shows "\<exists>q \<in> ancestors rows r. chk q = Some e"
  using walk_up_cases [OF assms(1,2) less_SucI [OF forest_depth_bound [OF assms(1,2)]], of chk] assms(3) by auto

lemma descends_from_correct:
  assumes "forest policy rows" "r \<in> set rows"
  shows "descends_from (row_fuel rows) rows r a = Inr (descends rows r a)"
proof -
  have "nat (a_depth r) < n \<Longrightarrow> descends_from n rows r a = Inr (descends rows r a)" for n
    using assms(2)
  proof (induction n arbitrary: r)
    case (Suc n)
    show ?case
    proof (cases "parent_row rows r")
      case None
      then show ?thesis by (simp add: descends_iff [of rows r])
    next
      case (Some p)
      note fp = forest_parent [OF assms(1) Suc.prems(2) Some]
      have "0 \<le> a_depth p" by (rule row_ok_depth [OF forestD(1) [OF assms(1) fp(3)]])
      with fp(1) Suc.prems(1) have "nat (a_depth p) < n" by simp
      from Suc.IH [OF this fp(3)] Some show ?thesis by (auto simp: descends_iff [of rows r])
    qed
  qed simp
  from this [OF less_SucI [OF forest_depth_bound [OF assms]]] show ?thesis .
qed

lemma filterE_pure: "(\<And>x. x \<in> set xs \<Longrightarrow> f x = Inr (P x)) \<Longrightarrow> filterE f xs = Inr (filter P xs)"
  by (induction xs) auto

lemma subtree_of_correct: "forest policy rows \<Longrightarrow> subtree_of rows a = Inr (filter (\<lambda>r. descends rows r a) rows)"
  unfolding subtree_of_def by (rule filterE_pure) (rule descends_from_correct)

text \<open>Limits only narrow on the way down.\<close>

lemma forest_limits:
  assumes f: "forest policy rows" and "r \<in> set rows"
  shows "is_within (a_limits r) (policy_limits policy)"
  using assms
proof (induction rule: forest_induct)
  case (root r)
  then show ?case by (rule forest_root(3) [OF f])
next
  case (child r p)
  from is_within_trans [OF forest_parent(2) [OF f child(1,2)] child(4)] show ?case .
qed

lemma ancestors_limits:
  assumes "forest policy rows" "r \<in> set rows"
  shows "q \<in> ancestors rows r \<Longrightarrow> is_within (a_limits r) (a_limits q)"
  using assms
proof (induction rule: forest_induct)
  case (root r)
  then show ?case using ancestors_rec [OF assms(1) root(1)] by simp
next
  case (child r p)
  note fp = forest_parent [OF assms(1) child(1,2)]
  from child(5) ancestors_rec [OF assms(1) child(1)] child(2)
  consider "q = r" | "q \<in> ancestors rows p" by auto
  then show ?case
  proof cases
    case 2
    from is_within_trans [OF fp(2) child(4) [OF 2]] show ?thesis .
  qed simp
qed

lemma descends_known: "descends rows r a \<Longrightarrow> r \<in> set rows \<Longrightarrow> a \<in> a_id ` set rows"
  by (induction rule: descends.induct) (auto dest: parent_row_in)

section \<open>Evolution keeps the forest\<close>

lemma evolves_descends:
  assumes "evolves rows rows'" "row_steps r r'"
  shows "descends rows' r' a \<longleftrightarrow> descends rows r a"
proof
  assume "descends rows' r' a"
  then show "descends rows r a" using assms(2)
  proof (induction arbitrary: r rule: descends.induct)
    case (self r')
    then show ?case by (simp add: row_steps_fields descends.self)
  next
    case (up r' p' a)
    from evolves_parent [OF assms(1) up.prems] up.hyps(1) obtain p
      where "parent_row rows r = Some p" "row_steps p p'" by (cases "parent_row rows r") auto
    with up.IH show ?case by (blast intro: descends.up)
  qed
next
  assume "descends rows r a"
  then show "descends rows' r' a" using assms(2)
  proof (induction arbitrary: r' rule: descends.induct)
    case (self r)
    from row_steps_fields(1) [OF self] show ?case by (metis descends.self)
  next
    case (up r p a)
    from evolves_parent [OF assms(1) up.prems] up.hyps(1) obtain p'
      where "parent_row rows' r' = Some p'" "row_steps p p'" by (cases "parent_row rows' r'") auto
    with up.IH show ?case by (blast intro: descends.up)
  qed
qed

lemma evolves_set: "evolves rows rows' \<Longrightarrow> r' \<in> set rows' \<Longrightarrow> \<exists>r \<in> set rows. row_steps r r'"
  unfolding evolves_def by (induction rule: list_all2_induct) auto

lemma evolves_set': "evolves rows rows' \<Longrightarrow> r \<in> set rows \<Longrightarrow> \<exists>r' \<in> set rows'. row_steps r r'"
  unfolding evolves_def by (induction rule: list_all2_induct) auto

lemma evolves_link:
  assumes e: "evolves rows rows'" and r: "row_steps r r'" and l: "link_ok policy rows r"
  shows "link_ok policy rows' r'"
proof (cases "a_parent r")
  case None
  with l show ?thesis by (simp add: link_ok_def row_steps_fields [OF r])
next
  case (Some p)
  with l obtain q where q: "find_attempt p rows = Some q" "a_depth r = a_depth q + 1" "is_within (a_limits r) (a_limits q)"
    by (auto simp: link_ok_def split: option.splits)
  with evolves_find [OF e, of p] obtain q' where "find_attempt p rows' = Some q'" "row_steps q q'"
    by (cases "find_attempt p rows'") auto
  with q Some show ?thesis by (simp add: link_ok_def row_steps_fields [OF r] row_steps_fields)
qed

lemma evolves_children: "evolves rows rows' \<Longrightarrow> children rows' p = children rows p"
proof -
  assume e: "evolves rows rows'"
  have "map a_parent rows' = map a_parent rows" by (rule evolves_map [OF e]) (rule row_steps_fields)
  moreover have "children xs p = int (length (filter (\<lambda>x. x = Some p) (map a_parent xs)))" for xs
    by (simp add: children_def filter_map comp_def)
  ultimately show ?thesis by (simp only:)
qed

lemma evolves_forest: "evolves rows rows' \<Longrightarrow> forest policy rows \<Longrightarrow> forest policy rows'"
proof -
  assume e: "evolves rows rows'" and f: "forest policy rows"
  have "row_ok policy r'" "link_ok policy rows' r'" "fanout_ok rows' r'" if "r' \<in> set rows'" for r'
  proof -
    from evolves_set [OF e that] obtain r where r: "r \<in> set rows" "row_steps r r'" by blast
    note fr = forestD [OF f r(1)]
    show "row_ok policy r'" by (rule row_steps_ok [OF r(2) fr(1)])
    show "link_ok policy rows' r'" by (rule evolves_link [OF e r(2) fr(2)])
    show "fanout_ok rows' r'"
      using fr(3) by (simp add: fanout_ok_def evolves_children [OF e] row_steps_fields [OF r(2)])
  qed
  then show ?thesis using f by (simp add: forest_def list_all_iff evolves_ids [OF e])
qed

section \<open>Limits that hold throughout\<close>

definition caps_within :: "attempt_row list \<Rightarrow> limits \<Rightarrow> bool" where
  "caps_within rows l \<longleftrightarrow>
     sum_list (map (count_in CHARGED) rows) \<le> max_attempts l \<and>
     sum_list (map (charge_of act_output res_output) rows) \<le> max_retained_output_bytes l \<and>
     sum_list (map (count_in ACTIVE) rows) \<le> max_concurrency l"

definition budget_caps :: "budget_policy \<Rightarrow> attempt_row list \<Rightarrow> bool" where
  "budget_caps policy rows \<longleftrightarrow> caps_within rows (policy_limits policy) \<and>
     (\<forall>q \<in> set rows. caps_within (filter (\<lambda>r. descends rows r (a_id q)) rows) (a_limits q))"

lemma sum_list_le: "list_all2 (\<lambda>x y. (g y :: int) \<le> g x) xs ys \<Longrightarrow> sum_list (map g ys) \<le> sum_list (map g xs)"
  by (induction rule: list_all2_induct) auto

lemma caps_within_le: "list_all2 (\<lambda>r r'. caps_le r' r) rows rows' \<Longrightarrow> caps_within rows l \<Longrightarrow> caps_within rows' l"
  unfolding caps_within_def
  by (intro conjI; rule order_trans [OF sum_list_le]) (auto simp: caps_le_def elim: list_all2_mono)

lemma list_all2_filter:
  "list_all2 R xs ys \<Longrightarrow> (\<And>x y. x \<in> set xs \<Longrightarrow> y \<in> set ys \<Longrightarrow> R x y \<Longrightarrow> P x \<longleftrightarrow> Q y) \<Longrightarrow>
   list_all2 R (filter P xs) (filter Q ys)"
  by (induction rule: list_all2_induct) auto

lemma evolves_caps_le:
  "evolves rows rows' \<Longrightarrow> list_all (row_ok policy) rows \<Longrightarrow> list_all2 (\<lambda>r r'. caps_le r' r) rows rows'"
  unfolding evolves_def by (induction rule: list_all2_induct) (auto dest: row_steps_caps)

lemma evolves_caps:
  assumes e: "evolves rows rows'" and f: "forest policy rows" and b: "budget_caps policy rows"
  shows "budget_caps policy rows'"
  unfolding budget_caps_def
proof (intro conjI ballI)
  have ok: "list_all (row_ok policy) rows" using f by (simp add: forest_def)
  show "caps_within rows' (policy_limits policy)"
    using caps_within_le [OF evolves_caps_le [OF e ok]] b by (simp add: budget_caps_def)
  fix q' assume "q' \<in> set rows'"
  then obtain q where q: "q \<in> set rows" "row_steps q q'" using evolves_set [OF e] by blast
  let ?sub = "filter (\<lambda>r. descends rows r (a_id q)) rows"
  let ?sub' = "filter (\<lambda>r. descends rows' r (a_id q)) rows'"
  have "evolves ?sub ?sub'" unfolding evolves_def
    by (rule list_all2_filter [OF e [unfolded evolves_def]]) (simp add: evolves_descends [OF e])
  moreover have "list_all (row_ok policy) ?sub" using ok by (auto simp: list_all_iff)
  ultimately have le: "list_all2 (\<lambda>r r'. caps_le r' r) ?sub ?sub'" by (rule evolves_caps_le)
  have "caps_within ?sub (a_limits q)" using b q(1) by (simp add: budget_caps_def)
  from caps_within_le [OF le this] have "caps_within ?sub' (a_limits q)" .
  then show "caps_within (filter (\<lambda>r. descends rows' r (a_id q')) rows') (a_limits q')"
    by (simp add: row_steps_fields [OF q(2)])
qed

end
