(* ===== verification/Budget_Steps.thy ===== *)
theory Budget_Steps
  imports Budget_Inv
begin

text \<open>
  Every ledger operation keeps the invariant and only adds: rows evolve by \<open>row_step\<close>, receipts,
  approvals and intents are never removed or altered, a consumed prerequisite stays consumed, the
  clock mark never goes back and a cancellation is never undone. The operations form one machine,
  \<open>budget_step\<close>, whose runs are the interleavings of the transactions of all processes that share
  the ledger file; the interpretation of \<open>guarded_machine\<close> lifts the facts to runs.
\<close>

section \<open>Growing tables\<close>

definition grows :: "('r \<Rightarrow> 'r \<Rightarrow> bool) \<Rightarrow> 'r list \<Rightarrow> 'r list \<Rightarrow> bool" where
  "grows R xs ys \<longleftrightarrow> (\<exists>us vs. ys = us @ vs \<and> list_all2 R xs us)"

lemma grows_refl: "(\<And>x. R x x) \<Longrightarrow> grows R xs xs"
  unfolding grows_def by (intro exI [of _ xs] exI [of _ "[]"]) (simp add: list_all2_refl)

lemma grows_trans:
  assumes R: "\<And>x y z. R x y \<Longrightarrow> R y z \<Longrightarrow> R x z" and "grows R xs ys" "grows R ys zs"
  shows "grows R xs zs"
proof -
  from assms obtain us vs us' vs' where *: "ys = us @ vs" "list_all2 R xs us" "zs = us' @ vs'" "list_all2 R ys us'"
    by (auto simp: grows_def)
  then obtain u1 u2 where u: "us' = u1 @ u2" "list_all2 R us u1" by (auto simp: list_all2_append1)
  have "list_all2 R xs u1" by (rule list_all2_trans [OF R *(2) u(2)])
  with * u show ?thesis by (auto simp: grows_def)
qed

lemma grows_insert: "(\<And>x. R x x) \<Longrightarrow> grows R xs (insert_row r xs)"
  unfolding grows_def insert_row_def by (intro exI [of _ xs] exI [of _ "[r]"]) (simp add: list_all2_refl)

lemma grows_all2: "list_all2 R xs ys \<Longrightarrow> grows R xs ys"
  unfolding grows_def by (intro exI [of _ ys] exI [of _ "[]"]) simp

lemma grows_member: "grows R xs ys \<Longrightarrow> x \<in> set xs \<Longrightarrow> \<exists>y \<in> set ys. R x y"
  by (force simp: grows_def in_set_conv_nth list_all2_conv_all_nth nth_append)

section \<open>The invariant and the order on ledgers\<close>

definition left_reserve :: "attempt_row list \<Rightarrow> string \<Rightarrow> bool" where
  "left_reserve rows a \<longleftrightarrow> (\<exists>r \<in> set rows. a_id r = a \<and> a_state r \<notin> {Reserved, Released})"

definition receipts_ok :: "ledger \<Rightarrow> bool" where
  "receipts_ok led \<longleftrightarrow> distinct (map r_id (receipts led)) \<and>
     (\<forall>x \<in> set (receipts led). r_id x = rcpt_id (r_payload x) \<and> r_attempt x = rcpt_attempt_id (r_payload x) \<and>
        valid_receipt (r_payload x) \<and> left_reserve (attempts led) (r_attempt x))"

definition prerequisites_ok :: "ledger \<Rightarrow> bool" where
  "prerequisites_ok led \<longleftrightarrow> distinct (map p_id (prerequisites led)) \<and> distinct (map p_source (prerequisites led)) \<and>
     (\<forall>x \<in> set (prerequisites led). left_reserve (attempts led) (p_source x) \<and>
        (\<forall>a. p_consumed_by x = Some a \<longrightarrow> left_reserve (attempts led) a))"

definition approvals_ok :: "ledger \<Rightarrow> bool" where
  "approvals_ok led \<longleftrightarrow> distinct (map ap_id (approvals led)) \<and> distinct (map ap_attempt (approvals led)) \<and>
     (\<forall>x \<in> set (approvals led). left_reserve (attempts led) (ap_attempt x))"

definition intents_ok :: "ledger \<Rightarrow> bool" where
  "intents_ok led \<longleftrightarrow> distinct (map i_attempt (intents led)) \<and>
     (\<forall>x \<in> set (intents led). left_reserve (attempts led) (i_attempt x))"

definition tables_ok :: "ledger \<Rightarrow> bool" where
  "tables_ok led \<longleftrightarrow> receipts_ok led \<and> prerequisites_ok led \<and> approvals_ok led \<and> intents_ok led"

lemmas tables_defs = tables_ok_def receipts_ok_def prerequisites_ok_def approvals_ok_def intents_ok_def

definition engagement_ok :: "budget_policy \<Rightarrow> ledger \<Rightarrow> bool" where
  "engagement_ok policy led \<longleftrightarrow>
     (case engagement led of
        None \<Rightarrow> True
      | Some e \<Rightarrow> eng_policy e = policy \<and> 0 \<le> started_at e \<and> started_at e \<le> last_seen e)"

definition ledger_inv :: "budget_policy \<Rightarrow> ledger \<Rightarrow> bool" where
  "ledger_inv policy led \<longleftrightarrow> valid_policy policy \<and> engagement_ok policy led \<and>
     forest policy (attempts led) \<and> budget_caps policy (attempts led) \<and> tables_ok led"

definition engagement_le :: "engagement_row option \<Rightarrow> engagement_row option \<Rightarrow> bool" where
  "engagement_le x y \<longleftrightarrow>
     (case x of
        None \<Rightarrow> True
      | Some e \<Rightarrow> (case y of
            None \<Rightarrow> False
          | Some e' \<Rightarrow> eng_policy e' = eng_policy e \<and> started_at e' = started_at e \<and> last_seen e \<le> last_seen e' \<and>
              (cancelled e \<longrightarrow> cancelled e')))"

definition prerequisite_le :: "prerequisite_row \<Rightarrow> prerequisite_row \<Rightarrow> bool" where
  "prerequisite_le p p' \<longleftrightarrow> p_id p' = p_id p \<and> p_source p' = p_source p \<and> p_payload p' = p_payload p \<and>
     (p_consumed_by p \<noteq> None \<longrightarrow> p_consumed_by p' = p_consumed_by p)"

definition ledger_mono :: "ledger \<Rightarrow> ledger \<Rightarrow> bool" where
  "ledger_mono led led' \<longleftrightarrow>
     engagement_le (engagement led) (engagement led') \<and>
     grows row_steps (attempts led) (attempts led') \<and>
     grows (=) (receipts led) (receipts led') \<and>
     grows prerequisite_le (prerequisites led) (prerequisites led') \<and>
     grows (=) (approvals led) (approvals led') \<and>
     grows (=) (intents led) (intents led')"

lemma engagement_le_refl [simp]: "engagement_le x x"
  by (simp add: engagement_le_def split: option.split)

lemma engagement_le_trans: "engagement_le x y \<Longrightarrow> engagement_le y z \<Longrightarrow> engagement_le x z"
  by (auto simp: engagement_le_def split: option.splits)

lemma prerequisite_le_refl [simp]: "prerequisite_le p p"
  by (simp add: prerequisite_le_def)

lemma prerequisite_le_trans: "prerequisite_le p q \<Longrightarrow> prerequisite_le q r \<Longrightarrow> prerequisite_le p r"
  by (auto simp: prerequisite_le_def)

lemma ledger_mono_refl [simp]: "ledger_mono led led"
  by (simp add: ledger_mono_def grows_refl)

lemma ledger_mono_trans: "ledger_mono a b \<Longrightarrow> ledger_mono b c \<Longrightarrow> ledger_mono a c"
  unfolding ledger_mono_def
  by (auto intro: engagement_le_trans elim!: grows_trans [rotated] prerequisite_le_trans)

lemma row_step_left: "row_step r r' \<Longrightarrow> a_state r \<notin> {Reserved, Released} \<Longrightarrow> a_state r' \<notin> {Reserved, Released}"
  by (induction rule: row_step.induct) (auto simp: apply_receipt_def receipt_state_def)

lemma row_steps_left: "row_steps r r' \<Longrightarrow> a_state r \<notin> {Reserved, Released} \<Longrightarrow> a_state r' \<notin> {Reserved, Released}"
proof (induction rule: rtranclp_induct)
  case (step y z)
  from row_step_left [OF step(2) step(3) [OF step.prems]] show ?case .
qed simp

lemma grows_left: "grows row_steps rows rows' \<Longrightarrow> left_reserve rows a \<Longrightarrow> left_reserve rows' a"
proof -
  assume g: "grows row_steps rows rows'" and "left_reserve rows a"
  then obtain r where r: "r \<in> set rows" "a_id r = a" "a_state r \<notin> {Reserved, Released}"
    unfolding left_reserve_def by blast
  from grows_member [OF g r(1)] obtain r' where r': "r' \<in> set rows'" "row_steps r r'" by blast
  from row_steps_left [OF r'(2) r(3)] row_steps_fields(1) [OF r'(2)] r(2) r'(1)
  show ?thesis unfolding left_reserve_def by blast
qed

lemma grows_tables:
  assumes "tables_ok led" "grows row_steps (attempts led) rows'"
  shows "tables_ok (led\<lparr>attempts := rows'\<rparr>)"
  using assms grows_left [OF assms(2)] by (auto simp: tables_defs)

lemma evolves_grows: "evolves rows rows' \<Longrightarrow> grows row_steps rows rows'"
  unfolding evolves_def by (rule grows_all2)

section \<open>Transactions\<close>

definition good_body :: "budget_policy \<Rightarrow> 'a body \<Rightarrow> bool" where
  "good_body policy body \<longleftrightarrow>
     (\<forall>eng now led a led'.
        engagement led = Some (eng\<lparr>last_seen := now\<rparr>) \<longrightarrow> last_seen eng \<le> now \<longrightarrow> ledger_inv policy led \<longrightarrow>
        body eng now led = Inr (a, led') \<longrightarrow> ledger_inv policy led' \<and> ledger_mono led led')"

lemma set_last_seen_ok:
  assumes "ledger_inv policy led" "engagement led = Some eng" "last_seen eng \<le> now"
  shows "ledger_inv policy (set_last_seen now led)" "ledger_mono led (set_last_seen now led)"
  using assms by (auto simp: ledger_inv_def engagement_ok_def set_last_seen_def tables_defs
      ledger_mono_def engagement_le_def grows_refl)

lemma transaction_cases:
  obtains (refused) e where "transaction policy clock body led = (Inl e, led)" "e \<noteq> Nonterminating" "e \<noteq> SqlError" "e \<noteq> TypeError"
  | (failed) eng now e where "engagement led = Some eng" "eng_policy eng = policy" "now_of clock = Inr now"
      "last_seen eng \<le> now" "body eng now (set_last_seen now led) = Inl e"
      "transaction policy clock body led =
         (Inl (if e = SqlError then BudgetStoreError ''budget storage unavailable'' else e), set_last_seen now led)"
  | (committed) eng now a led' where "engagement led = Some eng" "eng_policy eng = policy" "now_of clock = Inr now"
      "last_seen eng \<le> now" "body eng now (set_last_seen now led) = Inr (a, led')"
      "transaction policy clock body led = (Inr a, led')"
proof (cases "engagement led")
  case None
  then show thesis by (intro refused) (auto simp: transaction_def)
next
  case (Some eng)
  show thesis
  proof (cases "eng_policy eng = policy")
    case False
    with Some show thesis by (intro refused) (auto simp: transaction_def)
  next
    case True
    note t = this
    show thesis
    proof (cases "now_of clock")
      case (Inl e)
      have "e \<noteq> Nonterminating" "e \<noteq> SqlError" "e \<noteq> TypeError"
        using Inl by (auto simp: now_of_def split: option.splits json.splits if_splits)
      with Some t Inl show thesis by (intro refused) (auto simp: transaction_def)
    next
      case (Inr now)
      show thesis
      proof (cases "now < last_seen eng")
        case True
        with Some t Inr show thesis by (intro refused) (auto simp: transaction_def)
      next
        case False
        show thesis
        proof (cases "body eng now (set_last_seen now led)")
          case (Inl e)
          with Some t Inr False show thesis
            by (intro failed [OF Some t Inr _ Inl]) (auto simp: transaction_def Let_def)
        next
          case body: (Inr r)
          obtain a led' where "r = (a, led')" by (cases r)
          with Some t Inr False body show thesis
            by (intro committed [OF Some t Inr]) (auto simp: transaction_def Let_def)
        qed
      qed
    qed
  qed
qed

lemma transaction_ok:
  assumes "good_body policy body" "ledger_inv policy led"
  shows "ledger_inv policy (snd (transaction policy clock body led)) \<and>
    ledger_mono led (snd (transaction policy clock body led))"
proof (cases rule: transaction_cases [of policy clock body led])
  case (refused e)
  with assms show ?thesis by simp
next
  case (failed eng now e)
  with set_last_seen_ok [OF assms(2) failed(1,4)] show ?thesis by simp
next
  case (committed eng now a led')
  note ls = set_last_seen_ok [OF assms(2) committed(1,4)]
  have "engagement (set_last_seen now led) = Some (eng\<lparr>last_seen := now\<rparr>)"
    using committed(1) by (simp add: set_last_seen_def)
  with assms(1) committed ls have "ledger_inv policy led' \<and> ledger_mono (set_last_seen now led) led'"
    unfolding good_body_def by blast
  with committed ls show ?thesis by (auto intro: ledger_mono_trans)
qed

lemma good_body_read: "(\<And>eng now led a led'. body eng now led = Inr (a, led') \<Longrightarrow> led' = led) \<Longrightarrow> good_body policy body"
  unfolding good_body_def by (metis ledger_mono_refl)

lemma evolve_ok:
  assumes "ledger_inv policy led" "evolves (attempts led) rows'"
  shows "ledger_inv policy (led\<lparr>attempts := rows'\<rparr>)" "ledger_mono led (led\<lparr>attempts := rows'\<rparr>)"
  using assms evolves_forest [OF assms(2)] evolves_caps [OF assms(2)] grows_tables [OF _ evolves_grows [OF assms(2)]]
  by (auto simp: ledger_inv_def engagement_ok_def ledger_mono_def grows_refl evolves_grows)

lemma find_unique: "ledger_inv policy led \<Longrightarrow> find_attempt k (attempts led) = Some row \<Longrightarrow> r \<in> set (attempts led) \<Longrightarrow>
    a_id r = k \<Longrightarrow> r = row"
  by (auto simp: ledger_inv_def dest!: select_row_SomeD dest: forest_id_eq)

lemma evolves_key:
  assumes "ledger_inv policy led" "find_attempt k (attempts led) = Some row" "row_steps row (f row)"
  shows "evolves (attempts led) (update_key a_id k f (attempts led))"
  unfolding update_key_def by (rule evolves_update_rows) (use find_unique [OF assms(1,2)] assms(3) in blast)

section \<open>The operations on one row\<close>

lemma set_state_ok:
  assumes "ledger_inv policy led" "find_attempt k (attempts led) = Some row" "row_step row (row\<lparr>a_state := st\<rparr>)"
  shows "ledger_inv policy (set_state k st led)" "ledger_mono led (set_state k st led)"
  using evolve_ok [OF assms(1) evolves_key [OF assms(1,2), of "\<lambda>r. r\<lparr>a_state := st\<rparr>"]] assms(3)
  by (auto simp: set_state_def)

lemma mark_uncertain_ok:
  assumes "ledger_inv policy led"
  shows "ledger_inv policy (snd (mark_uncertain policy clock k led)) \<and> ledger_mono led (snd (mark_uncertain policy clock k led))"
proof (cases "check_identifier (JStr k) ''attempt_id''")
  case (Inl e)
  with assms show ?thesis by (simp add: mark_uncertain_def)
next
  case (Inr i)
  then show ?thesis unfolding mark_uncertain_def
    by (simp, intro transaction_ok [OF _ assms])
      (auto simp: good_body_def split: option.splits if_splits intro!: set_state_ok row_step.lost)
qed

lemma release_undispatched_ok:
  assumes "ledger_inv policy led"
  shows "ledger_inv policy (snd (release_undispatched policy clock k led)) \<and>
    ledger_mono led (snd (release_undispatched policy clock k led))"
proof (cases "check_identifier (JStr k) ''attempt_id''")
  case (Inl e)
  with assms show ?thesis by (simp add: release_undispatched_def)
next
  case (Inr i)
  then show ?thesis unfolding release_undispatched_def
    by (simp, intro transaction_ok [OF _ assms])
      (auto simp: good_body_def bindE_Inr_iff split: option.splits if_splits intro!: set_state_ok row_step.release)
qed

lemma cancel_evolves: "evolves rows (cancel_rows rows)"
  unfolding cancel_rows_def
  by (rule evolves_trans; rule evolves_update_rows, rule r_into_rtranclp)
    (auto simp: ACTIVE_def intro: row_step.request_cancel row_step.release)

lemma cancel_body_good: "good_body policy cancel_body"
  unfolding good_body_def
proof (intro allI impI)
  fix eng now led a led'
  assume eng: "engagement led = Some (eng\<lparr>last_seen := now\<rparr>)" and inv: "ledger_inv policy led"
    and b: "cancel_body eng now led = Inr (a, led')"
  note e = evolve_ok [OF inv cancel_evolves]
  from b have "led' = led\<lparr>attempts := cancel_rows (attempts led)\<rparr>
      \<lparr>engagement := map_option (\<lambda>e. e\<lparr>cancelled := True\<rparr>) (engagement led)\<rparr>"
    by (cases led) (auto simp: cancel_body_def)
  with e eng show "ledger_inv policy led' \<and> ledger_mono led led'"
    by (auto simp: ledger_inv_def engagement_ok_def ledger_mono_def engagement_le_def tables_defs)
qed

section \<open>Opening\<close>

lemma now_of_nonneg: "now_of clock = Inr now \<Longrightarrow> 0 \<le> now"
  by (auto simp: now_of_def split: option.splits json.splits if_splits)

lemma open_evolves: "evolves rows (update_rows (\<lambda>r. a_state r = Dispatched) (\<lambda>r. r\<lparr>a_state := Uncertain\<rparr>) rows)"
  by (rule evolves_update_rows, rule r_into_rtranclp, rule row_step.lost) simp

lemma open_ledger_ok:
  assumes "ledger_inv policy led"
  shows "ledger_inv policy (snd (open_ledger policy clock led)) \<and> ledger_mono led (snd (open_ledger policy clock led))"
proof (cases "now_of clock")
  case (Inl e)
  with assms show ?thesis by (simp add: open_ledger_def)
next
  case (Inr now)
  show ?thesis
  proof (cases "engagement led")
    case None
    with Inr assms now_of_nonneg [OF Inr] show ?thesis
      by (auto simp: open_ledger_def ledger_inv_def engagement_ok_def ledger_mono_def engagement_le_def grows_refl tables_defs)
  next
    case (Some eng)
    show ?thesis
    proof (cases "eng_policy eng = policy \<and> last_seen eng \<le> now")
      case True
      note ls = set_last_seen_ok [OF assms Some True [THEN conjunct2]]
      have "attempts (set_last_seen now led) = attempts led" by (simp add: set_last_seen_def)
      with evolve_ok [OF ls(1) open_evolves] ledger_mono_trans [OF ls(2)] Inr Some True show ?thesis
        by (simp add: open_ledger_def)
    next
      case False
      with Inr Some assms show ?thesis by (auto simp: open_ledger_def)
    qed
  qed
qed

section \<open>Reconciliation\<close>

lemma establish_prerequisite_ok:
  assumes "ledger_inv policy led" "left_reserve (attempts led) (rcpt_attempt_id rcpt)"
    "establish_prerequisite rcpt pre led = Inr led1"
  shows "ledger_inv policy led1" "ledger_mono led led1" "attempts led1 = attempts led" "receipts led1 = receipts led"
    "approvals led1 = approvals led" "intents led1 = intents led" "engagement led1 = engagement led"
proof -
  have "ledger_inv policy led1 \<and> ledger_mono led led1 \<and> attempts led1 = attempts led \<and> receipts led1 = receipts led \<and>
    approvals led1 = approvals led \<and> intents led1 = intents led \<and> engagement led1 = engagement led"
  proof (cases "led1 = led")
    case False
    then obtain pid payload where p: "pre = Some (pid, payload)" "select_row p_id pid (prerequisites led) = None"
      "select_row p_source (rcpt_attempt_id rcpt) (prerequisites led) = None"
      "led1 = led\<lparr>prerequisites := insert_row
         \<lparr>p_id = pid, p_source = rcpt_attempt_id rcpt, p_payload = payload, p_consumed_by = None\<rparr> (prerequisites led)\<rparr>"
      using assms(3) by (auto simp: establish_prerequisite_def split: option.splits if_splits)
    then show ?thesis using assms(1,2)
      by (auto simp: ledger_inv_def engagement_ok_def tables_defs ledger_mono_def grows_refl grows_insert map_insert_row
          select_row_None_iff)
  qed (use assms(1) in simp)
  then show "ledger_inv policy led1" "ledger_mono led led1" "attempts led1 = attempts led" "receipts led1 = receipts led"
    "approvals led1 = approvals led" "intents led1 = intents led" "engagement led1 = engagement led" by blast+
qed

lemma add_receipt_ok:
  assumes "ledger_inv policy led" "select_row r_id (rcpt_id rcpt) (receipts led) = None" "valid_receipt rcpt"
    "left_reserve (attempts led) (rcpt_attempt_id rcpt)"
  shows "ledger_inv policy (led\<lparr>receipts := insert_row \<lparr>r_id = rcpt_id rcpt, r_attempt = rcpt_attempt_id rcpt, r_payload = rcpt\<rparr>
      (receipts led)\<rparr>)"
    "ledger_mono led (led\<lparr>receipts := insert_row \<lparr>r_id = rcpt_id rcpt, r_attempt = rcpt_attempt_id rcpt, r_payload = rcpt\<rparr>
      (receipts led)\<rparr>)"
  using assms
  by (auto simp: ledger_inv_def engagement_ok_def tables_defs ledger_mono_def grows_refl grows_insert map_insert_row
      select_row_None_iff)

lemma reconcile_fresh_ok:
  assumes inv: "ledger_inv policy led" and fresh: "select_row r_id (rcpt_id rcpt) (receipts led) = None"
    and v: "valid_receipt rcpt" and row: "find_attempt (rcpt_attempt_id rcpt) (attempts led) = Some row"
    and ok: "reconcile_fresh rcpt pre row led = Inr (a, led')"
  shows "ledger_inv policy led' \<and> ledger_mono led led'"
proof -
  let ?k = "rcpt_attempt_id rcpt"
  from ok obtain led1 where st: "a_state row \<in> {Dispatched, Uncertain, Usage_unknown}"
      "\<not> (a_state row = Usage_unknown \<and> revision_conflict rcpt row)"
      "case rcpt_output rcpt of None \<Rightarrow> True | Some b \<Rightarrow> b \<le> res_output row"
    and est: "establish_prerequisite rcpt pre led = Inr led1"
    and led': "led' = led1\<lparr>attempts := update_key a_id ?k (apply_receipt rcpt) (attempts led1),
              receipts := insert_row \<lparr>r_id = rcpt_id rcpt, r_attempt = ?k, r_payload = rcpt\<rparr> (receipts led1)\<rparr>"
    unfolding reconcile_fresh_def by (auto simp: bindE_Inr_iff)
  have left: "left_reserve (attempts led) ?k"
    using st(1) select_row_SomeD [OF row] unfolding left_reserve_def by (intro bexI [of _ row]) auto
  note e = establish_prerequisite_ok [OF inv left est]
  let ?led2 = "led1\<lparr>attempts := update_key a_id ?k (apply_receipt rcpt) (attempts led1)\<rparr>"
  have "evolves (attempts led1) (update_key a_id ?k (apply_receipt rcpt) (attempts led1))"
    using row st v e(3) by (intro evolves_key [OF e(1)] r_into_rtranclp row_step.reconciled) auto
  note e2 = evolve_ok [OF e(1) this]
  have "left_reserve (attempts ?led2) ?k"
    using grows_left [of "attempts led1" "attempts ?led2" ?k] e2(2) left e(3) by (simp add: ledger_mono_def)
  with add_receipt_ok [OF e2(1) _ v] fresh e(4)
  have "ledger_inv policy led'" "ledger_mono ?led2 led'" by (simp_all add: led')
  with e(2) e2(2) show ?thesis by (blast intro: ledger_mono_trans)
qed

lemma reconcile_body_good: "valid_receipt rcpt \<Longrightarrow> good_body policy (reconcile_body rcpt pre)"
  unfolding good_body_def
  by (auto simp: reconcile_body_def Let_def bindE_Inr_iff reconcile_duplicate_def dest: reconcile_fresh_ok
      split: option.splits if_splits)

lemma reconcile_ok:
  assumes "ledger_inv policy led" "valid_receipt rcpt"
  shows "ledger_inv policy (snd (reconcile policy clock rcpt pid p led)) \<and>
    ledger_mono led (snd (reconcile policy clock rcpt pid p led))"
  using assms transaction_ok [OF reconcile_body_good [OF assms(2)] assms(1)]
  by (auto simp: reconcile_def split: sum.split)

section \<open>Dispatch\<close>

lemma consume_prerequisite_ok:
  assumes "ledger_inv policy led" "consume_prerequisite k pre led = Inr led1"
  shows "attempts led1 = attempts led" "receipts led1 = receipts led" "approvals led1 = approvals led"
    "intents led1 = intents led" "engagement led1 = engagement led"
    "grows prerequisite_le (prerequisites led) (prerequisites led1)"
    "map p_id (prerequisites led1) = map p_id (prerequisites led)"
    "map p_source (prerequisites led1) = map p_source (prerequisites led)"
    "\<And>x. x \<in> set (prerequisites led1) \<Longrightarrow>
       \<exists>y \<in> set (prerequisites led). p_source x = p_source y \<and> (p_consumed_by x = p_consumed_by y \<or> p_consumed_by x = Some k)"
proof -
  consider "led1 = led" | rid where
    "led1 = led\<lparr>prerequisites := update_rows (\<lambda>r. p_id r = rid \<and> p_consumed_by r = None)
       (\<lambda>r. r\<lparr>p_consumed_by := Some k\<rparr>) (prerequisites led)\<rparr>"
    using assms(2) by (auto simp: consume_prerequisite_def Let_def split: option.splits if_splits)
  then have "attempts led1 = attempts led \<and> receipts led1 = receipts led \<and> approvals led1 = approvals led \<and>
    intents led1 = intents led \<and> engagement led1 = engagement led \<and>
    grows prerequisite_le (prerequisites led) (prerequisites led1) \<and>
    map p_id (prerequisites led1) = map p_id (prerequisites led) \<and>
    map p_source (prerequisites led1) = map p_source (prerequisites led) \<and>
    (\<forall>x \<in> set (prerequisites led1). \<exists>y \<in> set (prerequisites led). p_source x = p_source y \<and>
       (p_consumed_by x = p_consumed_by y \<or> p_consumed_by x = Some k))"
  proof cases
    case (2 rid)
    have "list_all2 prerequisite_le (prerequisites led) (prerequisites led1)"
      by (simp add: 2 update_rows_def list_all2_map2 list_all2_same prerequisite_le_def)
    with 2 show ?thesis by (auto simp: map_update_rows set_update_rows intro: grows_all2)
  qed (auto simp: grows_refl)
  then show "attempts led1 = attempts led" "receipts led1 = receipts led" "approvals led1 = approvals led"
    "intents led1 = intents led" "engagement led1 = engagement led"
    "grows prerequisite_le (prerequisites led) (prerequisites led1)"
    "map p_id (prerequisites led1) = map p_id (prerequisites led)"
    "map p_source (prerequisites led1) = map p_source (prerequisites led)"
    "\<And>x. x \<in> set (prerequisites led1) \<Longrightarrow>
       \<exists>y \<in> set (prerequisites led). p_source x = p_source y \<and> (p_consumed_by x = p_consumed_by y \<or> p_consumed_by x = Some k)"
    by blast+
qed

lemma consume_approval_ok:
  assumes "consume_approval k ap led = Inr led1"
  shows "led1 = led \<and> ap = None \<or>
    (\<exists>rid. ap = Some rid \<and> rid \<notin> ap_id ` set (approvals led) \<and> k \<notin> ap_attempt ` set (approvals led) \<and>
       led1 = led\<lparr>approvals := insert_row \<lparr>ap_id = rid, ap_attempt = k\<rparr> (approvals led)\<rparr>)"
  using assms by (auto simp: consume_approval_def select_row_None_iff split: option.splits if_splits)

lemma record_intent_ok:
  assumes "record_intent k payload led = Inr led1"
  shows "led1 = led \<and> payload = None \<or>
    (\<exists>t. payload = Some t \<and> k \<notin> i_attempt ` set (intents led) \<and>
       led1 = led\<lparr>intents := insert_row \<lparr>i_attempt = k, i_payload = t\<rparr> (intents led)\<rparr>)"
  using assms by (auto simp: record_intent_def split: option.splits if_splits)

text \<open>What a successful dispatch has checked and done.\<close>

lemma dispatch_body_ok:
  assumes "dispatch_body policy k plan eng now led = Inr (a, led')"
  obtains row led1 led2 led3 where
    "find_attempt k (attempts led) = Some row" "\<not> cancelled eng"
    "now - started_at eng \<le> max_elapsed_ms (policy_limits policy)" "a_state row = Reserved"
    "\<exists>vs. walk_up (row_fuel (attempts led)) (attempts led) (dispatch_walk_check eng now) (Some row) = Inr vs"
    "case dp_window plan of None \<Rightarrow> True | Some (issued, expires) \<Rightarrow> issued \<le> now \<and> now < expires"
    "consume_prerequisite k (dp_prerequisite plan) led = Inr led1"
    "consume_approval k (dp_approval plan) led1 = Inr led2"
    "record_intent k (dp_intent plan) led2 = Inr led3"
    "a = \<lparr>att_id = k, att_parent = a_parent row, att_state = Dispatched, att_depth = a_depth row\<rparr>"
    "led' = set_state k Dispatched led3"
  using assms unfolding dispatch_body_def
  by (auto simp: bindE_Inr_iff split: option.splits)

lemma dispatch_body_good: "good_body policy (dispatch_body policy k plan)"
  unfolding good_body_def
proof (intro allI impI)
  fix eng now led a led'
  assume inv: "ledger_inv policy led" and "dispatch_body policy k plan eng now led = Inr (a, led')"
  then obtain row led1 led2 led3 where row: "find_attempt k (attempts led) = Some row" "a_state row = Reserved"
    and c1: "consume_prerequisite k (dp_prerequisite plan) led = Inr led1"
    and c2: "consume_approval k (dp_approval plan) led1 = Inr led2"
    and c3: "record_intent k (dp_intent plan) led2 = Inr led3"
    and led': "led' = set_state k Dispatched led3"
    by (elim dispatch_body_ok) blast
  note p = consume_prerequisite_ok [OF inv c1]
  note ap = consume_approval_ok [OF c2]
  note it = record_intent_ok [OF c3]
  let ?rows = "update_key a_id k (\<lambda>r. r\<lparr>a_state := Dispatched\<rparr>) (attempts led)"
  have ev: "evolves (attempts led) ?rows"
    using row by (intro evolves_key [OF inv row(1)] r_into_rtranclp row_step.dispatch)
  note e = evolve_ok [OF inv ev]
  have rows': "attempts led' = ?rows" using ap it p(1) by (auto simp: led' set_state_def)
  have left: "left_reserve ?rows k" unfolding left_reserve_def
    using select_row_SomeD [OF row(1)] by (auto simp: update_key_def set_update_rows intro!: bexI [of _ "row\<lparr>a_state := Dispatched\<rparr>"] image_eqI [of _ _ row])
  have others: "engagement led' = engagement led" "receipts led' = receipts led" "prerequisites led' = prerequisites led1"
    "approvals led' = approvals led2" "intents led' = intents led3"
    using ap it p by (auto simp: led' set_state_def)
  have t: "tables_ok (led\<lparr>attempts := ?rows\<rparr>)" using e(1) by (simp add: ledger_inv_def)
  have "receipts_ok led'" using t by (auto simp: tables_ok_def receipts_ok_def others rows')
  moreover have "prerequisites_ok led'"
    using t left p(7,8) by (fastforce simp: tables_ok_def prerequisites_ok_def others rows' dest: p(9))
  moreover have "approvals_ok led'"
    using t left ap p(3) by (auto simp: tables_ok_def approvals_ok_def others rows' map_insert_row)
  moreover have "intents_ok led'"
    using t left ap it p(4) by (auto simp: tables_ok_def intents_ok_def others rows' map_insert_row)
  moreover have "ledger_mono led led'"
    using e(2) p(3,4,6) ap it by (auto simp: ledger_mono_def others rows' grows_refl grows_insert)
  ultimately show "ledger_inv policy led' \<and> ledger_mono led led'"
    using e(1) by (simp add: ledger_inv_def engagement_ok_def tables_ok_def others rows')
qed

lemma mark_dispatched_ok:
  assumes "ledger_inv policy led"
  shows "ledger_inv policy (snd (mark_dispatched fromiso policy clock k args led)) \<and>
    ledger_mono led (snd (mark_dispatched fromiso policy clock k args led))"
  using assms transaction_ok [OF dispatch_body_good assms]
  by (auto simp: mark_dispatched_def split: sum.split)

section \<open>Reservation\<close>

text \<open>What a successful reservation of a new attempt has checked.\<close>

record admission =
  adm_parent :: "attempt_row option"
  adm_ancestors :: "attempt_row list"
  adm_parent_limits :: limits
  adm_effective :: limits
  adm_depth :: int

definition admitted :: "budget_policy \<Rightarrow> attempt_request \<Rightarrow> engagement_row \<Rightarrow> int \<Rightarrow> attempt_row list \<Rightarrow> admission \<Rightarrow> bool" where
  "admitted policy request eng now rows adm \<longleftrightarrow>
     \<not> cancelled eng \<and> now - started_at eng \<le> max_elapsed_ms (policy_limits policy) \<and>
     reserve_ancestors request rows = Inr (adm_parent adm, adm_ancestors adm) \<and>
     adm_parent_limits adm = (case adm_parent adm of Some p \<Rightarrow> a_limits p | None \<Rightarrow> policy_limits policy) \<and>
     adm_depth adm = (case adm_parent adm of Some p \<Rightarrow> a_depth p + 1 | None \<Rightarrow> 0) \<and>
     is_within (adm_effective adm) (adm_parent_limits adm) \<and>
     (req_parent_id request = None \<or>
        int (length (filter (\<lambda>r. a_parent r = req_parent_id request) rows)) < max_children_per_parent (adm_parent_limits adm)) \<and>
     adm_depth adm \<le> max_depth (policy_limits policy) \<and>
     list_all (\<lambda>anc. adm_depth adm - a_depth anc \<le> max_depth (a_limits anc)) (adm_ancestors adm) \<and>
     list_all (\<lambda>anc. now - started_at eng \<le> max_elapsed_ms (a_limits anc)) (adm_ancestors adm)"

lemma reserve_new_ok:
  assumes "reserve_new policy request child_limits eng now led = Inr (a, led')"
  obtains adm where "admitted policy request eng now (attempts led) adm"
    "adm_effective adm = (case child_limits of Some l \<Rightarrow> l | None \<Rightarrow> adm_parent_limits adm)"
    "reserve_insert policy (new_attempt_row request (adm_effective adm) (adm_depth adm)) (adm_ancestors adm) led = Inr (a, led')"
proof -
  from assms obtain parent ancs where r: "reserve_ancestors request (attempts led) = Inr (parent, ancs)"
    unfolding reserve_new_def Let_def by (auto simp: bindE_Inr_iff)
  let ?pl = "case parent of Some p \<Rightarrow> a_limits p | None \<Rightarrow> policy_limits policy"
  let ?adm = "\<lparr>adm_parent = parent, adm_ancestors = ancs, adm_parent_limits = ?pl,
     adm_effective = (case child_limits of Some l \<Rightarrow> l | None \<Rightarrow> ?pl),
     adm_depth = (case parent of Some p \<Rightarrow> a_depth p + 1 | None \<Rightarrow> 0)\<rparr>"
  show thesis
  proof (rule that [of ?adm])
    show "adm_effective ?adm = (case child_limits of Some l \<Rightarrow> l | None \<Rightarrow> adm_parent_limits ?adm)"
      by (cases child_limits) simp_all
  qed (use assms r in \<open>auto simp: reserve_new_def Let_def bindE_Inr_iff admitted_def\<close>)
qed

lemma reserve_ancestors_ok:
  assumes f: "forest policy rows" and r: "reserve_ancestors request rows = Inr (parent, ancs)"
  shows "case req_parent_id request of
      None \<Rightarrow> parent = None \<and> ancs = []
    | Some p \<Rightarrow> \<exists>q. parent = Some q \<and> q \<in> set rows \<and> find_attempt p rows = Some q \<and> a_id q = p \<and>
        set ancs = ancestors rows q \<and> (\<forall>x \<in> set ancs. a_state x \<noteq> Released)"
proof (cases "req_parent_id request")
  case None
  with r show ?thesis by (simp add: reserve_ancestors_def)
next
  case (Some p)
  let ?chk = "\<lambda>r. if a_state r = Released then Some (BudgetDenied ''parent attempt unavailable'') else None"
  from Some r obtain q where q: "find_attempt p rows = Some q" "parent = Some q"
    "walk_up (row_fuel rows) rows ?chk (Some q) = Inr ancs"
    by (auto simp: reserve_ancestors_def bindE_Inr_iff split: option.splits if_splits)
  note qs = select_row_SomeD [OF q(1)]
  note w = walk_up_ok [OF f qs [THEN conjunct1] q(3)]
  have "a_state x \<noteq> Released" if "x \<in> set ancs" for x using w(2) [of x] w(1) that by (auto split: if_splits)
  with q qs w(1) Some show ?thesis by simp
qed

lemma charged_within_ok:
  "list_all (row_ok policy) rows \<Longrightarrow>
   charged_within rows l m = (if within_limits (snapshot_of rows) l then Inr () else Inl (BudgetDenied m))"
  by (simp add: charged_within_def charged_total)

lemma within_caps: "within_limits (snapshot_of rows) l \<Longrightarrow> caps_within rows l"
  by (simp add: within_limits_def snapshot_of_def caps_within_def)

lemma new_row_fields [simp]:
  "a_id (new_attempt_row rq l d) = req_attempt_id rq" "a_parent (new_attempt_row rq l d) = req_parent_id rq"
  "a_limits (new_attempt_row rq l d) = l" "a_depth (new_attempt_row rq l d) = d"
  "a_request (new_attempt_row rq l d) = rq" "a_state (new_attempt_row rq l d) = Reserved"
  by (simp_all add: new_attempt_row_def)

lemma new_row_ok:
  "valid_request rq \<Longrightarrow> valid_limits l \<Longrightarrow> 0 \<le> d \<Longrightarrow> d \<le> max_depth (policy_limits policy) \<Longrightarrow>
   row_ok policy (new_attempt_row rq l d)"
  by (simp add: row_ok_def new_attempt_row_def valid_opt_def)

lemma find_insert: "find_attempt k rows = Some q \<Longrightarrow> find_attempt k (insert_row r rows) = Some q"
  by (simp add: select_insert_row)

lemma link_ok_insert: "link_ok policy rows x \<Longrightarrow> link_ok policy (insert_row r rows) x"
  by (auto simp: link_ok_def find_insert split: option.splits dest: find_insert)

lemma children_insert: "children (insert_row r rows) p = children rows p + (if a_parent r = Some p then 1 else 0)"
  by (simp add: children_def insert_row_def)

lemma children_unknown: "forest policy rows \<Longrightarrow> k \<notin> a_id ` set rows \<Longrightarrow> children rows k = 0"
  by (auto simp: children_def filter_empty_conv dest!: forestD(2)
      simp: link_ok_def select_row_None_iff [THEN iffD2] split: option.splits)

lemma insert_forest:
  assumes f: "forest policy rows" and pol: "valid_policy policy" and rq: "valid_request rq"
    and fresh: "find_attempt (req_attempt_id rq) rows = None"
    and adm: "admitted policy rq eng now rows adm" and l: "valid_limits (adm_effective adm)"
  shows "forest policy (insert_row (new_attempt_row rq (adm_effective adm) (adm_depth adm)) rows)"
proof -
  let ?row = "new_attempt_row rq (adm_effective adm) (adm_depth adm)"
  let ?rows = "insert_row ?row rows"
  from fresh have new: "req_attempt_id rq \<notin> a_id ` set rows" by (simp add: select_row_None_iff)
  from adm have par: "reserve_ancestors rq rows = Inr (adm_parent adm, adm_ancestors adm)" by (simp add: admitted_def)
  note anc = reserve_ancestors_ok [OF f par]
  have d: "0 \<le> adm_depth adm" "adm_depth adm \<le> max_depth (policy_limits policy)"
    using adm anc forestD(1) [OF f] row_ok_depth by (fastforce simp: admitted_def split: option.splits)+
  have link: "link_ok policy ?rows ?row"
    using adm anc by (auto simp: link_ok_def admitted_def find_insert split: option.splits)
  have fan: "fanout_ok ?rows q" if "q \<in> set ?rows" for q
  proof (cases "q = ?row")
    case True
    have "req_parent_id rq \<noteq> Some (req_attempt_id rq)" using rq by (auto simp: valid_request_def)
    then show ?thesis using l by (simp add: True fanout_ok_def children_insert children_unknown [OF f new] valid_limits_def int_range_def)
  next
    case False
    with that have q: "q \<in> set rows" by simp
    show ?thesis
    proof (cases "req_parent_id rq = Some (a_id q)")
      case True
      with anc forest_find [OF f q] have "adm_parent adm = Some q" by auto
      with adm True have "children rows (a_id q) < max_children_per_parent (a_limits q)"
        by (auto simp: admitted_def children_def)
      with True show ?thesis by (simp add: fanout_ok_def children_insert)
    next
      case False
      with forestD(3) [OF f q] show ?thesis by (simp add: fanout_ok_def children_insert)
    qed
  qed
  show ?thesis unfolding forest_def list_all_iff
    using f new link fan new_row_ok [OF rq l d] link_ok_insert [of policy rows]
    by (auto simp: forest_def list_all_iff map_insert_row)
qed

lemma insert_descends:
  assumes f: "forest policy rows" and x: "x \<in> set rows"
  shows "descends (insert_row r rows) x a \<longleftrightarrow> descends rows x a"
  using assms
proof (induction rule: forest_induct)
  case (root x)
  then have "parent_row (insert_row r rows) x = None"
    using forest_root(2) [OF f root(1,2)] by (simp add: parent_row_def)
  with root show ?case by (simp add: descends_iff [of _ x])
next
  case (child x p)
  then have "parent_row (insert_row r rows) x = Some p"
    by (auto simp: parent_row_def find_insert split: option.splits)
  with child show ?case by (simp add: descends_iff [of _ x])
qed

lemma check_subtrees_ok:
  assumes f: "forest policy rows" and "check_subtrees rows ancs = Inr ()"
  shows "\<forall>q \<in> set ancs. within_limits (snapshot_of (filter (\<lambda>r. descends rows r (a_id q)) rows)) (a_limits q)"
  using assms(2)
proof (induction ancs)
  case (Cons q ancs)
  have ok: "list_all (row_ok policy) (filter (\<lambda>r. descends rows r (a_id q)) rows)"
    using f by (auto simp: forest_def list_all_iff)
  from Cons show ?case
    by (simp add: bindE_Inr_iff subtree_of_correct [OF f] charged_within_ok [OF ok] split: if_splits)
qed simp

text \<open>
  What the ledger looks like after a new reservation: every limit of the engagement, of every
  ancestor's subtree and of the attempt itself holds for all five figures.
\<close>

lemma reserve_insert_ok:
  assumes f: "forest policy (insert_row row (attempts led))"
    and ins: "reserve_insert policy row ancs led = Inr (a, led')"
  shows "led' = led\<lparr>attempts := insert_row row (attempts led)\<rparr>" "a = attempt_of row"
    "within_limits (snapshot_of (attempts led')) (policy_limits policy)"
    "\<forall>q \<in> set ancs. within_limits (snapshot_of (filter (\<lambda>r. descends (attempts led') r (a_id q)) (attempts led'))) (a_limits q)"
    "within_limits (snapshot_of [row]) (a_limits row)"
proof -
  let ?rows = "insert_row row (attempts led)"
  have ok: "list_all (row_ok policy) ?rows" "list_all (row_ok policy) [row]"
    using f by (auto simp: forest_def list_all_iff)
  from ins have *: "led' = led\<lparr>attempts := ?rows\<rparr>" "a = attempt_of row"
    "within_limits (snapshot_of ?rows) (policy_limits policy)" "check_subtrees ?rows ancs = Inr ()"
    "within_limits (snapshot_of [row]) (a_limits row)"
    by (auto simp: reserve_insert_def Let_def bindE_Inr_iff charged_within_ok [OF ok(1)] charged_within_ok [OF ok(2)]
        split: if_splits)
  then show "led' = led\<lparr>attempts := ?rows\<rparr>" "a = attempt_of row"
    "within_limits (snapshot_of (attempts led')) (policy_limits policy)"
    "within_limits (snapshot_of [row]) (a_limits row)" by simp_all
  from check_subtrees_ok [OF f *(4)] *(1)
  show "\<forall>q \<in> set ancs. within_limits (snapshot_of (filter (\<lambda>r. descends (attempts led') r (a_id q)) (attempts led'))) (a_limits q)"
    by simp
qed

lemma insert_caps:
  assumes f: "forest policy rows" and f': "forest policy (insert_row row rows)" and b: "budget_caps policy rows"
    and fresh: "a_id row \<notin> a_id ` set rows" and agg: "caps_within (insert_row row rows) (policy_limits policy)"
    and sub: "\<And>q. q \<in> set rows \<Longrightarrow> descends (insert_row row rows) row (a_id q) \<Longrightarrow>
      caps_within (filter (\<lambda>r. descends (insert_row row rows) r (a_id q)) (insert_row row rows)) (a_limits q)"
    and own: "caps_within [row] (a_limits row)"
  shows "budget_caps policy (insert_row row rows)"
  unfolding budget_caps_def
proof (intro conjI ballI agg)
  let ?rows = "insert_row row rows"
  fix q assume q: "q \<in> set ?rows"
  have old: "filter (\<lambda>r. descends ?rows r a) rows = filter (\<lambda>r. descends rows r a) rows" for a
    by (rule filter_cong) (simp_all add: insert_descends [OF f])
  show "caps_within (filter (\<lambda>r. descends ?rows r (a_id q)) ?rows) (a_limits q)"
  proof (cases "q = row")
    case True
    have "filter (\<lambda>r. descends rows r (a_id row)) rows = []"
      using fresh descends_known by (fastforce simp: filter_empty_conv)
    with True own show ?thesis by (simp add: insert_row_def old [unfolded insert_row_def] descends.self)
  next
    case False
    with q have qr: "q \<in> set rows" by simp
    show ?thesis
    proof (cases "descends ?rows row (a_id q)")
      case True
      from sub [OF qr True] show ?thesis .
    next
      case False
      with b qr show ?thesis by (simp add: insert_row_def old [unfolded insert_row_def] budget_caps_def)
    qed
  qed
qed

lemma admitted_limits:
  assumes inv: "ledger_inv policy led" and cl: "\<And>l. child_limits = Some l \<Longrightarrow> valid_limits l"
    and adm: "admitted policy rq eng now (attempts led) adm"
    and eff: "adm_effective adm = (case child_limits of Some l \<Rightarrow> l | None \<Rightarrow> adm_parent_limits adm)"
  shows "valid_limits (adm_effective adm)"
proof -
  from inv have pol: "valid_policy policy" and f: "forest policy (attempts led)" by (simp_all add: ledger_inv_def)
  have "reserve_ancestors rq (attempts led) = Inr (adm_parent adm, adm_ancestors adm)" using adm by (simp add: admitted_def)
  from reserve_ancestors_ok [OF f this] have "valid_limits (adm_parent_limits adm)"
    using adm pol forestD(1) [OF f] by (auto simp: admitted_def valid_policy_def row_ok_def split: option.splits)
  with eff cl show ?thesis by (auto split: option.splits)
qed

lemma admitted_ancestors:
  assumes f: "forest policy rows" and adm: "admitted policy rq eng now rows adm"
    and fresh: "find_attempt (req_attempt_id rq) rows = None" and q: "q \<in> set rows"
    and d: "descends (insert_row (new_attempt_row rq l d) rows) (new_attempt_row rq l d) (a_id q)"
  shows "q \<in> set (adm_ancestors adm)"
proof -
  let ?row = "new_attempt_row rq l d"
  have par: "reserve_ancestors rq rows = Inr (adm_parent adm, adm_ancestors adm)" using adm by (simp add: admitted_def)
  have "a_id q \<noteq> a_id ?row" using q fresh by (metis imageI new_row_fields(1) select_row_None_iff)
  with d obtain p where p: "parent_row (insert_row ?row rows) ?row = Some p" "descends (insert_row ?row rows) p (a_id q)"
    by (auto simp: descends_iff [of _ ?row])
  with reserve_ancestors_ok [OF f par] have "p \<in> set rows" "set (adm_ancestors adm) = ancestors rows p"
    by (auto simp: parent_row_def find_insert split: option.splits)
  with p q show ?thesis by (simp add: ancestors_def insert_descends [OF f])
qed

lemma reserve_new_good:
  assumes inv: "ledger_inv policy led" and rq: "valid_request rq"
    and cl: "\<And>l. child_limits = Some l \<Longrightarrow> valid_limits l"
    and fresh: "find_attempt (req_attempt_id rq) (attempts led) = None"
    and ok: "reserve_new policy rq child_limits eng now led = Inr (a, led')"
  shows "ledger_inv policy led' \<and> ledger_mono led led'"
proof -
  let ?rows = "attempts led"
  from ok obtain adm where adm: "admitted policy rq eng now ?rows adm"
    and eff: "adm_effective adm = (case child_limits of Some l \<Rightarrow> l | None \<Rightarrow> adm_parent_limits adm)"
    and ins: "reserve_insert policy (new_attempt_row rq (adm_effective adm) (adm_depth adm)) (adm_ancestors adm) led = Inr (a, led')"
    by (rule reserve_new_ok)
  let ?row = "new_attempt_row rq (adm_effective adm) (adm_depth adm)"
  from inv have pol: "valid_policy policy" and f: "forest policy ?rows" and b: "budget_caps policy ?rows"
    by (simp_all add: ledger_inv_def)
  note f' = insert_forest [OF f pol rq fresh adm admitted_limits [OF inv cl adm eff]]
  note r = reserve_insert_ok [OF f' ins]
  have fresh': "a_id ?row \<notin> a_id ` set ?rows" using fresh by (simp add: select_row_None_iff)
  have sub: "caps_within (filter (\<lambda>r. descends (insert_row ?row ?rows) r (a_id q)) (insert_row ?row ?rows)) (a_limits q)"
    if "q \<in> set ?rows" "descends (insert_row ?row ?rows) ?row (a_id q)" for q
    using admitted_ancestors [OF f adm fresh that] r(4) by (auto simp: r(1) intro: within_caps)
  have caps: "budget_caps policy (insert_row ?row ?rows)"
    by (rule insert_caps [OF f f' b fresh' _ sub within_caps [OF r(5)]]) (use r(3) in \<open>simp_all add: r(1) within_caps\<close>)
  have g: "grows row_steps ?rows (insert_row ?row ?rows)" by (rule grows_insert) simp
  show ?thesis
    using inv f' caps grows_tables [OF _ g] g
    by (auto simp: ledger_inv_def r(1) engagement_ok_def ledger_mono_def grows_refl)
qed

lemma reserve_ok:
  assumes "ledger_inv policy led" "valid_request rq" "\<And>l. child_limits = Some l \<Longrightarrow> valid_limits l"
  shows "ledger_inv policy (snd (reserve policy clock rq child_limits led)) \<and>
    ledger_mono led (snd (reserve policy clock rq child_limits led))"
  unfolding reserve_def
  by (rule transaction_ok [OF _ assms(1)])
    (use assms(2,3) in \<open>auto simp: good_body_def reserve_existing_def bindE_Inr_iff dest: reserve_new_good
      split: option.splits if_splits\<close>)

end
