(* ===== verification/Budget_Machine.thy ===== *)
theory Budget_Machine
  imports Budget_Steps
begin

text \<open>
  The ledger as one machine. An operation carries the raw arguments of the constructors it goes
  through (\<^verbatim>\<open>AttemptRequest\<close>, \<^verbatim>\<open>BudgetLimits\<close>, \<^verbatim>\<open>Receipt\<close>), so the facts below hold for every call a
  client can make. A run is any interleaving of the transactions of the processes that share the
  ledger file, including reopening it after a crash.
\<close>

section \<open>Operations\<close>

datatype budget_op =
    Open
  | Reserve json json json json json "(string \<Rightarrow> json) option"
  | Get_attempt string
  | Get_dispatch_intent string
  | Mark_dispatched string dispatch_args
  | Mark_uncertain string
  | Release_undispatched string
  | Reconcile json json json json json json "string option" "dict option"
  | Cancel
  | Cancellation_report string
  | Snapshot
  | Remaining_elapsed "string option"

datatype budget_result =
    RUnit
  | RAttempt attempt
  | RDict dict
  | RReport cancel_report
  | RSnapshot snapshot
  | RInt int

definition map_ok :: "('a \<Rightarrow> 'b) \<Rightarrow> ('s, 'e, 'a) outcome \<Rightarrow> ('s, 'e, 'b) outcome" where
  "map_ok f o' = (case o' of (Inl e, s) \<Rightarrow> (Inl e, s) | (Inr a, s) \<Rightarrow> (Inr (f a), s))"

definition optional_limits :: "(string \<Rightarrow> json) option \<Rightarrow> (budget_error, limits option) result" where
  "optional_limits arg =
     (case arg of None \<Rightarrow> Inr None | Some a \<Rightarrow> bindE (BudgetLimits a) (\<lambda>l. Inr (Some l)))"

fun budget_step ::
  "(string \<Rightarrow> int option option) \<Rightarrow> (string \<Rightarrow> pyfloat) \<Rightarrow> budget_policy \<Rightarrow> json option \<times> budget_op \<Rightarrow> ledger \<Rightarrow>
   (ledger, budget_error, budget_result) outcome" where
  "budget_step fromiso pf policy (clock, Open) led = map_ok (\<lambda>_. RUnit) (open_ledger policy clock led)"
| "budget_step fromiso pf policy (clock, Reserve i p t c b lims) led =
     (case bindE (AttemptRequest i p t c b) (\<lambda>rq. bindE (optional_limits lims) (\<lambda>cl. Inr (rq, cl))) of
        Inl e \<Rightarrow> (Inl e, led)
      | Inr (rq, cl) \<Rightarrow> map_ok RAttempt (reserve policy clock rq cl led))"
| "budget_step fromiso pf policy (clock, Get_attempt k) led = map_ok RAttempt (get_attempt policy clock k led)"
| "budget_step fromiso pf policy (clock, Get_dispatch_intent k) led = map_ok RDict (get_dispatch_intent pf policy clock k led)"
| "budget_step fromiso pf policy (clock, Mark_dispatched k args) led = map_ok RAttempt (mark_dispatched fromiso policy clock k args led)"
| "budget_step fromiso pf policy (clock, Mark_uncertain k) led = map_ok RAttempt (mark_uncertain policy clock k led)"
| "budget_step fromiso pf policy (clock, Release_undispatched k) led = map_ok RAttempt (release_undispatched policy clock k led)"
| "budget_step fromiso pf policy (clock, Reconcile i a oc t c b pid p) led =
     (case Receipt i a oc t c b of
        Inl e \<Rightarrow> (Inl e, led)
      | Inr rcpt \<Rightarrow> map_ok RAttempt (reconcile policy clock rcpt pid p led))"
| "budget_step fromiso pf policy (clock, Cancel) led = map_ok (\<lambda>_. RUnit) (cancel policy clock led)"
| "budget_step fromiso pf policy (clock, Cancellation_report k) led = map_ok RReport (cancellation_report policy clock k led)"
| "budget_step fromiso pf policy (clock, Snapshot) led = map_ok RSnapshot (budget_snapshot policy clock led)"
| "budget_step fromiso pf policy (clock, Remaining_elapsed k) led = map_ok RInt (remaining_elapsed_ms policy clock k led)"

lemma snd_map_ok [simp]: "snd (map_ok f x) = snd x"
  by (auto simp: map_ok_def split: prod.split sum.split)

lemma map_ok_err [simp]: "fst (map_ok f x) = Inl e \<longleftrightarrow> fst x = Inl e"
  by (auto simp: map_ok_def split: prod.split sum.split)

lemma optional_limits_ok: "optional_limits a = Inr (Some l) \<Longrightarrow> valid_limits l"
  by (auto simp: optional_limits_def bindE_Inr_iff dest: BudgetLimits_ok split: option.splits)

section \<open>The read-only operations\<close>

lemma get_attempt_ok:
  assumes "ledger_inv policy led"
  shows "ledger_inv policy (snd (get_attempt policy clock k led)) \<and> ledger_mono led (snd (get_attempt policy clock k led))"
  using assms unfolding get_attempt_def
  by (auto split: sum.split option.splits intro!: transaction_ok good_body_read)

lemma get_dispatch_intent_ok:
  assumes "ledger_inv policy led"
  shows "ledger_inv policy (snd (get_dispatch_intent pf policy clock k led)) \<and>
    ledger_mono led (snd (get_dispatch_intent pf policy clock k led))"
  using assms unfolding get_dispatch_intent_def
  by (auto split: sum.split option.splits sum.splits json.splits intro!: transaction_ok good_body_read)

lemma cancellation_report_ok:
  assumes "ledger_inv policy led"
  shows "ledger_inv policy (snd (cancellation_report policy clock k led)) \<and>
    ledger_mono led (snd (cancellation_report policy clock k led))"
  using assms unfolding cancellation_report_def
  by (auto split: sum.split option.splits intro!: transaction_ok good_body_read)

lemma budget_snapshot_ok:
  assumes "ledger_inv policy led"
  shows "ledger_inv policy (snd (budget_snapshot policy clock led)) \<and> ledger_mono led (snd (budget_snapshot policy clock led))"
  using assms unfolding budget_snapshot_def
  by (auto simp: bindE_Inr_iff intro!: transaction_ok good_body_read)

lemma remaining_elapsed_ok:
  assumes "ledger_inv policy led"
  shows "ledger_inv policy (snd (remaining_elapsed_ms policy clock k led)) \<and>
    ledger_mono led (snd (remaining_elapsed_ms policy clock k led))"
  using assms unfolding remaining_elapsed_ms_def
  by (auto simp: bindE_Inr_iff Let_def split: sum.split option.splits intro!: transaction_ok good_body_read)

section \<open>Every operation keeps the invariant\<close>

lemma reserve_step_ok:
  assumes "ledger_inv policy led"
  shows "ledger_inv policy (snd (budget_step fromiso pf policy (clock, Reserve i p t c b lims) led)) \<and>
    ledger_mono led (snd (budget_step fromiso pf policy (clock, Reserve i p t c b lims) led))"
proof (cases "bindE (AttemptRequest i p t c b) (\<lambda>rq. bindE (optional_limits lims) (\<lambda>cl. Inr (rq, cl)))")
  case (Inl e)
  with assms show ?thesis by simp
next
  case (Inr x)
  then obtain rq cl where x: "x = (rq, cl)" "AttemptRequest i p t c b = Inr rq" "optional_limits lims = Inr cl"
    by (auto simp: bindE_Inr_iff)
  have "valid_request rq" "\<And>l. cl = Some l \<Longrightarrow> valid_limits l"
    using x AttemptRequest_ok optional_limits_ok by blast+
  with reserve_ok [OF assms] Inr x(1) show ?thesis by simp
qed

lemma reconcile_step_ok:
  assumes "ledger_inv policy led"
  shows "ledger_inv policy (snd (budget_step fromiso pf policy (clock, Reconcile i a oc t c b pid p) led)) \<and>
    ledger_mono led (snd (budget_step fromiso pf policy (clock, Reconcile i a oc t c b pid p) led))"
  using assms reconcile_ok [OF assms] Receipt_ok [of i a oc t c b]
  by (cases "Receipt i a oc t c b") auto

lemma budget_step_ok:
  assumes "ledger_inv policy led"
  shows "ledger_inv policy (snd (budget_step fromiso pf policy x led)) \<and> ledger_mono led (snd (budget_step fromiso pf policy x led))"
proof -
  obtain clock op where x: "x = (clock, op)" by (cases x)
  show ?thesis
  proof (cases op)
    case (Reserve i p t c b lims)
    with reserve_step_ok [OF assms] x show ?thesis by blast
  next
    case (Reconcile i a oc t c b pid p)
    with reconcile_step_ok [OF assms] x show ?thesis by blast
  next
    case Cancel
    with x show ?thesis using transaction_ok [OF cancel_body_good assms] by (simp add: cancel_def)
  qed (simp_all add: x assms open_ledger_ok get_attempt_ok get_dispatch_intent_ok mark_dispatched_ok mark_uncertain_ok
      release_undispatched_ok cancellation_report_ok budget_snapshot_ok remaining_elapsed_ok)
qed

interpretation budget: guarded_machine "budget_step fromiso pf policy" "ledger_inv policy" ledger_mono
  for fromiso pf policy
  by unfold_locales (auto simp: budget_step_ok intro: ledger_mono_trans)

lemma empty_ledger_inv: "valid_policy policy \<Longrightarrow> ledger_inv policy empty_ledger"
  by (auto simp: ledger_inv_def empty_ledger_def engagement_ok_def forest_def budget_caps_def caps_within_def tables_defs
      valid_policy_def valid_limits_def int_range_def)

abbreviation ledger_run ::
  "(string \<Rightarrow> int option option) \<Rightarrow> (string \<Rightarrow> pyfloat) \<Rightarrow> budget_policy \<Rightarrow> (json option \<times> budget_op) list \<Rightarrow> ledger" where
  "ledger_run fromiso pf policy ops \<equiv> run_ops (budget_step fromiso pf policy) ops empty_ledger"

lemma ledger_run_inv: "valid_policy policy \<Longrightarrow> ledger_inv policy (ledger_run fromiso pf policy ops)"
  by (rule budget.run_inv) (rule empty_ledger_inv)

section \<open>Errors that cannot happen\<close>

definition internal_errors :: "budget_error set" where
  "internal_errors = {Nonterminating, TypeError, SqlError, BudgetStoreError ''budget storage unavailable'',
     BudgetStoreError ''attempt parent missing''}"

definition safe_body :: "budget_policy \<Rightarrow> 'a body \<Rightarrow> bool" where
  "safe_body policy body \<longleftrightarrow>
     (\<forall>eng now led e. ledger_inv policy led \<longrightarrow> body eng now led = Inl e \<longrightarrow> e \<notin> internal_errors)"

lemma transaction_safe:
  assumes "safe_body policy body" "ledger_inv policy led"
  shows "fst (transaction policy clock body led) \<noteq> Inl e \<or> e \<notin> internal_errors"
proof (cases "engagement led")
  case None
  then show ?thesis by (auto simp: transaction_def internal_errors_def)
next
  case (Some eng)
  have "now_of clock = Inl e \<Longrightarrow> e \<notin> internal_errors" for e
    by (auto simp: now_of_def internal_errors_def split: option.splits json.splits if_splits)
  moreover have "e' \<notin> internal_errors" if "last_seen eng \<le> now" "body eng now (set_last_seen now led) = Inl e'" for now e'
    using assms(1) set_last_seen_ok(1) [OF assms(2) Some that(1)] that(2) unfolding safe_body_def by blast
  ultimately show ?thesis using Some
    by (fastforce simp: transaction_def Let_def internal_errors_def not_less split: sum.splits if_splits)
qed

lemma walk_up_safe:
  assumes "ledger_inv policy led" "find_attempt k (attempts led) = Some row"
    "walk_up (row_fuel (attempts led)) (attempts led) chk (Some row) = Inl e"
  shows "\<exists>q. chk q = Some e"
  using assms walk_up_err [OF _ _ assms(3)] select_row_SomeD [OF assms(2)] by (auto simp: ledger_inv_def)

lemma any_live_descendant_correct:
  assumes "forest policy rows" "set cands \<subseteq> set rows"
  shows "any_live_descendant rows k cands =
    Inr (\<exists>c \<in> set cands. a_id c \<noteq> k \<and> a_state c \<noteq> Released \<and> descends rows c k)"
  using assms(2)
  by (induction cands) (auto simp: descends_from_correct [OF assms(1)] simp del: descends_from.simps)

lemma denied_safe [simp]: "BudgetDenied m \<notin> internal_errors" "ValueError m \<notin> internal_errors"
  by (auto simp: internal_errors_def)

lemma consume_prerequisite_safe: "consume_prerequisite k pre led = Inl e \<Longrightarrow> e \<notin> internal_errors"
  by (auto simp: consume_prerequisite_def Let_def split: option.splits if_splits)

lemma consume_approval_safe:
  assumes "ledger_inv policy led" "find_attempt k (attempts led) = Some row" "a_state row = Reserved"
    "consume_approval k ap led1 = Inl e" "approvals led1 = approvals led"
  shows "e \<notin> internal_errors"
proof -
  have "\<not> left_reserve (attempts led) k"
    using find_unique [OF assms(1,2)] assms(3) by (auto simp: left_reserve_def)
  then have "k \<notin> ap_attempt ` set (approvals led)" using assms(1) by (auto simp: ledger_inv_def tables_defs)
  with assms(4,5) show ?thesis by (auto simp: consume_approval_def split: option.splits if_splits)
qed

lemma record_intent_safe:
  assumes "ledger_inv policy led" "find_attempt k (attempts led) = Some row" "a_state row = Reserved"
    "record_intent k t led1 = Inl e" "intents led1 = intents led"
  shows "e \<notin> internal_errors"
proof -
  have "\<not> left_reserve (attempts led) k"
    using find_unique [OF assms(1,2)] assms(3) by (auto simp: left_reserve_def)
  then have "k \<notin> i_attempt ` set (intents led)" using assms(1) by (auto simp: ledger_inv_def tables_defs)
  with assms(4,5) show ?thesis by (auto simp: record_intent_def split: option.splits if_splits)
qed

lemma dispatch_body_safe: "safe_body policy (dispatch_body policy k plan)"
  unfolding safe_body_def
proof (intro allI impI)
  fix eng now led e
  assume inv: "ledger_inv policy led" and err: "dispatch_body policy k plan eng now led = Inl e"
  show "e \<notin> internal_errors"
  proof (cases "find_attempt k (attempts led)")
    case None
    with err show ?thesis by (auto simp: dispatch_body_def)
  next
    case (Some row)
    have walk: "e' \<notin> internal_errors"
      if "walk_up (row_fuel (attempts led)) (attempts led) (dispatch_walk_check eng now) (Some row) = Inl e'" for e'
      using walk_up_safe [OF inv Some that] by (auto simp: dispatch_walk_check_def split: if_splits)
    have pre: "approvals led1 = approvals led \<and> intents led1 = intents led"
      if "consume_prerequisite k (dp_prerequisite plan) led = Inr led1" for led1
      using consume_prerequisite_ok [OF inv that] by simp
    have app: "intents led2 = intents led1" if "consume_approval k (dp_approval plan) led1 = Inr led2" for led1 led2
      using consume_approval_ok [OF that] by auto
    from err Some show ?thesis
      unfolding dispatch_body_def
      by (auto simp: bindE_Inl_iff walk consume_prerequisite_safe dest!: pre app
          dest: consume_approval_safe [OF inv Some] record_intent_safe [OF inv Some])
  qed
qed

lemma reserve_insert_safe:
  assumes "forest policy (insert_row row (attempts led))" "reserve_insert policy row ancs led = Inl e"
  shows "e \<notin> internal_errors"
proof -
  let ?rows = "insert_row row (attempts led)"
  have sub: "list_all (row_ok policy) (filter P ?rows)" for P
    using assms(1) by (auto simp: forest_def list_all_iff)
  have ok: "list_all (row_ok policy) ?rows" "list_all (row_ok policy) [row]"
    using assms(1) by (auto simp: forest_def list_all_iff)
  have "check_subtrees ?rows xs = Inl e' \<Longrightarrow> e' \<notin> internal_errors" for xs e'
    by (induction xs) (auto simp: bindE_Inl_iff subtree_of_correct [OF assms(1)] charged_within_ok [OF sub] split: if_splits)
  with assms(2) show ?thesis
    by (auto simp: reserve_insert_def Let_def bindE_Inl_iff charged_within_ok [OF ok(1)] charged_within_ok [OF ok(2)]
        split: if_splits)
qed

lemma reserve_ancestors_safe:
  assumes "ledger_inv policy led" "reserve_ancestors rq (attempts led) = Inl e"
  shows "e \<notin> internal_errors"
proof -
  let ?chk = "\<lambda>r. if a_state r = Released then Some (BudgetDenied ''parent attempt unavailable'') else None"
  have "e' \<notin> internal_errors" if "find_attempt p (attempts led) = Some q"
    "walk_up (row_fuel (attempts led)) (attempts led) ?chk (Some q) = Inl e'" for p q e'
    using walk_up_safe [OF assms(1) that] by (auto split: if_splits)
  with assms(2) show ?thesis
    unfolding reserve_ancestors_def
    by (auto simp: bindE_Inl_iff simp del: walk_up.simps split: option.splits if_splits)
qed

lemma reserve_new_safe:
  assumes inv: "ledger_inv policy led" and rq: "valid_request rq" and cl: "\<And>l. child_limits = Some l \<Longrightarrow> valid_limits l"
    and fresh: "find_attempt (req_attempt_id rq) (attempts led) = None"
    and err: "reserve_new policy rq child_limits eng now led = Inl e"
  shows "e \<notin> internal_errors"
proof (rule ccontr)
  assume "\<not> e \<notin> internal_errors"
  then have i: "e \<in> internal_errors" by simp
  from err i obtain parent ancs where r: "reserve_ancestors rq (attempts led) = Inr (parent, ancs)"
    unfolding reserve_new_def Let_def by (auto simp: bindE_Inl_iff dest: reserve_ancestors_safe [OF inv])
  let ?pl = "case parent of Some p \<Rightarrow> a_limits p | None \<Rightarrow> policy_limits policy"
  let ?adm = "\<lparr>adm_parent = parent, adm_ancestors = ancs, adm_parent_limits = ?pl,
     adm_effective = (case child_limits of Some l \<Rightarrow> l | None \<Rightarrow> ?pl),
     adm_depth = (case parent of Some p \<Rightarrow> a_depth p + 1 | None \<Rightarrow> 0)\<rparr>"
  have adm: "admitted policy rq eng now (attempts led) ?adm"
    and ins: "reserve_insert policy (new_attempt_row rq (adm_effective ?adm) (adm_depth ?adm)) ancs led = Inl e"
    using err i r by (auto simp: reserve_new_def Let_def bindE_Inl_iff admitted_def)
  from inv have pol: "valid_policy policy" and f: "forest policy (attempts led)" by (simp_all add: ledger_inv_def)
  have "valid_limits ?pl"
    using reserve_ancestors_ok [OF f r] pol forestD(1) [OF f]
    by (auto simp: valid_policy_def row_ok_def split: option.splits)
  then have "valid_limits (adm_effective ?adm)" using cl by (auto split: option.splits)
  from reserve_insert_safe [OF insert_forest [OF f pol rq fresh adm this] ins] i show False by simp
qed

lemma reserve_existing_safe:
  assumes "ledger_inv policy led" "existing \<in> set (attempts led)" "reserve_existing policy rq cl existing led = Inl e"
  shows "e \<notin> internal_errors"
proof -
  have "link_ok policy (attempts led) existing" using assms(1,2) forestD(2) by (auto simp: ledger_inv_def)
  with assms(3) show ?thesis
    by (auto simp: reserve_existing_def inherited_limits_def link_ok_def bindE_Inl_iff split: option.splits if_splits)
qed

lemma reserve_safe:
  assumes "ledger_inv policy led" "valid_request rq" "\<And>l. cl = Some l \<Longrightarrow> valid_limits l"
  shows "fst (reserve policy clock rq cl led) \<noteq> Inl e \<or> e \<notin> internal_errors"
  unfolding reserve_def
  by (rule transaction_safe [OF _ assms(1)])
    (auto simp: safe_body_def dest: reserve_new_safe [OF _ assms(2,3)] reserve_existing_safe dest!: select_row_SomeD
      split: option.splits)

lemma reconcile_body_safe: "safe_body policy (reconcile_body rcpt pre)"
  unfolding safe_body_def
  by (auto simp: reconcile_body_def reconcile_duplicate_def reconcile_fresh_def establish_prerequisite_def Let_def
      bindE_Inl_iff split: option.splits if_splits)

lemma identifier_safe: "check_identifier v f = Inl e \<Longrightarrow> e \<notin> internal_errors"
  by (auto simp: check_identifier_def split: json.splits if_splits)

lemma integer_safe: "integer_value v f p = Inl e \<Longrightarrow> e \<notin> internal_errors"
  by (auto simp: integer_value_def split: json.splits if_splits)

lemma canonical_safe: "budget_canonical d = Inl e \<Longrightarrow> e \<notin> internal_errors"
  by (auto simp: budget_canonical_def split: if_splits)

lemma timestamp_safe: "timestamp_ms fromiso v f = Inl e \<Longrightarrow> e \<notin> internal_errors"
  by (auto simp: timestamp_ms_def split: option.splits json.splits if_splits)

lemma dispatch_args_safe: "check_dispatch_args fromiso k args = Inl e \<Longrightarrow> e \<notin> internal_errors"
  by (auto simp: check_dispatch_args_def check_dispatch_intent_def bindE_Inl_iff identifier_safe canonical_safe timestamp_safe
      split: option.splits if_splits)

lemma prerequisite_args_safe: "check_prerequisite_args rcpt pid p = Inl e \<Longrightarrow> e \<notin> internal_errors"
  by (auto simp: check_prerequisite_args_def bindE_Inl_iff identifier_safe canonical_safe split: option.splits if_splits)

lemma mark_uncertain_safe:
  assumes "ledger_inv policy led" "e \<in> internal_errors"
  shows "fst (mark_uncertain policy clock k led) \<noteq> Inl e"
proof (cases "check_identifier (JStr k) ''attempt_id''")
  case (Inl e')
  with assms identifier_safe [OF Inl] show ?thesis by (auto simp: mark_uncertain_def)
next
  case (Inr i)
  have "fst (mark_uncertain policy clock k led) \<noteq> Inl e \<or> e \<notin> internal_errors"
    unfolding mark_uncertain_def
    by (simp only: Inr sum.case, rule transaction_safe [OF _ assms(1)]) (auto simp: safe_body_def split: option.splits if_splits)
  with assms show ?thesis by blast
qed

lemma release_safe:
  assumes "ledger_inv policy led" "e \<in> internal_errors"
  shows "fst (release_undispatched policy clock k led) \<noteq> Inl e"
proof (cases "check_identifier (JStr k) ''attempt_id''")
  case (Inl e')
  with assms identifier_safe [OF Inl] show ?thesis by (auto simp: release_undispatched_def)
next
  case (Inr i)
  have "fst (release_undispatched policy clock k led) \<noteq> Inl e \<or> e \<notin> internal_errors"
    unfolding release_undispatched_def
    by (simp only: Inr sum.case, rule transaction_safe [OF _ assms(1)])
      (auto simp: safe_body_def bindE_Inl_iff any_live_descendant_correct ledger_inv_def split: option.splits if_splits)
  with assms show ?thesis by blast
qed

lemma reads_safe:
  assumes "ledger_inv policy led" "e \<in> internal_errors"
  shows "fst (get_attempt policy clock k led) \<noteq> Inl e" "fst (get_dispatch_intent pf policy clock k led) \<noteq> Inl e"
    "fst (cancellation_report policy clock k led) \<noteq> Inl e"
proof -
  have "BudgetStoreError ''dispatch intent is malformed'' \<notin> internal_errors" by (auto simp: internal_errors_def)
  then have "safe_body policy (\<lambda>eng now led.
        case select_row i_attempt k (intents led) of
          None \<Rightarrow> Inl (BudgetDenied ''dispatch intent not found'')
        | Some row \<Rightarrow>
            (case loads (plain_hooks pf) (i_payload row) of
               Inr (JObj payload) \<Rightarrow> Inr (payload, led)
             | _ \<Rightarrow> Inl (BudgetStoreError ''dispatch intent is malformed'')))"
    by (auto simp: safe_body_def split: option.splits sum.splits json.splits)
  from transaction_safe [OF this assms(1)] assms(2) identifier_safe
  show "fst (get_dispatch_intent pf policy clock k led) \<noteq> Inl e"
    by (auto simp: get_dispatch_intent_def split: sum.splits)
  have b: "safe_body policy (\<lambda>eng now led.
        case find_attempt k (attempts led) of
          None \<Rightarrow> Inl (BudgetDenied ''attempt not found'')
        | Some row \<Rightarrow> Inr (g row, led))" for g :: "attempt_row \<Rightarrow> 'b"
    by (auto simp: safe_body_def split: option.splits)
  from transaction_safe [OF b assms(1)] assms(2) identifier_safe
  show "fst (get_attempt policy clock k led) \<noteq> Inl e" by (auto simp: get_attempt_def split: sum.splits)
  from transaction_safe [OF b assms(1)] assms(2) identifier_safe
  show "fst (cancellation_report policy clock k led) \<noteq> Inl e" by (auto simp: cancellation_report_def split: sum.splits)
qed

lemma remaining_safe:
  assumes "ledger_inv policy led" "e \<in> internal_errors"
  shows "fst (remaining_elapsed_ms policy clock k led) \<noteq> Inl e"
proof -
  have w: "walk_up (row_fuel (attempts led)) (attempts led) (\<lambda>_. None) (Some row) \<noteq> Inl e'"
    if "ledger_inv policy led" "find_attempt a (attempts led) = Some row" for led a row e'
    using walk_up_safe [OF that, of "\<lambda>_. None" e'] by blast
  have "safe_body policy (\<lambda>eng now led.
            let elapsed = now - started_at eng; remaining = max_elapsed_ms (policy_limits policy) - elapsed in
            case k of
              None \<Rightarrow> Inr (max 0 remaining, led)
            | Some a \<Rightarrow>
                (case find_attempt a (attempts led) of
                   None \<Rightarrow> Inl (BudgetDenied ''attempt not found'')
                 | Some row \<Rightarrow>
                     bindE (walk_up (row_fuel (attempts led)) (attempts led) (\<lambda>_. None) (Some row)) (\<lambda>visited.
                       Inr (max 0 (foldl (\<lambda>m r. min m (max_elapsed_ms (a_limits r) - elapsed)) remaining visited), led))))"
    unfolding safe_body_def Let_def
    by (auto simp: bindE_Inl_iff w simp del: walk_up.simps split: option.splits)
  from transaction_safe [OF this assms(1), of clock e] assms(2) identifier_safe
  show ?thesis unfolding remaining_elapsed_ms_def by (auto split: sum.splits option.splits)
qed

lemma snapshot_safe:
  assumes "ledger_inv policy led" "e \<in> internal_errors"
  shows "fst (budget_snapshot policy clock led) \<noteq> Inl e"
proof -
  have "charged (attempts led) = Inr (snapshot_of (attempts led))" if "ledger_inv policy led" for led
    using that charged_total by (auto simp: ledger_inv_def forest_def)
  then have "safe_body policy (\<lambda>eng now led.
       bindE (charged (attempts led)) (\<lambda>s. Inr (s\<lparr>over_budget := \<not> within_limits s (policy_limits policy)\<rparr>, led)))"
    by (simp add: safe_body_def)
  from transaction_safe [OF this assms(1), of clock e] assms(2) show ?thesis by (simp add: budget_snapshot_def)
qed

lemma constructors_safe:
  "AttemptRequest i p t c b = Inl e \<Longrightarrow> e \<notin> internal_errors"
  "Receipt i a oc t c b = Inl e \<Longrightarrow> e \<notin> internal_errors"
  "optional_limits lims = Inl e \<Longrightarrow> e \<notin> internal_errors"
  by (auto simp: AttemptRequest_def Receipt_def optional_limits_def BudgetLimits_def optional_integer_def bindE_Inl_iff
      identifier_safe integer_safe split: if_splits json.splits option.splits)

lemma open_safe: "e \<in> internal_errors \<Longrightarrow> fst (open_ledger policy clock led) \<noteq> Inl e"
  by (auto simp: open_ledger_def now_of_def internal_errors_def split: option.splits json.splits if_splits sum.splits)

lemma budget_step_safe:
  assumes inv: "ledger_inv policy led" and e: "e \<in> internal_errors"
  shows "fst (budget_step fromiso pf policy x led) \<noteq> Inl e"
proof -
  obtain clock op where x: "x = (clock, op)" by (cases x)
  show ?thesis
  proof (cases op)
    case (Reserve i p t c b lims)
    have "fst (reserve policy clock rq cl led) \<noteq> Inl e"
      if "AttemptRequest i p t c b = Inr rq" "optional_limits lims = Inr cl" for rq cl
    proof -
      have "\<And>l. cl = Some l \<Longrightarrow> valid_limits l" using optional_limits_ok that(2) by blast
      from reserve_safe [OF inv AttemptRequest_ok [OF that(1)] this, where clock = clock and e = e] e show ?thesis by simp
    qed
    then show ?thesis using Reserve x e constructors_safe
      by (auto simp: bindE_Inl_iff bindE_Inr_iff split: sum.splits)
  next
    case (Reconcile i a oc t c b pid p)
    have "fst (reconcile policy clock rcpt pid p led) \<noteq> Inl e" for rcpt
      using transaction_safe [OF reconcile_body_safe inv] prerequisite_args_safe e
      by (auto simp: reconcile_def split: sum.splits)
    then show ?thesis using Reconcile x e constructors_safe(2) by (auto split: sum.splits)
  next
    case (Mark_dispatched k args)
    have "fst (mark_dispatched fromiso policy clock k args led) \<noteq> Inl e"
      using transaction_safe [OF dispatch_body_safe inv] dispatch_args_safe e
      by (auto simp: mark_dispatched_def split: sum.splits)
    then show ?thesis using Mark_dispatched x by simp
  next
    case Cancel
    have "safe_body policy cancel_body" by (simp add: safe_body_def cancel_body_def)
    from transaction_safe [OF this inv, of clock e] e Cancel x show ?thesis by (simp add: cancel_def)
  qed (simp_all add: x open_safe [OF e] mark_uncertain_safe [OF inv e] release_safe [OF inv e] reads_safe [OF inv e]
      remaining_safe [OF inv e] snapshot_safe [OF inv e])
qed

end
