(* ===== verification/Budget_Props.thy ===== *)
theory Budget_Props
  imports Budget_Machine
begin

text \<open>
  What the budget ledger guarantees, for every run of its operations from an empty file.
\<close>

section \<open>A concrete engagement\<close>

text \<open>An engagement with three attempts, used to show that the theorems apply.\<close>

definition demo_limits :: limits where
  "demo_limits = \<lparr>max_attempts = 3, max_estimated_tokens = 100, max_estimated_cost_microunits = 50, max_elapsed_ms = 1000,
     max_concurrency = 2, max_retained_output_bytes = 64, max_depth = 1, max_children_per_parent = 2\<rparr>"

definition demo_policy :: budget_policy where
  "demo_policy = \<lparr>engagement_id = ''eng-1'', policy_limits = demo_limits, currency = ''USD'', price_source = ''list'',
     price_version = ''v1'', price_effective_date = ''2024-02-29'', schema_version = ''cops.assessment-budget/v1'',
     price_error_policy = ''deny''\<rparr>"

definition demo_request :: attempt_request where
  "demo_request = \<lparr>req_attempt_id = ''a'', req_parent_id = None, req_tokens = 10, req_cost = 5, req_output = 16\<rparr>"

definition demo_child :: attempt_request where
  "demo_child = \<lparr>req_attempt_id = ''b'', req_parent_id = Some ''a'', req_tokens = 20, req_cost = 5, req_output = 16\<rparr>"

definition demo_receipt :: receipt where
  "demo_receipt = \<lparr>rcpt_id = ''r'', rcpt_attempt_id = ''a'', rcpt_outcome = ''completed'', rcpt_tokens = Some 7,
     rcpt_cost = Some 4, rcpt_output = Some 12\<rparr>"

definition no_iso :: "string \<Rightarrow> int option option" where
  "no_iso s = None"

definition no_float :: "string \<Rightarrow> pyfloat" where
  "no_float t = NanF"

definition at_ms :: "int \<Rightarrow> json option" where
  "at_ms t = Some (JInt t)"

definition demo_reserved :: "(json option \<times> budget_op) list" where
  "demo_reserved = [(at_ms 100, Open), (at_ms 101, Reserve (JStr ''a'') JNull (JInt 10) (JInt 5) (JInt 16) None)]"

definition demo_dispatched :: "(json option \<times> budget_op) list" where
  "demo_dispatched = demo_reserved @ [(at_ms 102, Mark_dispatched ''a'' no_dispatch_args)]"

lemma demo_policy_valid: "valid_policy demo_policy"
  by code_simp

abbreviation demo_run :: "(json option \<times> budget_op) list \<Rightarrow> ledger" where
  "demo_run \<equiv> ledger_run no_iso no_float demo_policy"

section \<open>Limits\<close>

lemma pair_of_fst: "fst r = x \<Longrightarrow> r = (x, snd r)"
  by (cases r) simp

lemma inv_parts:
  assumes "ledger_inv policy led"
  shows "forest policy (attempts led)" "budget_caps policy (attempts led)" "list_all (row_ok policy) (attempts led)"
  using assms by (simp_all add: ledger_inv_def forest_def)

text \<open>
  C4. The engagement is never oversubscribed. After any run, the number of charged attempts, the
  charged output bytes and the concurrency stay within the limits of the engagement, and within the
  limits of every attempt for the subtree below it, as computed by the code's own \<^verbatim>\<open>_charged\<close>
  and \<^verbatim>\<open>_descends_from\<close>. (Tokens and cost are checked at admission; a receipt may report more.)
\<close>

theorem budget_never_oversubscribed:
  assumes "valid_policy policy"
  shows "let rows = attempts (ledger_run fromiso pf policy ops); l = policy_limits policy in
    (\<exists>s. charged rows = Inr s \<and> charged_attempts s \<le> max_attempts l \<and>
       charged_output_bytes s \<le> max_retained_output_bytes l \<and> active_concurrency s \<le> max_concurrency l) \<and>
    (\<forall>q \<in> set rows. \<exists>sub s. subtree_of rows (a_id q) = Inr sub \<and> charged sub = Inr s \<and>
       charged_attempts s \<le> max_attempts (a_limits q) \<and>
       charged_output_bytes s \<le> max_retained_output_bytes (a_limits q) \<and>
       active_concurrency s \<le> max_concurrency (a_limits q))"
proof -
  let ?rows = "attempts (ledger_run fromiso pf policy ops)"
  note inv = inv_parts [OF ledger_run_inv [OF assms, of fromiso pf ops]]
  have sub: "list_all (row_ok policy) (filter P ?rows)" for P using inv(3) by (auto simp: list_all_iff)
  from inv(2) show ?thesis
    by (simp add: Let_def charged_total [OF inv(3)] subtree_of_correct [OF inv(1)] charged_total [OF sub]
        budget_caps_def caps_within_def snapshot_of_def)
qed

theorem budget_never_oversubscribed_witness:
  "map a_id (attempts (demo_run demo_dispatched)) = [''a''] \<and>
   (\<exists>s. charged (attempts (demo_run demo_dispatched)) = Inr s \<and> charged_attempts s \<le> 3 \<and>
      charged_output_bytes s \<le> 64 \<and> active_concurrency s \<le> 2)"
proof -
  have "map a_id (attempts (demo_run demo_dispatched)) = [''a'']" by code_simp
  with budget_never_oversubscribed [OF demo_policy_valid, of no_iso no_float demo_dispatched]
  show ?thesis by (auto simp: Let_def demo_policy_def demo_limits_def)
qed

lemma transaction_okE:
  assumes "transaction policy clock body led = (Inr a, led')"
  obtains eng now where "engagement led = Some eng" "eng_policy eng = policy" "now_of clock = Inr now" "last_seen eng \<le> now"
    "body eng now (set_last_seen now led) = Inr (a, led')"
  using assms by (cases rule: transaction_cases [of policy clock body led]) auto

lemma transaction_okI:
  assumes "engagement led = Some eng" "eng_policy eng = policy" "now_of clock = Inr now" "last_seen eng \<le> now"
    "body eng now (set_last_seen now led) = Inr (a, led')"
  shows "transaction policy clock body led = (Inr a, led')"
  using assms by (simp add: transaction_def Let_def)

lemma set_last_seen_tables [simp]:
  "attempts (set_last_seen now led) = attempts led" "receipts (set_last_seen now led) = receipts led"
  "prerequisites (set_last_seen now led) = prerequisites led" "approvals (set_last_seen now led) = approvals led"
  "intents (set_last_seen now led) = intents led"
  by (simp_all add: set_last_seen_def)

text \<open>What admission has checked against the row directly above: the parent's, or the policy where there is none.\<close>

definition parent_admits :: "budget_policy \<Rightarrow> attempt_row list \<Rightarrow> attempt_row \<Rightarrow> bool" where
  "parent_admits policy rows row =
     (case a_parent row of
        None \<Rightarrow> is_within (a_limits row) (policy_limits policy) \<and> a_depth row = 0
      | Some p \<Rightarrow>
          (case find_attempt p rows of
             None \<Rightarrow> False
           | Some q \<Rightarrow> is_within (a_limits row) (a_limits q) \<and> a_depth row = a_depth q + 1 \<and>
               int (length (filter (\<lambda>r. a_parent r = Some p) rows)) \<le> max_children_per_parent (a_limits q)))"

lemma admitted_parent:
  assumes "forest policy rows" "admitted policy rq eng now rows adm"
  shows "parent_admits policy (insert_row (new_attempt_row rq (adm_effective adm) (adm_depth adm)) rows)
    (new_attempt_row rq (adm_effective adm) (adm_depth adm))"
proof -
  have "reserve_ancestors rq rows = Inr (adm_parent adm, adm_ancestors adm)" using assms(2) by (simp add: admitted_def)
  from reserve_ancestors_ok [OF assms(1) this] assms(2) show ?thesis
    by (auto simp: parent_admits_def admitted_def find_insert insert_row_def [symmetric] split: option.splits)
      (simp add: insert_row_def)
qed

text \<open>
  C21. Admission is sound: when \<^verbatim>\<open>reserve\<close> accepts a new attempt in a reachable ledger, the engagement
  is not cancelled, no deadline of the engagement or of an ancestor has passed, the limits do not
  widen the parent's, the parent has no more children than its fan-out limit allows, the new one
  counted, the depth is within bounds, no ancestor is released, and all five
  figures (tokens and cost included) are within the limits of the engagement, of every ancestor's
  subtree and of the attempt itself, with the new attempt counted.
\<close>

theorem reserve_admission:
  assumes pol: "valid_policy policy" and led: "led = ledger_run fromiso pf policy ops"
    and rq: "valid_request rq" and cl: "\<forall>l. child_limits = Some l \<longrightarrow> valid_limits l"
    and fresh: "find_attempt (req_attempt_id rq) (attempts led) = None"
    and ok: "reserve policy clock rq child_limits led = (Inr a, led')"
  shows "\<exists>eng now row. engagement led = Some eng \<and> now_of clock = Inr now \<and> \<not> cancelled eng \<and>
    now - started_at eng \<le> max_elapsed_ms (policy_limits policy) \<and>
    attempts led' = attempts led @ [row] \<and> a = attempt_of row \<and> a_request row = rq \<and> a_state row = Reserved \<and>
    within_limits (snapshot_of (attempts led')) (policy_limits policy) \<and>
    within_limits (snapshot_of [row]) (a_limits row) \<and>
    a_depth row \<le> max_depth (policy_limits policy) \<and> parent_admits policy (attempts led') row \<and>
    (\<forall>q \<in> ancestors (attempts led') row. q \<noteq> row \<longrightarrow>
       a_state q \<noteq> Released \<and> now - started_at eng \<le> max_elapsed_ms (a_limits q) \<and>
       a_depth row - a_depth q \<le> max_depth (a_limits q) \<and> is_within (a_limits row) (a_limits q) \<and>
       within_limits (snapshot_of (filter (\<lambda>r. descends (attempts led') r (a_id q)) (attempts led'))) (a_limits q))"
proof -
  have inv: "ledger_inv policy led" unfolding led by (rule ledger_run_inv [OF pol])
  from ok obtain eng now where e: "engagement led = Some eng" "now_of clock = Inr now" "last_seen eng \<le> now"
    and b: "reserve_new policy rq child_limits eng now (set_last_seen now led) = Inr (a, led')"
    unfolding reserve_def by (elim transaction_okE) (auto simp: fresh)
  let ?led = "set_last_seen now led"
  note inv1 = set_last_seen_ok(1) [OF inv e(1,3)]
  note f = inv_parts(1) [OF inv]
  from b obtain adm where adm: "admitted policy rq eng now (attempts ?led) adm"
    and eff: "adm_effective adm = (case child_limits of Some l \<Rightarrow> l | None \<Rightarrow> adm_parent_limits adm)"
    and ins: "reserve_insert policy (new_attempt_row rq (adm_effective adm) (adm_depth adm)) (adm_ancestors adm) ?led = Inr (a, led')"
    by (rule reserve_new_ok)
  let ?row = "new_attempt_row rq (adm_effective adm) (adm_depth adm)"
  have adm': "admitted policy rq eng now (attempts led) adm" using adm by simp
  have "valid_limits (adm_effective adm)" using admitted_limits [OF inv1 _ adm eff] cl by blast
  from insert_forest [OF f pol rq fresh adm' this]
  have f': "forest policy (insert_row ?row (attempts ?led))" by simp
  note r = reserve_insert_ok [OF f' ins]
  have rows: "attempts led' = insert_row ?row (attempts led)" using r(1) by simp
  have par: "reserve_ancestors rq (attempts led) = Inr (adm_parent adm, adm_ancestors adm)"
    using adm by (simp add: admitted_def)
  have up: "a_state q \<noteq> Released \<and> now - started_at eng \<le> max_elapsed_ms (a_limits q) \<and>
      adm_depth adm - a_depth q \<le> max_depth (a_limits q) \<and> is_within (a_limits ?row) (a_limits q) \<and>
      within_limits (snapshot_of (filter (\<lambda>r. descends (attempts led') r (a_id q)) (attempts led'))) (a_limits q)"
    if q: "q \<in> ancestors (attempts led') ?row" "q \<noteq> ?row" for q
  proof -
    have "q \<in> set (adm_ancestors adm)"
      by (rule admitted_ancestors [OF f adm' fresh]) (use q in \<open>auto simp: ancestors_def rows\<close>)
    then show ?thesis
      using reserve_ancestors_ok [OF f par] adm r(4) ancestors_limits [of policy "attempts led'" ?row q] f' q(1)
      by (auto simp: admitted_def list_all_iff rows split: option.splits)
  qed
  show ?thesis
    using e adm r up admitted_parent [OF f adm']
    by (intro exI [of _ eng] exI [of _ now] exI [of _ ?row]) (auto simp: rows admitted_def insert_row_def)
qed

theorem reserve_admission_witness:
  "\<exists>a led'. reserve demo_policy (at_ms 103) demo_child None (demo_run demo_dispatched) = (Inr a, led') \<and>
     map a_id (attempts led') = [''a'', ''b''] \<and>
     within_limits (snapshot_of (attempts led')) (policy_limits demo_policy)"
proof -
  let ?led = "demo_run demo_dispatched"
  have ok: "is_ok (fst (reserve demo_policy (at_ms 103) demo_child None ?led))"
    and ids: "map a_id (attempts (snd (reserve demo_policy (at_ms 103) demo_child None ?led))) = [''a'', ''b'']"
    and fresh: "find_attempt (req_attempt_id demo_child) (attempts ?led) = None"
    and rq: "valid_request demo_child" by code_simp+
  obtain a led' where r: "reserve demo_policy (at_ms 103) demo_child None ?led = (Inr a, led')"
    using ok by (cases "reserve demo_policy (at_ms 103) demo_child None ?led") (auto simp: is_ok_iff)
  from reserve_admission [OF demo_policy_valid refl rq _ fresh r] r ids show ?thesis by auto
qed

section \<open>Replays\<close>

lemma grows_find:
  assumes "ledger_inv policy led'" "ledger_mono led led'" "find_attempt k (attempts led) = Some r"
  shows "\<exists>r'. find_attempt k (attempts led') = Some r' \<and> row_steps r r'"
proof -
  note s = select_row_SomeD [OF assms(3)]
  from assms(2) obtain r' where r': "r' \<in> set (attempts led')" "row_steps r r'"
    using grows_member s by (fastforce simp: ledger_mono_def)
  have "a_id r' = k" using row_steps_fields(1) [OF r'(2)] s by simp
  with forest_find [OF inv_parts(1) [OF assms(1)] r'(1)] r'(2) show ?thesis by auto
qed

text \<open>The row that a reservation stands for: same request, and the limits the call asks for.\<close>

definition stands_for :: "budget_policy \<Rightarrow> ledger \<Rightarrow> attempt_request \<Rightarrow> limits option \<Rightarrow> attempt_row \<Rightarrow> bool" where
  "stands_for policy led rq cl row \<longleftrightarrow>
     find_attempt (req_attempt_id rq) (attempts led) = Some row \<and> a_request row = rq \<and>
     (\<exists>inh. inherited_limits policy (attempts led) row = Inr inh \<and>
        a_limits row = (case cl of Some l \<Rightarrow> l | None \<Rightarrow> inh))"

lemma stands_for_later:
  assumes inv': "ledger_inv policy led'" and m: "ledger_mono led led'" and s: "stands_for policy led rq cl row"
  shows "\<exists>row'. stands_for policy led' rq cl row' \<and> row_steps row row'"
proof -
  from s obtain inh where row: "find_attempt (req_attempt_id rq) (attempts led) = Some row" "a_request row = rq"
    and inh: "inherited_limits policy (attempts led) row = Inr inh" "a_limits row = (case cl of Some l \<Rightarrow> l | None \<Rightarrow> inh)"
    by (auto simp: stands_for_def)
  from grows_find [OF inv' m row(1)] obtain row' where row':
    "find_attempt (req_attempt_id rq) (attempts led') = Some row'" "row_steps row row'" by blast
  note same = row_steps_fields [OF row'(2)]
  have "inherited_limits policy (attempts led') row' = Inr inh"
  proof (cases "a_parent row")
    case None
    with inh(1) same(2) show ?thesis by (simp add: inherited_limits_def)
  next
    case (Some p)
    with inh(1) obtain q where q: "find_attempt p (attempts led) = Some q" "a_limits q = inh"
      by (auto simp: inherited_limits_def split: option.splits)
    from grows_find [OF inv' m q(1)] Some q(2) same(2) show ?thesis
      by (auto simp: inherited_limits_def dest: row_steps_fields(4))
  qed
  with row' row(2) inh(2) same show ?thesis by (auto simp: stands_for_def)
qed

lemma stands_for_replay:
  assumes "stands_for policy led rq cl row" "engagement led = Some eng" "eng_policy eng = policy"
    "now_of clock = Inr now" "last_seen eng \<le> now"
  shows "reserve policy clock rq cl led = (Inr (attempt_of row), set_last_seen now led)"
    "req_attempt_id rq' = req_attempt_id rq \<Longrightarrow> rq' \<noteq> rq \<Longrightarrow>
       reserve policy clock rq' cl' led = (Inl (BudgetDenied ''conflicting attempt id reuse''), set_last_seen now led)"
  using assms
  by (auto simp: reserve_def transaction_def stands_for_def reserve_existing_def)

lemma reserve_stands_for:
  assumes inv: "ledger_inv policy led" and rq: "valid_request rq" and cl: "\<And>l. cl = Some l \<Longrightarrow> valid_limits l"
    and ok: "reserve policy clock rq cl led = (Inr a, led')"
  shows "\<exists>row. stands_for policy led' rq cl row \<and> a = attempt_of row"
proof -
  from ok obtain eng now where e: "engagement led = Some eng" "last_seen eng \<le> now"
    and b: "(case find_attempt (req_attempt_id rq) (attempts (set_last_seen now led)) of
         Some existing \<Rightarrow> reserve_existing policy rq cl existing (set_last_seen now led)
       | None \<Rightarrow> reserve_new policy rq cl eng now (set_last_seen now led)) = Inr (a, led')"
    unfolding reserve_def by (elim transaction_okE)
  let ?led = "set_last_seen now led"
  note inv1 = set_last_seen_ok(1) [OF inv e]
  show ?thesis
  proof (cases "find_attempt (req_attempt_id rq) (attempts led)")
    case (Some row)
    with b show ?thesis
      by (auto simp: reserve_existing_def stands_for_def bindE_Inr_iff split: if_splits)
  next
    case None
    with b have new: "reserve_new policy rq cl eng now ?led = Inr (a, led')" by simp
    then obtain adm where adm: "admitted policy rq eng now (attempts ?led) adm"
      and eff: "adm_effective adm = (case cl of Some l \<Rightarrow> l | None \<Rightarrow> adm_parent_limits adm)"
      and ins: "reserve_insert policy (new_attempt_row rq (adm_effective adm) (adm_depth adm)) (adm_ancestors adm) ?led = Inr (a, led')"
      by (rule reserve_new_ok)
    let ?row = "new_attempt_row rq (adm_effective adm) (adm_depth adm)"
    have f: "forest policy (attempts ?led)" and pol: "valid_policy policy" using inv1 by (simp_all add: ledger_inv_def)
    have fresh: "find_attempt (req_attempt_id rq) (attempts ?led) = None" using None by simp
    note r = reserve_insert_ok [OF insert_forest [OF f pol rq fresh adm admitted_limits [OF inv1 cl adm eff]] ins]
    have par: "reserve_ancestors rq (attempts ?led) = Inr (adm_parent adm, adm_ancestors adm)" using adm by (simp add: admitted_def)
    have "inherited_limits policy (attempts led') ?row = Inr (adm_parent_limits adm)"
      using reserve_ancestors_ok [OF f par] adm
      by (auto simp: r(1) inherited_limits_def admitted_def find_insert split: option.splits)
    with r fresh eff show ?thesis by (intro exI [of _ ?row]) (simp add: stands_for_def select_insert_row)
  qed
qed

lemma run_engaged:
  assumes "ledger_inv policy led" "engagement led = Some eng"
  shows "\<exists>eng'. engagement (run_ops (budget_step fromiso pf policy) ops led) = Some eng' \<and> eng_policy eng' = policy"
proof -
  let ?led' = "run_ops (budget_step fromiso pf policy) ops led"
  have "ledger_mono led ?led'" "ledger_inv policy ?led'"
    using assms(1) by (auto intro: budget.run_mono budget.run_inv)
  with assms(2) show ?thesis
    by (auto simp: ledger_mono_def engagement_le_def ledger_inv_def engagement_ok_def split: option.splits)
qed

text \<open>
  Reservation is idempotent: once \<^verbatim>\<open>reserve\<close> has accepted a request, repeating the same call at any
  later point (whatever operations ran in between) returns that attempt in its current state and
  changes nothing but the clock mark, so a retry is never charged twice; another request under the
  same attempt id is denied.
\<close>

theorem reserve_replay:
  assumes pol: "valid_policy policy" and led: "led = ledger_run fromiso pf policy ops"
    and rq: "valid_request rq" and cl: "\<forall>l. cl = Some l \<longrightarrow> valid_limits l"
    and ok: "reserve policy clock rq cl led = (Inr a, led1)"
    and later: "led2 = run_ops (budget_step fromiso pf policy) ops' led1"
    and clock: "engagement led2 = Some eng" "now_of clock' = Inr now" "last_seen eng \<le> now"
  shows "\<exists>row. find_attempt (req_attempt_id rq) (attempts led2) = Some row \<and> a_request row = rq \<and>
      att_id a = a_id row \<and> att_parent a = a_parent row \<and> att_depth a = a_depth row \<and>
      reserve policy clock' rq cl led2 = (Inr (attempt_of row), set_last_seen now led2) \<and>
      (\<forall>rq' cl'. req_attempt_id rq' = req_attempt_id rq \<and> rq' \<noteq> rq \<longrightarrow>
         fst (reserve policy clock' rq' cl' led2) = Inl (BudgetDenied ''conflicting attempt id reuse''))"
proof -
  have inv: "ledger_inv policy led" unfolding led by (rule ledger_run_inv [OF pol])
  from reserve_stands_for [OF inv rq _ ok] cl obtain row1 where
    row1: "stands_for policy led1 rq cl row1" "a = attempt_of row1" by blast
  have inv1: "ledger_inv policy led1" using reserve_ok [OF inv rq, of cl clock] cl ok by auto
  have inv2: "ledger_inv policy led2" unfolding later by (rule budget.run_inv [OF inv1])
  have "ledger_mono led1 led2" unfolding later by (rule budget.run_mono [OF inv1])
  from stands_for_later [OF inv2 this row1(1)] obtain row where
    row: "stands_for policy led2 rq cl row" "row_steps row1 row" by blast
  have "eng_policy eng = policy" using inv2 clock(1) by (simp add: ledger_inv_def engagement_ok_def)
  note rep = stands_for_replay [OF row(1) clock(1) this clock(2,3)]
  show ?thesis using row(1) rep row1(2) row_steps_fields [OF row(2)]
    by (intro exI [of _ row]) (auto simp: stands_for_def attempt_of_def)
qed

theorem reserve_replay_witness:
  "fst (reserve demo_policy (at_ms 200) demo_request None (demo_run demo_dispatched)) =
     Inr \<lparr>att_id = ''a'', att_parent = None, att_state = Dispatched, att_depth = 0\<rparr> \<and>
   fst (reserve demo_policy (at_ms 200) (demo_request\<lparr>req_tokens := 11\<rparr>) None (demo_run demo_dispatched)) =
     Inl (BudgetDenied ''conflicting attempt id reuse'')"
proof -
  let ?led = "demo_run [(at_ms 100, Open)]"
  let ?r = "reserve demo_policy (at_ms 101) demo_request None ?led"
  have rq: "valid_request demo_request" and ok: "is_ok (fst ?r)"
    and run: "run_ops (budget_step no_iso no_float demo_policy) [(at_ms 102, Mark_dispatched ''a'' no_dispatch_args)] (snd ?r) =
      demo_run demo_dispatched"
    and now: "now_of (at_ms 200) = Inr 200"
    and eng: "engagement (demo_run demo_dispatched) =
      Some \<lparr>eng_policy = demo_policy, started_at = 100, last_seen = 102, cancelled = False\<rparr>"
    and row: "map_option attempt_of (find_attempt ''a'' (attempts (demo_run demo_dispatched))) =
      Some \<lparr>att_id = ''a'', att_parent = None, att_state = Dispatched, att_depth = 0\<rparr>" by code_simp+
  obtain a led1 where r: "?r = (Inr a, led1)" using ok by (cases ?r) (auto simp: is_ok_iff)
  have e: "engagement (run_ops (budget_step no_iso no_float demo_policy)
      [(at_ms 102, Mark_dispatched ''a'' no_dispatch_args)] led1) =
      Some \<lparr>eng_policy = demo_policy, started_at = 100, last_seen = 102, cancelled = False\<rparr>"
    using run eng r by (simp only: snd_conv)
  from reserve_replay [OF demo_policy_valid refl rq _ r refl e now] run r row
  show ?thesis by (auto simp: demo_request_def simp del: run_ops.simps)
qed

section \<open>Failures, histories and cancellation\<close>

definition clock_only :: "json option \<Rightarrow> ledger \<Rightarrow> ledger \<Rightarrow> bool" where
  "clock_only clock led led' \<longleftrightarrow> led' = led \<or>
     (\<exists>eng now. engagement led = Some eng \<and> now_of clock = Inr now \<and> last_seen eng \<le> now \<and> led' = set_last_seen now led)"

lemma clock_only_refl [simp]: "clock_only clock led led"
  by (simp add: clock_only_def)

lemma transaction_fail: "fst (transaction policy clock body led) = Inl e \<Longrightarrow> clock_only clock led (snd (transaction policy clock body led))"
  by (cases rule: transaction_cases [of policy clock body led]) (auto simp: clock_only_def)

lemma open_fail: "fst (open_ledger policy clock led) = Inl e \<Longrightarrow> snd (open_ledger policy clock led) = led"
  by (auto simp: open_ledger_def split: sum.splits option.splits if_splits)

text \<open>
  Failure is atomic: an operation that raises leaves every table as it was; at most the clock
  high-water mark has advanced, to a time the clock really returned.
\<close>

theorem failed_operation_changes_nothing:
  assumes "budget_step fromiso pf policy x led = (Inl e, led')"
  shows "clock_only (fst x) led led' \<and> attempts led' = attempts led \<and> receipts led' = receipts led \<and>
    prerequisites led' = prerequisites led \<and> approvals led' = approvals led \<and> intents led' = intents led"
proof -
  obtain clock op where x: "x = (clock, op)" by (cases x)
  have err: "fst (budget_step fromiso pf policy x led) = Inl e" and led': "led' = snd (budget_step fromiso pf policy x led)"
    using assms by simp_all
  note defs = get_attempt_def get_dispatch_intent_def mark_dispatched_def mark_uncertain_def release_undispatched_def
    reconcile_def cancel_def cancellation_report_def budget_snapshot_def remaining_elapsed_ms_def reserve_def
  have "clock_only clock led led'"
  proof (cases op)
    case Open
    with err led' x open_fail show ?thesis by (metis budget_step.simps(1) clock_only_refl map_ok_err snd_map_ok)
  qed (use err in \<open>auto simp: led' x defs dest: transaction_fail split: sum.splits prod.splits option.splits\<close>)
  then show ?thesis by (auto simp: x clock_only_def)
qed

theorem failed_operation_changes_nothing_witness:
  "attempts (snd (budget_step no_iso no_float demo_policy (at_ms 103, Mark_dispatched ''a'' no_dispatch_args) (demo_run demo_dispatched))) =
     attempts (demo_run demo_dispatched)"
proof -
  let ?x = "(at_ms 103, Mark_dispatched ''a'' no_dispatch_args)"
  have "fst (budget_step no_iso no_float demo_policy ?x (demo_run demo_dispatched)) = Inl (BudgetDenied ''attempt is not reserved'')"
    by code_simp
  from failed_operation_changes_nothing [OF pair_of_fst [OF this]] show ?thesis by blast
qed

lemma row_step_terminal: "row_step r r' \<Longrightarrow> a_state r \<in> {Settled, Released} \<Longrightarrow> r' = r"
  by (cases rule: row_step.cases) (auto simp: ACTIVE_def)

lemma row_steps_terminal: "row_steps r r' \<Longrightarrow> a_state r \<in> {Settled, Released} \<Longrightarrow> r' = r"
  by (induction rule: rtranclp_induct) (auto dest: row_step_terminal)

text \<open>
  An attempt has one history: along any run, a recorded attempt is never deleted, its request,
  limits, parent and depth never change, its state moves only along \<open>row_step\<close> (reserved,
  dispatched, uncertain, usage unknown, settled, or released before dispatch), and a settled or
  released attempt never changes again.
\<close>

theorem attempt_history:
  assumes "valid_policy policy" "r \<in> set (attempts (ledger_run fromiso pf policy ops))"
  shows "\<exists>r' \<in> set (attempts (ledger_run fromiso pf policy (ops @ ops'))).
    row_step\<^sup>*\<^sup>* r r' \<and> a_id r' = a_id r \<and> a_parent r' = a_parent r \<and> a_request r' = a_request r \<and>
    a_limits r' = a_limits r \<and> a_depth r' = a_depth r \<and> (a_state r \<in> {Settled, Released} \<longrightarrow> r' = r)"
proof -
  let ?led = "ledger_run fromiso pf policy ops"
  have "ledger_mono ?led (ledger_run fromiso pf policy (ops @ ops'))"
    unfolding run_ops_append by (rule budget.run_mono) (rule ledger_run_inv [OF assms(1)])
  with assms(2) obtain r' where r': "r' \<in> set (attempts (ledger_run fromiso pf policy (ops @ ops')))" "row_steps r r'"
    using grows_member by (fastforce simp: ledger_mono_def)
  then show ?thesis using row_steps_fields [OF r'(2)] row_steps_terminal [OF r'(2)] by auto
qed

theorem attempt_history_witness:
  "\<exists>r. r \<in> set (attempts (demo_run demo_reserved)) \<and>
    (\<exists>r' \<in> set (attempts (demo_run (demo_reserved @ [(at_ms 102, Mark_dispatched ''a'' no_dispatch_args)]))).
       row_step\<^sup>*\<^sup>* r r' \<and> a_id r' = a_id r)"
proof -
  have "attempts (demo_run demo_reserved) \<noteq> []" by code_simp
  then have "hd (attempts (demo_run demo_reserved)) \<in> set (attempts (demo_run demo_reserved))" by (rule hd_in_set)
  with attempt_history [OF demo_policy_valid this] show ?thesis by blast
qed

text \<open>
  C23. No internal failure: in a reachable ledger every loop along parent links ends, no operation
  runs into a \<^verbatim>\<open>TypeError\<close> on a settled row without figures, no statement violates a table
  constraint, and no attempt's parent is missing, whatever the arguments and the clock.
\<close>

theorem no_internal_failure:
  assumes "valid_policy policy" "e \<in> internal_errors"
  shows "fst (budget_step fromiso pf policy x (ledger_run fromiso pf policy ops)) \<noteq> Inl e"
  by (rule budget_step_safe [OF ledger_run_inv [OF assms(1)] assms(2)])

theorem no_internal_failure_witness:
  "Nonterminating \<in> internal_errors \<and>
   fst (budget_step no_iso no_float demo_policy (at_ms 103, Remaining_elapsed (Some ''a'')) (demo_run demo_dispatched)) \<noteq> Inl Nonterminating"
proof
  show "Nonterminating \<in> internal_errors" by (simp add: internal_errors_def)
  from no_internal_failure [OF demo_policy_valid this]
  show "fst (budget_step no_iso no_float demo_policy (at_ms 103, Remaining_elapsed (Some ''a'')) (demo_run demo_dispatched)) \<noteq>
    Inl Nonterminating" .
qed

lemma run_cancelled:
  assumes "ledger_inv policy led" "engagement led = Some eng" "cancelled eng"
    "engagement (run_ops (budget_step fromiso pf policy) ops led) = Some eng'"
  shows "cancelled eng'"
  using budget.run_mono [OF assms(1), of fromiso pf ops] assms(2-4) by (simp add: ledger_mono_def engagement_le_def)

lemma dispatch_needs_live: "mark_dispatched fromiso policy clock k args led = (Inr a, led') \<Longrightarrow>
    \<exists>eng. engagement led = Some eng \<and> \<not> cancelled eng"
  by (auto simp: mark_dispatched_def split: sum.splits elim!: transaction_okE dispatch_body_ok)

lemma reserve_needs_live: "reserve policy clock rq cl led = (Inr a, led') \<Longrightarrow>
    find_attempt (req_attempt_id rq) (attempts led) = None \<Longrightarrow> \<exists>eng. engagement led = Some eng \<and> \<not> cancelled eng"
  unfolding reserve_def by (elim transaction_okE) (auto elim!: reserve_new_ok simp: admitted_def)

lemma cancelled_rows:
  "r \<in> set (cancel_rows rows) \<Longrightarrow> a_state r \<noteq> Reserved \<and> (a_state r \<in> set ACTIVE \<longrightarrow> cancel_requested r)"
  by (auto simp: cancel_rows_def set_update_rows ACTIVE_def split: if_splits)

text \<open>
  C15. Cancellation is final: after \<^verbatim>\<open>cancel\<close> no reservation is left pending and every attempt still in
  flight carries the request; and at any later point no attempt can be dispatched and no new attempt
  can be reserved, only an earlier reservation can be read back.
\<close>

theorem cancel_is_final:
  assumes pol: "valid_policy policy" and led: "led = ledger_run fromiso pf policy ops"
    and ok: "cancel policy clock led = (Inr (), led1)"
    and later: "led2 = run_ops (budget_step fromiso pf policy) ops' led1"
  shows "(\<forall>r \<in> set (attempts led1). a_state r \<noteq> Reserved \<and> (a_state r \<in> set ACTIVE \<longrightarrow> cancel_requested r)) \<and>
    (\<forall>clock' k args. \<not> is_ok (fst (mark_dispatched fromiso policy clock' k args led2))) \<and>
    (\<forall>clock' rq cl. is_ok (fst (reserve policy clock' rq cl led2)) \<longrightarrow>
       find_attempt (req_attempt_id rq) (attempts led2) \<noteq> None)"
proof -
  have inv: "ledger_inv policy led" unfolding led by (rule ledger_run_inv [OF pol])
  from ok obtain eng now where b: "engagement led = Some eng" "cancel_body eng now (set_last_seen now led) = Inr ((), led1)"
    unfolding cancel_def by (elim transaction_okE)
  then have led1: "\<exists>e. engagement led1 = Some e \<and> cancelled e"
      "\<forall>r \<in> set (attempts led1). a_state r \<noteq> Reserved \<and> (a_state r \<in> set ACTIVE \<longrightarrow> cancel_requested r)"
    by (auto simp: cancel_body_def set_last_seen_def dest!: cancelled_rows)
  have inv1: "ledger_inv policy led1" using transaction_ok [OF cancel_body_good inv, of clock] ok by (simp add: cancel_def)
  from led1(1) obtain e where e: "engagement led1 = Some e" "cancelled e" by blast
  have dead: "\<not> (\<exists>e'. engagement led2 = Some e' \<and> \<not> cancelled e')"
    unfolding later using run_cancelled [OF inv1 e] by blast
  have "\<not> is_ok (fst (mark_dispatched fromiso policy clock' k args led2))" for clock' k args
    using dispatch_needs_live [of fromiso policy clock' k args led2] dead
    by (cases "mark_dispatched fromiso policy clock' k args led2") (auto simp: is_ok_iff)
  moreover have "find_attempt (req_attempt_id rq) (attempts led2) \<noteq> None" if "is_ok (fst (reserve policy clock' rq cl led2))"
    for clock' rq cl
    using reserve_needs_live [of policy clock' rq cl led2] dead that
    by (cases "reserve policy clock' rq cl led2") (auto simp: is_ok_iff)
  ultimately show ?thesis using led1(2) by blast
qed

theorem cancel_is_final_witness:
  "\<exists>led1. cancel demo_policy (at_ms 103) (demo_run demo_reserved) = (Inr (), led1) \<and>
     map a_state (attempts led1) = [Released] \<and>
     \<not> is_ok (fst (mark_dispatched no_iso demo_policy (at_ms 104) ''a'' no_dispatch_args led1))"
proof -
  let ?r = "cancel demo_policy (at_ms 103) (demo_run demo_reserved)"
  have "fst ?r = Inr ()" "map a_state (attempts (snd ?r)) = [Released]" by code_simp+
  moreover from this obtain led1 where r: "?r = (Inr (), led1)" by (cases ?r) simp
  moreover have "\<not> is_ok (fst (mark_dispatched no_iso demo_policy (at_ms 104) ''a'' no_dispatch_args led1))"
    using cancel_is_final [OF demo_policy_valid refl r, of led1 "[]"] by simp
  ultimately show ?thesis by simp
qed

section \<open>Receipts\<close>

text \<open>The figures and the state a receipt leaves in its attempt's row.\<close>

lemma find_update_key:
  assumes "find_attempt k rows = Some row" "a_id (f row) = k"
  shows "find_attempt k (update_key a_id k f rows) = Some (f row)"
  using assms by (induction rows) (auto simp: update_key_def update_rows_def)

lemma reconcile_okE:
  assumes "reconcile policy clock rcpt pid p led = (Inr a, led')"
  obtains pre eng now where "check_prerequisite_args rcpt pid p = Inr pre" "engagement led = Some eng" "eng_policy eng = policy"
    "now_of clock = Inr now" "last_seen eng \<le> now" "reconcile_body rcpt pre eng now (set_last_seen now led) = Inr (a, led')"
  using assms by (auto simp: reconcile_def split: sum.splits elim!: transaction_okE)

lemma establish_found:
  assumes "establish_prerequisite rcpt pre led = Inr led1" "select_row p_source (rcpt_attempt_id rcpt) (prerequisites led) = None"
  shows "case pre of
      None \<Rightarrow> led1 = led
    | Some (pid, payload) \<Rightarrow> select_row p_id pid (prerequisites led1) =
        Some \<lparr>p_id = pid, p_source = rcpt_attempt_id rcpt, p_payload = payload, p_consumed_by = None\<rparr>"
proof (cases pre)
  case (Some x)
  obtain pid payload where x: "x = (pid, payload)" by (cases x)
  have "select_row p_id pid (prerequisites led) \<noteq> Some e \<or> p_source e \<noteq> rcpt_attempt_id rcpt" for e
    using assms(2) by (metis image_eqI select_row_None_iff select_row_SomeD)
  with assms Some x show ?thesis
    by (fastforce simp: establish_prerequisite_def prerequisite_matches_def select_insert_row split: option.splits if_splits)
qed (use assms in \<open>simp add: establish_prerequisite_def\<close>)

text \<open>
  A reconciled receipt is durable and final: when \<^verbatim>\<open>reconcile\<close> accepts a new receipt for an attempt
  that has not yet established a prerequisite, \<^verbatim>\<open>reconciliation_is_durable\<close> confirms exactly that
  reconciliation; sending the same receipt again at a later time succeeds and changes only the clock
  mark; and a different receipt under the same receipt id is denied.
\<close>

theorem reconcile_durable:
  assumes ok: "reconcile policy clock rcpt pid p led = (Inr a, led')"
    and fresh: "select_row r_id (rcpt_id rcpt) (receipts led) = None"
    and src: "select_row p_source (rcpt_attempt_id rcpt) (prerequisites led) = None"
    and clock: "engagement led' = Some eng" "now_of clock' = Inr now" "last_seen eng \<le> now"
  shows "reconciliation_is_durable policy rcpt pid p led' = Inr True \<and>
    reconcile policy clock' rcpt pid p led' = (Inr a, set_last_seen now led') \<and>
    (\<forall>rcpt'. rcpt_id rcpt' = rcpt_id rcpt \<and> rcpt' \<noteq> rcpt \<longrightarrow>
       reconcile policy clock' rcpt' None None led' =
         (Inl (BudgetDenied ''conflicting receipt id reuse''), set_last_seen now led'))"
proof -
  from ok obtain pre eng0 now0 where args: "check_prerequisite_args rcpt pid p = Inr pre"
    and eng0: "engagement led = Some eng0" "eng_policy eng0 = policy"
    and b: "reconcile_body rcpt pre eng0 now0 (set_last_seen now0 led) = Inr (a, led')" by (rule reconcile_okE)
  let ?led = "set_last_seen now0 led" and ?k = "rcpt_attempt_id rcpt"
  from b fresh obtain row where row: "find_attempt ?k (attempts led) = Some row"
    and f: "reconcile_fresh rcpt pre row ?led = Inr (a, led')"
    by (auto simp: reconcile_body_def Let_def bindE_Inr_iff split: option.splits if_splits)
  then obtain led1 where est: "establish_prerequisite rcpt pre ?led = Inr led1"
    and a: "a = \<lparr>att_id = ?k, att_parent = a_parent row, att_state = receipt_state rcpt, att_depth = a_depth row\<rparr>"
    and led': "led' = led1\<lparr>attempts := update_key a_id ?k (apply_receipt rcpt) (attempts led1),
              receipts := insert_row \<lparr>r_id = rcpt_id rcpt, r_attempt = ?k, r_payload = rcpt\<rparr> (receipts led1)\<rparr>"
    by (auto simp: reconcile_fresh_def bindE_Inr_iff)
  have same: "attempts led1 = attempts led" "receipts led1 = receipts led" "engagement led1 = engagement ?led"
    using est by (auto simp: establish_prerequisite_def split: option.splits if_splits)
  have rcpt': "select_row r_id (rcpt_id rcpt) (receipts led') = Some \<lparr>r_id = rcpt_id rcpt, r_attempt = ?k, r_payload = rcpt\<rparr>"
    using fresh by (simp add: led' same select_insert_row)
  have row': "find_attempt ?k (attempts led') = Some (apply_receipt rcpt row)"
    using find_update_key [OF row] select_row_SomeD [OF row] by (simp add: led' same apply_receipt_def)
  have pre': "case pre of
      None \<Rightarrow> select_row p_source ?k (prerequisites led') = None
    | Some (q, payload) \<Rightarrow> select_row p_id q (prerequisites led') =
        Some \<lparr>p_id = q, p_source = ?k, p_payload = payload, p_consumed_by = None\<rparr>"
    using establish_found [OF est] src by (auto simp: led' split: option.splits)
  have pol: "eng_policy eng = policy" using clock(1) eng0 by (auto simp: led' same set_last_seen_def)
  have id: "a_id (apply_receipt rcpt row) = ?k" using select_row_SomeD [OF row] by (simp add: apply_receipt_def)
  have "reconciliation_is_durable policy rcpt pid p led' = Inr True"
    using args pre' by (auto simp: reconciliation_is_durable_def clock(1) pol rcpt' row' apply_receipt_def split: option.splits)
  moreover have "reconcile_body rcpt pre eng now (set_last_seen now led') = Inr (a, set_last_seen now led')"
    using pre' id by (auto simp: reconcile_body_def Let_def rcpt' row' reconcile_duplicate_def prerequisite_matches_def
        attempt_of_def a apply_receipt_def split: option.splits)
  then have "reconcile policy clock' rcpt pid p led' = (Inr a, set_last_seen now led')"
    by (simp add: reconcile_def args transaction_okI [OF clock(1) pol clock(2,3)])
  moreover have "reconcile policy clock' r' None None led' = (Inl (BudgetDenied ''conflicting receipt id reuse''), set_last_seen now led')"
    if "rcpt_id r' = rcpt_id rcpt" "r' \<noteq> rcpt" for r'
    using that clock pol
    by (simp add: reconcile_def check_prerequisite_args_def transaction_def Let_def reconcile_body_def rcpt')
  ultimately show ?thesis by blast
qed

theorem reconcile_durable_witness:
  "\<exists>a led'. reconcile demo_policy (at_ms 103) demo_receipt (Some ''p'') (Some [(''ok'', JBool True)]) (demo_run demo_dispatched) = (Inr a, led') \<and>
     att_state a = Settled \<and>
     reconciliation_is_durable demo_policy demo_receipt (Some ''p'') (Some [(''ok'', JBool True)]) led' = Inr True"
proof -
  let ?led = "demo_run demo_dispatched"
  let ?r = "reconcile demo_policy (at_ms 103) demo_receipt (Some ''p'') (Some [(''ok'', JBool True)]) ?led"
  let ?a = "\<lparr>att_id = ''a'', att_parent = None, att_state = Settled, att_depth = 0\<rparr>"
  have ok: "fst ?r = Inr ?a"
    and "select_row r_id (rcpt_id demo_receipt) (receipts ?led) = None"
    and "select_row p_source (rcpt_attempt_id demo_receipt) (prerequisites ?led) = None"
    and "engagement (snd ?r) = Some \<lparr>eng_policy = demo_policy, started_at = 100, last_seen = 103, cancelled = False\<rparr>"
    and "now_of (at_ms 104) = Inr 104"
    and "last_seen \<lparr>eng_policy = demo_policy, started_at = 100, last_seen = 103, cancelled = False\<rparr> \<le> 104"
    by code_simp+
  from reconcile_durable [OF pair_of_fst [OF ok] this(2-6)]
  have "reconciliation_is_durable demo_policy demo_receipt (Some ''p'') (Some [(''ok'', JBool True)]) (snd ?r) = Inr True"
    by (rule conjunct1)
  moreover have "att_state ?a = Settled" by simp
  ultimately show ?thesis using pair_of_fst [OF ok] by blast
qed

section \<open>One-time receipts\<close>

definition approval_spent :: "string \<Rightarrow> ledger \<Rightarrow> bool" where
  "approval_spent k led \<longleftrightarrow> k \<in> ap_id ` set (approvals led)"

definition approval_grant ::
  "(string \<Rightarrow> int option option) \<Rightarrow> (string \<Rightarrow> pyfloat) \<Rightarrow> budget_policy \<Rightarrow> json option \<times> budget_op \<Rightarrow> ledger \<Rightarrow> string \<Rightarrow> bool" where
  "approval_grant fromiso pf policy x led k \<longleftrightarrow>
     (\<exists>clock a args. x = (clock, Mark_dispatched a args) \<and> approval_receipt_id args = Some k) \<and>
     is_ok (fst (budget_step fromiso pf policy x led))"

definition prerequisite_spent :: "string \<Rightarrow> ledger \<Rightarrow> bool" where
  "prerequisite_spent k led \<longleftrightarrow> (\<exists>p \<in> set (prerequisites led). p_id p = k \<and> p_consumed_by p \<noteq> None)"

definition prerequisite_grant ::
  "(string \<Rightarrow> int option option) \<Rightarrow> (string \<Rightarrow> pyfloat) \<Rightarrow> budget_policy \<Rightarrow> json option \<times> budget_op \<Rightarrow> ledger \<Rightarrow> string \<Rightarrow> bool" where
  "prerequisite_grant fromiso pf policy x led k \<longleftrightarrow>
     (\<exists>clock a args. x = (clock, Mark_dispatched a args) \<and> prerequisite_receipt_id args = Some k) \<and>
     is_ok (fst (budget_step fromiso pf policy x led))"

lemma map_ok_ok [simp]: "is_ok (fst (map_ok f x)) = is_ok (fst x)"
  by (auto simp: map_ok_def split: prod.split sum.split)

lemma dispatched_effects:
  assumes "is_ok (fst (mark_dispatched fromiso policy clock k args led))"
  obtains plan now led1 led2 led3 where "check_dispatch_args fromiso k args = Inr plan"
    "consume_prerequisite k (dp_prerequisite plan) (set_last_seen now led) = Inr led1"
    "consume_approval k (dp_approval plan) led1 = Inr led2"
    "record_intent k (dp_intent plan) led2 = Inr led3"
    "snd (mark_dispatched fromiso policy clock k args led) = set_state k Dispatched led3"
proof -
  from assms obtain a led' where r: "mark_dispatched fromiso policy clock k args led = (Inr a, led')"
    by (cases "mark_dispatched fromiso policy clock k args led") (auto simp: is_ok_iff)
  then obtain plan where plan: "check_dispatch_args fromiso k args = Inr plan"
    "transaction policy clock (dispatch_body policy k plan) led = (Inr a, led')"
    by (auto simp: mark_dispatched_def split: sum.splits)
  from plan(2) obtain eng now where "dispatch_body policy k plan eng now (set_last_seen now led) = Inr (a, led')"
    by (rule transaction_okE)
  then show thesis using that [OF plan(1)] r by (elim dispatch_body_ok) auto
qed

lemma dispatch_plan_of_args:
  assumes "check_dispatch_args fromiso k args = Inr plan"
  shows "dp_approval plan = approval_receipt_id args" "map_option fst (dp_prerequisite plan) = prerequisite_receipt_id args"
    "\<And>data. dispatch_intent args = Some data \<Longrightarrow> dp_intent plan = Some (dumps True (JObj data))"
  using assms by (auto simp: check_dispatch_args_def check_dispatch_intent_def budget_canonical_def bindE_Inr_iff
      check_identifier_ok split: option.splits if_splits)

lemma approval_grant_facts:
  assumes "approval_grant fromiso pf policy x led k"
  shows "\<not> approval_spent k led" "approval_spent k (snd (budget_step fromiso pf policy x led))"
proof -
  from assms obtain clock a args where x: "x = (clock, Mark_dispatched a args)" "approval_receipt_id args = Some k"
    and "is_ok (fst (mark_dispatched fromiso policy clock a args led))" by (auto simp: approval_grant_def)
  from this(3) obtain plan now led1 led2 led3 where r: "check_dispatch_args fromiso a args = Inr plan"
    "consume_prerequisite a (dp_prerequisite plan) (set_last_seen now led) = Inr led1"
    "consume_approval a (dp_approval plan) led1 = Inr led2" "record_intent a (dp_intent plan) led2 = Inr led3"
    "snd (mark_dispatched fromiso policy clock a args led) = set_state a Dispatched led3"
    by (rule dispatched_effects)
  have same: "approvals led1 = approvals led"
    using r(2) by (auto simp: consume_prerequisite_def Let_def split: option.splits if_splits)
  have "k \<notin> ap_id ` set (approvals led)" "k \<in> ap_id ` set (approvals led2)"
    using consume_approval_ok [OF r(3)] dispatch_plan_of_args(1) [OF r(1)] x(2) same by auto
  moreover have "approvals (set_state a Dispatched led3) = approvals led2"
    using record_intent_ok [OF r(4)] by (auto simp: set_state_def)
  ultimately show "\<not> approval_spent k led" "approval_spent k (snd (budget_step fromiso pf policy x led))"
    using r(5) by (simp_all add: approval_spent_def x(1))
qed

lemma prerequisite_grant_facts:
  assumes inv: "ledger_inv policy led" and "prerequisite_grant fromiso pf policy x led k"
  shows "\<not> prerequisite_spent k led" "prerequisite_spent k (snd (budget_step fromiso pf policy x led))"
proof -
  from assms(2) obtain clock a args where x: "x = (clock, Mark_dispatched a args)" "prerequisite_receipt_id args = Some k"
    and "is_ok (fst (mark_dispatched fromiso policy clock a args led))" by (auto simp: prerequisite_grant_def)
  from this(3) obtain plan now led1 led2 led3 where r: "check_dispatch_args fromiso a args = Inr plan"
    "consume_prerequisite a (dp_prerequisite plan) (set_last_seen now led) = Inr led1"
    "consume_approval a (dp_approval plan) led1 = Inr led2" "record_intent a (dp_intent plan) led2 = Inr led3"
    "snd (mark_dispatched fromiso policy clock a args led) = set_state a Dispatched led3"
    by (rule dispatched_effects)
  from dispatch_plan_of_args(2) [OF r(1)] x(2) obtain t where "dp_prerequisite plan = Some (k, t)"
    by (cases "dp_prerequisite plan") auto
  with r(2) obtain row where row: "select_row p_id k (prerequisites led) = Some row" "p_consumed_by row = None"
    "prerequisites led1 = update_rows (\<lambda>r. p_id r = k \<and> p_consumed_by r = None) (\<lambda>r. r\<lparr>p_consumed_by := Some a\<rparr>) (prerequisites led)"
    by (auto simp: consume_prerequisite_def Let_def split: option.splits if_splits)
  have dist: "distinct (map p_id (prerequisites led))" using inv by (simp add: ledger_inv_def tables_defs)
  have "\<not> prerequisite_spent k led"
    using row(1,2) select_row_unique [OF dist] by (force simp: prerequisite_spent_def)
  moreover have "prerequisites (set_state a Dispatched led3) = prerequisites led1"
    using record_intent_ok [OF r(4)] consume_approval_ok [OF r(3)] by (auto simp: set_state_def)
  moreover have "prerequisite_spent k led1"
    unfolding prerequisite_spent_def row(3) set_update_rows
    using select_row_SomeD [OF row(1)] row(2) by (intro bexI [of _ "row\<lparr>p_consumed_by := Some a\<rparr>"] image_eqI [of _ _ row]) auto
  ultimately show "\<not> prerequisite_spent k led" "prerequisite_spent k (snd (budget_step fromiso pf policy x led))"
    using r(5) by (simp_all add: prerequisite_spent_def x(1))
qed

lemma spent_stays:
  assumes "ledger_mono led led'"
  shows "approval_spent k led \<Longrightarrow> approval_spent k led'" "prerequisite_spent k led \<Longrightarrow> prerequisite_spent k led'"
proof -
  have g: "grows (=) (approvals led) (approvals led')" "grows prerequisite_le (prerequisites led) (prerequisites led')"
    using assms by (simp_all add: ledger_mono_def)
  show "approval_spent k led \<Longrightarrow> approval_spent k led'"
    using grows_member [OF g(1)] by (auto simp: approval_spent_def)
  show "prerequisite_spent k led \<Longrightarrow> prerequisite_spent k led'"
    using grows_member [OF g(2)] by (fastforce simp: prerequisite_spent_def prerequisite_le_def)
qed

interpretation approval_once: one_time_machine "budget_step fromiso pf policy" "ledger_inv policy" approval_spent
    "approval_grant fromiso pf policy" for fromiso pf policy
  by unfold_locales (auto simp: budget_step_ok approval_grant_facts dest: spent_stays(1) [OF budget.step_mono])

interpretation prerequisite_once: one_time_machine "budget_step fromiso pf policy" "ledger_inv policy" prerequisite_spent
    "prerequisite_grant fromiso pf policy" for fromiso pf policy
  by unfold_locales (auto simp: budget_step_ok prerequisite_grant_facts dest: spent_stays(2) [OF budget.step_mono])

text \<open>
  C22. An approval receipt authorizes one dispatch: in any interleaving of ledger operations at most
  one \<^verbatim>\<open>mark_dispatched\<close> call presenting a given approval receipt id succeeds.
\<close>

theorem approval_receipt_once:
  assumes "valid_policy policy" "i < j" "j < length ops"
    "approval_grant fromiso pf policy (ops ! i) (ledger_run fromiso pf policy (take i ops)) k"
  shows "\<not> approval_grant fromiso pf policy (ops ! j) (ledger_run fromiso pf policy (take j ops)) k"
  by (rule approval_once.no_second_grant [OF empty_ledger_inv [OF assms(1)] assms(2-4)])

text \<open>A clock that reads the two digits of a demo timestamp as milliseconds.\<close>

definition demo_iso :: "string \<Rightarrow> int option option" where
  "demo_iso s = Some (Some (nat_of_digits s))"

definition demo_approved :: dispatch_args where
  "demo_approved = \<lparr>approval_receipt_id = Some ''ok-1'',
     dispatch_intent = Some [(''approval_issued_at'', JStr ''050''), (''approval_expires_at'', JStr ''900''), (''tool'', JStr ''scan'')],
     prerequisite_receipt_id = None, expected_prerequisite = None\<rparr>"

definition demo_approvals :: "(json option \<times> budget_op) list" where
  "demo_approvals = demo_reserved @
     [(at_ms 102, Mark_dispatched ''a'' demo_approved),
      (at_ms 103, Reserve (JStr ''b'') JNull (JInt 1) (JInt 1) (JInt 1) None),
      (at_ms 104, Mark_dispatched ''b'' demo_approved)]"

theorem approval_receipt_once_witness:
  "approval_grant demo_iso no_float demo_policy (demo_approvals ! 2) (ledger_run demo_iso no_float demo_policy (take 2 demo_approvals)) ''ok-1'' \<and>
   \<not> approval_grant demo_iso no_float demo_policy (demo_approvals ! 4) (ledger_run demo_iso no_float demo_policy (take 4 demo_approvals)) ''ok-1''"
proof -
  have "is_ok (fst (budget_step demo_iso no_float demo_policy (demo_approvals ! 2)
      (ledger_run demo_iso no_float demo_policy (take 2 demo_approvals))))" by code_simp
  moreover have "demo_approvals ! 2 = (at_ms 102, Mark_dispatched ''a'' demo_approved)"
    "approval_receipt_id demo_approved = Some ''ok-1''" "length demo_approvals = 5"
    by (simp_all add: demo_approvals_def demo_reserved_def demo_approved_def)
  ultimately have g: "approval_grant demo_iso no_float demo_policy (demo_approvals ! 2)
      (ledger_run demo_iso no_float demo_policy (take 2 demo_approvals)) ''ok-1''" and l: "4 < length demo_approvals"
    unfolding approval_grant_def by auto
  from g approval_receipt_once [OF demo_policy_valid _ l g] show ?thesis by simp
qed

text \<open>
  A validation prerequisite is consumed once: at most one \<^verbatim>\<open>mark_dispatched\<close> call naming a given
  prerequisite receipt succeeds.
\<close>

theorem prerequisite_receipt_once:
  assumes "valid_policy policy" "i < j" "j < length ops"
    "prerequisite_grant fromiso pf policy (ops ! i) (ledger_run fromiso pf policy (take i ops)) k"
  shows "\<not> prerequisite_grant fromiso pf policy (ops ! j) (ledger_run fromiso pf policy (take j ops)) k"
  by (rule prerequisite_once.no_second_grant [OF empty_ledger_inv [OF assms(1)] assms(2-4)])

definition demo_chained :: dispatch_args where
  "demo_chained = \<lparr>approval_receipt_id = None, dispatch_intent = None,
     prerequisite_receipt_id = Some ''p'', expected_prerequisite = Some [(''ok'', JBool True)]\<rparr>"

definition demo_chain :: "(json option \<times> budget_op) list" where
  "demo_chain = demo_dispatched @
     [(at_ms 103, Reconcile (JStr ''r'') (JStr ''a'') (JStr ''completed'') (JInt 7) (JInt 4) (JInt 12) (Some ''p'') (Some [(''ok'', JBool True)])),
      (at_ms 104, Reserve (JStr ''b'') JNull (JInt 1) (JInt 1) (JInt 1) None),
      (at_ms 105, Mark_dispatched ''b'' demo_chained),
      (at_ms 106, Reserve (JStr ''c'') JNull (JInt 1) (JInt 1) (JInt 1) None),
      (at_ms 107, Mark_dispatched ''c'' demo_chained)]"

theorem prerequisite_receipt_once_witness:
  "prerequisite_grant no_iso no_float demo_policy (demo_chain ! 5) (demo_run (take 5 demo_chain)) ''p'' \<and>
   \<not> prerequisite_grant no_iso no_float demo_policy (demo_chain ! 7) (demo_run (take 7 demo_chain)) ''p''"
proof -
  have "is_ok (fst (budget_step no_iso no_float demo_policy (demo_chain ! 5) (demo_run (take 5 demo_chain))))" by code_simp
  moreover have "demo_chain ! 5 = (at_ms 105, Mark_dispatched ''b'' demo_chained)"
    "prerequisite_receipt_id demo_chained = Some ''p''" "length demo_chain = 8"
    by (simp_all add: demo_chain_def demo_dispatched_def demo_reserved_def demo_chained_def)
  ultimately have g: "prerequisite_grant no_iso no_float demo_policy (demo_chain ! 5) (demo_run (take 5 demo_chain)) ''p''"
    and l: "7 < length demo_chain" unfolding prerequisite_grant_def by auto
  from g prerequisite_receipt_once [OF demo_policy_valid _ l g] show ?thesis by simp
qed

section \<open>Crashes, deadlines and intents\<close>

lemma reopen_charges:
  "snapshot_of (update_rows (\<lambda>r. a_state r = Dispatched) (\<lambda>r. r\<lparr>a_state := Uncertain\<rparr>) rows) = snapshot_of rows"
  by (induction rows)
    (auto simp: snapshot_of_def update_rows_def count_in_def charge_of_def usage_def Let_def state_sets split: option.splits)

text \<open>
  A crash loses no charge: reopening an existing ledger under its policy turns every dispatched
  attempt into an uncertain one and leaves every figure of the snapshot, and all other tables, as
  they were, so work that may have been done stays charged until a receipt settles it.
\<close>

theorem reopen_keeps_charges:
  assumes "open_ledger policy clock led = (Inr (), led')" "engagement led = Some eng"
  shows "snapshot_of (attempts led') = snapshot_of (attempts led) \<and>
    map a_id (attempts led') = map a_id (attempts led) \<and>
    (\<forall>r \<in> set (attempts led'). a_state r \<noteq> Dispatched) \<and>
    receipts led' = receipts led \<and> prerequisites led' = prerequisites led \<and> approvals led' = approvals led \<and>
    intents led' = intents led \<and> eng_policy eng = policy"
  using assms reopen_charges [of "attempts led"] evolves_ids [OF open_evolves [of "attempts led"]]
  by (auto simp: open_ledger_def set_update_rows split: sum.splits option.splits if_splits)

theorem reopen_keeps_charges_witness:
  "\<exists>led'. open_ledger demo_policy (at_ms 500) (demo_run demo_dispatched) = (Inr (), led') \<and>
     map a_state (attempts led') = [Uncertain] \<and> snapshot_of (attempts led') = snapshot_of (attempts (demo_run demo_dispatched))"
proof -
  let ?r = "open_ledger demo_policy (at_ms 500) (demo_run demo_dispatched)"
  have ok: "fst ?r = Inr ()" and st: "map a_state (attempts (snd ?r)) = [Uncertain]"
    and eng: "engagement (demo_run demo_dispatched) =
      Some \<lparr>eng_policy = demo_policy, started_at = 100, last_seen = 102, cancelled = False\<rparr>" by code_simp+
  from reopen_keeps_charges [OF pair_of_fst [OF ok] eng]
  have "snapshot_of (attempts (snd ?r)) = snapshot_of (attempts (demo_run demo_dispatched))" by (rule conjunct1)
  with st pair_of_fst [OF ok] show ?thesis by (intro exI [of _ "snd ?r"] conjI)
qed

lemma Min_insert_min: "finite S \<Longrightarrow> Min (insert (min a b) S) = Min (insert a (insert b S))" for a b :: int
  by (cases "S = {}") (auto simp: min.assoc)

lemma foldl_min: "foldl (\<lambda>m r. min m (g r)) m xs = Min (insert m (g ` set xs))" for m :: int
  by (induction xs arbitrary: m) (simp_all add: Min_insert_min)

text \<open>
  The remaining time is the tightest inherited deadline: in a reachable ledger
  \<^verbatim>\<open>remaining_elapsed_ms\<close> returns zero or the smallest, over the engagement and all ancestors of the
  attempt, of the allowed minus the elapsed time; and when a dispatch of the attempt is accepted at
  that instant, none of these deadlines has passed.
\<close>

theorem remaining_is_tightest:
  assumes pol: "valid_policy policy" and led: "led = ledger_run fromiso pf policy ops"
    and k: "ID_match k" "find_attempt k (attempts led) = Some row"
    and clock: "engagement led = Some eng" "now_of clock = Inr now" "last_seen eng \<le> now"
  shows "let elapsed = now - started_at eng;
      left = Min (insert (max_elapsed_ms (policy_limits policy) - elapsed)
        ((\<lambda>q. max_elapsed_ms (a_limits q) - elapsed) ` ancestors (attempts led) row)) in
    remaining_elapsed_ms policy clock (Some k) led = (Inr (max 0 left), set_last_seen now led) \<and>
    (is_ok (fst (mark_dispatched fromiso policy clock k args led)) \<longrightarrow> 0 \<le> left)"
proof -
  have inv: "ledger_inv policy led" unfolding led by (rule ledger_run_inv [OF pol])
  note f = inv_parts(1) [OF inv] and row = select_row_SomeD [OF k(2), THEN conjunct1]
  have e: "eng_policy eng = policy" using inv clock(1) by (simp add: ledger_inv_def engagement_ok_def)
  let ?walk = "\<lambda>chk. walk_up (row_fuel (attempts led)) (attempts led) chk (Some row)"
  obtain vs where vs: "?walk (\<lambda>_. None) = Inr vs" using walk_up_err [OF f row] by (cases "?walk (\<lambda>_. None)") (auto simp del: walk_up.simps)
  note w = walk_up_ok(1) [OF f row vs]
  let ?el = "now - started_at eng"
  let ?left = "Min (insert (max_elapsed_ms (policy_limits policy) - ?el)
        ((\<lambda>q. max_elapsed_ms (a_limits q) - ?el) ` ancestors (attempts led) row))"
  have "remaining_elapsed_ms policy clock (Some k) led = (Inr (max 0 ?left), set_last_seen now led)"
    using k clock e vs w
    by (simp add: remaining_elapsed_ms_def check_identifier_def transaction_def Let_def foldl_min del: walk_up.simps)
  moreover have "0 \<le> ?left" if ok: "is_ok (fst (mark_dispatched fromiso policy clock k args led))"
  proof -
    from ok obtain plan a led' where "transaction policy clock (dispatch_body policy k plan) led = (Inr a, led')"
      by (cases "check_dispatch_args fromiso k args"; cases "mark_dispatched fromiso policy clock k args led")
        (auto simp: mark_dispatched_def is_ok_iff)
    then have "dispatch_body policy k plan eng now (set_last_seen now led) = Inr (a, led')"
      using clock by (elim transaction_okE) auto
    then obtain us where us: "?walk (dispatch_walk_check eng now) = Inr us" and
      ma: "?el \<le> max_elapsed_ms (policy_limits policy)"
      using k(2) by (elim dispatch_body_ok) (auto simp del: walk_up.simps)
    have "dispatch_walk_check eng now q = None" if "q \<in> ancestors (attempts led) row" for q
      by (rule walk_up_ok(2) [OF f row us that])
    then have "?el \<le> max_elapsed_ms (a_limits q)" if "q \<in> ancestors (attempts led) row" for q
      using that by (fastforce simp: dispatch_walk_check_def split: if_splits)
    with ma show ?thesis by (subst Min_ge_iff) (auto simp: ancestors_def)
  qed
  ultimately show ?thesis by (simp add: Let_def)
qed

theorem remaining_is_tightest_witness:
  "fst (remaining_elapsed_ms demo_policy (at_ms 300) (Some ''a'') (demo_run demo_reserved)) = Inr 800"
proof -
  let ?led = "demo_run demo_reserved"
  have id: "ID_match ''a''" and find: "find_attempt ''a'' (attempts ?led) = Some (hd (attempts ?led))"
    and eng: "engagement ?led = Some \<lparr>eng_policy = demo_policy, started_at = 100, last_seen = 101, cancelled = False\<rparr>"
    and now: "now_of (at_ms 300) = Inr 300"
    and seen: "last_seen \<lparr>eng_policy = demo_policy, started_at = 100, last_seen = 101, cancelled = False\<rparr> \<le> 300"
    and lim: "a_limits (hd (attempts ?led)) = demo_limits" and par: "parent_row (attempts ?led) (hd (attempts ?led)) = None"
    by code_simp+
  have in_rows: "hd (attempts ?led) \<in> set (attempts ?led)" using select_row_SomeD [OF find] by blast
  have "ancestors (attempts ?led) (hd (attempts ?led)) = {hd (attempts ?led)}"
    using ancestors_rec [OF inv_parts(1) [OF ledger_run_inv [OF demo_policy_valid]] in_rows] par by simp
  with remaining_is_tightest [OF demo_policy_valid refl id find eng now seen, of no_dispatch_args] lim
  show ?thesis by (simp add: Let_def demo_policy_def demo_limits_def)
qed

text \<open>
  The recorded dispatch intent reads back: after a successful \<^verbatim>\<open>mark_dispatched\<close> with an intent of
  plain JSON, \<^verbatim>\<open>get_dispatch_intent\<close> returns, at any later point of the run, the same intent with
  its keys sorted.
\<close>

theorem dispatch_intent_roundtrip:
  assumes pol: "valid_policy policy" and led: "led = ledger_run fromiso pf policy ops"
    and ok: "is_ok (fst (mark_dispatched fromiso policy clock k args led))"
    and args: "dispatch_intent args = Some data" "json_ok (JObj data)"
    and later: "led2 = run_ops (budget_step fromiso pf policy) ops' (snd (mark_dispatched fromiso policy clock k args led))"
    and clock: "engagement led2 = Some eng" "now_of clock' = Inr now" "last_seen eng \<le> now"
  shows "fst (get_dispatch_intent pf policy clock' k led2) =
    Inr (sort_key fst (map (map_prod id (norm_json pf)) data))"
proof -
  let ?led1 = "snd (mark_dispatched fromiso policy clock k args led)" and ?row = "\<lparr>i_attempt = k, i_payload = dumps True (JObj data)\<rparr>"
  have inv: "ledger_inv policy led" unfolding led by (rule ledger_run_inv [OF pol])
  have inv1: "ledger_inv policy ?led1" using mark_dispatched_ok [OF inv] by blast
  have inv2: "ledger_inv policy led2" unfolding later by (rule budget.run_inv [OF inv1])
  from ok obtain plan led2' led3 where p: "check_dispatch_args fromiso k args = Inr plan"
    "record_intent k (dp_intent plan) led2' = Inr led3" "?led1 = set_state k Dispatched led3" by (rule dispatched_effects)
  have id: "ID_match k" using p(1) by (auto simp: check_dispatch_args_def bindE_Inr_iff check_identifier_ok)
  have "?row \<in> set (intents ?led1)"
    using record_intent_ok [OF p(2)] dispatch_plan_of_args(3) [OF p(1) args(1)] by (auto simp: p(3) set_state_def)
  moreover have "grows (=) (intents ?led1) (intents led2)"
    using budget.run_mono [OF inv1, of fromiso pf ops'] by (simp add: later ledger_mono_def)
  ultimately have "?row \<in> set (intents led2)" using grows_member by fastforce
  moreover have "distinct (map i_attempt (intents led2))" using inv2 by (simp add: ledger_inv_def tables_defs)
  ultimately have "select_row i_attempt k (intents led2) = Some ?row" using select_row_unique by fastforce
  moreover have "eng_policy eng = policy" using inv2 clock(1) by (simp add: ledger_inv_def engagement_ok_def)
  ultimately show ?thesis
    using loads_dumps [OF plain_hooks_keep args(2), of pf True] id clock
    by (simp add: get_dispatch_intent_def check_identifier_def transaction_def Let_def)
qed

theorem dispatch_intent_roundtrip_witness:
  "let led = snd (mark_dispatched demo_iso demo_policy (at_ms 102) ''a'' demo_approved (ledger_run demo_iso no_float demo_policy demo_reserved))
   in fst (get_dispatch_intent no_float demo_policy (at_ms 103) ''a'' led) =
     Inr [(''approval_expires_at'', JStr ''900''), (''approval_issued_at'', JStr ''050''), (''tool'', JStr ''scan'')]"
proof -
  let ?led = "ledger_run demo_iso no_float demo_policy demo_reserved"
  let ?r = "mark_dispatched demo_iso demo_policy (at_ms 102) ''a'' demo_approved ?led"
  let ?d = "[(''approval_issued_at'', JStr ''050''), (''approval_expires_at'', JStr ''900''), (''tool'', JStr ''scan'')]"
  have ok: "is_ok (fst ?r)" by code_simp
  have j: "json_ok (JObj ?d)" by code_simp
  have eng: "engagement (snd ?r) = Some \<lparr>eng_policy = demo_policy, started_at = 100, last_seen = 102, cancelled = False\<rparr>" by code_simp
  have now: "now_of (at_ms 103) = Inr 103"
    and seen: "last_seen \<lparr>eng_policy = demo_policy, started_at = 100, last_seen = 102, cancelled = False\<rparr> \<le> 103" by code_simp+
  have sorted: "sort_key fst (map (map_prod id (norm_json no_float)) ?d) =
      [(''approval_expires_at'', JStr ''900''), (''approval_issued_at'', JStr ''050''), (''tool'', JStr ''scan'')]"
    by simp
  have d: "dispatch_intent demo_approved = Some ?d" by (simp add: demo_approved_def)
  have same: "run_ops (budget_step demo_iso no_float demo_policy) [] (snd ?r) = snd ?r" by simp
  from dispatch_intent_roundtrip [OF demo_policy_valid refl ok d j same [symmetric] eng now seen] sorted
  show ?thesis by (simp only: Let_def)
qed

lemma set_uncertain_charges:
  assumes "find_attempt k rows = Some row" "distinct (map a_id rows)" "a_state row \<in> {Dispatched, Uncertain}"
  shows "snapshot_of (update_key a_id k (\<lambda>r. r\<lparr>a_state := Uncertain\<rparr>) rows) = snapshot_of rows"
proof -
  have eq: "count_in CHARGED (if a_id r = k then r\<lparr>a_state := Uncertain\<rparr> else r) = count_in CHARGED r \<and>
      count_in ACTIVE (if a_id r = k then r\<lparr>a_state := Uncertain\<rparr> else r) = count_in ACTIVE r \<and>
      charge_of act_tokens est_tokens (if a_id r = k then r\<lparr>a_state := Uncertain\<rparr> else r) = charge_of act_tokens est_tokens r \<and>
      charge_of act_cost est_cost (if a_id r = k then r\<lparr>a_state := Uncertain\<rparr> else r) = charge_of act_cost est_cost r \<and>
      charge_of act_output res_output (if a_id r = k then r\<lparr>a_state := Uncertain\<rparr> else r) = charge_of act_output res_output r"
    if "r \<in> set rows" for r
  proof (cases "a_id r = k")
    case True
    with assms(1) select_row_unique [OF assms(2) that] have "r = row" by simp
    with assms(3) show ?thesis
      by (auto simp: count_in_def charge_of_def usage_def Let_def state_sets split: option.splits)
  qed simp
  then show ?thesis
    by (simp add: snapshot_of_def update_key_def update_rows_def comp_def cong: map_cong)
qed

lemma mark_uncertain_effect:
  assumes "ID_match k" "find_attempt k (attempts led) = Some row" "a_state row \<in> {Dispatched, Uncertain}"
    "engagement led = Some eng" "eng_policy eng = policy" "now_of clock = Inr now" "last_seen eng \<le> now"
  shows "\<exists>a. mark_uncertain policy clock k led = (Inr a, set_state k Uncertain (set_last_seen now led))"
  using assms by (auto simp: mark_uncertain_def check_identifier_def transaction_def)

lemma mark_dispatched_row:
  assumes "mark_dispatched fromiso policy clock k args led = (Inr a, led')"
  shows "\<exists>row. find_attempt k (attempts led') = Some row \<and> a_state row = Dispatched" "ID_match k"
proof -
  have "is_ok (fst (mark_dispatched fromiso policy clock k args led))" using assms by simp
  from assms obtain plan where plan: "check_dispatch_args fromiso k args = Inr plan"
    "transaction policy clock (dispatch_body policy k plan) led = (Inr a, led')"
    by (auto simp: mark_dispatched_def split: sum.splits)
  then show "ID_match k" by (auto simp: check_dispatch_args_def bindE_Inr_iff check_identifier_ok)
  from plan(2) obtain eng now where "dispatch_body policy k plan eng now (set_last_seen now led) = Inr (a, led')"
    by (rule transaction_okE)
  then obtain row led1 led2 led3 where row: "find_attempt k (attempts led) = Some row"
    and c: "consume_prerequisite k (dp_prerequisite plan) (set_last_seen now led) = Inr led1"
      "consume_approval k (dp_approval plan) led1 = Inr led2" "record_intent k (dp_intent plan) led2 = Inr led3"
    and led': "led' = set_state k Dispatched led3"
    by (elim dispatch_body_ok) auto
  have "attempts led1 = attempts led" using c(1)
    by (auto simp: consume_prerequisite_def Let_def split: option.splits if_splits)
  then have "attempts led3 = attempts led"
    using consume_approval_ok [OF c(2)] record_intent_ok [OF c(3)] by auto
  with find_update_key [OF row, of "\<lambda>r. r\<lparr>a_state := Dispatched\<rparr>"] select_row_SomeD [OF row]
  show "\<exists>row. find_attempt k (attempts led') = Some row \<and> a_state row = Dispatched" by (simp add: led' set_state_def)
qed

text \<open>
  A failing callback leaves its attempt charged: when \<^verbatim>\<open>dispatch_fixture\<close> has recorded the dispatch
  and the callback raises (having at most polled the cancellation signal), the fixture re-raises
  the callback's error, the attempt ends up uncertain, and every charge of the ledger is kept.
\<close>

theorem fixture_failure_stays_charged:
  assumes pol: "valid_policy policy" and led: "led = ledger_run fromiso pf policy ops" and rq: "valid_request rq"
    and res: "reserve policy (clocks 0) rq None led = (Inr a, led1)"
    and dis: "mark_dispatched fromiso policy (clocks 1) (req_attempt_id rq) no_dispatch_args led1 = (Inr b, led2)"
    and cb: "callback rq led2 = (Inl e, led3)" "attempts led3 = attempts led2"
    and clock: "engagement led3 = Some eng" "eng_policy eng = policy" "now_of (clocks 3) = Inr now" "last_seen eng \<le> now"
  shows "\<exists>led4 row. dispatch_fixture fromiso policy clocks rq callback led = (Inl e, led4) \<and>
    find_attempt (req_attempt_id rq) (attempts led4) = Some row \<and> a_state row = Uncertain \<and>
    snapshot_of (attempts led4) = snapshot_of (attempts led2)"
proof -
  let ?k = "req_attempt_id rq"
  have inv: "ledger_inv policy led" unfolding led by (rule ledger_run_inv [OF pol])
  have inv1: "ledger_inv policy led1" using reserve_ok [OF inv rq, of None "clocks 0"] res by simp
  have inv2: "ledger_inv policy led2" using mark_dispatched_ok [OF inv1] dis by (metis snd_conv)
  from mark_dispatched_row [OF dis] obtain row where row: "find_attempt ?k (attempts led3) = Some row" "a_state row = Dispatched"
    and id: "ID_match ?k" using cb(2) by auto
  have st: "a_state row \<in> {Dispatched, Uncertain}" using row(2) by simp
  let ?led4 = "set_state ?k Uncertain (set_last_seen now led3)"
  from mark_uncertain_effect [OF id row(1) st clock] have "dispatch_fixture fromiso policy clocks rq callback led = (Inl e, ?led4)"
    using res dis cb(1) by (auto simp: dispatch_fixture_def fixture_failed_def)
  moreover have "find_attempt ?k (attempts ?led4) = Some (row\<lparr>a_state := Uncertain\<rparr>)"
    using find_update_key [OF row(1), of "\<lambda>r. r\<lparr>a_state := Uncertain\<rparr>"] select_row_SomeD [OF row(1)] by (simp add: set_state_def)
  moreover have "snapshot_of (attempts ?led4) = snapshot_of (attempts led2)"
    using set_uncertain_charges [OF row(1) _ st] inv2 cb(2) by (simp add: set_state_def ledger_inv_def forest_def)
  ultimately show ?thesis by auto
qed

definition demo_clocks :: "nat \<Rightarrow> json option" where
  "demo_clocks n = at_ms (101 + int n)"

definition failing_callback :: "attempt_request \<Rightarrow> ledger \<Rightarrow> (ledger, budget_error, receipt) outcome" where
  "failing_callback rq led = (Inl CallbackError, led)"

theorem fixture_failure_stays_charged_witness:
  "fst (dispatch_fixture no_iso demo_policy demo_clocks demo_request failing_callback (demo_run [(at_ms 100, Open)])) = Inl CallbackError"
proof -
  let ?led = "demo_run [(at_ms 100, Open)]"
  let ?r = "reserve demo_policy (demo_clocks 0) demo_request None ?led"
  let ?d = "mark_dispatched no_iso demo_policy (demo_clocks 1) (req_attempt_id demo_request) no_dispatch_args (snd ?r)"
  have rq: "valid_request demo_request"
    and r: "fst ?r = Inr \<lparr>att_id = ''a'', att_parent = None, att_state = Reserved, att_depth = 0\<rparr>"
    and d: "fst ?d = Inr \<lparr>att_id = ''a'', att_parent = None, att_state = Dispatched, att_depth = 0\<rparr>"
    and eng: "engagement (snd ?d) = Some \<lparr>eng_policy = demo_policy, started_at = 100, last_seen = 102, cancelled = False\<rparr>"
    and clock: "eng_policy \<lparr>eng_policy = demo_policy, started_at = 100, last_seen = 102, cancelled = False\<rparr> = demo_policy"
      "now_of (demo_clocks 3) = Inr 104"
      "last_seen \<lparr>eng_policy = demo_policy, started_at = 100, last_seen = 102, cancelled = False\<rparr> \<le> 104" by code_simp+
  have cb: "failing_callback demo_request (snd ?d) = (Inl CallbackError, snd ?d)" by (simp add: failing_callback_def)
  from fixture_failure_stays_charged [where clocks = demo_clocks and callback = failing_callback, OF demo_policy_valid refl rq pair_of_fst [OF r] pair_of_fst [OF d] cb refl eng clock]
  show ?thesis by auto
qed

end
