(* ===== verification/Canonical_Props.thy ===== *)
theory Canonical_Props
  imports Canonical "HOL-Library.Multiset"
begin

text \<open>
  What canonical bytes guarantee. The reference measures below (nesting depth, finiteness, the lower
  bound of the printed size) are recursive on the value; the lemmas relate the code's stack walk and
  byte scan to them.
\<close>

section \<open>Reference measures\<close>

primrec jdepth :: "json \<Rightarrow> int" where
  "jdepth JNull = 0"
| "jdepth (JBool b) = 0"
| "jdepth (JInt i) = 0"
| "jdepth (JFloat f) = 0"
| "jdepth (JStr s) = 0"
| "jdepth (JList vs) = 1 + Max (set (0 # map jdepth vs))"
| "jdepth (JObj d) = 1 + Max (set (0 # map snd (map (map_prod id jdepth) d)))"

primrec floats_finite :: "json \<Rightarrow> bool" where
  "floats_finite JNull = True"
| "floats_finite (JBool b) = True"
| "floats_finite (JInt i) = True"
| "floats_finite (JFloat f) = (case f of FinF t v \<Rightarrow> True | _ \<Rightarrow> False)"
| "floats_finite (JStr s) = True"
| "floats_finite (JList vs) = list_all id (map floats_finite vs)"
| "floats_finite (JObj d) = list_all snd (map (map_prod id floats_finite) d)"

text \<open>The \<^verbatim>\<open>repr\<close> of a float is never empty.\<close>

primrec floats_shown :: "json \<Rightarrow> bool" where
  "floats_shown JNull = True"
| "floats_shown (JBool b) = True"
| "floats_shown (JInt i) = True"
| "floats_shown (JFloat f) = (case f of FinF t v \<Rightarrow> t \<noteq> [] | _ \<Rightarrow> True)"
| "floats_shown (JStr s) = True"
| "floats_shown (JList vs) = list_all id (map floats_shown vs)"
| "floats_shown (JObj d) = list_all snd (map (map_prod id floats_shown) d)"

primrec least_bytes :: "json \<Rightarrow> int" where
  "least_bytes JNull = 1"
| "least_bytes (JBool b) = 1"
| "least_bytes (JInt i) = max 1 ((bit_length i + 3) div 4) + (if i < 0 then 1 else 0)"
| "least_bytes (JFloat f) = 1"
| "least_bytes (JStr s) = int (length s) + 2"
| "least_bytes (JList vs) = 2 + sum_list (map least_bytes vs)"
| "least_bytes (JObj d) = 2 + sum_list (map (\<lambda>(k, b). int (length k) + 3 + b) (map (map_prod id least_bytes) d))"

section \<open>The lower bound is one\<close>

lemma length_utf8: "length s \<le> length (utf8 s)"
  by (induction s) (auto simp: utf8_def Let_def)

lemma length_join_comma: "length (join_comma xs) = sum_list (map length xs) + (length xs - 1)"
  by (induction xs rule: join_comma.induct) auto

lemma escape_char_pos: "1 \<le> length (escape_char ea c)"
  by (simp add: escape_char_def Let_def)

lemma length_str_text: "length s + 2 \<le> length (str_text ea s)"
proof -
  have "length s \<le> length (concat (map (escape_char ea) s))"
  proof (induction s)
    case (Cons c s)
    with escape_char_pos [of ea c] show ?case by simp
  qed simp
  then show ?thesis by (simp add: str_text_def)
qed

lemma bit_length_bound: "2 ^ bit_length_nat n \<le> 2 * n" if "0 < n"
  using that
proof (induction n rule: bit_length_nat.induct)
  case (1 n)
  show ?case
  proof (cases "n div 2 = 0")
    case True
    with 1(2) have "n = 1" by simp
    then show ?thesis by (simp add: bit_length_nat.simps)
  next
    case False
    with 1 have "2 ^ bit_length_nat (n div 2) \<le> 2 * (n div 2)" by simp
    with 1(2) show ?thesis by (subst bit_length_nat.simps) simp
  qed
qed

lemma nat_text_bound: "n < 10 ^ length (nat_text n)"
proof (induction n rule: nat_text.induct)
  case (1 n)
  show ?case
  proof (cases "n < 10")
    case False
    with 1 have "n div 10 < 10 ^ length (nat_text (n div 10))" by simp
    then have "n < 10 ^ length (nat_text (n div 10)) * 10" by (simp add: div_less_iff_less_mult)
    with False show ?thesis by (subst nat_text.simps) simp
  qed (simp add: nat_text.simps)
qed

lemma hex_digits_le_decimal: "(bit_length_nat n + 3) div 4 \<le> length (nat_text n)"
proof (cases "n = 0")
  case False
  let ?k = "length (nat_text n)"
  have "2 ^ bit_length_nat n \<le> 2 * n" using bit_length_bound False by simp
  also have "\<dots> < 2 * 10 ^ ?k" using nat_text_bound [of n] by simp
  also have "\<dots> \<le> 2 * (16 :: nat) ^ ?k" by (simp add: power_mono)
  also have "\<dots> = 2 ^ Suc (4 * ?k)" by (simp add: power_mult)
  finally have "bit_length_nat n < Suc (4 * ?k)" by (rule power_less_imp_less_exp [rotated]) simp
  then show ?thesis by simp
qed (simp add: bit_length_nat.simps)

lemma least_int: "max 1 ((bit_length i + 3) div 4) + (if i < 0 then 1 else 0) \<le> int (length (int_text i))"
proof -
  have "(bit_length i + 3) div 4 \<le> int (length (nat_text (nat \<bar>i\<bar>)))"
    using hex_digits_le_decimal [of "nat \<bar>i\<bar>"] unfolding bit_length_def by linarith
  moreover have "1 \<le> length (nat_text (nat \<bar>i\<bar>))" by (subst nat_text.simps) simp
  ultimately show ?thesis by (cases "i < 0") (simp_all add: int_text_def)
qed

lemma sum_list_mono_int:
  "(\<And>x. x \<in> set xs \<Longrightarrow> f x \<le> int (g x)) \<Longrightarrow> sum_list (map f xs) \<le> int (sum_list (map g xs))"
  by (induction xs) force+

lemma sum_list_sort_key: "sum_list (map f (sort_key g xs)) = (sum_list (map f xs) :: nat)"
proof -
  have "mset (map f (sort_key g xs)) = mset (map f xs)" by simp
  then have "sum_mset (mset (map f (sort_key g xs))) = sum_mset (mset (map f xs))" by (simp only:)
  then show ?thesis by (simp only: sum_mset_sum_list)
qed

lemma least_bytes_le: "floats_shown v \<Longrightarrow> least_bytes v \<le> int (length (dumps ea v))"
proof (induction v)
  case (JInt i)
  show ?case using least_int [of i] by simp
next
  case (JFloat f)
  then show ?case by (cases f) (auto simp: Suc_le_eq)
next
  case (JStr s)
  show ?case using length_str_text [of s ea] by simp
next
  case (JList vs)
  have "sum_list (map least_bytes vs) \<le> int (sum_list (map (\<lambda>v. length (dumps ea v)) vs))"
    using JList by (intro sum_list_mono_int) (auto simp: list_all_iff)
  then show ?case by (simp add: length_join_comma comp_def)
next
  case (JObj d)
  have "sum_list (map (\<lambda>x. int (length (fst x)) + 3 + least_bytes (snd x)) d) \<le>
      int (sum_list (map (\<lambda>x. length (member_text ea x)) d))"
  proof (rule sum_list_mono_int)
    fix x assume x: "x \<in> set d"
    obtain k v where kv: "x = (k, v)" by (cases x)
    have "least_bytes v \<le> int (length (dumps ea v))"
      using JObj.IH [of x v] JObj.prems x kv by (auto simp: list_all_iff)
    with length_str_text [of k ea] kv show "int (length (fst x)) + 3 + least_bytes (snd x) \<le> int (length (member_text ea x))"
      by simp
  qed
  also have "\<dots> = int (sum_list (map (\<lambda>x. length (member_text ea x)) (sort_key fst d)))"
    by (simp only: sum_list_sort_key)
  finally show ?case
    by (simp add: dumps_obj length_join_comma comp_def case_prod_beta del: dumps.simps)
qed auto

section \<open>The stack walk\<close>

definition pending_ok :: "int \<Rightarrow> json \<times> int \<Rightarrow> bool" where
  "pending_ok max_depth p \<longleftrightarrow> snd p + jdepth (fst p) \<le> max_depth \<and> floats_finite (fst p)"

lemma count_keys_ok:
  "m + sum_list (map (\<lambda>k. int (length k) + 3) ks) \<le> mb \<Longrightarrow>
   count_keys mb ks m = Inr (m + sum_list (map (\<lambda>k. int (length k) + 3) ks))"
proof (induction ks arbitrary: m)
  case (Cons k ks)
  have "0 \<le> sum_list (map (\<lambda>k. int (length k) + 3) ks)" by (rule sum_list_nonneg) auto
  with Cons show ?case by (auto simp: Let_def algebra_simps)
qed simp

lemma jdepth_obj: "(k, v) \<in> set d \<Longrightarrow> 1 + jdepth v \<le> jdepth (JObj d)"
  by (auto intro!: Max_ge image_eqI)

lemma jdepth_list: "v \<in> set vs \<Longrightarrow> 1 + jdepth v \<le> jdepth (JList vs)"
  by (auto intro!: Max_ge image_eqI)

lemma jdepth_nonneg: "0 \<le> jdepth v"
  by (cases v) (auto intro!: add_nonneg_nonneg Max_ge)

lemma jdepth_pos: "1 \<le> jdepth (JObj d)" "1 \<le> jdepth (JList vs)"
  by (auto intro!: Max_ge)

lemma length_le_nodes: "length xs \<le> sum_list (map (\<lambda>x. node_count (f x)) xs)"
proof (induction xs)
  case (Cons x xs)
  with node_count_pos [of "f x"] show ?case by simp
qed simp

lemma least_bytes_pos: "1 \<le> least_bytes v"
proof (induction v)
  case (JList vs)
  then have "0 \<le> sum_list (map least_bytes vs)" by (intro sum_list_nonneg) force
  then show ?case by simp
next
  case (JObj d)
  have "0 \<le> sum_list (map (\<lambda>x. int (length (fst x)) + 3 + least_bytes (snd x)) d)"
  proof (rule sum_list_nonneg)
    fix b assume "b \<in> set (map (\<lambda>x. int (length (fst x)) + 3 + least_bytes (snd x)) d)"
    then obtain x where x: "x \<in> set d" "b = int (length (fst x)) + 3 + least_bytes (snd x)" by auto
    from JObj.IH [of x "snd x"] x show "0 \<le> b" by (auto simp: snds.simps)
  qed
  then show ?case by (simp add: comp_def case_prod_beta)
qed auto

lemma visit_ok:
  assumes ok: "pending_ok md (item, depth)" and nodes: "n + int w + int (node_count item) - 1 \<le> mb"
    and bytes: "m + least_bytes item - 1 \<le> mb"
  shows "\<exists>new m'. visit mb md item depth w n m = Inr (new, m') \<and>
    m' + sum_list (map (\<lambda>p. least_bytes (fst p)) new) = m + least_bytes item - 1 \<and> list_all (pending_ok md) new"
proof (cases item)
  case (JObj d)
  have len: "length d \<le> sum_list (map (\<lambda>x. node_count (snd x)) d)" by (rule length_le_nodes)
  have split: "sum_list (map (\<lambda>x. int (length (fst x)) + 3 + least_bytes (snd x)) d) =
      sum_list (map (\<lambda>k. int (length k) + 3) (map fst d)) + sum_list (map (\<lambda>x. least_bytes (snd x)) d)"
    by (simp add: sum_list_addf comp_def)
  have "0 \<le> sum_list (map (\<lambda>x. least_bytes (snd x)) d)"
    by (rule sum_list_nonneg) (auto intro: order_trans [OF _ least_bytes_pos])
  with bytes split have keys: "m + 1 + sum_list (map (\<lambda>k. int (length k) + 3) (map fst d)) \<le> mb"
    by (simp add: JObj comp_def case_prod_beta)
  have "pending_ok md (v, depth + 1)" if "(k, v) \<in> set d" for k v
    using ok that jdepth_obj [OF that] by (auto simp: pending_ok_def JObj list_all_iff simp del: jdepth.simps)
  then have "list_all (pending_ok md) (rev (map (\<lambda>(k, v). (v, depth + 1)) d))" by (auto simp: list_all_iff)
  with ok nodes len keys split jdepth_pos(1) [of d] show ?thesis
    by (auto simp: JObj visit_def count_keys_ok pending_ok_def comp_def case_prod_beta rev_map [symmetric] sum_list_rev
        simp del: jdepth.simps)
next
  case (JList vs)
  have len: "length vs \<le> sum_list (map node_count vs)" using length_le_nodes [of vs "\<lambda>x. x"] by simp
  have "pending_ok md (v, depth + 1)" if "v \<in> set vs" for v
    using ok that jdepth_list [OF that] by (auto simp: pending_ok_def JList list_all_iff simp del: jdepth.simps)
  then have "list_all (pending_ok md) (rev (map (\<lambda>v. (v, depth + 1)) vs))" by (auto simp: list_all_iff)
  with ok nodes len jdepth_pos(2) [of vs] show ?thesis
    by (auto simp: JList visit_def pending_ok_def comp_def rev_map [symmetric] sum_list_rev simp del: jdepth.simps)
qed (use ok in \<open>auto simp: visit_def pending_ok_def split: pyfloat.splits\<close>)

lemma canonical_walk_accepts:
  assumes "list_all (pending_ok md) pending"
    "n + int (sum_list (map (\<lambda>p. node_count (fst p)) pending)) \<le> mb" "m + sum_list (map (\<lambda>p. least_bytes (fst p)) pending) \<le> mb"
  shows "canonical_walk mb md pending n m = Inr ()"
  using assms
proof (induction mb md pending n m rule: canonical_walk.induct)
  case (2 mb md item depth pending n m)
  have w: "length pending \<le> sum_list (map (\<lambda>p. node_count (fst p)) pending)"
    using length_le_nodes [of pending fst] by (simp add: comp_def)
  have rest: "0 \<le> sum_list (map (\<lambda>p. least_bytes (fst p)) pending)"
    by (rule sum_list_nonneg) (auto intro: order_trans [OF _ least_bytes_pos])
  have ok: "pending_ok md (item, depth)" using 2(2) by simp
  have bound: "n + 1 + int (length pending) + int (node_count item) - 1 \<le> mb" "m + 1 + least_bytes item - 1 \<le> mb"
    using 2(3,4) w rest by simp_all
  from visit_ok [OF ok bound] obtain new m' where v:
    "visit mb md item depth (length pending) (n + 1) (m + 1) = Inr (new, m')"
    "m' + sum_list (map (\<lambda>p. least_bytes (fst p)) new) = m + least_bytes item" "list_all (pending_ok md) new" by auto
  have new: "sum_list (map (\<lambda>p. node_count (fst p)) new) = node_count item - 1"
    using visit_pushes [OF v(1)] by (simp add: split_def)
  have "0 \<le> sum_list (map (\<lambda>p. least_bytes (fst p)) new)"
    by (rule sum_list_nonneg) (auto intro: order_trans [OF _ least_bytes_pos])
  then have le: "n + 1 \<le> mb" "m' \<le> mb" using 2(3,4) v(2) node_count_pos [of item] rest by auto
  have "canonical_walk mb md (new @ pending) (n + 1) m' = Inr ()"
    by (rule 2(1) [OF _ v(1) refl]) (use 2(2-4) v new node_count_pos [of item] le in auto)
  with v(1) le show ?case by simp
qed simp

lemma jdepth_le:
  "1 \<le> b \<Longrightarrow> (\<And>k v. (k, v) \<in> set d \<Longrightarrow> 1 + jdepth v \<le> b) \<Longrightarrow> jdepth (JObj d) \<le> b"
  "1 \<le> b \<Longrightarrow> (\<And>v. v \<in> set vs \<Longrightarrow> 1 + jdepth v \<le> b) \<Longrightarrow> jdepth (JList vs) \<le> b"
  by (auto simp: le_diff_eq [symmetric, of _ 1] add.commute [of 1] intro!: Max.boundedI)

lemma visit_back:
  assumes v: "visit mb md item depth w n m = Inr (new, m')" and ok: "list_all (pending_ok md) new" and d: "depth \<le> md"
  shows "pending_ok md (item, depth)"
proof (cases item)
  case (JObj kvs)
  with v have new: "new = rev (map (\<lambda>(k, v). (v, depth + 1)) kvs)" "1 \<le> md - depth"
    by (auto simp: visit_def bindE_Inr_iff split: if_splits)
  with ok have c: "depth + 1 + jdepth u \<le> md \<and> floats_finite u" if "(k, u) \<in> set kvs" for k u
    using that by (force simp: pending_ok_def list_all_iff)
  then have "jdepth (JObj kvs) \<le> md - depth" using new(2) by (intro jdepth_le(1)) force+
  moreover have "floats_finite (JObj kvs)" using c by (auto simp: list_all_iff)
  ultimately show ?thesis by (simp add: pending_ok_def JObj del: jdepth.simps floats_finite.simps)
next
  case (JList vs)
  with v have new: "new = rev (map (\<lambda>v. (v, depth + 1)) vs)" "1 \<le> md - depth"
    by (auto simp: visit_def split: if_splits)
  with ok have c: "depth + 1 + jdepth u \<le> md \<and> floats_finite u" if "u \<in> set vs" for u
    using that by (force simp: pending_ok_def list_all_iff)
  then have "jdepth (JList vs) \<le> md - depth" using new(2) by (intro jdepth_le(2)) force+
  moreover have "floats_finite (JList vs)" using c by (auto simp: list_all_iff)
  ultimately show ?thesis by (simp add: pending_ok_def JList del: jdepth.simps floats_finite.simps)
qed (use v d in \<open>auto simp: visit_def pending_ok_def split: pyfloat.splits\<close>)

lemma canonical_walk_sound:
  "canonical_walk mb md pending n m = Inr () \<Longrightarrow> list_all (\<lambda>p. snd p \<le> md) pending \<Longrightarrow> list_all (pending_ok md) pending"
proof (induction mb md pending n m rule: canonical_walk.induct)
  case (2 mb md item depth pending n m)
  then obtain new m' where v: "visit mb md item depth (length pending) (n + 1) (m + 1) = Inr (new, m')" "m' \<le> mb" "n + 1 \<le> mb"
    "canonical_walk mb md (new @ pending) (n + 1) m' = Inr ()"
    by (auto split: if_splits sum.splits)
  have "list_all (\<lambda>p. snd p \<le> md) new"
    using v(1) by (auto simp: visit_def bindE_Inr_iff list_all_iff split: json.splits if_splits pyfloat.splits)
  with 2 v have "list_all (pending_ok md) (new @ pending)" by (intro 2(1) [OF _ v(1) refl]) auto
  with visit_back [OF v(1)] 2(3) show ?case by simp
qed simp

section \<open>The exact meaning of canonical\<close>

lemma least_bytes_nodes: "int (node_count v) \<le> least_bytes v"
proof (induction v)
  case (JList vs)
  then have "int (sum_list (map node_count vs)) \<le> sum_list (map least_bytes vs)"
    by (induction vs) force+
  then show ?case by simp
next
  case (JObj d)
  have "int (sum_list (map (\<lambda>x. node_count (snd x)) d)) \<le> sum_list (map (\<lambda>x. int (length (fst x)) + 3 + least_bytes (snd x)) d)"
    using JObj by (induction d) (force simp: snds.simps)+
  then show ?case by (simp add: comp_def case_prod_beta)
qed auto

lemma canonical_walk_iff:
  assumes "floats_shown v" "int (length (utf8 (dumps False v))) \<le> mb" "0 \<le> md"
  shows "canonical_walk mb md [(v, 0)] 0 0 = Inr () \<longleftrightarrow> jdepth v \<le> md \<and> floats_finite v"
proof
  assume "canonical_walk mb md [(v, 0)] 0 0 = Inr ()"
  from canonical_walk_sound [OF this] assms(3) show "jdepth v \<le> md \<and> floats_finite v" by (simp add: pending_ok_def)
next
  assume "jdepth v \<le> md \<and> floats_finite v"
  moreover have "least_bytes v \<le> mb"
    using least_bytes_le [OF assms(1), of False] length_utf8 [of "dumps False v"] assms(2) by linarith
  ultimately show "canonical_walk mb md [(v, 0)] 0 0 = Inr ()"
    using least_bytes_nodes [of v] by (intro canonical_walk_accepts) (auto simp: pending_ok_def)
qed

lemma canonical_walk_sound_one: "canonical_walk mb md [(v, 0)] 0 0 = Inr () \<Longrightarrow> 0 \<le> md \<Longrightarrow> jdepth v \<le> md \<and> floats_finite v"
  using canonical_walk_sound [of mb md "[(v, 0)]" 0 0] by (simp add: pending_ok_def)

lemma canonical_okD:
  assumes "canonical v mb md = Inr b"
  shows "b = utf8 (dumps False v)" "int (length b) \<le> mb" "jdepth v \<le> md" "floats_finite v" "ints_printable v"
    "limits_valid mb md"
  using assms canonical_walk_sound_one [of mb md v]
  by (auto simp: canonical_def bindE_Inr_iff Let_def limits_valid_def split: if_splits)

lemma canonical_okI:
  assumes "floats_shown v" "limits_valid mb md" "jdepth v \<le> md" "floats_finite v" "ints_printable v" "int (length (utf8 (dumps False v))) \<le> mb"
  shows "canonical v mb md = Inr (utf8 (dumps False v))"
proof -
  have "canonical_walk mb md [(v, 0)] 0 0 = Inr ()"
    using assms by (subst canonical_walk_iff [OF assms(1)]) (auto simp: limits_valid_def)
  with assms show ?thesis by (auto simp: canonical_def Let_def simp del: canonical_walk.simps)
qed

text \<open>
  C38. \<^verbatim>\<open>canonical\<close> accepts exactly the values that are nested at most \<^verbatim>\<open>max_depth\<close> deep, hold no NaN or
  infinity and no integer beyond the conversion limit, and whose sorted, compact UTF-8 text has at
  most \<^verbatim>\<open>max_bytes\<close> bytes; and it returns that text. In particular the stack walk, which counts a
  lower bound before printing, never refuses a value whose real size is within the limit.
\<close>

theorem canonical_exact:
  assumes "floats_shown v"
  shows "canonical v mb md = Inr b \<longleftrightarrow>
    limits_valid mb md \<and> jdepth v \<le> md \<and> floats_finite v \<and> ints_printable v \<and>
    b = utf8 (dumps False v) \<and> int (length b) \<le> mb"
  using canonical_okI [OF assms] canonical_okD [of v mb md b] by blast

theorem canonical_exact_witness:
  "let v = JObj [(''b'', JList [JInt 10, JNull]), (''a'', JFloat (FinF ''0.5'' (1/2)))] in
   floats_shown v \<and> canonical v 27 2 = Inr (utf8 (dumps False v)) \<and> \<not> is_ok (canonical v 22 2) \<and> \<not> is_ok (canonical v 27 1)"
proof -
  let ?v = "JObj [(''b'', JList [JInt 10, JNull]), (''a'', JFloat (FinF ''0.5'' (1/2)))]"
  have s: "floats_shown ?v" and d: "jdepth ?v = 2" and f: "floats_finite ?v" and i: "ints_printable ?v" 
    by code_simp+
  have l: "length (utf8 (dumps False ?v)) = 23" by code_simp
  have "canonical ?v 27 2 = Inr (utf8 (dumps False ?v))" "\<not> (canonical ?v 22 2 = Inr b)" "\<not> (canonical ?v 27 1 = Inr b)" for b
    using canonical_exact [OF s, of 27 2] canonical_exact [OF s, of 22 2 b] canonical_exact [OF s, of 27 1 b] d f i l
    by (simp_all only: limits_valid_def) auto
  then show ?thesis using s by (simp only: Let_def is_ok_iff) blast
qed

section \<open>Canonical bytes identify the value\<close>

lemma utf8_Cons: "utf8 (c # s) = (if (of_char c :: nat) < 128 then [of_char c]
    else [192 + of_char c div 64, 128 + of_char c mod 64]) @ utf8 s"
  by (simp add: utf8_def Let_def)

lemma utf8_append: "utf8 (s @ t) = utf8 s @ utf8 t"
  by (simp add: utf8_def)

lemma utf8_Nil [simp]: "utf8 [] = []"
  by (simp add: utf8_def)

lemma utf8_decode_utf8: "utf8_decode (utf8 s) = Some s"
proof (induction s)
  case (Cons c s)
  let ?k = "of_char c :: nat"
  have k: "?k < 256" by (rule of_char_less)
  show ?case
  proof (cases "?k < 128")
    case False
    with k have "?k div 64 = 2 \<or> ?k div 64 = 3" by linarith
    moreover have "(?k div 64) * 64 + ?k mod 64 = ?k" by simp
    ultimately show ?thesis using False Cons by (auto simp: utf8_Cons)
  qed (use Cons in \<open>simp add: utf8_Cons\<close>)
qed simp

lemma utf8_inj: "utf8 s = utf8 t \<longleftrightarrow> s = t"
  using utf8_decode_utf8 by (metis option.inject)

text \<open>
  C39. Canonical bytes identify a value: two well-formed values have the same canonical bytes exactly
  when they are equal up to the order of dictionary keys. A digest therefore depends on nothing but
  the content of a document, and two documents with equal bytes are the same document.
\<close>

theorem canonical_injective:
  assumes "json_ok v" "json_ok w" "canonical v mb md = Inr b" "canonical w mb' md' = Inr b'"
  shows "b = b' \<longleftrightarrow> norm_json text_float v = norm_json text_float w"
  using canonical_okD(1) [OF assms(3)] canonical_okD(1) [OF assms(4)] dumps_eq_iff [OF assms(1,2), of False]
  by (simp add: utf8_inj)

theorem canonical_injective_witness:
  "let v = JObj [(''b'', JInt 1), (''a'', JNull)]; w = JObj [(''a'', JNull), (''b'', JInt 1)] in
   json_ok v \<and> json_ok w \<and> canonical v 100 4 = canonical w 100 4"
proof -
  let ?v = "JObj [(''b'', JInt 1), (''a'', JNull)]" and ?w = "JObj [(''a'', JNull), (''b'', JInt 1)]"
  have j: "json_ok ?v" "json_ok ?w" by (simp_all add: MAX_INT_DIGITS_def nat_text.simps)
  have ok: "is_ok (canonical ?v 100 4)" "is_ok (canonical ?w 100 4)" by code_simp+
  then obtain b b' where b: "canonical ?v 100 4 = Inr b" "canonical ?w 100 4 = Inr b'" by (auto simp: is_ok_iff)
  have "norm_json text_float ?v = norm_json text_float ?w" by simp
  with canonical_injective [OF j b] b j show ?thesis by (simp only: Let_def) simp
qed

section \<open>Decoding what was encoded\<close>

abbreviation at_depth :: "int \<Rightarrow> depth_state" where
  "at_depth d \<equiv> \<lparr>ds_depth = d, ds_quoted = False, ds_escaped = False\<rparr>"

abbreviation in_string :: "int \<Rightarrow> depth_state" where
  "in_string d \<equiv> \<lparr>ds_depth = d, ds_quoted = True, ds_escaped = False\<rparr>"

definition plain_char :: "char \<Rightarrow> bool" where
  "plain_char c \<longleftrightarrow> (of_char c :: nat) < 128 \<and> (of_char c :: nat) \<notin> {34, 91, 93, 123, 125}"

lemma scan_plain: "list_all plain_char t \<Longrightarrow> depth_scan md (utf8 t @ r) (at_depth d) = depth_scan md r (at_depth d)"
  by (induction t) (auto simp: utf8_Cons plain_char_def)

lemma scan_escape_bytes: "depth_scan md (utf8 (escape_char False c) @ r) (in_string d) = depth_scan md r (in_string d)"
proof -
  have "(of_char c :: nat) < 256" by (rule of_char_less)
  then show ?thesis
    by (auto simp: escape_char_def Let_def utf8_Cons hex_char_def of_char_of)
qed

lemma scan_str_bytes: "depth_scan md (utf8 (str_text False s) @ r) (at_depth d) = depth_scan md r (at_depth d)"
proof -
  have body: "depth_scan md (utf8 (concat (map (escape_char False) s)) @ r') (in_string d) = depth_scan md r' (in_string d)" for r'
    by (induction s) (auto simp: utf8_append scan_escape_bytes)
  show ?thesis by (simp add: str_text_def utf8_Cons utf8_append body)
qed

lemma nat_text_plain: "list_all plain_char (nat_text n)"
  using nat_text_digits [of n] by (auto simp: list_all_iff is_digit_def plain_char_def)

lemma int_text_plain: "list_all plain_char (int_text i)"
  using nat_text_plain by (simp add: int_text_def plain_char_def)

lemma digits_plain: "list_all plain_char (takeWhile is_digit s)" "is_digit c \<Longrightarrow> plain_char c"
  by (auto simp: list_all_iff is_digit_def plain_char_def dest: set_takeWhileD)

lemma frac_part_plain: "frac_part s = (t, r) \<Longrightarrow> list_all plain_char t"
  by (auto simp: frac_part_def digits_plain split: list.splits if_splits) (auto simp: plain_char_def)

lemma exp_part_plain: "exp_part s = (t, r) \<Longrightarrow> list_all plain_char t"
  by (auto simp: exp_part_def digits_plain split: list.splits if_splits) (auto simp: plain_char_def)

lemma int_part_plain: "int_part s = Some (t, r) \<Longrightarrow> list_all plain_char t"
  by (auto simp: int_part_def digits_plain split: list.splits if_splits)

lemma number_plain:
  assumes "number_prefix s = Some (t, b, r)"
  shows "list_all plain_char t"
proof -
  obtain sg s1 where sg: "(case s of c # cs \<Rightarrow> if c = CHR ''-'' then ([c], cs) else ([], s) | [] \<Rightarrow> ([], s)) = (sg, s1)"
    by (meson surj_pair)
  then have "list_all plain_char sg" by (auto simp: plain_char_def split: list.splits if_splits)
  moreover from assms sg obtain ip s2 fr s3 ex s4 where
    "int_part s1 = Some (ip, s2)" "frac_part s2 = (fr, s3)" "exp_part s3 = (ex, s4)" "t = sg @ ip @ fr @ ex"
    by (auto simp: number_prefix_def Let_def split: option.splits prod.splits)
  ultimately show ?thesis using int_part_plain frac_part_plain exp_part_plain by auto
qed

lemma scan_open: "d + 1 \<le> md \<Longrightarrow> c = CHR ''['' \<or> c = CHR ''{'' \<Longrightarrow>
    depth_scan md (utf8 (c # s) @ r) (at_depth d) = depth_scan md (utf8 s @ r) (at_depth (d + 1))"
  by (auto simp: utf8_Cons)

lemma scan_close: "c = CHR '']'' \<or> c = CHR ''}'' \<Longrightarrow>
    depth_scan md (utf8 [c] @ r) (at_depth (d + 1)) = depth_scan md r (at_depth d)"
  by (auto simp: utf8_Cons)

lemma scan_sep: "c = CHR '','' \<or> c = CHR '':'' \<Longrightarrow>
    depth_scan md (utf8 (c # s) @ r) (at_depth d) = depth_scan md (utf8 s @ r) (at_depth d)"
  by (auto simp: utf8_Cons)

definition scans_through :: "int \<Rightarrow> int \<Rightarrow> string \<Rightarrow> bool" where
  "scans_through md d t \<longleftrightarrow> (\<forall>r. depth_scan md (utf8 t @ r) (at_depth d) = depth_scan md r (at_depth d))"

lemma scans_join: "(\<And>t. t \<in> set ts \<Longrightarrow> scans_through md d t) \<Longrightarrow> scans_through md d (join_comma ts)"
proof (induction ts rule: join_comma.induct)
  case (3 x y ys)
  then have "scans_through md d x" "scans_through md d (join_comma (y # ys))" by simp_all
  then show ?case by (simp add: scans_through_def utf8_append scan_sep)
qed (simp_all add: scans_through_def)

lemma scans_bracket:
  assumes "d + 1 \<le> md" "scans_through md (d + 1) t" "(p, q) = (CHR ''['', CHR '']'') \<or> (p, q) = (CHR ''{'', CHR ''}'')"
  shows "scans_through md d (p # t @ [q])"
  using assms by (auto simp: scans_through_def scan_open utf8_append scan_close)

lemma scans_value: "json_ok v \<Longrightarrow> d + jdepth v \<le> md \<Longrightarrow> scans_through md d (dumps False v)"
proof (induction v arbitrary: d)
  case (JFloat f)
  then show ?case by (cases f) (auto simp: scans_through_def scan_plain dest!: number_plain)
next
  case (JList vs)
  have "scans_through md (d + 1) (dumps False v)" if "v \<in> set vs" for v
    using that JList.prems jdepth_list [OF that] by (intro JList.IH) (auto simp: list_all_iff simp del: jdepth.simps)
  then have "scans_through md (d + 1) (join_comma (map (dumps False) vs))" by (intro scans_join) auto
  moreover have "d + 1 \<le> md" using JList.prems(2) jdepth_pos(2) [of vs] by linarith
  ultimately show ?case by (simp add: scans_bracket)
next
  case (JObj kvs)
  have "scans_through md (d + 1) (member_text False x)" if "x \<in> set kvs" for x
  proof -
    obtain k v where x: "x = (k, v)" by (cases x)
    have "scans_through md (d + 1) (dumps False v)"
      using that x JObj.prems jdepth_obj [of k v kvs] JObj.IH [of x v "d + 1"]
      by (auto simp: list_all_iff simp del: jdepth.simps)
    then show ?thesis by (simp add: x scans_through_def utf8_append scan_str_bytes scan_sep)
  qed
  then have "scans_through md (d + 1) (join_comma (map (member_text False) (sort_key fst kvs)))"
    by (intro scans_join) auto
  moreover have "d + 1 \<le> md" using JObj.prems(2) jdepth_pos(1) [of kvs] by linarith
  ultimately show ?case by (simp add: dumps_obj scans_bracket del: dumps.simps)
qed (auto simp: scans_through_def scan_str_bytes scan_plain int_text_plain plain_char_def)

text \<open>CPython's \<^verbatim>\<open>float(repr(x)) == x\<close>, for the floats of a value.\<close>

primrec floats_reparse :: "(string \<Rightarrow> pyfloat) \<Rightarrow> json \<Rightarrow> bool" where
  "floats_reparse pf JNull = True"
| "floats_reparse pf (JBool b) = True"
| "floats_reparse pf (JInt i) = True"
| "floats_reparse pf (JFloat f) = (case f of FinF t v \<Rightarrow> pf t = f | _ \<Rightarrow> True)"
| "floats_reparse pf (JStr s) = True"
| "floats_reparse pf (JList vs) = list_all id (map (floats_reparse pf) vs)"
| "floats_reparse pf (JObj d) = list_all snd (map (map_prod id (floats_reparse pf)) d)"

text \<open>With such floats, the normal form only sorts keys, which no measure sees.\<close>

lemma norm_measures:
  assumes "json_ok v" "floats_reparse pf v"
  shows "jdepth (norm_json pf v) = jdepth v" "floats_finite (norm_json pf v)" "ints_printable (norm_json pf v)"
    "floats_shown (norm_json pf v)" "dumps ea (norm_json pf v) = dumps ea v"
proof -
  have "jdepth (norm_json pf v) = jdepth v \<and> floats_finite (norm_json pf v) \<and> ints_printable (norm_json pf v) \<and>
      floats_shown (norm_json pf v) \<and> dumps ea (norm_json pf v) = dumps ea v"
    using assms
  proof (induction v)
    case (JFloat f)
    then show ?case by (cases f) (auto simp: number_prefix_def int_part_def)
  next
    case (JList vs)
    then have *: "\<forall>v \<in> set vs. jdepth (norm_json pf v) = jdepth v \<and> floats_finite (norm_json pf v) \<and>
      ints_printable (norm_json pf v) \<and> floats_shown (norm_json pf v) \<and> dumps ea (norm_json pf v) = dumps ea v"
      by (auto simp: list_all_iff)
    then have "(\<lambda>v. jdepth (norm_json pf v)) ` set vs = jdepth ` set vs" by (auto simp: image_iff)
    with * show ?case by (auto simp: list_all_iff image_image comp_def cong: map_cong)
  next
    case (JObj d)
    then have *: "\<forall>(k, v) \<in> set d. jdepth (norm_json pf v) = jdepth v \<and> floats_finite (norm_json pf v) \<and>
      ints_printable (norm_json pf v) \<and> floats_shown (norm_json pf v) \<and> dumps ea (norm_json pf v) = dumps ea v"
      by (fastforce simp: list_all_iff)
    then have "(\<lambda>x. jdepth (norm_json pf (snd x))) ` set d = (\<lambda>x. jdepth (snd x)) ` set d"
      by (auto intro!: image_cong)
    moreover have "map (map_prod id (dumps ea)) (map (map_prod id (norm_json pf)) (sort_key fst d)) =
        map (map_prod id (dumps ea)) (sort_key fst d)" using * by auto
    then have "sort_key fst (map (map_prod id (dumps ea)) (sort_key fst (map (map_prod id (norm_json pf)) d))) =
        sort_key fst (map (map_prod id (dumps ea)) d)"
      by (simp only: sort_key_map_prod sort_key_id_if_sorted [OF sorted_sort_key])
    ultimately show ?case using * by (auto simp: list_all_iff image_image)
  qed auto
  then show "jdepth (norm_json pf v) = jdepth v" "floats_finite (norm_json pf v)" "ints_printable (norm_json pf v)"
    "floats_shown (norm_json pf v)" "dumps ea (norm_json pf v) = dumps ea v" by blast+
qed

lemma decode_bytes:
  assumes "json_ok v" "floats_reparse pf v" "canonical v mb md = Inr b" "limits_valid mb' md" "int (length b) \<le> mb'"
  shows "decode_json pf b mb' md = Inr (norm_json pf v)"
proof -
  note c = canonical_okD [OF assms(3)] and m = norm_measures [OF assms(1,2)]
  have "scans_through md 0 (dumps False v)" using scans_value [OF assms(1)] c(3) by simp
  from spec [OF this [unfolded scans_through_def], of "[]"]
  have "depth_scan md (utf8 (dumps False v)) (at_depth 0) = Inr (at_depth 0)" by simp
  moreover have "canonical (norm_json pf v) (mb' * 6) md = Inr b"
    using canonical_okI [OF m(4), of "mb' * 6" md] m c assms(4,5) by (auto simp: limits_valid_def)
  ultimately show ?thesis
    using loads_dumps [OF strict_hooks_keep assms(1), of pf False] c assms(4,5)
    by (simp add: decode_json_def utf8_decode_utf8)
qed

text \<open>
  What is canonically encoded decodes: \<^verbatim>\<open>decode_json\<close> with the same limits accepts the canonical
  bytes of a well-formed value and returns the value with its keys sorted; the byte-level
  nesting check never refuses it, and no duplicate key or size error is raised.
\<close>

theorem decode_canonical:
  assumes "json_ok v" "floats_reparse pf v" "canonical v mb md = Inr b"
  shows "decode_json pf b mb md = Inr (norm_json pf v)"
  using decode_bytes [OF assms] canonical_okD [OF assms(3)] by blast

theorem decode_canonical_witness:
  "let v = JObj [(''b'', JList [JInt 10, JStr ''}'']), (''a'', JBool True)] in
   decode_json (\<lambda>_. NanF) (utf8 (dumps False v)) 100 2 = Inr (JObj [(''a'', JBool True), (''b'', JList [JInt 10, JStr ''}''])])"
proof -
  let ?v = "JObj [(''b'', JList [JInt 10, JStr ''}'']), (''a'', JBool True)]"
  have j: "json_ok ?v" by (simp add: MAX_INT_DIGITS_def nat_text.simps)
  have f: "floats_reparse (\<lambda>_. NanF) ?v" by simp
  have c: "canonical ?v 100 2 = Inr (utf8 (dumps False ?v))" by code_simp
  have n: "norm_json (\<lambda>_. NanF) ?v = JObj [(''a'', JBool True), (''b'', JList [JInt 10, JStr ''}''])]" by simp
  from decode_canonical [OF j f c] n show ?thesis by (simp only: Let_def)
qed

end
