(* ===== verification/Schema.thy ===== *)
theory Schema
  imports Canonical_Props
begin

text \<open>
  \<^verbatim>\<open>cops/evidence/validation.py\<close>: the small JSON Schema vocabulary (\<open>check_schema\<close> is \<^verbatim>\<open>_check\<close>), and the
  rules for evidence envelopes and acquisition receipts.

  A schema is itself a JSON value. The published schemas are well typed (\<^verbatim>\<open>type\<close> is a known name or a list
  of them, \<^verbatim>\<open>required\<close> a list of strings, lengths integers); on a keyword of another shape, where
  Python would raise \<^verbatim>\<open>TypeError\<close> or \<^verbatim>\<open>KeyError\<close>, the accessors below treat the keyword as absent.
  The world outside the module is a parameter: \<open>re_search pattern text\<close>, the files of the schema
  directory \<open>schemas\<close>, and \<open>sha\<close>.
\<close>

section \<open>Reading a schema\<close>

definition KINDS :: "string list" where
  "KINDS = [''object'', ''array'', ''string'', ''integer'', ''number'', ''boolean'', ''null'']"

fun has_kind :: "json \<Rightarrow> string \<Rightarrow> bool" where
  "has_kind (JObj d) t = (t = ''object'')"
| "has_kind (JList vs) t = (t = ''array'')"
| "has_kind (JStr s) t = (t = ''string'')"
| "has_kind (JInt i) t = (t = ''integer'' \<or> t = ''number'')"
| "has_kind (JFloat f) t = (t = ''number'')"
| "has_kind (JBool b) t = (t = ''boolean'')"
| "has_kind JNull t = (t = ''null'')"

definition str_items :: "json list \<Rightarrow> string list" where
  "str_items vs = concat (map (\<lambda>v. case v of JStr s \<Rightarrow> [s] | _ \<Rightarrow> []) vs)"

definition schema_types :: "dict \<Rightarrow> string list" where
  "schema_types schema = (case dict_get schema ''type'' of
       Some (JStr t) \<Rightarrow> [t]
     | Some (JList ts) \<Rightarrow> str_items ts
     | _ \<Rightarrow> KINDS)"

definition schema_obj :: "dict \<Rightarrow> string \<Rightarrow> dict" where
  "schema_obj schema k = (case dict_get schema k of Some (JObj d) \<Rightarrow> d | _ \<Rightarrow> [])"

definition schema_strings :: "dict \<Rightarrow> string \<Rightarrow> string list" where
  "schema_strings schema k = (case dict_get schema k of Some (JList vs) \<Rightarrow> str_items vs | _ \<Rightarrow> [])"

definition schema_int :: "dict \<Rightarrow> string \<Rightarrow> int \<Rightarrow> int" where
  "schema_int schema k dflt = (case dict_get schema k of Some (JInt i) \<Rightarrow> i | _ \<Rightarrow> dflt)"

definition schema_num :: "dict \<Rightarrow> string \<Rightarrow> json \<Rightarrow> json" where
  "schema_num schema k dflt = (case dict_get schema k of
       Some (JInt i) \<Rightarrow> JInt i | Some (JFloat f) \<Rightarrow> JFloat f | _ \<Rightarrow> dflt)"

text \<open>The order of Python numbers: NaN is below and above nothing.\<close>

definition num_rank :: "json \<Rightarrow> (int \<times> rat) option" where
  "num_rank v = (case v of
       JFloat NanF \<Rightarrow> None
     | JFloat (InfF neg) \<Rightarrow> Some (if neg then - 1 else 1, 0)
     | _ \<Rightarrow> map_option (\<lambda>r. (0, r)) (num_val v))"

definition num_lt :: "json \<Rightarrow> json \<Rightarrow> bool" where
  "num_lt a b = (case (num_rank a, num_rank b) of
       (Some (s, x), Some (t, y)) \<Rightarrow> s < t \<or> s = t \<and> x < y
     | _ \<Rightarrow> False)"

abbreviation invalid_contract :: "(evidence_error, 'a) result" where
  "invalid_contract \<equiv> Inl (EvidenceError ''invalid_contract'')"

section \<open>The check\<close>

text \<open>\<^verbatim>\<open>len({canonical(v) for v in value}) != len(value)\<close>\<close>

definition all_unique :: "json list \<Rightarrow> (evidence_error, bool) result" where
  "all_unique vs = bindE (mapE (\<lambda>v. canonical v DEFAULT_BYTES DEFAULT_DEPTH) vs) (\<lambda>bs. Inr (distinct bs))"

definition check_kind :: "json \<Rightarrow> dict \<Rightarrow> (evidence_error, unit) result" where
  "check_kind value schema =
     bindE (guardE (list_ex (has_kind value) (schema_types schema)) (EvidenceError ''invalid_contract'')) (\<lambda>_.
     bindE (guardE (case dict_get schema ''const'' of None \<Rightarrow> True | Some c \<Rightarrow> py_eq value c)
              (EvidenceError ''unsupported_version'')) (\<lambda>_.
     guardE (case dict_get schema ''enum'' of
               Some (JList es) \<Rightarrow> list_ex (\<lambda>e. py_eq e value) es
             | _ \<Rightarrow> True) (EvidenceError ''invalid_contract'')))"

definition check_string :: "(string \<Rightarrow> string \<Rightarrow> bool) \<Rightarrow> string \<Rightarrow> dict \<Rightarrow> (evidence_error, unit) result" where
  "check_string re_search s schema =
     bindE (guardE (schema_int schema ''minLength'' 0 \<le> int (length s) \<and> int (length s) \<le> schema_int schema ''maxLength'' 1048576)
              (EvidenceError ''payload_limit'')) (\<lambda>_.
     bindE (guardE (case get_str schema ''pattern'' of None \<Rightarrow> True | Some p \<Rightarrow> re_search p s)
              (EvidenceError ''invalid_contract'')) (\<lambda>_.
     if get_str schema ''format'' = Some ''date-time'' then bindE (timestamp (JStr s)) (\<lambda>_. Inr ()) else Inr ()))"

definition check_number :: "json \<Rightarrow> dict \<Rightarrow> (evidence_error, unit) result" where
  "check_number v schema =
     guardE (\<not> (num_lt v (schema_num schema ''minimum'' (JInt 0)) \<or> num_lt (schema_num schema ''maximum'' (JInt (2 ^ 53))) v))
       (EvidenceError ''invalid_contract'')"

definition check_object_keys :: "dict \<Rightarrow> dict \<Rightarrow> (evidence_error, unit) result" where
  "check_object_keys d schema =
     bindE (guardE (list_all (\<lambda>k. k \<in> dict_keys d) (schema_strings schema ''required'')) (EvidenceError ''missing_provenance'')) (\<lambda>_.
     guardE (\<not> (dict_get schema ''additionalProperties'' = Some (JBool False) \<and>
               \<not> list_all (\<lambda>(k, v). k \<in> dict_keys (schema_obj schema ''properties'')) d))
       (EvidenceError ''invalid_contract''))"

definition check_list_shape :: "json list \<Rightarrow> dict \<Rightarrow> (evidence_error, unit) result" where
  "check_list_shape vs schema =
     bindE (guardE (schema_int schema ''minItems'' 0 \<le> int (length vs) \<and> int (length vs) \<le> schema_int schema ''maxItems'' 10000)
              (EvidenceError ''payload_limit'')) (\<lambda>_.
     if dict_get schema ''uniqueItems'' = Some (JBool True)
     then bindE (all_unique vs) (\<lambda>u. guardE u (EvidenceError ''invalid_contract''))
     else Inr ())"

text \<open>A property's own schema; a schema that is not a dictionary constrains nothing.\<close>

definition sub_schema :: "json \<Rightarrow> dict" where
  "sub_schema v = (case v of JObj d \<Rightarrow> d | _ \<Rightarrow> [])"

fun seqE :: "(evidence_error, unit) result list \<Rightarrow> (evidence_error, unit) result" where
  "seqE [] = Inr ()"
| "seqE (r # rs) = bindE r (\<lambda>_. seqE rs)"

primrec check_schema :: "(string \<Rightarrow> string \<Rightarrow> bool) \<Rightarrow> json \<Rightarrow> dict \<Rightarrow> (evidence_error, unit) result" where
  "check_schema re JNull schema = check_kind JNull schema"
| "check_schema re (JBool b) schema = check_kind (JBool b) schema"
| "check_schema re (JInt i) schema =
     bindE (check_kind (JInt i) schema) (\<lambda>_. check_number (JInt i) schema)"
| "check_schema re (JFloat f) schema =
     bindE (check_kind (JFloat f) schema) (\<lambda>_. check_number (JFloat f) schema)"
| "check_schema re (JStr s) schema =
     bindE (check_kind (JStr s) schema) (\<lambda>_. check_string re s schema)"
| "check_schema re (JList vs) schema =
     bindE (check_kind (JList vs) schema) (\<lambda>_.
     bindE (check_list_shape vs schema) (\<lambda>_.
       seqE (map (\<lambda>c. c (schema_obj schema ''items'')) (map (check_schema re) vs))))"
| "check_schema re (JObj d) schema =
     bindE (check_kind (JObj d) schema) (\<lambda>_.
     bindE (check_object_keys d schema) (\<lambda>_.
       seqE (map (\<lambda>(k, c).
           case dict_get (schema_obj schema ''properties'') k of None \<Rightarrow> Inr () | Some s \<Rightarrow> c (sub_schema s))
         (map (map_prod id (check_schema re)) d))))"

section \<open>Documents\<close>

type_synonym schema_files = "string \<Rightarrow> json option"

definition validate_document ::
  "(string \<Rightarrow> string \<Rightarrow> bool) \<Rightarrow> schema_files \<Rightarrow> json \<Rightarrow> string \<Rightarrow> int \<Rightarrow> int \<Rightarrow> (evidence_error, unit) result" where
  "validate_document re schemas document schema_name max_bytes max_depth =
     bindE (canonical document max_bytes max_depth) (\<lambda>_.
     case schemas schema_name of
       None \<Rightarrow> Inl (FileNotFound schema_name)
     | Some schema \<Rightarrow> check_schema re document (sub_schema schema))"

definition item :: "json \<Rightarrow> string \<Rightarrow> (evidence_error, json) result" where
  "item v k = (case v of
       JObj d \<Rightarrow> (case dict_get d k of None \<Rightarrow> Inl (KeyError k) | Some x \<Rightarrow> Inr x)
     | _ \<Rightarrow> Inl ValueTypeError)"

definition item2 :: "json \<Rightarrow> string \<Rightarrow> string \<Rightarrow> (evidence_error, json) result" where
  "item2 v j k = bindE (item v j) (\<lambda>x. item x k)"

text \<open>\<^verbatim>\<open>sorted(scope) == scope\<close> for a list of strings.\<close>

definition sorted_scope :: "json \<Rightarrow> (evidence_error, bool) result" where
  "sorted_scope v = (case v of
       JList vs \<Rightarrow> if list_all (\<lambda>x. case x of JStr _ \<Rightarrow> True | _ \<Rightarrow> False) vs then Inr (sorted (str_items vs)) else Inl ValueTypeError
     | _ \<Rightarrow> Inl ValueTypeError)"

text \<open>A value and the reason it is unknown: exactly one of the two is present.\<close>

definition one_known :: "json \<Rightarrow> string \<Rightarrow> (evidence_error, unit) result" where
  "one_known v k =
     bindE (item v k) (\<lambda>x. bindE (item v ''unknown_reason'') (\<lambda>why.
       guardE ((x = JNull) = (why \<noteq> JNull)) (EvidenceError ''missing_provenance'')))"

definition without_key :: "string \<Rightarrow> dict \<Rightarrow> dict" where
  "without_key k d = filter (\<lambda>(k', v). k' \<noteq> k) d"

definition obj_items :: "json \<Rightarrow> (evidence_error, dict) result" where
  "obj_items v = (case v of JObj d \<Rightarrow> Inr d | _ \<Rightarrow> Inl ValueTypeError)"

definition record_identity ::
  "(nat list \<Rightarrow> string) \<Rightarrow> json \<Rightarrow> int \<Rightarrow> int \<Rightarrow> (evidence_error, json) result" where
  "record_identity sha it max_bytes max_depth =
     bindE (item2 it ''source'' ''product'') (\<lambda>product.
     bindE (item2 it ''source'' ''tenant'') (\<lambda>tenant.
     bindE (item2 it ''source'' ''scope'') (\<lambda>scope.
     bindE (item2 it ''source'' ''identity'') (\<lambda>identity.
     bindE (item2 it ''source'' ''version'') (\<lambda>version.
     bindE (item it ''payload'') (\<lambda>payload.
     bindE (digest sha payload max_bytes max_depth) (\<lambda>h.
       Inr (JList [JStr ''cops.record/v1'', product, tenant, scope, identity, version, JStr h]))))))))"

definition validate_envelope ::
  "(string \<Rightarrow> string \<Rightarrow> bool) \<Rightarrow> schema_files \<Rightarrow> (nat list \<Rightarrow> string) \<Rightarrow> json \<Rightarrow> int \<Rightarrow> int \<Rightarrow> (evidence_error, json) result" where
  "validate_envelope re schemas sha it max_bytes max_depth =
     bindE (validate_document re schemas it ''evidence-envelope.schema.json'' max_bytes max_depth) (\<lambda>_.
     bindE (item it ''observed'') (\<lambda>o'. bindE (one_known o' ''at'') (\<lambda>_.
     bindE (item it ''emitted'') (\<lambda>e'. bindE (one_known e' ''at'') (\<lambda>_.
     bindE (item2 it ''source'' ''region'') (\<lambda>r. bindE (one_known r ''value'') (\<lambda>_.
     bindE (bindE (item it ''transformed_at'') timestamp) (\<lambda>t.
     bindE (bindE (item it ''acquired_at'') timestamp) (\<lambda>a.
     bindE (guardE (a \<le> t) (EvidenceError ''invalid_timestamp'')) (\<lambda>_.
     bindE (obj_items it) (\<lambda>d.
     bindE (digest sha (JObj (without_key ''content_hash'' d)) max_bytes max_depth) (\<lambda>h.
     bindE (item it ''content_hash'') (\<lambda>ch.
     bindE (guardE (ch = JStr h) (EvidenceError ''integrity_mismatch'')) (\<lambda>_.
     bindE (bindE (item2 it ''source'' ''scope'') sorted_scope) (\<lambda>so.
     bindE (guardE so (EvidenceError ''invalid_contract'')) (\<lambda>_.
     bindE (record_identity sha it max_bytes max_depth) (\<lambda>ident.
     bindE (digest sha ident max_bytes DEFAULT_DEPTH) (\<lambda>rid.
     bindE (item it ''record_id'') (\<lambda>ri.
     bindE (guardE (ri = JStr rid) (EvidenceError ''integrity_mismatch'')) (\<lambda>_.
       Inr it))))))))))))))))))))"

definition RECEIPT_BOUNDS :: "(string \<times> string) list" where
  "RECEIPT_BOUNDS = [(''pages'', ''pages''), (''attempts'', ''attempts''), (''records'', ''records''), (''bytes'', ''total_bytes''),
     (''storage_bytes'', ''storage_bytes''), (''active_seconds'', ''active_seconds'')]"

definition is_number :: "json \<Rightarrow> bool" where
  "is_number v = (case v of JInt _ \<Rightarrow> True | JFloat _ \<Rightarrow> True | JBool _ \<Rightarrow> True | _ \<Rightarrow> False)"

text \<open>\<^verbatim>\<open>any(consumed > limit)\<close>: it stops at the first counter over its limit.\<close>

fun over_bounds :: "json \<Rightarrow> (string \<times> string) list \<Rightarrow> (evidence_error, bool) result" where
  "over_bounds it [] = Inr False"
| "over_bounds it ((counter, limit) # bs) =
     bindE (item2 it ''consumed'' counter) (\<lambda>c. bindE (item2 it ''limits'' limit) (\<lambda>l.
       if \<not> is_number c \<or> \<not> is_number l then Inl ValueTypeError
       else if num_lt l c then Inr True else over_bounds it bs))"

definition truthy :: "json \<Rightarrow> bool" where
  "truthy v = (case v of
       JNull \<Rightarrow> False
     | JBool b \<Rightarrow> b
     | JInt i \<Rightarrow> i \<noteq> 0
     | JFloat f \<Rightarrow> (case f of FinF _ x \<Rightarrow> x \<noteq> 0 | _ \<Rightarrow> True)
     | JStr s \<Rightarrow> s \<noteq> []
     | JList vs \<Rightarrow> vs \<noteq> []
     | JObj d \<Rightarrow> d \<noteq> [])"

definition validate_receipt ::
  "(string \<Rightarrow> string \<Rightarrow> bool) \<Rightarrow> schema_files \<Rightarrow> json \<Rightarrow> (evidence_error, json) result" where
  "validate_receipt re schemas it =
     bindE (validate_document re schemas it ''acquisition-receipt.schema.json'' 65536 DEFAULT_DEPTH) (\<lambda>_.
     bindE (bindE (item it ''finished_at'') timestamp) (\<lambda>f.
     bindE (bindE (item it ''started_at'') timestamp) (\<lambda>s.
     bindE (guardE (s \<le> f) (EvidenceError ''invalid_timestamp'')) (\<lambda>_.
     bindE (item it ''status'') (\<lambda>status.
     bindE (item it ''reasons'') (\<lambda>reasons.
     bindE (guardE (\<not> (status = JStr ''complete'' \<and> truthy reasons)) (EvidenceError ''invalid_contract'')) (\<lambda>_.
     bindE (guardE (\<not> (status = JStr ''partial'' \<and> \<not> truthy reasons)) (EvidenceError ''invalid_contract'')) (\<lambda>_.
     bindE (over_bounds it RECEIPT_BOUNDS) (\<lambda>over.
     bindE (guardE (\<not> over) (EvidenceError ''invalid_contract'')) (\<lambda>_.
     bindE (bindE (item it ''scope'') sorted_scope) (\<lambda>so.
     bindE (guardE so (EvidenceError ''invalid_contract'')) (\<lambda>_.
       Inr it))))))))))))"

end
