(* ===== verification/Schema_Props.thy ===== *)
theory Schema_Props
  imports Schema
begin

text \<open>What an accepted document, envelope or receipt guarantees.\<close>

section \<open>Schemas\<close>

lemma seqE_ok: "seqE rs = Inr () \<longleftrightarrow> (\<forall>r \<in> set rs. r = Inr ())"
  by (induction rs) (auto simp: bindE_Inr_iff)

text \<open>
  An accepted dictionary has every required key, has no key beyond the listed properties when the
  schema closes them, and every listed property it holds was accepted by that property's own schema,
  at every level; an accepted list is within its length bounds and each element was accepted.
\<close>

theorem schema_check_sound:
  assumes "check_schema re v schema = Inr ()"
  shows "case v of
      JObj d \<Rightarrow> set (schema_strings schema ''required'') \<subseteq> dict_keys d \<and>
        (dict_get schema ''additionalProperties'' = Some (JBool False) \<longrightarrow>
           dict_keys d \<subseteq> dict_keys (schema_obj schema ''properties'')) \<and>
        (\<forall>(k, u) \<in> set d. \<forall>s. dict_get (schema_obj schema ''properties'') k = Some s \<longrightarrow>
           check_schema re u (sub_schema s) = Inr ())
    | JList vs \<Rightarrow> schema_int schema ''minItems'' 0 \<le> int (length vs) \<and> int (length vs) \<le> schema_int schema ''maxItems'' 10000 \<and>
        (\<forall>u \<in> set vs. check_schema re u (schema_obj schema ''items'') = Inr ())
    | _ \<Rightarrow> list_ex (has_kind v) (schema_types schema)"
proof (cases v)
  case (JObj d)
  with assms have *: "check_object_keys d schema = Inr ()"
    "\<forall>x \<in> set d. (case dict_get (schema_obj schema ''properties'') (fst x) of None \<Rightarrow> Inr () | Some s \<Rightarrow> check_schema re (snd x) (sub_schema s)) = Inr ()"
    by (simp_all add: bindE_Inr_iff seqE_ok split_def cong: option.case_cong)
  from *(1) have "set (schema_strings schema ''required'') \<subseteq> dict_keys d"
    "dict_get schema ''additionalProperties'' = Some (JBool False) \<longrightarrow> dict_keys d \<subseteq> dict_keys (schema_obj schema ''properties'')"
    by (auto simp: check_object_keys_def bindE_Inr_iff list_all_iff dict_keys_def)
  with *(2) show ?thesis by (fastforce simp: JObj split: option.splits)
qed (use assms in \<open>auto simp: bindE_Inr_iff seqE_ok check_kind_def check_list_shape_def\<close>)

theorem schema_check_sound_witness:
  "let schema = [(''type'', JStr ''object''), (''required'', JList [JStr ''a'']), (''additionalProperties'', JBool False),
       (''properties'', JObj [(''a'', JObj [(''type'', JStr ''integer'')])])];
     v = JObj [(''a'', JInt 3)] in
   check_schema (\<lambda>_ _. True) v schema = Inr () \<and> dict_keys [(''a'', JInt 3)] \<subseteq> dict_keys (schema_obj schema ''properties'') \<and>
   \<not> is_ok (check_schema (\<lambda>_ _. True) (JObj [(''a'', JInt 3), (''b'', JNull)]) schema)"
proof -
  let ?schema = "[(''type'', JStr ''object''), (''required'', JList [JStr ''a'']), (''additionalProperties'', JBool False),
       (''properties'', JObj [(''a'', JObj [(''type'', JStr ''integer'')])])]"
  have ok: "check_schema (\<lambda>_ _. True) (JObj [(''a'', JInt 3)]) ?schema = Inr ()"
    and no: "\<not> is_ok (check_schema (\<lambda>_ _. True) (JObj [(''a'', JInt 3), (''b'', JNull)]) ?schema)" by code_simp+
  have closed: "dict_get ?schema ''additionalProperties'' = Some (JBool False)" by simp
  from schema_check_sound [OF ok] closed ok no show ?thesis by (simp only: Let_def json.case) blast
qed

section \<open>Receipts\<close>

lemma over_bounds_False:
  "over_bounds it bs = Inr False \<Longrightarrow> (c, l) \<in> set bs \<Longrightarrow>
   \<exists>x y. item2 it ''consumed'' c = Inr x \<and> item2 it ''limits'' l = Inr y \<and> is_number x \<and> is_number y \<and> \<not> num_lt y x"
  by (induction it bs rule: over_bounds.induct) (auto simp: bindE_Inr_iff split: if_splits)

lemma validate_receiptD:
  assumes "validate_receipt re schemas it = Inr r"
  shows "r = it" "over_bounds it RECEIPT_BOUNDS = Inr False"
    "\<exists>f s. bindE (item it ''finished_at'') timestamp = Inr f \<and> bindE (item it ''started_at'') timestamp = Inr s \<and> s \<le> f"
    "\<exists>st rs. item it ''status'' = Inr st \<and> item it ''reasons'' = Inr rs \<and>
       (st = JStr ''complete'' \<longrightarrow> \<not> truthy rs) \<and> (st = JStr ''partial'' \<longrightarrow> truthy rs)"
proof -
  from assms obtain f s st rs over where *: "bindE (item it ''finished_at'') timestamp = Inr f"
    "bindE (item it ''started_at'') timestamp = Inr s" "s \<le> f" "item it ''status'' = Inr st" "item it ''reasons'' = Inr rs"
    "\<not> (st = JStr ''complete'' \<and> truthy rs)" "\<not> (st = JStr ''partial'' \<and> \<not> truthy rs)"
    "over_bounds it RECEIPT_BOUNDS = Inr over" "\<not> over" "r = it"
    unfolding validate_receipt_def bindE_Inr_iff guardE_Inr_iff by blast
  then show "r = it" "over_bounds it RECEIPT_BOUNDS = Inr False" by auto
  from * show "\<exists>f s. bindE (item it ''finished_at'') timestamp = Inr f \<and> bindE (item it ''started_at'') timestamp = Inr s \<and> s \<le> f"
    by blast
  from * show "\<exists>st rs. item it ''status'' = Inr st \<and> item it ''reasons'' = Inr rs \<and>
       (st = JStr ''complete'' \<longrightarrow> \<not> truthy rs) \<and> (st = JStr ''partial'' \<longrightarrow> truthy rs)" by blast
qed

text \<open>
  An accepted acquisition receipt is consistent: every counter it consumed (pages, attempts,
  records, bytes, storage, active seconds) is at most the limit it names, it did not finish before it
  started, a complete receipt gives no reasons and a partial one gives some.
\<close>

theorem receipt_consistent:
  assumes "validate_receipt re schemas it = Inr r"
  shows "r = it \<and>
    (\<forall>(c, l) \<in> set RECEIPT_BOUNDS. \<exists>x y. item2 it ''consumed'' c = Inr x \<and> item2 it ''limits'' l = Inr y \<and> \<not> num_lt y x) \<and>
    (\<exists>f s. bindE (item it ''finished_at'') timestamp = Inr f \<and> bindE (item it ''started_at'') timestamp = Inr s \<and> s \<le> f) \<and>
    (\<exists>st rs. item it ''status'' = Inr st \<and> item it ''reasons'' = Inr rs \<and>
       (st = JStr ''complete'' \<longrightarrow> \<not> truthy rs) \<and> (st = JStr ''partial'' \<longrightarrow> truthy rs))"
  using validate_receiptD [OF assms] over_bounds_False [of it RECEIPT_BOUNDS] by blast

definition demo_counts :: dict where
  "demo_counts = [(''pages'', JInt 1), (''attempts'', JInt 2), (''records'', JInt 3), (''bytes'', JInt 4), (''total_bytes'', JInt 9),
     (''storage_bytes'', JInt 5), (''active_seconds'', JInt 6)]"

definition demo_acquisition :: json where
  "demo_acquisition = JObj [(''consumed'', JObj demo_counts), (''limits'', JObj demo_counts),
     (''started_at'', JStr ''2024-01-01T00:00:00Z''), (''finished_at'', JStr ''2024-01-01T00:00:01.5Z''),
     (''status'', JStr ''complete''), (''reasons'', JList []), (''scope'', JList [JStr ''a'', JStr ''b''])]"

definition open_schemas :: schema_files where
  "open_schemas name = Some (JObj [])"

theorem receipt_consistent_witness:
  "validate_receipt (\<lambda>_ _. True) open_schemas demo_acquisition = Inr demo_acquisition \<and>
   (\<exists>x y. item2 demo_acquisition ''consumed'' ''bytes'' = Inr x \<and> item2 demo_acquisition ''limits'' ''total_bytes'' = Inr y \<and> \<not> num_lt y x)"
proof -
  have ok: "validate_receipt (\<lambda>_ _. True) open_schemas demo_acquisition = Inr demo_acquisition" by code_simp
  have "(''bytes'', ''total_bytes'') \<in> set RECEIPT_BOUNDS" by (simp add: RECEIPT_BOUNDS_def)
  with receipt_consistent [OF ok] ok show ?thesis by blast
qed

section \<open>Envelopes\<close>

lemma validate_envelopeD:
  assumes "validate_envelope re schemas sha it mb md = Inr r"
  shows "r = it"
    "\<exists>d b. it = JObj d \<and> canonical (JObj (without_key ''content_hash'' d)) mb md = Inr b \<and> item it ''content_hash'' = Inr (JStr (sha b))"
    "\<exists>ident b. record_identity sha it mb md = Inr ident \<and> canonical ident mb DEFAULT_DEPTH = Inr b \<and> item it ''record_id'' = Inr (JStr (sha b))"
    "\<exists>t a. bindE (item it ''transformed_at'') timestamp = Inr t \<and> bindE (item it ''acquired_at'') timestamp = Inr a \<and> a \<le> t"
proof -
  from assms obtain t a d h ch ident rid ri where *:
    "bindE (item it ''transformed_at'') timestamp = Inr t" "bindE (item it ''acquired_at'') timestamp = Inr a" "a \<le> t"
    "obj_items it = Inr d" "digest sha (JObj (without_key ''content_hash'' d)) mb md = Inr h" "item it ''content_hash'' = Inr ch" "ch = JStr h"
    "record_identity sha it mb md = Inr ident" "digest sha ident mb DEFAULT_DEPTH = Inr rid" "item it ''record_id'' = Inr ri" "ri = JStr rid" "r = it"
    unfolding validate_envelope_def bindE_Inr_iff [of "validate_document re schemas it ''evidence-envelope.schema.json'' mb md"]
    by (auto simp: bindE_Inr_iff)
  show "r = it" by (rule *(12))
  show "\<exists>t a. bindE (item it ''transformed_at'') timestamp = Inr t \<and> bindE (item it ''acquired_at'') timestamp = Inr a \<and> a \<le> t"
    using * by blast
  from *(4) have "it = JObj d" by (auto simp: obj_items_def split: json.splits)
  with *(5-7) show "\<exists>d b. it = JObj d \<and> canonical (JObj (without_key ''content_hash'' d)) mb md = Inr b \<and> item it ''content_hash'' = Inr (JStr (sha b))"
    by (auto simp: digest_def bindE_Inr_iff)
  from *(8-11) show "\<exists>ident b. record_identity sha it mb md = Inr ident \<and> canonical ident mb DEFAULT_DEPTH = Inr b \<and> item it ''record_id'' = Inr (JStr (sha b))"
    by (auto simp: digest_def bindE_Inr_iff)
qed

lemma json_ok_without: "json_ok (JObj d) \<Longrightarrow> json_ok (JObj (without_key k d))"
  by (auto simp: without_key_def list_all_iff distinct_map_filter)

lemma norm_list_eq: "norm_json pf (JList vs) = norm_json pf (JList ws) \<longleftrightarrow> map (norm_json pf) vs = map (norm_json pf) ws"
  by simp

lemma record_identityE:
  assumes "record_identity sha it mb md = Inr ident"
  obtains product tenant scope identity version payload b where
    "item2 it ''source'' ''product'' = Inr product" "item2 it ''source'' ''tenant'' = Inr tenant"
    "item2 it ''source'' ''scope'' = Inr scope" "item2 it ''source'' ''identity'' = Inr identity"
    "item2 it ''source'' ''version'' = Inr version" "item it ''payload'' = Inr payload" "canonical payload mb md = Inr b"
    "ident = JList [JStr ''cops.record/v1'', product, tenant, scope, identity, version, JStr (sha b)]"
  using assms unfolding record_identity_def digest_def by (auto simp: bindE_Inr_iff)

text \<open>
  Envelopes are tamper evident: if two envelopes are both accepted and carry the same content
  hash, and the hash function does not collide on their canonical bytes, then apart from the order of
  keys they agree on everything the hash covers, that is on every field but the hash itself.
\<close>

theorem envelope_tamper_evident:
  assumes ok: "validate_envelope re schemas sha (JObj d) mb md = Inr r" "validate_envelope re' schemas' sha (JObj d') mb' md' = Inr r'"
    and wf: "json_ok (JObj d)" "json_ok (JObj d')"
    and same: "item (JObj d) ''content_hash'' = item (JObj d') ''content_hash''"
    and coll: "\<forall>b b'. canonical (JObj (without_key ''content_hash'' d)) mb md = Inr b \<and>
      canonical (JObj (without_key ''content_hash'' d')) mb' md' = Inr b' \<and> sha b = sha b' \<longrightarrow> b = b'"
  shows "norm_json text_float (JObj (without_key ''content_hash'' d)) = norm_json text_float (JObj (without_key ''content_hash'' d'))"
proof -
  let ?u = "JObj (without_key ''content_hash'' d)" and ?u' = "JObj (without_key ''content_hash'' d')"
  from validate_envelopeD(2) [OF ok(1)] obtain b where b: "canonical ?u mb md = Inr b" "item (JObj d) ''content_hash'' = Inr (JStr (sha b))"
    by auto
  from validate_envelopeD(2) [OF ok(2)] obtain b' where b': "canonical ?u' mb' md' = Inr b'" "item (JObj d') ''content_hash'' = Inr (JStr (sha b'))"
    by auto
  from same b(2) b'(2) have "sha b = sha b'" by simp
  with coll b(1) b'(1) have "b = b'" by blast
  with canonical_okD(1) [OF b(1)] canonical_okD(1) [OF b'(1)]
  have "dumps False ?u = dumps False ?u'" by (simp only: utf8_inj)
  with dumps_eq_iff [OF json_ok_without [OF wf(1)] json_ok_without [OF wf(2)]] show ?thesis by blast
qed

text \<open>A stand-in for the hash function: the first three bytes.\<close>

definition demo_sha :: "nat list \<Rightarrow> string" where
  "demo_sha b = map char_of (take 3 b)"

definition demo_source :: dict where
  "demo_source = [(''region'', JObj [(''value'', JNull), (''unknown_reason'', JStr ''n'')]), (''scope'', JList []),
     (''product'', JNull), (''tenant'', JNull), (''identity'', JNull), (''version'', JNull)]"

definition demo_fields :: dict where
  "demo_fields = [(''observed'', JObj [(''at'', JNull), (''unknown_reason'', JStr ''n'')]),
     (''emitted'', JObj [(''at'', JStr ''e''), (''unknown_reason'', JNull)]), (''source'', JObj demo_source),
     (''transformed_at'', JStr ''2024-01-01T00:00:00Z''), (''acquired_at'', JStr ''2024-01-01T00:00:00Z''), (''payload'', JInt 7),
     (''record_id'', JStr [CHR ''['', CHR 0x22, CHR ''c''])]"

definition demo_envelope :: dict where
  "demo_envelope = demo_fields @ [(''content_hash'', JStr [CHR ''{'', CHR 0x22, CHR ''a''])]"

definition demo_envelope_reordered :: dict where
  "demo_envelope_reordered = (''content_hash'', JStr [CHR ''{'', CHR 0x22, CHR ''a'']) # demo_fields"

lemma demo_envelope_ok: "is_ok (validate_envelope (\<lambda>_ _. True) open_schemas demo_sha (JObj demo_envelope) 1000 8)"
  by code_simp

lemma demo_envelope_reordered_ok:
  "is_ok (validate_envelope (\<lambda>_ _. True) open_schemas demo_sha (JObj demo_envelope_reordered) 1000 8)"
  by code_simp

theorem envelope_tamper_evident_witness:
  "is_ok (validate_envelope (\<lambda>_ _. True) open_schemas demo_sha (JObj demo_envelope) 1000 8) \<and>
   norm_json text_float (JObj (without_key ''content_hash'' demo_envelope)) =
   norm_json text_float (JObj (without_key ''content_hash'' demo_envelope_reordered))"
proof -
  have eq: "without_key ''content_hash'' demo_envelope = demo_fields" "without_key ''content_hash'' demo_envelope_reordered = demo_fields"
    "item (JObj demo_envelope) ''content_hash'' = item (JObj demo_envelope_reordered) ''content_hash''" by code_simp+
  have wf: "json_ok (JObj demo_envelope)" "json_ok (JObj demo_envelope_reordered)"
    by (simp_all add: demo_envelope_def demo_envelope_reordered_def demo_fields_def demo_source_def MAX_INT_DIGITS_def nat_text.simps)
  obtain r r' where r: "validate_envelope (\<lambda>_ _. True) open_schemas demo_sha (JObj demo_envelope) 1000 8 = Inr r"
    "validate_envelope (\<lambda>_ _. True) open_schemas demo_sha (JObj demo_envelope_reordered) 1000 8 = Inr r'"
    using demo_envelope_ok demo_envelope_reordered_ok by (auto simp: is_ok_iff)
  from envelope_tamper_evident [OF r wf eq(3)] demo_envelope_ok eq(1,2) show ?thesis by auto
qed

end
