(* ===== verification/Contracts.thy ===== *)
theory Contracts
  imports Schema Lifecycle
begin

text \<open>
  \<^verbatim>\<open>cops/contracts/validation.py\<close>: identifiers, digests and the rules of the operational contracts.

  The contract type is the datatype \<open>contract_kind\<close>, one constructor per name in \<^verbatim>\<open>TYPE_MAP\<close>;
  \<open>kind_name\<close> gives the name. The branches for reports, detection and retest documents call the
  reporting package; \<open>semantics\<close> is what those validators do (\<open>Some message\<close> is a \<^verbatim>\<open>ReportError\<close>).
  Messages that print the Python representation of an arbitrary value keep their fixed part only.
\<close>

section \<open>Identifiers\<close>

datatype contract_kind =
    Engagement_k
  | Scenario_k
  | Action_plan_k
  | Run_result_k
  | Finding_k
  | Execution_authorization_k
  | Cleanup_receipt_k
  | Specialist_handoff_k
  | Laboratory_environment_k
  | Assessment_report_k
  | Assessment_input_k
  | Detection_validation_input_k
  | Detection_validation_report_k
  | Retest_input_k
  | Retest_report_k
  | Laboratory_retest_evidence_k

fun kind_name :: "contract_kind \<Rightarrow> string" where
  "kind_name Engagement_k = ''engagement''"
| "kind_name Scenario_k = ''scenario''"
| "kind_name Action_plan_k = ''action_plan''"
| "kind_name Run_result_k = ''run_result''"
| "kind_name Finding_k = ''finding''"
| "kind_name Execution_authorization_k = ''execution_authorization''"
| "kind_name Cleanup_receipt_k = ''cleanup_receipt''"
| "kind_name Specialist_handoff_k = ''specialist_handoff''"
| "kind_name Laboratory_environment_k = ''laboratory_environment''"
| "kind_name Assessment_report_k = ''assessment_report''"
| "kind_name Assessment_input_k = ''assessment_input''"
| "kind_name Detection_validation_input_k = ''detection_validation_input''"
| "kind_name Detection_validation_report_k = ''detection_validation_report''"
| "kind_name Retest_input_k = ''retest_input''"
| "kind_name Retest_report_k = ''retest_report''"
| "kind_name Laboratory_retest_evidence_k = ''laboratory_retest_evidence''"

text \<open>The classes \<^verbatim>\<open>[a-z0-9_-]\<close>, \<^verbatim>\<open>[A-Z0-9_.-]\<close> and \<^verbatim>\<open>[A-Za-z0-9_-]\<close>.\<close>

definition slug_char :: "char \<Rightarrow> bool" where
  "slug_char c \<longleftrightarrow> is_lower c \<or> is_digit c \<or> c = CHR ''_'' \<or> c = CHR ''-''"

definition family_char :: "char \<Rightarrow> bool" where
  "family_char c \<longleftrightarrow> is_upper c \<or> is_digit c \<or> c \<in> {CHR ''_'', CHR ''.'', CHR ''-''}"

definition word_char :: "char \<Rightarrow> bool" where
  "word_char c \<longleftrightarrow> is_alnum_ascii c \<or> c = CHR ''_'' \<or> c = CHR ''-''"

definition slug_after :: "string \<Rightarrow> nat \<Rightarrow> string \<Rightarrow> bool" where
  "slug_after p lo s =
     (let rest = drop (length p) s in prefix p s \<and> list_all slug_char rest \<and> lo \<le> length rest \<and> length rest \<le> 64)"

definition family_id :: "string \<Rightarrow> bool" where
  "family_id s = (let rest = drop 5 s in prefix ''COPS-'' s \<and> rest \<noteq> [] \<and> list_all family_char rest)"

definition free_id :: "string \<Rightarrow> bool" where
  "free_id s \<longleftrightarrow> s \<noteq> [] \<and> is_alnum_ascii (hd s) \<and> list_all word_char (tl s) \<and> length s \<le> 128"

text \<open>\<open>None\<close>: \<^verbatim>\<open>IDENTIFIER_PATTERNS\<close> has no entry for the kind.\<close>

fun IDENTIFIER_PATTERNS :: "contract_kind \<Rightarrow> (string \<Rightarrow> bool) option" where
  "IDENTIFIER_PATTERNS Engagement_k = Some (slug_after ''eng-'' 4)"
| "IDENTIFIER_PATTERNS Scenario_k = Some (\<lambda>s. slug_after ''scen-'' 4 s \<or> family_id s)"
| "IDENTIFIER_PATTERNS Action_plan_k = Some (slug_after ''plan-'' 4)"
| "IDENTIFIER_PATTERNS Run_result_k = Some (slug_after ''res-'' 4)"
| "IDENTIFIER_PATTERNS Finding_k = Some (slug_after ''find-'' 4)"
| "IDENTIFIER_PATTERNS Execution_authorization_k = Some (slug_after ''auth-'' 8)"
| "IDENTIFIER_PATTERNS Cleanup_receipt_k = Some (slug_after ''cln-'' 4)"
| "IDENTIFIER_PATTERNS Specialist_handoff_k = Some (slug_after ''hnd-'' 4)"
| "IDENTIFIER_PATTERNS Laboratory_environment_k = Some (slug_after ''env-lab-'' 4)"
| "IDENTIFIER_PATTERNS Assessment_report_k = Some (slug_after ''report-'' 4)"
| "IDENTIFIER_PATTERNS Assessment_input_k = Some (slug_after ''report-'' 4)"
| "IDENTIFIER_PATTERNS Detection_validation_input_k = Some free_id"
| "IDENTIFIER_PATTERNS Detection_validation_report_k = Some free_id"
| "IDENTIFIER_PATTERNS Retest_input_k = Some (slug_after ''retest-'' 4)"
| "IDENTIFIER_PATTERNS Retest_report_k = Some (slug_after ''retest-'' 4)"
| "IDENTIFIER_PATTERNS Laboratory_retest_evidence_k = None"

definition SCHEMA_MAP :: "(string \<times> contract_kind \<times> string) list" where
  "SCHEMA_MAP = [
     (''cops.engagement/v1'', Engagement_k, ''engagement-contract.schema.json''),
     (''cops.scenario/v1'', Scenario_k, ''scenario-contract.schema.json''),
     (''cops.action-plan/v1'', Action_plan_k, ''action-plan.schema.json''),
     (''cops.run-result/v1'', Run_result_k, ''run-result.schema.json''),
     (''cops.finding/v1'', Finding_k, ''finding-contract.schema.json''),
     (''cops.execution-authorization/v1'', Execution_authorization_k, ''execution-authorization.schema.json''),
     (''cops.cleanup-receipt/v1'', Cleanup_receipt_k, ''cleanup-receipt.schema.json''),
     (''cops.cleanup-receipt/v2'', Cleanup_receipt_k, ''cleanup-receipt-v2.schema.json''),
     (''cops.specialist-handoff/v1'', Specialist_handoff_k, ''specialist-handoff.schema.json''),
     (''cops.laboratory-environment/v1'', Laboratory_environment_k, ''laboratory-environment.schema.json''),
     (''cops.assessment-report/v1'', Assessment_report_k, ''assessment-report.schema.json''),
     (''cops.assessment-input/v1'', Assessment_input_k, ''assessment-input.schema.json''),
     (''cops.detection-validation-input/v1'', Detection_validation_input_k, ''detection-validation-input.schema.json''),
     (''cops.detection-validation-report/v1'', Detection_validation_report_k, ''detection-validation-report.schema.json''),
     (''cops.retest-input/v1'', Retest_input_k, ''retest-input.schema.json''),
     (''cops.retest-report/v1'', Retest_report_k, ''retest-report.schema.json''),
     (''cops.laboratory-retest-evidence/v1'', Laboratory_retest_evidence_k, ''laboratory-retest-evidence.schema.json'')]"

text \<open>A contract is refused with a \<open>ContractError\<close>; the readers it calls raise their own errors.\<close>

datatype contract_exc = Contract contract_error | Evidence evidence_error

abbreviation refuse :: "string \<Rightarrow> string \<Rightarrow> (contract_exc, 'a) result" where
  "refuse code message \<equiv> Inl (Contract (ContractError code message))"

definition liftE :: "(evidence_error, 'a) result \<Rightarrow> (contract_exc, 'a) result" where
  "liftE r = (case r of Inl e \<Rightarrow> Inl (Evidence e) | Inr a \<Rightarrow> Inr a)"

text \<open>\<^verbatim>\<open>except EvidenceError\<close>: the error is re-raised as a \<open>ContractError\<close> with the same code.\<close>

definition wrapE :: "string \<Rightarrow> (evidence_error, 'a) result \<Rightarrow> (contract_exc, 'a) result" where
  "wrapE what r = (case r of
       Inl (EvidenceError code) \<Rightarrow> refuse code (what @ '': '' @ code)
     | Inl e \<Rightarrow> Inl (Evidence e)
     | Inr a \<Rightarrow> Inr a)"

definition validate_identifier :: "json \<Rightarrow> contract_kind \<Rightarrow> (contract_exc, unit) result" where
  "validate_identifier identifier' kind =
     (case identifier' of
        JStr s \<Rightarrow>
          (case IDENTIFIER_PATTERNS kind of
             None \<Rightarrow> refuse ''invalid_contract'' (''unknown identifier kind: '' @ kind_name kind)
           | Some pattern \<Rightarrow>
               if pattern s then Inr ()
               else refuse ''malformed_identifier''
                 (''identifier '' @ quoted s @ '' does not match required pattern for '' @ kind_name kind))
      | _ \<Rightarrow> refuse ''malformed_identifier'' ''identifier must be a string'')"

section \<open>Digests and results\<close>

definition build_action_plan_digest :: "(nat list \<Rightarrow> string) \<Rightarrow> dict \<Rightarrow> int \<Rightarrow> (evidence_error, string) result" where
  "build_action_plan_digest sha snapshot max_bytes = digest sha (JObj snapshot) max_bytes DEFAULT_DEPTH"

definition workflow_target_checksum :: "(nat list \<Rightarrow> string) \<Rightarrow> json \<Rightarrow> (evidence_error, string) result" where
  "workflow_target_checksum sha target =
     bindE (digest sha target DEFAULT_BYTES DEFAULT_DEPTH) (\<lambda>h. Inr (''sha256:'' @ h))"

definition evaluate_run_result :: "dict \<Rightarrow> bool" where
  "evaluate_run_result result \<longleftrightarrow> dict_get result ''status'' = Some (JStr ''success'')"

section \<open>Rules shared by the contract types\<close>

text \<open>\<^verbatim>\<open>str.lower()\<close> on the code points below 256.\<close>

definition lower_char :: "char \<Rightarrow> char" where
  "lower_char c = (let k = (of_char c :: nat) in
     if 65 \<le> k \<and> k \<le> 90 \<or> 192 \<le> k \<and> k \<le> 222 \<and> k \<noteq> 215 then char_of (k + 32) else c)"

definition contains :: "string \<Rightarrow> string \<Rightarrow> bool" where
  "contains needle hay = list_ex (prefix needle) (suffixes hay)"

definition SECRET_MARKERS :: "string list" where
  "SECRET_MARKERS = [''bearer '', ''ghp_'', ''eyj'', ''pass'']"

definition leaks_credential :: "string \<Rightarrow> bool" where
  "leaks_credential ref = list_ex (\<lambda>m. contains m (map lower_char ref)) SECRET_MARKERS"

fun check_references :: "json list \<Rightarrow> (contract_exc, unit) result" where
  "check_references [] = Inr ()"
| "check_references (ref # refs) =
     (case ref of
        JStr s \<Rightarrow>
          if leaks_credential s then refuse ''credential_leak_detected'' ''raw credential detected in credential_references''
          else check_references refs
      | _ \<Rightarrow> Inl (Evidence ValueTypeError))"

text \<open>\<^verbatim>\<open>for x in v\<close>: the elements of a list, the keys of a dictionary, the characters of a string.\<close>

definition iter_items :: "json \<Rightarrow> (contract_exc, json list) result" where
  "iter_items v = (case v of
       JList vs \<Rightarrow> Inr vs
     | JObj d \<Rightarrow> Inr (map (\<lambda>(k, _). JStr k) d)
     | JStr s \<Rightarrow> Inr (map (\<lambda>c. JStr [c]) s)
     | _ \<Rightarrow> Inl (Evidence ValueTypeError))"

definition credential_references_ok :: "dict \<Rightarrow> (contract_exc, unit) result" where
  "credential_references_ok doc =
     (case dict_get doc ''credential_references'' of
        None \<Rightarrow> Inr ()
      | Some v \<Rightarrow> bindE (iter_items v) check_references)"

definition field :: "dict \<Rightarrow> string \<Rightarrow> (contract_exc, json) result" where
  "field doc k = liftE (item (JObj doc) k)"

definition check_id :: "dict \<Rightarrow> string \<Rightarrow> contract_kind \<Rightarrow> (contract_exc, unit) result" where
  "check_id doc k kind = bindE (field doc k) (\<lambda>v. validate_identifier v kind)"

definition time_of :: "(contract_exc, json) result \<Rightarrow> (contract_exc, int) result" where
  "time_of v = bindE v (\<lambda>x. liftE (timestamp x))"

definition check_order :: "(contract_exc, json) result \<Rightarrow> (contract_exc, json) result \<Rightarrow> string \<Rightarrow> (contract_exc, unit) result" where
  "check_order first' last' message =
     bindE (time_of first') (\<lambda>a. bindE (time_of last') (\<lambda>b.
       if b < a then refuse ''invalid_timestamp'' message else Inr ()))"

definition truthy_field :: "dict \<Rightarrow> string \<Rightarrow> bool" where
  "truthy_field doc k = (case dict_get doc k of None \<Rightarrow> False | Some v \<Rightarrow> truthy v)"

definition is_py_space :: "char \<Rightarrow> bool" where
  "is_py_space c \<longleftrightarrow> (let k = (of_char c :: nat) in 9 \<le> k \<and> k \<le> 13 \<or> 28 \<le> k \<and> k \<le> 32 \<or> k = 133 \<or> k = 160)"

definition status_reason_given :: "dict \<Rightarrow> (contract_exc, bool) result" where
  "status_reason_given doc =
     (case dict_get doc ''status_details'' of
        None \<Rightarrow> Inr False
      | Some (JObj d) \<Rightarrow>
          Inr (case dict_get d ''reason'' of Some (JStr s) \<Rightarrow> \<not> list_all is_py_space s | _ \<Rightarrow> False)
      | Some _ \<Rightarrow> Inl (Evidence ValueTypeError))"

text \<open>Membership in a frozen set of strings needs a hashable value.\<close>

definition in_names :: "json \<Rightarrow> string list \<Rightarrow> (contract_exc, bool) result" where
  "in_names v names = (case v of
       JStr s \<Rightarrow> Inr (s \<in> set names)
     | JList _ \<Rightarrow> Inl (Evidence ValueTypeError)
     | JObj _ \<Rightarrow> Inl (Evidence ValueTypeError)
     | _ \<Rightarrow> Inr False)"

definition obj_get :: "json \<Rightarrow> string \<Rightarrow> (contract_exc, json option) result" where
  "obj_get v k = (case v of JObj d \<Rightarrow> Inr (dict_get d k) | _ \<Rightarrow> Inl (Evidence ValueTypeError))"

section \<open>The rules of each contract type\<close>

definition engagement_rules :: "dict \<Rightarrow> (contract_exc, unit) result" where
  "engagement_rules doc =
     bindE (check_id doc ''engagement_id'' Engagement_k) (\<lambda>_.
     bindE (check_order (liftE (item2 (JObj doc) ''window'' ''started_at''))
              (liftE (item2 (JObj doc) ''window'' ''authorized_until_utc''))
              ''window.authorized_until_utc cannot precede window.started_at'') (\<lambda>_.
     credential_references_ok doc))"

definition scenario_rules :: "dict \<Rightarrow> (contract_exc, unit) result" where
  "scenario_rules doc =
     bindE (check_id doc ''scenario_id'' Scenario_k) (\<lambda>_.
     bindE (field doc ''family_id'') (\<lambda>v.
     case v of
       JStr s \<Rightarrow> if family_id s then Inr () else refuse ''malformed_identifier'' (''invalid family_id: '' @ s)
     | _ \<Rightarrow> Inl (Evidence ValueTypeError)))"

definition action_plan_rules :: "(nat list \<Rightarrow> string) \<Rightarrow> dict \<Rightarrow> int \<Rightarrow> (contract_exc, unit) result" where
  "action_plan_rules sha doc max_bytes =
     bindE (check_id doc ''plan_id'' Action_plan_k) (\<lambda>_.
     bindE (check_id doc ''engagement_id'' Engagement_k) (\<lambda>_.
     bindE (check_id doc ''scenario_id'' Scenario_k) (\<lambda>_.
     bindE (credential_references_ok doc) (\<lambda>_.
     bindE (liftE (build_action_plan_digest sha (without_key ''status'' (without_key ''plan_digest'' doc)) max_bytes)) (\<lambda>expected.
     bindE (field doc ''plan_digest'') (\<lambda>v.
       if v = JStr expected then Inr ()
       else refuse ''integrity_mismatch'' (''plan_digest mismatch: expected '' @ expected)))))))"

definition execution_authorization_rules :: "dict \<Rightarrow> (contract_exc, unit) result" where
  "execution_authorization_rules doc =
     bindE (check_id doc ''authorization_id'' Execution_authorization_k) (\<lambda>_.
     bindE (check_id doc ''action_plan_id'' Action_plan_k) (\<lambda>_.
     bindE (check_id doc ''engagement_id'' Engagement_k) (\<lambda>_.
     bindE (check_order (field doc ''issued_at'') (field doc ''authorized_until_utc'')
              ''authorized_until_utc cannot precede issued_at'') (\<lambda>_.
       if get_str doc ''status'' = Some ''consumed'' \<and> \<not> (truthy_field doc ''consumed_at'' \<and> truthy_field doc ''consumed_by_worker'')
       then refuse ''missing_consumption_metadata'' (''status '' @ quoted ''consumed'' @ '' requires consumed_at and consumed_by_worker'')
       else Inr ()))))"

definition run_result_rules :: "dict \<Rightarrow> (contract_exc, unit) result" where
  "run_result_rules doc =
     bindE (check_id doc ''result_id'' Run_result_k) (\<lambda>_.
     bindE (check_id doc ''plan_id'' Action_plan_k) (\<lambda>_.
     bindE (check_id doc ''engagement_id'' Engagement_k) (\<lambda>_.
     bindE (check_order (field doc ''started_at'') (field doc ''finished_at'') ''finished_at cannot precede started_at'') (\<lambda>_.
     bindE (field doc ''status'') (\<lambda>status.
     bindE (in_names status RUN_RESULT_STATUSES) (\<lambda>known.
       if \<not> known then refuse ''invalid_contract'' ''unknown run result status: ''
       else if status = JStr ''success'' then Inr ()
       else bindE (status_reason_given doc) (\<lambda>given.
         if given then Inr ()
         else refuse ''missing_reason'' ''non-success status requires an explicit, non-empty status_details.reason'')))))))"

definition finding_rules :: "dict \<Rightarrow> (contract_exc, unit) result" where
  "finding_rules doc =
     bindE (check_id doc ''finding_id'' Finding_k) (\<lambda>_.
     bindE (check_id doc ''engagement_id'' Engagement_k) (\<lambda>_.
     bindE (check_id doc ''result_id'' Run_result_k) (\<lambda>_.
     bindE (check_id doc ''scenario_id'' Scenario_k) (\<lambda>_.
     bindE (field doc ''verification'') (\<lambda>v.
       if v = JStr ''verified'' \<and> \<not> truthy_field doc ''evidence_references''
       then refuse ''missing_evidence_reference'' ''a verified finding must reference at least one evidence envelope record''
       else Inr ())))))"

definition cleanup_receipt_rules :: "dict \<Rightarrow> (contract_exc, unit) result" where
  "cleanup_receipt_rules doc =
     bindE (check_id doc ''receipt_id'' Cleanup_receipt_k) (\<lambda>_.
     bindE (check_id doc ''plan_id'' Action_plan_k) (\<lambda>_.
     bindE (check_id doc ''engagement_id'' Engagement_k) (\<lambda>_.
     bindE (check_order (field doc ''created_at'') (field doc ''completed_at'') ''completed_at cannot precede created_at'') (\<lambda>_.
     bindE (field doc ''status'') (\<lambda>status.
       if status = JStr ''failed'' \<and> \<not> truthy_field doc ''unresolved_effects''
       then refuse ''missing_unresolved_effects''
         (''a cleanup_receipt with status '' @ quoted ''failed'' @ '' must report unresolved_effects'')
       else Inr ())))))"

definition resolved_target :: "json option \<Rightarrow> bool" where
  "resolved_target t = (case t of
       Some (JObj d) \<Rightarrow> ''implementation'' \<in> dict_keys d \<and> ''implementation_digest'' \<in> dict_keys d
     | _ \<Rightarrow> False)"

text \<open>\<^verbatim>\<open>[entry for entry in transition_log if entry.get("to_status") == "accepted"]\<close>\<close>

fun accepted_entries :: "json list \<Rightarrow> (contract_exc, dict list) result" where
  "accepted_entries [] = Inr []"
| "accepted_entries (e # es) =
     (case e of
        JObj d \<Rightarrow> bindE (accepted_entries es) (\<lambda>ds.
          Inr (if get_str d ''to_status'' = Some ''accepted'' then d # ds else ds))
      | _ \<Rightarrow> Inl (Evidence ValueTypeError))"

definition target_checksum_rules :: "(nat list \<Rightarrow> string) \<Rightarrow> dict list \<Rightarrow> json \<Rightarrow> (contract_exc, unit) result" where
  "target_checksum_rules sha accepted target =
     (case accepted of
        [d] \<Rightarrow> bindE (liftE (workflow_target_checksum sha target)) (\<lambda>h.
          if get_str d ''workflow_target_checksum'' = Some h then Inr ()
          else refuse ''invalid_workflow_target_checksum'' ''accepted specialist handoff workflow target checksum differs'')
      | _ \<Rightarrow> refuse ''invalid_workflow_target_checksum'' ''accepted specialist handoff workflow target checksum differs'')"

definition specialist_handoff_rules :: "(nat list \<Rightarrow> string) \<Rightarrow> dict \<Rightarrow> (contract_exc, unit) result" where
  "specialist_handoff_rules sha doc =
     bindE (check_id doc ''handoff_id'' Specialist_handoff_k) (\<lambda>_.
     bindE (check_id doc ''engagement_id'' Engagement_k) (\<lambda>_.
     bindE (check_id doc ''action_plan_id'' Action_plan_k) (\<lambda>_.
     bindE (field doc ''status'') (\<lambda>status.
     bindE (in_names status [''accepted'', ''in_review'', ''completed'']) (\<lambda>taken.
       if \<not> taken then Inr ()
       else bindE (field doc ''task'') (\<lambda>task.
         bindE (obj_get task ''workflow_target'') (\<lambda>target.
           if \<not> resolved_target target
           then refuse ''missing_workflow_target'' ''accepted specialist handoff requires a resolved workflow target''
           else bindE (field doc ''transition_log'') (\<lambda>log.
             bindE (iter_items log) (\<lambda>entries.
             bindE (accepted_entries entries) (\<lambda>accepted.
               target_checksum_rules sha accepted (the target)))))))))))"

definition laboratory_environment_rules :: "dict \<Rightarrow> (contract_exc, unit) result" where
  "laboratory_environment_rules doc =
     bindE (check_id doc ''environment_id'' Laboratory_environment_k) (\<lambda>_.
     check_order (field doc ''created_at'') (field doc ''updated_at'') ''updated_at cannot precede created_at'')"

text \<open>
  The validators of the reporting package, a parameter: what they raise when they refuse a document.
\<close>

datatype report_exc = ReportError string | ReportOther evidence_error

type_synonym semantics = "contract_kind \<Rightarrow> dict \<Rightarrow> (report_exc, unit) result"

definition report_rules :: "semantics \<Rightarrow> contract_kind \<Rightarrow> dict \<Rightarrow> (contract_exc, unit) result" where
  "report_rules semantics kind doc =
     (case semantics kind doc of
        Inr _ \<Rightarrow> Inr ()
      | Inl (ReportError message) \<Rightarrow> refuse ''invalid_contract'' message
      | Inl (ReportOther e) \<Rightarrow> Inl (Evidence e))"

fun invariant_rules :: "semantics \<Rightarrow> (nat list \<Rightarrow> string) \<Rightarrow> contract_kind \<Rightarrow> dict \<Rightarrow> int \<Rightarrow> (contract_exc, unit) result" where
  "invariant_rules semantics sha Engagement_k doc max_bytes = engagement_rules doc"
| "invariant_rules semantics sha Scenario_k doc max_bytes = scenario_rules doc"
| "invariant_rules semantics sha Action_plan_k doc max_bytes = action_plan_rules sha doc max_bytes"
| "invariant_rules semantics sha Run_result_k doc max_bytes = run_result_rules doc"
| "invariant_rules semantics sha Finding_k doc max_bytes = finding_rules doc"
| "invariant_rules semantics sha Execution_authorization_k doc max_bytes = execution_authorization_rules doc"
| "invariant_rules semantics sha Cleanup_receipt_k doc max_bytes = cleanup_receipt_rules doc"
| "invariant_rules semantics sha Specialist_handoff_k doc max_bytes = specialist_handoff_rules sha doc"
| "invariant_rules semantics sha Laboratory_environment_k doc max_bytes = laboratory_environment_rules doc"
| "invariant_rules semantics sha Assessment_input_k doc max_bytes = Inr ()"
| "invariant_rules semantics sha Laboratory_retest_evidence_k doc max_bytes = Inr ()"
| "invariant_rules semantics sha kind doc max_bytes = report_rules semantics kind doc"

section \<open>Validation\<close>

definition find_schema :: "string \<Rightarrow> (contract_kind \<times> string) option" where
  "find_schema version = map_of SCHEMA_MAP version"

definition schema_of :: "dict \<Rightarrow> (contract_exc, contract_kind \<times> string) result" where
  "schema_of doc =
     (case dict_get doc ''schema_version'' of
        None \<Rightarrow> refuse ''unsupported_version'' ''unsupported schema_version: ''
      | Some (JStr v) \<Rightarrow>
          (case find_schema v of None \<Rightarrow> refuse ''unsupported_version'' ''unsupported schema_version: '' | Some p \<Rightarrow> Inr p)
      | Some (JList (_ # _)) \<Rightarrow> Inl (Evidence ValueTypeError)
      | Some (JObj (_ # _)) \<Rightarrow> Inl (Evidence ValueTypeError)
      | Some _ \<Rightarrow> refuse ''unsupported_version'' ''unsupported schema_version: '')"

fun id_field_map :: "contract_kind \<Rightarrow> string option" where
  "id_field_map Engagement_k = Some ''engagement_id''"
| "id_field_map Scenario_k = Some ''scenario_id''"
| "id_field_map Action_plan_k = Some ''plan_id''"
| "id_field_map Run_result_k = Some ''result_id''"
| "id_field_map Finding_k = Some ''finding_id''"
| "id_field_map Execution_authorization_k = Some ''authorization_id''"
| "id_field_map Cleanup_receipt_k = Some ''receipt_id''"
| "id_field_map Specialist_handoff_k = Some ''handoff_id''"
| "id_field_map Laboratory_environment_k = Some ''environment_id''"
| "id_field_map Assessment_report_k = Some ''report_id''"
| "id_field_map Assessment_input_k = Some ''report_id''"
| "id_field_map Detection_validation_input_k = Some ''validation_id''"
| "id_field_map Detection_validation_report_k = Some ''validation_id''"
| "id_field_map Retest_input_k = Some ''retest_id''"
| "id_field_map Retest_report_k = Some ''retest_id''"
| "id_field_map Laboratory_retest_evidence_k = None"

definition primary_id_ok :: "contract_kind \<Rightarrow> dict \<Rightarrow> (contract_exc, unit) result" where
  "primary_id_ok kind doc =
     (case id_field_map kind of
        None \<Rightarrow> Inr ()
      | Some k \<Rightarrow> (case dict_get doc k of None \<Rightarrow> Inr () | Some v \<Rightarrow> validate_identifier v kind))"

definition dash_to_underscore :: "string \<Rightarrow> string" where
  "dash_to_underscore = map (\<lambda>c. if c = CHR ''-'' then CHR ''_'' else c)"

text \<open>
  What the validator takes from outside: the schema directory, the regular expressions of the schemas,
  SHA-256 and the reporting package.
\<close>

record validator =
  v_search :: "string \<Rightarrow> string \<Rightarrow> bool"
  v_schemas :: schema_files
  v_sha :: "nat list \<Rightarrow> string"
  v_semantics :: semantics

definition validate_contract_limits ::
  "validator \<Rightarrow> dict \<Rightarrow> string option \<Rightarrow> int \<Rightarrow> int \<Rightarrow> (contract_exc, dict) result" where
  "validate_contract_limits env doc contract_type max_bytes max_depth =
     bindE (wrapE ''canonical JSON check failed'' (canonical (JObj doc) max_bytes max_depth)) (\<lambda>_.
     bindE (schema_of doc) (\<lambda>(kind, file).
     bindE (case contract_type of
              None \<Rightarrow> Inr ()
            | Some t \<Rightarrow> if dash_to_underscore t = kind_name kind then Inr ()
                else refuse ''invalid_contract'' (''requested type '' @ quoted t @ '' does not match document schema_version'')) (\<lambda>_.
     case v_schemas env file of
       None \<Rightarrow> refuse ''invalid_contract'' (''schema definition missing: '' @ file)
     | Some schema \<Rightarrow>
         bindE (primary_id_ok kind doc) (\<lambda>_.
         bindE (wrapE ''schema validation failed'' (check_schema (v_search env) (JObj doc) (sub_schema schema))) (\<lambda>_.
         bindE (invariant_rules (v_semantics env) (v_sha env) kind doc max_bytes) (\<lambda>_.
           Inr doc))))))"

abbreviation validate_contract :: "validator \<Rightarrow> dict \<Rightarrow> string option \<Rightarrow> (contract_exc, dict) result" where
  "validate_contract env doc contract_type \<equiv> validate_contract_limits env doc contract_type DEFAULT_BYTES DEFAULT_DEPTH"

end
