(* ===== verification/Contracts_Props.thy ===== *)
theory Contracts_Props
  imports Contracts Schema_Props
begin

text \<open>
  What acceptance of a contract guarantees. \<open>validate_contractD\<close> opens the validator once: the kind
  read from the version, the schema check and the rules of the kind. The properties read one rule set
  each through the elimination lemmas below it.
\<close>

section \<open>Opening the validator\<close>

lemma bindE_InrE:
  assumes "bindE m f = Inr b"
  obtains a where "m = Inr a" "f a = Inr b"
  using assms by (auto simp: bindE_Inr_iff)

lemma liftE_Inr [simp]: "liftE r = Inr a \<longleftrightarrow> r = Inr a"
  by (auto simp: liftE_def split: sum.splits)

lemma wrapE_Inr [simp]: "wrapE w r = Inr a \<longleftrightarrow> r = Inr a"
  by (auto simp: wrapE_def split: sum.splits evidence_error.splits)

lemma validate_contractD:
  assumes "validate_contract_limits env doc ct mb md = Inr r"
  obtains kind fname schema b where "r = doc" "canonical (JObj doc) mb md = Inr b"
    "schema_of doc = Inr (kind, fname)" "v_schemas env fname = Some schema"
    "check_schema (v_search env) (JObj doc) (sub_schema schema) = Inr ()"
    "invariant_rules (v_semantics env) (v_sha env) kind doc mb = Inr ()"
    "\<And>t. ct = Some t \<Longrightarrow> dash_to_underscore t = kind_name kind"
proof -
  from assms obtain b p where b: "canonical (JObj doc) mb md = Inr b" and p: "schema_of doc = Inr p"
    and rest: "(\<lambda>(kind, fname). bindE (case ct of
              None \<Rightarrow> Inr ()
            | Some t \<Rightarrow> if dash_to_underscore t = kind_name kind then Inr ()
                else refuse ''invalid_contract'' (''requested type '' @ quoted t @ '' does not match document schema_version'')) (\<lambda>_.
     case v_schemas env fname of
       None \<Rightarrow> refuse ''invalid_contract'' (''schema definition missing: '' @ fname)
     | Some schema \<Rightarrow>
         bindE (primary_id_ok kind doc) (\<lambda>_.
         bindE (wrapE ''schema validation failed'' (check_schema (v_search env) (JObj doc) (sub_schema schema))) (\<lambda>_.
         bindE (invariant_rules (v_semantics env) (v_sha env) kind doc mb) (\<lambda>_.
           Inr doc))))) p = Inr r"
    unfolding validate_contract_limits_def by (elim bindE_InrE) (simp only: wrapE_Inr)
  obtain kind fname where kf: "p = (kind, fname)" by (cases p)
  from rest obtain u where u: "(case ct of None \<Rightarrow> Inr () | Some t \<Rightarrow> if dash_to_underscore t = kind_name kind then Inr ()
       else refuse ''invalid_contract'' (''requested type '' @ quoted t @ '' does not match document schema_version'')) = Inr u"
    and more: "(case v_schemas env fname of
       None \<Rightarrow> refuse ''invalid_contract'' (''schema definition missing: '' @ fname)
     | Some schema \<Rightarrow>
         bindE (primary_id_ok kind doc) (\<lambda>_.
         bindE (wrapE ''schema validation failed'' (check_schema (v_search env) (JObj doc) (sub_schema schema))) (\<lambda>_.
         bindE (invariant_rules (v_semantics env) (v_sha env) kind doc mb) (\<lambda>_.
           Inr doc)))) = Inr r"
    unfolding kf prod.case by (rule bindE_InrE)
  from more obtain schema where s: "v_schemas env fname = Some schema" by (cases "v_schemas env fname") auto
  from more obtain v w where *: "check_schema (v_search env) (JObj doc) (sub_schema schema) = Inr v"
    "invariant_rules (v_semantics env) (v_sha env) kind doc mb = Inr w" "r = doc"
    unfolding s option.case bindE_Inr_iff wrapE_Inr by blast
  have ct: "\<And>t. ct = Some t \<Longrightarrow> dash_to_underscore t = kind_name kind"
    using u by (simp split: if_splits)
  show thesis by (rule that [OF *(3) b p [unfolded kf] s _ _ ct]) (use * in simp_all)
qed

lemma kind_name_inj: "kind_name j = kind_name k \<longleftrightarrow> j = k"
  by (cases j; cases k; simp)

lemma validate_contract_kind:
  assumes "validate_contract_limits env doc (Some (kind_name kind)) mb md = Inr r"
  shows "r = doc" "\<exists>b. canonical (JObj doc) mb md = Inr b"
    "invariant_rules (v_semantics env) (v_sha env) kind doc mb = Inr ()"
proof -
  from assms obtain k where *: "r = doc" "\<exists>b. canonical (JObj doc) mb md = Inr b"
    "invariant_rules (v_semantics env) (v_sha env) k doc mb = Inr ()" "dash_to_underscore (kind_name kind) = kind_name k"
    by (rule validate_contractD) blast
  have "dash_to_underscore (kind_name kind) = kind_name kind"
    by (cases kind) (simp_all add: dash_to_underscore_def)
  with *(4) have "k = kind" by (simp add: kind_name_inj)
  with * show "r = doc" "\<exists>b. canonical (JObj doc) mb md = Inr b"
    "invariant_rules (v_semantics env) (v_sha env) kind doc mb = Inr ()" by simp_all
qed

lemma field_iff [simp]: "field doc k = Inr v \<longleftrightarrow> dict_get doc k = Some v"
  by (auto simp: field_def item_def split: option.splits)

lemma check_orderD:
  assumes "check_order x y m = Inr u"
  shows "\<exists>v w a b. x = Inr v \<and> y = Inr w \<and> timestamp v = Inr a \<and> timestamp w = Inr b \<and> a \<le> b"
  using assms by (fastforce simp: check_order_def time_of_def bindE_Inr_iff not_less split: if_splits)

section \<open>Concrete documents\<close>

text \<open>A validator over schemas that constrain nothing: only the rules of the contract types decide.\<close>

definition demo_validator :: validator where
  "demo_validator = \<lparr>v_search = (\<lambda>_ _. True), v_schemas = (\<lambda>_. Some (JObj [])), v_sha = demo_sha, v_semantics = (\<lambda>_ _. Inr ())\<rparr>"

definition demo_engagement :: dict where
  "demo_engagement = [(''schema_version'', JStr ''cops.engagement/v1''), (''engagement_id'', JStr ''eng-demo''),
     (''window'', JObj [(''started_at'', JStr ''2024-01-01T00:00:00Z''), (''authorized_until_utc'', JStr ''2024-01-02T00:00:00Z'')]),
     (''credential_references'', JList [JStr ''vault:a''])]"

definition demo_result :: dict where
  "demo_result = [(''schema_version'', JStr ''cops.run-result/v1''), (''result_id'', JStr ''res-demo''), (''plan_id'', JStr ''plan-demo''),
     (''engagement_id'', JStr ''eng-demo''), (''started_at'', JStr ''2024-01-01T00:00:00Z''), (''finished_at'', JStr ''2024-01-01T00:00:01Z''),
     (''status'', JStr ''failed''), (''status_details'', JObj [(''reason'', JStr ''timeout'')])]"

definition demo_plan :: "string \<Rightarrow> dict" where
  "demo_plan status = [(''schema_version'', JStr ''cops.action-plan/v1''), (''plan_id'', JStr ''plan-demo''), (''engagement_id'', JStr ''eng-demo''),
     (''scenario_id'', JStr ''scen-demo''), (''status'', JStr status), (''plan_digest'', JStr [CHR ''{'', dquote, CHR ''e''])]"

lemma demo_engagement_ok: "validate_contract_limits demo_validator demo_engagement (Some ''engagement'') 1000 8 = Inr demo_engagement"
  by code_simp

lemma demo_result_ok: "validate_contract_limits demo_validator demo_result (Some ''run_result'') 1000 8 = Inr demo_result"
  by code_simp

lemma demo_plan_ok: "validate_contract_limits demo_validator (demo_plan ''draft'') (Some ''action_plan'') 1000 8 = Inr (demo_plan ''draft'')"
  by code_simp

lemma demo_plan_approved_ok:
  "validate_contract_limits demo_validator (demo_plan ''approved'') (Some ''action_plan'') 1000 8 = Inr (demo_plan ''approved'')"
  by code_simp

section \<open>Credential references\<close>

lemma check_references_ok:
  "check_references refs = Inr () \<longleftrightarrow> (\<forall>r \<in> set refs. \<exists>s. r = JStr s \<and> \<not> leaks_credential s)"
proof (induction refs)
  case (Cons r refs)
  then show ?case by (cases r) auto
qed simp

lemma contains_iff: "contains needle hay \<longleftrightarrow> (\<exists>xs ys. hay = xs @ needle @ ys)"
  by (auto simp: contains_def list_ex_iff set_suffixes_eq suffix_def prefix_def)

text \<open>
  An accepted engagement or action plan carries no credential in its references: every reference
  is text, and no casing of a marker of a secret occurs anywhere in it.
\<close>

theorem no_credential_accepted:
  assumes "validate_contract_limits env doc (Some (kind_name kind)) mb md = Inr r" "kind \<in> {Engagement_k, Action_plan_k}"
    and "dict_get doc ''credential_references'' = Some (JList refs)" "ref \<in> set refs"
  shows "\<exists>s. ref = JStr s \<and> (\<forall>m \<in> {''bearer '', ''ghp_'', ''eyj'', ''pass''}. \<nexists>xs ys. map lower_char s = xs @ m @ ys)"
proof -
  from validate_contract_kind(3) [OF assms(1)] assms(2) have "credential_references_ok doc = Inr ()"
    by (auto simp: engagement_rules_def action_plan_rules_def bindE_Inr_iff)
  with assms(3) have "check_references refs = Inr ()" by (simp add: credential_references_ok_def iter_items_def)
  with assms(4) obtain s where "ref = JStr s" "\<not> leaks_credential s" by (auto simp: check_references_ok)
  then show ?thesis by (simp add: leaks_credential_def contains_iff SECRET_MARKERS_def)
qed

theorem no_credential_accepted_witness:
  "validate_contract_limits demo_validator demo_engagement (Some ''engagement'') 1000 8 = Inr demo_engagement \<and>
   (\<exists>s. JStr ''vault:a'' = JStr s \<and> (\<forall>m \<in> {''bearer '', ''ghp_'', ''eyj'', ''pass''}. \<nexists>xs ys. map lower_char s = xs @ m @ ys)) \<and>
   leaks_credential ''My-PassWord''"
proof -
  have ok: "validate_contract_limits demo_validator demo_engagement (Some (kind_name Engagement_k)) 1000 8 = Inr demo_engagement"
    using demo_engagement_ok by simp
  have refs: "dict_get demo_engagement ''credential_references'' = Some (JList [JStr ''vault:a''])" by (simp add: demo_engagement_def)
  have "leaks_credential ''My-PassWord''" by code_simp
  with no_credential_accepted [OF ok _ refs] demo_engagement_ok show ?thesis by simp
qed

section \<open>Run results\<close>

text \<open>
  A run result is never silently unsuccessful: an accepted result lies in a closed time window,
  has one of the listed statuses, and when it does not count as a success it says why, in text that is
  not blank.
\<close>

theorem run_result_explained:
  assumes "validate_contract_limits env doc (Some ''run_result'') mb md = Inr r"
  shows "(\<exists>s f a b. dict_get doc ''started_at'' = Some s \<and> dict_get doc ''finished_at'' = Some f \<and>
            timestamp s = Inr a \<and> timestamp f = Inr b \<and> a \<le> b) \<and>
         (\<exists>status \<in> set RUN_RESULT_STATUSES. dict_get doc ''status'' = Some (JStr status)) \<and>
         (evaluate_run_result doc \<or>
          (\<exists>d reason. dict_get doc ''status_details'' = Some (JObj d) \<and> dict_get d ''reason'' = Some (JStr reason) \<and>
             \<not> list_all is_py_space reason))"
proof -
  have "validate_contract_limits env doc (Some (kind_name Run_result_k)) mb md = Inr r" using assms by simp
  from validate_contract_kind(3) [OF this] have rules: "run_result_rules doc = Inr ()" by simp
  then have order: "check_order (field doc ''started_at'') (field doc ''finished_at'') ''finished_at cannot precede started_at'' = Inr ()"
    by (auto simp: run_result_rules_def bindE_Inr_iff)
  from rules obtain v where v: "dict_get doc ''status'' = Some v" "in_names v RUN_RESULT_STATUSES = Inr True"
    "v = JStr ''success'' \<or> status_reason_given doc = Inr True"
    by (auto simp: run_result_rules_def bindE_Inr_iff split: if_splits)
  from v(2) obtain status where status: "v = JStr status" "status \<in> set RUN_RESULT_STATUSES"
    by (auto simp: in_names_def split: json.splits)
  have "evaluate_run_result doc \<or>
      (\<exists>d reason. dict_get doc ''status_details'' = Some (JObj d) \<and> dict_get d ''reason'' = Some (JStr reason) \<and>
         \<not> list_all is_py_space reason)"
    using v(1,3) by (auto simp: evaluate_run_result_def status_reason_given_def split: option.splits json.splits)
  with check_orderD [OF order] v(1) status show ?thesis by auto
qed

theorem run_result_explained_witness:
  "validate_contract_limits demo_validator demo_result (Some ''run_result'') 1000 8 = Inr demo_result \<and>
   \<not> evaluate_run_result demo_result \<and>
   (\<exists>d reason. dict_get demo_result ''status_details'' = Some (JObj d) \<and> dict_get d ''reason'' = Some (JStr reason) \<and>
      \<not> list_all is_py_space reason)"
proof -
  have "\<not> evaluate_run_result demo_result" by code_simp
  with run_result_explained [OF demo_result_ok] demo_result_ok show ?thesis by blast
qed

section \<open>Action plans\<close>

definition plan_content :: "dict \<Rightarrow> json" where
  "plan_content doc = JObj (without_key ''status'' (without_key ''plan_digest'' doc))"

text \<open>No collision between the canonical bytes of two values.\<close>

definition separates :: "(nat list \<Rightarrow> string) \<Rightarrow> json \<Rightarrow> json \<Rightarrow> bool" where
  "separates sha v w \<longleftrightarrow> (sha (utf8 (dumps False v)) = sha (utf8 (dumps False w)) \<longrightarrow> dumps False v = dumps False w)"

lemma digest_value: "digest sha v mb md = Inr h \<Longrightarrow> h = sha (utf8 (dumps False v))"
  by (auto simp: digest_def bindE_Inr_iff dest: canonical_okD(1))

lemma digest_agree:
  assumes "digest sha v mb md = Inr h" "digest sha w mb' md' = Inr h" "separates sha v w" "json_ok v" "json_ok w"
  shows "norm_json text_float v = norm_json text_float w"
proof -
  have "sha (utf8 (dumps False v)) = sha (utf8 (dumps False w))"
    using digest_value [OF assms(1)] digest_value [OF assms(2)] by simp
  with assms(3) have "dumps False v = dumps False w" by (simp add: separates_def)
  with dumps_eq_iff [OF assms(4,5)] show ?thesis by blast
qed

lemma action_plan_rulesD:
  assumes "action_plan_rules sha doc mb = Inr ()"
  shows "\<exists>h. digest sha (plan_content doc) mb DEFAULT_DEPTH = Inr h \<and> dict_get doc ''plan_digest'' = Some (JStr h)"
  using assms by (auto simp: action_plan_rules_def bindE_Inr_iff build_action_plan_digest_def plan_content_def split: if_splits)

text \<open>
  The digest of an accepted action plan pins the plan: two accepted plans with the same digest
  agree, up to the order of keys, on every field but the status, unless the hash collides on them.
\<close>

theorem plan_digest_pins:
  assumes "validate_contract_limits env doc (Some ''action_plan'') mb md = Inr r"
    and "validate_contract_limits env doc' (Some ''action_plan'') mb' md' = Inr r'"
    and "dict_get doc ''plan_digest'' = dict_get doc' ''plan_digest''"
    and "json_ok (JObj doc)" "json_ok (JObj doc')" "separates (v_sha env) (plan_content doc) (plan_content doc')"
  shows "norm_json text_float (plan_content doc) = norm_json text_float (plan_content doc')"
proof -
  have "action_plan_rules (v_sha env) doc mb = Inr ()" "action_plan_rules (v_sha env) doc' mb' = Inr ()"
    using validate_contract_kind(3) [of env doc Action_plan_k mb md r] validate_contract_kind(3) [of env doc' Action_plan_k mb' md' r']
      assms(1,2) by simp_all
  from this [THEN action_plan_rulesD] obtain h h' where
    h: "digest (v_sha env) (plan_content doc) mb DEFAULT_DEPTH = Inr h" "dict_get doc ''plan_digest'' = Some (JStr h)"
    and h': "digest (v_sha env) (plan_content doc') mb' DEFAULT_DEPTH = Inr h'" "dict_get doc' ''plan_digest'' = Some (JStr h')"
    by blast
  have "h = h'" using h(2) h'(2) assms(3) by simp
  moreover have "json_ok (plan_content doc)" "json_ok (plan_content doc')"
    unfolding plan_content_def by (intro json_ok_without assms(4,5))+
  ultimately show ?thesis using digest_agree [OF h(1) _ assms(6)] h'(1) by blast
qed

theorem plan_digest_pins_witness:
  "validate_contract_limits demo_validator (demo_plan ''approved'') (Some ''action_plan'') 1000 8 = Inr (demo_plan ''approved'') \<and>
   demo_plan ''draft'' \<noteq> demo_plan ''approved'' \<and>
   norm_json text_float (plan_content (demo_plan ''draft'')) = norm_json text_float (plan_content (demo_plan ''approved''))"
proof -
  have same: "plan_content (demo_plan ''draft'') = plan_content (demo_plan ''approved'')"
    by (simp add: plan_content_def demo_plan_def without_key_def)
  have "separates (v_sha demo_validator) (plan_content (demo_plan ''draft'')) (plan_content (demo_plan ''approved''))"
    by (simp add: same separates_def)
  from plan_digest_pins [OF demo_plan_ok demo_plan_approved_ok _ _ _ this] demo_plan_approved_ok
  show ?thesis by (simp add: demo_plan_def)
qed

end
