(* ===== verification/Models.thy ===== *)
theory Models
  imports Contracts
begin

text \<open>
  \<^verbatim>\<open>cops/contracts/models.py\<close>: the classes of the operational contracts, one record each, with their
  factory and lifecycle methods.

  A field annotated \<^verbatim>\<open>str\<close> is a \<open>string\<close>; every other field keeps the JSON value it was given, and
  Python's \<^verbatim>\<open>None\<close> is \<open>JNull\<close>. The published schemas give the \<^verbatim>\<open>str\<close> fields the type string, so a
  document that passes validation has them; \<open>str_field\<close> refuses a document that does not.
  \<open>frozen\<close> are the values \<^verbatim>\<open>_freeze\<close> builds: tuples and read-only mappings over immutable atoms.
  The attribute guards of the two immutable classes are modelled on the instance dictionary.
\<close>

section \<open>Reading and writing fields\<close>

definition str_field :: "dict \<Rightarrow> string \<Rightarrow> (contract_exc, string) result" where
  "str_field data k = bindE (field data k) (\<lambda>v. case v of JStr s \<Rightarrow> Inr s | _ \<Rightarrow> Inl (Evidence ValueTypeError))"

definition get_or_none :: "dict \<Rightarrow> string \<Rightarrow> json" where
  "get_or_none data k = (case dict_get data k of None \<Rightarrow> JNull | Some v \<Rightarrow> v)"

definition opt_item :: "string \<Rightarrow> json \<Rightarrow> dict" where
  "opt_item k v = (if v = JNull then [] else [(k, v)])"

definition moved :: "string \<Rightarrow> string \<Rightarrow> string \<Rightarrow> (contract_exc, string) result" where
  "moved kind status next_state =
     (case validate_transition status next_state kind of Inl e \<Rightarrow> Inl (Contract e) | Inr _ \<Rightarrow> Inr next_state)"

section \<open>Engagement\<close>

record engagement =
  eng_schema_version :: string
  eng_engagement_id :: string
  eng_name :: string
  eng_status :: string
  eng_scope :: json
  eng_window :: json
  eng_operator :: string
  eng_rules_of_engagement :: json
  eng_created_at :: string
  eng_metadata :: json
  eng_mode :: json
  eng_budget :: json
  eng_credential_references :: json

definition Engagement_to_dict :: "engagement \<Rightarrow> dict" where
  "Engagement_to_dict x = [
     (''schema_version'', JStr (eng_schema_version x)),
     (''engagement_id'', JStr (eng_engagement_id x)),
     (''name'', JStr (eng_name x)),
     (''status'', JStr (eng_status x)),
     (''scope'', eng_scope x),
     (''window'', eng_window x),
     (''operator'', JStr (eng_operator x)),
     (''rules_of_engagement'', eng_rules_of_engagement x),
     (''created_at'', JStr (eng_created_at x))]
     @ opt_item ''mode'' (eng_mode x)
     @ opt_item ''budget'' (eng_budget x)
     @ opt_item ''credential_references'' (eng_credential_references x)
     @ opt_item ''metadata'' (eng_metadata x)"

definition Engagement_from_dict :: "validator \<Rightarrow> dict \<Rightarrow> (contract_exc, engagement) result" where
  "Engagement_from_dict env data =
     bindE (validate_contract env data (Some ''engagement'')) (\<lambda>_.
     bindE (str_field data ''schema_version'') (\<lambda>v_schema_version.
     bindE (str_field data ''engagement_id'') (\<lambda>v_engagement_id.
     bindE (str_field data ''name'') (\<lambda>v_name.
     bindE (str_field data ''status'') (\<lambda>v_status.
     bindE (field data ''scope'') (\<lambda>v_scope.
     bindE (field data ''window'') (\<lambda>v_window.
     bindE (str_field data ''operator'') (\<lambda>v_operator.
     bindE (field data ''rules_of_engagement'') (\<lambda>v_rules_of_engagement.
     bindE (str_field data ''created_at'') (\<lambda>v_created_at.
       Inr \<lparr>eng_schema_version = v_schema_version, eng_engagement_id = v_engagement_id, eng_name = v_name, eng_status = v_status, eng_scope = v_scope, eng_window = v_window, eng_operator = v_operator, eng_rules_of_engagement = v_rules_of_engagement, eng_created_at = v_created_at, eng_metadata = get_or_none data ''metadata'', eng_mode = get_or_none data ''mode'', eng_budget = get_or_none data ''budget'', eng_credential_references = get_or_none data ''credential_references''\<rparr>))))))))))"

definition Engagement_transition_to :: "string \<Rightarrow> engagement \<Rightarrow> (engagement, contract_exc, unit) outcome" where
  "Engagement_transition_to next_state x =
     (case moved ''engagement'' (eng_status x) next_state of
        Inl e \<Rightarrow> (Inl e, x)
      | Inr st \<Rightarrow> (Inr (), x\<lparr>eng_status := st\<rparr>))"

section \<open>Scenario\<close>

record scenario =
  scn_schema_version :: string
  scn_scenario_id :: string
  scn_family_id :: string
  scn_title :: string
  scn_description :: string
  scn_mitre_attack :: json
  scn_provenance :: json
  scn_environment :: json
  scn_safety_profile :: json

definition Scenario_to_dict :: "scenario \<Rightarrow> dict" where
  "Scenario_to_dict x = [
     (''schema_version'', JStr (scn_schema_version x)),
     (''scenario_id'', JStr (scn_scenario_id x)),
     (''family_id'', JStr (scn_family_id x)),
     (''title'', JStr (scn_title x)),
     (''description'', JStr (scn_description x)),
     (''mitre_attack'', scn_mitre_attack x),
     (''provenance'', scn_provenance x),
     (''environment'', scn_environment x),
     (''safety_profile'', scn_safety_profile x)]"

definition Scenario_from_dict :: "validator \<Rightarrow> dict \<Rightarrow> (contract_exc, scenario) result" where
  "Scenario_from_dict env data =
     bindE (validate_contract env data (Some ''scenario'')) (\<lambda>_.
     bindE (str_field data ''schema_version'') (\<lambda>v_schema_version.
     bindE (str_field data ''scenario_id'') (\<lambda>v_scenario_id.
     bindE (str_field data ''family_id'') (\<lambda>v_family_id.
     bindE (str_field data ''title'') (\<lambda>v_title.
     bindE (str_field data ''description'') (\<lambda>v_description.
     bindE (field data ''mitre_attack'') (\<lambda>v_mitre_attack.
     bindE (field data ''provenance'') (\<lambda>v_provenance.
     bindE (field data ''environment'') (\<lambda>v_environment.
     bindE (field data ''safety_profile'') (\<lambda>v_safety_profile.
       Inr \<lparr>scn_schema_version = v_schema_version, scn_scenario_id = v_scenario_id, scn_family_id = v_family_id, scn_title = v_title, scn_description = v_description, scn_mitre_attack = v_mitre_attack, scn_provenance = v_provenance, scn_environment = v_environment, scn_safety_profile = v_safety_profile\<rparr>))))))))))"

section \<open>Frozen values\<close>

datatype frozen =
    FAtom json
  | FTuple "frozen list"
  | FMap "(string \<times> frozen) list"

primrec freeze :: "json \<Rightarrow> frozen" where
  "freeze JNull = FAtom JNull"
| "freeze (JBool b) = FAtom (JBool b)"
| "freeze (JInt i) = FAtom (JInt i)"
| "freeze (JFloat f) = FAtom (JFloat f)"
| "freeze (JStr s) = FAtom (JStr s)"
| "freeze (JList vs) = FTuple (map freeze vs)"
| "freeze (JObj d) = FMap (map (map_prod id freeze) d)"

primrec thaw :: "frozen \<Rightarrow> json" where
  "thaw (FAtom v) = v"
| "thaw (FTuple vs) = JList (map thaw vs)"
| "thaw (FMap d) = JObj (map (map_prod id thaw) d)"

definition freeze_opt :: "json \<Rightarrow> frozen option" where
  "freeze_opt v = (if v = JNull then None else Some (freeze v))"

record lifecycle =
  lc_status :: string
  lc_consumed_at :: "string option"
  lc_consumed_by_worker :: "string option"

section \<open>Attribute guards\<close>

text \<open>
  The instance dictionary of an object of an immutable class. \<open>guarded\<close> are the class's
  \<^verbatim>\<open>_immutable_fields\<close>, \<open>read_only\<close> its properties without a setter, \<open>forwarded\<close> its properties whose
  setter writes to the lifecycle object and so leaves the instance dictionary alone.
\<close>

record guards =
  guarded :: "string list"
  read_only :: "string list"
  forwarded :: "string list"

datatype attribute_error = AttributeError string

datatype 'v attribute_op = SetAttr string 'v | DelAttr string

definition setattr :: "guards \<Rightarrow> string \<Rightarrow> 'v \<Rightarrow> (string \<times> 'v) list \<Rightarrow> ((string \<times> 'v) list, attribute_error, unit) outcome" where
  "setattr g name v attrs =
     (if name = ''_immutable_fields'' \<or> name \<in> set (guarded g) \<and> name \<in> dict_keys attrs then (Inl (AttributeError name), attrs)
      else if name \<in> set (read_only g) then (Inl (AttributeError name), attrs)
      else if name \<in> set (forwarded g) then (Inr (), attrs)
      else (Inr (), dict_set name v attrs))"

definition delattr :: "guards \<Rightarrow> string \<Rightarrow> (string \<times> 'v) list \<Rightarrow> ((string \<times> 'v) list, attribute_error, unit) outcome" where
  "delattr g name attrs =
     (if name = ''_immutable_fields'' \<or> name \<in> set (guarded g) then (Inl (AttributeError name), attrs)
      else if name \<in> set (read_only g) \<or> name \<in> set (forwarded g) \<or> name \<notin> dict_keys attrs then (Inl (AttributeError name), attrs)
      else (Inr (), filter (\<lambda>(k, _). k \<noteq> name) attrs))"

fun attribute_step :: "guards \<Rightarrow> 'v attribute_op \<Rightarrow> (string \<times> 'v) list \<Rightarrow> ((string \<times> 'v) list, attribute_error, unit) outcome" where
  "attribute_step g (SetAttr name v) attrs = setattr g name v attrs"
| "attribute_step g (DelAttr name) attrs = delattr g name attrs"

definition ActionPlan_guards :: guards where
  "ActionPlan_guards = \<lparr>guarded = [''schema_version'', ''plan_id'', ''engagement_id'', ''scenario_id'', ''target'', ''specialist_id'',
       ''operations'', ''limits'', ''credential_references'', ''plan_digest'', ''created_at'', ''platform_prerequisites'', ''batch'',
       ''offline_research''],
     read_only = [''status''], forwarded = []\<rparr>"

definition ExecutionAuthorization_guards :: guards where
  "ExecutionAuthorization_guards = \<lparr>guarded = [''schema_version'', ''authorization_id'', ''action_plan_id'', ''plan_digest'',
       ''engagement_id'', ''operator'', ''issued_at'', ''authorized_until_utc'', ''bound_parameters'', ''approval_mode'',
       ''signature_algorithm'', ''signing_key_id'', ''signature_digest''],
     read_only = [''status''], forwarded = [''consumed_at'', ''consumed_by_worker'']\<rparr>"

section \<open>ActionPlan\<close>

record action_plan =
  plan_schema_version :: string
  plan_id :: string
  plan_engagement_id :: string
  plan_scenario_id :: string
  plan_target :: string
  plan_specialist_id :: string
  plan_operations :: frozen
  plan_limits :: frozen
  plan_credential_references :: frozen
  plan_digest :: string
  plan_created_at :: string
  plan_platform_prerequisites :: frozen
  plan_batch :: frozen
  plan_offline_research :: "frozen option"
  plan_lifecycle :: lifecycle

text \<open>The keyword arguments of the constructor; \<open>JNull\<close> where the argument is left out.\<close>

record plan_args =
  pa_schema_version :: string
  pa_plan_id :: string
  pa_engagement_id :: string
  pa_scenario_id :: string
  pa_status :: string
  pa_target :: string
  pa_specialist_id :: string
  pa_operations :: json
  pa_limits :: json
  pa_credential_references :: json
  pa_plan_digest :: string
  pa_created_at :: string
  pa_platform_prerequisites :: json
  pa_batch :: json
  pa_offline_research :: json

definition py_len :: "json \<Rightarrow> (contract_exc, int) result" where
  "py_len v = (case v of
       JList vs \<Rightarrow> Inr (int (length vs))
     | JObj d \<Rightarrow> Inr (int (length d))
     | JStr s \<Rightarrow> Inr (int (length s))
     | _ \<Rightarrow> Inl (Evidence ValueTypeError))"

definition default_batch :: "int \<Rightarrow> json" where
  "default_batch n = JObj [(''mode'', JStr ''sequential''), (''max_operations'', JInt n), (''fail_fast'', JBool True)]"

definition batch_or_default :: "json \<Rightarrow> json \<Rightarrow> (contract_exc, json) result" where
  "batch_or_default batch operations =
     (if truthy batch then Inr batch else bindE (py_len operations) (\<lambda>n. Inr (default_batch n)))"

definition or_empty :: "json \<Rightarrow> json" where
  "or_empty v = (if truthy v then v else JList [])"

definition ActionPlan_init :: "plan_args \<Rightarrow> (contract_exc, action_plan) result" where
  "ActionPlan_init a =
     bindE (batch_or_default (pa_batch a) (pa_operations a)) (\<lambda>batch.
       Inr \<lparr>plan_schema_version = pa_schema_version a, plan_id = pa_plan_id a, plan_engagement_id = pa_engagement_id a,
         plan_scenario_id = pa_scenario_id a, plan_target = pa_target a, plan_specialist_id = pa_specialist_id a,
         plan_operations = freeze (pa_operations a), plan_limits = freeze (pa_limits a),
         plan_credential_references = freeze (pa_credential_references a), plan_digest = pa_plan_digest a,
         plan_created_at = pa_created_at a, plan_platform_prerequisites = freeze (or_empty (pa_platform_prerequisites a)),
         plan_batch = freeze batch,
         plan_offline_research = freeze_opt (pa_offline_research a),
         plan_lifecycle = \<lparr>lc_status = pa_status a, lc_consumed_at = None, lc_consumed_by_worker = None\<rparr>\<rparr>)"

definition plan_status :: "action_plan \<Rightarrow> string" where
  "plan_status p = lc_status (plan_lifecycle p)"

definition ActionPlan_transition_to :: "string \<Rightarrow> action_plan \<Rightarrow> (action_plan, contract_exc, unit) outcome" where
  "ActionPlan_transition_to next_state p =
     (case moved ''action_plan'' (plan_status p) next_state of
        Inl e \<Rightarrow> (Inl e, p)
      | Inr st \<Rightarrow> (Inr (), p\<lparr>plan_lifecycle := (plan_lifecycle p)\<lparr>lc_status := st\<rparr>\<rparr>))"

definition offline_item :: "action_plan \<Rightarrow> dict" where
  "offline_item p = (case plan_offline_research p of None \<Rightarrow> [] | Some f \<Rightarrow> [(''offline_research'', thaw f)])"

definition approved_snapshot :: "bool \<Rightarrow> action_plan \<Rightarrow> dict" where
  "approved_snapshot include_digest p = [
     (''schema_version'', JStr (plan_schema_version p)),
     (''plan_id'', JStr (plan_id p)),
     (''engagement_id'', JStr (plan_engagement_id p)),
     (''scenario_id'', JStr (plan_scenario_id p)),
     (''target'', JStr (plan_target p)),
     (''specialist_id'', JStr (plan_specialist_id p)),
     (''operations'', thaw (plan_operations p)),
     (''limits'', thaw (plan_limits p)),
     (''credential_references'', thaw (plan_credential_references p)),
     (''created_at'', JStr (plan_created_at p)),
     (''platform_prerequisites'', thaw (plan_platform_prerequisites p)),
     (''batch'', thaw (plan_batch p))]
     @ offline_item p @ (if include_digest then [(''plan_digest'', JStr (plan_digest p))] else [])"

definition ActionPlan_to_dict :: "action_plan \<Rightarrow> dict" where
  "ActionPlan_to_dict p = [
     (''schema_version'', JStr (plan_schema_version p)),
     (''plan_id'', JStr (plan_id p)),
     (''engagement_id'', JStr (plan_engagement_id p)),
     (''scenario_id'', JStr (plan_scenario_id p)),
     (''status'', JStr (plan_status p)),
     (''target'', JStr (plan_target p)),
     (''specialist_id'', JStr (plan_specialist_id p)),
     (''operations'', thaw (plan_operations p)),
     (''limits'', thaw (plan_limits p)),
     (''credential_references'', thaw (plan_credential_references p)),
     (''plan_digest'', JStr (plan_digest p)),
     (''created_at'', JStr (plan_created_at p)),
     (''platform_prerequisites'', thaw (plan_platform_prerequisites p)),
     (''batch'', thaw (plan_batch p))]
     @ offline_item p"

definition created_snapshot :: "plan_args \<Rightarrow> json \<Rightarrow> dict" where
  "created_snapshot a batch = [
     (''schema_version'', JStr ''cops.action-plan/v1''),
     (''engagement_id'', JStr (pa_engagement_id a)),
     (''scenario_id'', JStr (pa_scenario_id a)),
     (''target'', JStr (pa_target a)),
     (''specialist_id'', JStr (pa_specialist_id a)),
     (''operations'', pa_operations a),
     (''limits'', pa_limits a),
     (''credential_references'', pa_credential_references a),
     (''created_at'', JStr (pa_created_at a)),
     (''platform_prerequisites'', or_empty (pa_platform_prerequisites a)),
     (''batch'', batch)] @ opt_item ''offline_research'' (pa_offline_research a)"

text \<open>
  \<^verbatim>\<open>create\<close> takes the constructor's arguments but the version and the digest, which it fixes;
  \<open>given_id\<close> is its \<^verbatim>\<open>plan_id\<close> argument.
\<close>

definition ActionPlan_create :: "validator \<Rightarrow> string option \<Rightarrow> plan_args \<Rightarrow> (contract_exc, action_plan) result" where
  "ActionPlan_create env given_id a =
     bindE (batch_or_default (pa_batch a) (pa_operations a)) (\<lambda>batch.
     let snapshot = created_snapshot a batch in
     bindE (case given_id of
              Some i \<Rightarrow> Inr i
            | None \<Rightarrow> bindE (liftE (build_action_plan_digest (v_sha env) snapshot DEFAULT_BYTES)) (\<lambda>h. Inr (''plan-cops-'' @ take 24 h))) (\<lambda>pid.
     bindE (liftE (build_action_plan_digest (v_sha env) (snapshot @ [(''plan_id'', JStr pid)]) DEFAULT_BYTES)) (\<lambda>h.
     bindE (ActionPlan_init (a\<lparr>pa_schema_version := ''cops.action-plan/v1'', pa_plan_id := pid, pa_plan_digest := h, pa_batch := batch\<rparr>)) (\<lambda>plan.
     bindE (validate_contract env (ActionPlan_to_dict plan) (Some ''action_plan'')) (\<lambda>_.
       Inr plan)))))"

definition ActionPlan_from_dict :: "validator \<Rightarrow> dict \<Rightarrow> (contract_exc, action_plan) result" where
  "ActionPlan_from_dict env data =
     bindE (validate_contract env data (Some ''action_plan'')) (\<lambda>_.
     bindE (str_field data ''schema_version'') (\<lambda>v_schema_version.
     bindE (str_field data ''plan_id'') (\<lambda>v_plan_id.
     bindE (str_field data ''engagement_id'') (\<lambda>v_engagement_id.
     bindE (str_field data ''scenario_id'') (\<lambda>v_scenario_id.
     bindE (str_field data ''status'') (\<lambda>v_status.
     bindE (str_field data ''target'') (\<lambda>v_target.
     bindE (str_field data ''specialist_id'') (\<lambda>v_specialist_id.
     bindE (field data ''operations'') (\<lambda>v_operations.
     bindE (field data ''limits'') (\<lambda>v_limits.
     bindE (field data ''credential_references'') (\<lambda>v_credential_references.
     bindE (str_field data ''plan_digest'') (\<lambda>v_plan_digest.
     bindE (str_field data ''created_at'') (\<lambda>v_created_at.
       ActionPlan_init \<lparr>pa_schema_version = v_schema_version, pa_plan_id = v_plan_id, pa_engagement_id = v_engagement_id,
         pa_scenario_id = v_scenario_id, pa_status = v_status, pa_target = v_target, pa_specialist_id = v_specialist_id,
         pa_operations = v_operations, pa_limits = v_limits, pa_credential_references = v_credential_references,
         pa_plan_digest = v_plan_digest, pa_created_at = v_created_at,
         pa_platform_prerequisites = get_or_none data ''platform_prerequisites'', pa_batch = get_or_none data ''batch'',
         pa_offline_research = get_or_none data ''offline_research''\<rparr>)))))))))))))"

section \<open>ExecutionAuthorization\<close>

record execution_authorization =
  auth_schema_version :: string
  auth_authorization_id :: string
  auth_action_plan_id :: string
  auth_plan_digest :: string
  auth_engagement_id :: string
  auth_operator :: string
  auth_issued_at :: string
  auth_authorized_until_utc :: string
  auth_bound_parameters :: frozen
  auth_approval_mode :: string
  auth_signature_algorithm :: string
  auth_signing_key_id :: string
  auth_signature_digest :: string
  auth_lifecycle :: lifecycle

definition auth_status :: "execution_authorization \<Rightarrow> string" where
  "auth_status a = lc_status (auth_lifecycle a)"

definition auth_consumed_at :: "execution_authorization \<Rightarrow> string option" where
  "auth_consumed_at a = lc_consumed_at (auth_lifecycle a)"

definition auth_consumed_by_worker :: "execution_authorization \<Rightarrow> string option" where
  "auth_consumed_by_worker a = lc_consumed_by_worker (auth_lifecycle a)"

definition set_consumed_at :: "string option \<Rightarrow> execution_authorization \<Rightarrow> execution_authorization" where
  "set_consumed_at v a = a\<lparr>auth_lifecycle := (auth_lifecycle a)\<lparr>lc_consumed_at := v\<rparr>\<rparr>"

definition set_consumed_by_worker :: "string option \<Rightarrow> execution_authorization \<Rightarrow> execution_authorization" where
  "set_consumed_by_worker v a = a\<lparr>auth_lifecycle := (auth_lifecycle a)\<lparr>lc_consumed_by_worker := v\<rparr>\<rparr>"

definition signed_payload :: "execution_authorization \<Rightarrow> dict" where
  "signed_payload a = [
     (''schema_version'', JStr (auth_schema_version a)),
     (''authorization_id'', JStr (auth_authorization_id a)),
     (''action_plan_id'', JStr (auth_action_plan_id a)),
     (''plan_digest'', JStr (auth_plan_digest a)),
     (''engagement_id'', JStr (auth_engagement_id a)),
     (''operator'', JStr (auth_operator a)),
     (''issued_at'', JStr (auth_issued_at a)),
     (''authorized_until_utc'', JStr (auth_authorized_until_utc a)),
     (''bound_parameters'', thaw (auth_bound_parameters a)),
     (''approval_mode'', JStr (auth_approval_mode a)),
     (''signature_algorithm'', JStr (auth_signature_algorithm a)),
     (''signing_key_id'', JStr (auth_signing_key_id a))]"

definition ExecutionAuthorization_transition_to ::
  "string \<Rightarrow> execution_authorization \<Rightarrow> (execution_authorization, contract_exc, unit) outcome" where
  "ExecutionAuthorization_transition_to next_state a =
     (case moved ''execution_authorization'' (auth_status a) next_state of
        Inl e \<Rightarrow> (Inl e, a)
      | Inr st \<Rightarrow> (Inr (), a\<lparr>auth_lifecycle := (auth_lifecycle a)\<lparr>lc_status := st\<rparr>\<rparr>))"

text \<open>\<open>clock\<close> is what \<^verbatim>\<open>datetime.now(UTC)\<close> returns.\<close>

definition is_valid_at :: "int \<Rightarrow> string option \<Rightarrow> execution_authorization \<Rightarrow> (evidence_error, bool) result" where
  "is_valid_at clock current_time_iso a =
     (if auth_status a \<noteq> ''approved'' then Inr False
      else bindE (case current_time_iso of Some s \<Rightarrow> timestamp (JStr s) | None \<Rightarrow> Inr clock) (\<lambda>now.
        bindE (timestamp (JStr (auth_issued_at a))) (\<lambda>issued.
          if \<not> issued \<le> now then Inr False
          else bindE (timestamp (JStr (auth_authorized_until_utc a))) (\<lambda>until. Inr (now < until)))))"

definition opt_str_item :: "string \<Rightarrow> string option \<Rightarrow> dict" where
  "opt_str_item k v = (case v of None \<Rightarrow> [] | Some s \<Rightarrow> [(k, JStr s)])"

definition ExecutionAuthorization_to_dict :: "execution_authorization \<Rightarrow> dict" where
  "ExecutionAuthorization_to_dict a = [
     (''schema_version'', JStr (auth_schema_version a)),
     (''authorization_id'', JStr (auth_authorization_id a)),
     (''action_plan_id'', JStr (auth_action_plan_id a)),
     (''plan_digest'', JStr (auth_plan_digest a)),
     (''engagement_id'', JStr (auth_engagement_id a)),
     (''operator'', JStr (auth_operator a)),
     (''status'', JStr (auth_status a)),
     (''issued_at'', JStr (auth_issued_at a)),
     (''authorized_until_utc'', JStr (auth_authorized_until_utc a)),
     (''bound_parameters'', thaw (auth_bound_parameters a)),
     (''approval_mode'', JStr (auth_approval_mode a)),
     (''signature_algorithm'', JStr (auth_signature_algorithm a)),
     (''signing_key_id'', JStr (auth_signing_key_id a)),
     (''signature_digest'', JStr (auth_signature_digest a))]
     @ opt_str_item ''consumed_at'' (auth_consumed_at a)
     @ opt_str_item ''consumed_by_worker'' (auth_consumed_by_worker a)"

definition opt_str_field :: "dict \<Rightarrow> string \<Rightarrow> (contract_exc, string option) result" where
  "opt_str_field data k =
     (case get_or_none data k of JNull \<Rightarrow> Inr None | JStr s \<Rightarrow> Inr (Some s) | _ \<Rightarrow> Inl (Evidence ValueTypeError))"

definition ExecutionAuthorization_from_dict :: "validator \<Rightarrow> dict \<Rightarrow> (contract_exc, execution_authorization) result" where
  "ExecutionAuthorization_from_dict env data =
     bindE (validate_contract env data (Some ''execution_authorization'')) (\<lambda>_.
     bindE (str_field data ''schema_version'') (\<lambda>v_schema_version.
     bindE (str_field data ''authorization_id'') (\<lambda>v_authorization_id.
     bindE (str_field data ''action_plan_id'') (\<lambda>v_action_plan_id.
     bindE (str_field data ''plan_digest'') (\<lambda>v_plan_digest.
     bindE (str_field data ''engagement_id'') (\<lambda>v_engagement_id.
     bindE (str_field data ''operator'') (\<lambda>v_operator.
     bindE (str_field data ''status'') (\<lambda>v_status.
     bindE (str_field data ''issued_at'') (\<lambda>v_issued_at.
     bindE (str_field data ''authorized_until_utc'') (\<lambda>v_authorized_until_utc.
     bindE (field data ''bound_parameters'') (\<lambda>v_bound_parameters.
     bindE (str_field data ''approval_mode'') (\<lambda>v_approval_mode.
     bindE (str_field data ''signature_algorithm'') (\<lambda>v_signature_algorithm.
     bindE (str_field data ''signing_key_id'') (\<lambda>v_signing_key_id.
     bindE (str_field data ''signature_digest'') (\<lambda>v_signature_digest.
     bindE (opt_str_field data ''consumed_at'') (\<lambda>v_consumed_at.
     bindE (opt_str_field data ''consumed_by_worker'') (\<lambda>v_consumed_by_worker.
       Inr \<lparr>auth_schema_version = v_schema_version, auth_authorization_id = v_authorization_id, auth_action_plan_id = v_action_plan_id,
         auth_plan_digest = v_plan_digest, auth_engagement_id = v_engagement_id, auth_operator = v_operator,
         auth_issued_at = v_issued_at, auth_authorized_until_utc = v_authorized_until_utc,
         auth_bound_parameters = freeze v_bound_parameters, auth_approval_mode = v_approval_mode,
         auth_signature_algorithm = v_signature_algorithm, auth_signing_key_id = v_signing_key_id,
         auth_signature_digest = v_signature_digest,
         auth_lifecycle = \<lparr>lc_status = v_status, lc_consumed_at = v_consumed_at, lc_consumed_by_worker = v_consumed_by_worker\<rparr>\<rparr>)))))))))))))))))"

section \<open>RunResult\<close>

record run_result =
  rr_schema_version :: string
  rr_result_id :: string
  rr_plan_id :: string
  rr_engagement_id :: string
  rr_status :: string
  rr_started_at :: string
  rr_finished_at :: string
  rr_status_details :: json
  rr_evidence_records :: json
  rr_artifacts :: json
  rr_cleanup_status :: string
  rr_worker_identity :: string
  rr_exit_code :: json
  rr_offline_research :: json

definition RunResult_to_dict :: "run_result \<Rightarrow> dict" where
  "RunResult_to_dict x = [
     (''schema_version'', JStr (rr_schema_version x)),
     (''result_id'', JStr (rr_result_id x)),
     (''plan_id'', JStr (rr_plan_id x)),
     (''engagement_id'', JStr (rr_engagement_id x)),
     (''status'', JStr (rr_status x)),
     (''started_at'', JStr (rr_started_at x)),
     (''finished_at'', JStr (rr_finished_at x)),
     (''exit_code'', rr_exit_code x),
     (''status_details'', rr_status_details x),
     (''evidence_records'', rr_evidence_records x),
     (''artifacts'', rr_artifacts x),
     (''cleanup_status'', JStr (rr_cleanup_status x)),
     (''worker_identity'', JStr (rr_worker_identity x))]
     @ opt_item ''offline_research'' (rr_offline_research x)"

definition RunResult_from_dict :: "validator \<Rightarrow> dict \<Rightarrow> (contract_exc, run_result) result" where
  "RunResult_from_dict env data =
     bindE (validate_contract env data (Some ''run_result'')) (\<lambda>_.
     bindE (str_field data ''schema_version'') (\<lambda>v_schema_version.
     bindE (str_field data ''result_id'') (\<lambda>v_result_id.
     bindE (str_field data ''plan_id'') (\<lambda>v_plan_id.
     bindE (str_field data ''engagement_id'') (\<lambda>v_engagement_id.
     bindE (str_field data ''status'') (\<lambda>v_status.
     bindE (str_field data ''started_at'') (\<lambda>v_started_at.
     bindE (str_field data ''finished_at'') (\<lambda>v_finished_at.
     bindE (field data ''status_details'') (\<lambda>v_status_details.
     bindE (field data ''evidence_records'') (\<lambda>v_evidence_records.
     bindE (field data ''artifacts'') (\<lambda>v_artifacts.
     bindE (str_field data ''cleanup_status'') (\<lambda>v_cleanup_status.
     bindE (str_field data ''worker_identity'') (\<lambda>v_worker_identity.
       Inr \<lparr>rr_schema_version = v_schema_version, rr_result_id = v_result_id, rr_plan_id = v_plan_id, rr_engagement_id = v_engagement_id, rr_status = v_status, rr_started_at = v_started_at, rr_finished_at = v_finished_at, rr_status_details = v_status_details, rr_evidence_records = v_evidence_records, rr_artifacts = v_artifacts, rr_cleanup_status = v_cleanup_status, rr_worker_identity = v_worker_identity, rr_exit_code = get_or_none data ''exit_code'', rr_offline_research = get_or_none data ''offline_research''\<rparr>)))))))))))))"

definition is_successful :: "run_result \<Rightarrow> bool" where
  "is_successful x = evaluate_run_result (RunResult_to_dict x)"

section \<open>Finding\<close>

record finding =
  fnd_schema_version :: string
  fnd_finding_id :: string
  fnd_engagement_id :: string
  fnd_result_id :: string
  fnd_scenario_id :: string
  fnd_title :: string
  fnd_severity :: string
  fnd_classification :: string
  fnd_verification :: string
  fnd_confidence :: string
  fnd_claim :: string
  fnd_evidence_references :: json
  fnd_mitre_attack :: json
  fnd_remediation :: string
  fnd_uncertainty :: string
  fnd_created_at :: string

definition Finding_to_dict :: "finding \<Rightarrow> dict" where
  "Finding_to_dict x = [
     (''schema_version'', JStr (fnd_schema_version x)),
     (''finding_id'', JStr (fnd_finding_id x)),
     (''engagement_id'', JStr (fnd_engagement_id x)),
     (''result_id'', JStr (fnd_result_id x)),
     (''scenario_id'', JStr (fnd_scenario_id x)),
     (''title'', JStr (fnd_title x)),
     (''severity'', JStr (fnd_severity x)),
     (''classification'', JStr (fnd_classification x)),
     (''verification'', JStr (fnd_verification x)),
     (''confidence'', JStr (fnd_confidence x)),
     (''claim'', JStr (fnd_claim x)),
     (''evidence_references'', fnd_evidence_references x),
     (''mitre_attack'', fnd_mitre_attack x),
     (''remediation'', JStr (fnd_remediation x)),
     (''uncertainty'', JStr (fnd_uncertainty x)),
     (''created_at'', JStr (fnd_created_at x))]"

definition Finding_from_dict :: "validator \<Rightarrow> dict \<Rightarrow> (contract_exc, finding) result" where
  "Finding_from_dict env data =
     bindE (validate_contract env data (Some ''finding'')) (\<lambda>_.
     bindE (str_field data ''schema_version'') (\<lambda>v_schema_version.
     bindE (str_field data ''finding_id'') (\<lambda>v_finding_id.
     bindE (str_field data ''engagement_id'') (\<lambda>v_engagement_id.
     bindE (str_field data ''result_id'') (\<lambda>v_result_id.
     bindE (str_field data ''scenario_id'') (\<lambda>v_scenario_id.
     bindE (str_field data ''title'') (\<lambda>v_title.
     bindE (str_field data ''severity'') (\<lambda>v_severity.
     bindE (str_field data ''classification'') (\<lambda>v_classification.
     bindE (str_field data ''verification'') (\<lambda>v_verification.
     bindE (str_field data ''confidence'') (\<lambda>v_confidence.
     bindE (str_field data ''claim'') (\<lambda>v_claim.
     bindE (field data ''evidence_references'') (\<lambda>v_evidence_references.
     bindE (field data ''mitre_attack'') (\<lambda>v_mitre_attack.
     bindE (str_field data ''remediation'') (\<lambda>v_remediation.
     bindE (str_field data ''uncertainty'') (\<lambda>v_uncertainty.
     bindE (str_field data ''created_at'') (\<lambda>v_created_at.
       Inr \<lparr>fnd_schema_version = v_schema_version, fnd_finding_id = v_finding_id, fnd_engagement_id = v_engagement_id, fnd_result_id = v_result_id, fnd_scenario_id = v_scenario_id, fnd_title = v_title, fnd_severity = v_severity, fnd_classification = v_classification, fnd_verification = v_verification, fnd_confidence = v_confidence, fnd_claim = v_claim, fnd_evidence_references = v_evidence_references, fnd_mitre_attack = v_mitre_attack, fnd_remediation = v_remediation, fnd_uncertainty = v_uncertainty, fnd_created_at = v_created_at\<rparr>)))))))))))))))))"

section \<open>CleanupReceipt\<close>

record cleanup_receipt =
  cr_schema_version :: string
  cr_receipt_id :: string
  cr_plan_id :: string
  cr_engagement_id :: string
  cr_worker_identity :: string
  cr_status :: string
  cr_created_at :: string
  cr_completed_at :: string
  cr_cleaned_effects :: json
  cr_unresolved_effects :: json
  cr_evidence_hash :: string

definition CleanupReceipt_to_dict :: "cleanup_receipt \<Rightarrow> dict" where
  "CleanupReceipt_to_dict x = [
     (''schema_version'', JStr (cr_schema_version x)),
     (''receipt_id'', JStr (cr_receipt_id x)),
     (''plan_id'', JStr (cr_plan_id x)),
     (''engagement_id'', JStr (cr_engagement_id x)),
     (''worker_identity'', JStr (cr_worker_identity x)),
     (''status'', JStr (cr_status x)),
     (''created_at'', JStr (cr_created_at x)),
     (''completed_at'', JStr (cr_completed_at x)),
     (''cleaned_effects'', cr_cleaned_effects x),
     (''unresolved_effects'', cr_unresolved_effects x),
     (''evidence_hash'', JStr (cr_evidence_hash x))]"

definition CleanupReceipt_from_dict :: "validator \<Rightarrow> dict \<Rightarrow> (contract_exc, cleanup_receipt) result" where
  "CleanupReceipt_from_dict env data =
     bindE (validate_contract env data (Some ''cleanup_receipt'')) (\<lambda>_.
     bindE (str_field data ''schema_version'') (\<lambda>v_schema_version.
     bindE (str_field data ''receipt_id'') (\<lambda>v_receipt_id.
     bindE (str_field data ''plan_id'') (\<lambda>v_plan_id.
     bindE (str_field data ''engagement_id'') (\<lambda>v_engagement_id.
     bindE (str_field data ''worker_identity'') (\<lambda>v_worker_identity.
     bindE (str_field data ''status'') (\<lambda>v_status.
     bindE (str_field data ''created_at'') (\<lambda>v_created_at.
     bindE (str_field data ''completed_at'') (\<lambda>v_completed_at.
     bindE (field data ''cleaned_effects'') (\<lambda>v_cleaned_effects.
     bindE (field data ''unresolved_effects'') (\<lambda>v_unresolved_effects.
     bindE (str_field data ''evidence_hash'') (\<lambda>v_evidence_hash.
       Inr \<lparr>cr_schema_version = v_schema_version, cr_receipt_id = v_receipt_id, cr_plan_id = v_plan_id, cr_engagement_id = v_engagement_id, cr_worker_identity = v_worker_identity, cr_status = v_status, cr_created_at = v_created_at, cr_completed_at = v_completed_at, cr_cleaned_effects = v_cleaned_effects, cr_unresolved_effects = v_unresolved_effects, cr_evidence_hash = v_evidence_hash\<rparr>))))))))))))"

section \<open>SpecialistHandoff\<close>

record specialist_handoff =
  sh_schema_version :: string
  sh_handoff_id :: string
  sh_engagement_id :: string
  sh_action_plan_id :: string
  sh_status :: string
  sh_sender :: json
  sh_recipient :: json
  sh_task :: json
  sh_material_plan_digest :: string
  sh_approval_status :: string
  sh_created_at :: string
  sh_transition_log :: json
  sh_evidence :: json
  sh_rejection_reason :: json

definition SpecialistHandoff_to_dict :: "specialist_handoff \<Rightarrow> dict" where
  "SpecialistHandoff_to_dict x = [
     (''schema_version'', JStr (sh_schema_version x)),
     (''handoff_id'', JStr (sh_handoff_id x)),
     (''engagement_id'', JStr (sh_engagement_id x)),
     (''action_plan_id'', JStr (sh_action_plan_id x)),
     (''status'', JStr (sh_status x)),
     (''sender'', sh_sender x),
     (''recipient'', sh_recipient x),
     (''task'', sh_task x),
     (''material_plan_digest'', JStr (sh_material_plan_digest x)),
     (''approval_status'', JStr (sh_approval_status x)),
     (''created_at'', JStr (sh_created_at x)),
     (''transition_log'', sh_transition_log x)]
     @ opt_item ''evidence'' (sh_evidence x)
     @ opt_item ''rejection_reason'' (sh_rejection_reason x)"

definition SpecialistHandoff_from_dict :: "validator \<Rightarrow> dict \<Rightarrow> (contract_exc, specialist_handoff) result" where
  "SpecialistHandoff_from_dict env data =
     bindE (validate_contract env data (Some ''specialist_handoff'')) (\<lambda>_.
     bindE (str_field data ''schema_version'') (\<lambda>v_schema_version.
     bindE (str_field data ''handoff_id'') (\<lambda>v_handoff_id.
     bindE (str_field data ''engagement_id'') (\<lambda>v_engagement_id.
     bindE (str_field data ''action_plan_id'') (\<lambda>v_action_plan_id.
     bindE (str_field data ''status'') (\<lambda>v_status.
     bindE (field data ''sender'') (\<lambda>v_sender.
     bindE (field data ''recipient'') (\<lambda>v_recipient.
     bindE (field data ''task'') (\<lambda>v_task.
     bindE (str_field data ''material_plan_digest'') (\<lambda>v_material_plan_digest.
     bindE (str_field data ''approval_status'') (\<lambda>v_approval_status.
     bindE (str_field data ''created_at'') (\<lambda>v_created_at.
     bindE (field data ''transition_log'') (\<lambda>v_transition_log.
       Inr \<lparr>sh_schema_version = v_schema_version, sh_handoff_id = v_handoff_id, sh_engagement_id = v_engagement_id, sh_action_plan_id = v_action_plan_id, sh_status = v_status, sh_sender = v_sender, sh_recipient = v_recipient, sh_task = v_task, sh_material_plan_digest = v_material_plan_digest, sh_approval_status = v_approval_status, sh_created_at = v_created_at, sh_transition_log = v_transition_log, sh_evidence = get_or_none data ''evidence'', sh_rejection_reason = get_or_none data ''rejection_reason''\<rparr>)))))))))))))"

text \<open>\<open>now_iso\<close> is what \<^verbatim>\<open>utc_now()\<close> returns. The log entry is built before the status changes.\<close>

definition log_entry :: "string \<Rightarrow> string \<Rightarrow> string \<Rightarrow> string \<Rightarrow> string option \<Rightarrow> json" where
  "log_entry now_iso from_status to_status actor notes =
     JObj ([(''from_status'', JStr from_status), (''to_status'', JStr to_status), (''actor'', JStr actor), (''timestamp'', JStr now_iso)]
       @ (case notes of None \<Rightarrow> [] | Some n \<Rightarrow> if n = [] then [] else [(''notes'', JStr n)]))"

definition SpecialistHandoff_transition_to ::
  "string \<Rightarrow> string \<Rightarrow> string \<Rightarrow> string option \<Rightarrow> specialist_handoff \<Rightarrow> (specialist_handoff, contract_exc, unit) outcome" where
  "SpecialistHandoff_transition_to now_iso next_state actor notes x =
     (case moved ''specialist_handoff'' (sh_status x) next_state of
        Inl e \<Rightarrow> (Inl e, x)
      | Inr st \<Rightarrow>
          (case sh_transition_log x of
             JList entries \<Rightarrow> (Inr (), x\<lparr>sh_transition_log := JList (entries @ [log_entry now_iso (sh_status x) st actor notes]), sh_status := st\<rparr>)
           | _ \<Rightarrow> (Inl (Evidence ValueTypeError), x)))"

section \<open>LaboratoryEnvironment\<close>

record laboratory_environment =
  lab_schema_version :: string
  lab_environment_id :: string
  lab_environment_type :: string
  lab_status :: string
  lab_platform :: json
  lab_tool_matrix :: json
  lab_isolation :: json
  lab_canary :: json
  lab_reset_configuration :: json
  lab_owner :: string
  lab_created_at :: string
  lab_updated_at :: string

definition LaboratoryEnvironment_to_dict :: "laboratory_environment \<Rightarrow> dict" where
  "LaboratoryEnvironment_to_dict x = [
     (''schema_version'', JStr (lab_schema_version x)),
     (''environment_id'', JStr (lab_environment_id x)),
     (''environment_type'', JStr (lab_environment_type x)),
     (''status'', JStr (lab_status x)),
     (''platform'', lab_platform x),
     (''tool_matrix'', lab_tool_matrix x),
     (''isolation'', lab_isolation x),
     (''canary'', lab_canary x),
     (''reset_configuration'', lab_reset_configuration x),
     (''owner'', JStr (lab_owner x)),
     (''created_at'', JStr (lab_created_at x)),
     (''updated_at'', JStr (lab_updated_at x))]"

definition LaboratoryEnvironment_from_dict :: "validator \<Rightarrow> dict \<Rightarrow> (contract_exc, laboratory_environment) result" where
  "LaboratoryEnvironment_from_dict env data =
     bindE (validate_contract env data (Some ''laboratory_environment'')) (\<lambda>_.
     bindE (str_field data ''schema_version'') (\<lambda>v_schema_version.
     bindE (str_field data ''environment_id'') (\<lambda>v_environment_id.
     bindE (str_field data ''environment_type'') (\<lambda>v_environment_type.
     bindE (str_field data ''status'') (\<lambda>v_status.
     bindE (field data ''platform'') (\<lambda>v_platform.
     bindE (field data ''tool_matrix'') (\<lambda>v_tool_matrix.
     bindE (field data ''isolation'') (\<lambda>v_isolation.
     bindE (field data ''canary'') (\<lambda>v_canary.
     bindE (field data ''reset_configuration'') (\<lambda>v_reset_configuration.
     bindE (str_field data ''owner'') (\<lambda>v_owner.
     bindE (str_field data ''created_at'') (\<lambda>v_created_at.
     bindE (str_field data ''updated_at'') (\<lambda>v_updated_at.
       Inr \<lparr>lab_schema_version = v_schema_version, lab_environment_id = v_environment_id, lab_environment_type = v_environment_type, lab_status = v_status, lab_platform = v_platform, lab_tool_matrix = v_tool_matrix, lab_isolation = v_isolation, lab_canary = v_canary, lab_reset_configuration = v_reset_configuration, lab_owner = v_owner, lab_created_at = v_created_at, lab_updated_at = v_updated_at\<rparr>)))))))))))))"

definition LaboratoryEnvironment_transition_to ::
  "string \<Rightarrow> string \<Rightarrow> laboratory_environment \<Rightarrow> (laboratory_environment, contract_exc, unit) outcome" where
  "LaboratoryEnvironment_transition_to now_iso next_state x =
     (case moved ''laboratory_environment'' (lab_status x) next_state of
        Inl e \<Rightarrow> (Inl e, x)
      | Inr st \<Rightarrow> (Inr (), x\<lparr>lab_status := st, lab_updated_at := now_iso\<rparr>))"

end
