(* ===== verification/Models_Props.thy ===== *)
theory Models_Props
  imports Models Contracts_Props "HOL-Library.Multiset"
begin

text \<open>
  Freezing loses nothing, the guarded attributes of an immutable object never change, a plan's digest
  is the digest of the snapshot its approval covers, and documents and objects convert into each other
  without loss.
\<close>

section \<open>Frozen values\<close>

lemma thaw_freeze [simp]: "thaw (freeze v) = v"
proof (induction v)
  case (JObj d)
  then have "thaw (freeze v) = v" if "(k, v) \<in> set d" for k v
    using that by (fastforce simp: snds.simps)
  then show ?case by (auto intro!: map_idI)
qed (auto intro: map_idI)

fun atomic :: "json \<Rightarrow> bool" where
  "atomic (JList vs) = False"
| "atomic (JObj d) = False"
| "atomic v = True"

primrec frozen_ok :: "frozen \<Rightarrow> bool" where
  "frozen_ok (FAtom v) = atomic v"
| "frozen_ok (FTuple vs) = list_all (\<lambda>b. b) (map frozen_ok vs)"
| "frozen_ok (FMap d) = list_all snd (map (map_prod id frozen_ok) d)"

lemma frozen_ok_freeze [simp]: "frozen_ok (freeze v)"
  by (induction v) (auto simp: list_all_iff)

lemma freeze_atomic: "atomic v \<Longrightarrow> freeze v = FAtom v"
  by (cases v) auto

lemma freeze_thaw: "frozen_ok f \<Longrightarrow> freeze (thaw f) = f"
proof (induction f)
  case (FAtom v)
  then show ?case by (simp add: freeze_atomic)
next
  case (FTuple vs)
  then show ?case by (auto simp: list_all_iff intro!: map_idI)
next
  case (FMap d)
  then have "freeze (thaw v) = v" if "(k, v) \<in> set d" for k v
    using that by (fastforce simp: list_all_iff)
  then show ?case by (auto intro!: map_idI)
qed

section \<open>Attribute guards\<close>

text \<open>The guarded attributes that are set, and their values: what no operation may change.\<close>

definition guarded_kept :: "guards \<Rightarrow> (string \<times> 'v) list \<Rightarrow> (string \<times> 'v) list \<Rightarrow> bool" where
  "guarded_kept g attrs attrs' \<longleftrightarrow>
     (\<forall>k \<in> set (guarded g). \<forall>v. dict_get attrs k = Some v \<longrightarrow> dict_get attrs' k = Some v)"

lemma dict_get_filter: "k' \<noteq> k \<Longrightarrow> dict_get (filter (\<lambda>(j, _). j \<noteq> k') d) k = dict_get d k"
  by (induction d) auto

lemma attribute_step_kept: "guarded_kept g attrs (snd (attribute_step g x attrs))"
proof (cases x)
  case (SetAttr k v)
  have "\<not> (k \<in> set (guarded g) \<and> k \<in> dict_keys attrs) \<Longrightarrow> guarded_kept g attrs (dict_set k v attrs)"
    by (auto simp: guarded_kept_def dict_get_set dict_get_None_iff [symmetric])
  then show ?thesis by (auto simp: SetAttr setattr_def guarded_kept_def)
next
  case (DelAttr k)
  have "k \<notin> set (guarded g) \<Longrightarrow> guarded_kept g attrs (filter (\<lambda>(j, _). j \<noteq> k) attrs)"
    unfolding guarded_kept_def by (metis dict_get_filter)
  then show ?thesis by (auto simp: DelAttr delattr_def guarded_kept_def)
qed

interpretation attributes: guarded_machine "attribute_step g" "\<lambda>_. True" "guarded_kept g" for g :: guards
  by unfold_locales (simp_all add: attribute_step_kept, auto simp: guarded_kept_def)

text \<open>
  No sequence of attribute assignments and deletions changes or removes a field of an approved
  action plan that is in its list of immutable fields once it is set, in whatever order the operations
  come and whether or not some of them fail.
\<close>

theorem plan_fields_immutable:
  assumes "dict_get attrs k = Some v" "k \<in> set (guarded ActionPlan_guards)"
  shows "dict_get (run_ops (attribute_step ActionPlan_guards) ops attrs) k = Some v"
  using attributes.run_mono [OF TrueI, of ActionPlan_guards attrs ops] assms by (simp add: guarded_kept_def)

theorem plan_fields_immutable_witness:
  "dict_get (run_ops (attribute_step ActionPlan_guards)
     [SetAttr ''plan_digest'' (2 :: int), DelAttr ''plan_digest'', SetAttr ''note'' 3, SetAttr ''plan_digest'' 4]
     [(''plan_digest'', 1)]) ''plan_digest'' = Some 1 \<and>
   dict_get (run_ops (attribute_step ActionPlan_guards) [SetAttr ''note'' (3 :: int), DelAttr ''note''] [(''plan_digest'', 1)]) ''note'' = None"
proof -
  have "dict_get (run_ops (attribute_step ActionPlan_guards) [SetAttr ''note'' (3 :: int), DelAttr ''note''] [(''plan_digest'', 1)]) ''note'' = None"
    by code_simp
  then show ?thesis
    using plan_fields_immutable [of "[(''plan_digest'', 1 :: int)]" "''plan_digest''" 1
        "[SetAttr ''plan_digest'' (2 :: int), DelAttr ''plan_digest'', SetAttr ''note'' 3, SetAttr ''plan_digest'' 4]"]
    by (simp add: ActionPlan_guards_def)
qed

section \<open>Plans and their snapshots\<close>

lemma str_field_iff: "str_field data k = Inr s \<longleftrightarrow> dict_get data k = Some (JStr s)"
  by (cases "dict_get data k"; cases "the (dict_get data k)") (auto simp: str_field_def field_def item_def liftE_def)

lemma plan_content_snapshot: "plan_content (ActionPlan_to_dict p) = JObj (approved_snapshot False p)"
  by (simp add: plan_content_def without_key_def ActionPlan_to_dict_def approved_snapshot_def offline_item_def split: option.split)

definition plan_wf :: "action_plan \<Rightarrow> bool" where
  "plan_wf p \<longleftrightarrow> frozen_ok (plan_operations p) \<and> frozen_ok (plan_limits p) \<and> frozen_ok (plan_credential_references p) \<and>
     frozen_ok (plan_platform_prerequisites p) \<and> (plan_platform_prerequisites p = FTuple [] \<or> truthy (thaw (plan_platform_prerequisites p))) \<and>
     frozen_ok (plan_batch p) \<and> truthy (thaw (plan_batch p)) \<and>
     (\<forall>f. plan_offline_research p = Some f \<longrightarrow> frozen_ok f \<and> thaw f \<noteq> JNull) \<and>
     lc_consumed_at (plan_lifecycle p) = None \<and> lc_consumed_by_worker (plan_lifecycle p) = None"

lemma batch_truthy: "batch_or_default b ops = Inr b' \<Longrightarrow> truthy b'"
  by (auto simp: batch_or_default_def bindE_Inr_iff default_batch_def truthy_def split: if_splits)

lemma ActionPlan_init_wf: "ActionPlan_init a = Inr p \<Longrightarrow> plan_wf p"
  by (auto simp: ActionPlan_init_def bindE_Inr_iff plan_wf_def or_empty_def freeze_opt_def dest: batch_truthy split: if_splits)

lemma ActionPlan_transition_wf: "plan_wf p \<Longrightarrow> plan_wf (snd (ActionPlan_transition_to st p))"
  by (auto simp: ActionPlan_transition_to_def plan_wf_def split: sum.split)

lemma ActionPlan_transition_snapshot: "approved_snapshot b (snd (ActionPlan_transition_to st p)) = approved_snapshot b p"
  by (simp add: ActionPlan_transition_to_def approved_snapshot_def offline_item_def split: sum.split)

lemma get_or_none_simps [simp]:
  "get_or_none [] k = JNull"
  "get_or_none ((k', v) # d) k = (if k' = k then v else get_or_none d k)"
  by (simp_all add: get_or_none_def)

lemma dict_get_append: "dict_get (d @ d') k = (case dict_get d k of None \<Rightarrow> dict_get d' k | Some v \<Rightarrow> Some v)"
  by (induction d) auto

lemma get_or_none_opt [simp]: "get_or_none (opt_item k v) k' = (if k = k' then v else JNull)"
  by (simp add: opt_item_def)

lemma get_or_none_opt_append:
  "get_or_none (opt_item k v @ d) k' = (if k = k' \<and> v \<noteq> JNull then v else get_or_none d k')"
  by (simp add: opt_item_def)

lemma str_field_simps:
  "str_field ((k', v) # d) k = (if k' = k then (case v of JStr s \<Rightarrow> Inr s | _ \<Rightarrow> Inl (Evidence ValueTypeError)) else str_field d k)"
  by (simp add: str_field_def field_def item_def liftE_def)

lemma field_simps_dict: "field ((k', v) # d) k = (if k' = k then Inr v else field d k)"
  by (simp add: field_def item_def liftE_def)

lemmas read_back = str_field_simps field_simps_dict get_or_none_opt_append

lemma Engagement_read_back:
  "validate_contract env (Engagement_to_dict x) (Some ''engagement'') = Inr r \<Longrightarrow> Engagement_from_dict env (Engagement_to_dict x) = Inr x"
  unfolding Engagement_from_dict_def by (simp add: Engagement_to_dict_def read_back)

lemma Scenario_read_back:
  "validate_contract env (Scenario_to_dict x) (Some ''scenario'') = Inr r \<Longrightarrow> Scenario_from_dict env (Scenario_to_dict x) = Inr x"
  unfolding Scenario_from_dict_def by (simp add: Scenario_to_dict_def read_back)

lemma RunResult_read_back:
  "validate_contract env (RunResult_to_dict x) (Some ''run_result'') = Inr r \<Longrightarrow> RunResult_from_dict env (RunResult_to_dict x) = Inr x"
  unfolding RunResult_from_dict_def by (simp add: RunResult_to_dict_def read_back)

lemma Finding_read_back:
  "validate_contract env (Finding_to_dict x) (Some ''finding'') = Inr r \<Longrightarrow> Finding_from_dict env (Finding_to_dict x) = Inr x"
  unfolding Finding_from_dict_def by (simp add: Finding_to_dict_def read_back)

lemma CleanupReceipt_read_back:
  "validate_contract env (CleanupReceipt_to_dict x) (Some ''cleanup_receipt'') = Inr r \<Longrightarrow>
   CleanupReceipt_from_dict env (CleanupReceipt_to_dict x) = Inr x"
  unfolding CleanupReceipt_from_dict_def by (simp add: CleanupReceipt_to_dict_def read_back)

lemma SpecialistHandoff_read_back:
  "validate_contract env (SpecialistHandoff_to_dict x) (Some ''specialist_handoff'') = Inr r \<Longrightarrow>
   SpecialistHandoff_from_dict env (SpecialistHandoff_to_dict x) = Inr x"
  unfolding SpecialistHandoff_from_dict_def by (simp add: SpecialistHandoff_to_dict_def read_back)

lemma LaboratoryEnvironment_read_back:
  "validate_contract env (LaboratoryEnvironment_to_dict x) (Some ''laboratory_environment'') = Inr r \<Longrightarrow>
   LaboratoryEnvironment_from_dict env (LaboratoryEnvironment_to_dict x) = Inr x"
  unfolding LaboratoryEnvironment_from_dict_def by (simp add: LaboratoryEnvironment_to_dict_def read_back)

definition thaw_opt :: "frozen option \<Rightarrow> json" where
  "thaw_opt f = (case f of Some g \<Rightarrow> thaw g | None \<Rightarrow> JNull)"

lemma get_or_none_offline:
  "get_or_none (offline_item p) k = (if k = ''offline_research'' then thaw_opt (plan_offline_research p) else JNull)"
  by (auto simp: offline_item_def thaw_opt_def split: option.split)

lemma ActionPlan_fields:
  assumes "validate_contract env (ActionPlan_to_dict p) (Some ''action_plan'') = Inr r"
  shows "ActionPlan_from_dict env (ActionPlan_to_dict p) =
    ActionPlan_init \<lparr>pa_schema_version = plan_schema_version p, pa_plan_id = plan_id p, pa_engagement_id = plan_engagement_id p,
      pa_scenario_id = plan_scenario_id p, pa_status = plan_status p, pa_target = plan_target p, pa_specialist_id = plan_specialist_id p,
      pa_operations = thaw (plan_operations p), pa_limits = thaw (plan_limits p),
      pa_credential_references = thaw (plan_credential_references p), pa_plan_digest = plan_digest p, pa_created_at = plan_created_at p,
      pa_platform_prerequisites = thaw (plan_platform_prerequisites p), pa_batch = thaw (plan_batch p),
      pa_offline_research = thaw_opt (plan_offline_research p)\<rparr>"
  using assms unfolding ActionPlan_from_dict_def
  by (simp add: ActionPlan_to_dict_def read_back get_or_none_offline)

lemma plan_init_thaw:
  assumes "plan_wf p"
  shows "ActionPlan_init \<lparr>pa_schema_version = plan_schema_version p, pa_plan_id = plan_id p, pa_engagement_id = plan_engagement_id p,
      pa_scenario_id = plan_scenario_id p, pa_status = plan_status p, pa_target = plan_target p, pa_specialist_id = plan_specialist_id p,
      pa_operations = thaw (plan_operations p), pa_limits = thaw (plan_limits p),
      pa_credential_references = thaw (plan_credential_references p), pa_plan_digest = plan_digest p, pa_created_at = plan_created_at p,
      pa_platform_prerequisites = thaw (plan_platform_prerequisites p), pa_batch = thaw (plan_batch p),
      pa_offline_research = thaw_opt (plan_offline_research p)\<rparr> = Inr p"
proof -
  have "freeze (or_empty (thaw (plan_platform_prerequisites p))) = plan_platform_prerequisites p"
    using assms by (auto simp: plan_wf_def or_empty_def freeze_thaw truthy_def)
  moreover have "freeze_opt (thaw_opt (plan_offline_research p)) = plan_offline_research p"
    using assms by (auto simp: plan_wf_def freeze_opt_def thaw_opt_def freeze_thaw split: option.split)
  moreover have "\<lparr>lc_status = plan_status p, lc_consumed_at = None, lc_consumed_by_worker = None\<rparr> = plan_lifecycle p"
    using assms by (simp add: plan_wf_def plan_status_def)
  moreover have "freeze (thaw (plan_operations p)) = plan_operations p" "freeze (thaw (plan_limits p)) = plan_limits p"
    "freeze (thaw (plan_credential_references p)) = plan_credential_references p" "freeze (thaw (plan_batch p)) = plan_batch p"
    "truthy (thaw (plan_batch p))" using assms by (simp_all add: plan_wf_def freeze_thaw)
  ultimately show ?thesis by (simp add: ActionPlan_init_def batch_or_default_def)
qed

lemma opt_str_field_append:
  "opt_str_field (opt_str_item k v @ d) k' = (if k = k' \<and> v \<noteq> None then Inr v else opt_str_field d k')"
  by (auto simp: opt_str_field_def opt_str_item_def split: option.split)

lemma opt_str_field_simps [simp]:
  "opt_str_field [] k = Inr None"
  "k' \<noteq> k \<Longrightarrow> opt_str_field ((k', v) # d) k = opt_str_field d k"
  by (simp_all add: opt_str_field_def)

definition auth_wf :: "execution_authorization \<Rightarrow> bool" where
  "auth_wf a \<longleftrightarrow> frozen_ok (auth_bound_parameters a)"

lemma opt_str_field_last: "opt_str_field (opt_str_item k v) k' = (if k = k' then Inr v else Inr None)"
  by (auto simp: opt_str_field_def opt_str_item_def split: option.split)

lemma ExecutionAuthorization_read_back:
  assumes "validate_contract env (ExecutionAuthorization_to_dict a) (Some ''execution_authorization'') = Inr r" "auth_wf a"
  shows "ExecutionAuthorization_from_dict env (ExecutionAuthorization_to_dict a) = Inr a"
  using assms unfolding ExecutionAuthorization_from_dict_def
  by (simp add: ExecutionAuthorization_to_dict_def read_back opt_str_field_append opt_str_field_last freeze_thaw auth_wf_def
      auth_status_def auth_consumed_at_def auth_consumed_by_worker_def)

text \<open>Reading a document back gives the object exactly when the document is accepted, and the refusal otherwise.\<close>

definition read_if_accepted :: "(contract_exc, dict) result \<Rightarrow> 'a \<Rightarrow> (contract_exc, 'a) result" where
  "read_if_accepted answer x = (case answer of Inl e \<Rightarrow> Inl e | Inr _ \<Rightarrow> Inr x)"

lemma Engagement_exact: "Engagement_from_dict env (Engagement_to_dict e) = read_if_accepted (validate_contract env (Engagement_to_dict e) (Some ''engagement'')) e"
  by (cases "validate_contract env (Engagement_to_dict e) (Some ''engagement'')")
    (simp_all add: read_if_accepted_def Engagement_read_back, simp add: Engagement_from_dict_def)

lemma Scenario_exact: "Scenario_from_dict env (Scenario_to_dict s) = read_if_accepted (validate_contract env (Scenario_to_dict s) (Some ''scenario'')) s"
  by (cases "validate_contract env (Scenario_to_dict s) (Some ''scenario'')")
    (simp_all add: read_if_accepted_def Scenario_read_back, simp add: Scenario_from_dict_def)

lemma RunResult_exact: "RunResult_from_dict env (RunResult_to_dict rr) = read_if_accepted (validate_contract env (RunResult_to_dict rr) (Some ''run_result'')) rr"
  by (cases "validate_contract env (RunResult_to_dict rr) (Some ''run_result'')")
    (simp_all add: read_if_accepted_def RunResult_read_back, simp add: RunResult_from_dict_def)

lemma Finding_exact: "Finding_from_dict env (Finding_to_dict f) = read_if_accepted (validate_contract env (Finding_to_dict f) (Some ''finding'')) f"
  by (cases "validate_contract env (Finding_to_dict f) (Some ''finding'')")
    (simp_all add: read_if_accepted_def Finding_read_back, simp add: Finding_from_dict_def)

lemma CleanupReceipt_exact: "CleanupReceipt_from_dict env (CleanupReceipt_to_dict c) = read_if_accepted (validate_contract env (CleanupReceipt_to_dict c) (Some ''cleanup_receipt'')) c"
  by (cases "validate_contract env (CleanupReceipt_to_dict c) (Some ''cleanup_receipt'')")
    (simp_all add: read_if_accepted_def CleanupReceipt_read_back, simp add: CleanupReceipt_from_dict_def)

lemma SpecialistHandoff_exact: "SpecialistHandoff_from_dict env (SpecialistHandoff_to_dict h) = read_if_accepted (validate_contract env (SpecialistHandoff_to_dict h) (Some ''specialist_handoff'')) h"
  by (cases "validate_contract env (SpecialistHandoff_to_dict h) (Some ''specialist_handoff'')")
    (simp_all add: read_if_accepted_def SpecialistHandoff_read_back, simp add: SpecialistHandoff_from_dict_def)

lemma LaboratoryEnvironment_exact: "LaboratoryEnvironment_from_dict env (LaboratoryEnvironment_to_dict l) = read_if_accepted (validate_contract env (LaboratoryEnvironment_to_dict l) (Some ''laboratory_environment'')) l"
  by (cases "validate_contract env (LaboratoryEnvironment_to_dict l) (Some ''laboratory_environment'')")
    (simp_all add: read_if_accepted_def LaboratoryEnvironment_read_back, simp add: LaboratoryEnvironment_from_dict_def)

lemma ActionPlan_exact:
  assumes "plan_wf p"
  shows "ActionPlan_from_dict env (ActionPlan_to_dict p) = read_if_accepted (validate_contract env (ActionPlan_to_dict p) (Some ''action_plan'')) p"
proof (cases "validate_contract env (ActionPlan_to_dict p) (Some ''action_plan'')")
  case (Inr r)
  from ActionPlan_fields [OF this] plan_init_thaw [OF assms] show ?thesis by (simp only: read_if_accepted_def Inr sum.case)
qed (simp add: ActionPlan_from_dict_def read_if_accepted_def)

lemma ExecutionAuthorization_exact:
  assumes "auth_wf a"
  shows "ExecutionAuthorization_from_dict env (ExecutionAuthorization_to_dict a) =
    read_if_accepted (validate_contract env (ExecutionAuthorization_to_dict a) (Some ''execution_authorization'')) a"
proof (cases "validate_contract env (ExecutionAuthorization_to_dict a) (Some ''execution_authorization'')")
  case (Inr r)
  from ExecutionAuthorization_read_back [OF this assms] show ?thesis by (simp only: read_if_accepted_def Inr sum.case)
qed (simp add: ExecutionAuthorization_from_dict_def read_if_accepted_def)

lemma run_transitions_wf: "plan_wf p \<Longrightarrow> plan_wf (run_ops ActionPlan_transition_to sts p)"
  by (induction sts arbitrary: p) (simp_all add: ActionPlan_transition_wf)

text \<open>
  C40. Reading an object's document gives back the object exactly when the document is an accepted contract of its
  kind; otherwise it raises what the validation of the document raises. This holds of every engagement, scenario, run
  result, finding, cleanup receipt, handoff and laboratory environment, of a plan as its constructor built it and status
  transitions left it, and of an authorization whose bound parameters are frozen, as its constructor leaves them.
\<close>

theorem contracts_round_trip:
  assumes "ActionPlan_init args = Inr p0" "p = run_ops ActionPlan_transition_to sts p0" "auth_bound_parameters a = freeze v"
  shows "ActionPlan_from_dict env (ActionPlan_to_dict p) = read_if_accepted (validate_contract env (ActionPlan_to_dict p) (Some ''action_plan'')) p \<and>
   ExecutionAuthorization_from_dict env (ExecutionAuthorization_to_dict a) = read_if_accepted (validate_contract env (ExecutionAuthorization_to_dict a) (Some ''execution_authorization'')) a \<and>
   Engagement_from_dict env (Engagement_to_dict e) = read_if_accepted (validate_contract env (Engagement_to_dict e) (Some ''engagement'')) e \<and>
   Scenario_from_dict env (Scenario_to_dict s) = read_if_accepted (validate_contract env (Scenario_to_dict s) (Some ''scenario'')) s \<and>
   RunResult_from_dict env (RunResult_to_dict rr) = read_if_accepted (validate_contract env (RunResult_to_dict rr) (Some ''run_result'')) rr \<and>
   Finding_from_dict env (Finding_to_dict f) = read_if_accepted (validate_contract env (Finding_to_dict f) (Some ''finding'')) f \<and>
   CleanupReceipt_from_dict env (CleanupReceipt_to_dict c) = read_if_accepted (validate_contract env (CleanupReceipt_to_dict c) (Some ''cleanup_receipt'')) c \<and>
   SpecialistHandoff_from_dict env (SpecialistHandoff_to_dict h) = read_if_accepted (validate_contract env (SpecialistHandoff_to_dict h) (Some ''specialist_handoff'')) h \<and>
   LaboratoryEnvironment_from_dict env (LaboratoryEnvironment_to_dict l) = read_if_accepted (validate_contract env (LaboratoryEnvironment_to_dict l) (Some ''laboratory_environment'')) l"
proof -
  have "plan_wf p" using run_transitions_wf [OF ActionPlan_init_wf [OF assms(1)]] assms(2) by simp
  moreover have "auth_wf a" using assms(3) by (simp add: auth_wf_def)
  ultimately show ?thesis
    by (intro conjI ActionPlan_exact ExecutionAuthorization_exact Engagement_exact Scenario_exact RunResult_exact Finding_exact CleanupReceipt_exact SpecialistHandoff_exact LaboratoryEnvironment_exact)
qed

section \<open>Created plans\<close>

definition demo_args :: plan_args where
  "demo_args = \<lparr>pa_schema_version = [], pa_plan_id = [], pa_engagement_id = ''eng-demo'', pa_scenario_id = ''scen-demo'', pa_status = ''draft'',
     pa_target = ''t'', pa_specialist_id = ''s'', pa_operations = JList [JStr ''op''], pa_limits = JObj [], pa_credential_references = JList [],
     pa_plan_digest = [], pa_created_at = ''c'', pa_platform_prerequisites = JNull, pa_batch = JNull, pa_offline_research = JNull\<rparr>"

definition demo_action_plan :: action_plan where
  "demo_action_plan = \<lparr>plan_schema_version = ''cops.action-plan/v1'', plan_id = ''plan-demo'', plan_engagement_id = ''eng-demo'',
     plan_scenario_id = ''scen-demo'', plan_target = ''t'', plan_specialist_id = ''s'', plan_operations = FTuple [FAtom (JStr ''op'')],
     plan_limits = FMap [], plan_credential_references = FTuple [], plan_digest = [CHR ''{'', dquote, CHR ''b''], plan_created_at = ''c'',
     plan_platform_prerequisites = FTuple [],
     plan_batch = FMap [(''mode'', FAtom (JStr ''sequential'')), (''max_operations'', FAtom (JInt 1)), (''fail_fast'', FAtom (JBool True))],
     plan_offline_research = None, plan_lifecycle = \<lparr>lc_status = ''draft'', lc_consumed_at = None, lc_consumed_by_worker = None\<rparr>\<rparr>"

lemma demo_created: "ActionPlan_create demo_validator (Some ''plan-demo'') demo_args = Inr demo_action_plan"
  by code_simp

lemma ActionPlan_create_init:
  assumes "ActionPlan_create env gid a = Inr p"
  obtains args where "ActionPlan_init args = Inr p"
  using assms unfolding ActionPlan_create_def Let_def by (elim bindE_InrE) (simp only: sum.inject)

lemma ActionPlan_createD:
  assumes "ActionPlan_create env gid a = Inr p"
  shows "plan_wf p" "\<exists>r. validate_contract env (ActionPlan_to_dict p) (Some ''action_plan'') = Inr r"
    "case gid of Some i \<Rightarrow> plan_id p = i
     | None \<Rightarrow> \<exists>batch h. batch_or_default (pa_batch a) (pa_operations a) = Inr batch \<and>
         digest (v_sha env) (JObj (created_snapshot a batch)) DEFAULT_BYTES DEFAULT_DEPTH = Inr h \<and> plan_id p = ''plan-cops-'' @ take 24 h"
proof -
  from assms obtain batch pid h r where *: "batch_or_default (pa_batch a) (pa_operations a) = Inr batch"
    "(case gid of Some i \<Rightarrow> Inr i
        | None \<Rightarrow> bindE (liftE (build_action_plan_digest (v_sha env) (created_snapshot a batch) DEFAULT_BYTES)) (\<lambda>h. Inr (''plan-cops-'' @ take 24 h))) = Inr pid"
    "ActionPlan_init (a\<lparr>pa_schema_version := ''cops.action-plan/v1'', pa_plan_id := pid, pa_plan_digest := h, pa_batch := batch\<rparr>) = Inr p"
    "validate_contract env (ActionPlan_to_dict p) (Some ''action_plan'') = Inr r"
    unfolding ActionPlan_create_def Let_def by (elim bindE_InrE) (simp only: sum.inject)
  show "plan_wf p" by (rule ActionPlan_init_wf [OF *(3)])
  show "\<exists>r. validate_contract env (ActionPlan_to_dict p) (Some ''action_plan'') = Inr r" using *(4) by blast
  have "plan_id p = pid" using *(3) by (auto simp: ActionPlan_init_def bindE_Inr_iff)
  with *(1,2) show "case gid of Some i \<Rightarrow> plan_id p = i
     | None \<Rightarrow> \<exists>batch h. batch_or_default (pa_batch a) (pa_operations a) = Inr batch \<and>
         digest (v_sha env) (JObj (created_snapshot a batch)) DEFAULT_BYTES DEFAULT_DEPTH = Inr h \<and> plan_id p = ''plan-cops-'' @ take 24 h"
    by (auto simp: build_action_plan_digest_def elim!: bindE_InrE split: option.splits)
qed

lemma validated_plan_digest:
  assumes "validate_contract env (ActionPlan_to_dict p) (Some ''action_plan'') = Inr r"
  shows "digest (v_sha env) (JObj (approved_snapshot False p)) DEFAULT_BYTES DEFAULT_DEPTH = Inr (plan_digest p)"
proof -
  have "validate_contract env (ActionPlan_to_dict p) (Some (kind_name Action_plan_k)) = Inr r" using assms by simp
  from validate_contract_kind(3) [OF this] have "action_plan_rules (v_sha env) (ActionPlan_to_dict p) DEFAULT_BYTES = Inr ()"
    by (simp only: invariant_rules.simps)
  from action_plan_rulesD [OF this] obtain h where
    "digest (v_sha env) (JObj (approved_snapshot False p)) DEFAULT_BYTES DEFAULT_DEPTH = Inr h"
    "dict_get (ActionPlan_to_dict p) ''plan_digest'' = Some (JStr h)" unfolding plan_content_snapshot by blast
  then show ?thesis by (simp add: ActionPlan_to_dict_def)
qed

lemma run_transitions_snapshot: "approved_snapshot b (run_ops ActionPlan_transition_to sts p) = approved_snapshot b p"
  by (induction sts arbitrary: p) (simp_all add: ActionPlan_transition_snapshot)

lemma run_transitions_digest: "plan_digest (run_ops ActionPlan_transition_to sts p) = plan_digest p"
proof (induction sts arbitrary: p)
  case (Cons st sts)
  have "plan_digest (snd (ActionPlan_transition_to st p)) = plan_digest p"
    by (simp add: ActionPlan_transition_to_def split: sum.split)
  with Cons show ?case by simp
qed simp

text \<open>
  A created plan stays bound to its content: whatever lifecycle moves are attempted on it
  afterwards, its digest is the digest of the snapshot that approval covers, and an identity the
  caller leaves open is derived from a digest of every other planning input.
\<close>

theorem created_plan_bound:
  assumes "ActionPlan_create env gid a = Inr p"
  shows "digest (v_sha env) (JObj (approved_snapshot False (run_ops ActionPlan_transition_to sts p))) DEFAULT_BYTES DEFAULT_DEPTH =
      Inr (plan_digest (run_ops ActionPlan_transition_to sts p)) \<and>
    (gid = None \<longrightarrow> (\<exists>batch h. batch_or_default (pa_batch a) (pa_operations a) = Inr batch \<and>
         digest (v_sha env) (JObj (created_snapshot a batch)) DEFAULT_BYTES DEFAULT_DEPTH = Inr h \<and> plan_id p = ''plan-cops-'' @ take 24 h))"
  using ActionPlan_createD [OF assms] validated_plan_digest
  by (auto simp: run_transitions_snapshot run_transitions_digest split: option.splits)

theorem created_plan_bound_witness:
  "ActionPlan_create demo_validator (Some ''plan-demo'') demo_args = Inr demo_action_plan \<and>
   digest demo_sha (JObj (approved_snapshot False (run_ops ActionPlan_transition_to [''pending_approval'', ''fulfilled'', ''approved''] demo_action_plan)))
     DEFAULT_BYTES DEFAULT_DEPTH = Inr (plan_digest (run_ops ActionPlan_transition_to [''pending_approval'', ''fulfilled'', ''approved''] demo_action_plan)) \<and>
   plan_status (run_ops ActionPlan_transition_to [''pending_approval'', ''fulfilled'', ''approved''] demo_action_plan) = ''approved''"
proof -
  have "plan_status (run_ops ActionPlan_transition_to [''pending_approval'', ''fulfilled'', ''approved''] demo_action_plan) = ''approved''"
    by code_simp
  moreover have "v_sha demo_validator = demo_sha" by (simp add: demo_validator_def)
  ultimately show ?thesis using created_plan_bound [OF demo_created, of "[''pending_approval'', ''fulfilled'', ''approved'']"] demo_created
    by (simp only:)
qed

text \<open>An accepted object of each class.\<close>

definition read_engagement :: engagement where
  "read_engagement = \<lparr>eng_schema_version = ''cops.engagement/v1'', eng_engagement_id = ''eng-demo'', eng_name = ''n'', eng_status = ''active'',
     eng_scope = JObj [], eng_window = JObj [(''started_at'', JStr ''2024-01-01T00:00:00Z''), (''authorized_until_utc'', JStr ''2024-01-02T00:00:00Z'')],
     eng_operator = ''op'', eng_rules_of_engagement = JObj [], eng_created_at = ''c'', eng_metadata = JNull, eng_mode = JStr ''lab'', eng_budget = JNull,
     eng_credential_references = JList []\<rparr>"

definition read_scenario :: scenario where
  "read_scenario = \<lparr>scn_schema_version = ''cops.scenario/v1'', scn_scenario_id = ''scen-demo'', scn_family_id = ''COPS-A'', scn_title = ''t'',
     scn_description = ''d'', scn_mitre_attack = JList [], scn_provenance = JObj [], scn_environment = JNull, scn_safety_profile = JObj []\<rparr>"

definition read_result :: run_result where
  "read_result = \<lparr>rr_schema_version = ''cops.run-result/v1'', rr_result_id = ''res-demo'', rr_plan_id = ''plan-demo'', rr_engagement_id = ''eng-demo'',
     rr_status = ''success'', rr_started_at = ''2024-01-01T00:00:00Z'', rr_finished_at = ''2024-01-02T00:00:00Z'', rr_status_details = JObj [], rr_evidence_records = JList [],
     rr_artifacts = JList [], rr_cleanup_status = ''c'', rr_worker_identity = ''w'', rr_exit_code = JInt 0, rr_offline_research = JNull\<rparr>"

definition read_finding :: finding where
  "read_finding = \<lparr>fnd_schema_version = ''cops.finding/v1'', fnd_finding_id = ''find-demo'', fnd_engagement_id = ''eng-demo'',
     fnd_result_id = ''res-demo'', fnd_scenario_id = ''scen-demo'', fnd_title = ''t'', fnd_severity = ''high'', fnd_classification = ''c'',
     fnd_verification = ''verified'', fnd_confidence = ''high'', fnd_claim = ''c'', fnd_evidence_references = JList [JStr ''ev''],
     fnd_mitre_attack = JList [], fnd_remediation = ''r'', fnd_uncertainty = ''u'', fnd_created_at = ''2024-01-01T00:00:00Z''\<rparr>"

definition read_receipt :: cleanup_receipt where
  "read_receipt = \<lparr>cr_schema_version = ''cops.cleanup-receipt/v1'', cr_receipt_id = ''cln-demo'', cr_plan_id = ''plan-demo'',
     cr_engagement_id = ''eng-demo'', cr_worker_identity = ''w'', cr_status = ''failed'', cr_created_at = ''2024-01-01T00:00:00Z'', cr_completed_at = ''2024-01-02T00:00:00Z'',
     cr_cleaned_effects = JList [], cr_unresolved_effects = JList [JStr ''file''], cr_evidence_hash = ''h''\<rparr>"

definition read_handoff :: specialist_handoff where
  "read_handoff = \<lparr>sh_schema_version = ''cops.specialist-handoff/v1'', sh_handoff_id = ''hnd-demo'', sh_engagement_id = ''eng-demo'',
     sh_action_plan_id = ''plan-demo'', sh_status = ''requested'', sh_sender = JObj [], sh_recipient = JObj [], sh_task = JObj [],
     sh_material_plan_digest = ''d'', sh_approval_status = ''approved'', sh_created_at = ''2024-01-01T00:00:00Z'', sh_transition_log = JList [], sh_evidence = JNull,
     sh_rejection_reason = JNull\<rparr>"

definition read_laboratory :: laboratory_environment where
  "read_laboratory = \<lparr>lab_schema_version = ''cops.laboratory-environment/v1'', lab_environment_id = ''env-lab-demo'', lab_environment_type = ''vm'',
     lab_status = ''ready'', lab_platform = JObj [], lab_tool_matrix = JList [], lab_isolation = JObj [], lab_canary = JObj [],
     lab_reset_configuration = JObj [], lab_owner = ''o'', lab_created_at = ''2024-01-01T00:00:00Z'', lab_updated_at = ''2024-01-02T00:00:00Z''\<rparr>"

definition read_authorization :: execution_authorization where
  "read_authorization = \<lparr>auth_schema_version = ''cops.execution-authorization/v1'', auth_authorization_id = ''auth-demodemo'', auth_action_plan_id = ''plan-demo'',
     auth_plan_digest = ''d'', auth_engagement_id = ''eng-demo'', auth_operator = ''op'', auth_issued_at = ''2024-01-01T00:00:00Z'', auth_authorized_until_utc = ''2024-01-02T00:00:00Z'',
     auth_bound_parameters = freeze (JObj [(''worker_identity'', JStr ''w'')]), auth_approval_mode = ''m'', auth_signature_algorithm = ''hmac-sha256'',
     auth_signing_key_id = ''k'', auth_signature_digest = ''s'',
     auth_lifecycle = \<lparr>lc_status = ''consumed'', lc_consumed_at = Some ''2024-01-01T00:00:00Z'', lc_consumed_by_worker = Some ''w''\<rparr>\<rparr>"

lemma read_authorization_accepted: "is_ok (validate_contract demo_validator (ExecutionAuthorization_to_dict read_authorization) (Some ''execution_authorization''))"
  by code_simp

lemma read_engagement_accepted: "is_ok (validate_contract demo_validator (Engagement_to_dict read_engagement) (Some ''engagement''))"
  by code_simp

lemma read_scenario_accepted: "is_ok (validate_contract demo_validator (Scenario_to_dict read_scenario) (Some ''scenario''))"
  by code_simp

lemma read_result_accepted: "is_ok (validate_contract demo_validator (RunResult_to_dict read_result) (Some ''run_result''))"
  by code_simp

lemma read_finding_accepted: "is_ok (validate_contract demo_validator (Finding_to_dict read_finding) (Some ''finding''))"
  by code_simp

lemma read_receipt_accepted: "is_ok (validate_contract demo_validator (CleanupReceipt_to_dict read_receipt) (Some ''cleanup_receipt''))"
  by code_simp

lemma read_handoff_accepted: "is_ok (validate_contract demo_validator (SpecialistHandoff_to_dict read_handoff) (Some ''specialist_handoff''))"
  by code_simp

lemma read_laboratory_accepted: "is_ok (validate_contract demo_validator (LaboratoryEnvironment_to_dict read_laboratory) (Some ''laboratory_environment''))"
  by code_simp

theorem contracts_round_trip_witness:
  "ActionPlan_from_dict demo_validator (ActionPlan_to_dict demo_action_plan) = Inr demo_action_plan \<and>
   ExecutionAuthorization_from_dict demo_validator (ExecutionAuthorization_to_dict read_authorization) = Inr read_authorization \<and>
   Engagement_from_dict demo_validator (Engagement_to_dict read_engagement) = Inr read_engagement \<and>
   Scenario_from_dict demo_validator (Scenario_to_dict read_scenario) = Inr read_scenario \<and>
   RunResult_from_dict demo_validator (RunResult_to_dict read_result) = Inr read_result \<and>
   Finding_from_dict demo_validator (Finding_to_dict read_finding) = Inr read_finding \<and>
   CleanupReceipt_from_dict demo_validator (CleanupReceipt_to_dict read_receipt) = Inr read_receipt \<and>
   SpecialistHandoff_from_dict demo_validator (SpecialistHandoff_to_dict read_handoff) = Inr read_handoff \<and>
   LaboratoryEnvironment_from_dict demo_validator (LaboratoryEnvironment_to_dict read_laboratory) = Inr read_laboratory"
proof -
  obtain args where init: "ActionPlan_init args = Inr demo_action_plan" using demo_created by (rule ActionPlan_create_init)
  have run: "demo_action_plan = run_ops ActionPlan_transition_to [] demo_action_plan" by simp
  have frozen: "auth_bound_parameters read_authorization = freeze (JObj [(''worker_identity'', JStr ''w'')])"
    by (simp add: read_authorization_def)
  have ok: "\<And>r x. is_ok r \<Longrightarrow> read_if_accepted r x = Inr x" by (auto simp: read_if_accepted_def is_ok_iff)
  have plan: "is_ok (validate_contract demo_validator (ActionPlan_to_dict demo_action_plan) (Some ''action_plan''))"
    using ActionPlan_createD(2) [OF demo_created] by (auto simp: is_ok_iff)
  note accepted = ok [OF plan] ok [OF read_authorization_accepted] ok [OF read_engagement_accepted] ok [OF read_scenario_accepted] ok [OF read_result_accepted] ok [OF read_finding_accepted] ok [OF read_receipt_accepted] ok [OF read_handoff_accepted] ok [OF read_laboratory_accepted]
  note trip = contracts_round_trip [OF init run frozen, of demo_validator read_engagement read_scenario read_result read_finding read_receipt
      read_handoff read_laboratory]
  show ?thesis using trip unfolding accepted .
qed

end
