(* ===== verification/Isoformat.thy ===== *)
theory Isoformat
  imports Pytime Json_Roundtrip
begin

text \<open>
  Printing a UTC time as Python's \<^verbatim>\<open>isoformat(timespec="seconds").replace("+00:00", "Z")\<close> does. A time is
  the number of microseconds since 0001-01-01T00:00:00Z, as in \<^verbatim>\<open>Pytime\<close>; the date comes from the
  day number by the 400, 100, 4 and 1 year cycles of the \<^verbatim>\<open>datetime\<close> module. The main result is that a
  printed time is read back as its whole seconds (\<open>iso_seconds_parse\<close>).
\<close>

definition year_start :: "int \<Rightarrow> int \<times> int" where
  "year_start ordinal =
     (let n = ordinal - 1; n400 = n div 146097; a = n mod 146097; n100 = a div 36524; b = a mod 36524;
          n4 = b div 1461; c = b mod 1461; n1 = c div 365; d = c mod 365;
          y = n400 * 400 + n100 * 100 + n4 * 4 + n1 + 1 in
      if n1 = 4 \<or> n100 = 4 then (y - 1, 365) else (y, d))"

fun month_from :: "nat \<Rightarrow> int \<Rightarrow> int \<Rightarrow> int \<Rightarrow> int \<times> int" where
  "month_from 0 y m d = (m, d)"
| "month_from (Suc k) y m d = (if d < days_in_month y m then (m, d) else month_from k y (m + 1) (d - days_in_month y m))"

definition ord2ymd :: "int \<Rightarrow> int \<times> int \<times> int" where
  "ord2ymd ordinal = (let (y, d) = year_start ordinal; (m, r) = month_from 11 y 1 d in (y, m, r + 1))"

fun digits :: "nat \<Rightarrow> int \<Rightarrow> string" where
  "digits 0 i = []"
| "digits (Suc n) i = digits n (i div 10) @ [digit_char (nat (i mod 10))]"

definition iso_seconds :: "int \<Rightarrow> string" where
  "iso_seconds t =
     (let s = t div 1000000; day = s div 86400; r = s mod 86400; (y, m, d) = ord2ymd (day + 1) in
      digits 4 y @ ''-'' @ digits 2 m @ ''-'' @ digits 2 d @ ''T'' @
      digits 2 (r div 3600) @ '':'' @ digits 2 (r mod 3600 div 60) @ '':'' @ digits 2 (r mod 60) @ ''Z'')"

section \<open>The calendar read backwards\<close>

lemma days_before_year_split:
  assumes "0 \<le> h" "h \<le> 3" "0 \<le> k" "k \<le> 24" "0 \<le> j" "j \<le> 3"
  shows "days_before_year (q * 400 + h * 100 + k * 4 + j + 1) = q * 146097 + h * 36524 + k * 1461 + j * 365"
proof -
  let ?p = "q * 400 + h * 100 + k * 4 + j"
  have "?p div 4 = 100 * q + 25 * h + k" "?p div 100 = 4 * q + h" "?p div 400 = q"
    using assms by linarith+
  then show ?thesis by (simp add: days_before_year_def Let_def)
qed

lemma year_start_correct:
  assumes "0 \<le> n" "year_start (n + 1) = (y, d)"
  shows "days_before_year y + d = n" "0 \<le> d" "d < (if is_leap y then 366 else 365)" "1 \<le> y" "(y - 1) * 365 \<le> n"
proof -
  define q a h b k c j r where v: "q = n div 146097" "a = n mod 146097" "h = a div 36524" "b = a mod 36524"
    "k = b div 1461" "c = b mod 1461" "j = c div 365" "r = c mod 365"
  have n: "n = q * 146097 + h * 36524 + k * 1461 + j * 365 + r" unfolding v by presburger
  have bounds: "0 \<le> q" "0 \<le> h" "h \<le> 4" "0 \<le> k" "k \<le> 24" "0 \<le> j" "j \<le> 4" "0 \<le> r" "r < 365"
    using assms(1) unfolding v by (auto simp: pos_imp_zdiv_nonneg_iff)
  have parts: "a = h * 36524 + b" "b = k * 1461 + c" "c = j * 365 + r" "a < 146097" "b < 36524" "c < 1461" "0 \<le> b" "0 \<le> c"
    unfolding v by (simp_all add: mult.commute)
  have "b = 0" if "h = 4" using parts that by linarith
  moreover have "k = 0 \<and> j = 0 \<and> r = 0" if "b = 0" using parts bounds that by (auto simp: add_nonneg_eq_0_iff)
  moreover have "r = 0" if "j = 4" using parts bounds that by linarith
  moreover have "j \<noteq> 4" if "k = 24" using parts bounds that by linarith
  ultimately have final: "h = 4 \<Longrightarrow> k = 0 \<and> j = 0 \<and> r = 0" "j = 4 \<Longrightarrow> r = 0" "k = 24 \<Longrightarrow> j \<noteq> 4" by blast+
  have ys: "(y, d) = (if j = 4 \<or> h = 4 then (q * 400 + h * 100 + k * 4 + j, 365) else (q * 400 + h * 100 + k * 4 + j + 1, r))"
    using assms(2) by (simp add: year_start_def Let_def v split: if_splits)
  consider (century) "h = 4" "k = 0" "j = 0" "r = 0" | (leap) "h \<le> 3" "j = 4" "r = 0" "k \<le> 23" | (plain) "h \<le> 3" "j \<le> 3"
    using bounds final by linarith
  then have "days_before_year y + d = n \<and> 0 \<le> d \<and> d < (if is_leap y then 366 else 365) \<and> 1 \<le> y \<and> (y - 1) * 365 \<le> n"
  proof cases
    case century
    then have "y = q * 400 + 3 * 100 + 24 * 4 + 3 + 1" "d = 365" using ys by simp_all
    moreover from this have "is_leap y" by (simp add: is_leap_def)
    ultimately show ?thesis using days_before_year_split [of 3 24 3 q] bounds century by (simp add: n)
  next
    case leap
    then have y: "y = q * 400 + h * 100 + k * 4 + 3 + 1" "d = 365" using ys by simp_all
    have "y = 4 * (100 * q + 25 * h + k + 1)" "y = 4 * (k + 1) + 100 * (4 * q + h)" using y by simp_all
    then have "y mod 4 = 0" "y mod 100 = 4 * (k + 1) mod 100" by (metis mod_mult_self1_is_0, metis mod_mult_self2)
    then have "is_leap y" using bounds leap by (simp add: is_leap_def)
    then show ?thesis using days_before_year_split [of h k 3 q] bounds leap y by (simp add: n)
  next
    case plain
    then have "y = q * 400 + h * 100 + k * 4 + j + 1" "d = r" using ys by (simp_all split: if_splits)
    then show ?thesis using days_before_year_split [of h k j q] bounds plain by (simp add: n)
  qed
  then show "days_before_year y + d = n" "0 \<le> d" "d < (if is_leap y then 366 else 365)" "1 \<le> y" "(y - 1) * 365 \<le> n" by blast+
qed

lemma days_before_month_step: "1 \<le> m \<Longrightarrow> days_before_month y (m + 1) = days_before_month y m + days_in_month y m"
  by (simp add: days_before_month_def upto_rec2)

lemma month_from_correct:
  assumes "month_from k y m d = (m', d')" "1 \<le> m" "0 \<le> d" "d < sum_list (map (days_in_month y) [m..m + int k])"
  shows "m \<le> m' \<and> m' \<le> m + int k \<and> 0 \<le> d' \<and> d' < days_in_month y m' \<and> days_before_month y m' + d' = days_before_month y m + d"
  using assms
proof (induction k arbitrary: m d)
  case 0
  then show ?case by simp
next
  case (Suc k)
  have "[m..m + int (Suc k)] = m # [m + 1..m + 1 + int k]" by (simp add: upto_rec1 ac_simps)
  then show ?case using Suc.prems Suc.IH [of "m + 1" "d - days_in_month y m"] days_before_month_step [of m y]
    by (auto split: if_splits)
qed

lemma ord2ymd_correct:
  assumes "0 \<le> n" "n < 3652059" "ord2ymd (n + 1) = (y, m, d)"
  shows "valid_date y m d" "date_ordinal y m d = n + 1"
proof -
  obtain d0 where ys: "year_start (n + 1) = (y, d0)" and mf: "month_from 11 y 1 d0 = (m, d - 1)"
    using assms(3) by (auto simp: ord2ymd_def Let_def split: prod.splits)
  note yc = year_start_correct [OF assms(1) ys]
  have "sum_list (map (days_in_month y) [1..1 + int 11]) = (if is_leap y then 366 else 365)"
    by (simp add: days_in_month_def upto_rec1)
  then have mc: "1 \<le> m \<and> m \<le> 12 \<and> 0 \<le> d - 1 \<and> d - 1 < days_in_month y m \<and> days_before_month y m + (d - 1) = d0"
    using month_from_correct [OF mf] yc by (simp add: days_before_month_def)
  have "y \<le> 9999"
  proof (rule ccontr)
    assume "\<not> y \<le> 9999"
    moreover have "y \<le> 10006" using yc(5) assms(2) by presburger
    ultimately consider "y = 10000" | "y = 10001" | "y = 10002" | "y = 10003" | "y = 10004" | "y = 10005" | "y = 10006" by linarith
    then have "3652059 \<le> days_before_year y" by cases (simp_all add: days_before_year_def)
    then show False using yc assms(2) by linarith
  qed
  then show "valid_date y m d" "date_ordinal y m d = n + 1" using yc mc by (auto simp: valid_date_def date_ordinal_def)
qed

lemma digit_char_props: "k < 10 \<Longrightarrow> is_digit (digit_char k)" "k < 10 \<Longrightarrow> digit_val (digit_char k) = int k"
  by (auto simp: digit_char_def is_digit_def digit_val_def)

lemma digits_length [simp]: "length (digits n i) = n"
  by (induction n arbitrary: i) simp_all

lemma digits_digit: "list_all is_digit (digits n i)"
  by (induction n arbitrary: i) (simp_all add: digit_char_props nat_less_iff)

lemma digits_value: "0 \<le> i \<Longrightarrow> i < 10 ^ n \<Longrightarrow> nat_of_digits (digits n i) = i"
proof (induction n arbitrary: i)
  case 0
  then show ?case by (simp add: nat_of_digits_def)
next
  case (Suc n)
  then have "i div 10 < 10 ^ n" by (simp add: div_less_iff_less_mult)
  then show ?case using Suc by (simp add: nat_of_digits_snoc digit_char_props nat_less_iff)
qed

lemma clock_sum:
  fixes s :: int
  shows "s = day * 86400 + r \<Longrightarrow> r = h * 3600 + m * 60 + x \<Longrightarrow>
    ((day * 24 + h) * 60 + m) * 60 * 1000000 + x * 1000000 = s * 1000000"
  by simp

lemma digits_two: obtains a b where "digits 2 i = [a, b]" "is_digit a" "is_digit b"
  using digits_length [of 2 i] digits_digit [of 2 i] by (auto simp: numeral_2_eq_2 length_Suc_conv)

lemma digits_four: obtains a b c d where "digits 4 i = [a, b, c, d]" "is_digit a" "is_digit b" "is_digit c" "is_digit d"
  using digits_length [of 4 i] digits_digit [of 4 i] by (auto simp: numeral_eq_Suc length_Suc_conv)

lemma parse_timestamp_text:
  assumes digit: "is_digit y1" "is_digit y2" "is_digit y3" "is_digit y4" "is_digit m1" "is_digit m2" "is_digit d1" "is_digit d2"
      "is_digit h1" "is_digit h2" "is_digit n1" "is_digit n2" "is_digit s1" "is_digit s2"
    and date: "valid_date (nat_of_digits [y1, y2, y3, y4]) (nat_of_digits [m1, m2]) (nat_of_digits [d1, d2])"
    and clock: "nat_of_digits [h1, h2] < 24" "nat_of_digits [n1, n2] < 60" "nat_of_digits [s1, s2] < 60"
  shows "parse_timestamp [y1, y2, y3, y4, CHR ''-'', m1, m2, CHR ''-'', d1, d2, CHR ''T'', h1, h2, CHR '':'', n1, n2, CHR '':'', s1, s2, CHR ''Z''] =
    Some ((((date_ordinal (nat_of_digits [y1, y2, y3, y4]) (nat_of_digits [m1, m2]) (nat_of_digits [d1, d2]) - 1) * 24 +
      nat_of_digits [h1, h2]) * 60 + nat_of_digits [n1, n2]) * 60 * 1000000 + nat_of_digits [s1, s2] * 1000000)"
proof -
  let ?s = "[y1, y2, y3, y4, CHR ''-'', m1, m2, CHR ''-'', d1, d2, CHR ''T'', h1, h2, CHR '':'', n1, n2, CHR '':'', s1, s2, CHR ''Z'']"
  have "date_shape ?s" "time_shape ?s" using digit
    by (simp_all add: date_shape_def time_shape_def digits_at_def char_at_def)
  moreover have "num_at ?s 0 4 = nat_of_digits [y1, y2, y3, y4]" "num_at ?s 5 2 = nat_of_digits [m1, m2]" "num_at ?s 8 2 = nat_of_digits [d1, d2]"
    "num_at ?s 11 2 = nat_of_digits [h1, h2]" "num_at ?s 14 2 = nat_of_digits [n1, n2]" "num_at ?s 17 2 = nat_of_digits [s1, s2]"
    "drop 19 ?s = ''Z''"
    by (simp_all add: num_at_def)
  ultimately show ?thesis using date clock by (simp only: parse_timestamp_def date_of_def) (simp add: fraction_of_def)
qed

text \<open>Reading back a printed time gives its whole seconds.\<close>

lemma iso_seconds_parse:
  assumes "0 \<le> t" "t < 3652059 * 86400 * 1000000"
  shows "parse_timestamp (iso_seconds t) = Some (t div 1000000 * 1000000)"
proof -
  define s where "s = t div 1000000"
  define day r where dr: "day = s div 86400" "r = s mod 86400"
  obtain y m d where ymd: "ord2ymd (day + 1) = (y, m, d)" by (metis prod_cases3)
  have day: "0 \<le> day" "day < 3652059" using assms by (auto simp: dr s_def pos_imp_zdiv_nonneg_iff)
  note valid = ord2ymd_correct [OF day ymd]
  have r: "0 \<le> r" "r < 86400" by (simp_all add: dr)
  have in_range: "0 \<le> y" "y < 10 ^ 4" "0 \<le> m" "m < 10 ^ 2" "0 \<le> d" "d < 10 ^ 2"
    using valid(1) days_in_month_bounds(2) [of y m] by (auto simp: valid_date_def)
  have hms: "0 \<le> r div 3600" "r div 3600 < 24" "0 \<le> r mod 3600 div 60" "r mod 3600 div 60 < 60" "0 \<le> r mod 60" "r mod 60 < 60"
    using r by (auto simp: pos_imp_zdiv_nonneg_iff div_less_iff_less_mult)
  note dv = digits_value [OF in_range(1,2)] digits_value [OF in_range(3,4)] digits_value [OF in_range(5,6)]
    digits_value [OF hms(1) order.strict_trans [OF hms(2)], of 2] digits_value [OF hms(3) order.strict_trans [OF hms(4)], of 2]
    digits_value [OF hms(5) order.strict_trans [OF hms(6)], of 2]
  have shape: "iso_seconds t = digits 4 y @ ''-'' @ digits 2 m @ ''-'' @ digits 2 d @ ''T'' @
      digits 2 (r div 3600) @ '':'' @ digits 2 (r mod 3600 div 60) @ '':'' @ digits 2 (r mod 60) @ ''Z''"
    by (simp add: iso_seconds_def Let_def ymd dr [symmetric] s_def [symmetric])
  have "s = day * 86400 + r" by (simp add: dr)
  moreover have "r mod 3600 mod 60 = r mod 60" by (simp add: mod_mod_cancel)
  then have "r = r div 3600 * 3600 + r mod 3600 div 60 * 60 + r mod 60"
    using div_mult_mod_eq [of r 3600] div_mult_mod_eq [of "r mod 3600" 60] by linarith
  ultimately have "((day * 24 + r div 3600) * 60 + r mod 3600 div 60) * 60 * 1000000 + r mod 60 * 1000000 = s * 1000000"
    by (rule clock_sum)
  moreover obtain y1 y2 y3 y4 where y: "digits 4 y = [y1, y2, y3, y4]" "is_digit y1" "is_digit y2" "is_digit y3" "is_digit y4" by (rule digits_four)
  obtain m1 m2 where m: "digits 2 m = [m1, m2]" "is_digit m1" "is_digit m2" by (rule digits_two)
  obtain d1 d2 where d: "digits 2 d = [d1, d2]" "is_digit d1" "is_digit d2" by (rule digits_two)
  obtain h1 h2 where h: "digits 2 (r div 3600) = [h1, h2]" "is_digit h1" "is_digit h2" by (rule digits_two)
  obtain n1 n2 where n: "digits 2 (r mod 3600 div 60) = [n1, n2]" "is_digit n1" "is_digit n2" by (rule digits_two)
  obtain s1 s2 where x: "digits 2 (r mod 60) = [s1, s2]" "is_digit s1" "is_digit s2" by (rule digits_two)
  have numbers: "nat_of_digits [y1, y2, y3, y4] = y" "nat_of_digits [m1, m2] = m" "nat_of_digits [d1, d2] = d"
    "nat_of_digits [h1, h2] = r div 3600" "nat_of_digits [n1, n2] = r mod 3600 div 60" "nat_of_digits [s1, s2] = r mod 60"
    using dv unfolding y m d h n x by simp_all
  have "iso_seconds t = [y1, y2, y3, y4, CHR ''-'', m1, m2, CHR ''-'', d1, d2, CHR ''T'', h1, h2, CHR '':'', n1, n2, CHR '':'', s1, s2, CHR ''Z'']"
    unfolding shape y m d h n x by simp
  ultimately show ?thesis
    using parse_timestamp_text [OF y(2-5) m(2,3) d(2,3) h(2,3) n(2,3) x(2,3), unfolded numbers, OF valid(1) hms(2,4,6)] valid(2)
    by (simp only: s_def [symmetric]) simp
qed
end
