(* ===== verification/Authorization.thy ===== *)
theory Authorization
  imports Models Isoformat
begin

text \<open>
  \<^verbatim>\<open>cops/execution/authorization.py\<close>: HMAC-signed authorizations for immutable action plans.

  The world outside the module is a parameter: the HMAC (\<open>w_hmac\<close>), the validator of
  \<^verbatim>\<open>Contracts\<close> (\<open>w_env\<close>), the float reader of the JSON decoder (\<open>w_float\<close>); the clock and the random
  identifier are arguments of the operations that read them. An argument the code accepts in
  several forms (an object or a dictionary) is a datatype with one constructor per form.

  \<^verbatim>\<open>AuthorizationError\<close> and its two subclasses are constructors of \<open>authz_exc\<close>; \<open>Passed\<close> holds an
  exception that the module lets through from the code it calls.
\<close>

datatype authz_exc =
    AuthorizationError string
  | AuthorizationRequiredError string
  | AuthorizationDeniedError string
  | Passed contract_exc

record world =
  w_env :: validator
  w_hmac :: "nat list \<Rightarrow> nat list \<Rightarrow> string"
  w_float :: "string \<Rightarrow> pyfloat"

abbreviation deny :: "string \<Rightarrow> (authz_exc, 'a) result" where
  "deny message \<equiv> Inl (AuthorizationError message)"

definition passE :: "(contract_exc, 'a) result \<Rightarrow> (authz_exc, 'a) result" where
  "passE r = (case r of Inl e \<Rightarrow> Inl (Passed e) | Inr a \<Rightarrow> Inr a)"

definition time_value :: "json \<Rightarrow> (authz_exc, int) result" where
  "time_value v = passE (liftE (timestamp v))"

section \<open>Keys\<close>

definition validate_secret :: "nat list \<Rightarrow> (authz_exc, nat list) result" where
  "validate_secret secret =
     (if int (length secret) < 32 then deny ''authorization HMAC secrets must contain at least 32 bytes'' else Inr secret)"

record signer =
  sg_key_id :: string
  sg_operator :: string
  sg_secret :: "nat list"
  sg_valid_from :: json
  sg_valid_until :: json

definition AuthorizationSigner :: "signer \<Rightarrow> (authz_exc, signer) result" where
  "AuthorizationSigner s = bindE (validate_secret (sg_secret s)) (\<lambda>_. Inr s)"

definition validate_key_window :: "json \<Rightarrow> json \<Rightarrow> (authz_exc, unit) result" where
  "validate_key_window valid_from valid_until =
     (case (valid_from, valid_until) of
        (JStr f, JStr u) \<Rightarrow>
          (case (timestamp (JStr f), timestamp (JStr u)) of
             (Inr start, Inr stop) \<Rightarrow>
               if f \<noteq> iso_seconds start \<or> u \<noteq> iso_seconds stop \<or> stop \<le> start
               then deny ''trusted key validity windows must be canonical, bounded UTC timestamps'' else Inr ()
           | _ \<Rightarrow> deny ''trusted key validity windows must be canonical UTC timestamps'')
      | _ \<Rightarrow> deny ''active trusted keys require bounded validity windows'')"

record trusted_key =
  tk_key_id :: string
  tk_operator :: string
  tk_secret :: "nat list"
  tk_valid_from :: json
  tk_valid_until :: json
  tk_status :: string

definition TrustedAuthorizationKey :: "trusted_key \<Rightarrow> (authz_exc, trusted_key) result" where
  "TrustedAuthorizationKey k =
     (if tk_status k \<noteq> ''active'' \<and> tk_status k \<noteq> ''revoked'' then deny (''unsupported trusted key status: '' @ tk_status k)
      else if tk_status k = ''active''
      then bindE (validate_secret (tk_secret k)) (\<lambda>_.
           bindE (validate_key_window (tk_valid_from k) (tk_valid_until k)) (\<lambda>_. Inr k))
      else Inr k)"

type_synonym trust_store = "(string \<times> trusted_key) list"

fun trust_keys :: "trusted_key list \<Rightarrow> trust_store \<Rightarrow> (authz_exc, trust_store) result" where
  "trust_keys [] store = Inr store"
| "trust_keys (k # ks) store =
     (if tk_key_id k \<in> dict_keys store then deny (''duplicate trusted authorization key: '' @ tk_key_id k)
      else trust_keys ks (dict_set (tk_key_id k) k store))"

definition AuthorizationTrustStore :: "trusted_key list \<Rightarrow> (authz_exc, trust_store) result" where
  "AuthorizationTrustStore keys = trust_keys keys []"

section \<open>The trust-store file\<close>

text \<open>
  What the operating system says of the file: whether the path is a symbolic link, and, when it can
  be opened, its status and its bytes.
\<close>

record file_status =
  fs_regular :: bool
  fs_size :: int
  fs_uid :: int
  fs_mode :: int
  fs_bytes :: "nat list"

record trust_file =
  tf_symlink :: bool
  tf_opened :: "file_status option"

definition open_private :: "int \<Rightarrow> trust_file \<Rightarrow> (authz_exc, file_status) result" where
  "open_private euid f =
     (if tf_symlink f then deny ''authorization trust store must not be a symbolic link''
      else case tf_opened f of
        None \<Rightarrow> deny ''cannot open authorization trust store''
      | Some st \<Rightarrow>
          if \<not> fs_regular st then deny ''authorization trust store must be a regular file''
          else if fs_size st > 1048576 then deny ''authorization trust store exceeds its byte limit''
          else if fs_uid st \<noteq> euid then deny ''authorization trust store must be owned by the current verifier account''
          else if fs_mode st mod 64 \<noteq> 0 then deny ''authorization trust store permissions must not allow group or other access''
          else Inr st)"

definition nonempty_text :: "dict \<Rightarrow> string \<Rightarrow> bool" where
  "nonempty_text d k = (case dict_get d k of Some (JStr (_ # _)) \<Rightarrow> True | _ \<Rightarrow> False)"

definition item_status :: "dict \<Rightarrow> (authz_exc, string) result" where
  "item_status d =
     (case dict_get d ''status'' of
        None \<Rightarrow> Inr ''active''
      | Some (JStr s) \<Rightarrow> if s = ''active'' \<or> s = ''revoked'' then Inr s else deny ''unsupported trusted key status''
      | _ \<Rightarrow> deny ''unsupported trusted key status'')"

definition item_secret :: "(string \<Rightarrow> string option) \<Rightarrow> dict \<Rightarrow> string \<Rightarrow> (authz_exc, nat list) result" where
  "item_secret environ d status =
     (if status \<noteq> ''active'' then Inr []
      else case dict_get d ''secret_env'' of
        Some (JStr (c # cs)) \<Rightarrow>
          (case environ (c # cs) of
             Some v \<Rightarrow> Inr (utf8 v)
           | None \<Rightarrow> deny ''trusted key secret environment variable is unavailable'')
      | _ \<Rightarrow> deny ''trusted key secret environment variable is unavailable'')"

definition get_text :: "dict \<Rightarrow> string \<Rightarrow> string" where
  "get_text d k = (case dict_get d k of Some (JStr s) \<Rightarrow> s | _ \<Rightarrow> [])"

definition key_of_item :: "(string \<Rightarrow> string option) \<Rightarrow> json \<Rightarrow> (authz_exc, trusted_key) result" where
  "key_of_item environ it =
     (case it of
        JObj d \<Rightarrow>
          if \<not> (nonempty_text d ''key_id'' \<and> nonempty_text d ''operator_identity'')
          then deny ''trusted keys require string key and operator identities''
          else if dict_get d ''algorithm'' \<noteq> Some (JStr ''hmac-sha256'') then deny ''trusted key uses an unsupported algorithm''
          else bindE (item_status d) (\<lambda>status.
               bindE (item_secret environ d status) (\<lambda>secret.
               TrustedAuthorizationKey \<lparr>tk_key_id = get_text d ''key_id'', tk_operator = get_text d ''operator_identity'',
                 tk_secret = secret, tk_valid_from = get_or_none d ''valid_from_utc'', tk_valid_until = get_or_none d ''valid_until_utc'',
                 tk_status = status\<rparr>))
      | _ \<Rightarrow> deny ''authorization trust-store key entries must be objects'')"

definition trust_store_from_file ::
  "world \<Rightarrow> int \<Rightarrow> (string \<Rightarrow> string option) \<Rightarrow> trust_file \<Rightarrow> (authz_exc, trust_store) result" where
  "trust_store_from_file w euid environ f =
     bindE (open_private euid f) (\<lambda>st.
     case decode_json (w_float w) (fs_bytes st) 1048576 32 of
       Inl _ \<Rightarrow> deny ''invalid or oversized authorization trust store''
     | Inr (JObj doc) \<Rightarrow>
         if dict_get doc ''schema_version'' \<noteq> Some (JStr ''cops.authorization-trust-store/v1'')
         then deny ''unsupported authorization trust-store schema''
         else (case dict_get doc ''keys'' of
             Some (JList items) \<Rightarrow> bindE (mapE (key_of_item environ) items) AuthorizationTrustStore
           | _ \<Rightarrow> deny ''authorization trust-store keys must be a list'')
     | Inr _ \<Rightarrow> deny ''authorization trust store must be a JSON object'')"

section \<open>Windows\<close>

definition validate_window :: "json \<Rightarrow> json \<Rightarrow> json \<Rightarrow> json \<Rightarrow> string \<Rightarrow> (authz_exc, unit) result" where
  "validate_window valid_from valid_until issued_at expires_at label =
     bindE (time_value issued_at) (\<lambda>issued.
     bindE (time_value expires_at) (\<lambda>expires.
     if expires \<le> issued then deny ''authorization expiry must follow issue time''
     else bindE (if truthy valid_from
            then bindE (time_value valid_from) (\<lambda>start.
              if issued < start then deny (''authorization issue time precedes '' @ label @ '' validity'') else Inr ())
            else Inr ()) (\<lambda>_.
          if truthy valid_until
          then bindE (time_value valid_until) (\<lambda>stop.
            if expires > stop then deny (''authorization expiry exceeds '' @ label @ '' validity'') else Inr ())
          else Inr ())))"

definition resolve :: "trust_store \<Rightarrow> string \<Rightarrow> string \<Rightarrow> string \<Rightarrow> string \<Rightarrow> (authz_exc, trusted_key) result" where
  "resolve store key_id operator issued_at expires_at =
     (case dict_get store key_id of
        None \<Rightarrow> deny ''authorization signing key is unknown, revoked, or not trusted for the operator''
      | Some key \<Rightarrow>
          if tk_status key \<noteq> ''active'' \<or> tk_operator key \<noteq> operator
          then deny ''authorization signing key is unknown, revoked, or not trusted for the operator''
          else bindE (validate_key_window (tk_valid_from key) (tk_valid_until key)) (\<lambda>_.
               bindE (validate_window (tk_valid_from key) (tk_valid_until key) (JStr issued_at) (JStr expires_at) ''trusted key'') (\<lambda>_.
                 Inr key)))"

section \<open>The engagement\<close>

datatype engagement_arg = NoEngagement | EngagementObject engagement | EngagementDocument dict

text \<open>\<^verbatim>\<open>except AuthorizationError\<close>: the message is prefixed, other exceptions pass.\<close>

definition outside_window :: "(authz_exc, unit) result \<Rightarrow> (authz_exc, unit) result" where
  "outside_window r =
     (case r of Inl (AuthorizationError m) \<Rightarrow> deny (''authorization is outside engagement window: '' @ m) | _ \<Rightarrow> r)"

definition check_engagement :: "world \<Rightarrow> dict \<Rightarrow> action_plan \<Rightarrow> string \<Rightarrow> string \<Rightarrow> string \<Rightarrow> (authz_exc, dict) result" where
  "check_engagement w doc plan operator issued_at expires_at =
     bindE (passE (validate_contract (w_env w) doc (Some ''engagement''))) (\<lambda>_.
     bindE (passE (field doc ''status'')) (\<lambda>status.
     if status \<noteq> JStr ''active'' then deny (''authorization requires the plan'' @ [quote_char] @ ''s active engagement'')
     else bindE (passE (field doc ''engagement_id'')) (\<lambda>eid.
     if eid \<noteq> JStr (plan_engagement_id plan) then deny (''authorization requires the plan'' @ [quote_char] @ ''s active engagement'')
     else bindE (passE (field doc ''operator'')) (\<lambda>op.
     if op \<noteq> JStr operator then deny ''authorization operator does not match the engagement operator''
     else bindE (passE (liftE (item2 (JObj doc) ''window'' ''started_at''))) (\<lambda>from'.
          bindE (passE (liftE (item2 (JObj doc) ''window'' ''authorized_until_utc''))) (\<lambda>until'.
          bindE (outside_window (validate_window from' until' (JStr issued_at) (JStr expires_at) ''engagement window'')) (\<lambda>_.
            Inr doc)))))))"

definition engagement_document ::
  "world \<Rightarrow> engagement_arg \<Rightarrow> action_plan \<Rightarrow> string \<Rightarrow> string \<Rightarrow> string \<Rightarrow> (authz_exc, dict) result" where
  "engagement_document w e plan operator issued_at expires_at =
     (case e of
        NoEngagement \<Rightarrow> deny ''explicit active engagement is required''
      | EngagementObject x \<Rightarrow> check_engagement w (Engagement_to_dict x) plan operator issued_at expires_at
      | EngagementDocument doc \<Rightarrow> check_engagement w doc plan operator issued_at expires_at)"

section \<open>Signatures\<close>

definition compute_authorization_signature :: "world \<Rightarrow> dict \<Rightarrow> nat list \<Rightarrow> (authz_exc, string) result" where
  "compute_authorization_signature w payload secret =
     bindE (validate_secret secret) (\<lambda>key.
     bindE (passE (liftE (canonical (JObj payload) DEFAULT_BYTES DEFAULT_DEPTH))) (\<lambda>bytes.
       Inr (w_hmac w key bytes)))"

datatype plan_arg = PlanObject action_plan | PlanDocument dict

definition plan_of_arg :: "world \<Rightarrow> plan_arg \<Rightarrow> (authz_exc, action_plan) result" where
  "plan_of_arg w a = (case a of PlanObject p \<Rightarrow> Inr p | PlanDocument d \<Rightarrow> passE (ActionPlan_from_dict (w_env w) d))"

text \<open>\<^verbatim>\<open>x or default\<close> for an optional text.\<close>

definition text_or :: "string option \<Rightarrow> string \<Rightarrow> string" where
  "text_or x dflt = (case x of Some (c # cs) \<Rightarrow> c # cs | _ \<Rightarrow> dflt)"

record create_args =
  ca_worker_identity :: string
  ca_valid_hours :: int
  ca_approval_mode :: string
  ca_issued_at :: "string option"
  ca_authorized_until_utc :: "string option"
  ca_authorization_id :: "string option"

definition unsigned_authorization :: "signer \<Rightarrow> action_plan \<Rightarrow> create_args \<Rightarrow> string \<Rightarrow> string \<Rightarrow> string \<Rightarrow> execution_authorization" where
  "unsigned_authorization s plan a aid issued expires = \<lparr>
     auth_schema_version = ''cops.execution-authorization/v1'',
     auth_authorization_id = aid,
     auth_action_plan_id = plan_id plan,
     auth_plan_digest = plan_digest plan,
     auth_engagement_id = plan_engagement_id plan,
     auth_operator = sg_operator s,
     auth_issued_at = issued,
     auth_authorized_until_utc = expires,
     auth_bound_parameters = freeze (JObj [(''action_plan'', JObj (approved_snapshot True plan)), (''worker_identity'', JStr (ca_worker_identity a))]),
     auth_approval_mode = ca_approval_mode a,
     auth_signature_algorithm = ''hmac-sha256'',
     auth_signing_key_id = sg_key_id s,
     auth_signature_digest = replicate 64 CHR ''0'',
     auth_lifecycle = \<lparr>lc_status = ''approved'', lc_consumed_at = None, lc_consumed_by_worker = None\<rparr>\<rparr>"

definition TERMINAL_PLAN :: "string list" where
  "TERMINAL_PLAN = [''fulfilled'', ''rejected'', ''cancelled'']"

text \<open>\<open>now\<close> is \<^verbatim>\<open>datetime.now(UTC)\<close> and \<open>uuid\<close> the hexadecimal text of \<^verbatim>\<open>uuid.uuid4()\<close>.\<close>

definition create_execution_authorization ::
  "world \<Rightarrow> int \<Rightarrow> string \<Rightarrow> plan_arg \<Rightarrow> signer \<Rightarrow> engagement_arg \<Rightarrow> create_args \<Rightarrow> (authz_exc, execution_authorization) result" where
  "create_execution_authorization w now uuid action_plan s engagement a =
     bindE (plan_of_arg w action_plan) (\<lambda>plan.
     bindE (passE (validate_contract (w_env w) (ActionPlan_to_dict plan) (Some ''action_plan''))) (\<lambda>_.
     if plan_status plan \<in> set TERMINAL_PLAN then deny (''cannot authorize terminal action plan '' @ quoted (plan_id plan))
     else
       let issued = text_or (ca_issued_at a) (iso_seconds now);
           expires = text_or (ca_authorized_until_utc a) (iso_seconds (now + ca_valid_hours a * 3600000000));
           auth = unsigned_authorization s plan a (text_or (ca_authorization_id a) (''auth-'' @ take 16 uuid)) issued expires in
       bindE (engagement_document w engagement plan (sg_operator s) issued expires) (\<lambda>_.
       bindE (validate_window (sg_valid_from s) (sg_valid_until s) (JStr issued) (JStr expires) ''signing key'') (\<lambda>_.
       bindE (compute_authorization_signature w (signed_payload auth) (sg_secret s)) (\<lambda>signature.
       let signed = auth\<lparr>auth_signature_digest := signature\<rparr> in
       bindE (passE (validate_contract (w_env w) (ExecutionAuthorization_to_dict signed) (Some ''execution_authorization''))) (\<lambda>_.
         Inr signed))))))"

section \<open>Verification\<close>

text \<open>\<open>AuthOther\<close>: an object of any other class, such as a historical record of the store.\<close>

datatype auth_arg = AuthObject execution_authorization | AuthDocument dict | AuthOther

text \<open>\<^verbatim>\<open>except (ContractError, ValueError, KeyError)\<close>; a \<^verbatim>\<open>TypeError\<close> or a missing file passes.\<close>

definition tampered :: "(contract_exc, 'a) result \<Rightarrow> (authz_exc, 'a) result" where
  "tampered r =
     (case r of
        Inr a \<Rightarrow> Inr a
      | Inl (Evidence ValueTypeError) \<Rightarrow> Inl (Passed (Evidence ValueTypeError))
      | Inl (Evidence (FileNotFound f)) \<Rightarrow> Inl (Passed (Evidence (FileNotFound f)))
      | Inl _ \<Rightarrow> deny ''invalid or tampered execution authorization envelope'')"

definition legacy_receipt :: "dict \<Rightarrow> bool" where
  "legacy_receipt d \<longleftrightarrow> dict_get d ''schema_version'' = Some (JStr ''1.0'') \<or> ''receipt_id'' \<in> dict_keys d"

definition auth_of_arg :: "world \<Rightarrow> auth_arg \<Rightarrow> (authz_exc, execution_authorization) result" where
  "auth_of_arg w a =
     (case a of
        AuthDocument d \<Rightarrow>
          if legacy_receipt d then deny ''legacy authorization receipts cannot authorize execution''
          else tampered (ExecutionAuthorization_from_dict (w_env w) d)
      | AuthOther \<Rightarrow> deny ''unsupported historical authorization record cannot authorize execution''
      | AuthObject x \<Rightarrow>
          bindE (passE (validate_contract (w_env w) (ExecutionAuthorization_to_dict x) (Some ''execution_authorization''))) (\<lambda>_. Inr x))"

text \<open>\<^verbatim>\<open>hmac.compare_digest\<close> on texts: a \<^verbatim>\<open>TypeError\<close> unless both are ASCII.\<close>

definition is_ascii :: "string \<Rightarrow> bool" where
  "is_ascii s = list_all (\<lambda>c. (of_char c :: nat) < 128) s"

definition compare_digest :: "string \<Rightarrow> string \<Rightarrow> (authz_exc, bool) result" where
  "compare_digest a b = (if is_ascii a \<and> is_ascii b then Inr (a = b) else Inl (Passed (Evidence ValueTypeError)))"

definition check_signature :: "world \<Rightarrow> trust_store \<Rightarrow> execution_authorization \<Rightarrow> (authz_exc, unit) result" where
  "check_signature w store auth =
     bindE (resolve store (auth_signing_key_id auth) (auth_operator auth) (auth_issued_at auth) (auth_authorized_until_utc auth)) (\<lambda>key.
     bindE (compute_authorization_signature w (signed_payload auth) (tk_secret key)) (\<lambda>expected.
     bindE (compare_digest (auth_signature_digest auth) expected) (\<lambda>same.
       if same then Inr () else deny ''authorization signature verification failed'')))"

definition observed_time :: "int \<Rightarrow> string option \<Rightarrow> (authz_exc, int) result" where
  "observed_time clock current_time_iso =
     (case current_time_iso of Some (c # cs) \<Rightarrow> time_value (JStr (c # cs)) | _ \<Rightarrow> Inr clock)"

definition check_current :: "int \<Rightarrow> string option \<Rightarrow> execution_authorization \<Rightarrow> (authz_exc, unit) result" where
  "check_current clock current_time_iso auth =
     (if auth_status auth \<noteq> ''approved'' then deny (''authorization is not approved (status: '' @ auth_status auth @ '')'')
      else bindE (observed_time clock current_time_iso) (\<lambda>now.
           bindE (time_value (JStr (auth_issued_at auth))) (\<lambda>issued.
           if now < issued then deny ''authorization is not currently valid''
           else bindE (time_value (JStr (auth_authorized_until_utc auth))) (\<lambda>until'.
             if until' \<le> now then deny ''authorization is not currently valid'' else Inr ()))))"

definition check_binding :: "action_plan \<Rightarrow> string \<Rightarrow> execution_authorization \<Rightarrow> (authz_exc, unit) result" where
  "check_binding plan worker_identity auth =
     (if auth_action_plan_id auth \<noteq> plan_id plan \<or> auth_plan_digest auth \<noteq> plan_digest plan \<or>
         auth_engagement_id auth \<noteq> plan_engagement_id plan
      then deny ''authorization does not bind the requested action plan''
      else case thaw (auth_bound_parameters auth) of
        JObj bound \<Rightarrow>
          if \<not> py_eq (get_or_none bound ''action_plan'') (JObj (approved_snapshot True plan))
          then deny (''authorization'' @ [quote_char] @ ''s signed action plan snapshot does not match'')
          else if get_or_none bound ''worker_identity'' \<noteq> JStr worker_identity
          then deny ''authorization worker identity does not match''
          else Inr ()
      | _ \<Rightarrow> Inl (Passed (Evidence ValueTypeError)))"

definition verify_execution_authorization ::
  "world \<Rightarrow> int \<Rightarrow> auth_arg \<Rightarrow> plan_arg \<Rightarrow> trust_store option \<Rightarrow> engagement_arg \<Rightarrow> string \<Rightarrow> string option \<Rightarrow>
   (authz_exc, execution_authorization) result" where
  "verify_execution_authorization w clock authorization action_plan trust engagement worker_identity current_time_iso =
     (case trust of
        None \<Rightarrow> deny ''explicit verifier trust store is required''
      | Some store \<Rightarrow>
          bindE (auth_of_arg w authorization) (\<lambda>auth.
          bindE (plan_of_arg w action_plan) (\<lambda>plan.
          bindE (passE (validate_contract (w_env w) (ActionPlan_to_dict plan) (Some ''action_plan''))) (\<lambda>_.
          bindE (check_signature w store auth) (\<lambda>_.
          bindE (check_current clock current_time_iso auth) (\<lambda>_.
          bindE (engagement_document w engagement plan (auth_operator auth) (auth_issued_at auth) (auth_authorized_until_utc auth)) (\<lambda>_.
          bindE (check_binding plan worker_identity auth) (\<lambda>_.
            Inr auth))))))))"

section \<open>Consumption and the interactive request\<close>

definition consume_execution_authorization ::
  "string \<Rightarrow> string option \<Rightarrow> string \<Rightarrow> execution_authorization \<Rightarrow> (execution_authorization, authz_exc, unit) outcome" where
  "consume_execution_authorization now_text consumed_at worker_identity auth =
     (if auth_status auth \<noteq> ''approved'' then (deny (''cannot consume authorization in '' @ quoted (auth_status auth) @ '' state''), auth)
      else case ExecutionAuthorization_transition_to ''consumed'' auth of
        (Inl e, a) \<Rightarrow> (Inl (Passed e), a)
      | (Inr _, a) \<Rightarrow> (Inr (), set_consumed_by_worker (Some worker_identity) (set_consumed_at (Some (text_or consumed_at now_text)) a)))"

text \<open>\<^verbatim>\<open>str.strip()\<close>\<close>

definition strip :: "string \<Rightarrow> string" where
  "strip s = rev (dropWhile is_py_space (rev (dropWhile is_py_space s)))"

text \<open>\<open>reply\<close> is what the operator types; \<open>None\<close> when there is no terminal and no input function.\<close>

definition request_interactive_plan_authorization ::
  "world \<Rightarrow> int \<Rightarrow> string \<Rightarrow> string option \<Rightarrow> plan_arg \<Rightarrow> signer \<Rightarrow> engagement_arg \<Rightarrow> string \<Rightarrow> int \<Rightarrow>
   (authz_exc, execution_authorization) result" where
  "request_interactive_plan_authorization w now uuid reply action_plan s engagement worker_identity valid_hours =
     bindE (plan_of_arg w action_plan) (\<lambda>plan.
     case reply of
       None \<Rightarrow> Inl (AuthorizationRequiredError ''interactive authorization requires a terminal'')
     | Some answer \<Rightarrow>
         if strip answer \<noteq> ''APPROVE'' then Inl (AuthorizationDeniedError (''authorization for '' @ plan_id plan @ '' was denied''))
         else create_execution_authorization w now uuid (PlanObject plan) s engagement
           \<lparr>ca_worker_identity = worker_identity, ca_valid_hours = valid_hours, ca_approval_mode = ''interactive_confirmation'',
            ca_issued_at = None, ca_authorized_until_utc = None, ca_authorization_id = None\<rparr>)"

end
