(* ===== verification/Authorization_Props.thy ===== *)
theory Authorization_Props
  imports Authorization Models_Props
begin

text \<open>
  What verification of an authorization establishes, and that it accepts what the signer issued. The
  elimination lemmas open one check each; the properties combine them.
\<close>

section \<open>Opening the checks\<close>

lemma passE_Inr [simp]: "passE r = Inr a \<longleftrightarrow> r = Inr a"
  by (auto simp: passE_def split: sum.splits)

lemma tampered_Inr [simp]: "tampered r = Inr a \<longleftrightarrow> r = Inr a"
  by (auto simp: tampered_def split: sum.splits contract_exc.splits evidence_error.splits)

lemma outside_window_Inr [simp]: "outside_window r = Inr a \<longleftrightarrow> r = Inr a"
  by (auto simp: outside_window_def split: sum.splits authz_exc.splits)

lemma time_value_Inr [simp]: "time_value v = Inr t \<longleftrightarrow> timestamp v = Inr t"
  by (simp add: time_value_def)

lemma validate_secret_Inr [simp]: "validate_secret s = Inr k \<longleftrightarrow> k = s \<and> 32 \<le> length s"
  by (auto simp: validate_secret_def)

lemma validate_windowD:
  assumes "validate_window f u i e l = Inr r"
  obtains issued expires where "timestamp i = Inr issued" "timestamp e = Inr expires" "issued < expires"
    "truthy f \<Longrightarrow> \<exists>a. timestamp f = Inr a \<and> a \<le> issued" "truthy u \<Longrightarrow> \<exists>b. timestamp u = Inr b \<and> expires \<le> b"
  using assms unfolding validate_window_def bindE_Inr_iff time_value_Inr
  by (auto simp: bindE_Inr_iff not_le not_less split: if_splits)

lemma validate_key_windowD:
  assumes "validate_key_window f u = Inr r"
  obtains start stop where "f = JStr (iso_seconds start)" "u = JStr (iso_seconds stop)" "timestamp f = Inr start" "timestamp u = Inr stop" "start < stop"
  using assms by (auto simp: validate_key_window_def not_le split: json.splits sum.splits if_splits)

lemma iso_seconds_nonempty: "iso_seconds t \<noteq> []"
  by (simp add: iso_seconds_def Let_def split: prod.split)

lemma resolveD:
  assumes "resolve store k op i e = Inr key"
  shows "dict_get store k = Some key" "tk_status key = ''active''" "tk_operator key = op"
    "validate_key_window (tk_valid_from key) (tk_valid_until key) = Inr ()"
    "validate_window (tk_valid_from key) (tk_valid_until key) (JStr i) (JStr e) ''trusted key'' = Inr ()"
  using assms unfolding resolve_def by (auto simp: bindE_Inr_iff split: option.splits if_splits)

lemma compute_signatureD:
  assumes "compute_authorization_signature w payload secret = Inr sig"
  shows "32 \<le> length secret" "\<exists>b. canonical (JObj payload) DEFAULT_BYTES DEFAULT_DEPTH = Inr b \<and> sig = w_hmac w secret b"
  using assms by (auto simp: compute_authorization_signature_def bindE_Inr_iff)

lemma check_signatureD:
  assumes "check_signature w store auth = Inr u"
  obtains key b where "resolve store (auth_signing_key_id auth) (auth_operator auth) (auth_issued_at auth) (auth_authorized_until_utc auth) = Inr key"
    "32 \<le> length (tk_secret key)" "canonical (JObj (signed_payload auth)) DEFAULT_BYTES DEFAULT_DEPTH = Inr b"
    "auth_signature_digest auth = w_hmac w (tk_secret key) b"
proof -
  from assms obtain key sig where k: "resolve store (auth_signing_key_id auth) (auth_operator auth) (auth_issued_at auth) (auth_authorized_until_utc auth) = Inr key"
    and s: "compute_authorization_signature w (signed_payload auth) (tk_secret key) = Inr sig"
    and c: "compare_digest (auth_signature_digest auth) sig = Inr True"
    by (auto simp: check_signature_def bindE_Inr_iff split: if_splits)
  from c have "auth_signature_digest auth = sig" by (auto simp: compare_digest_def split: if_splits)
  with compute_signatureD [OF s] k that show thesis by blast
qed

lemma check_currentD:
  assumes "check_current clock at_iso auth = Inr u"
  obtains now issued expires where "auth_status auth = ''approved''"
    "observed_time clock at_iso = Inr now"
    "timestamp (JStr (auth_issued_at auth)) = Inr issued" "timestamp (JStr (auth_authorized_until_utc auth)) = Inr expires"
    "issued \<le> now" "now < expires"
  using assms unfolding check_current_def
  by (auto simp: bindE_Inr_iff not_le not_less split: if_splits)

lemma check_bindingD:
  assumes "check_binding plan worker auth = Inr u"
  shows "auth_action_plan_id auth = plan_id plan" "auth_plan_digest auth = plan_digest plan" "auth_engagement_id auth = plan_engagement_id plan"
    "\<exists>bound. thaw (auth_bound_parameters auth) = JObj bound \<and> py_eq (get_or_none bound ''action_plan'') (JObj (approved_snapshot True plan)) \<and>
       get_or_none bound ''worker_identity'' = JStr worker"
  using assms unfolding check_binding_def by (auto split: if_splits json.splits)

lemma check_engagementD:
  assumes "check_engagement w doc plan op i e = Inr r"
  shows "r = doc" "\<exists>x. validate_contract (w_env w) doc (Some ''engagement'') = Inr x"
    "dict_get doc ''status'' = Some (JStr ''active'')" "dict_get doc ''engagement_id'' = Some (JStr (plan_engagement_id plan))"
    "dict_get doc ''operator'' = Some (JStr op)"
    "\<exists>f u. item2 (JObj doc) ''window'' ''started_at'' = Inr f \<and> item2 (JObj doc) ''window'' ''authorized_until_utc'' = Inr u \<and>
       validate_window f u (JStr i) (JStr e) ''engagement window'' = Inr ()"
proof -
  from assms obtain x f u where
    "validate_contract (w_env w) doc (Some ''engagement'') = Inr x" "dict_get doc ''status'' = Some (JStr ''active'')"
    "dict_get doc ''engagement_id'' = Some (JStr (plan_engagement_id plan))" "dict_get doc ''operator'' = Some (JStr op)"
    "item2 (JObj doc) ''window'' ''started_at'' = Inr f" "item2 (JObj doc) ''window'' ''authorized_until_utc'' = Inr u"
    "validate_window f u (JStr i) (JStr e) ''engagement window'' = Inr ()" "r = doc"
    unfolding check_engagement_def by (elim bindE_InrE) (auto split: if_splits elim!: bindE_InrE)
  then show "r = doc" "\<exists>x. validate_contract (w_env w) doc (Some ''engagement'') = Inr x"
    "dict_get doc ''status'' = Some (JStr ''active'')" "dict_get doc ''engagement_id'' = Some (JStr (plan_engagement_id plan))"
    "dict_get doc ''operator'' = Some (JStr op)"
    "\<exists>f u. item2 (JObj doc) ''window'' ''started_at'' = Inr f \<and> item2 (JObj doc) ''window'' ''authorized_until_utc'' = Inr u \<and>
       validate_window f u (JStr i) (JStr e) ''engagement window'' = Inr ()" by blast+
qed

lemma verifyD:
  assumes "verify_execution_authorization w clock a p trust e worker at_iso = Inr auth"
  obtains store plan doc r where "trust = Some store" "auth_of_arg w a = Inr auth" "plan_of_arg w p = Inr plan"
    "validate_contract (w_env w) (ActionPlan_to_dict plan) (Some ''action_plan'') = Inr r"
    "check_signature w store auth = Inr ()" "check_current clock at_iso auth = Inr ()"
    "engagement_document w e plan (auth_operator auth) (auth_issued_at auth) (auth_authorized_until_utc auth) = Inr doc"
    "check_binding plan worker auth = Inr ()"
proof (cases trust)
  case (Some store)
  from assms [unfolded verify_execution_authorization_def Some option.case] show thesis
    by (elim bindE_InrE) (rule that [OF Some], simp_all)
qed (use assms in \<open>simp add: verify_execution_authorization_def\<close>)

section \<open>A concrete authorization\<close>

text \<open>A stand-in for the HMAC that reads both arguments.\<close>

definition demo_hmac :: "nat list \<Rightarrow> nat list \<Rightarrow> string" where
  "demo_hmac k b = (if even (length k + length b) then ''e'' else ''o'')"

definition demo_world :: world where
  "demo_world = \<lparr>w_env = demo_validator, w_hmac = demo_hmac, w_float = (\<lambda>_. NanF)\<rparr>"

definition demo_signer :: signer where
  "demo_signer = \<lparr>sg_key_id = ''k'', sg_operator = ''op'', sg_secret = replicate 32 7, sg_valid_from = JNull, sg_valid_until = JNull\<rparr>"

definition demo_key :: trusted_key where
  "demo_key = \<lparr>tk_key_id = ''k'', tk_operator = ''op'', tk_secret = replicate 32 7, tk_valid_from = JStr ''2024-01-01T00:00:00Z'',
     tk_valid_until = JStr ''2024-02-01T00:00:00Z'', tk_status = ''active''\<rparr>"

definition demo_active :: dict where
  "demo_active = demo_engagement @ [(''status'', JStr ''active''), (''operator'', JStr ''op'')]"

definition demo_request :: create_args where
  "demo_request = \<lparr>ca_worker_identity = ''w'', ca_valid_hours = 4, ca_approval_mode = ''m'', ca_issued_at = Some ''2024-01-01T00:00:00Z'',
     ca_authorized_until_utc = Some ''2024-01-01T04:00:00Z'', ca_authorization_id = Some ''auth-demo0001''\<rparr>"

definition demo_auth :: execution_authorization where
  "demo_auth = (unsigned_authorization demo_signer demo_action_plan demo_request ''auth-demo0001'' ''2024-01-01T00:00:00Z''
     ''2024-01-01T04:00:00Z'')\<lparr>auth_signature_digest := ''o''\<rparr>"

lemma demo_engagement_document:
  "\<exists>doc. engagement_document demo_world (EngagementDocument demo_active) demo_action_plan ''op'' ''2024-01-01T00:00:00Z'' ''2024-01-01T04:00:00Z'' = Inr doc"
  unfolding is_ok_iff [symmetric] by code_simp

lemma demo_signature: "compute_authorization_signature demo_world (signed_payload demo_auth) (replicate 32 7) = Inr ''o''"
  by code_simp

lemma demo_auth_valid: "\<exists>r. validate_contract demo_validator (ExecutionAuthorization_to_dict demo_auth) (Some ''execution_authorization'') = Inr r"
  unfolding is_ok_iff [symmetric] by code_simp

lemma demo_plan_valid: "\<exists>r. validate_contract demo_validator (ActionPlan_to_dict demo_action_plan) (Some ''action_plan'') = Inr r"
  by (rule ActionPlan_createD(2) [OF demo_created])

lemma demo_windows:
  "validate_window JNull JNull (JStr ''2024-01-01T00:00:00Z'') (JStr ''2024-01-01T04:00:00Z'') ''signing key'' = Inr ()"
  "resolve [(''k'', demo_key)] ''k'' ''op'' ''2024-01-01T00:00:00Z'' ''2024-01-01T04:00:00Z'' = Inr demo_key"
  "check_current 0 (Some ''2024-01-01T01:00:00Z'') demo_auth = Inr ()"
  "check_binding demo_action_plan ''w'' demo_auth = Inr ()"
  by code_simp+

lemma demo_auth_fields:
  "unsigned_authorization demo_signer demo_action_plan demo_request ''auth-demo0001'' ''2024-01-01T00:00:00Z''
     ''2024-01-01T04:00:00Z''\<lparr>auth_signature_digest := ''o''\<rparr> = demo_auth"
  "signed_payload (unsigned_authorization demo_signer demo_action_plan demo_request ''auth-demo0001'' ''2024-01-01T00:00:00Z''
     ''2024-01-01T04:00:00Z'') = signed_payload demo_auth"
  "auth_signing_key_id demo_auth = ''k''" "auth_operator demo_auth = ''op''" "auth_issued_at demo_auth = ''2024-01-01T00:00:00Z''"
  "auth_authorized_until_utc demo_auth = ''2024-01-01T04:00:00Z''" "auth_signature_digest demo_auth = ''o''"
  by (simp_all add: demo_auth_def signed_payload_def unsigned_authorization_def demo_signer_def)

lemma demo_record_fields:
  "w_env demo_world = demo_validator" "tk_secret demo_key = replicate 32 7" "sg_secret demo_signer = replicate 32 7" "sg_operator demo_signer = ''op''"
  "sg_valid_from demo_signer = JNull" "sg_valid_until demo_signer = JNull"
  "text_or (ca_issued_at demo_request) d = ''2024-01-01T00:00:00Z''" "text_or (ca_authorized_until_utc demo_request) d = ''2024-01-01T04:00:00Z''"
  "text_or (ca_authorization_id demo_request) d = ''auth-demo0001''" "plan_status demo_action_plan = ''draft''"
  by (simp_all add: demo_world_def demo_key_def demo_signer_def demo_request_def text_or_def demo_action_plan_def plan_status_def)

lemma demo_auth_created:
  "create_execution_authorization demo_world 0 [] (PlanObject demo_action_plan) demo_signer (EngagementDocument demo_active) demo_request = Inr demo_auth"
proof -
  obtain doc r r' where *: "engagement_document demo_world (EngagementDocument demo_active) demo_action_plan ''op'' ''2024-01-01T00:00:00Z'' ''2024-01-01T04:00:00Z'' = Inr doc"
    "validate_contract demo_validator (ActionPlan_to_dict demo_action_plan) (Some ''action_plan'') = Inr r"
    "validate_contract demo_validator (ExecutionAuthorization_to_dict demo_auth) (Some ''execution_authorization'') = Inr r'"
    using demo_engagement_document demo_plan_valid demo_auth_valid by blast
  have "''draft'' \<notin> set TERMINAL_PLAN" by (simp add: TERMINAL_PLAN_def)
  then show ?thesis unfolding create_execution_authorization_def
    by (simp only: plan_of_arg_def plan_arg.case bindE_simps demo_record_fields passE_def * sum.case if_False Let_def demo_auth_fields demo_signature demo_windows)
qed

lemma demo_auth_verified:
  "verify_execution_authorization demo_world 0 (AuthObject demo_auth) (PlanObject demo_action_plan) (Some [(''k'', demo_key)])
     (EngagementDocument demo_active) ''w'' (Some ''2024-01-01T01:00:00Z'') = Inr demo_auth"
proof -
  obtain doc r r' where *: "engagement_document demo_world (EngagementDocument demo_active) demo_action_plan ''op'' ''2024-01-01T00:00:00Z'' ''2024-01-01T04:00:00Z'' = Inr doc"
    "validate_contract demo_validator (ActionPlan_to_dict demo_action_plan) (Some ''action_plan'') = Inr r"
    "validate_contract demo_validator (ExecutionAuthorization_to_dict demo_auth) (Some ''execution_authorization'') = Inr r'"
    using demo_engagement_document demo_plan_valid demo_auth_valid by blast
  have "compare_digest ''o'' ''o'' = Inr True" by (simp add: compare_digest_def is_ascii_def)
  then show ?thesis unfolding verify_execution_authorization_def option.case auth_of_arg_def auth_arg.case plan_of_arg_def plan_arg.case check_signature_def
    by (simp only: bindE_simps demo_record_fields passE_def * sum.case if_True demo_auth_fields demo_signature demo_windows)
qed

section \<open>Authenticity\<close>

text \<open>
  C3. A verified authorization is authentic: its signature is the HMAC of the canonical bytes of every
  signed field under a key that the verifier's trust store holds as active for the named operator, the
  key has at least 32 bytes, and the authorized window lies within the validity of the key.
\<close>

theorem verify_authentic:
  assumes "verify_execution_authorization w clock a p trust e worker at_iso = Inr auth"
  shows "\<exists>store key b issued expires start stop. trust = Some store \<and>
    dict_get store (auth_signing_key_id auth) = Some key \<and> tk_status key = ''active'' \<and> tk_operator key = auth_operator auth \<and>
    32 \<le> length (tk_secret key) \<and>
    canonical (JObj (signed_payload auth)) DEFAULT_BYTES DEFAULT_DEPTH = Inr b \<and> auth_signature_digest auth = w_hmac w (tk_secret key) b \<and>
    timestamp (JStr (auth_issued_at auth)) = Inr issued \<and> timestamp (JStr (auth_authorized_until_utc auth)) = Inr expires \<and>
    timestamp (tk_valid_from key) = Inr start \<and> timestamp (tk_valid_until key) = Inr stop \<and>
    start \<le> issued \<and> issued < expires \<and> expires \<le> stop"
proof -
  from assms obtain store where st: "trust = Some store" and c: "check_signature w store auth = Inr ()" by (rule verifyD)
  from c obtain key b where k: "resolve store (auth_signing_key_id auth) (auth_operator auth) (auth_issued_at auth) (auth_authorized_until_utc auth) = Inr key"
    and rest: "32 \<le> length (tk_secret key)" "canonical (JObj (signed_payload auth)) DEFAULT_BYTES DEFAULT_DEPTH = Inr b"
      "auth_signature_digest auth = w_hmac w (tk_secret key) b" by (rule check_signatureD)
  note k' = resolveD [OF k]
  from k'(4) have "truthy (tk_valid_from key)" "truthy (tk_valid_until key)"
    by (auto simp: truthy_def iso_seconds_nonempty elim!: validate_key_windowD)
  with validate_windowD [OF k'(5)] k'(1-3) st rest show ?thesis by metis
qed

theorem verify_authentic_witness:
  "verify_execution_authorization demo_world 0 (AuthObject demo_auth) (PlanObject demo_action_plan) (Some [(''k'', demo_key)])
     (EngagementDocument demo_active) ''w'' (Some ''2024-01-01T01:00:00Z'') = Inr demo_auth \<and>
   (\<exists>b. canonical (JObj (signed_payload demo_auth)) DEFAULT_BYTES DEFAULT_DEPTH = Inr b \<and>
      auth_signature_digest demo_auth = demo_hmac (tk_secret demo_key) b)"
proof -
  have "w_hmac demo_world = demo_hmac" "auth_signing_key_id demo_auth = ''k''"
    by (simp_all add: demo_world_def demo_auth_def unsigned_authorization_def demo_signer_def)
  with verify_authentic [OF demo_auth_verified] demo_auth_verified show ?thesis by auto
qed

section \<open>Binding and freshness\<close>

text \<open>The document the caller supplies for the engagement, and the window it states: a moment that is absent is no bound.\<close>

definition supplied_engagement :: "engagement_arg \<Rightarrow> dict option" where
  "supplied_engagement e = (case e of NoEngagement \<Rightarrow> None | EngagementObject x \<Rightarrow> Some (Engagement_to_dict x) | EngagementDocument doc \<Rightarrow> Some doc)"

definition window_contains :: "dict \<Rightarrow> int \<Rightarrow> int \<Rightarrow> bool" where
  "window_contains doc issued expires \<longleftrightarrow>
     (\<exists>f u. item2 (JObj doc) ''window'' ''started_at'' = Inr f \<and> item2 (JObj doc) ''window'' ''authorized_until_utc'' = Inr u \<and>
        (truthy f \<longrightarrow> (\<exists>a. timestamp f = Inr a \<and> a \<le> issued)) \<and> (truthy u \<longrightarrow> (\<exists>b. timestamp u = Inr b \<and> expires \<le> b)))"

lemma engagement_documentD:
  assumes "engagement_document w e plan op i x = Inr doc"
  shows "supplied_engagement e = Some doc" "check_engagement w doc plan op i x = Inr doc"
  using assms check_engagementD(1) [of w _ plan op i x doc]
  by (auto simp: engagement_document_def supplied_engagement_def split: engagement_arg.splits)

lemma check_engagement_window:
  assumes "check_engagement w doc plan op i x = Inr doc" "timestamp (JStr i) = Inr issued" "timestamp (JStr x) = Inr expires"
  shows "window_contains doc issued expires"
  using check_engagementD(6) [OF assms(1)] assms(2,3) unfolding window_contains_def by (auto elim!: validate_windowD)

text \<open>
  C14. A verified authorization is approved, covers the present moment, and binds the very plan and
  worker it is used for: the plan's identity, digest and engagement agree, the signed snapshot equals
  the plan's approved snapshot, and the signed worker is the requesting one. The engagement that the caller
  supplies is the one of the plan and of the authorization: its document satisfies the engagement contract, carries that
  engagement's identifier, is active, names the authorization's operator, and states a window that contains the
  authorized one.
\<close>

theorem verify_bound:
  assumes "verify_execution_authorization w clock a p trust e worker at_iso = Inr auth"
  shows "\<exists>plan bound now issued expires. plan_of_arg w p = Inr plan \<and> auth_status auth = ''approved'' \<and>
    observed_time clock at_iso = Inr now \<and> timestamp (JStr (auth_issued_at auth)) = Inr issued \<and>
    timestamp (JStr (auth_authorized_until_utc auth)) = Inr expires \<and> issued \<le> now \<and> now < expires \<and>
    auth_action_plan_id auth = plan_id plan \<and> auth_plan_digest auth = plan_digest plan \<and> auth_engagement_id auth = plan_engagement_id plan \<and>
    thaw (auth_bound_parameters auth) = JObj bound \<and> py_eq (get_or_none bound ''action_plan'') (JObj (approved_snapshot True plan)) \<and>
    get_or_none bound ''worker_identity'' = JStr worker \<and>
    (\<exists>doc r. supplied_engagement e = Some doc \<and> validate_contract (w_env w) doc (Some ''engagement'') = Inr r \<and>
       dict_get doc ''status'' = Some (JStr ''active'') \<and> dict_get doc ''engagement_id'' = Some (JStr (plan_engagement_id plan)) \<and>
       dict_get doc ''operator'' = Some (JStr (auth_operator auth)) \<and> window_contains doc issued expires)"
proof -
  from assms obtain plan doc where p: "plan_of_arg w p = Inr plan" and c: "check_current clock at_iso auth = Inr ()"
    and d: "engagement_document w e plan (auth_operator auth) (auth_issued_at auth) (auth_authorized_until_utc auth) = Inr doc"
    and b: "check_binding plan worker auth = Inr ()" by (rule verifyD)
  note doc = engagement_documentD [OF d]
  from c obtain now issued expires where t: "auth_status auth = ''approved''" "observed_time clock at_iso = Inr now"
    "timestamp (JStr (auth_issued_at auth)) = Inr issued" "timestamp (JStr (auth_authorized_until_utc auth)) = Inr expires"
    "issued \<le> now" "now < expires" by (rule check_currentD)
  from check_engagement_window [OF doc(2) t(3,4)] doc(1) check_engagementD(2-5) [OF doc(2)] p t check_bindingD [OF b]
  show ?thesis by blast
qed

theorem verify_bound_witness:
  "verify_execution_authorization demo_world 0 (AuthObject demo_auth) (PlanObject demo_action_plan) (Some [(''k'', demo_key)])
     (EngagementDocument demo_active) ''w'' (Some ''2024-01-01T01:00:00Z'') = Inr demo_auth \<and>
   auth_plan_digest demo_auth = plan_digest demo_action_plan \<and>
   dict_get demo_active ''engagement_id'' = Some (JStr (plan_engagement_id demo_action_plan))"
  using verify_bound [OF demo_auth_verified] demo_auth_verified by (auto simp: plan_of_arg_def supplied_engagement_def)

section \<open>What the signer issues, the verifier accepts\<close>

lemma py_eq_refl: "json_ok v \<Longrightarrow> py_eq v v"
proof (induction v)
  case (JFloat f)
  then show ?case by (cases f) auto
next
  case (JList vs)
  then have "\<And>v. v \<in> set vs \<Longrightarrow> py_eq v v" by (simp add: list_all_iff)
  then show ?case by (auto simp: list_all_iff set_zip)
next
  case (JObj d)
  have "py_eq v u" if "(k, v) \<in> set d" "dict_get d k = Some u" for k v u
  proof -
    have "u = v" using that JObj.prems by (auto simp: dict_get_def)
    moreover have "json_ok v" using that(1) JObj.prems by (auto simp: list_all_iff)
    ultimately show ?thesis using JObj.IH [of "(k, v)" v] that(1) by (simp add: snds.simps)
  qed
  moreover have "dict_get d k \<noteq> None" if "(k, v) \<in> set d" for k v
    using that by (auto simp: dict_get_None_iff dict_keys_def intro: rev_image_eqI)
  ultimately show ?case by (auto simp: list_all_iff split: option.split)
qed simp_all

lemma createD:
  assumes "create_execution_authorization w now uuid p s e a = Inr auth" "plan_of_arg w p = Inr plan"
  obtains doc r r' sig where
    "auth = (unsigned_authorization s plan a (text_or (ca_authorization_id a) (''auth-'' @ take 16 uuid)) (auth_issued_at auth) (auth_authorized_until_utc auth))\<lparr>auth_signature_digest := sig\<rparr>"
    "validate_contract (w_env w) (ActionPlan_to_dict plan) (Some ''action_plan'') = Inr r"
    "plan_status plan \<notin> set TERMINAL_PLAN"
    "engagement_document w e plan (sg_operator s) (auth_issued_at auth) (auth_authorized_until_utc auth) = Inr doc"
    "compute_authorization_signature w (signed_payload auth) (sg_secret s) = Inr sig"
    "validate_contract (w_env w) (ExecutionAuthorization_to_dict auth) (Some ''execution_authorization'') = Inr r'"
proof -
  let ?i = "text_or (ca_issued_at a) (iso_seconds now)"
  let ?x = "text_or (ca_authorized_until_utc a) (iso_seconds (now + ca_valid_hours a * 3600000000))"
  let ?u = "unsigned_authorization s plan a (text_or (ca_authorization_id a) (''auth-'' @ take 16 uuid)) ?i ?x"
  from assms obtain r where r: "validate_contract (w_env w) (ActionPlan_to_dict plan) (Some ''action_plan'') = Inr r"
    and t: "plan_status plan \<notin> set TERMINAL_PLAN"
    and rest: "bindE (engagement_document w e plan (sg_operator s) ?i ?x) (\<lambda>_.
       bindE (validate_window (sg_valid_from s) (sg_valid_until s) (JStr ?i) (JStr ?x) ''signing key'') (\<lambda>_.
       bindE (compute_authorization_signature w (signed_payload ?u) (sg_secret s)) (\<lambda>signature.
       bindE (passE (validate_contract (w_env w) (ExecutionAuthorization_to_dict (?u\<lparr>auth_signature_digest := signature\<rparr>)) (Some ''execution_authorization''))) (\<lambda>_.
         Inr (?u\<lparr>auth_signature_digest := signature\<rparr>))))) = Inr auth"
    unfolding create_execution_authorization_def Let_def by (elim bindE_InrE) (auto split: if_splits)
  from rest obtain doc sig r' where d: "engagement_document w e plan (sg_operator s) ?i ?x = Inr doc"
    and sig: "compute_authorization_signature w (signed_payload ?u) (sg_secret s) = Inr sig"
    and v: "validate_contract (w_env w) (ExecutionAuthorization_to_dict (?u\<lparr>auth_signature_digest := sig\<rparr>)) (Some ''execution_authorization'') = Inr r'"
    and auth: "auth = ?u\<lparr>auth_signature_digest := sig\<rparr>"
    unfolding bindE_Inr_iff passE_Inr by blast
  have w: "auth_issued_at auth = ?i" "auth_authorized_until_utc auth = ?x" "signed_payload auth = signed_payload ?u"
    by (simp_all add: auth unsigned_authorization_def signed_payload_def)
  show thesis by (rule that [unfolded w, OF auth r t d sig v [folded auth]])
qed

lemma issued_binding:
  assumes "auth = (unsigned_authorization s plan a aid i x)\<lparr>auth_signature_digest := sig\<rparr>" "json_ok (JObj (approved_snapshot True plan))"
  shows "check_binding plan (ca_worker_identity a) auth = Inr ()"
  using py_eq_refl [OF assms(2)] by (simp add: assms(1) check_binding_def unsigned_authorization_def del: freeze.simps)

lemma not_legacy: "auth_schema_version a \<noteq> ''1.0'' \<Longrightarrow> \<not> legacy_receipt (ExecutionAuthorization_to_dict a)"
  by (auto simp: legacy_receipt_def ExecutionAuthorization_to_dict_def opt_str_item_def dict_keys_def split: option.splits)

text \<open>
  C35. The verifier accepts what the signer issues: an authorization created for a plan, an engagement
  and a worker verifies for the same plan, engagement and worker, as an object and as its document, at
  every moment of its window, whenever the trust store holds the signer's key as active for the
  operator with a validity that contains the window.
\<close>

theorem issued_authorization_verifies:
  assumes "create_execution_authorization w now uuid p s e a = Inr auth"
    and plan: "plan_of_arg w p = Inr plan" "json_ok (JObj (approved_snapshot True plan))"
    and key: "dict_get store (sg_key_id s) = Some key" "tk_status key = ''active''" "tk_operator key = sg_operator s" "tk_secret key = sg_secret s"
      "validate_key_window (tk_valid_from key) (tk_valid_until key) = Inr ()"
      "validate_window (tk_valid_from key) (tk_valid_until key) (JStr (auth_issued_at auth)) (JStr (auth_authorized_until_utc auth)) ''trusted key'' = Inr ()"
    and hmac: "\<forall>k b. is_ascii (w_hmac w k b)"
    and time: "observed_time clock at_iso = Inr t" "timestamp (JStr (auth_issued_at auth)) = Inr i"
      "timestamp (JStr (auth_authorized_until_utc auth)) = Inr x" "i \<le> t" "t < x"
  shows "verify_execution_authorization w clock (AuthObject auth) p (Some store) e (ca_worker_identity a) at_iso = Inr auth \<and>
    verify_execution_authorization w clock (AuthDocument (ExecutionAuthorization_to_dict auth)) p (Some store) e (ca_worker_identity a) at_iso = Inr auth"
proof -
  from assms(1) plan(1) obtain doc r r' sig where
    auth: "auth = (unsigned_authorization s plan a (text_or (ca_authorization_id a) (''auth-'' @ take 16 uuid)) (auth_issued_at auth) (auth_authorized_until_utc auth))\<lparr>auth_signature_digest := sig\<rparr>"
    and v: "validate_contract (w_env w) (ActionPlan_to_dict plan) (Some ''action_plan'') = Inr r"
    and d: "engagement_document w e plan (sg_operator s) (auth_issued_at auth) (auth_authorized_until_utc auth) = Inr doc"
    and sig: "compute_authorization_signature w (signed_payload auth) (sg_secret s) = Inr sig"
    and v': "validate_contract (w_env w) (ExecutionAuthorization_to_dict auth) (Some ''execution_authorization'') = Inr r'" by (rule createD)
  have f: "auth_signing_key_id auth = sg_key_id s" "auth_operator auth = sg_operator s" "auth_status auth = ''approved''"
    "auth_signature_digest auth = sig" "auth_schema_version auth = ''cops.execution-authorization/v1''" "auth_wf auth"
    by (subst auth, simp add: unsigned_authorization_def auth_status_def auth_wf_def del: freeze.simps)+
  have "resolve store (sg_key_id s) (sg_operator s) (auth_issued_at auth) (auth_authorized_until_utc auth) = Inr key"
    using key by (simp add: resolve_def)
  moreover obtain b where "sig = w_hmac w (sg_secret s) b" using compute_signatureD(2) [OF sig] by blast
  with hmac have "is_ascii sig" by simp
  ultimately have c: "check_signature w store auth = Inr ()" using sig key(4) f by (simp add: check_signature_def compare_digest_def)
  have n: "check_current clock at_iso auth = Inr ()" using time f(3) by (simp add: check_current_def time_value_def liftE_def passE_def)
  have "auth_of_arg w (AuthObject auth) = Inr auth" using v' by (simp add: auth_of_arg_def passE_def)
  moreover have "auth_of_arg w (AuthDocument (ExecutionAuthorization_to_dict auth)) = Inr auth"
    using ExecutionAuthorization_read_back [OF v' f(6)] not_legacy [of auth] f(5) by (simp add: auth_of_arg_def tampered_def)
  ultimately show ?thesis
    using plan(1) v c n d issued_binding [OF auth plan(2)] f(2) by (simp add: verify_execution_authorization_def passE_def)
qed

theorem issued_authorization_verifies_witness:
  "verify_execution_authorization demo_world 0 (AuthDocument (ExecutionAuthorization_to_dict demo_auth)) (PlanObject demo_action_plan)
     (Some [(''k'', demo_key)]) (EngagementDocument demo_active) ''w'' (Some ''2024-01-01T03:59:59.999999Z'') = Inr demo_auth"
proof -
  have plan: "plan_of_arg demo_world (PlanObject demo_action_plan) = Inr demo_action_plan" by (simp add: plan_of_arg_def)
  have j: "json_ok (JObj (approved_snapshot True demo_action_plan))"
    by (simp add: approved_snapshot_def demo_action_plan_def offline_item_def MAX_INT_DIGITS_def nat_text.simps)
  have k: "dict_get [(''k'', demo_key)] (sg_key_id demo_signer) = Some demo_key" "tk_status demo_key = ''active''"
    "tk_operator demo_key = sg_operator demo_signer" "tk_secret demo_key = sg_secret demo_signer"
    by (simp_all add: demo_signer_def demo_key_def)
  have kw: "validate_key_window (tk_valid_from demo_key) (tk_valid_until demo_key) = Inr ()"
    "validate_window (tk_valid_from demo_key) (tk_valid_until demo_key) (JStr (auth_issued_at demo_auth)) (JStr (auth_authorized_until_utc demo_auth))
       ''trusted key'' = Inr ()" by code_simp+
  have h: "\<forall>k b. is_ascii (w_hmac demo_world k b)" by (simp add: demo_world_def demo_hmac_def is_ascii_def)
  have t: "observed_time 0 (Some ''2024-01-01T03:59:59.999999Z'') = Inr 63839678399999999" "timestamp (JStr (auth_issued_at demo_auth)) = Inr 63839664000000000"
    "timestamp (JStr (auth_authorized_until_utc demo_auth)) = Inr 63839678400000000" by code_simp+
  have w: "ca_worker_identity demo_request = ''w''" by (simp add: demo_request_def)
  show ?thesis using issued_authorization_verifies [OF demo_auth_created plan j k kw h t] unfolding w by simp
qed

end
