(* ===== verification/Approval_Store.thy ===== *)
theory Approval_Store
  imports Authorization
begin

text \<open>
  \<^verbatim>\<open>cops/execution/store.py\<close>: the approval store. The two SQL tables are lists of rows
  in insertion order; an operation is one immediate transaction, so it returns its outcome and the
  database it commits, which is the old one when it rolls back. The order of interleaved
  operations of several processes is the order of their transactions.

  The file system is a parameter: \<open>path_status\<close> is what \<^verbatim>\<open>lstat\<close> reports of a path (\<open>None\<close> for an
  \<^verbatim>\<open>OSError\<close>), and \<open>protected\<close> is what \<open>assert_protected_owner\<close> raises when an operation calls it.
  Times are texts read by \<^verbatim>\<open>timestamp\<close>; the clock text \<open>now_text\<close> is \<^verbatim>\<open>current_time_iso or utc_now()\<close>.
  A blob of canonical JSON is the list of its bytes; \<^verbatim>\<open>json.loads\<close> reads bytes as UTF-8.
\<close>

section \<open>Records and errors\<close>

datatype store_exc =
    ApprovalStoreNotFoundError string
  | ApprovalStoreAccessError string
  | ApprovalStoreConflictError string
  | StorePassed contract_exc
  | StoreJson json_error

definition storeE :: "(contract_exc, 'a) result \<Rightarrow> (store_exc, 'a) result" where
  "storeE r = (case r of Inl e \<Rightarrow> Inl (StorePassed e) | Inr a \<Rightarrow> Inr a)"

definition evidenceE :: "(evidence_error, 'a) result \<Rightarrow> (store_exc, 'a) result" where
  "evidenceE r = storeE (liftE r)"

abbreviation conflict :: "string \<Rightarrow> (store_exc, 'a) result" where
  "conflict message \<equiv> Inl (ApprovalStoreConflictError message)"

record legacy_record =
  lr_authorization_id :: string
  lr_action_plan_id :: string
  lr_plan_digest :: string
  lr_engagement_id :: string
  lr_operator :: string
  lr_historical_status :: string
  lr_issued_at :: string
  lr_authorized_until_utc :: string
  lr_bound_parameters :: json
  lr_approval_mode :: string
  lr_signature_algorithm :: string
  lr_signing_key_id :: string
  lr_signature_digest :: string
  lr_consumed_at :: "string option"
  lr_consumed_by_worker :: "string option"

definition legacy_status :: "legacy_record \<Rightarrow> string" where
  "legacy_status r = ''legacy-untrusted''"

definition null_or_text :: "string option \<Rightarrow> json" where
  "null_or_text x = (case x of None \<Rightarrow> JNull | Some s \<Rightarrow> JStr s)"

definition LegacyApprovalRecord_to_dict :: "legacy_record \<Rightarrow> dict" where
  "LegacyApprovalRecord_to_dict r = [
     (''record_type'', JStr ''legacy-untrusted''),
     (''authorization_id'', JStr (lr_authorization_id r)),
     (''action_plan_id'', JStr (lr_action_plan_id r)),
     (''plan_digest'', JStr (lr_plan_digest r)),
     (''engagement_id'', JStr (lr_engagement_id r)),
     (''operator'', JStr (lr_operator r)),
     (''status'', JStr (legacy_status r)),
     (''historical_status'', JStr (lr_historical_status r)),
     (''issued_at'', JStr (lr_issued_at r)),
     (''authorized_until_utc'', JStr (lr_authorized_until_utc r)),
     (''bound_parameters'', lr_bound_parameters r),
     (''approval_mode'', JStr (lr_approval_mode r)),
     (''signature_algorithm'', JStr (lr_signature_algorithm r)),
     (''signing_key_id'', JStr (lr_signing_key_id r)),
     (''signature_digest'', JStr (lr_signature_digest r)),
     (''consumed_at'', null_or_text (lr_consumed_at r)),
     (''consumed_by_worker'', null_or_text (lr_consumed_by_worker r))]"

record consumption =
  cn_request_id :: string
  cn_request_digest :: string
  cn_authorization_id :: string
  cn_authorization_digest :: string
  cn_action_plan_id :: string
  cn_plan_digest :: string
  cn_engagement_id :: string
  cn_worker_identity :: string
  cn_target :: string
  cn_created_at :: string

section \<open>Tables\<close>

record approval =
  ap_authorization_id :: string
  ap_action_plan_id :: string
  ap_plan_digest :: string
  ap_engagement_id :: string
  ap_operator :: string
  ap_status :: string
  ap_issued_at :: string
  ap_authorized_until_utc :: string
  ap_bound_parameters_json :: "nat list"
  ap_approval_mode :: string
  ap_signature_algorithm :: string
  ap_signing_key_id :: string
  ap_signature_digest :: string
  ap_legacy_status :: "string option"
  ap_consumed_at :: "string option"
  ap_consumed_by_worker :: "string option"
  ap_created_at :: string

text \<open>\<open>db_columns\<close> are the columns of the approvals table; \<open>None\<close> before the table exists.\<close>

record database =
  db_columns :: "string list option"
  db_approvals :: "approval list"
  db_consumptions :: "consumption list"

definition SCHEMA_COLUMNS :: "string list" where
  "SCHEMA_COLUMNS = [''authorization_id'', ''action_plan_id'', ''plan_digest'', ''engagement_id'', ''operator'', ''status'', ''issued_at'',
     ''authorized_until_utc'', ''bound_parameters_json'', ''approval_mode'', ''signature_algorithm'', ''signing_key_id'', ''signature_digest'',
     ''legacy_status'', ''consumed_at'', ''consumed_by_worker'', ''created_at'']"

definition select_approval :: "string \<Rightarrow> database \<Rightarrow> approval option" where
  "select_approval aid db = select_row ap_authorization_id aid (db_approvals db)"

definition select_consumption :: "string \<Rightarrow> database \<Rightarrow> consumption option" where
  "select_consumption rid db = select_row cn_request_id rid (db_consumptions db)"

section \<open>File protection\<close>

datatype file_kind = Directory | RegularFile | OtherFile

text \<open>The modes \<^verbatim>\<open>0o700\<close> and \<^verbatim>\<open>0o600\<close>.\<close>

abbreviation mode_700 :: int where
  "mode_700 \<equiv> 7 * 64"

abbreviation mode_600 :: int where
  "mode_600 \<equiv> 6 * 64"

record path_status =
  ps_kind :: file_kind
  ps_uid :: int
  ps_mode :: int

text \<open>
  \<open>posix\<close>: \<^verbatim>\<open>os.name == "posix" and require_secure_perms\<close>. \<open>parent\<close> is the directory after the
  \<^verbatim>\<open>mkdir\<close> and the attempted \<^verbatim>\<open>chmod\<close> of a new one; \<open>db\<close> is \<open>None\<close> when the path does not exist, and
  \<open>Some None\<close> when it exists and \<^verbatim>\<open>lstat\<close> fails.
\<close>

definition ensure_storage_security ::
  "bool \<Rightarrow> int \<Rightarrow> path_status option \<Rightarrow> path_status option option \<Rightarrow> (store_exc, unit) result" where
  "ensure_storage_security posix euid parent db =
     (if \<not> posix then Inr ()
      else case parent of
        None \<Rightarrow> Inl (ApprovalStoreAccessError ''failed to secure approval store permissions'')
      | Some p \<Rightarrow>
          if ps_kind p \<noteq> Directory then Inl (ApprovalStoreAccessError ''approval store directory is not a directory'')
          else if ps_uid p \<noteq> euid then Inl (ApprovalStoreAccessError ''approval store directory is not owned by the current account'')
          else if ps_mode p \<noteq> mode_700 then Inl (ApprovalStoreAccessError ''approval store directory has insecure permissions'')
          else case db of
            None \<Rightarrow> Inr ()
          | Some None \<Rightarrow> Inl (ApprovalStoreAccessError ''failed to secure approval store permissions'')
          | Some (Some f) \<Rightarrow>
              if ps_kind f \<noteq> RegularFile then Inl (ApprovalStoreAccessError ''approval store database file is not a regular file'')
              else if ps_uid f \<noteq> euid then Inl (ApprovalStoreAccessError ''approval store database file is not owned by the current account'')
              else if ps_mode f \<noteq> mode_600 then Inl (ApprovalStoreAccessError ''approval store database file has insecure permissions'')
              else Inr ())"

datatype open_outcome = Created | AlreadyExists | OpenFailed

text \<open>A file that appears meanwhile (\<open>db'\<close> is its status then) must pass the same checks.\<close>

definition prepare_database_file ::
  "bool \<Rightarrow> int \<Rightarrow> path_status option option \<Rightarrow> open_outcome \<Rightarrow> path_status option \<Rightarrow> path_status option option \<Rightarrow> (store_exc, unit) result" where
  "prepare_database_file posix euid db opened parent' db' =
     (if \<not> posix \<or> db \<noteq> None then Inr ()
      else case opened of
        Created \<Rightarrow> Inr ()
      | AlreadyExists \<Rightarrow> ensure_storage_security posix euid parent' db'
      | OpenFailed \<Rightarrow> Inl (ApprovalStoreAccessError ''failed to create protected approval store''))"

text \<open>One entry of the table of expected paths: its status, type, mode, label, and whether it may be absent.\<close>

record protected_path =
  pp_exists :: bool
  pp_status :: "path_status option"
  pp_kind :: file_kind
  pp_mode :: int
  pp_label :: string
  pp_sidecar :: bool

fun check_paths :: "int \<Rightarrow> protected_path list \<Rightarrow> (store_exc, unit) result" where
  "check_paths uid [] = Inr ()"
| "check_paths uid (p # ps) =
     (if pp_sidecar p \<and> \<not> pp_exists p then check_paths uid ps
      else case pp_status p of
        None \<Rightarrow> Inl (ApprovalStoreAccessError (''approval store '' @ pp_label p @ '' is unavailable''))
      | Some st \<Rightarrow>
          if ps_kind st \<noteq> pp_kind p then Inl (ApprovalStoreAccessError (''approval store '' @ pp_label p @ '' must not be a link or special file''))
          else if ps_uid st \<noteq> uid then Inl (ApprovalStoreAccessError (''approval store '' @ pp_label p @ '' is not owned by the authority UID''))
          else if ps_mode st \<noteq> pp_mode p then Inl (ApprovalStoreAccessError (''approval store '' @ pp_label p @ '' permissions are wrong''))
          else check_paths uid ps)"

record store_paths =
  sp_parent :: "path_status option"
  sp_database :: "path_status option"
  sp_wal :: "path_status option option"
  sp_shm :: "path_status option option"

definition sidecar :: "path_status option option \<Rightarrow> string \<Rightarrow> protected_path" where
  "sidecar st label = \<lparr>pp_exists = (st \<noteq> None), pp_status = Option.bind st id, pp_kind = RegularFile, pp_mode = mode_600,
     pp_label = label, pp_sidecar = True\<rparr>"

definition assert_protected_owner :: "bool \<Rightarrow> store_paths \<Rightarrow> int \<Rightarrow> (store_exc, unit) result" where
  "assert_protected_owner posix sp uid =
     (if \<not> posix then Inl (ApprovalStoreAccessError ''protected approval storage requires POSIX permission checks'')
      else check_paths uid [
        \<lparr>pp_exists = True, pp_status = sp_parent sp, pp_kind = Directory, pp_mode = mode_700, pp_label = ''directory'', pp_sidecar = False\<rparr>,
        \<lparr>pp_exists = True, pp_status = sp_database sp, pp_kind = RegularFile, pp_mode = mode_600, pp_label = ''database'', pp_sidecar = False\<rparr>,
        sidecar (sp_wal sp) ''WAL sidecar'', sidecar (sp_shm sp) ''shared-memory sidecar''])"

section \<open>Opening a database\<close>

definition add_column :: "string \<Rightarrow> (approval \<Rightarrow> approval) \<Rightarrow> database \<Rightarrow> database" where
  "add_column name fill db =
     (case db_columns db of
        None \<Rightarrow> db
      | Some cs \<Rightarrow> if name \<in> set cs then db
          else db\<lparr>db_columns := Some (cs @ [name]), db_approvals := map fill (db_approvals db)\<rparr>)"

definition distrust :: "approval \<Rightarrow> approval" where
  "distrust r = r\<lparr>ap_legacy_status := Some (ap_status r), ap_status := ''legacy-untrusted''\<rparr>"

definition create_tables :: "database \<Rightarrow> database" where
  "create_tables db = (case db_columns db of None \<Rightarrow> db\<lparr>db_columns := Some SCHEMA_COLUMNS\<rparr> | Some _ \<Rightarrow> db)"

definition is_legacy :: "database \<Rightarrow> bool" where
  "is_legacy db = (case db_columns db of
       None \<Rightarrow> False
     | Some cs \<Rightarrow> ''signature_algorithm'' \<notin> set cs \<or> ''signing_key_id'' \<notin> set cs)"

definition init_db :: "database \<Rightarrow> database" where
  "init_db db =
     (let db0 = create_tables db;
          db1 = add_column ''signature_algorithm'' (\<lambda>r. r\<lparr>ap_signature_algorithm := ''legacy-untrusted''\<rparr>) db0;
          db2 = add_column ''signing_key_id'' (\<lambda>r. r\<lparr>ap_signing_key_id := []\<rparr>) db1;
          db3 = add_column ''legacy_status'' (\<lambda>r. r\<lparr>ap_legacy_status := None\<rparr>) db2 in
      if is_legacy db0 then db3\<lparr>db_approvals := map distrust (db_approvals db3)\<rparr> else db3)"

definition open_store ::
  "bool \<Rightarrow> int \<Rightarrow> path_status option \<Rightarrow> path_status option option \<Rightarrow> open_outcome \<Rightarrow> path_status option \<Rightarrow> path_status option option \<Rightarrow>
   store_paths \<Rightarrow> database \<Rightarrow> (database, store_exc, unit) outcome" where
  "open_store posix euid parent db opened parent' db' sp d =
     (case bindE (ensure_storage_security posix euid parent db) (\<lambda>_. prepare_database_file posix euid db opened parent' db') of
        Inl e \<Rightarrow> (Inl e, d)
      | Inr _ \<Rightarrow> (if posix then assert_protected_owner posix sp euid else Inr (), init_db d))"

section \<open>Storing and reading approvals\<close>

definition row_of_auth :: "execution_authorization \<Rightarrow> nat list \<Rightarrow> string \<Rightarrow> approval" where
  "row_of_auth a bound now_text = \<lparr>
     ap_authorization_id = auth_authorization_id a, ap_action_plan_id = auth_action_plan_id a, ap_plan_digest = auth_plan_digest a,
     ap_engagement_id = auth_engagement_id a, ap_operator = auth_operator a, ap_status = auth_status a, ap_issued_at = auth_issued_at a,
     ap_authorized_until_utc = auth_authorized_until_utc a, ap_bound_parameters_json = bound, ap_approval_mode = auth_approval_mode a,
     ap_signature_algorithm = auth_signature_algorithm a, ap_signing_key_id = auth_signing_key_id a, ap_signature_digest = auth_signature_digest a,
     ap_legacy_status = None, ap_consumed_at = auth_consumed_at a, ap_consumed_by_worker = auth_consumed_by_worker a, ap_created_at = now_text\<rparr>"

definition store_authorization :: "validator \<Rightarrow> string \<Rightarrow> execution_authorization \<Rightarrow> database \<Rightarrow> (database, store_exc, unit) outcome" where
  "store_authorization env now_text a db =
     (case bindE (storeE (validate_contract env (ExecutionAuthorization_to_dict a) (Some ''execution_authorization''))) (\<lambda>_.
             evidenceE (canonical (thaw (auth_bound_parameters a)) DEFAULT_BYTES DEFAULT_DEPTH)) of
        Inl e \<Rightarrow> (Inl e, db)
      | Inr bound \<Rightarrow>
          if select_approval (auth_authorization_id a) db \<noteq> None
          then (conflict (''authorization '' @ quoted (auth_authorization_id a) @ '' already exists in approval store''), db)
          else (Inr (), db\<lparr>db_approvals := insert_row (row_of_auth a bound now_text) (db_approvals db)\<rparr>))"

text \<open>
  \<^verbatim>\<open>json.loads\<close> of stored bytes, read as UTF-8; bytes in UTF-16 or UTF-32, which it recognises by their
  first bytes and which \<^verbatim>\<open>canonical\<close> never writes, are taken as malformed.
\<close>

definition load_bytes :: "(string \<Rightarrow> pyfloat) \<Rightarrow> nat list \<Rightarrow> (store_exc, json) result" where
  "load_bytes pf b =
     (case utf8_decode b of
        None \<Rightarrow> Inl (StoreJson DecodeError)
      | Some s \<Rightarrow> (case loads (plain_hooks pf) s of Inl e \<Rightarrow> Inl (StoreJson e) | Inr v \<Rightarrow> Inr v))"

definition row_doc :: "approval \<Rightarrow> json \<Rightarrow> dict" where
  "row_doc r bound = [
     (''schema_version'', JStr ''cops.execution-authorization/v1''),
     (''authorization_id'', JStr (ap_authorization_id r)),
     (''action_plan_id'', JStr (ap_action_plan_id r)),
     (''plan_digest'', JStr (ap_plan_digest r)),
     (''engagement_id'', JStr (ap_engagement_id r)),
     (''operator'', JStr (ap_operator r)),
     (''status'', JStr (ap_status r)),
     (''issued_at'', JStr (ap_issued_at r)),
     (''authorized_until_utc'', JStr (ap_authorized_until_utc r)),
     (''bound_parameters'', bound),
     (''approval_mode'', JStr (ap_approval_mode r)),
     (''signature_algorithm'', JStr (ap_signature_algorithm r)),
     (''signing_key_id'', JStr (ap_signing_key_id r)),
     (''signature_digest'', JStr (ap_signature_digest r))]"

text \<open>\<^verbatim>\<open>if row[k]: doc[k] = row[k]\<close>: neither \<^verbatim>\<open>NULL\<close> nor the empty text is copied.\<close>

definition truthy_item :: "string \<Rightarrow> string option \<Rightarrow> dict" where
  "truthy_item k x = (case x of Some (c # cs) \<Rightarrow> [(k, JStr (c # cs))] | _ \<Rightarrow> [])"

definition full_row_doc :: "approval \<Rightarrow> json \<Rightarrow> dict" where
  "full_row_doc r bound = row_doc r bound @ truthy_item ''consumed_at'' (ap_consumed_at r) @ truthy_item ''consumed_by_worker'' (ap_consumed_by_worker r)"

definition legacy_of_row :: "approval \<Rightarrow> json \<Rightarrow> legacy_record" where
  "legacy_of_row r bound = \<lparr>
     lr_authorization_id = ap_authorization_id r, lr_action_plan_id = ap_action_plan_id r, lr_plan_digest = ap_plan_digest r,
     lr_engagement_id = ap_engagement_id r, lr_operator = ap_operator r, lr_historical_status = text_or (ap_legacy_status r) ''unknown'',
     lr_issued_at = ap_issued_at r, lr_authorized_until_utc = ap_authorized_until_utc r, lr_bound_parameters = bound,
     lr_approval_mode = ap_approval_mode r, lr_signature_algorithm = ap_signature_algorithm r, lr_signing_key_id = ap_signing_key_id r,
     lr_signature_digest = ap_signature_digest r, lr_consumed_at = ap_consumed_at r, lr_consumed_by_worker = ap_consumed_by_worker r\<rparr>"

datatype stored = Trusted execution_authorization | Historical legacy_record

definition read_row :: "validator \<Rightarrow> (string \<Rightarrow> pyfloat) \<Rightarrow> approval \<Rightarrow> (store_exc, stored) result" where
  "read_row env pf r =
     bindE (load_bytes pf (ap_bound_parameters_json r)) (\<lambda>bound.
       if ap_status r = ''legacy-untrusted'' then Inr (Historical (legacy_of_row r bound))
       else bindE (storeE (ExecutionAuthorization_from_dict env (full_row_doc r bound))) (\<lambda>a. Inr (Trusted a)))"

definition get_authorization :: "validator \<Rightarrow> (string \<Rightarrow> pyfloat) \<Rightarrow> string \<Rightarrow> database \<Rightarrow> (store_exc, stored) result" where
  "get_authorization env pf aid db =
     (case select_approval aid db of
        None \<Rightarrow> Inl (ApprovalStoreNotFoundError (''authorization '' @ quoted aid @ '' not found in store''))
      | Some r \<Rightarrow> read_row env pf r)"

text \<open>
  \<^verbatim>\<open>ORDER BY issued_at DESC\<close>; the order of rows with the same text, which SQL leaves open, is that of
  the table.
\<close>

definition list_approvals :: "validator \<Rightarrow> (string \<Rightarrow> pyfloat) \<Rightarrow> string option \<Rightarrow> database \<Rightarrow> (store_exc, stored list) result" where
  "list_approvals env pf status db =
     (let chosen = (case status of Some (c # cs) \<Rightarrow> filter (\<lambda>r. ap_status r = c # cs) (db_approvals db) | _ \<Rightarrow> db_approvals db) in
      mapE (read_row env pf) (rev (sort_key ap_issued_at (rev chosen))))"

section \<open>Consumption receipts\<close>

record receipt_bindings =
  rb_request_digest :: string
  rb_authorization_id :: string
  rb_action_plan_id :: string
  rb_plan_digest :: string
  rb_engagement_id :: string
  rb_worker_identity :: string
  rb_target :: string

definition bindings_of :: "consumption \<Rightarrow> receipt_bindings" where
  "bindings_of c = \<lparr>rb_request_digest = cn_request_digest c, rb_authorization_id = cn_authorization_id c, rb_action_plan_id = cn_action_plan_id c,
     rb_plan_digest = cn_plan_digest c, rb_engagement_id = cn_engagement_id c, rb_worker_identity = cn_worker_identity c, rb_target = cn_target c\<rparr>"

definition assert_matching_consumption :: "consumption \<Rightarrow> receipt_bindings \<Rightarrow> (store_exc, unit) result" where
  "assert_matching_consumption c expected =
     (if bindings_of c = expected then Inr ()
      else conflict (''approval request_id '' @ quoted (cn_request_id c) @ '' was already used for a different request''))"

definition get_matching_consumption :: "string \<Rightarrow> receipt_bindings \<Rightarrow> database \<Rightarrow> (store_exc, consumption option) result" where
  "get_matching_consumption rid expected db =
     (case select_consumption rid db of
        None \<Rightarrow> Inr None
      | Some c \<Rightarrow> bindE (assert_matching_consumption c expected) (\<lambda>_. Inr (Some c)))"

section \<open>Consuming an approval\<close>

definition set_status :: "string \<Rightarrow> string \<Rightarrow> database \<Rightarrow> database" where
  "set_status aid st db = db\<lparr>db_approvals := update_key ap_authorization_id aid (\<lambda>r. r\<lparr>ap_status := st\<rparr>) (db_approvals db)\<rparr>"

definition mark_consumed :: "string \<Rightarrow> string \<Rightarrow> string \<Rightarrow> database \<Rightarrow> database" where
  "mark_consumed aid now_text worker db =
     db\<lparr>db_approvals := update_rows (\<lambda>r. ap_authorization_id r = aid \<and> ap_status r = ''approved'')
          (\<lambda>r. r\<lparr>ap_status := ''consumed'', ap_consumed_at := Some now_text, ap_consumed_by_worker := Some worker\<rparr>) (db_approvals db)\<rparr>"

definition consumable_rows :: "string \<Rightarrow> database \<Rightarrow> nat" where
  "consumable_rows aid db = length (filter (\<lambda>r. ap_authorization_id r = aid \<and> ap_status r = ''approved'') (db_approvals db))"

definition consumed_doc :: "string \<Rightarrow> string \<Rightarrow> dict \<Rightarrow> dict" where
  "consumed_doc now_text worker doc =
     dict_set ''consumed_by_worker'' (JStr worker) (dict_set ''consumed_at'' (JStr now_text) (dict_set ''status'' (JStr ''consumed'') doc))"

text \<open>
  The checks both consuming operations make of the row once its document is built: it is the verified
  receipt, it is bound to the worker, and it is valid now. \<open>Some expiry\<close> is a row still in its window,
  \<open>None\<close> one that has expired.
\<close>

definition same_canonical :: "dict \<Rightarrow> dict \<Rightarrow> (store_exc, bool) result" where
  "same_canonical d e =
     bindE (evidenceE (canonical (JObj d) DEFAULT_BYTES DEFAULT_DEPTH)) (\<lambda>x.
     bindE (evidenceE (canonical (JObj e) DEFAULT_BYTES DEFAULT_DEPTH)) (\<lambda>y. Inr (x = y)))"

definition check_row :: "string \<Rightarrow> dict \<Rightarrow> execution_authorization \<Rightarrow> string \<Rightarrow> int \<Rightarrow> approval \<Rightarrow> (store_exc, int option) result" where
  "check_row aid doc expected worker now r =
     bindE (same_canonical doc (ExecutionAuthorization_to_dict expected)) (\<lambda>same.
     if \<not> same then conflict (''authorization '' @ quoted aid @ '' differs from the verified receipt'')
     else case dict_get doc ''bound_parameters'' of
       Some (JObj bound) \<Rightarrow>
         if dict_get bound ''worker_identity'' \<noteq> Some (JStr worker)
         then conflict (''authorization '' @ quoted aid @ '' is bound to a different worker'')
         else bindE (evidenceE (timestamp (JStr (ap_issued_at r)))) (\<lambda>issued.
           if now < issued then conflict (''authorization '' @ quoted aid @ '' is not yet valid'')
           else bindE (evidenceE (timestamp (JStr (ap_authorized_until_utc r)))) (\<lambda>expiry.
             Inr (if expiry \<le> now then None else Some expiry)))
     | _ \<Rightarrow> Inl (StorePassed (Evidence ValueTypeError)))"

definition find_approved :: "string \<Rightarrow> database \<Rightarrow> (store_exc, approval) result" where
  "find_approved aid db =
     (case select_approval aid db of
        None \<Rightarrow> Inl (ApprovalStoreNotFoundError (''authorization '' @ quoted aid @ '' not found in store''))
      | Some r \<Rightarrow>
          if ap_status r \<noteq> ''approved''
          then conflict (''cannot consume authorization '' @ quoted aid @ '': status is '' @ quoted (ap_status r) @ '' (already consumed or revoked)'')
          else Inr r)"

record consume_request =
  rq_request_id :: string
  rq_request_digest :: string
  rq_target :: string
  rq_expected :: execution_authorization
  rq_worker_identity :: string

definition expected_bindings :: "consume_request \<Rightarrow> receipt_bindings" where
  "expected_bindings q = \<lparr>rb_request_digest = rq_request_digest q, rb_authorization_id = auth_authorization_id (rq_expected q),
     rb_action_plan_id = auth_action_plan_id (rq_expected q), rb_plan_digest = auth_plan_digest (rq_expected q),
     rb_engagement_id = auth_engagement_id (rq_expected q), rb_worker_identity = rq_worker_identity q, rb_target = rq_target q\<rparr>"

text \<open>The receipt of a consumed document, and the commit that records it.\<close>

definition consumption_of ::
  "validator \<Rightarrow> string \<Rightarrow> consume_request \<Rightarrow> dict \<Rightarrow> (store_exc, consumption) result" where
  "consumption_of env now_text q doc =
     bindE (storeE (ExecutionAuthorization_from_dict env (consumed_doc now_text (rq_worker_identity q) doc))) (\<lambda>consumed.
     bindE (evidenceE (digest (v_sha env) (JObj (ExecutionAuthorization_to_dict consumed)) DEFAULT_BYTES DEFAULT_DEPTH)) (\<lambda>h.
       Inr \<lparr>cn_request_id = rq_request_id q, cn_request_digest = rq_request_digest q,
         cn_authorization_id = auth_authorization_id (rq_expected q), cn_authorization_digest = h,
         cn_action_plan_id = auth_action_plan_id consumed, cn_plan_digest = auth_plan_digest consumed,
         cn_engagement_id = auth_engagement_id consumed, cn_worker_identity = rq_worker_identity q,
         cn_target = rq_target q, cn_created_at = now_text\<rparr>))"

definition consumption_clashes :: "consumption \<Rightarrow> database \<Rightarrow> bool" where
  "consumption_clashes c db \<longleftrightarrow>
     list_ex (\<lambda>x. cn_request_id x = cn_request_id c \<or> cn_authorization_id x = cn_authorization_id c) (db_consumptions db) \<or>
     select_approval (cn_authorization_id c) db = None"

definition record_consumption ::
  "(store_exc, unit) result \<Rightarrow> consumption \<Rightarrow> database \<Rightarrow> database \<Rightarrow> (database, store_exc, consumption) outcome" where
  "record_consumption protected c marked db =
     (if consumption_clashes c marked then (conflict ''approval consumption request conflicts with an existing receipt'', db)
      else case protected of
        Inl e \<Rightarrow> (Inl e, db)
      | Inr _ \<Rightarrow> (Inr c, marked\<lparr>db_consumptions := insert_row c (db_consumptions marked)\<rparr>))"

definition consume_fresh ::
  "validator \<Rightarrow> (string \<Rightarrow> pyfloat) \<Rightarrow> (store_exc, unit) result \<Rightarrow> string \<Rightarrow> int \<Rightarrow> consume_request \<Rightarrow> database \<Rightarrow>
   (database, store_exc, consumption) outcome" where
  "consume_fresh env pf protected now_text now q db =
     (let aid = auth_authorization_id (rq_expected q) in
      case bindE (find_approved aid db) (\<lambda>r.
             bindE (load_bytes pf (ap_bound_parameters_json r)) (\<lambda>bound.
             bindE (check_row aid (row_doc r bound) (rq_expected q) (rq_worker_identity q) now r) (\<lambda>open'. Inr (r, bound, open')))) of
        Inl e \<Rightarrow> (Inl e, db)
      | Inr (r, bound, None) \<Rightarrow>
          (case protected of
             Inl e \<Rightarrow> (Inl e, db)
           | Inr _ \<Rightarrow> (conflict (''authorization '' @ quoted aid @ '' expired at '' @ ap_authorized_until_utc r), set_status aid ''expired'' db))
      | Inr (r, bound, Some _) \<Rightarrow>
          if consumable_rows aid db \<noteq> 1 then (conflict (''authorization '' @ quoted aid @ '' could not be consumed''), db)
          else (case consumption_of env now_text q (row_doc r bound) of
              Inl e \<Rightarrow> (Inl e, db)
            | Inr c \<Rightarrow> record_consumption protected c (mark_consumed aid now_text (rq_worker_identity q) db) db))"

definition atomically_consume_request ::
  "validator \<Rightarrow> (string \<Rightarrow> pyfloat) \<Rightarrow> (store_exc, unit) result \<Rightarrow> string \<Rightarrow> consume_request \<Rightarrow> database \<Rightarrow>
   (database, store_exc, consumption) outcome" where
  "atomically_consume_request env pf protected now_text q db =
     (case evidenceE (timestamp (JStr now_text)) of
        Inl e \<Rightarrow> (Inl e, db)
      | Inr now \<Rightarrow>
          (case select_consumption (rq_request_id q) db of
             Some prior \<Rightarrow> (bindE (assert_matching_consumption prior (expected_bindings q)) (\<lambda>_. Inr prior), db)
           | None \<Rightarrow> consume_fresh env pf protected now_text now q db))"

text \<open>\<^verbatim>\<open>total_seconds()\<close> is compared as the exact number of seconds.\<close>

definition remaining_seconds_ok :: "json \<Rightarrow> bool" where
  "remaining_seconds_ok m = (case m of JInt i \<Rightarrow> 0 \<le> i | JFloat (FinF _ v) \<Rightarrow> 0 \<le> v | _ \<Rightarrow> False)"

definition seconds_of :: "json \<Rightarrow> rat" where
  "seconds_of m = (case num_val m of Some v \<Rightarrow> v | None \<Rightarrow> 0)"

definition atomically_consume ::
  "validator \<Rightarrow> (string \<Rightarrow> pyfloat) \<Rightarrow> string \<Rightarrow> string \<Rightarrow> execution_authorization \<Rightarrow> string \<Rightarrow> json \<Rightarrow> database \<Rightarrow>
   (database, store_exc, execution_authorization) outcome" where
  "atomically_consume env pf now_text aid expected worker minimum db =
     (if \<not> remaining_seconds_ok minimum then (conflict ''minimum remaining authorization window must be finite and nonnegative'', db)
      else case bindE (evidenceE (timestamp (JStr now_text))) (\<lambda>now.
             bindE (find_approved aid db) (\<lambda>r.
             bindE (load_bytes pf (ap_bound_parameters_json r)) (\<lambda>bound.
             bindE (check_row aid (full_row_doc r bound) expected worker now r) (\<lambda>open'. Inr (now, r, bound, open'))))) of
        Inl e \<Rightarrow> (Inl e, db)
      | Inr (now, r, bound, None) \<Rightarrow>
          (conflict (''authorization '' @ quoted aid @ '' expired at '' @ ap_authorized_until_utc r), set_status aid ''expired'' db)
      | Inr (now, r, bound, Some expiry) \<Rightarrow>
          if of_int (expiry - now) / 1000000 < seconds_of minimum
          then (conflict ''authorization has insufficient time for startup and cleanup'', db)
          else (storeE (ExecutionAuthorization_from_dict env (consumed_doc now_text worker (full_row_doc r bound))),
                mark_consumed aid now_text worker db))"

section \<open>The store as a machine\<close>

datatype store_op =
    StoreAuthorization string execution_authorization
  | ConsumeRequest "(store_exc, unit) result" string consume_request
  | Consume string string execution_authorization string json
  | GetAuthorization string
  | GetMatching string receipt_bindings
  | ListApprovals "string option"

datatype store_value =
    Stored
  | Recorded consumption
  | Consumed execution_authorization
  | Fetched stored
  | Matched "consumption option"
  | Listed "stored list"

definition answer :: "('a \<Rightarrow> store_value) \<Rightarrow> (database, store_exc, 'a) outcome \<Rightarrow> (database, store_exc, store_value) outcome" where
  "answer f r = (case fst r of Inl e \<Rightarrow> Inl e | Inr a \<Rightarrow> Inr (f a), snd r)"

fun store_step :: "validator \<Rightarrow> (string \<Rightarrow> pyfloat) \<Rightarrow> store_op \<Rightarrow> database \<Rightarrow> (database, store_exc, store_value) outcome" where
  "store_step env pf (StoreAuthorization t a) db = answer (\<lambda>_. Stored) (store_authorization env t a db)"
| "store_step env pf (ConsumeRequest p t q) db = answer Recorded (atomically_consume_request env pf p t q db)"
| "store_step env pf (Consume t aid a worker m) db = answer Consumed (atomically_consume env pf t aid a worker m db)"
| "store_step env pf (GetAuthorization aid) db = answer Fetched (get_authorization env pf aid db, db)"
| "store_step env pf (GetMatching rid b) db = answer Matched (get_matching_consumption rid b db, db)"
| "store_step env pf (ListApprovals st) db = answer Listed (list_approvals env pf st db, db)"

end
