(* ===== verification/Approval_Store_Props.thy ===== *)
theory Approval_Store_Props
  imports Approval_Store Authorization_Props
begin

text \<open>
  The approval store keeps its invariant and hands out every approval at most once. The relation
  \<open>db_change\<close> lists the five ways an operation can change the database; the invariant, the order on
  databases and the abstract register of one-time tokens are all read off it.
\<close>

section \<open>Outcomes of the checks\<close>

lemma storeE_Inr [simp]: "storeE r = Inr a \<longleftrightarrow> r = Inr a"
  by (auto simp: storeE_def split: sum.splits)

lemma evidenceE_Inr [simp]: "evidenceE r = Inr a \<longleftrightarrow> r = Inr a"
  by (simp add: evidenceE_def)

lemma answer_snd [simp]: "snd (answer f r) = snd r"
  by (simp add: answer_def)

lemma answer_Inr: "fst (answer f r) = Inr v \<longleftrightarrow> (\<exists>a. fst r = Inr a \<and> v = f a)"
  by (auto simp: answer_def split: sum.splits)

lemma find_approved_Inr: "find_approved aid db = Inr r \<longleftrightarrow> select_approval aid db = Some r \<and> ap_status r = ''approved''"
  by (auto simp: find_approved_def split: option.splits)

lemma check_rowD:
  assumes "check_row aid doc expected worker now r = Inr open'"
  obtains b bound issued expiry where
    "canonical (JObj doc) DEFAULT_BYTES DEFAULT_DEPTH = Inr b"
    "canonical (JObj (ExecutionAuthorization_to_dict expected)) DEFAULT_BYTES DEFAULT_DEPTH = Inr b"
    "dict_get doc ''bound_parameters'' = Some (JObj bound)" "dict_get bound ''worker_identity'' = Some (JStr worker)"
    "timestamp (JStr (ap_issued_at r)) = Inr issued" "timestamp (JStr (ap_authorized_until_utc r)) = Inr expiry"
    "issued \<le> now" "open' = (if expiry \<le> now then None else Some expiry)"
  using assms unfolding check_row_def same_canonical_def
  by (auto simp: bindE_Inr_iff not_less split: if_splits option.splits json.splits)

lemma row_doc_fields [simp]:
  "dict_get (row_doc r bound) ''bound_parameters'' = Some bound"
  "dict_get (full_row_doc r bound) ''bound_parameters'' = Some bound"
  by (simp_all add: row_doc_def full_row_doc_def)

lemma from_dict_strings:
  assumes "ExecutionAuthorization_from_dict env d = Inr a"
  shows "dict_get d ''action_plan_id'' = Some (JStr (auth_action_plan_id a))" "dict_get d ''plan_digest'' = Some (JStr (auth_plan_digest a))"
    "dict_get d ''engagement_id'' = Some (JStr (auth_engagement_id a))"
  using assms unfolding ExecutionAuthorization_from_dict_def
  by (elim bindE_InrE, clarsimp simp: str_field_iff)+

lemma consumption_ofD:
  assumes "consumption_of env t q (row_doc r bound) = Inr c"
  shows "cn_request_id c = rq_request_id q" "cn_authorization_id c = auth_authorization_id (rq_expected q)"
    "cn_worker_identity c = rq_worker_identity q" "cn_created_at c = t" "cn_target c = rq_target q" "cn_request_digest c = rq_request_digest q"
    "cn_action_plan_id c = ap_action_plan_id r" "cn_plan_digest c = ap_plan_digest r" "cn_engagement_id c = ap_engagement_id r"
proof -
  from assms obtain a h where a: "ExecutionAuthorization_from_dict env (consumed_doc t (rq_worker_identity q) (row_doc r bound)) = Inr a"
    and c: "c = \<lparr>cn_request_id = rq_request_id q, cn_request_digest = rq_request_digest q,
         cn_authorization_id = auth_authorization_id (rq_expected q), cn_authorization_digest = h,
         cn_action_plan_id = auth_action_plan_id a, cn_plan_digest = auth_plan_digest a,
         cn_engagement_id = auth_engagement_id a, cn_worker_identity = rq_worker_identity q,
         cn_target = rq_target q, cn_created_at = t\<rparr>"
    by (auto simp: consumption_of_def bindE_Inr_iff)
  from from_dict_strings [OF a] show "cn_action_plan_id c = ap_action_plan_id r" "cn_plan_digest c = ap_plan_digest r" "cn_engagement_id c = ap_engagement_id r"
    by (simp_all add: c consumed_doc_def dict_get_set row_doc_def)
qed (use assms in \<open>auto simp: consumption_of_def bindE_Inr_iff\<close>)

section \<open>How an operation changes the database\<close>

inductive db_change :: "database \<Rightarrow> database \<Rightarrow> bool" where
  keep: "db_change db db"
| put: "select_approval (ap_authorization_id r) db = None \<Longrightarrow> db_change db (db\<lparr>db_approvals := insert_row r (db_approvals db)\<rparr>)"
| expire: "select_approval aid db = Some r \<Longrightarrow> ap_status r = ''approved'' \<Longrightarrow> db_change db (set_status aid ''expired'' db)"
| consume: "select_approval aid db = Some r \<Longrightarrow> ap_status r = ''approved'' \<Longrightarrow> db_change db (mark_consumed aid t w db)"
| receive: "select_approval aid db = Some r \<Longrightarrow> ap_status r = ''approved'' \<Longrightarrow> cn_authorization_id c = aid \<Longrightarrow>
    cn_worker_identity c = w \<Longrightarrow> cn_created_at c = t \<Longrightarrow> cn_action_plan_id c = ap_action_plan_id r \<Longrightarrow> cn_plan_digest c = ap_plan_digest r \<Longrightarrow>
    cn_engagement_id c = ap_engagement_id r \<Longrightarrow> \<not> consumption_clashes c (mark_consumed aid t w db) \<Longrightarrow>
    db_change db ((mark_consumed aid t w db)\<lparr>db_consumptions := insert_row c (db_consumptions (mark_consumed aid t w db))\<rparr>)"

lemma store_authorization_change: "db_change db (snd (store_authorization env t a db))"
  by (auto simp: store_authorization_def row_of_auth_def intro: db_change.keep intro!: db_change.put split: sum.split)

lemma record_consumption_change:
  assumes "find_approved aid db = Inr r" "consumption_of env t q (row_doc r bound) = Inr c" "aid = auth_authorization_id (rq_expected q)"
  shows "db_change db (snd (record_consumption p c (mark_consumed aid t (rq_worker_identity q) db) db))"
  using assms consumption_ofD [OF assms(2)]
  by (auto simp: record_consumption_def find_approved_Inr intro: db_change.keep intro!: db_change.receive split: sum.split)

lemma consume_fresh_change: "db_change db (snd (consume_fresh env pf p t now q db))"
  unfolding consume_fresh_def Let_def
  by (auto simp: bindE_Inr_iff find_approved_Inr intro: db_change.keep db_change.expire
      intro!: record_consumption_change split: sum.split prod.split option.split)

lemma atomically_consume_change: "db_change db (snd (atomically_consume env pf t aid a worker m db))"
  unfolding atomically_consume_def
  by (auto simp: bindE_Inr_iff find_approved_Inr intro: db_change.keep db_change.expire db_change.consume
      split: sum.split prod.split option.split)

lemma store_step_change: "db_change db (snd (store_step env pf x db))"
  by (cases x) (auto simp: store_authorization_change atomically_consume_change consume_fresh_change atomically_consume_request_def
      intro: db_change.keep split: sum.split option.split)

section \<open>The invariant\<close>

text \<open>What a receipt says of the approval it consumed.\<close>

definition receipt_backed :: "consumption \<Rightarrow> approval \<Rightarrow> bool" where
  "receipt_backed c r \<longleftrightarrow> ap_status r = ''consumed'' \<and> ap_consumed_by_worker r = Some (cn_worker_identity c) \<and>
     ap_consumed_at r = Some (cn_created_at c) \<and> ap_action_plan_id r = cn_action_plan_id c \<and> ap_plan_digest r = cn_plan_digest c \<and>
     ap_engagement_id r = cn_engagement_id c"

definition store_inv :: "database \<Rightarrow> bool" where
  "store_inv db \<longleftrightarrow> distinct (map ap_authorization_id (db_approvals db)) \<and> distinct (map cn_request_id (db_consumptions db)) \<and>
     distinct (map cn_authorization_id (db_consumptions db)) \<and>
     (\<forall>c \<in> set (db_consumptions db). \<exists>r. select_approval (cn_authorization_id c) db = Some r \<and> receipt_backed c r)"

lemma select_approval_put [simp]:
  "select_approval k (db\<lparr>db_approvals := insert_row r (db_approvals db)\<rparr>) =
     (case select_approval k db of None \<Rightarrow> (if ap_authorization_id r = k then Some r else None) | Some x \<Rightarrow> Some x)"
  by (simp add: select_approval_def select_insert_row)

lemma select_approval_consumptions [simp]: "select_approval k (db\<lparr>db_consumptions := cs\<rparr>) = select_approval k db"
  by (simp add: select_approval_def)

lemma select_approval_set_status:
  "select_approval k (set_status aid st db) = (if k = aid then map_option (\<lambda>r. r\<lparr>ap_status := st\<rparr>) (select_approval k db) else select_approval k db)"
  by (simp add: select_approval_def set_status_def rows.sel_upd)

lemma select_approval_mark:
  "select_approval k (mark_consumed aid t w db) =
     map_option (\<lambda>r. if ap_authorization_id r = aid \<and> ap_status r = ''approved''
       then r\<lparr>ap_status := ''consumed'', ap_consumed_at := Some t, ap_consumed_by_worker := Some w\<rparr> else r) (select_approval k db)"
  by (simp add: select_approval_def mark_consumed_def select_update_rows)

lemma select_approval_key: "select_approval k db = Some r \<Longrightarrow> ap_authorization_id r = k"
  by (auto simp: select_approval_def dest: select_row_SomeD)

lemma mark_columns [simp]:
  "db_consumptions (mark_consumed aid t w db) = db_consumptions db" "db_consumptions (set_status aid st db) = db_consumptions db"
  by (simp_all add: mark_consumed_def set_status_def)

lemma mark_ids [simp]:
  "map ap_authorization_id (db_approvals (mark_consumed aid t w db)) = map ap_authorization_id (db_approvals db)"
  "map ap_authorization_id (db_approvals (set_status aid st db)) = map ap_authorization_id (db_approvals db)"
  by (simp_all add: mark_consumed_def set_status_def update_key_def map_update_rows)

lemma backed_not_approved: "receipt_backed c r \<Longrightarrow> ap_status r \<noteq> ''approved''"
  by (simp add: receipt_backed_def)

lemma backed_stays:
  assumes "store_inv db" "c \<in> set (db_consumptions db)"
  shows "\<exists>r. select_approval (cn_authorization_id c) (mark_consumed aid t w db) = Some r \<and> receipt_backed c r"
    "select_approval aid db = Some x \<Longrightarrow> ap_status x = ''approved'' \<Longrightarrow>
     \<exists>r. select_approval (cn_authorization_id c) (set_status aid st db) = Some r \<and> receipt_backed c r"
  using assms by (fastforce simp: store_inv_def select_approval_mark select_approval_set_status dest: backed_not_approved)+

lemma fresh_consumption:
  assumes "\<not> consumption_clashes c db"
  shows "cn_request_id c \<notin> cn_request_id ` set (db_consumptions db)" "cn_authorization_id c \<notin> cn_authorization_id ` set (db_consumptions db)"
  using assms by (auto simp: consumption_clashes_def list_ex_iff)

lemma db_change_inv:
  assumes "db_change db db'" "store_inv db"
  shows "store_inv db'"
  using assms
proof (induction rule: db_change.induct)
  case (put r db)
  then have "ap_authorization_id r \<notin> ap_authorization_id ` set (db_approvals db)"
    by (simp add: select_approval_def select_row_None_iff)
  with put show ?case by (auto simp: store_inv_def map_insert_row)
next
  case (expire aid db r)
  then show ?case using backed_stays(2) [OF expire.prems _ expire.hyps] by (auto simp: store_inv_def)
next
  case (consume aid db r t w)
  then show ?case using backed_stays(1) [OF consume.prems] by (auto simp: store_inv_def)
next
  case (receive aid db r c w t)
  let ?db = "mark_consumed aid t w db"
  have "select_approval (cn_authorization_id c) ?db = Some (r\<lparr>ap_status := ''consumed'', ap_consumed_at := Some t, ap_consumed_by_worker := Some w\<rparr>)"
    using receive.hyps by (simp add: select_approval_mark select_approval_key)
  then have "\<exists>x. select_approval (cn_authorization_id c) ?db = Some x \<and> receipt_backed c x"
    using receive.hyps by (simp add: receipt_backed_def)
  with receive.prems fresh_consumption [OF receive.hyps(9)] backed_stays(1) [OF receive.prems, of _ aid t w]
  show ?case by (auto simp: store_inv_def map_insert_row)
qed simp

section \<open>The order on databases\<close>

text \<open>
  Approvals are never removed, a closed approval never changes again, an open one changes only by
  being consumed or expiring, and receipts are kept as they are.
\<close>

definition approval_later :: "approval \<Rightarrow> approval \<Rightarrow> bool" where
  "approval_later r r' \<longleftrightarrow> r' = r \<or> ap_status r = ''approved'' \<and>
     ((\<exists>t w. r' = r\<lparr>ap_status := ''consumed'', ap_consumed_at := Some t, ap_consumed_by_worker := Some w\<rparr>) \<or> r' = r\<lparr>ap_status := ''expired''\<rparr>)"

definition store_mono :: "database \<Rightarrow> database \<Rightarrow> bool" where
  "store_mono db db' \<longleftrightarrow>
     (\<forall>k r. select_approval k db = Some r \<longrightarrow> (\<exists>r'. select_approval k db' = Some r' \<and> approval_later r r')) \<and>
     (\<forall>k c. select_consumption k db = Some c \<longrightarrow> select_consumption k db' = Some c)"

lemma approval_later_trans: "approval_later r s \<Longrightarrow> approval_later s t \<Longrightarrow> approval_later r t"
  by (auto simp: approval_later_def)

lemma select_consumption_insert [simp]:
  "select_consumption k (db\<lparr>db_consumptions := insert_row c cs\<rparr>) =
     (case select_row cn_request_id k cs of None \<Rightarrow> (if cn_request_id c = k then Some c else None) | Some x \<Rightarrow> Some x)"
  by (simp add: select_consumption_def select_insert_row)

lemma select_consumption_same [simp]:
  "select_consumption k (mark_consumed aid t w db) = select_consumption k db"
  "select_consumption k (set_status aid st db) = select_consumption k db"
  "select_consumption k (db\<lparr>db_approvals := rs\<rparr>) = select_consumption k db"
  by (simp_all add: select_consumption_def)

lemma db_change_mono: "db_change db db' \<Longrightarrow> store_mono db db'"
proof (induction rule: db_change.induct)
  case (expire aid db r)
  then show ?case by (auto simp: store_mono_def approval_later_def select_approval_set_status)
next
  case (consume aid db r t w)
  then show ?case by (auto simp: store_mono_def approval_later_def select_approval_mark)
next
  case (receive aid db r c w t)
  then show ?case
    by (auto simp: store_mono_def approval_later_def select_approval_mark select_consumption_def select_insert_row)
qed (auto simp: store_mono_def approval_later_def)

interpretation approvals: guarded_machine "store_step env pf" store_inv store_mono for env pf
proof unfold_locales
  show "store_inv s \<Longrightarrow> store_inv (snd (store_step env pf x s))" for s x by (rule db_change_inv [OF store_step_change])
  show "store_mono s (snd (store_step env pf x s))" for s x by (rule db_change_mono [OF store_step_change])
  show "store_mono s s" for s by (simp add: store_mono_def approval_later_def)
  show "store_mono s u" if "store_mono s t" "store_mono t u" for s t u
    using that unfolding store_mono_def by (meson approval_later_trans)
qed

section \<open>What a consumption establishes\<close>

lemma consume_freshD:
  assumes "consume_fresh env pf p t now q db = (Inr c, db')"
  obtains r bound expiry where "select_approval (auth_authorization_id (rq_expected q)) db = Some r" "ap_status r = ''approved''"
    "load_bytes pf (ap_bound_parameters_json r) = Inr bound"
    "check_row (auth_authorization_id (rq_expected q)) (row_doc r bound) (rq_expected q) (rq_worker_identity q) now r = Inr (Some expiry)"
    "consumption_of env t q (row_doc r bound) = Inr c" "p = Inr ()"
    "\<not> consumption_clashes c (mark_consumed (auth_authorization_id (rq_expected q)) t (rq_worker_identity q) db)"
    "db' = (mark_consumed (auth_authorization_id (rq_expected q)) t (rq_worker_identity q) db)\<lparr>db_consumptions := insert_row c (db_consumptions db)\<rparr>"
  using assms unfolding consume_fresh_def Let_def record_consumption_def
  by (auto simp: bindE_Inr_iff find_approved_Inr split: sum.splits prod.splits option.splits if_splits)

lemma consume_request_freshD:
  assumes "fst (atomically_consume_request env pf p t q db) = Inr c" "select_consumption (rq_request_id q) db = None"
  obtains now where "timestamp (JStr t) = Inr now"
    "consume_fresh env pf p t now q db = (Inr c, snd (atomically_consume_request env pf p t q db))"
proof -
  from assms(1) obtain now where t: "timestamp (JStr t) = Inr now"
    unfolding atomically_consume_request_def by (cases "timestamp (JStr t)") (simp_all add: evidenceE_def storeE_def liftE_def)
  then have "atomically_consume_request env pf p t q db = consume_fresh env pf p t now q db"
    using assms(2) by (simp add: atomically_consume_request_def evidenceE_def storeE_def liftE_def)
  with assms(1) that [OF t] show thesis by (simp add: prod_eq_iff)
qed

lemma atomically_consumeD:
  assumes "atomically_consume env pf t aid a worker m db = (Inr x, db')"
  obtains now r bound expiry where "timestamp (JStr t) = Inr now" "select_approval aid db = Some r" "ap_status r = ''approved''"
    "load_bytes pf (ap_bound_parameters_json r) = Inr bound" "check_row aid (full_row_doc r bound) a worker now r = Inr (Some expiry)"
    "seconds_of m \<le> of_int (expiry - now) / 1000000" "remaining_seconds_ok m" "db' = mark_consumed aid t worker db"
  using assms unfolding atomically_consume_def
  by (auto simp: bindE_Inr_iff find_approved_Inr not_less split: sum.splits prod.splits option.splits if_splits)

text \<open>
  C17. A receipt is issued only for a valid approval: the stored row was approved and, byte for byte,
  the verified authorization the caller presented; it named this worker; the moment lies in its
  window; the storage was protected; and in the state committed with the receipt the row is consumed
  by this worker at this time and the receipt carries the row's plan and engagement.
\<close>

theorem consumption_justified:
  assumes "atomically_consume_request env pf p t q db = (Inr c, db')" "select_consumption (rq_request_id q) db = None"
  shows "\<exists>r bound b now issued expiry.
    select_approval (auth_authorization_id (rq_expected q)) db = Some r \<and> ap_status r = ''approved'' \<and> p = Inr () \<and>
    load_bytes pf (ap_bound_parameters_json r) = Inr (JObj bound) \<and>
    canonical (JObj (row_doc r (JObj bound))) DEFAULT_BYTES DEFAULT_DEPTH = Inr b \<and>
    canonical (JObj (ExecutionAuthorization_to_dict (rq_expected q))) DEFAULT_BYTES DEFAULT_DEPTH = Inr b \<and>
    dict_get bound ''worker_identity'' = Some (JStr (rq_worker_identity q)) \<and>
    timestamp (JStr t) = Inr now \<and> timestamp (JStr (ap_issued_at r)) = Inr issued \<and> timestamp (JStr (ap_authorized_until_utc r)) = Inr expiry \<and>
    issued \<le> now \<and> now < expiry \<and>
    select_consumption (rq_request_id q) db' = Some c \<and>
    select_approval (auth_authorization_id (rq_expected q)) db' =
      Some (r\<lparr>ap_status := ''consumed'', ap_consumed_at := Some t, ap_consumed_by_worker := Some (rq_worker_identity q)\<rparr>) \<and>
    cn_plan_digest c = ap_plan_digest r \<and> cn_engagement_id c = ap_engagement_id r \<and> cn_worker_identity c = rq_worker_identity q"
proof -
  let ?aid = "auth_authorization_id (rq_expected q)"
  have f: "fst (atomically_consume_request env pf p t q db) = Inr c" using assms(1) by simp
  from f assms(2) obtain now where now: "timestamp (JStr t) = Inr now" and fresh: "consume_fresh env pf p t now q db = (Inr c, db')"
    by (rule consume_request_freshD) (simp add: assms(1))
  from fresh obtain r bound expiry where r: "select_approval ?aid db = Some r" "ap_status r = ''approved''" "load_bytes pf (ap_bound_parameters_json r) = Inr bound"
    and chk: "check_row ?aid (row_doc r bound) (rq_expected q) (rq_worker_identity q) now r = Inr (Some expiry)"
    and c: "consumption_of env t q (row_doc r bound) = Inr c" and p: "p = Inr ()"
    and db': "db' = (mark_consumed ?aid t (rq_worker_identity q) db)\<lparr>db_consumptions := insert_row c (db_consumptions db)\<rparr>"
    by (rule consume_freshD)
  from chk obtain b bd issued e where b: "canonical (JObj (row_doc r bound)) DEFAULT_BYTES DEFAULT_DEPTH = Inr b"
    "canonical (JObj (ExecutionAuthorization_to_dict (rq_expected q))) DEFAULT_BYTES DEFAULT_DEPTH = Inr b"
    and bd: "dict_get (row_doc r bound) ''bound_parameters'' = Some (JObj bd)" "dict_get bd ''worker_identity'' = Some (JStr (rq_worker_identity q))"
    and tm: "timestamp (JStr (ap_issued_at r)) = Inr issued" "timestamp (JStr (ap_authorized_until_utc r)) = Inr e" "issued \<le> now"
      "Some expiry = (if e \<le> now then None else Some e)" by (rule check_rowD)
  have "select_consumption (rq_request_id q) db' = Some c"
    using assms(2) consumption_ofD(1) [OF c] by (simp add: db' select_consumption_def select_insert_row)
  moreover have "select_approval ?aid db' = Some (r\<lparr>ap_status := ''consumed'', ap_consumed_at := Some t, ap_consumed_by_worker := Some (rq_worker_identity q)\<rparr>)"
    using r by (simp add: db' select_approval_mark select_approval_key)
  moreover have "bound = JObj bd" using bd(1) by simp
  moreover have "now < e" using tm(4) by (simp split: if_splits)
  ultimately show ?thesis using r p b bd(2) now tm(1-3) consumption_ofD(3,8,9) [OF c]
    by (intro exI [of _ r] exI [of _ bd] exI [of _ b] exI [of _ now] exI [of _ issued] exI [of _ e] conjI) simp_all
qed

section \<open>One approval, one consumption\<close>

definition closed :: "string \<Rightarrow> database \<Rightarrow> bool" where
  "closed k db \<longleftrightarrow> (\<exists>r. select_approval k db = Some r \<and> ap_status r \<noteq> ''approved'')"

fun grants :: "validator \<Rightarrow> (string \<Rightarrow> pyfloat) \<Rightarrow> store_op \<Rightarrow> database \<Rightarrow> string \<Rightarrow> bool" where
  "grants env pf (ConsumeRequest p t q) db k \<longleftrightarrow> k = auth_authorization_id (rq_expected q) \<and> select_consumption (rq_request_id q) db = None \<and>
     is_ok (fst (atomically_consume_request env pf p t q db))"
| "grants env pf (Consume t aid a worker m) db k \<longleftrightarrow> k = aid \<and> is_ok (fst (atomically_consume env pf t aid a worker m db))"
| "grants env pf _ db k \<longleftrightarrow> False"

lemma grants_open:
  assumes "grants env pf x db k"
  shows "\<exists>r t w. select_approval k db = Some r \<and> ap_status r = ''approved'' \<and>
    select_approval k (snd (store_step env pf x db)) = Some (r\<lparr>ap_status := ''consumed'', ap_consumed_at := Some t, ap_consumed_by_worker := Some w\<rparr>)"
proof (cases x)
  case (ConsumeRequest p t q)
  with assms obtain c where c: "fst (atomically_consume_request env pf p t q db) = Inr c" "select_consumption (rq_request_id q) db = None"
    "k = auth_authorization_id (rq_expected q)" by (auto simp: is_ok_iff)
  from c(1,2) obtain now where "consume_fresh env pf p t now q db = (Inr c, snd (atomically_consume_request env pf p t q db))" by (rule consume_request_freshD)
  then obtain r where "select_approval k db = Some r" "ap_status r = ''approved''"
    "snd (atomically_consume_request env pf p t q db) = (mark_consumed k t (rq_worker_identity q) db)\<lparr>db_consumptions := insert_row c (db_consumptions db)\<rparr>"
    unfolding c(3) by (rule consume_freshD)
  then show ?thesis by (auto simp: ConsumeRequest select_approval_mark select_approval_key)
next
  case (Consume t aid a worker m)
  with assms obtain y where "fst (atomically_consume env pf t aid a worker m db) = Inr y" and k: "k = aid" by (auto simp: is_ok_iff)
  then have "atomically_consume env pf t aid a worker m db = (Inr y, snd (atomically_consume env pf t aid a worker m db))"
    by (metis prod.collapse)
  then obtain r where "select_approval aid db = Some r" "ap_status r = ''approved''"
    "snd (atomically_consume env pf t aid a worker m db) = mark_consumed aid t worker db" by (rule atomically_consumeD)
  then show ?thesis using k by (auto simp: Consume select_approval_mark select_approval_key)
qed (use assms in auto)

interpretation approval_register: one_time_machine "store_step env pf" store_inv closed "grants env pf" for env pf
proof unfold_locales
  show "store_inv s \<Longrightarrow> store_inv (snd (store_step env pf x s))" for s x by (rule db_change_inv [OF store_step_change])
  show "closed k (snd (store_step env pf x s))" if "closed k s" for k s x
    using that db_change_mono [OF store_step_change [of s env pf x]] by (fastforce simp: closed_def store_mono_def approval_later_def)
  show "\<not> closed k s" if "grants env pf x s k" for k s x
    using grants_open [OF that] by (auto simp: closed_def)
  show "closed k (snd (store_step env pf x s))" if "grants env pf x s k" for k s x
    using grants_open [OF that] by (auto simp: closed_def)
qed

text \<open>
  C2. An approval is consumed at most once: over any sequence of store operations, by any of the two
  consuming operations, by any workers and in any order, at most one consumption of an authorization
  succeeds.
\<close>

theorem approval_consumed_once:
  assumes "store_inv db" "i < j" "j < length ops" "grants env pf (ops ! i) (run_ops (store_step env pf) (take i ops) db) k"
  shows "\<not> grants env pf (ops ! j) (run_ops (store_step env pf) (take j ops) db) k"
  by (rule approval_register.no_second_grant [OF assms])

end
