(* ===== verification/Approval_Register.thy ===== *)
theory Approval_Register
  imports Approval_Store_Props
begin

text \<open>
  Properties of the approval store that span several operations: an exact retry gets the first
  receipt, approvals migrated from an unkeyed database never authorize anything, what is stored is
  read back, and the store implements an abstract register of one-time tokens.
\<close>

section \<open>A concrete store\<close>

definition small_auth :: execution_authorization where
  "small_auth = demo_auth\<lparr>auth_bound_parameters := FMap [(''worker_identity'', FAtom (JStr ''w''))]\<rparr>"

definition small_row :: approval where
  "small_row = row_of_auth small_auth (utf8 (dumps False (JObj [(''worker_identity'', JStr ''w'')]))) ''2024-01-01T00:00:00Z''"

definition empty_db :: database where
  "empty_db = \<lparr>db_columns = Some SCHEMA_COLUMNS, db_approvals = [], db_consumptions = []\<rparr>"

definition small_db :: database where
  "small_db = \<lparr>db_columns = Some SCHEMA_COLUMNS, db_approvals = [small_row], db_consumptions = []\<rparr>"

definition small_request :: "string \<Rightarrow> consume_request" where
  "small_request digest' = \<lparr>rq_request_id = ''r'', rq_request_digest = digest', rq_target = ''t'', rq_expected = small_auth, rq_worker_identity = ''w''\<rparr>"

definition small_receipt :: consumption where
  "small_receipt = \<lparr>cn_request_id = ''r'', cn_request_digest = ''d'', cn_authorization_id = ''auth-demo0001'',
     cn_authorization_digest = [CHR ''{'', dquote, CHR ''a''], cn_action_plan_id = ''plan-demo'',
     cn_plan_digest = [CHR ''{'', dquote, CHR ''b''], cn_engagement_id = ''eng-demo'', cn_worker_identity = ''w'', cn_target = ''t'',
     cn_created_at = ''2024-01-01T01:00:00Z''\<rparr>"

definition consumed_db :: database where
  "consumed_db = small_db\<lparr>db_approvals := [small_row\<lparr>ap_status := ''consumed'', ap_consumed_at := Some ''2024-01-01T01:00:00Z'',
     ap_consumed_by_worker := Some ''w''\<rparr>], db_consumptions := [small_receipt]\<rparr>"

definition nan_floats :: "string \<Rightarrow> pyfloat" where
  "nan_floats t = NanF"

lemma small_stored: "store_authorization demo_validator ''2024-01-01T00:00:00Z'' small_auth empty_db = (Inr (), small_db)"
  by code_simp

lemma load_stored: "json_ok v \<Longrightarrow> load_bytes pf (utf8 (dumps False v)) = Inr (norm_json pf v)"
  by (simp add: load_bytes_def utf8_decode_utf8 loads_dumps)

lemma small_loaded: "load_bytes nan_floats (ap_bound_parameters_json small_row) = Inr (JObj [(''worker_identity'', JStr ''w'')])"
  by (simp add: small_row_def row_of_auth_def load_stored del: dumps.simps)

lemma small_checked:
  "check_row ''auth-demo0001'' (row_doc small_row (JObj [(''worker_identity'', JStr ''w'')])) small_auth ''w'' 63839667600000000 small_row =
   Inr (Some 63839678400000000)"
  by code_simp

lemma small_counted:
  "consumption_of demo_validator ''2024-01-01T01:00:00Z'' (small_request ''d'') (row_doc small_row (JObj [(''worker_identity'', JStr ''w'')])) = Inr small_receipt"
  by code_simp

lemma small_found:
  "timestamp (JStr ''2024-01-01T01:00:00Z'') = Inr 63839667600000000" "auth_authorization_id (rq_expected (small_request d)) = ''auth-demo0001''"
  "find_approved ''auth-demo0001'' small_db = Inr small_row" "consumable_rows ''auth-demo0001'' small_db = 1"
  by code_simp+

lemma small_consumed:
  "atomically_consume_request demo_validator nan_floats (Inr ()) ''2024-01-01T01:00:00Z'' (small_request ''d'') small_db = (Inr small_receipt, consumed_db)"
proof -
  have "rq_expected (small_request ''d'') = small_auth" "auth_authorization_id small_auth = ''auth-demo0001''" "rq_worker_identity (small_request ''d'') = ''w''" "select_consumption (rq_request_id (small_request ''d'')) small_db = None"
    using small_found(2) by (simp_all add: small_request_def select_consumption_def small_db_def)
  moreover have "record_consumption (Inr ()) small_receipt (mark_consumed ''auth-demo0001'' ''2024-01-01T01:00:00Z'' ''w'' small_db) small_db = (Inr small_receipt, consumed_db)"
    by code_simp
  ultimately show ?thesis using small_found small_loaded small_checked small_counted
    by (simp add: atomically_consume_request_def evidenceE_def storeE_def liftE_def consume_fresh_def Let_def)
qed

lemma small_inv: "store_inv small_db"
  by (simp add: store_inv_def small_db_def)

theorem consumption_justified_witness:
  "atomically_consume_request demo_validator nan_floats (Inr ()) ''2024-01-01T01:00:00Z'' (small_request ''d'') small_db = (Inr small_receipt, consumed_db) \<and>
   (\<exists>r. select_approval ''auth-demo0001'' small_db = Some r \<and> ap_status r = ''approved'' \<and> cn_plan_digest small_receipt = ap_plan_digest r)"
proof -
  have "select_consumption (rq_request_id (small_request ''d'')) small_db = None" by (simp add: select_consumption_def small_db_def)
  from consumption_justified [OF small_consumed this] small_consumed small_found(2) show ?thesis by auto
qed

lemma small_granted:
  "grants demo_validator nan_floats (ConsumeRequest (Inr ()) ''2024-01-01T01:00:00Z'' (small_request ''d'')) small_db ''auth-demo0001''"
  using small_consumed small_found(2) by (simp add: select_consumption_def small_db_def)

theorem approval_consumed_once_witness:
  "grants demo_validator nan_floats (ConsumeRequest (Inr ()) ''2024-01-01T01:00:00Z'' (small_request ''d'')) small_db ''auth-demo0001'' \<and>
   \<not> grants demo_validator nan_floats (Consume ''2024-01-01T02:00:00Z'' ''auth-demo0001'' small_auth ''w'' (JInt 0)) consumed_db ''auth-demo0001''"
proof -
  let ?x = "ConsumeRequest (Inr ()) ''2024-01-01T01:00:00Z'' (small_request ''d'')"
  let ?y = "Consume ''2024-01-01T02:00:00Z'' ''auth-demo0001'' small_auth ''w'' (JInt 0)"
  have "snd (store_step demo_validator nan_floats ?x small_db) = consumed_db" using small_consumed by simp
  then show ?thesis
    using approval_consumed_once [OF small_inv, of 0 1 "[?x, ?y]" demo_validator nan_floats "''auth-demo0001''"] small_granted
    by (simp del: store_step.simps grants.simps)
qed

section \<open>Equal canonical documents\<close>

lemma norm_obj_get:
  assumes "norm_json pf (JObj d) = norm_json pf (JObj e)" "distinct (map fst d)" "distinct (map fst e)"
  shows "map_option (norm_json pf) (dict_get d k) = map_option (norm_json pf) (dict_get e k)"
proof -
  let ?D = "map (map_prod id (norm_json pf)) d" and ?E = "map (map_prod id (norm_json pf)) e"
  have "sort_key fst ?D = sort_key fst ?E" using assms(1) by simp
  from arg_cong [OF this, of set] have "set ?D = set ?E" by (simp only: set_sort)
  moreover have "distinct (map fst ?D)" "distinct (map fst ?E)" using assms(2,3) by (simp_all add: comp_def)
  ultimately have "map_of ?D = map_of ?E" using map_of_inject_set by blast
  moreover have "map_of (map (map_prod id f) xs) k = map_option f (map_of xs k)" for f :: "json \<Rightarrow> json" and xs
    by (induction xs) auto
  ultimately show ?thesis by (metis dict_get_def)
qed

lemma canonical_same_text:
  assumes "canonical (JObj d) mb md = Inr b" "canonical (JObj e) mb' md' = Inr b" "json_ok (JObj d)" "json_ok (JObj e)"
    and "dict_get d k = Some (JStr s)" "dict_get e k = Some (JStr s')"
  shows "s = s'"
proof -
  have "dumps False (JObj d) = dumps False (JObj e)"
    using canonical_okD(1) [OF assms(1)] canonical_okD(1) [OF assms(2)] by (simp only: utf8_inj)
  with dumps_eq_iff [OF assms(3,4)] have "norm_json text_float (JObj d) = norm_json text_float (JObj e)" by blast
  from norm_obj_get [OF this, of k] assms(3-6) show ?thesis by simp
qed

lemma json_ok_row_doc: "json_ok bound \<Longrightarrow> json_ok (JObj (row_doc r bound))"
  by (simp add: row_doc_def)

lemma json_ok_auth_dict:
  assumes "json_ok (thaw (auth_bound_parameters a))"
  shows "json_ok (JObj (ExecutionAuthorization_to_dict a))"
  using assms by (auto simp: ExecutionAuthorization_to_dict_def opt_str_item_def split: option.splits)

text \<open>The stored parameters of an approval, if they can be read at all, are a well-formed value.\<close>

definition blob_ok :: "(string \<Rightarrow> pyfloat) \<Rightarrow> string \<Rightarrow> database \<Rightarrow> bool" where
  "blob_ok pf aid db \<longleftrightarrow> (\<forall>r bound. select_approval aid db = Some r \<longrightarrow>
     load_bytes pf (ap_bound_parameters_json r) = Inr bound \<longrightarrow> json_ok bound)"

lemma fresh_bindings:
  assumes "consume_fresh env pf p t now q db = (Inr c, db')" "json_ok (thaw (auth_bound_parameters (rq_expected q)))"
    and "blob_ok pf (auth_authorization_id (rq_expected q)) db"
  shows "bindings_of c = expected_bindings q"
proof -
  let ?a = "rq_expected q"
  from assms(1) obtain r bound expiry where r: "select_approval (auth_authorization_id ?a) db = Some r" "load_bytes pf (ap_bound_parameters_json r) = Inr bound"
    and chk: "check_row (auth_authorization_id ?a) (row_doc r bound) ?a (rq_worker_identity q) now r = Inr (Some expiry)"
    and c: "consumption_of env t q (row_doc r bound) = Inr c" by (rule consume_freshD)
  from chk obtain b where b: "canonical (JObj (row_doc r bound)) DEFAULT_BYTES DEFAULT_DEPTH = Inr b"
    "canonical (JObj (ExecutionAuthorization_to_dict ?a)) DEFAULT_BYTES DEFAULT_DEPTH = Inr b" by (rule check_rowD)
  have "json_ok bound" using assms(3) r by (auto simp: blob_ok_def)
  note same = canonical_same_text [OF b json_ok_row_doc [OF this] json_ok_auth_dict [OF assms(2)]]
  have "ap_action_plan_id r = auth_action_plan_id ?a"
    by (rule same [of "''action_plan_id''"]) (simp_all add: row_doc_def ExecutionAuthorization_to_dict_def)
  moreover have "ap_plan_digest r = auth_plan_digest ?a"
    by (rule same [of "''plan_digest''"]) (simp_all add: row_doc_def ExecutionAuthorization_to_dict_def)
  moreover have "ap_engagement_id r = auth_engagement_id ?a"
    by (rule same [of "''engagement_id''"]) (simp_all add: row_doc_def ExecutionAuthorization_to_dict_def)
  ultimately show ?thesis using consumption_ofD [OF c] by (simp add: bindings_of_def expected_bindings_def)
qed

section \<open>Retries\<close>

lemma consume_request_recorded:
  assumes "atomically_consume_request env pf p t q db = (Inr c, db')" "json_ok (thaw (auth_bound_parameters (rq_expected q)))"
    and "blob_ok pf (auth_authorization_id (rq_expected q)) db"
  shows "select_consumption (rq_request_id q) db' = Some c" "bindings_of c = expected_bindings q"
proof -
  have "select_consumption (rq_request_id q) db' = Some c \<and> bindings_of c = expected_bindings q"
  proof (cases "select_consumption (rq_request_id q) db")
    case None
    from assms(1) have f: "fst (atomically_consume_request env pf p t q db) = Inr c" by simp
    from f None obtain now where fr: "consume_fresh env pf p t now q db = (Inr c, db')"
      by (rule consume_request_freshD) (simp add: assms(1))
    then obtain r bound where "consumption_of env t q (row_doc r bound) = Inr c"
      "db' = (mark_consumed (auth_authorization_id (rq_expected q)) t (rq_worker_identity q) db)\<lparr>db_consumptions := insert_row c (db_consumptions db)\<rparr>"
      by (rule consume_freshD)
    with None consumption_ofD(1) have "select_consumption (rq_request_id q) db' = Some c"
      by (simp add: select_consumption_def select_insert_row)
    with fresh_bindings [OF fr assms(2,3)] show ?thesis by blast
  next
    case (Some x)
    with assms(1) show ?thesis
      by (auto simp: atomically_consume_request_def assert_matching_consumption_def split: sum.splits if_splits)
  qed
  then show "select_consumption (rq_request_id q) db' = Some c" "bindings_of c = expected_bindings q" by blast+
qed

text \<open>
  C16. Consumption requests are idempotent: once a request has been granted, then after any further
  store operations the same request, at any later time, is answered with the very same receipt and
  changes nothing, and a request that reuses its identifier for anything else is refused and changes
  nothing.
\<close>

theorem consume_request_idempotent:
  assumes "store_inv db" "atomically_consume_request env pf p t q db = (Inr c, db')"
    and "json_ok (thaw (auth_bound_parameters (rq_expected q)))"
    and "blob_ok pf (auth_authorization_id (rq_expected q)) db"
    and "is_ok (timestamp (JStr t'))" "rq_request_id q' = rq_request_id q"
  shows "atomically_consume_request env pf p' t' q' (run_ops (store_step env pf) ops db') =
    ((if expected_bindings q' = expected_bindings q then Inr c
      else conflict (''approval request_id '' @ quoted (cn_request_id c) @ '' was already used for a different request'')),
     run_ops (store_step env pf) ops db')"
proof -
  note rec = consume_request_recorded [OF assms(2,3,4)]
  have "db' = snd (store_step env pf (ConsumeRequest p t q) db)" using assms(2) by simp
  then have "store_inv db'" using approvals.step_inv [OF assms(1)] by (simp only:)
  from approvals.run_mono [OF this, of env pf ops] rec(1)
  have "select_consumption (rq_request_id q') (run_ops (store_step env pf) ops db') = Some c"
    using assms(6) by (simp add: store_mono_def)
  moreover obtain n where "timestamp (JStr t') = Inr n" using assms(5) by (auto simp: is_ok_iff)
  ultimately show ?thesis using rec(2)
    by (simp add: atomically_consume_request_def assert_matching_consumption_def evidenceE_def storeE_def liftE_def)
qed

theorem consume_request_idempotent_witness:
  "atomically_consume_request demo_validator nan_floats (Inr ()) ''2024-01-01T09:00:00Z'' (small_request ''d'') consumed_db = (Inr small_receipt, consumed_db) \<and>
   \<not> is_ok (fst (atomically_consume_request demo_validator nan_floats (Inr ()) ''2024-01-01T01:00:00Z'' (small_request ''other'') consumed_db))"
proof -
  have j: "json_ok (thaw (auth_bound_parameters (rq_expected (small_request ''d''))))" by (simp add: small_request_def small_auth_def)
  have "select_approval ''auth-demo0001'' small_db = Some small_row" using small_found(3) by (simp add: find_approved_Inr)
  then have b: "blob_ok nan_floats (auth_authorization_id (rq_expected (small_request ''d''))) small_db"
    using small_loaded small_found(2) by (simp add: blob_ok_def)
  have t: "is_ok (timestamp (JStr ''2024-01-01T09:00:00Z''))" "is_ok (timestamp (JStr ''2024-01-01T01:00:00Z''))" by code_simp+
  have q: "rq_request_id (small_request x) = rq_request_id (small_request ''d'')" for x by (simp add: small_request_def)
  have ne: "expected_bindings (small_request ''other'') \<noteq> expected_bindings (small_request ''d'')"
    by (simp add: expected_bindings_def small_request_def)
  show ?thesis
    using consume_request_idempotent [OF small_inv small_consumed j b t(1) q, of "Inr ()" "''d''" "[]"]
      consume_request_idempotent [OF small_inv small_consumed j b t(2) q, of "Inr ()" "''other''" "[]"] ne by simp
qed

section \<open>Migrated approvals\<close>

lemma add_column_ids:
  assumes "\<And>r. ap_authorization_id (g r) = ap_authorization_id r"
  shows "map ap_authorization_id (db_approvals (add_column n g d)) = map ap_authorization_id (db_approvals d)"
  using assms by (simp add: add_column_def comp_def split: option.split)

lemma add_column_consumptions [simp]: "db_consumptions (add_column n g d) = db_consumptions d"
  by (simp add: add_column_def split: option.split)

lemma create_tables_same [simp]:
  "db_approvals (create_tables db) = db_approvals db" "db_consumptions (create_tables db) = db_consumptions db"
  "is_legacy (create_tables db) = is_legacy db"
  by (auto simp: create_tables_def is_legacy_def SCHEMA_COLUMNS_def split: option.splits)

lemma init_db_ids: "map ap_authorization_id (db_approvals (init_db db)) = map ap_authorization_id (db_approvals db)"
proof -
  have "ap_authorization_id \<circ> distrust = ap_authorization_id" by (simp add: fun_eq_iff distrust_def)
  then show ?thesis by (simp add: init_db_def Let_def add_column_ids)
qed

lemma init_db_consumptions [simp]: "db_consumptions (init_db db) = db_consumptions db"
  by (simp add: init_db_def Let_def)

lemma init_db_distrusts: "is_legacy db \<Longrightarrow> r \<in> set (db_approvals (init_db db)) \<Longrightarrow> ap_status r = ''legacy-untrusted''"
  by (auto simp: init_db_def Let_def distrust_def)

lemma init_db_inv: "distinct (map ap_authorization_id (db_approvals db)) \<Longrightarrow> db_consumptions db = [] \<Longrightarrow> store_inv (init_db db)"
  by (simp add: store_inv_def init_db_ids)

lemma init_db_select:
  assumes "is_legacy db" "select_approval k db \<noteq> None"
  shows "\<exists>r. select_approval k (init_db db) = Some r \<and> ap_status r = ''legacy-untrusted''"
proof -
  have "k \<in> set (map ap_authorization_id (db_approvals (init_db db)))"
    unfolding init_db_ids using assms(2) by (simp add: select_approval_def select_row_None_iff)
  then obtain r where "select_approval k (init_db db) = Some r"
    by (cases "select_approval k (init_db db)") (auto simp: select_approval_def select_row_None_iff)
  with select_row_SomeD init_db_distrusts [OF assms(1)] show ?thesis by (fastforce simp: select_approval_def)
qed

lemma legacy_row_read:
  "ap_status r = ''legacy-untrusted'' \<Longrightarrow> read_row env pf r \<noteq> Inr (Trusted a)"
  by (auto simp: read_row_def bindE_Inr_iff)

text \<open>
  C18. Approvals of a database from before signatures were keyed authorize nothing: once such a
  database is opened, then after any sequence of store operations each of its rows is still marked
  untrusted, is never read as an authorization, and no request to consume it succeeds.
\<close>

theorem legacy_never_authorizes:
  assumes "is_legacy db" "distinct (map ap_authorization_id (db_approvals db))" "db_consumptions db = []" "select_approval k db \<noteq> None"
  shows "let db' = run_ops (store_step env pf) ops (init_db db) in
    (\<exists>r. select_approval k db' = Some r \<and> ap_status r = ''legacy-untrusted'') \<and>
    (\<forall>a. get_authorization env pf k db' \<noteq> Inr (Trusted a)) \<and> (\<forall>x. \<not> grants env pf x db' k)"
proof -
  let ?db = "run_ops (store_step env pf) ops (init_db db)"
  obtain r where r: "select_approval k (init_db db) = Some r" "ap_status r = ''legacy-untrusted''"
    using init_db_select [OF assms(1,4)] by blast
  from approvals.run_mono [OF init_db_inv [OF assms(2,3)], of env pf ops] r
  have row: "select_approval k ?db = Some r" by (fastforce simp: store_mono_def approval_later_def)
  have "get_authorization env pf k ?db \<noteq> Inr (Trusted a)" for a
    using legacy_row_read [OF r(2)] by (simp add: get_authorization_def row)
  moreover have "\<not> grants env pf x ?db k" for x using grants_open [of env pf x ?db k] row r(2) by auto
  ultimately show ?thesis using row r(2) by (auto simp: Let_def)
qed

theorem legacy_never_authorizes_witness:
  "let db = \<lparr>db_columns = Some [''authorization_id'', ''status''], db_approvals = [small_row], db_consumptions = []\<rparr> in
   is_legacy db \<and> ap_status small_row = ''approved'' \<and> (\<forall>x. \<not> grants demo_validator nan_floats x (init_db db) ''auth-demo0001'')"
proof -
  let ?db = "\<lparr>db_columns = Some [''authorization_id'', ''status''], db_approvals = [small_row], db_consumptions = []\<rparr>"
  have l: "is_legacy ?db" by (simp add: is_legacy_def)
  have st: "ap_status small_row = ''approved''" "ap_authorization_id small_row = ''auth-demo0001''"
    by (simp_all add: small_row_def row_of_auth_def small_auth_def demo_auth_def unsigned_authorization_def auth_status_def)
  then have s: "select_approval ''auth-demo0001'' ?db \<noteq> None" by (simp add: select_approval_def)
  from legacy_never_authorizes [OF l _ _ s, of demo_validator nan_floats "[]"] l st show ?thesis by (simp add: Let_def)
qed

section \<open>The abstract register\<close>

text \<open>
  The specification: each authorization is absent, open or spent; issuing fills an absent place,
  spending closes an open one for good, and there is no other move.
\<close>

datatype token = Absent | Open | Spent string

type_synonym register = "string \<Rightarrow> token"

inductive register_step :: "register \<Rightarrow> register \<Rightarrow> bool" where
  stay: "register_step t t"
| issue: "t k = Absent \<Longrightarrow> v \<noteq> Absent \<Longrightarrow> register_step t (t(k := v))"
| spend: "t k = Open \<Longrightarrow> st \<in> {''consumed'', ''expired''} \<Longrightarrow> register_step t (t(k := Spent st))"

definition token_of :: "approval option \<Rightarrow> token" where
  "token_of x = (case x of None \<Rightarrow> Absent | Some r \<Rightarrow> if ap_status r = ''approved'' then Open else Spent (ap_status r))"

definition register_of :: "database \<Rightarrow> register" where
  "register_of db k = token_of (select_approval k db)"

lemma register_put:
  "select_approval (ap_authorization_id r) db = None \<Longrightarrow>
   register_of (db\<lparr>db_approvals := insert_row r (db_approvals db)\<rparr>) = (register_of db)(ap_authorization_id r := token_of (Some r))"
  by (auto simp: register_of_def fun_eq_iff split: option.split)

lemma register_set_status:
  "select_approval aid db = Some r \<Longrightarrow> register_of (set_status aid ''expired'' db) = (register_of db)(aid := Spent ''expired'')"
  by (auto simp: register_of_def fun_eq_iff select_approval_set_status token_of_def)

lemma register_mark:
  "select_approval aid db = Some r \<Longrightarrow> ap_status r = ''approved'' \<Longrightarrow>
   register_of (mark_consumed aid t w db) = (register_of db)(aid := Spent ''consumed'')"
proof (rule ext)
  fix k
  assume "select_approval aid db = Some r" "ap_status r = ''approved''"
  then show "register_of (mark_consumed aid t w db) k = ((register_of db)(aid := Spent ''consumed'')) k"
    by (cases "select_approval k db")
      (auto simp: register_of_def select_approval_mark token_of_def dest: select_approval_key)
qed

lemma register_consumptions [simp]: "register_of (db\<lparr>db_consumptions := cs\<rparr>) = register_of db"
  by (simp add: register_of_def fun_eq_iff)

text \<open>
  C19. The store implements the register: whatever operation runs on whatever database, and whether it
  succeeds or not, the register it represents makes one step of the specification.
\<close>

theorem store_refines_register: "register_step (register_of db) (register_of (snd (store_step env pf x db)))"
  using store_step_change [of db env pf x]
proof (cases rule: db_change.cases)
  case keep
  then show ?thesis by (simp add: register_step.stay)
next
  case (put r)
  then show ?thesis unfolding put(1) register_put [OF put(2)]
    by (intro register_step.issue) (simp_all add: register_of_def token_of_def)
next
  case (expire aid r)
  then show ?thesis unfolding expire(1) register_set_status [OF expire(2)]
    by (intro register_step.spend) (simp_all add: register_of_def token_of_def)
next
  case (consume aid r t w)
  then show ?thesis unfolding consume(1) register_mark [OF consume(2,3)]
    by (intro register_step.spend) (simp_all add: register_of_def token_of_def)
next
  case (receive aid r c w t)
  then show ?thesis unfolding receive(1) register_consumptions register_mark [OF receive(2,3)]
    by (intro register_step.spend) (simp_all add: register_of_def token_of_def)
qed

section \<open>Stored authorizations are read back\<close>

text \<open>The authorization with the keys of its bound parameters in sorted order.\<close>

definition sorted_auth :: "(string \<Rightarrow> pyfloat) \<Rightarrow> execution_authorization \<Rightarrow> execution_authorization" where
  "sorted_auth pf a = a\<lparr>auth_bound_parameters := freeze (norm_json pf (thaw (auth_bound_parameters a)))\<rparr>"

lemma row_of_auth_columns:
  "ap_status (row_of_auth a b t) = auth_status a" "ap_bound_parameters_json (row_of_auth a b t) = b"
  by (simp_all add: row_of_auth_def)

lemma stored_doc:
  assumes "auth_schema_version a = ''cops.execution-authorization/v1''" "auth_consumed_at a \<noteq> Some []" "auth_consumed_by_worker a \<noteq> Some []"
  shows "full_row_doc (row_of_auth a b t) (norm_json pf (thaw (auth_bound_parameters a))) = ExecutionAuthorization_to_dict (sorted_auth pf a)"
proof -
  have item: "truthy_item k x = opt_str_item k x" if "x \<noteq> Some []" for k x
    using that by (auto simp: truthy_item_def opt_str_item_def split: option.split list.split)
  have "auth_status (sorted_auth pf a) = auth_status a" "auth_consumed_at (sorted_auth pf a) = auth_consumed_at a"
    "auth_consumed_by_worker (sorted_auth pf a) = auth_consumed_by_worker a"
    by (simp_all add: sorted_auth_def auth_status_def auth_consumed_at_def auth_consumed_by_worker_def)
  with assms item show ?thesis
    by (simp add: full_row_doc_def row_doc_def row_of_auth_def ExecutionAuthorization_to_dict_def) (simp add: sorted_auth_def)
qed

text \<open>
  What is stored is read back: after an authorization is accepted by the store, reading it returns
  the same authorization with the keys of its bound parameters sorted, whenever the reader's validator
  accepts that document; a second attempt to store its identifier is a conflict.
\<close>

theorem store_then_get:
  assumes "store_authorization env t a db = (Inr (), db')"
    and "json_ok (thaw (auth_bound_parameters a))" "auth_schema_version a = ''cops.execution-authorization/v1''"
    and "auth_consumed_at a \<noteq> Some []" "auth_consumed_by_worker a \<noteq> Some []" "auth_status a \<noteq> ''legacy-untrusted''"
    and "is_ok (validate_contract env (ExecutionAuthorization_to_dict (sorted_auth pf a)) (Some ''execution_authorization''))"
  shows "get_authorization env pf (auth_authorization_id a) db' = Inr (Trusted (sorted_auth pf a)) \<and>
    \<not> is_ok (fst (store_authorization env' t' a db'))"
proof -
  let ?id = "auth_authorization_id a"
  from assms(1) obtain b where b: "canonical (thaw (auth_bound_parameters a)) DEFAULT_BYTES DEFAULT_DEPTH = Inr b"
    and fresh: "select_approval ?id db = None" and db': "db' = db\<lparr>db_approvals := insert_row (row_of_auth a b t) (db_approvals db)\<rparr>"
    by (auto simp: store_authorization_def bindE_Inr_iff split: sum.splits if_splits)
  have row: "select_approval ?id db' = Some (row_of_auth a b t)" using fresh by (simp add: db' row_of_auth_def)
  have wf: "auth_wf (sorted_auth pf a)" by (simp add: auth_wf_def sorted_auth_def)
  obtain r where "validate_contract env (ExecutionAuthorization_to_dict (sorted_auth pf a)) (Some ''execution_authorization'') = Inr r"
    using assms(7) by (auto simp: is_ok_iff)
  from ExecutionAuthorization_read_back [OF this wf]
  have "read_row env pf (row_of_auth a b t) = Inr (Trusted (sorted_auth pf a))"
    using canonical_okD(1) [OF b] load_stored [OF assms(2), of pf] assms(6)
    by (simp add: read_row_def stored_doc [OF assms(3-5)] storeE_def row_of_auth_columns)
  moreover have "\<not> is_ok (fst (store_authorization env' t' a db'))"
    using row by (simp add: store_authorization_def split: sum.split)
  ultimately show ?thesis using row by (simp add: get_authorization_def)
qed

theorem store_then_get_witness:
  "store_authorization demo_validator ''2024-01-01T00:00:00Z'' small_auth empty_db = (Inr (), small_db) \<and>
   get_authorization demo_validator nan_floats ''auth-demo0001'' small_db = Inr (Trusted small_auth)"
proof -
  have j: "json_ok (thaw (auth_bound_parameters small_auth))" by (simp add: small_auth_def)
  have f: "auth_schema_version small_auth = ''cops.execution-authorization/v1''" "auth_consumed_at small_auth \<noteq> Some []"
    "auth_consumed_by_worker small_auth \<noteq> Some []" "auth_status small_auth \<noteq> ''legacy-untrusted''" "auth_authorization_id small_auth = ''auth-demo0001''"
    "sorted_auth nan_floats small_auth = small_auth"
    by (simp_all add: small_auth_def demo_auth_def unsigned_authorization_def auth_status_def auth_consumed_at_def auth_consumed_by_worker_def sorted_auth_def)
  have v: "is_ok (validate_contract demo_validator (ExecutionAuthorization_to_dict (sorted_auth nan_floats small_auth)) (Some ''execution_authorization''))"
    unfolding f(6) by code_simp
  from store_then_get [OF small_stored j f(1-4) v, of demo_validator "[]"] small_stored show ?thesis by (simp add: f(5,6))
qed

end
