(* ===== verification/Control.thy ===== *)
theory Control
  imports Approval_Store
begin

text \<open>
  \<^verbatim>\<open>cops/execution/control.py\<close>: the consume-only boundary between a worker and the approval authority.

  A connection is what the peer's side yields to \<^verbatim>\<open>recv\<close>: a list of \<open>received\<close> events, each with the
  time of the call where a deadline applies. Bytes are read as UTF-8; a message in UTF-16 or UTF-32,
  which \<^verbatim>\<open>json.loads\<close> recognises by its first bytes, is taken as malformed. The authority
  reads and writes the shared store in separate transactions, between which other processes may
  commit: \<open>consume_document\<close> takes the operations \<open>before_read\<close> and \<open>before_commit\<close> that others commit
  after its first lookup and after its read of the authorization. The clock, the process
  credentials and the file status are arguments. An object whose identity matters (a
  receipt held by the client) is a reference: an identifier and the value it points to.
\<close>

section \<open>Messages\<close>

datatype control_exc =
    ApprovalControlError string
  | TransportError string
  | ControlOther string
  | ControlStore store_exc

abbreviation reject :: "string \<Rightarrow> (control_exc, 'a) result" where
  "reject message \<equiv> Inl (ApprovalControlError message)"

definition REQUEST_SCHEMA :: string where
  "REQUEST_SCHEMA = ''cops.approval-control-request/v1''"

definition RESPONSE_SCHEMA :: string where
  "RESPONSE_SCHEMA = ''cops.approval-control-response/v1''"

definition MAX_CONTROL_MESSAGE_BYTES :: int where
  "MAX_CONTROL_MESSAGE_BYTES = 1048576"

text \<open>\<^verbatim>\<open>_DeadlineSocket\<close>: the timeout set before an operation at time \<open>now\<close>; none left is a \<^verbatim>\<open>TimeoutError\<close>.\<close>

definition remaining_timeout :: "rat \<Rightarrow> rat \<Rightarrow> (control_exc, rat) result" where
  "remaining_timeout deadline now =
     (if deadline - now \<le> 0 then Inl (ControlOther ''approval control total connection deadline exceeded'') else Inr (deadline - now))"

text \<open>
  One \<^verbatim>\<open>recv\<close>: a chunk, empty at the end of the stream, or a failure of the operating system, to which
  a \<^verbatim>\<open>TimeoutError\<close> belongs. \<open>bounded_recv\<close> is \<^verbatim>\<open>_DeadlineSocket.recv\<close> called at time \<open>now\<close>.
\<close>

datatype received = Chunk "nat list" | RecvFailed

definition bounded_recv :: "rat \<Rightarrow> rat \<times> received \<Rightarrow> received" where
  "bounded_recv deadline call = (case remaining_timeout deadline (fst call) of Inl _ \<Rightarrow> RecvFailed | Inr _ \<Rightarrow> snd call)"

fun read_stream :: "received list \<Rightarrow> nat list \<Rightarrow> (control_exc, nat list) result" where
  "read_stream [] data = Inr data"
| "read_stream (RecvFailed # rs) data = Inl (ControlOther ''recv failed'')"
| "read_stream (Chunk c # rs) data =
     (if c = [] then Inr data
      else if int (length (data @ c)) > MAX_CONTROL_MESSAGE_BYTES then reject ''approval control message exceeds the byte limit''
      else read_stream rs (data @ c))"

definition read_json_line :: "(string \<Rightarrow> pyfloat) \<Rightarrow> received list \<Rightarrow> (control_exc, dict) result" where
  "read_json_line pf stream =
     bindE (read_stream stream []) (\<lambda>data.
     if data = [] \<or> last data \<noteq> 10 then Inl (TransportError ''approval control connection ended before a complete response'')
     else if length (filter (\<lambda>b. b = 10) data) \<noteq> 1 then reject ''approval control requires one newline-delimited JSON document''
     else case utf8_decode (butlast data) of
       None \<Rightarrow> reject ''approval control message is not valid UTF-8 JSON''
     | Some text \<Rightarrow>
         (case loads (plain_hooks pf) text of
            Inl _ \<Rightarrow> reject ''approval control message is not valid UTF-8 JSON''
          | Inr (JObj d) \<Rightarrow> Inr d
          | Inr _ \<Rightarrow> reject ''approval control message must be a JSON object''))"

definition encode_json_line :: "dict \<Rightarrow> (control_exc, nat list) result" where
  "encode_json_line document =
     (let encoded = utf8 (dumps True (JObj document)) @ [10] in
      if int (length encoded) > MAX_CONTROL_MESSAGE_BYTES then reject ''approval control response exceeds the byte limit'' else Inr encoded)"

definition consumption_response :: "json \<Rightarrow> consumption \<Rightarrow> dict" where
  "consumption_response request_id c = [
     (''schema_version'', JStr RESPONSE_SCHEMA),
     (''request_id'', request_id),
     (''ok'', JBool True),
     (''authorization_id'', JStr (cn_authorization_id c)),
     (''authorization_digest'', JStr (cn_authorization_digest c)),
     (''action_plan_id'', JStr (cn_action_plan_id c)),
     (''plan_digest'', JStr (cn_plan_digest c)),
     (''engagement_id'', JStr (cn_engagement_id c)),
     (''worker_identity'', JStr (cn_worker_identity c)),
     (''target'', JStr (cn_target c))]"

section \<open>Request identifiers\<close>

text \<open>\<^verbatim>\<open>s.replace(needle, "")\<close>\<close>

fun remove_all :: "string \<Rightarrow> string \<Rightarrow> string" where
  "remove_all needle [] = []"
| "remove_all needle (c # s) =
     (if needle \<noteq> [] \<and> prefix needle (c # s) then remove_all needle (drop (length needle - 1) s) else c # remove_all needle s)"

definition is_hex :: "char \<Rightarrow> bool" where
  "is_hex c \<longleftrightarrow> hex_val c \<noteq> None"

text \<open>Hexadecimal digits with single underscores between them; \<open>after\<close>: the last character was a digit.\<close>

fun hex_run :: "bool \<Rightarrow> string \<Rightarrow> bool" where
  "hex_run after [] = after"
| "hex_run after (c # s) = (if c = CHR ''_'' then after \<and> hex_run False s else is_hex c \<and> hex_run True s)"

definition drop_sign :: "string \<Rightarrow> string" where
  "drop_sign s = (case s of c # t \<Rightarrow> if c = CHR ''+'' \<or> c = CHR ''-'' then t else s | [] \<Rightarrow> [])"

text \<open>\<^verbatim>\<open>int(s, 16)\<close> succeeds.\<close>

definition int16_ok :: "string \<Rightarrow> bool" where
  "int16_ok s =
     (let t = drop_sign (strip s) in
      if prefix ''0x'' t \<or> prefix ''0X'' t
      then (case drop 2 t of c # u \<Rightarrow> if c = CHR ''_'' then hex_run False u else hex_run False (c # u) | [] \<Rightarrow> False)
      else hex_run False t)"

definition strip_braces :: "string \<Rightarrow> string" where
  "strip_braces s = (let brace = (\<lambda>c. c = CHR ''{'' \<or> c = CHR ''}'') in rev (dropWhile brace (rev (dropWhile brace s))))"

text \<open>\<^verbatim>\<open>uuid.UUID(v)\<close> succeeds.\<close>

definition is_uuid :: "json \<Rightarrow> bool" where
  "is_uuid v = (case v of
       JStr s \<Rightarrow> (let h = remove_all ''-'' (strip_braces (remove_all ''uuid:'' (remove_all ''urn:'' s))) in length h = 32 \<and> int16_ok h)
     | _ \<Rightarrow> False)"

section \<open>The authority\<close>

record authority =
  au_trust_store :: trust_store
  au_engagement :: engagement_arg
  au_worker_identity :: string
  au_worker_uid :: int
  au_worker_gid :: int
  au_worker_pid :: int
  au_authority_uid :: int

text \<open>The process and storage the authority finds itself in.\<close>

record surroundings =
  su_linux :: bool
  su_euid :: int
  su_protected :: "(store_exc, unit) result"
  su_clock :: int
  su_now_text :: string

definition authority_ready :: "authority \<Rightarrow> surroundings \<Rightarrow> (control_exc, unit) result" where
  "authority_ready au su =
     (if \<not> su_linux su then reject ''approval authority is supported only on Linux''
      else if su_euid su \<noteq> au_authority_uid au then reject ''approval authority must run as its configured OS UID''
      else if au_worker_uid au = au_authority_uid au then reject ''approval authority and worker require distinct OS UIDs''
      else if au_worker_uid au < 1 \<or> au_worker_gid au < 1 \<or> au_worker_pid au < 1
      then reject ''approval authority requires a pinned non-root worker UID, GID, and PID''
      else case su_protected su of Inl e \<Rightarrow> Inl (ControlStore e) | Inr _ \<Rightarrow> Inr ())"

record peer =
  pe_pid :: int
  pe_uid :: int
  pe_gid :: int

definition REQUEST_KEYS :: "string list" where
  "REQUEST_KEYS = [''schema_version'', ''request_id'', ''operation'', ''authorization_id'', ''worker_identity'', ''action_plan'']"

text \<open>
  \<^verbatim>\<open>ActionPlan.from_dict(document["action_plan"])\<close> under \<^verbatim>\<open>except (KeyError, TypeError, ValueError)\<close>. A value
  that is not a dictionary meets an \<^verbatim>\<open>AttributeError\<close> after the canonical check.
\<close>

definition plan_of_request :: "world \<Rightarrow> json \<Rightarrow> (control_exc, action_plan) result" where
  "plan_of_request w v =
     (case v of
        JObj d \<Rightarrow>
          (case ActionPlan_from_dict (w_env w) d of
             Inr p \<Rightarrow> Inr p
           | Inl (Evidence (FileNotFound f)) \<Rightarrow> Inl (ControlStore (StorePassed (Evidence (FileNotFound f))))
           | Inl _ \<Rightarrow> reject ''approval control action plan is invalid'')
      | _ \<Rightarrow> if is_ok (canonical v DEFAULT_BYTES DEFAULT_DEPTH) then Inl (ControlOther ''AttributeError'')
          else reject ''approval control action plan is invalid'')"

definition check_request :: "authority \<Rightarrow> peer \<Rightarrow> dict \<Rightarrow> (control_exc, string \<times> string) result" where
  "check_request au pe doc =
     (if dict_keys doc \<noteq> set REQUEST_KEYS then reject ''approval control request has unexpected or missing fields''
      else if get_str doc ''schema_version'' \<noteq> Some REQUEST_SCHEMA \<or> get_str doc ''operation'' \<noteq> Some ''consume''
      then reject ''unsupported approval control request''
      else if \<not> is_uuid (get_or_none doc ''request_id'') then reject ''approval control request_id must be a UUID''
      else if pe_uid pe \<noteq> au_worker_uid au then reject ''approval control peer UID does not match the configured worker UID''
      else if pe_gid pe \<noteq> au_worker_gid au then reject ''approval control peer GID does not match the configured worker GID''
      else if pe_pid pe \<noteq> au_worker_pid au then reject ''approval control peer PID does not match the pinned worker supervisor''
      else if get_str doc ''worker_identity'' \<noteq> Some (au_worker_identity au) then reject ''approval control worker identity mismatch''
      else case (get_str doc ''request_id'', get_str doc ''authorization_id'') of
        (Some rid, Some (c # cs)) \<Rightarrow> Inr (rid, c # cs)
      | _ \<Rightarrow> reject ''approval control authorization_id must be non-empty'')"

definition request_bindings :: "authority \<Rightarrow> string \<Rightarrow> string \<Rightarrow> action_plan \<Rightarrow> receipt_bindings" where
  "request_bindings au h aid plan = \<lparr>rb_request_digest = h, rb_authorization_id = aid, rb_action_plan_id = plan_id plan,
     rb_plan_digest = plan_digest plan, rb_engagement_id = plan_engagement_id plan, rb_worker_identity = au_worker_identity au,
     rb_target = plan_target plan\<rparr>"

definition verify_stored :: "world \<Rightarrow> authority \<Rightarrow> surroundings \<Rightarrow> string \<Rightarrow> action_plan \<Rightarrow> database \<Rightarrow> execution_authorization option" where
  "verify_stored w au su aid plan db =
     (case get_authorization (w_env w) (w_float w) aid db of
        Inl _ \<Rightarrow> None
      | Inr st \<Rightarrow>
          (case verify_execution_authorization w (su_clock su) (case st of Trusted a \<Rightarrow> AuthObject a | Historical _ \<Rightarrow> AuthOther) (PlanObject plan)
                  (Some (au_trust_store au)) (au_engagement au) (au_worker_identity au) None of
             Inl _ \<Rightarrow> None
           | Inr a \<Rightarrow> Some a))"

definition liftS :: "(store_exc, 'a) result \<Rightarrow> (control_exc, 'a) result" where
  "liftS r = (case r of Inl e \<Rightarrow> Inl (ControlStore e) | Inr a \<Rightarrow> Inr a)"

text \<open>The request once it is checked: identifiers, plan, digest.\<close>

record checked_request =
  cr_request_id' :: string
  cr_authorization_id :: string
  cr_plan :: action_plan
  cr_digest :: string

definition checked_document :: "world \<Rightarrow> authority \<Rightarrow> surroundings \<Rightarrow> peer \<Rightarrow> dict \<Rightarrow> (control_exc, checked_request) result" where
  "checked_document w au su pe doc =
     bindE (authority_ready au su) (\<lambda>_.
     bindE (check_request au pe doc) (\<lambda>(rid, aid).
     bindE (plan_of_request w (get_or_none doc ''action_plan'')) (\<lambda>plan.
     bindE (liftS (evidenceE (digest (v_sha (w_env w)) (JObj doc) DEFAULT_BYTES DEFAULT_DEPTH))) (\<lambda>h.
       Inr \<lparr>cr_request_id' = rid, cr_authorization_id = aid, cr_plan = plan, cr_digest = h\<rparr>))))"

text \<open>The answer of a lookup of a prior receipt: \<open>None\<close> when there is none.\<close>

definition prior_response :: "authority \<Rightarrow> checked_request \<Rightarrow> database \<Rightarrow> (control_exc, dict option) result" where
  "prior_response au cr db =
     bindE (liftS (get_matching_consumption (cr_request_id' cr) (request_bindings au (cr_digest cr) (cr_authorization_id cr) (cr_plan cr)) db)) (\<lambda>c.
       Inr (map_option (consumption_response (JStr (cr_request_id' cr))) c))"

definition consume_document ::
  "world \<Rightarrow> authority \<Rightarrow> surroundings \<Rightarrow> store_op list \<Rightarrow> store_op list \<Rightarrow> dict \<Rightarrow> peer \<Rightarrow> database \<Rightarrow> (database, control_exc, dict) outcome" where
  "consume_document w au su before_read before_commit doc pe db =
     (case checked_document w au su pe doc of
        Inl e \<Rightarrow> (Inl e, db)
      | Inr cr \<Rightarrow>
          (case prior_response au cr db of
             Inl e \<Rightarrow> (Inl e, db)
           | Inr (Some response) \<Rightarrow> (Inr response, db)
           | Inr None \<Rightarrow>
               let db1 = run_ops (store_step (w_env w) (w_float w)) before_read db;
                   db2 = run_ops (store_step (w_env w) (w_float w)) before_commit db1 in
               (case verify_stored w au su (cr_authorization_id cr) (cr_plan cr) db1 of
                  None \<Rightarrow>
                    (case prior_response au cr db2 of
                       Inl e \<Rightarrow> (Inl e, db2)
                     | Inr (Some response) \<Rightarrow> (Inr response, db2)
                     | Inr None \<Rightarrow> (reject ''approval authorization did not verify for the requested plan and worker'', db2))
                | Some verified \<Rightarrow>
                    let r = atomically_consume_request (w_env w) (w_float w) (su_protected su) (su_now_text su)
                        \<lparr>rq_request_id = cr_request_id' cr, rq_request_digest = cr_digest cr, rq_target = plan_target (cr_plan cr),
                         rq_expected = verified, rq_worker_identity = au_worker_identity au\<rparr> db2 in
                    (bindE (liftS (fst r)) (\<lambda>c. Inr (consumption_response (JStr (cr_request_id' cr)) c)), snd r))))"

definition refusal :: "json \<Rightarrow> dict" where
  "refusal request_id = [(''schema_version'', JStr RESPONSE_SCHEMA), (''request_id'', request_id), (''ok'', JBool False),
     (''error'', JStr ''approval authority rejected the request'')]"

definition serve_connection ::
  "world \<Rightarrow> authority \<Rightarrow> surroundings \<Rightarrow> store_op list \<Rightarrow> store_op list \<Rightarrow> peer \<Rightarrow> received list \<Rightarrow> database \<Rightarrow>
   (database, control_exc, nat list) outcome" where
  "serve_connection w au su before_read before_commit pe stream db =
     (let (response, db') =
        (case read_json_line (w_float w) stream of
           Inl _ \<Rightarrow> (refusal JNull, db)
         | Inr doc \<Rightarrow>
             (case consume_document w au su before_read before_commit doc pe db of
                (Inl _, d) \<Rightarrow> (refusal (get_or_none doc ''request_id''), d)
              | (Inr r, d) \<Rightarrow> (r, d))) in
      (encode_json_line response, db'))"

section \<open>The server's socket\<close>

text \<open>The modes \<^verbatim>\<open>0o2710\<close> and \<^verbatim>\<open>0o660\<close>; \<open>st_is_socket\<close> and \<open>st_is_dir\<close> are the file type.\<close>

abbreviation mode_2710 :: int where
  "mode_2710 \<equiv> 2 * 512 + 7 * 64 + 8"

abbreviation mode_660 :: int where
  "mode_660 \<equiv> 6 * 64 + 6 * 8"

record socket_status =
  st_is_dir :: bool
  st_is_socket :: bool
  st_uid :: int
  st_gid :: int
  st_mode :: int

definition assert_socket_directory :: "authority \<Rightarrow> socket_status option \<Rightarrow> (control_exc, unit) result" where
  "assert_socket_directory au parent =
     (case parent of
        None \<Rightarrow> reject ''approval control directory is unavailable''
      | Some p \<Rightarrow>
          if \<not> st_is_dir p then reject ''approval control parent is not a directory''
          else if st_uid p \<noteq> au_authority_uid au then reject ''approval control directory is not authority-owned''
          else if st_gid p \<noteq> au_worker_gid au then reject ''approval control directory group is not the configured worker group''
          else if st_mode p \<noteq> mode_2710 then reject ''approval control directory must have mode 2710 (authority owner, worker group traverse)''
          else Inr ())"

definition check_bound_socket :: "authority \<Rightarrow> socket_status \<Rightarrow> (control_exc, unit) result" where
  "check_bound_socket au s =
     (if \<not> st_is_socket s then reject ''approval control path is not a Unix socket after bind''
      else if st_uid s \<noteq> au_authority_uid au then reject ''approval control socket is not authority-owned''
      else if st_gid s \<noteq> au_worker_gid au then reject ''approval control socket group is not the configured worker group''
      else if st_mode s \<noteq> mode_660 then reject ''approval control socket must have mode 0660''
      else Inr ())"

text \<open>The checks before and after \<^verbatim>\<open>bind\<close>; \<open>exists\<close>: the socket path is already taken.\<close>

definition open_listener :: "authority \<Rightarrow> surroundings \<Rightarrow> socket_status option \<Rightarrow> bool \<Rightarrow> socket_status \<Rightarrow> (control_exc, unit) result" where
  "open_listener au su parent exists' bound =
     bindE (authority_ready au su) (\<lambda>_.
     bindE (assert_socket_directory au parent) (\<lambda>_.
     if exists' then reject ''approval control socket path already exists'' else check_bound_socket au bound))"

text \<open>
  One accepted connection: its peer, when it was accepted, the timed calls of \<^verbatim>\<open>recv\<close>, when the reply is
  sent, the surroundings and the interleaved operations.
\<close>

record connection =
  co_peer :: peer
  co_accepted :: rat
  co_calls :: "(rat \<times> received) list"
  co_sent :: rat
  co_surroundings :: surroundings
  co_before_read :: "store_op list"
  co_before_commit :: "store_op list"

definition serve_accepted_connection ::
  "world \<Rightarrow> authority \<Rightarrow> rat \<Rightarrow> connection \<Rightarrow> database \<Rightarrow> (database, control_exc, nat list) outcome" where
  "serve_accepted_connection w au timeout c db =
     (let deadline = co_accepted c + timeout;
          (reply, db') = serve_connection w au (co_surroundings c) (co_before_read c) (co_before_commit c) (co_peer c)
            (map (bounded_recv deadline) (co_calls c)) db in
      (bindE reply (\<lambda>bytes. bindE (remaining_timeout deadline (co_sent c)) (\<lambda>_. Inr bytes)), db'))"

text \<open>\<^verbatim>\<open>serve_forever\<close> over the connections accepted so far: a failing connection does not stop the loop.\<close>

fun serve_all :: "world \<Rightarrow> authority \<Rightarrow> rat \<Rightarrow> connection list \<Rightarrow> database \<Rightarrow> (control_exc, nat list) result list \<times> database" where
  "serve_all w au timeout [] db = ([], db)"
| "serve_all w au timeout (c # cs) db =
     (let (reply, db1) = serve_accepted_connection w au timeout c db;
          (replies, db2) = serve_all w au timeout cs db1 in (reply # replies, db2))"

section \<open>The client\<close>

record control_receipt =
  re_authorization_id :: string
  re_authorization_digest :: string
  re_action_plan_id :: string
  re_plan_digest :: string
  re_engagement_id :: string
  re_worker_identity :: string
  re_target :: string

type_synonym receipt_ref = "nat \<times> control_receipt"

record client =
  cl_expected_authority_uid :: int
  cl_worker_uid :: "int option"
  cl_worker_gid :: "int option"
  cl_issued :: "(nat \<times> control_receipt) list"

definition validate_receipt_provenance :: "client \<Rightarrow> receipt_ref \<Rightarrow> (control_exc, receipt_ref) result" where
  "validate_receipt_provenance cl r =
     (if map_of (cl_issued cl) (fst r) = Some (snd r) then Inr r else reject ''approval receipt was not issued by this control client'')"

definition release_receipt_provenance :: "receipt_ref \<Rightarrow> client \<Rightarrow> (client, control_exc, unit) outcome" where
  "release_receipt_provenance r cl =
     (case validate_receipt_provenance cl r of
        Inl e \<Rightarrow> (Inl e, cl)
      | Inr _ \<Rightarrow> (Inr (), cl\<lparr>cl_issued := filter (\<lambda>(i, _). i \<noteq> fst r) (cl_issued cl)\<rparr>))"

definition client_ready :: "client \<Rightarrow> bool \<Rightarrow> int \<Rightarrow> int \<Rightarrow> (socket_status \<times> socket_status) option \<Rightarrow> (control_exc, unit) result" where
  "client_ready cl linux euid egid paths =
     (let uid = (case cl_worker_uid cl of None \<Rightarrow> euid | Some u \<Rightarrow> u); gid = (case cl_worker_gid cl of None \<Rightarrow> egid | Some g \<Rightarrow> g) in
      if \<not> linux then reject ''production approval control is supported only on Linux''
      else if uid \<noteq> euid \<or> gid \<noteq> egid then reject ''configured worker UID/GID do not match the running process''
      else if uid = 0 then reject ''approval worker must not run as root''
      else if uid = cl_expected_authority_uid cl then reject ''approval authority and worker require distinct OS UIDs''
      else case paths of
        None \<Rightarrow> reject ''approval authority socket is unavailable''
      | Some (s, p) \<Rightarrow>
          if \<not> st_is_socket s then reject ''approval authority path is not a Unix socket''
          else if st_uid s \<noteq> cl_expected_authority_uid cl then reject ''approval authority socket owner does not match configured UID''
          else if st_gid s \<noteq> gid then reject ''approval authority socket group does not match the worker GID''
          else if st_mode s \<noteq> mode_660 then reject ''approval authority socket must have mode 0660''
          else if \<not> st_is_dir p \<or> st_uid p \<noteq> cl_expected_authority_uid cl then reject ''approval authority socket directory is not authority-owned''
          else if st_gid p \<noteq> gid then reject ''approval authority socket directory group does not match the worker GID''
          else if st_mode p \<noteq> mode_2710 then reject ''approval authority socket directory must have mode 2710''
          else Inr ())"

text \<open>One attempt to reach the authority: \<open>None\<close> is an \<^verbatim>\<open>OSError\<close> while connecting or sending.\<close>

record attempt_io =
  io_peer_uid :: int
  io_reply :: "received list"

definition exchange :: "client \<Rightarrow> (string \<Rightarrow> pyfloat) \<Rightarrow> dict \<Rightarrow> attempt_io option \<Rightarrow> (control_exc, dict) result" where
  "exchange cl pf request io =
     (case io of
        None \<Rightarrow> Inl (TransportError ''approval control transport failed before a complete response'')
      | Some a \<Rightarrow>
          if io_peer_uid a \<noteq> cl_expected_authority_uid cl then reject ''connected approval authority UID does not match configured UID''
          else bindE (encode_json_line request) (\<lambda>_.
            case read_json_line pf (io_reply a) of
              Inl (ControlOther _) \<Rightarrow> Inl (TransportError ''approval control transport failed before a complete response'')
            | r \<Rightarrow> r))"

definition control_request :: "string \<Rightarrow> string \<Rightarrow> action_plan \<Rightarrow> string \<Rightarrow> dict" where
  "control_request request_id authorization_id plan worker_identity = [
     (''schema_version'', JStr REQUEST_SCHEMA),
     (''request_id'', JStr request_id),
     (''operation'', JStr ''consume''),
     (''authorization_id'', JStr authorization_id),
     (''worker_identity'', JStr worker_identity),
     (''action_plan'', JObj (ActionPlan_to_dict plan))]"

text \<open>Two attempts; only a transport failure is retried, with the same request.\<close>

definition exchange_twice :: "client \<Rightarrow> (string \<Rightarrow> pyfloat) \<Rightarrow> dict \<Rightarrow> attempt_io option \<Rightarrow> attempt_io option \<Rightarrow> (control_exc, dict) result" where
  "exchange_twice cl pf request io1 io2 =
     (case exchange cl pf request io1 of
        Inl (TransportError _) \<Rightarrow>
          (case exchange cl pf request io2 of
             Inl (TransportError _) \<Rightarrow> reject ''approval control transport failed after an idempotent retry''
           | r \<Rightarrow> r)
      | r \<Rightarrow> r)"

definition RESPONSE_KEYS :: "string list" where
  "RESPONSE_KEYS = [''schema_version'', ''request_id'', ''ok'', ''authorization_id'', ''authorization_digest'', ''action_plan_id'', ''plan_digest'',
     ''engagement_id'', ''worker_identity'', ''target'']"

fun check_bindings :: "dict \<Rightarrow> (string \<times> string) list \<Rightarrow> (control_exc, unit) result" where
  "check_bindings response [] = Inr ()"
| "check_bindings response ((k, expected) # bs) =
     (case get_str response k of
        Some (c # cs) \<Rightarrow>
          if c # cs \<noteq> expected then reject (''approval authority returned a mismatched '' @ k @ '' binding'') else check_bindings response bs
      | _ \<Rightarrow> reject (''approval authority returned an invalid '' @ k @ '' binding''))"

text \<open>\<^verbatim>\<open>str(response.get("error", ...))\<close>; the text of a value that is not a string is not modelled.\<close>

definition refusal_text :: "dict \<Rightarrow> string" where
  "refusal_text response = (case dict_get response ''error'' of
       None \<Rightarrow> ''approval authority rejected the request''
     | Some (JStr s) \<Rightarrow> s
     | Some _ \<Rightarrow> ''(a value that is not a string)'')"

definition accept_response :: "string \<Rightarrow> string \<Rightarrow> action_plan \<Rightarrow> string \<Rightarrow> dict \<Rightarrow> (control_exc, control_receipt) result" where
  "accept_response request_id authorization_id plan worker_identity response =
     (if get_str response ''schema_version'' \<noteq> Some RESPONSE_SCHEMA \<or> get_str response ''request_id'' \<noteq> Some request_id
      then reject ''approval authority response identity mismatch''
      else if dict_get response ''ok'' \<noteq> Some (JBool True) then reject (refusal_text response)
      else if dict_keys response \<noteq> set RESPONSE_KEYS then reject ''approval authority response has unexpected or missing fields''
      else if get_str response ''authorization_id'' \<noteq> Some authorization_id then reject ''approval authority returned a different authorization''
      else case get_str response ''authorization_digest'' of
        None \<Rightarrow> reject ''approval authority returned an invalid authorization digest''
      | Some h \<Rightarrow>
          if int (length h) \<noteq> 64 then reject ''approval authority returned an invalid authorization digest''
          else bindE (check_bindings response [(''action_plan_id'', plan_id plan), (''plan_digest'', plan_digest plan),
                 (''engagement_id'', plan_engagement_id plan), (''worker_identity'', worker_identity), (''target'', plan_target plan)]) (\<lambda>_.
            Inr \<lparr>re_authorization_id = authorization_id, re_authorization_digest = h, re_action_plan_id = get_text response ''action_plan_id'',
              re_plan_digest = get_text response ''plan_digest'', re_engagement_id = get_text response ''engagement_id'',
              re_worker_identity = get_text response ''worker_identity'', re_target = get_text response ''target''\<rparr>))"

text \<open>\<open>request_id\<close> is the new UUID and \<open>oid\<close> the identity of the new receipt object.\<close>

definition consume_authorization ::
  "(string \<Rightarrow> pyfloat) \<Rightarrow> (control_exc, unit) result \<Rightarrow> string \<Rightarrow> nat \<Rightarrow> attempt_io option \<Rightarrow> attempt_io option \<Rightarrow>
   string \<Rightarrow> action_plan \<Rightarrow> string \<Rightarrow> client \<Rightarrow> (client, control_exc, receipt_ref) outcome" where
  "consume_authorization pf ready request_id oid io1 io2 authorization_id plan worker_identity cl =
     (case bindE ready (\<lambda>_.
             bindE (exchange_twice cl pf (control_request request_id authorization_id plan worker_identity) io1 io2)
               (accept_response request_id authorization_id plan worker_identity)) of
        Inl e \<Rightarrow> (Inl e, cl)
      | Inr r \<Rightarrow> (Inr (oid, r), cl\<lparr>cl_issued := (oid, r) # filter (\<lambda>(i, _). i \<noteq> oid) (cl_issued cl)\<rparr>))"

end
