(* ===== verification/Control_Props.thy ===== *)
theory Control_Props
  imports Control Approval_Register
begin

text \<open>
  The control boundary keeps the promises of the store: whatever a peer sends, and whatever other
  processes commit in between, the authority answers a request with a receipt only if the store holds
  it, and the worker's client accepts a receipt only if it is the one that was asked for.
\<close>

section \<open>Printed text has no control characters\<close>

definition visible :: "string \<Rightarrow> bool" where
  "visible s \<longleftrightarrow> (\<forall>c \<in> set s. 32 \<le> (of_char c :: nat))"

lemma visible_simps [simp]: "visible []" "visible (c # s) \<longleftrightarrow> 32 \<le> (of_char c :: nat) \<and> visible s" "visible (s @ t) \<longleftrightarrow> visible s \<and> visible t"
  by (auto simp: visible_def)

lemma visible_digits: "list_all is_digit s \<Longrightarrow> visible s"
  by (fastforce simp: visible_def is_digit_def list_all_iff)

lemma visible_digit: "is_digit c \<Longrightarrow> 32 \<le> (of_char c :: nat)"
  by (simp add: is_digit_def)

lemma visible_taken: "visible (takeWhile is_digit s)"
  by (rule visible_digits) (auto simp: list_all_iff dest: set_takeWhileD)

lemma visible_parts:
  "int_part s = Some (t, u) \<Longrightarrow> visible t" "visible (fst (frac_part s))" "visible (fst (exp_part s))"
  by (auto simp: int_part_def frac_part_def exp_part_def visible_taken visible_digit split: list.splits if_splits)

lemma visible_number:
  assumes "number_prefix s = Some (t, f, u)"
  shows "visible t"
proof -
  define sg where "sg = (case s of c # cs \<Rightarrow> if c = CHR ''-'' then ([c], cs) else ([], s) | [] \<Rightarrow> ([], s))"
  have sg: "visible (fst sg)" by (simp add: sg_def split: list.split)
  from assms obtain ip s2 where ip: "int_part (snd sg) = Some (ip, s2)"
    and t: "t = fst sg @ ip @ fst (frac_part s2) @ fst (exp_part (snd (frac_part s2)))"
    unfolding number_prefix_def sg_def [symmetric] Let_def by (cases "int_part (snd sg)") (auto simp: case_prod_beta)
  then show ?thesis using sg visible_parts by simp
qed

lemma visible_escape: "visible (escape_char ea c)"
proof -
  have "of_char c < (256 :: nat)" by simp
  then have "of_char c div 16 < (16 :: nat)" "of_char c mod 16 < (16 :: nat)" by (simp_all only: div_less_iff_less_mult)
  then have "32 \<le> (of_char (hex_char (of_char c div 16)) :: nat)" "32 \<le> (of_char (hex_char (of_char c mod 16)) :: nat)"
    by (simp_all add: hex_char_def)
  then show ?thesis by (auto simp: escape_char_def Let_def)
qed

lemma visible_str_text: "visible (str_text ea s)"
  using visible_escape by (auto simp: str_text_def visible_def)

lemma visible_join: "(\<And>s. s \<in> set ss \<Longrightarrow> visible s) \<Longrightarrow> visible (join_comma ss)"
  by (induction ss rule: join_comma.induct) auto

lemma visible_dumps: "json_ok v \<Longrightarrow> visible (dumps ea v)"
proof (induction v)
  case (JInt i)
  then show ?case using visible_digits [OF nat_text_digits] by (simp add: int_text_def)
next
  case (JFloat f)
  then show ?case by (auto dest: visible_number split: pyfloat.splits)
next
  case (JStr s)
  then show ?case by (simp add: visible_str_text)
next
  case (JList vs)
  then show ?case by (auto simp: list_all_iff intro!: visible_join)
next
  case (JObj d)
  have "visible (dumps ea x)" if "(k, x) \<in> set d" for k x
    using JObj.IH [OF that] JObj.prems that by (fastforce simp: list_all_iff)
  then show ?case by (auto intro!: visible_join simp: visible_str_text)
qed simp_all

lemma utf8_no_newline:
  assumes "visible s"
  shows "10 \<notin> set (utf8 s)"
  using assms by (fastforce simp: utf8_def visible_def Let_def)

section \<open>Messages\<close>

definition chunk_bytes :: "received \<Rightarrow> nat list" where
  "chunk_bytes r = (case r of Chunk c \<Rightarrow> c | RecvFailed \<Rightarrow> [])"

definition before_end :: "received list \<Rightarrow> received list" where
  "before_end rs = takeWhile (\<lambda>r. r \<noteq> Chunk []) rs"

definition message_of :: "received list \<Rightarrow> nat list" where
  "message_of rs = concat (map chunk_bytes (before_end rs))"

lemma read_stream_exact:
  "read_stream rs data = Inr out \<longleftrightarrow>
     RecvFailed \<notin> set (before_end rs) \<and> out = data @ message_of rs \<and> (before_end rs \<noteq> [] \<longrightarrow> int (length out) \<le> MAX_CONTROL_MESSAGE_BYTES)"
proof (induction rs data rule: read_stream.induct)
  case (3 c rs data)
  have "MAX_CONTROL_MESSAGE_BYTES < int (length (data @ c)) \<Longrightarrow> \<not> int (length (data @ c @ x)) \<le> MAX_CONTROL_MESSAGE_BYTES" for x by simp
  with 3 show ?case by (auto simp: before_end_def message_of_def chunk_bytes_def)
qed (auto simp: before_end_def message_of_def chunk_bytes_def)

lemma read_json_line_Inr:
  "read_json_line pf rs = Inr d \<longleftrightarrow>
     RecvFailed \<notin> set (before_end rs) \<and> int (length (message_of rs)) \<le> MAX_CONTROL_MESSAGE_BYTES \<and>
     (\<exists>body text. message_of rs = body @ [10] \<and> 10 \<notin> set body \<and> utf8_decode body = Some text \<and> loads (plain_hooks pf) text = Inr (JObj d))"
proof -
  have one: "length (filter (\<lambda>b. b = (10 :: nat)) m) = 1 \<longleftrightarrow> 10 \<notin> set (butlast m)" if "m \<noteq> []" "last m = 10" for m
    using that by (cases m rule: rev_cases) (auto simp: filter_empty_conv)
  have ne: "message_of rs \<noteq> [] \<Longrightarrow> before_end rs \<noteq> []" by (auto simp: message_of_def)
  let ?body = "\<lambda>data. if data = [] \<or> last data \<noteq> 10 then Inl (TransportError ''approval control connection ended before a complete response'')
     else if length (filter (\<lambda>b. b = 10) data) \<noteq> 1 then reject ''approval control requires one newline-delimited JSON document''
     else case utf8_decode (butlast data) of
       None \<Rightarrow> reject ''approval control message is not valid UTF-8 JSON''
     | Some text \<Rightarrow>
         (case loads (plain_hooks pf) text of
            Inl _ \<Rightarrow> reject ''approval control message is not valid UTF-8 JSON''
          | Inr (JObj d) \<Rightarrow> Inr d
          | Inr _ \<Rightarrow> reject ''approval control message must be a JSON object'')"
  show ?thesis (is "?l = ?r")
  proof
    assume ?l
    then obtain m where m: "read_stream rs [] = Inr m" and rest: "?body m = Inr d"
      unfolding read_json_line_def bindE_Inr_iff by blast
    from rest have end': "m \<noteq> []" "last m = 10" "length (filter (\<lambda>b. b = 10) m) = 1" by (simp_all split: if_split_asm)
    from rest end' obtain chars where "utf8_decode (butlast m) = Some chars" "loads (plain_hooks pf) chars = Inr (JObj d)"
      by (auto split: option.splits sum.splits json.splits)
    moreover have "m = butlast m @ [10]" using end'(1,2) by (metis append_butlast_last_id)
    moreover have "10 \<notin> set (butlast m)" using one [OF end'(1,2)] end'(3) by simp
    moreover have "m = message_of rs" "RecvFailed \<notin> set (before_end rs)" "int (length (message_of rs)) \<le> MAX_CONTROL_MESSAGE_BYTES"
      using m end'(1) ne by (auto simp: read_stream_exact)
    ultimately show ?r by blast
  next
    assume ?r
    then obtain body chars where r: "RecvFailed \<notin> set (before_end rs)" "int (length (message_of rs)) \<le> MAX_CONTROL_MESSAGE_BYTES"
      "message_of rs = body @ [10]" "10 \<notin> set body" "utf8_decode body = Some chars" "loads (plain_hooks pf) chars = Inr (JObj d)" by blast
    then have "read_stream rs [] = Inr (body @ [10])" by (simp add: read_stream_exact)
    moreover have "length (filter (\<lambda>b. b = (10 :: nat)) (body @ [10])) = 1" using r(4) by (simp add: filter_empty_conv) (metis (mono_tags))
    ultimately show ?l using r by (simp add: read_json_line_def)
  qed
qed


lemma encoded_read_back:
  assumes "json_ok (JObj d)" "encode_json_line d = Inr bytes" "message_of rs = bytes" "RecvFailed \<notin> set (before_end rs)"
  shows "\<exists>e. norm_json pf (JObj d) = JObj e \<and> read_json_line pf rs = Inr e"
proof -
  have bytes: "bytes = utf8 (dumps True (JObj d)) @ [10]" "int (length bytes) \<le> MAX_CONTROL_MESSAGE_BYTES"
    using assms(2) by (auto simp: encode_json_line_def Let_def split: if_splits)
  obtain e where e: "norm_json pf (JObj d) = JObj e" by simp
  have "loads (plain_hooks pf) (dumps True (JObj d)) = Inr (JObj e)"
    using loads_dumps [OF plain_hooks_keep assms(1), of pf True] e by (simp add: plain_hooks_def)
  moreover have "10 \<notin> set (utf8 (dumps True (JObj d)))" by (rule utf8_no_newline [OF visible_dumps [OF assms(1)]])
  ultimately have "read_json_line pf rs = Inr e" unfolding read_json_line_Inr using assms(3,4) bytes utf8_decode_utf8 by blast
  with e show ?thesis by blast
qed

lemma bounded_recv_simps [simp]:
  "bounded_recv deadline (now, r) = (if now < deadline then r else RecvFailed)"
  by (simp add: bounded_recv_def remaining_timeout_def not_less)

section \<open>The authority\<close>

lemma liftS_Inr [simp]: "liftS r = Inr a \<longleftrightarrow> r = Inr a"
  by (auto simp: liftS_def split: sum.splits)

lemma prior_response_Some:
  "prior_response au cr db = Inr (Some resp) \<longleftrightarrow>
     (\<exists>c. select_consumption (cr_request_id' cr) db = Some c \<and>
       bindings_of c = request_bindings au (cr_digest cr) (cr_authorization_id cr) (cr_plan cr) \<and>
       resp = consumption_response (JStr (cr_request_id' cr)) c)"
  by (auto simp: prior_response_def bindE_Inr_iff get_matching_consumption_def assert_matching_consumption_def split: option.splits if_splits)

text \<open>The request the authority makes of the store once an authorization is verified.\<close>

definition control_consumption :: "authority \<Rightarrow> checked_request \<Rightarrow> execution_authorization \<Rightarrow> consume_request" where
  "control_consumption au cr a = \<lparr>rq_request_id = cr_request_id' cr, rq_request_digest = cr_digest cr, rq_target = plan_target (cr_plan cr),
     rq_expected = a, rq_worker_identity = au_worker_identity au\<rparr>"

lemma consume_document_cases:
  obtains (refused) e where "consume_document w au su br bc doc pe db = (Inl e, db)"
  | (again) cr resp where "checked_document w au su pe doc = Inr cr" "prior_response au cr db = Inr (Some resp)"
      "consume_document w au su br bc doc pe db = (Inr resp, db)"
  | (unverified) cr e where "checked_document w au su pe doc = Inr cr"
      "consume_document w au su br bc doc pe db = (Inl e, run_ops (store_step (w_env w) (w_float w)) (br @ bc) db)"
  | (recovered) cr resp where "checked_document w au su pe doc = Inr cr"
      "prior_response au cr (run_ops (store_step (w_env w) (w_float w)) (br @ bc) db) = Inr (Some resp)"
      "consume_document w au su br bc doc pe db = (Inr resp, run_ops (store_step (w_env w) (w_float w)) (br @ bc) db)"
  | (fresh) cr a where "checked_document w au su pe doc = Inr cr"
      "verify_stored w au su (cr_authorization_id cr) (cr_plan cr) (run_ops (store_step (w_env w) (w_float w)) br db) = Some a"
      "consume_document w au su br bc doc pe db =
        (let r = atomically_consume_request (w_env w) (w_float w) (su_protected su) (su_now_text su) (control_consumption au cr a)
               (run_ops (store_step (w_env w) (w_float w)) (br @ bc) db) in
         (bindE (liftS (fst r)) (\<lambda>c. Inr (consumption_response (JStr (cr_request_id' cr)) c)), snd r))"
proof (cases "checked_document w au su pe doc")
  case (Inl e)
  then show thesis by (intro refused) (simp add: consume_document_def)
next
  case (Inr cr)
  let ?run = "run_ops (store_step (w_env w) (w_float w))"
  show thesis
  proof (cases "prior_response au cr db")
    case (Inl e)
    with Inr show thesis by (intro refused) (simp add: consume_document_def)
  next
    case prior: (Inr p)
    show thesis
    proof (cases p)
      case (Some resp)
      with Inr prior show thesis by (intro again) (simp_all add: consume_document_def)
    next
      case None
      show thesis
      proof (cases "verify_stored w au su (cr_authorization_id cr) (cr_plan cr) (?run br db)")
        case (Some a)
        with Inr prior None show thesis
          by (intro fresh) (simp_all add: consume_document_def control_consumption_def Let_def run_ops_append)
      next
        case v: None
        show thesis
        proof (cases "prior_response au cr (?run (br @ bc) db)")
          case (Inl e)
          with Inr prior None v show thesis by (intro unverified [OF Inr]) (simp add: consume_document_def run_ops_append)
        next
          case p2: (Inr p')
          show thesis
          proof (cases p')
            case None
            with Inr prior \<open>p = None\<close> v p2 show thesis by (intro unverified [OF Inr]) (simp add: consume_document_def run_ops_append)
          next
            case (Some resp)
            with Inr prior None v p2 show thesis by (intro recovered [OF Inr]) (simp_all add: consume_document_def run_ops_append)
          qed
        qed
      qed
    qed
  qed
qed

lemma consume_recorded:
  assumes "fst (atomically_consume_request env pf p t q db) = Inr c"
  shows "select_consumption (rq_request_id q) (snd (atomically_consume_request env pf p t q db)) = Some c"
    "cn_authorization_id c = auth_authorization_id (rq_expected q)"
proof -
  let ?db = "snd (atomically_consume_request env pf p t q db)"
  have "select_consumption (rq_request_id q) ?db = Some c \<and> cn_authorization_id c = auth_authorization_id (rq_expected q)"
  proof (cases "select_consumption (rq_request_id q) db")
    case None
    from assms None obtain now where fr: "consume_fresh env pf p t now q db = (Inr c, ?db)" by (rule consume_request_freshD)
    then obtain r bound where c: "consumption_of env t q (row_doc r bound) = Inr c"
      "?db = (mark_consumed (auth_authorization_id (rq_expected q)) t (rq_worker_identity q) db)\<lparr>db_consumptions := insert_row c (db_consumptions db)\<rparr>"
      by (rule consume_freshD)
    with None consumption_ofD(1,2) [OF c(1)] show ?thesis by (simp add: select_consumption_def select_insert_row)
  next
    case (Some x)
    with assms show ?thesis
      by (auto simp: atomically_consume_request_def assert_matching_consumption_def bindings_of_def expected_bindings_def split: sum.splits if_splits)
  qed
  then show "select_consumption (rq_request_id q) ?db = Some c" "cn_authorization_id c = auth_authorization_id (rq_expected q)" by blast+
qed

text \<open>Whatever happens, the database is what some sequence of store operations made of it.\<close>

lemma consume_document_ops: "\<exists>ops. snd (consume_document w au su br bc doc pe db) = run_ops (store_step (w_env w) (w_float w)) ops db"
proof (cases rule: consume_document_cases [of w au su br bc doc pe db])
  case (refused e)
  then show ?thesis by (intro exI [of _ "[]"]) simp
next
  case (again cr resp)
  then show ?thesis by (intro exI [of _ "[]"]) simp
next
  case (unverified cr e)
  then show ?thesis by (intro exI [of _ "br @ bc"]) simp
next
  case (recovered cr resp)
  then show ?thesis by (intro exI [of _ "br @ bc"]) simp
next
  case (fresh cr a)
  then show ?thesis
    by (intro exI [of _ "br @ bc @ [ConsumeRequest (su_protected su) (su_now_text su) (control_consumption au cr a)]"])
      (simp add: Let_def run_ops_append)
qed

text \<open>A granted request leaves its receipt in the database.\<close>

lemma consume_document_recorded:
  assumes "consume_document w au su br bc doc pe db = (Inr resp, db')"
  shows "\<exists>cr c. checked_document w au su pe doc = Inr cr \<and> resp = consumption_response (JStr (cr_request_id' cr)) c \<and>
    select_consumption (cr_request_id' cr) db' = Some c"
proof (cases rule: consume_document_cases [of w au su br bc doc pe db])
  case (fresh cr a)
  with assms consume_recorded(1) show ?thesis
    by (fastforce simp: Let_def bindE_Inr_iff control_consumption_def)
qed (use assms in \<open>auto simp: prior_response_Some\<close>)

lemma serve_connection_ops: "\<exists>ops. snd (serve_connection w au su br bc pe rs db) = run_ops (store_step (w_env w) (w_float w)) ops db"
proof (cases "read_json_line (w_float w) rs")
  case (Inl e)
  then show ?thesis by (intro exI [of _ "[]"]) (simp add: serve_connection_def)
next
  case (Inr doc)
  moreover obtain r d where "consume_document w au su br bc doc pe db = (r, d)" by force
  ultimately show ?thesis using consume_document_ops [of w au su br bc doc pe db]
    by (simp add: serve_connection_def split: sum.split)
qed

lemma serve_connection_reply:
  "\<exists>response. fst (serve_connection w au su br bc pe rs db) = encode_json_line response \<and>
     ((\<exists>rid. response = refusal rid) \<or>
      (\<exists>rid c. response = consumption_response (JStr rid) c \<and> select_consumption rid (snd (serve_connection w au su br bc pe rs db)) = Some c))"
proof (cases "read_json_line (w_float w) rs")
  case (Inl e)
  then show ?thesis by (auto simp: serve_connection_def)
next
  case (Inr doc)
  obtain r d where r: "consume_document w au su br bc doc pe db = (r, d)" by force
  show ?thesis
  proof (cases r)
    case (Inl e)
    with Inr r show ?thesis by (auto simp: serve_connection_def)
  next
    case (Inr resp)
    with \<open>read_json_line (w_float w) rs = Inr doc\<close> r consume_document_recorded [of w au su br bc doc pe db resp d]
    show ?thesis by (auto simp: serve_connection_def)
  qed
qed

lemma refusal_text_head: "\<exists>s. dumps True (JObj (refusal rid)) = CHR ''{'' # dquote # CHR ''e'' # s"
  by (simp add: refusal_def str_text_def escape_char_def)

lemma response_text_head: "\<exists>s. dumps True (JObj (consumption_response rid c)) = CHR ''{'' # dquote # CHR ''a'' # s"
  by (simp add: consumption_response_def str_text_def escape_char_def)

lemma encoded_bytes: "encode_json_line d = Inr b \<Longrightarrow> b = utf8 (dumps True (JObj d)) @ [10]"
  by (auto simp: encode_json_line_def Let_def split: if_splits)

lemma refusal_not_response: "encode_json_line (refusal rid) = Inr b \<Longrightarrow> encode_json_line (consumption_response rid' c) \<noteq> Inr b"
  using refusal_text_head [of rid] response_text_head [of rid' c] by (auto dest!: encoded_bytes simp: utf8_inj)

lemma json_ok_response: "json_ok (JObj (consumption_response (JStr rid) c))"
  by (simp add: consumption_response_def)

lemma response_fields:
  assumes "encode_json_line (consumption_response (JStr rid) c) = Inr b" "encode_json_line (consumption_response (JStr rid') c') = Inr b"
  shows "rid = rid'" "cn_authorization_id c = cn_authorization_id c'"
proof -
  let ?d = "consumption_response (JStr rid) c" and ?e = "consumption_response (JStr rid') c'"
  have "dumps True (JObj ?d) = dumps True (JObj ?e)" using assms by (auto dest!: encoded_bytes simp: utf8_inj)
  then have "norm_json text_float (JObj ?d) = norm_json text_float (JObj ?e)"
    by (simp only: dumps_eq_iff [OF json_ok_response json_ok_response])
  then have eq: "map_option (norm_json text_float) (dict_get ?d k) = map_option (norm_json text_float) (dict_get ?e k)" for k
    by (rule norm_obj_get) (simp_all add: consumption_response_def)
  from eq [of "''request_id''"] show "rid = rid'" by (simp add: consumption_response_def)
  from eq [of "''authorization_id''"] show "cn_authorization_id c = cn_authorization_id c'" by (simp add: consumption_response_def)
qed

lemma serve_accepted_reply:
  assumes "serve_accepted_connection w au timeout c db = (r, db')"
  shows "\<exists>ops. db' = run_ops (store_step (w_env w) (w_float w)) ops db"
    "r = Inr b \<Longrightarrow> (\<exists>rid. encode_json_line (refusal rid) = Inr b) \<or>
      (\<exists>rid x. encode_json_line (consumption_response (JStr rid) x) = Inr b \<and> select_consumption rid db' = Some x)"
proof -
  let ?s = "serve_connection w au (co_surroundings c) (co_before_read c) (co_before_commit c) (co_peer c) (map (bounded_recv (co_accepted c + timeout)) (co_calls c)) db"
  have s: "db' = snd ?s" "r = Inr b \<Longrightarrow> fst ?s = Inr b"
    using assms by (auto simp: serve_accepted_connection_def Let_def bindE_Inr_iff split: prod.splits)
  then show "\<exists>ops. db' = run_ops (store_step (w_env w) (w_float w)) ops db" using serve_connection_ops by blast
  show "r = Inr b \<Longrightarrow> (\<exists>rid. encode_json_line (refusal rid) = Inr b) \<or>
      (\<exists>rid x. encode_json_line (consumption_response (JStr rid) x) = Inr b \<and> select_consumption rid db' = Some x)"
    using s serve_connection_reply by metis
qed

lemma serve_all_reply:
  assumes "store_inv db" "serve_all w au timeout cs db = (replies, db')"
  shows "store_inv db' \<and> store_mono db db' \<and> length replies = length cs \<and>
    (\<forall>b rid c. Inr b \<in> set replies \<longrightarrow> encode_json_line (consumption_response (JStr rid) c) = Inr b \<longrightarrow>
      (\<exists>x. select_consumption rid db' = Some x \<and> encode_json_line (consumption_response (JStr rid) x) = Inr b))"
  using assms
proof (induction cs arbitrary: db replies)
  case Nil
  then show ?case by (simp add: approvals.mono_refl)
next
  case (Cons c cs)
  obtain r db1 where r: "serve_accepted_connection w au timeout c db = (r, db1)" by force
  obtain rs where rs: "serve_all w au timeout cs db1 = (rs, db')" and replies: "replies = r # rs"
    using Cons.prems(2) r by (auto split: prod.splits)
  obtain ops where ops: "db1 = run_ops (store_step (w_env w) (w_float w)) ops db" using serve_accepted_reply(1) [OF r] by blast
  have inv: "store_inv db1" unfolding ops by (rule approvals.run_inv [OF Cons.prems(1)])
  have mono: "store_mono db db1" unfolding ops by (rule approvals.run_mono [OF Cons.prems(1)])
  note IH = Cons.IH [OF inv rs]
  have "\<exists>x. select_consumption rid db' = Some x \<and> encode_json_line (consumption_response (JStr rid) x) = Inr b"
    if b: "r = Inr b" "encode_json_line (consumption_response (JStr rid) y) = Inr b" for b rid y
  proof -
    from serve_accepted_reply(2) [OF r b(1)] refusal_not_response b(2) obtain rid' x where
      x: "encode_json_line (consumption_response (JStr rid') x) = Inr b" "select_consumption rid' db1 = Some x" by blast
    from response_fields(1) [OF x(1) b(2)] x IH show ?thesis by (auto simp: store_mono_def)
  qed
  with IH mono show ?case unfolding replies by (auto intro: approvals.mono_trans) metis
qed

lemma receipts_unique:
  assumes "store_inv db" "select_consumption r db = Some x" "select_consumption s db = Some y" "cn_authorization_id x = cn_authorization_id y"
  shows "r = s" "x = y"
proof -
  have "x \<in> set (db_consumptions db)" "y \<in> set (db_consumptions db)" "cn_request_id x = r" "cn_request_id y = s"
    using assms(2,3) by (auto simp: select_consumption_def dest: select_row_SomeD)
  then show "x = y" "r = s" using assms(1,4) by (auto simp: store_inv_def distinct_map inj_on_def)
qed

section \<open>Bounded messages\<close>

lemma before_end_split:
  obtains rest where "rs = before_end rs @ rest" "rest = [] \<or> (\<exists>more. rest = Chunk [] # more)"
proof -
  have "rs = before_end rs @ dropWhile (\<lambda>r. r \<noteq> Chunk []) rs" by (simp add: before_end_def)
  moreover have "dropWhile (\<lambda>r. r \<noteq> Chunk []) rs = [] \<or> (\<exists>more. dropWhile (\<lambda>r. r \<noteq> Chunk []) rs = Chunk [] # more)"
    by (cases "dropWhile (\<lambda>r. r \<noteq> Chunk []) rs") (auto simp: dropWhile_eq_Cons_conv)
  ultimately show thesis using that by blast
qed

lemma bounded_recv_ok: "bounded_recv deadline x = r \<Longrightarrow> r \<noteq> RecvFailed \<Longrightarrow> fst x < deadline \<and> snd x = r"
  by (cases x) (auto split: if_splits)

text \<open>
  C37. No peer can pin the authority or make it read without bound: a message is accepted only if every
  call of recv, the one that sees the end of the stream included, was made before the total
  deadline, the bytes read up to the end are at most the limit of 1048576, and they are one line: a
  body without a newline, which is UTF-8 of a JSON object, and one newline at the very end.
\<close>

theorem control_message_bounded:
  assumes "read_json_line pf (map (bounded_recv deadline) calls) = Inr d"
  shows "\<exists>read rest body chars. calls = read @ rest \<and> (\<forall>(now, r) \<in> set read. now < deadline \<and> r \<noteq> RecvFailed) \<and>
    (rest = [] \<or> fst (hd rest) < deadline \<and> snd (hd rest) = Chunk []) \<and>
    concat (map (chunk_bytes \<circ> snd) read) = body @ [10] \<and> 10 \<notin> set body \<and> length body < 1048576 \<and>
    utf8_decode body = Some chars \<and> loads (plain_hooks pf) chars = Inr (JObj d)"
proof -
  let ?rs = "map (bounded_recv deadline) calls"
  from assms [unfolded read_json_line_Inr] obtain body chars where ok: "RecvFailed \<notin> set (before_end ?rs)"
    "int (length (message_of ?rs)) \<le> MAX_CONTROL_MESSAGE_BYTES" "message_of ?rs = body @ [10]" "10 \<notin> set body"
    "utf8_decode body = Some chars" "loads (plain_hooks pf) chars = Inr (JObj d)" by blast
  obtain after where split: "?rs = before_end ?rs @ after" "after = [] \<or> (\<exists>more. after = Chunk [] # more)" by (rule before_end_split)
  then obtain read rest where cut: "calls = read @ rest" "map (bounded_recv deadline) read = before_end ?rs" "map (bounded_recv deadline) rest = after"
    by (metis map_eq_append_conv)
  have in_time: "fst x < deadline \<and> snd x = bounded_recv deadline x \<and> snd x \<noteq> RecvFailed" if "x \<in> set read" for x
  proof -
    have "bounded_recv deadline x \<noteq> RecvFailed" using that ok(1) cut(2) by (metis image_eqI list.set_map)
    then show ?thesis using bounded_recv_ok by fastforce
  qed
  then have "map snd read = before_end ?rs" using cut(2) by (metis (mono_tags, lifting) map_eq_conv)
  then have "concat (map (chunk_bytes \<circ> snd) read) = body @ [10]" using ok(3) by (metis list.map_comp message_of_def)
  moreover have "rest = [] \<or> fst (hd rest) < deadline \<and> snd (hd rest) = Chunk []"
    using split(2) cut(3) by (cases rest) (auto split: if_splits)
  moreover have "length body < 1048576" using ok(2,3) by (simp add: MAX_CONTROL_MESSAGE_BYTES_def)
  moreover have "\<forall>(now, r) \<in> set read. now < deadline \<and> r \<noteq> RecvFailed" using in_time by fastforce
  ultimately show ?thesis using cut(1) ok(4-6) by blast
qed

lemma demo_call: "read_json_line nan_floats [Chunk [123], Chunk [125, 10]] = Inr []"
  by code_simp

theorem control_message_bounded_witness:
  "read_json_line nan_floats (map (bounded_recv 2) [(0, Chunk [123]), (1, Chunk [125, 10]), (1, Chunk [])]) = Inr [] \<and>
   (\<exists>read rest. [(0 :: rat, Chunk [123]), (1, Chunk [125, 10]), (1, Chunk [])] = read @ rest \<and> (\<forall>(now, r) \<in> set read. now < 2))"
proof -
  have "read_json_line nan_floats (map (bounded_recv 2) [(0, Chunk [123]), (1, Chunk [125, 10]), (1, Chunk [])]) = Inr []"
    by code_simp
  from control_message_bounded [OF this] this show ?thesis by blast
qed

section \<open>Granted requests\<close>

lemma checked_documentD:
  assumes "checked_document w au su pe doc = Inr cr"
  shows "pe_uid pe = au_worker_uid au" "pe_gid pe = au_worker_gid au" "pe_pid pe = au_worker_pid au"
    "get_str doc ''request_id'' = Some (cr_request_id' cr)" "get_str doc ''authorization_id'' = Some (cr_authorization_id cr)"
    "get_str doc ''worker_identity'' = Some (au_worker_identity au)"
    "plan_of_request w (get_or_none doc ''action_plan'') = Inr (cr_plan cr)"
    "digest (v_sha (w_env w)) (JObj doc) DEFAULT_BYTES DEFAULT_DEPTH = Inr (cr_digest cr)"
    "authority_ready au su = Inr ()"
proof -
  from assms obtain rid aid plan h where c: "authority_ready au su = Inr ()" "check_request au pe doc = Inr (rid, aid)"
    "plan_of_request w (get_or_none doc ''action_plan'') = Inr plan"
    "digest (v_sha (w_env w)) (JObj doc) DEFAULT_BYTES DEFAULT_DEPTH = Inr h"
    and cr: "cr = \<lparr>cr_request_id' = rid, cr_authorization_id = aid, cr_plan = plan, cr_digest = h\<rparr>"
    unfolding checked_document_def by (elim bindE_InrE) (auto simp: bindE_Inr_iff)
  from c(2) show "pe_uid pe = au_worker_uid au" "pe_gid pe = au_worker_gid au" "pe_pid pe = au_worker_pid au"
    "get_str doc ''request_id'' = Some (cr_request_id' cr)" "get_str doc ''authorization_id'' = Some (cr_authorization_id cr)"
    "get_str doc ''worker_identity'' = Some (au_worker_identity au)"
    by (auto simp: check_request_def cr split: if_splits option.splits list.splits)
  from c cr show "plan_of_request w (get_or_none doc ''action_plan'') = Inr (cr_plan cr)"
    "digest (v_sha (w_env w)) (JObj doc) DEFAULT_BYTES DEFAULT_DEPTH = Inr (cr_digest cr)" "authority_ready au su = Inr ()" by simp_all
qed

lemma verify_storedD:
  assumes "verify_stored w au su aid plan db = Some a"
  obtains r bound where "select_approval aid db = Some r" "load_bytes (w_float w) (ap_bound_parameters_json r) = Inr bound"
    "thaw (auth_bound_parameters a) = bound" "auth_authorization_id a = aid"
    "auth_action_plan_id a = plan_id plan" "auth_plan_digest a = plan_digest plan" "auth_engagement_id a = plan_engagement_id plan"
proof -
  from assms obtain st where st: "get_authorization (w_env w) (w_float w) aid db = Inr st"
    and v: "verify_execution_authorization w (su_clock su) (case st of Trusted a \<Rightarrow> AuthObject a | Historical _ \<Rightarrow> AuthOther) (PlanObject plan)
                  (Some (au_trust_store au)) (au_engagement au) (au_worker_identity au) None = Inr a"
    by (auto simp: verify_stored_def split: sum.splits)
  from v obtain plan' where arg: "auth_of_arg w (case st of Trusted a \<Rightarrow> AuthObject a | Historical _ \<Rightarrow> AuthOther) = Inr a"
    and plan: "plan_of_arg w (PlanObject plan) = Inr plan'" "check_binding plan' (au_worker_identity au) a = Inr ()" by (rule verifyD)
  have "st = Trusted a" using arg by (auto simp: auth_of_arg_def bindE_Inr_iff split: stored.splits)
  with st obtain r bound where r: "select_approval aid db = Some r" "load_bytes (w_float w) (ap_bound_parameters_json r) = Inr bound"
    and a: "ExecutionAuthorization_from_dict (w_env w) (full_row_doc r bound) = Inr a"
    by (auto simp: get_authorization_def read_row_def bindE_Inr_iff split: option.splits if_splits)
  have "thaw (auth_bound_parameters a) = bound \<and> auth_authorization_id a = ap_authorization_id r"
    using a unfolding ExecutionAuthorization_from_dict_def
    by (elim bindE_InrE) (clarsimp simp: read_back full_row_doc_def row_doc_def)
  with r plan that show thesis
    by (auto simp: check_binding_def plan_of_arg_def select_approval_key split: if_splits)
qed

lemma answered_iff:
  "(let r = out in (bindE (liftS (fst r)) (\<lambda>c. Inr (f c)), snd r)) = (Inr resp, db') \<longleftrightarrow> (\<exists>c. out = (Inr c, db') \<and> resp = f c)"
  by (cases out; cases "fst out") (auto simp: liftS_def)

lemma blob_ok_later:
  assumes "blob_ok pf aid db" "store_mono db db'" "select_approval aid db = Some r"
  shows "blob_ok pf aid db'"
proof -
  from assms(2,3) obtain r' where "select_approval aid db' = Some r'" "ap_bound_parameters_json r' = ap_bound_parameters_json r"
    by (fastforce simp: store_mono_def approval_later_def)
  with assms(1,3) show ?thesis by (simp add: blob_ok_def)
qed

text \<open>The receipt behind a granted request, and the verification behind a fresh one.\<close>

lemma granted_request:
  assumes "store_inv db" "consume_document w au su before_read before_commit doc pe db = (Inr resp, db')"
    and "blob_ok (w_float w) (get_text doc ''authorization_id'') (run_ops (store_step (w_env w) (w_float w)) before_read db)"
  shows "\<exists>cr c. checked_document w au su pe doc = Inr cr \<and> resp = consumption_response (JStr (cr_request_id' cr)) c \<and>
      select_consumption (cr_request_id' cr) db' = Some c \<and>
      bindings_of c = request_bindings au (cr_digest cr) (cr_authorization_id cr) (cr_plan cr) \<and>
      (select_consumption (cr_request_id' cr) (run_ops (store_step (w_env w) (w_float w)) (before_read @ before_commit) db) = None \<longrightarrow>
        (\<exists>a. verify_stored w au su (cr_authorization_id cr) (cr_plan cr) (run_ops (store_step (w_env w) (w_float w)) before_read db) = Some a))"
proof (cases rule: consume_document_cases [of w au su before_read before_commit doc pe db])
  case (again cr resp')
  with assms(2) approvals.run_mono [OF assms(1), of "w_env w" "w_float w" "before_read @ before_commit"] show ?thesis by (auto simp: prior_response_Some store_mono_def)
next
  case (recovered cr resp')
  with assms(2) show ?thesis by (auto simp: prior_response_Some)
next
  case (fresh cr a)
  let ?run = "run_ops (store_step (w_env w) (w_float w))"
  let ?mid = "?run (before_read @ before_commit) db"
  let ?q = "control_consumption au cr a"
  from assms(2) [unfolded fresh(3) answered_iff] obtain c where c: "atomically_consume_request (w_env w) (w_float w) (su_protected su) (su_now_text su) ?q ?mid = (Inr c, db')"
    and resp: "resp = consumption_response (JStr (cr_request_id' cr)) c"
    by blast
  from fresh(2) obtain r bound where r: "select_approval (cr_authorization_id cr) (?run before_read db) = Some r"
    "load_bytes (w_float w) (ap_bound_parameters_json r) = Inr bound" "thaw (auth_bound_parameters a) = bound"
    and a: "auth_authorization_id a = cr_authorization_id cr" "auth_action_plan_id a = plan_id (cr_plan cr)"
      "auth_plan_digest a = plan_digest (cr_plan cr)" "auth_engagement_id a = plan_engagement_id (cr_plan cr)" by (rule verify_storedD)
  have blob: "blob_ok (w_float w) (cr_authorization_id cr) (?run before_read db)"
    using assms(3) checked_documentD(5) [OF fresh(1)] by (simp add: get_text_def get_str_def split: option.splits json.splits)
  with r have ok: "json_ok (thaw (auth_bound_parameters a))" by (simp add: blob_ok_def)
  have "store_mono (?run before_read db) ?mid"
    unfolding run_ops_append by (rule approvals.run_mono [OF approvals.run_inv [OF assms(1)]])
  from blob_ok_later [OF blob this r(1)] have "blob_ok (w_float w) (auth_authorization_id (rq_expected ?q)) ?mid"
    by (simp add: a control_consumption_def)
  with consume_request_recorded [OF c] ok have "select_consumption (rq_request_id ?q) db' = Some c" "bindings_of c = expected_bindings ?q"
    by (simp_all add: control_consumption_def)
  then show ?thesis using fresh(1,2) resp a
    by (intro exI [of _ cr] exI [of _ c]) (simp add: control_consumption_def expected_bindings_def request_bindings_def)
qed (use assms(2) in auto)

text \<open>
  C1. The authority grants a request only to the pinned worker process and only for what it asked:
  the peer has the configured user, group and process; the answer is the receipt that the store holds
  under the request's identifier, bound to the digest of this very request, to its authorization, to
  the requested plan's identity, digest, engagement and target and to the configured worker; the
  approval is consumed by that receipt. Unless the receipt was already there, the stored
  authorization verified for the plan and the worker. This holds whatever other processes commit
  between the authority's own transactions.
\<close>

theorem control_grant_justified:
  assumes "store_inv db" "consume_document w au su before_read before_commit doc pe db = (Inr resp, db')"
    and "blob_ok (w_float w) (get_text doc ''authorization_id'') (run_ops (store_step (w_env w) (w_float w)) before_read db)"
  shows "pe_uid pe = au_worker_uid au \<and> pe_gid pe = au_worker_gid au \<and> pe_pid pe = au_worker_pid au \<and>
    (\<exists>rid aid plan h c r. get_str doc ''request_id'' = Some rid \<and> get_str doc ''authorization_id'' = Some aid \<and>
      plan_of_request w (get_or_none doc ''action_plan'') = Inr plan \<and>
      digest (v_sha (w_env w)) (JObj doc) DEFAULT_BYTES DEFAULT_DEPTH = Inr h \<and>
      resp = consumption_response (JStr rid) c \<and> select_consumption rid db' = Some c \<and> bindings_of c = request_bindings au h aid plan \<and>
      select_approval aid db' = Some r \<and> receipt_backed c r \<and>
      (select_consumption rid (run_ops (store_step (w_env w) (w_float w)) (before_read @ before_commit) db) = None \<longrightarrow>
        (\<exists>a. verify_stored w au su aid plan (run_ops (store_step (w_env w) (w_float w)) before_read db) = Some a)))"
proof -
  let ?run = "run_ops (store_step (w_env w) (w_float w))"
  let ?mid = "?run (before_read @ before_commit) db"
  from granted_request [OF assms] obtain cr c where checked: "checked_document w au su pe doc = Inr cr" and resp: "resp = consumption_response (JStr (cr_request_id' cr)) c"
    and c: "select_consumption (cr_request_id' cr) db' = Some c" "bindings_of c = request_bindings au (cr_digest cr) (cr_authorization_id cr) (cr_plan cr)"
    and v: "select_consumption (cr_request_id' cr) ?mid = None \<longrightarrow>
        (\<exists>a. verify_stored w au su (cr_authorization_id cr) (cr_plan cr) (?run before_read db) = Some a)" by (elim exE conjE) (rule that)
  have "store_inv db'" using consume_document_ops [of w au su before_read before_commit doc pe db] assms(2) approvals.run_inv [OF assms(1)] by auto
  moreover have "c \<in> set (db_consumptions db')" using c(1) by (auto simp: select_consumption_def dest: select_row_SomeD)
  moreover have "cn_authorization_id c = cr_authorization_id cr" using c(2) by (simp add: bindings_of_def request_bindings_def)
  ultimately obtain r where r: "select_approval (cr_authorization_id cr) db' = Some r" "receipt_backed c r" by (auto simp: store_inv_def)
  show ?thesis using checked_documentD [OF checked] resp c v r
    by (intro conjI exI [of _ "cr_request_id' cr"] exI [of _ "cr_authorization_id cr"] exI [of _ "cr_plan cr"] exI [of _ "cr_digest cr"]
        exI [of _ c] exI [of _ r]) simp_all
qed

section \<open>One grant per authorization\<close>

text \<open>
  C10. Over any number of connections, from any peers, with any store operations of other processes in
  between, an authorization is granted to one request only: two positive answers that the
  authority sent for the same authorization are byte for byte the same, and so have the same request
  identifier.
\<close>

theorem control_single_grant:
  assumes "store_inv db" "serve_all w au timeout cs db = (replies, db')" "Inr b1 \<in> set replies" "Inr b2 \<in> set replies"
    and "encode_json_line (consumption_response (JStr r1) c1) = Inr b1" "encode_json_line (consumption_response (JStr r2) c2) = Inr b2"
    and "cn_authorization_id c1 = cn_authorization_id c2"
  shows "r1 = r2 \<and> b1 = b2"
proof -
  note all = serve_all_reply [OF assms(1,2)]
  obtain x y where x: "select_consumption r1 db' = Some x" "encode_json_line (consumption_response (JStr r1) x) = Inr b1"
    and y: "select_consumption r2 db' = Some y" "encode_json_line (consumption_response (JStr r2) y) = Inr b2"
    using all assms(3-6) by blast
  have "cn_authorization_id x = cn_authorization_id y"
    using response_fields(2) [OF x(2) assms(5)] response_fields(2) [OF y(2) assms(6)] assms(7) by simp
  with receipts_unique [OF _ x(1) y(1)] all have "r1 = r2" "x = y" by blast+
  with x(2) y(2) show ?thesis by simp
qed

section \<open>The worker's receipt\<close>

lemma norm_obj_lookup:
  assumes "norm_json pf (JObj d) = JObj e" "distinct (map fst d)"
  shows "dict_get e k = map_option (norm_json pf) (dict_get d k)" "dict_keys e = dict_keys d"
proof -
  let ?D = "map (map_prod id (norm_json pf)) d"
  have e: "e = sort_key fst ?D" using assms(1) by simp
  have "distinct (map fst ?D)" using assms(2) by (simp add: comp_def)
  moreover have "map_of ?D k = map_option (norm_json pf) (map_of d k)" by (induction d) auto
  ultimately show "dict_get e k = map_option (norm_json pf) (dict_get d k)" by (simp add: e dict_get_sorted) (simp add: dict_get_def)
  show "dict_keys e = dict_keys d" by (force simp: e dict_keys_def)
qed

lemma chunks_message: "[] \<notin> set chunks \<Longrightarrow> message_of (map Chunk chunks) = concat chunks \<and> RecvFailed \<notin> set (before_end (map Chunk chunks))"
  by (induction chunks) (auto simp: message_of_def before_end_def chunk_bytes_def)

lemma exchange_once:
  assumes "exchange cl pf request (Some io) = r" "io_reply io = map Chunk chunks" "[] \<notin> set chunks" "concat chunks = bytes"
    and "json_ok (JObj d)" "encode_json_line d = Inr bytes" "r = Inr response \<or> (\<exists>m. r = Inl (TransportError m))"
  shows "io_peer_uid io = cl_expected_authority_uid cl" "\<exists>e. norm_json pf (JObj d) = JObj e \<and> r = Inr e"
proof -
  have "message_of (io_reply io) = bytes" "RecvFailed \<notin> set (before_end (io_reply io))"
    using chunks_message [OF assms(3)] assms(2,4) by simp_all
  from encoded_read_back [OF assms(5,6) this] obtain e where e: "norm_json pf (JObj d) = JObj e" "read_json_line pf (io_reply io) = Inr e" by blast
  from assms(1,7) e show "io_peer_uid io = cl_expected_authority_uid cl" "\<exists>e. norm_json pf (JObj d) = JObj e \<and> r = Inr e"
    by (auto simp: exchange_def encode_json_line_def Let_def split: if_splits)
qed

lemma refusal_rejected: "norm_json pf (JObj (refusal rid)) = JObj e \<Longrightarrow> accept_response i aid plan worker e \<noteq> Inr r"
proof -
  assume "norm_json pf (JObj (refusal rid)) = JObj e"
  then have "dict_get e ''ok'' = Some (JBool False)" by (auto simp: refusal_def)
  then show ?thesis by (simp add: accept_response_def)
qed

lemma check_bindings_ok: "check_bindings response bs = Inr () \<Longrightarrow> (k, v) \<in> set bs \<Longrightarrow> get_str response k = Some v"
  by (induction response bs rule: check_bindings.induct) (auto split: option.splits list.splits if_splits)

lemma accepted_receipt:
  assumes "accept_response rid aid plan worker e = Inr r" "norm_json pf (JObj (consumption_response (JStr i) c)) = JObj e"
  shows "i = rid" "cn_authorization_id c = aid" "cn_authorization_digest c = re_authorization_digest r" "length (re_authorization_digest r) = 64"
    "cn_action_plan_id c = plan_id plan" "cn_plan_digest c = plan_digest plan" "cn_engagement_id c = plan_engagement_id plan"
    "cn_worker_identity c = worker" "cn_target c = plan_target plan" "re_authorization_id r = aid"
proof -
  have get: "dict_get e k = map_option (norm_json pf) (dict_get (consumption_response (JStr i) c) k)" for k
    by (rule norm_obj_lookup(1) [OF assms(2)]) (simp add: consumption_response_def)
  from assms(1) obtain h where h: "get_str e ''authorization_digest'' = Some h" "int (length h) = 64" "get_str e ''authorization_id'' = Some aid"
      "get_str e ''request_id'' = Some rid"
    and b: "check_bindings e [(''action_plan_id'', plan_id plan), (''plan_digest'', plan_digest plan),
                 (''engagement_id'', plan_engagement_id plan), (''worker_identity'', worker), (''target'', plan_target plan)] = Inr ()"
    and r: "re_authorization_id r = aid" "re_authorization_digest r = h"
    by (auto simp: accept_response_def bindE_Inr_iff simp del: check_bindings.simps split: if_splits option.splits)
  note bound = check_bindings_ok [OF b]
  show "i = rid" "cn_authorization_id c = aid" "cn_authorization_digest c = re_authorization_digest r" "length (re_authorization_digest r) = 64" "re_authorization_id r = aid"
    using h r by (simp_all add: get_str_def get consumption_response_def)
  show "cn_action_plan_id c = plan_id plan" using bound [of "''action_plan_id''" "plan_id plan"] by (simp add: get_str_def get consumption_response_def)
  show "cn_plan_digest c = plan_digest plan" using bound [of "''plan_digest''" "plan_digest plan"] by (simp add: get_str_def get consumption_response_def)
  show "cn_engagement_id c = plan_engagement_id plan" using bound [of "''engagement_id''" "plan_engagement_id plan"] by (simp add: get_str_def get consumption_response_def)
  show "cn_worker_identity c = worker" using bound [of "''worker_identity''" worker] by (simp add: get_str_def get consumption_response_def)
  show "cn_target c = plan_target plan" using bound [of "''target''" "plan_target plan"] by (simp add: get_str_def get consumption_response_def)
qed


definition issued_receipt :: "client \<Rightarrow> receipt_ref \<Rightarrow> bool" where
  "issued_receipt cl r \<longleftrightarrow> is_ok (validate_receipt_provenance cl r)"

lemma issued_then_released:
  assumes "consume_authorization pf ready rid oid io1 io2 aid plan worker cl = (Inr r, cl')"
  shows "issued_receipt cl' r" "\<not> issued_receipt (snd (release_receipt_provenance r cl')) r" "fst r = oid"
proof -
  have r: "fst r = oid" "map_of (cl_issued cl') oid = Some (snd r)" using assms by (auto simp: consume_authorization_def split: sum.splits)
  then show "issued_receipt cl' r" "fst r = oid" by (simp_all add: issued_receipt_def validate_receipt_provenance_def)
  have "map_of (filter (\<lambda>(i, _). i \<noteq> oid) xs) oid = None" for xs :: "(nat \<times> control_receipt) list" by (auto simp: map_of_eq_None_iff)
  with r show "\<not> issued_receipt (snd (release_receipt_provenance r cl')) r"
    by (simp add: issued_receipt_def release_receipt_provenance_def validate_receipt_provenance_def)
qed

lemma request_parsed:
  assumes "encode_json_line (control_request rid aid plan worker) = Inr (message_of stream)" "json_ok (JObj (ActionPlan_to_dict plan))"
    and "read_json_line pf stream = Inr doc"
  shows "get_or_none doc ''request_id'' = JStr rid"
proof -
  let ?q = "control_request rid aid plan worker"
  have ok: "json_ok (JObj ?q)" using assms(2) by (simp add: control_request_def)
  have "RecvFailed \<notin> set (before_end stream)" using assms(3) by (simp add: read_json_line_Inr)
  from encoded_read_back [OF ok assms(1) refl this, of pf] assms(3) have "norm_json pf (JObj ?q) = JObj doc" by auto
  from norm_obj_lookup(1) [OF this, of "''request_id''"] ok show ?thesis
    by (simp add: get_or_none_def control_request_def)
qed

lemma serve_connection_answer:
  assumes "serve_connection w au su before_read before_commit pe stream db = (Inr bytes, db')"
    and "encode_json_line (control_request rid aid plan worker) = Inr (message_of stream)" "json_ok (JObj (ActionPlan_to_dict plan))"
  shows "\<exists>d. encode_json_line d = Inr bytes \<and> json_ok (JObj d) \<and>
    ((\<exists>i. d = refusal i) \<or> (\<exists>i c. d = consumption_response (JStr i) c \<and> select_consumption i db' = Some c))"
proof (cases "read_json_line (w_float w) stream")
  case (Inl e)
  then show ?thesis using assms(1) by (intro exI [of _ "refusal JNull"]) (auto simp: serve_connection_def refusal_def)
next
  case (Inr doc)
  note rid = request_parsed [OF assms(2,3) Inr]
  obtain r d where r: "consume_document w au su before_read before_commit doc pe db = (r, d)" by force
  show ?thesis
  proof (cases r)
    case (Inl e)
    with Inr r assms(1) rid show ?thesis by (intro exI [of _ "refusal (JStr rid)"]) (auto simp: serve_connection_def refusal_def)
  next
    case ok: (Inr resp)
    with Inr r assms(1) have "encode_json_line resp = Inr bytes" "d = db'" by (auto simp: serve_connection_def)
    with consume_document_recorded [of w au su before_read before_commit doc pe db resp d] ok r json_ok_response show ?thesis by blast
  qed
qed

text \<open>
  C11. A receipt the worker accepts is one the authority recorded: when the client's request reaches
  the authority and the answer comes back, in chunks of any size, an accepted receipt names the
  authorization, plan, engagement, worker and target that were asked for, the database holds a
  consumption with these very values under the client's request identifier, the approval is consumed
  by the worker, and the client recognises the receipt until it is released.
\<close>

theorem client_receipt_recorded:
  assumes "store_inv db" "serve_connection w au su before_read before_commit pe stream db = (Inr bytes, db')"
    and sent: "encode_json_line (control_request rid aid plan worker) = Inr (message_of stream)" "json_ok (JObj (ActionPlan_to_dict plan))"
    and got: "io_reply io = map Chunk chunks" "[] \<notin> set chunks" "concat chunks = bytes"
    and accepted: "consume_authorization pf ready rid oid (Some io) io2 aid plan worker cl = (Inr r, cl')"
  shows "\<exists>c row. select_consumption rid db' = Some c \<and> cn_authorization_id c = aid \<and> cn_authorization_digest c = re_authorization_digest (snd r) \<and>
    length (re_authorization_digest (snd r)) = 64 \<and> cn_action_plan_id c = plan_id plan \<and> cn_plan_digest c = plan_digest plan \<and>
    cn_engagement_id c = plan_engagement_id plan \<and> cn_worker_identity c = worker \<and> cn_target c = plan_target plan \<and>
    select_approval aid db' = Some row \<and> ap_status row = ''consumed'' \<and> ap_consumed_by_worker row = Some worker \<and>
    io_peer_uid io = cl_expected_authority_uid cl \<and> issued_receipt cl' r \<and> \<not> issued_receipt (snd (release_receipt_provenance r cl')) r"
proof -
  from serve_connection_answer [OF assms(2) sent] obtain d where d: "encode_json_line d = Inr bytes" "json_ok (JObj d)"
    "(\<exists>i. d = refusal i) \<or> (\<exists>i c. d = consumption_response (JStr i) c \<and> select_consumption i db' = Some c)" by blast
  let ?x = "exchange cl pf (control_request rid aid plan worker) (Some io)"
  from accepted obtain e receipt where e: "exchange_twice cl pf (control_request rid aid plan worker) (Some io) io2 = Inr e"
    "accept_response rid aid plan worker e = Inr receipt" "r = (oid, receipt)"
    by (auto simp: consume_authorization_def bindE_Inr_iff split: sum.splits)
  then have "?x = Inr e \<or> (\<exists>m. ?x = Inl (TransportError m))" by (auto simp: exchange_twice_def split: sum.splits control_exc.splits)
  note once = exchange_once [OF refl got d(2,1) this]
  from once(2) e(1) have norm: "norm_json pf (JObj d) = JObj e" by (auto simp: exchange_twice_def)
  with d(3) e(2) refusal_rejected obtain i c where c: "d = consumption_response (JStr i) c" "select_consumption i db' = Some c" by blast
  note receipt = accepted_receipt [OF e(2) norm [unfolded c(1)]]
  have "store_inv db'" using serve_connection_ops [of w au su before_read before_commit pe stream db] assms(2) approvals.run_inv [OF assms(1)] by auto
  moreover have "c \<in> set (db_consumptions db')" using c(2) by (auto simp: select_consumption_def dest: select_row_SomeD)
  ultimately obtain row where "select_approval aid db' = Some row" "receipt_backed c row" using receipt(2) by (auto simp: store_inv_def)
  then show ?thesis using c(2) receipt once(1) issued_then_released [OF accepted]
    by (intro exI [of _ c] exI [of _ row]) (simp add: e(3) receipt_backed_def)
qed

end
