(* ===== verification/Control_Examples.thy ===== *)
theory Control_Examples
  imports Control_Props
begin

text \<open>
  A concrete run over the control boundary: the request of a worker for a consumed approval, as a
  dictionary and as bytes on the wire, the receipt the authority replays, and the client that accepts it.
\<close>

section \<open>The request and the authority\<close>

definition wire_id :: string where
  "wire_id = ''00000000-0000-4000-8000-000000000000''"

definition wire_request :: dict where
  "wire_request = control_request wire_id ''auth-demo0001'' demo_action_plan ''w''"

definition wire_doc :: dict where
  "wire_doc = (case norm_json nan_floats (JObj wire_request) of JObj d \<Rightarrow> d | _ \<Rightarrow> [])"

definition demo_authority :: authority where
  "demo_authority = \<lparr>au_trust_store = [(''k'', demo_key)], au_engagement = EngagementDocument demo_active, au_worker_identity = ''w'',
     au_worker_uid = 1001, au_worker_gid = 1001, au_worker_pid = 77, au_authority_uid = 1000\<rparr>"

definition demo_surroundings :: surroundings where
  "demo_surroundings = \<lparr>su_linux = True, su_euid = 1000, su_protected = Inr (), su_clock = 63839667600000000, su_now_text = ''2024-01-01T01:00:00Z''\<rparr>"

definition demo_peer :: peer where
  "demo_peer = \<lparr>pe_pid = 77, pe_uid = 1001, pe_gid = 1001\<rparr>"

lemma wire_ready: "check_request demo_authority demo_peer wire_doc = Inr (wire_id, ''auth-demo0001'')" "authority_ready demo_authority demo_surroundings = Inr ()"
  by code_simp+

lemma wire_plan: "(case plan_of_request demo_world (get_or_none wire_doc ''action_plan'') of
    Inr p \<Rightarrow> plan_id p = plan_id demo_action_plan \<and> plan_digest p = plan_digest demo_action_plan \<and>
      plan_engagement_id p = plan_engagement_id demo_action_plan \<and> plan_target p = plan_target demo_action_plan
  | Inl _ \<Rightarrow> False)"
  by code_simp

lemma wire_digest: "digest demo_sha (JObj wire_doc) DEFAULT_BYTES DEFAULT_DEPTH = Inr [CHR ''{'', dquote, CHR ''a'']"
  by code_simp

definition replay_receipt :: consumption where
  "replay_receipt = small_receipt\<lparr>cn_request_id := wire_id, cn_request_digest := [CHR ''{'', dquote, CHR ''a''],
     cn_authorization_digest := replicate 64 (CHR ''0''), cn_target := plan_target demo_action_plan\<rparr>"

definition replay_db :: database where
  "replay_db = consumed_db\<lparr>db_consumptions := [replay_receipt]\<rparr>"

lemma replay_values:
  "select_consumption wire_id replay_db = Some replay_receipt" "cn_authorization_id replay_receipt = ''auth-demo0001''"
  "cn_action_plan_id replay_receipt = plan_id demo_action_plan" "cn_plan_digest replay_receipt = plan_digest demo_action_plan"
  "cn_engagement_id replay_receipt = plan_engagement_id demo_action_plan" "cn_target replay_receipt = plan_target demo_action_plan"
  "cn_worker_identity replay_receipt = ''w''" "cn_request_digest replay_receipt = [CHR ''{'', dquote, CHR ''a'']"
  by code_simp+

lemma replay_row: "select_approval ''auth-demo0001'' replay_db = Some (small_row\<lparr>ap_status := ''consumed'', ap_consumed_at := Some ''2024-01-01T01:00:00Z'',
     ap_consumed_by_worker := Some ''w''\<rparr>)"
  by (simp add: replay_db_def consumed_db_def select_approval_def select_row_def small_row_def row_of_auth_def small_auth_def demo_auth_def unsigned_authorization_def)

lemma replay_inv: "store_inv replay_db"
proof -
  have "receipt_backed replay_receipt (small_row\<lparr>ap_status := ''consumed'', ap_consumed_at := Some ''2024-01-01T01:00:00Z'', ap_consumed_by_worker := Some ''w''\<rparr>)"
    by code_simp
  moreover have "db_consumptions replay_db = [replay_receipt]" "length (db_approvals replay_db) = 1" by (simp_all add: replay_db_def consumed_db_def)
  ultimately show ?thesis using replay_row replay_values(2) by (auto simp: store_inv_def length_Suc_conv)
qed

lemma wire_checked:
  obtains cr where "checked_document demo_world demo_authority demo_surroundings demo_peer wire_doc = Inr cr" "cr_request_id' cr = wire_id"
    "cr_authorization_id cr = ''auth-demo0001''"
    "request_bindings demo_authority (cr_digest cr) (cr_authorization_id cr) (cr_plan cr) = bindings_of replay_receipt"
proof -
  obtain p where p: "plan_of_request demo_world (get_or_none wire_doc ''action_plan'') = Inr p" "plan_id p = plan_id demo_action_plan"
    "plan_digest p = plan_digest demo_action_plan" "plan_engagement_id p = plan_engagement_id demo_action_plan" "plan_target p = plan_target demo_action_plan"
    using wire_plan by (auto split: sum.splits)
  have sha: "v_sha (w_env demo_world) = demo_sha" by (simp add: demo_world_def demo_validator_def)
  let ?cr = "\<lparr>cr_request_id' = wire_id, cr_authorization_id = ''auth-demo0001'', cr_plan = p, cr_digest = [CHR ''{'', dquote, CHR ''a'']\<rparr>"
  have "checked_document demo_world demo_authority demo_surroundings demo_peer wire_doc = Inr ?cr"
    unfolding checked_document_def sha by (simp only: wire_ready p(1) wire_digest bindE_simps prod.case evidenceE_def storeE_def liftE_def liftS_def sum.case)
  moreover have "request_bindings demo_authority (cr_digest ?cr) (cr_authorization_id ?cr) (cr_plan ?cr) = bindings_of replay_receipt"
    by (simp add: request_bindings_def bindings_of_def replay_values p demo_authority_def)
  ultimately show thesis using that by force
qed

lemma replayed:
  "consume_document demo_world demo_authority demo_surroundings [] [] wire_doc demo_peer replay_db =
     (Inr (consumption_response (JStr wire_id) replay_receipt), replay_db)"
proof -
  obtain cr where cr: "checked_document demo_world demo_authority demo_surroundings demo_peer wire_doc = Inr cr" "cr_request_id' cr = wire_id"
    "request_bindings demo_authority (cr_digest cr) (cr_authorization_id cr) (cr_plan cr) = bindings_of replay_receipt" by (rule wire_checked)
  then have "prior_response demo_authority cr replay_db = Inr (Some (consumption_response (JStr wire_id) replay_receipt))"
    unfolding prior_response_Some by (simp add: replay_values)
  with cr show ?thesis by (simp add: consume_document_def)
qed

lemma wire_floats: "w_float demo_world = nan_floats"
  by (simp add: demo_world_def nan_floats_def fun_eq_iff)

theorem control_grant_justified_witness:
  "consume_document demo_world demo_authority demo_surroundings [] [] wire_doc demo_peer replay_db =
     (Inr (consumption_response (JStr wire_id) replay_receipt), replay_db) \<and>
   pe_uid demo_peer = au_worker_uid demo_authority \<and> (\<exists>rid c. get_str wire_doc ''request_id'' = Some rid \<and> select_consumption rid replay_db = Some c)"
proof -
  have id: "get_text wire_doc ''authorization_id'' = ''auth-demo0001''" by code_simp
  have "blob_ok (w_float demo_world) (get_text wire_doc ''authorization_id'') (run_ops (store_step (w_env demo_world) (w_float demo_world)) [] replay_db)"
    unfolding id wire_floats using replay_row small_loaded by (simp add: blob_ok_def)
  from control_grant_justified [OF replay_inv replayed this] replayed show ?thesis by blast
qed


section \<open>The same request over the wire\<close>

definition wire_bytes :: "nat list" where
  "wire_bytes = utf8 (dumps True (JObj wire_request)) @ [10]"

definition reply_bytes :: "nat list" where
  "reply_bytes = utf8 (dumps True (JObj (consumption_response (JStr wire_id) replay_receipt))) @ [10]"

lemma wire_sizes: "int (length wire_bytes) \<le> MAX_CONTROL_MESSAGE_BYTES" "int (length reply_bytes) \<le> MAX_CONTROL_MESSAGE_BYTES"
  by code_simp+

lemma wire_encoded: "encode_json_line wire_request = Inr wire_bytes" "encode_json_line (consumption_response (JStr wire_id) replay_receipt) = Inr reply_bytes"
  using wire_sizes by (simp_all add: encode_json_line_def Let_def wire_bytes_def reply_bytes_def)

lemma plan_json_ok: "json_ok (JObj (ActionPlan_to_dict demo_action_plan))"
  by code_simp

lemma wire_json_ok: "json_ok (JObj wire_request)"
  using plan_json_ok by (simp add: wire_request_def control_request_def)

lemma one_chunk: "b \<noteq> [] \<Longrightarrow> message_of [Chunk b] = b" "b \<noteq> [] \<Longrightarrow> RecvFailed \<notin> set (before_end [Chunk b])"
  by (simp_all add: message_of_def before_end_def chunk_bytes_def)

lemma wire_not_empty: "wire_bytes \<noteq> []" "reply_bytes \<noteq> []"
  by (simp_all add: wire_bytes_def reply_bytes_def)

lemma wire_read: "read_json_line nan_floats [Chunk wire_bytes] = Inr wire_doc"
  using encoded_read_back [OF wire_json_ok wire_encoded(1) one_chunk [OF wire_not_empty(1)], of nan_floats]
  by (auto simp: wire_doc_def simp del: norm_json.simps)

lemma wire_served:
  "serve_connection demo_world demo_authority demo_surroundings [] [] demo_peer [Chunk wire_bytes] replay_db = (Inr reply_bytes, replay_db)"
  by (simp add: serve_connection_def wire_floats wire_read replayed wire_encoded)

definition demo_connection :: connection where
  "demo_connection = \<lparr>co_peer = demo_peer, co_accepted = 0, co_calls = [(1, Chunk wire_bytes)], co_sent = 1,
     co_surroundings = demo_surroundings, co_before_read = [], co_before_commit = []\<rparr>"

lemma demo_accepted: "serve_accepted_connection demo_world demo_authority 2 demo_connection replay_db = (Inr reply_bytes, replay_db)"
  by (simp add: serve_accepted_connection_def demo_connection_def wire_served remaining_timeout_def)

theorem control_single_grant_witness:
  "serve_all demo_world demo_authority 2 [demo_connection, demo_connection] replay_db = ([Inr reply_bytes, Inr reply_bytes], replay_db) \<and>
   encode_json_line (consumption_response (JStr wire_id) replay_receipt) = Inr reply_bytes \<and> wire_id = wire_id \<and> reply_bytes = reply_bytes"
proof -
  have all: "serve_all demo_world demo_authority 2 [demo_connection, demo_connection] replay_db = ([Inr reply_bytes, Inr reply_bytes], replay_db)"
    by (simp add: demo_accepted)
  have "Inr reply_bytes \<in> set [Inr reply_bytes, Inr reply_bytes :: (control_exc, nat list) result]" by simp
  from control_single_grant [OF replay_inv all this this wire_encoded(2) wire_encoded(2) refl]
  show ?thesis by (intro conjI all wire_encoded(2)) (elim conjE, assumption)+
qed

definition demo_client :: client where
  "demo_client = \<lparr>cl_expected_authority_uid = 1000, cl_worker_uid = None, cl_worker_gid = None, cl_issued = []\<rparr>"

definition demo_io :: attempt_io where
  "demo_io = \<lparr>io_peer_uid = 1000, io_reply = map Chunk [reply_bytes]\<rparr>"

definition accepted_doc :: dict where
  "accepted_doc = (case norm_json nan_floats (JObj (consumption_response (JStr wire_id) replay_receipt)) of JObj d \<Rightarrow> d | _ \<Rightarrow> [])"

definition worker_receipt :: control_receipt where
  "worker_receipt = \<lparr>re_authorization_id = ''auth-demo0001'', re_authorization_digest = replicate 64 (CHR ''0''),
     re_action_plan_id = plan_id demo_action_plan, re_plan_digest = plan_digest demo_action_plan, re_engagement_id = plan_engagement_id demo_action_plan,
     re_worker_identity = ''w'', re_target = plan_target demo_action_plan\<rparr>"

lemma receipt_accepted: "accept_response wire_id ''auth-demo0001'' demo_action_plan ''w'' accepted_doc = Inr worker_receipt"
  by code_simp

lemma client_accepts:
  "consume_authorization nan_floats (Inr ()) wire_id 5 (Some demo_io) None ''auth-demo0001'' demo_action_plan ''w'' demo_client =
     (Inr (5, worker_receipt), demo_client\<lparr>cl_issued := [(5, worker_receipt)]\<rparr>)"
proof -
  have "read_json_line nan_floats [Chunk reply_bytes] = Inr accepted_doc"
    using encoded_read_back [OF json_ok_response wire_encoded(2) one_chunk [OF wire_not_empty(2)], of nan_floats]
    by (auto simp: accepted_doc_def simp del: norm_json.simps)
  then have "exchange demo_client nan_floats wire_request (Some demo_io) = Inr accepted_doc"
    by (simp add: exchange_def demo_client_def demo_io_def wire_encoded)
  then show ?thesis using receipt_accepted
    by (simp add: consume_authorization_def exchange_twice_def wire_request_def demo_client_def)
qed

theorem client_receipt_recorded_witness:
  "consume_authorization nan_floats (Inr ()) wire_id 5 (Some demo_io) None ''auth-demo0001'' demo_action_plan ''w'' demo_client =
     (Inr (5, worker_receipt), demo_client\<lparr>cl_issued := [(5, worker_receipt)]\<rparr>) \<and>
   (\<exists>c row. select_consumption wire_id replay_db = Some c \<and> select_approval ''auth-demo0001'' replay_db = Some row \<and>
     ap_consumed_by_worker row = Some ''w'' \<and> cn_plan_digest c = plan_digest demo_action_plan)"
proof -
  have sent: "encode_json_line (control_request wire_id ''auth-demo0001'' demo_action_plan ''w'') = Inr (message_of [Chunk wire_bytes])"
    using wire_encoded(1) one_chunk(1) [OF wire_not_empty(1)] by (simp add: wire_request_def)
  have got: "io_reply demo_io = map Chunk [reply_bytes]" "[] \<notin> set [reply_bytes]" "concat [reply_bytes] = reply_bytes"
    using wire_not_empty by (simp_all add: demo_io_def)
  from client_receipt_recorded [OF replay_inv wire_served sent plan_json_ok got client_accepts] client_accepts show ?thesis by blast
qed

end
