(* ===== verification/Ipaddress.thy ===== *)
theory Ipaddress
  imports Authorization "HOL-Library.Word"
begin

text \<open>
  The part of Python's \<^verbatim>\<open>ipaddress\<close> and \<^verbatim>\<open>urllib.parse\<close> modules (CPython 3.11) that the scope guard
  uses: parsing of addresses and of CIDR networks with host bits allowed, membership, overlap and
  subnet tests, textual form, and the host part of a URL.

  An address is its integer, an IPv6 address also its zone. The comparison of two addresses is the
  one of \<^verbatim>\<open>functools.total_ordering\<close> over \<^verbatim>\<open>__lt__\<close>: smaller integer, or equal objects (the zone
  counts), so it is a partial order. The second half proves that a network is the interval from its
  first address to its broadcast address (\<open>net_contains_iff\<close>), which turns the three tests the
  guard makes into statements about every address of a network.
\<close>

unbundle bit_operations_syntax

section \<open>Splitting text\<close>

fun split_on :: "char \<Rightarrow> string \<Rightarrow> string list" where
  "split_on d [] = [[]]"
| "split_on d (c # s) =
     (if c = d then [] # split_on d s
      else case split_on d s of [] \<Rightarrow> [[c]] | p # ps \<Rightarrow> (c # p) # ps)"

definition before_char :: "char \<Rightarrow> string \<Rightarrow> string" where
  "before_char d s = takeWhile (\<lambda>c. c \<noteq> d) s"

definition after_char :: "char \<Rightarrow> string \<Rightarrow> string" where
  "after_char d s = drop 1 (dropWhile (\<lambda>c. c \<noteq> d) s)"

definition after_last_char :: "char \<Rightarrow> string \<Rightarrow> string" where
  "after_last_char d s = rev (takeWhile (\<lambda>c. c \<noteq> d) (rev s))"

definition lower :: "string \<Rightarrow> string" where
  "lower s = map lower_char s"

text \<open>\<^verbatim>\<open>str.isdigit()\<close> of a code point below 256: the superscript digits count.\<close>

definition is_py_digit :: "char \<Rightarrow> bool" where
  "is_py_digit c \<longleftrightarrow> is_digit c \<or> (of_char c :: nat) \<in> {178, 179, 185}"

definition py_isdigit :: "string \<Rightarrow> bool" where
  "py_isdigit s \<longleftrightarrow> s \<noteq> [] \<and> list_all is_py_digit s"

section \<open>Addresses\<close>

datatype ip_address = IPv4Address int | IPv6Address int "string option"

fun ip_int :: "ip_address \<Rightarrow> int" where
  "ip_int (IPv4Address n) = n"
| "ip_int (IPv6Address n _) = n"

fun ip_version :: "ip_address \<Rightarrow> nat" where
  "ip_version (IPv4Address _) = 4"
| "ip_version (IPv6Address _ _) = 6"

definition max_prefixlen :: "nat \<Rightarrow> nat" where
  "max_prefixlen v = (if v = 4 then 32 else 128)"

definition all_ones :: "nat \<Rightarrow> int" where
  "all_ones v = 2 ^ max_prefixlen v - 1"

text \<open>\<^verbatim>\<open>_BaseAddress.__lt__\<close> and the \<^verbatim>\<open>__le__\<close> that \<^verbatim>\<open>total_ordering\<close> derives from it; comparing
  two versions raises, and no caller reaches that.\<close>

instantiation ip_address :: order
begin

definition less_ip_address :: "ip_address \<Rightarrow> ip_address \<Rightarrow> bool" where
  "less_ip_address a b \<longleftrightarrow> ip_version a = ip_version b \<and> ip_int a < ip_int b"

definition less_eq_ip_address :: "ip_address \<Rightarrow> ip_address \<Rightarrow> bool" where
  "less_eq_ip_address a b \<longleftrightarrow> a < b \<or> a = (b :: ip_address)"

instance
  by standard (auto simp: less_ip_address_def less_eq_ip_address_def)

end

definition parse_octet :: "string \<Rightarrow> int option" where
  "parse_octet s =
     (if s = [] \<or> \<not> list_all is_digit s \<or> 3 < length s \<or> s \<noteq> ''0'' \<and> hd s = CHR ''0'' then None
      else if 255 < nat_of_digits s then None else Some (nat_of_digits s))"

definition from_bytes :: "int list \<Rightarrow> int" where
  "from_bytes bs = foldl (\<lambda>n b. 256 * n + b) 0 bs"

definition ipv4_int :: "string \<Rightarrow> int option" where
  "ipv4_int s =
     (let octets = split_on (CHR ''.'') s in
      if s = [] \<or> length octets \<noteq> 4 then None
      else map_option from_bytes (those (map parse_octet octets)))"

definition hex_digit :: "nat \<Rightarrow> char" where
  "hex_digit k = char_of (if k < 10 then 48 + k else 87 + k)"

fun hex_text :: "nat \<Rightarrow> string" where
  "hex_text n = (if n < 16 then [hex_digit n] else hex_text (n div 16) @ [hex_digit (n mod 16)])"

declare hex_text.simps [simp del]

definition parse_hextet :: "string \<Rightarrow> int option" where
  "parse_hextet s =
     (if s = [] \<or> 4 < length s then None
      else map_option (\<lambda>ds. int (foldl (\<lambda>n d. 16 * n + d) 0 ds)) (those (map hex_val s)))"

definition shift_in :: "int \<Rightarrow> int \<Rightarrow> int" where
  "shift_in n h = push_bit 16 n OR h"

text \<open>The IPv4 suffix of an IPv6 text becomes its last two hextets.\<close>

definition expand_suffix :: "string list \<Rightarrow> string list option" where
  "expand_suffix parts =
     (if CHR ''.'' \<in> set (last parts) then
        map_option (\<lambda>n. butlast parts @
            [hex_text (nat (drop_bit 16 n AND 0xFFFF)), hex_text (nat (n AND 0xFFFF))])
          (ipv4_int (last parts))
      else Some parts)"

definition inner_empties :: "string list \<Rightarrow> nat list" where
  "inner_empties parts = filter (\<lambda>i. parts ! i = []) [1..<length parts - 1]"

definition hextets_value :: "int \<Rightarrow> string list \<Rightarrow> int option" where
  "hextets_value n parts = map_option (foldl shift_in n) (those (map parse_hextet parts))"

definition compressed_value :: "nat \<Rightarrow> string list \<Rightarrow> int option" where
  "compressed_value k parts =
     (let hi = (if hd parts = [] then k - 1 else k);
          lo = (if last parts = [] then length parts - k - 2 else length parts - k - 1)
      in if hd parts = [] \<and> hi \<noteq> 0 \<or> last parts = [] \<and> lo \<noteq> 0 \<or> 8 < hi + lo + 1 then None
         else Option.bind (hextets_value 0 (take hi parts)) (\<lambda>n.
           hextets_value (push_bit (16 * (8 - (hi + lo))) n) (drop (length parts - lo) parts)))"

definition parts_value :: "string list \<Rightarrow> int option" where
  "parts_value parts =
     (if 9 < length parts then None
      else case inner_empties parts of
        [] \<Rightarrow> if length parts \<noteq> 8 \<or> hd parts = [] \<or> last parts = [] then None else hextets_value 0 parts
      | [k] \<Rightarrow> compressed_value k parts
      | _ \<Rightarrow> None)"

definition ipv6_int :: "string \<Rightarrow> int option" where
  "ipv6_int s =
     (let parts = split_on (CHR '':'') s in
      if s = [] \<or> length parts < 3 then None else Option.bind (expand_suffix parts) parts_value)"

definition split_scope_id :: "string \<Rightarrow> (string \<times> string option) option" where
  "split_scope_id s =
     (if CHR ''%'' \<notin> set s then Some (s, None)
      else let zone = after_char (CHR ''%'') s in
        if zone = [] \<or> CHR ''%'' \<in> set zone then None else Some (before_char (CHR ''%'') s, Some zone))"

definition ipv4_address :: "string \<Rightarrow> ip_address option" where
  "ipv4_address s = (if CHR ''/'' \<in> set s then None else map_option IPv4Address (ipv4_int s))"

definition ipv6_address :: "string \<Rightarrow> ip_address option" where
  "ipv6_address s =
     (if CHR ''/'' \<in> set s then None
      else Option.bind (split_scope_id s) (\<lambda>(addr, zone). map_option (\<lambda>n. IPv6Address n zone) (ipv6_int addr)))"

definition ip_address :: "string \<Rightarrow> ip_address option" where
  "ip_address s = (case ipv4_address s of Some a \<Rightarrow> Some a | None \<Rightarrow> ipv6_address s)"

section \<open>Textual form\<close>

fun join_with :: "char \<Rightarrow> string list \<Rightarrow> string" where
  "join_with d [] = []"
| "join_with d [p] = p"
| "join_with d (p # q # ps) = p @ d # join_with d (q # ps)"

definition to_bytes4 :: "int \<Rightarrow> int list" where
  "to_bytes4 n = [n div 2 ^ 24 mod 256, n div 2 ^ 16 mod 256, n div 2 ^ 8 mod 256, n mod 256]"

definition ipv4_text :: "int \<Rightarrow> string" where
  "ipv4_text n = join_with (CHR ''.'') (map int_text (to_bytes4 n))"

definition hextets :: "int \<Rightarrow> string list" where
  "hextets n = map (\<lambda>k. hex_text (nat (n div 2 ^ (16 * (7 - k)) mod 65536))) [0..<8]"

text \<open>\<^verbatim>\<open>_compress_hextets\<close>: the scan for the first longest run of zero hextets, as
  \<open>(best_start, best_len)\<close>, with the current run so far.\<close>

fun best_run :: "nat \<Rightarrow> string list \<Rightarrow> nat \<times> nat \<Rightarrow> nat \<times> nat \<Rightarrow> nat \<times> nat" where
  "best_run i [] cur best = best"
| "best_run i (h # hs) (start, len) best =
     (if h = ''0'' then
        let cur = (if len = 0 then (i, 1) else (start, len + 1))
        in best_run (i + 1) hs cur (if snd best < snd cur then cur else best)
      else best_run (i + 1) hs (0, 0) best)"

definition compress_hextets :: "string list \<Rightarrow> string list" where
  "compress_hextets hs =
     (case best_run 0 hs (0, 0) (0, 0) of (start, len) \<Rightarrow>
        if 1 < len then
          (if start = 0 then [[]] else []) @ take start hs @ [[]] @ drop (start + len) hs @
            (if start + len = length hs then [[]] else [])
        else hs)"

fun ip_text :: "ip_address \<Rightarrow> string" where
  "ip_text (IPv4Address n) = ipv4_text n"
| "ip_text (IPv6Address n zone) =
     join_with (CHR '':'') (compress_hextets (hextets n)) @
       (case zone of None \<Rightarrow> [] | Some z \<Rightarrow> if z = [] then [] else CHR ''%'' # z)"

section \<open>Networks\<close>

record ip_network =
  network_address :: ip_address
  prefixlen :: nat

definition net_version :: "ip_network \<Rightarrow> nat" where
  "net_version net = ip_version (network_address net)"

definition ip_int_from_prefix :: "nat \<Rightarrow> nat \<Rightarrow> int" where
  "ip_int_from_prefix v p = all_ones v XOR drop_bit p (all_ones v)"

definition netmask :: "ip_network \<Rightarrow> int" where
  "netmask net = ip_int_from_prefix (net_version net) (prefixlen net)"

definition hostmask :: "ip_network \<Rightarrow> int" where
  "hostmask net = netmask net XOR all_ones (net_version net)"

fun same_version :: "ip_address \<Rightarrow> int \<Rightarrow> ip_address" where
  "same_version (IPv4Address _) n = IPv4Address n"
| "same_version (IPv6Address _ _) n = IPv6Address n None"

definition broadcast_address :: "ip_network \<Rightarrow> ip_address" where
  "broadcast_address net = same_version (network_address net) (ip_int (network_address net) OR hostmask net)"

fun righthand_zero_bits :: "nat \<Rightarrow> int \<Rightarrow> nat" where
  "righthand_zero_bits 0 n = 0"
| "righthand_zero_bits (Suc b) n = (if odd n then 0 else Suc (righthand_zero_bits b (n div 2)))"

definition prefix_from_ip_int :: "int \<Rightarrow> nat option" where
  "prefix_from_ip_int n =
     (let zeroes = righthand_zero_bits 32 n; p = 32 - zeroes
      in if drop_bit zeroes n = push_bit p 1 - 1 then Some p else None)"

definition prefix_from_ip_string :: "string \<Rightarrow> nat option" where
  "prefix_from_ip_string s =
     Option.bind (ipv4_int s) (\<lambda>n. case prefix_from_ip_int n of
        Some p \<Rightarrow> Some p
      | None \<Rightarrow> prefix_from_ip_int (n XOR all_ones 4))"

definition prefix_from_prefix_string :: "nat \<Rightarrow> string \<Rightarrow> nat option" where
  "prefix_from_prefix_string v s =
     (if s = [] \<or> \<not> list_all is_digit s \<or> MAX_INT_DIGITS < length s then None
      else if int (max_prefixlen v) < nat_of_digits s then None else Some (nat (nat_of_digits s)))"

definition prefix_of_mask :: "nat \<Rightarrow> string \<Rightarrow> nat option" where
  "prefix_of_mask v s =
     (case prefix_from_prefix_string v s of
        Some p \<Rightarrow> Some p
      | None \<Rightarrow> if v = 4 then prefix_from_ip_string s else None)"

text \<open>The network of an address and a prefix length, host bits cleared. Clearing them builds a new
  address object, which has no zone.\<close>

definition network_of :: "ip_address \<Rightarrow> nat \<Rightarrow> ip_network" where
  "network_of a p =
     (let packed = ip_int a; masked = packed AND ip_int_from_prefix (ip_version a) p
      in \<lparr>network_address = (if masked = packed then a else same_version a masked), prefixlen = p\<rparr>)"

definition network_with ::
  "nat \<Rightarrow> (string \<Rightarrow> ip_address option) \<Rightarrow> string \<Rightarrow> ip_network option" where
  "network_with v address s =
     (case split_on (CHR ''/'') s of
        [a] \<Rightarrow> map_option (\<lambda>x. network_of x (max_prefixlen v)) (address a)
      | [a, m] \<Rightarrow> Option.bind (address a) (\<lambda>x. map_option (network_of x) (prefix_of_mask v m))
      | _ \<Rightarrow> None)"

text \<open>\<^verbatim>\<open>ipaddress.ip_network(s, strict=False)\<close>\<close>

definition ip_network :: "string \<Rightarrow> ip_network option" where
  "ip_network s = (case network_with 4 ipv4_address s of Some n \<Rightarrow> Some n | None \<Rightarrow> network_with 6 ipv6_address s)"

definition net_contains :: "ip_network \<Rightarrow> ip_address \<Rightarrow> bool" where
  "net_contains net ip \<longleftrightarrow>
     net_version net = ip_version ip \<and> ip_int ip AND netmask net = ip_int (network_address net)"

definition overlaps :: "ip_network \<Rightarrow> ip_network \<Rightarrow> bool" where
  "overlaps a b \<longleftrightarrow>
     net_contains b (network_address a) \<or> net_contains b (broadcast_address a) \<or>
     net_contains a (network_address b) \<or> net_contains a (broadcast_address b)"

text \<open>\<open>None\<close> is the \<^verbatim>\<open>TypeError\<close> on two versions.\<close>

definition subnet_of :: "ip_network \<Rightarrow> ip_network \<Rightarrow> bool option" where
  "subnet_of a b =
     (if net_version a \<noteq> net_version b then None
      else Some (network_address b \<le> network_address a \<and> \<not> broadcast_address b < broadcast_address a))"

definition LOOPBACK_NETWORK :: ip_network where
  "LOOPBACK_NETWORK = \<lparr>network_address = IPv4Address (127 * 2 ^ 24), prefixlen = 8\<rparr>"

fun is_loopback :: "ip_address \<Rightarrow> bool" where
  "is_loopback (IPv4Address n) = net_contains LOOPBACK_NETWORK (IPv4Address n)"
| "is_loopback (IPv6Address n _) = (n = 1)"

definition net_is_loopback :: "ip_network \<Rightarrow> bool" where
  "net_is_loopback net \<longleftrightarrow> is_loopback (network_address net) \<and> is_loopback (broadcast_address net)"

fun ipv4_mapped :: "ip_address \<Rightarrow> ip_address option" where
  "ipv4_mapped (IPv4Address n) = None"
| "ipv4_mapped (IPv6Address n _) =
     (if drop_bit 32 n = 0xFFFF then Some (IPv4Address (n AND 0xFFFFFFFF)) else None)"

section \<open>The host of a URL\<close>

definition is_scheme_char :: "char \<Rightarrow> bool" where
  "is_scheme_char c \<longleftrightarrow> is_alnum_ascii c \<or> c \<in> set ''+-.''"

definition strip_scheme :: "string \<Rightarrow> string" where
  "strip_scheme url =
     (let scheme = before_char (CHR '':'') url in
      if CHR '':'' \<in> set url \<and> scheme \<noteq> [] \<and> (is_lower (hd url) \<or> is_upper (hd url)) \<and> list_all is_scheme_char scheme
      then after_char (CHR '':'') url else url)"

text \<open>\<^verbatim>\<open>_check_bracketed_host\<close>: an IPvFuture literal or an IPv6 address.\<close>

definition bracketed_host_ok :: "string \<Rightarrow> bool" where
  "bracketed_host_ok host =
     (if prefix ''v'' host then
        let digits = takeWhile (\<lambda>c. hex_val c \<noteq> None) (drop 1 host); rest = drop (Suc (length digits)) host
        in digits \<noteq> [] \<and> prefix ''.'' rest \<and> 1 < length rest
      else case ip_address host of Some (IPv6Address _ _) \<Rightarrow> True | _ \<Rightarrow> False)"

definition url_netloc :: "string \<Rightarrow> string" where
  "url_netloc url =
     (let cleaned = filter (\<lambda>c. c \<notin> {CHR 0x09, CHR 0x0A, CHR 0x0D}) (dropWhile (\<lambda>c. (of_char c :: nat) \<le> 32) url);
          rest = strip_scheme cleaned
      in if prefix ''//'' rest then takeWhile (\<lambda>c. c \<notin> set ''/?#'') (drop 2 rest) else [])"

definition netloc_ok :: "string \<Rightarrow> bool" where
  "netloc_ok netloc \<longleftrightarrow>
     (CHR ''['' \<in> set netloc \<longleftrightarrow> CHR '']'' \<in> set netloc) \<and>
     (CHR ''['' \<in> set netloc \<longrightarrow> bracketed_host_ok (before_char (CHR '']'') (after_char (CHR ''['') netloc)))"

definition netloc_hostname :: "string \<Rightarrow> string option" where
  "netloc_hostname netloc =
     (let info = after_last_char (CHR ''@'') netloc;
          host = (if CHR ''['' \<in> set info then before_char (CHR '']'') (after_char (CHR ''['') info)
                  else before_char (CHR '':'') info)
      in if host = [] then None
         else Some (lower (before_char (CHR ''%'') host) @ dropWhile (\<lambda>c. c \<noteq> CHR ''%'') host))"

text \<open>\<^verbatim>\<open>urlparse(url).hostname\<close>; \<open>Inl ()\<close> is the \<^verbatim>\<open>ValueError\<close> of a malformed bracketed host. The NFKC
  check of the network location never refuses code points below 256.\<close>

definition url_hostname :: "string \<Rightarrow> (unit, string option) result" where
  "url_hostname url =
     (let netloc = url_netloc url in
      if netloc_ok netloc then Inr (netloc_hostname netloc) else Inl ())"

end
