(* ===== verification/Scope_Guard.thy ===== *)
theory Scope_Guard
  imports Ipaddress
begin

text \<open>
  The execution-time scope guard (\<^verbatim>\<open>cops/execution/scope_guard.py\<close>): the normalized engagement
  boundary, its construction from an engagement document, and the checks of destinations, of
  resolved host names, of networks and of single addresses.

  A raised \<^verbatim>\<open>ScopeViolationError\<close> is a constructor of \<open>violation\<close>, one for each \<^verbatim>\<open>raise\<close> statement; the
  other exceptions that leave the functions are \<open>scope_exc\<close>. The resolver is an argument; the default
  one is \<open>default_resolver\<close> over \<^verbatim>\<open>socket.getaddrinfo\<close>, which is an argument in turn.
\<close>

section \<open>Data\<close>

datatype violation =
    EmptyDestination
  | ExcludedResource
  | ExcludedDomain
  | UnresolvableDomain
  | EmptyHostname
  | NoAddress
  | NonAddress
  | LiteralChanged
  | OutsideDomains
  | MetadataAddress
  | MetadataNetwork
  | LoopbackAddress
  | LoopbackNetwork
  | ExcludedAddress
  | AddressInExcludedNetwork
  | NetworkCoversExcluded
  | NetworkOverlapsExcluded
  | AddressOutOfScope
  | NetworkOutOfScope

datatype scope_exc =
    ScopeViolation violation
  | PlainValueError
  | VersionTypeError
  | ItemError
  | ResolverError

text \<open>\<^verbatim>\<open>ScopeViolationError\<close> is declared as a subclass of \<^verbatim>\<open>ValueError\<close>.\<close>

fun is_value_error :: "scope_exc \<Rightarrow> bool" where
  "is_value_error (ScopeViolation _) = True"
| "is_value_error PlainValueError = True"
| "is_value_error _ = False"

definition except_value_error :: "(scope_exc, unit) result \<Rightarrow> (scope_exc, unit) result" where
  "except_value_error r = (case r of Inl e \<Rightarrow> if is_value_error e then Inr () else Inl e | Inr u \<Rightarrow> Inr u)"

abbreviation violate :: "violation \<Rightarrow> (scope_exc, 'a) result" where
  "violate v \<equiv> Inl (ScopeViolation v)"

definition METADATA_ADDRESSES :: "string list" where
  "METADATA_ADDRESSES = [''169.254.169.254'', ''fd00:ec2::254'', ''100.100.100.200'']"

datatype ip_or_network = Address ip_address | Network ip_network

definition parse_ip_or_network :: "string \<Rightarrow> ip_or_network option" where
  "parse_ip_or_network target =
     (let t = strip target in
      if CHR ''/'' \<in> set t then map_option Network (ip_network t) else map_option Address (ip_address t))"

definition is_ip_in_network :: "ip_address \<Rightarrow> ip_network \<Rightarrow> bool" where
  "is_ip_in_network ip net = (if ip_version ip \<noteq> net_version net then False else net_contains net ip)"

record scope_definition =
  included_networks :: "ip_network list"
  included_ips :: "ip_address set"
  included_domains :: "string set"
  included_cloud_resources :: "string set"
  excluded_networks :: "ip_network list"
  excluded_ips :: "ip_address set"
  excluded_domains :: "string set"
  excluded_cloud_resources :: "string set"
  block_cloud_metadata :: bool
  block_loopback_unless_explicit :: bool
  egress_allowed :: bool

definition default_scope :: scope_definition where
  "default_scope =
     \<lparr>included_networks = [], included_ips = {}, included_domains = {}, included_cloud_resources = {},
      excluded_networks = [], excluded_ips = {}, excluded_domains = {}, excluded_cloud_resources = {},
      block_cloud_metadata = True, block_loopback_unless_explicit = True, egress_allowed = False\<rparr>"

section \<open>Building the boundary from an engagement\<close>

record target_groups =
  group_nets :: "ip_network list"
  group_ips :: "ip_address set"
  group_doms :: "string set"
  group_res :: "string set"

definition no_targets :: target_groups where
  "no_targets = \<lparr>group_nets = [], group_ips = {}, group_doms = {}, group_res = {}\<rparr>"

definition lstrip_dots :: "string \<Rightarrow> string" where
  "lstrip_dots s = dropWhile (\<lambda>c. c = CHR ''.'') s"

definition rstrip_dots :: "string \<Rightarrow> string" where
  "rstrip_dots s = rev (lstrip_dots (rev s))"

definition add_target :: "string \<Rightarrow> target_groups \<Rightarrow> target_groups" where
  "add_target target g =
     (case parse_ip_or_network target of
        Some (Network n) \<Rightarrow> g\<lparr>group_nets := group_nets g @ [n]\<rparr>
      | Some (Address a) \<Rightarrow> g\<lparr>group_ips := insert a (group_ips g)\<rparr>
      | None \<Rightarrow>
          if CHR ''/'' \<in> set target \<or> CHR '':'' \<in> set target then g\<lparr>group_res := insert (lower target) (group_res g)\<rparr>
          else g\<lparr>group_doms := insert (lstrip_dots (lower target)) (group_doms g)\<rparr>)"

fun group_targets :: "json list \<Rightarrow> target_groups \<Rightarrow> (scope_exc, target_groups) result" where
  "group_targets [] g = Inr g"
| "group_targets (target # items) g =
     (case target of JStr s \<Rightarrow> group_targets items (add_target s g) | _ \<Rightarrow> Inl ItemError)"

definition targets_of :: "dict \<Rightarrow> string \<Rightarrow> (scope_exc, target_groups) result" where
  "targets_of doc key =
     (case dict_get doc key of
        None \<Rightarrow> Inr no_targets
      | Some v \<Rightarrow> (case iter_items v of Inl _ \<Rightarrow> Inl ItemError | Inr items \<Rightarrow> group_targets items no_targets))"

definition from_engagement_scope :: "dict \<Rightarrow> bool \<Rightarrow> (scope_exc, scope_definition) result" where
  "from_engagement_scope doc egress =
     bindE (targets_of doc ''included_targets'') (\<lambda>inc.
     bindE (targets_of doc ''excluded_targets'') (\<lambda>exc.
       Inr \<lparr>included_networks = group_nets inc, included_ips = group_ips inc,
            included_domains = group_doms inc, included_cloud_resources = group_res inc,
            excluded_networks = group_nets exc, excluded_ips = group_ips exc,
            excluded_domains = group_doms exc, excluded_cloud_resources = group_res exc,
            block_cloud_metadata = True, block_loopback_unless_explicit = True, egress_allowed = egress\<rparr>))"

section \<open>Resolution\<close>

datatype gai_outcome = GaiAddresses "string list" | GaiError | GaiOther

definition default_resolver :: "(string \<Rightarrow> gai_outcome) \<Rightarrow> string \<Rightarrow> (scope_exc, string list) result" where
  "default_resolver getaddrinfo host =
     (case getaddrinfo host of
        GaiAddresses results \<Rightarrow> Inr (foldl (\<lambda>ips ip. if ip \<in> set ips then ips else ips @ [ip]) [] results)
      | GaiError \<Rightarrow> Inr []
      | GaiOther \<Rightarrow> Inl ResolverError)"

section \<open>Single addresses\<close>

definition unmapped :: "ip_address \<Rightarrow> ip_address" where
  "unmapped ip = (case ipv4_mapped ip of Some v4 \<Rightarrow> v4 | None \<Rightarrow> ip)"

definition validate_ip :: "scope_definition \<Rightarrow> ip_address \<Rightarrow> (scope_exc, unit) result" where
  "validate_ip scope address =
     (let ip = unmapped address in
      if block_cloud_metadata scope \<and> ip_text ip \<in> set METADATA_ADDRESSES then violate MetadataAddress
      else if block_loopback_unless_explicit scope \<and> is_loopback ip \<and>
              ip \<notin> included_ips scope \<and> \<not> list_ex (is_ip_in_network ip) (included_networks scope)
      then violate LoopbackAddress
      else if ip \<in> excluded_ips scope then violate ExcludedAddress
      else if list_ex (is_ip_in_network ip) (excluded_networks scope) then violate AddressInExcludedNetwork
      else if ip \<in> included_ips scope then Inr ()
      else if list_ex (is_ip_in_network ip) (included_networks scope) then Inr ()
      else violate AddressOutOfScope)"

section \<open>Networks\<close>

text \<open>The metadata loop. The violation is raised inside the \<^verbatim>\<open>try\<close> whose handler passes over every
  \<^verbatim>\<open>ValueError\<close>.\<close>

definition metadata_step :: "ip_network \<Rightarrow> string \<Rightarrow> (scope_exc, unit) result" where
  "metadata_step net text_form = except_value_error
     (case ip_address text_form of
        None \<Rightarrow> Inl PlainValueError
      | Some meta_ip \<Rightarrow>
          if ip_version meta_ip = net_version net \<and> net_contains net meta_ip then violate MetadataNetwork else Inr ())"

fun each :: "('a \<Rightarrow> ('e, unit) result) \<Rightarrow> 'a list \<Rightarrow> ('e, unit) result" where
  "each f [] = Inr ()"
| "each f (x # xs) = bindE (f x) (\<lambda>_. each f xs)"

fun included_in :: "ip_network \<Rightarrow> ip_network list \<Rightarrow> (scope_exc, unit) result" where
  "included_in net [] = violate NetworkOutOfScope"
| "included_in net (inc # incs) =
     (case subnet_of net inc of
        None \<Rightarrow> Inl VersionTypeError
      | Some b \<Rightarrow> if b then Inr () else included_in net incs)"

definition validate_network :: "scope_definition \<Rightarrow> ip_network \<Rightarrow> (scope_exc, unit) result" where
  "validate_network scope net =
     bindE (each (metadata_step net) METADATA_ADDRESSES) (\<lambda>_.
     if block_loopback_unless_explicit scope \<and> net_is_loopback net \<and>
        \<not> list_ex (\<lambda>inc. net_version inc = net_version net \<and> subnet_of net inc = Some True) (included_networks scope)
     then violate LoopbackNetwork
     else if \<exists>exc\<in>excluded_ips scope. ip_version exc = net_version net \<and> net_contains net exc
     then violate NetworkCoversExcluded
     else if list_ex (overlaps net) (excluded_networks scope) then violate NetworkOverlapsExcluded
     else included_in net (included_networks scope))"

section \<open>Host names\<close>

definition domain_matches :: "string \<Rightarrow> string set \<Rightarrow> bool" where
  "domain_matches domain domains \<longleftrightarrow> domain \<in> domains \<or> (\<exists>d\<in>domains. suffix (CHR ''.'' # d) domain)"

fun validate_addresses ::
  "scope_definition \<Rightarrow> string list \<Rightarrow> ip_address set \<Rightarrow> (scope_exc, ip_address set) result" where
  "validate_addresses scope [] resolved = Inr resolved"
| "validate_addresses scope (s # ss) resolved =
     (case parse_ip_or_network s of
        Some (Address a) \<Rightarrow>
          bindE (validate_ip scope (unmapped a)) (\<lambda>_. validate_addresses scope ss (insert (unmapped a) resolved))
      | _ \<Rightarrow> violate NonAddress)"

definition check_resolved_destination ::
  "scope_definition \<Rightarrow> string \<Rightarrow> string list \<Rightarrow> (scope_exc, unit) result" where
  "check_resolved_destination scope host addresses =
     (let domain = lstrip_dots (rstrip_dots (lower host));
          literal = (case parse_ip_or_network domain of Some (Address a) \<Rightarrow> Some a | _ \<Rightarrow> None)
      in if domain = [] then violate EmptyHostname
         else if literal = None \<and> domain_matches domain (excluded_domains scope) then violate ExcludedDomain
         else if addresses = [] then violate NoAddress
         else bindE (validate_addresses scope addresses {}) (\<lambda>resolved.
           case literal of
             Some a \<Rightarrow> if resolved \<noteq> {unmapped a} then violate LiteralChanged else Inr ()
           | None \<Rightarrow> if domain_matches domain (included_domains scope) then Inr () else violate OutsideDomains))"

section \<open>Destinations\<close>

definition matches_resource :: "string \<Rightarrow> string \<Rightarrow> bool" where
  "matches_resource t p =
     (let tl = lower t; pl = lower p in
      tl = pl \<or> prefix pl tl \<and> length pl < length tl \<and> tl ! length pl \<in> set ''/:.-'')"

definition destination_host :: "string \<Rightarrow> (scope_exc, string) result" where
  "destination_host dest =
     (if contains ''://'' dest then
        (case url_hostname dest of
           Inl _ \<Rightarrow> Inl PlainValueError
         | Inr None \<Rightarrow> Inr dest
         | Inr (Some host) \<Rightarrow> Inr host)
      else if CHR '':'' \<in> set dest \<and> \<not> prefix ''['' dest \<and> CHR ''/'' \<notin> set dest then
        (case split_on (CHR '':'') dest of
           [host, port] \<Rightarrow> if py_isdigit port then Inr host else Inr dest
         | _ \<Rightarrow> Inr dest)
      else Inr dest)"

definition check_domain ::
  "(string \<Rightarrow> (scope_exc, string list) result) \<Rightarrow> scope_definition \<Rightarrow> string \<Rightarrow> (scope_exc, unit) result" where
  "check_domain resolver scope domain =
     (if domain_matches domain (excluded_domains scope) then violate ExcludedDomain
      else bindE (resolver domain) (\<lambda>ips.
        if ips = [] then
          if domain_matches domain (included_domains scope) then Inr () else violate UnresolvableDomain
        else check_resolved_destination scope domain ips))"

definition check_destination ::
  "(string \<Rightarrow> (scope_exc, string list) result) \<Rightarrow> scope_definition \<Rightarrow> string \<Rightarrow> (scope_exc, unit) result" where
  "check_destination resolver scope destination =
     (let dest = strip destination in
      if dest = [] then violate EmptyDestination
      else bindE (destination_host dest) (\<lambda>host.
        if \<exists>r\<in>excluded_cloud_resources scope. matches_resource host r then violate ExcludedResource
        else if \<exists>r\<in>included_cloud_resources scope. matches_resource host r then Inr ()
        else case parse_ip_or_network host of
          Some (Address a) \<Rightarrow> validate_ip scope a
        | Some (Network n) \<Rightarrow> validate_network scope n
        | None \<Rightarrow> check_domain resolver scope (lstrip_dots (lower host))))"

end
