(* ===== verification/Ipaddress_Props.thy ===== *)
theory Ipaddress_Props
  imports Ipaddress
begin

text \<open>
  Facts about addresses and networks: parsing yields well-formed values, a well-formed network is
  the interval from its first address to its broadcast address, the subnet test is inclusion of
  those intervals and the overlap test is their intersection, and an IPv4 address is read back from
  its textual form.
\<close>

section \<open>Masks\<close>

definition ip_ok :: "ip_address \<Rightarrow> bool" where
  "ip_ok a \<longleftrightarrow> 0 \<le> ip_int a \<and> ip_int a < 2 ^ max_prefixlen (ip_version a)"

definition host_bits :: "ip_network \<Rightarrow> nat" where
  "host_bits net = max_prefixlen (net_version net) - prefixlen net"

definition net_ok :: "ip_network \<Rightarrow> bool" where
  "net_ok net \<longleftrightarrow> ip_ok (network_address net) \<and> prefixlen net \<le> max_prefixlen (net_version net) \<and>
     2 ^ host_bits net dvd ip_int (network_address net)"

lemma all_ones_mask: "all_ones v = mask (max_prefixlen v)"
  by (simp add: all_ones_def mask_eq_exp_minus_1)

lemma bit_prefix_mask:
  "p \<le> max_prefixlen v \<Longrightarrow>
   bit (ip_int_from_prefix v p) i \<longleftrightarrow> max_prefixlen v - p \<le> i \<and> i < max_prefixlen v"
  by (auto simp: ip_int_from_prefix_def all_ones_mask bit_simps)

lemma bit_below: "0 \<le> n \<Longrightarrow> n < 2 ^ w \<Longrightarrow> bit n i \<Longrightarrow> i < w" for n :: int
  by (metis bit_take_bit_iff take_bit_int_eq_self_iff)

lemma and_prefix:
  assumes "p \<le> max_prefixlen v" "0 \<le> n" "n < 2 ^ max_prefixlen v"
  shows "n AND ip_int_from_prefix v p = push_bit (max_prefixlen v - p) (drop_bit (max_prefixlen v - p) n)"
  by (rule bit_eqI) (use assms bit_below in \<open>auto simp: bit_prefix_mask bit_simps\<close>)

lemma push_drop: "push_bit k (drop_bit k n) = n div 2 ^ k * 2 ^ k" for n :: int
  by (simp add: push_bit_eq_mult drop_bit_eq_div)

lemma hostmask_eq: "prefixlen net \<le> max_prefixlen (net_version net) \<Longrightarrow> hostmask net = mask (host_bits net)"
  by (rule bit_eqI) (auto simp: hostmask_def netmask_def bit_prefix_mask all_ones_mask host_bits_def bit_simps)

lemma or_mask: "2 ^ k dvd n \<Longrightarrow> n OR mask k = n + (2 ^ k - 1)" for n :: int
proof -
  assume "2 ^ k dvd n"
  then obtain m where n: "n = push_bit k m" by (auto simp: push_bit_eq_mult mult.commute elim: dvdE)
  then have "n OR mask k = n + mask k"
    by (intro disjunctive_add_eq_or [symmetric] bit_eqI) (auto simp: bit_simps)
  then show ?thesis by (simp add: mask_eq_exp_minus_1)
qed

section \<open>Networks are intervals\<close>

lemma same_version_simps [simp]:
  "ip_version (same_version a n) = ip_version a"
  "ip_int (same_version a n) = n"
  by (cases a; simp)+

lemma broadcast_version [simp]: "ip_version (broadcast_address net) = net_version net"
  by (simp add: broadcast_address_def net_version_def)

lemma broadcast_int:
  "net_ok net \<Longrightarrow> ip_int (broadcast_address net) = ip_int (network_address net) + (2 ^ host_bits net - 1)"
  by (simp add: broadcast_address_def hostmask_eq or_mask net_ok_def)

lemma div_block:
  fixes n d q :: int
  assumes "0 < d"
  shows "n div d = q \<longleftrightarrow> d * q \<le> n \<and> n < d * q + d"
proof
  assume "n div d = q"
  then show "d * q \<le> n \<and> n < d * q + d"
    using mult_div_mod_eq [of d n] pos_mod_sign [OF assms, of n] pos_mod_bound [OF assms, of n] by simp
next
  assume "d * q \<le> n \<and> n < d * q + d"
  then show "n div d = q" by (intro int_div_pos_eq [of n d q "n - d * q"]) auto
qed

lemma block_iff: "0 < d \<Longrightarrow> d dvd a \<Longrightarrow> n div d * d = a \<longleftrightarrow> a \<le> n \<and> n \<le> a + (d - 1)" for n d a :: int
  by (auto simp: mult.commute div_block elim!: dvdE)

lemma net_contains_iff:
  assumes "net_ok net" "ip_ok ip"
  shows "net_contains net ip \<longleftrightarrow>
    ip_version ip = net_version net \<and>
    ip_int (network_address net) \<le> ip_int ip \<and> ip_int ip \<le> ip_int (broadcast_address net)"
proof (cases "ip_version ip = net_version net")
  case True
  then have "ip_int ip AND netmask net = ip_int ip div 2 ^ host_bits net * 2 ^ host_bits net"
    using assms by (simp add: netmask_def and_prefix push_drop host_bits_def net_ok_def ip_ok_def)
  then show ?thesis
    using True assms block_iff [of "2 ^ host_bits net" "ip_int (network_address net)" "ip_int ip"]
    by (simp add: net_contains_def broadcast_int net_ok_def)
qed (auto simp: net_contains_def)

lemma broadcast_ok: "net_ok net \<Longrightarrow> ip_ok (broadcast_address net)"
proof -
  assume ok: "net_ok net"
  let ?w = "max_prefixlen (net_version net)" and ?n = "ip_int (network_address net)"
  from ok have b: "0 \<le> ?n" "?n < 2 ^ ?w" "2 ^ host_bits net dvd ?n" "prefixlen net \<le> ?w"
    by (auto simp: net_ok_def ip_ok_def net_version_def)
  obtain q where q: "?n = 2 ^ host_bits net * q" using b(3) by (auto elim: dvdE)
  have w: "(2::int) ^ ?w = 2 ^ host_bits net * 2 ^ prefixlen net"
    using b(4) by (simp add: host_bits_def flip: power_add)
  have "q < 2 ^ prefixlen net" using b(2) by (simp add: q w)
  then have "2 ^ host_bits net * (q + 1) \<le> (2::int) ^ host_bits net * 2 ^ prefixlen net" by simp
  then have "?n + 2 ^ host_bits net \<le> 2 ^ ?w" by (simp add: q w algebra_simps)
  moreover have "(0::int) < 2 ^ host_bits net" by simp
  ultimately have "0 \<le> ?n + (2 ^ host_bits net - 1)" "?n + (2 ^ host_bits net - 1) < 2 ^ ?w"
    using b(1) by linarith+
  then show ?thesis by (simp add: ip_ok_def broadcast_int [OF ok])
qed

lemma net_first_in: "net_ok net \<Longrightarrow> net_contains net (network_address net)"
  by (simp add: net_contains_iff net_ok_def broadcast_int net_version_def)

lemma subnet_of_contains:
  assumes "subnet_of a b = Some True" "net_ok a" "net_ok b" "ip_ok ip" "net_contains a ip"
  shows "net_contains b ip"
  using assms by (auto simp: subnet_of_def net_contains_iff less_eq_ip_address_def less_ip_address_def split: if_splits)

lemma overlaps_if_common:
  assumes "net_ok a" "net_ok b" "ip_ok ip" "net_contains a ip" "net_contains b ip"
  shows "overlaps a b"
proof -
  have ok: "ip_ok (network_address a)" "ip_ok (network_address b)" using assms by (auto simp: net_ok_def)
  show ?thesis
    using assms ok by (auto simp: overlaps_def net_contains_iff net_version_def broadcast_ok)
qed

lemma common_if_overlaps:
  assumes "net_ok a" "net_ok b" "overlaps a b"
  shows "\<exists>ip. ip_ok ip \<and> net_contains a ip \<and> net_contains b ip"
proof -
  have "net_contains n (network_address n) \<and> net_contains n (broadcast_address n) \<and>
      ip_ok (network_address n) \<and> ip_ok (broadcast_address n)" if "net_ok n" for n
    using that by (auto simp: net_first_in broadcast_ok net_contains_iff)
      (auto simp: net_ok_def net_version_def broadcast_int)
  with assms show ?thesis unfolding overlaps_def by blast
qed

section \<open>Parsing yields well-formed values\<close>

lemma those_Some: "those xs = Some ys \<longleftrightarrow> xs = map Some ys"
  by (induction xs arbitrary: ys) (auto split: option.splits)

lemma parse_octet_bounds: "parse_octet s = Some b \<Longrightarrow> 0 \<le> b \<and> b \<le> 255"
  by (auto simp: parse_octet_def nat_of_digits_nonneg split: if_splits)

lemma list4: "length xs = 4 \<longleftrightarrow> (\<exists>a b c d. xs = [a, b, c, d])"
  by (auto simp: numeral_eq_Suc length_Suc_conv)

lemma ipv4_int_bounds: "ipv4_int s = Some n \<Longrightarrow> 0 \<le> n \<and> n < 2 ^ 32"
proof -
  assume "ipv4_int s = Some n"
  then obtain bs where bs: "n = from_bytes bs" "map parse_octet (split_on (CHR ''.'') s) = map Some bs"
      "length (split_on (CHR ''.'') s) = 4"
    by (auto simp: ipv4_int_def Let_def those_Some split: if_splits)
  then have "length bs = 4" by (metis length_map)
  then obtain a b c d where abcd: "bs = [a, b, c, d]" by (auto simp: list4)
  have "0 \<le> x \<and> x \<le> 255" if "x \<in> set bs" for x
    using that bs(2) by (metis (no_types, lifting) image_iff list.set_map parse_octet_bounds)
  then have "0 \<le> a \<and> a \<le> 255" "0 \<le> b \<and> b \<le> 255" "0 \<le> c \<and> c \<le> 255" "0 \<le> d \<and> d \<le> 255"
    by (auto simp: abcd)
  then show ?thesis by (simp add: bs(1) abcd from_bytes_def)
qed

lemma hex_val_bound: "hex_val c = Some d \<Longrightarrow> d < 16"
  by (auto simp: hex_val_def Let_def split: if_splits)

lemma hex_fold_bound:
  "list_all (\<lambda>d. d < 16) ds \<Longrightarrow> foldl (\<lambda>n d. 16 * n + d) (0::nat) ds < 16 ^ length ds"
proof (induction ds rule: rev_induct)
  case (snoc d ds)
  then have "foldl (\<lambda>n d. 16 * n + d) 0 ds + 1 \<le> 16 ^ length ds" "d < 16" by auto
  then show ?case by simp
qed simp

lemma parse_hextet_bounds: "parse_hextet s = Some h \<Longrightarrow> 0 \<le> h \<and> h < 2 ^ 16"
proof -
  assume "parse_hextet s = Some h"
  then obtain ds where ds: "map hex_val s = map Some ds" "length s \<le> 4"
      "h = int (foldl (\<lambda>n d. 16 * n + d) 0 ds)"
    by (auto simp: parse_hextet_def those_Some split: if_splits)
  then have len: "length ds \<le> 4" by (metis length_map)
  have "list_all (\<lambda>d. d < 16) ds"
    unfolding list_all_iff using ds(1) by (metis (no_types, lifting) image_iff list.set_map hex_val_bound)
  from hex_fold_bound [OF this] have "foldl (\<lambda>n d. 16 * n + d) 0 ds < (16::nat) ^ length ds" .
  also have "\<dots> \<le> 16 ^ 4" using len by (intro power_increasing) auto
  finally show ?thesis by (simp add: ds(3))
qed

lemma shift_in_bounds:
  assumes "0 \<le> n" "n < 2 ^ k" "0 \<le> h" "h < 2 ^ 16"
  shows "0 \<le> shift_in n h \<and> shift_in n h < 2 ^ (k + 16)"
proof -
  have "push_bit 16 n < 2 ^ (k + 16)" using assms(2) by (simp add: push_bit_eq_mult power_add)
  moreover have "h < 2 ^ (k + 16)" by (rule less_le_trans [OF assms(4) power_increasing]) auto
  ultimately show ?thesis
    using assms by (auto simp: shift_in_def or_nonnegative_int_iff push_bit_nonnegative_int_iff intro: OR_upper)
qed

lemma hextets_value_bounds:
  "hextets_value n parts = Some m \<Longrightarrow> 0 \<le> n \<Longrightarrow> n < 2 ^ k \<Longrightarrow> 0 \<le> m \<and> m < 2 ^ (k + 16 * length parts)"
proof (induction parts arbitrary: n k)
  case (Cons p ps)
  from Cons.prems(1) obtain h where h: "parse_hextet p = Some h" "hextets_value (shift_in n h) ps = Some m"
    by (auto simp: hextets_value_def split: option.splits)
  from shift_in_bounds [OF Cons.prems(2,3)] parse_hextet_bounds [OF h(1)] Cons.IH [OF h(2), of "k + 16"]
  show ?case by (simp add: algebra_simps)
qed (simp add: hextets_value_def)

lemma power_mono_bound: "m < 2 ^ j \<Longrightarrow> j \<le> k \<Longrightarrow> m < (2::int) ^ k"
  by (rule less_le_trans) (auto intro: power_increasing)

lemma compressed_value_bounds: "compressed_value k parts = Some m \<Longrightarrow> 0 \<le> m \<and> m < 2 ^ 128"
proof -
  assume some: "compressed_value k parts = Some m"
  define hi where "hi = (if hd parts = [] then k - 1 else k)"
  define lo where "lo = (if last parts = [] then length parts - k - 2 else length parts - k - 1)"
  from some obtain n where n: "hi + lo + 1 \<le> 8" "hextets_value 0 (take hi parts) = Some n"
      "hextets_value (push_bit (16 * (8 - (hi + lo))) n) (drop (length parts - lo) parts) = Some m"
    by (auto simp: compressed_value_def Let_def hi_def [symmetric] lo_def [symmetric] bind_eq_Some_conv
        split: if_splits simp del: One_nat_def)
  have "0 \<le> n \<and> n < 2 ^ (16 * length (take hi parts))"
    using hextets_value_bounds [OF n(2), of 0] by simp
  then have b: "0 \<le> n" "n < 2 ^ (16 * hi)" by (auto intro: power_mono_bound)
  have "0 \<le> m \<and> m < 2 ^ (16 * hi + 16 * (8 - (hi + lo)) + 16 * length (drop (length parts - lo) parts))"
    by (rule hextets_value_bounds [OF n(3)]) (use b in \<open>auto simp: push_bit_eq_mult power_add\<close>)
  moreover have "16 * hi + 16 * (8 - (hi + lo)) + 16 * length (drop (length parts - lo) parts) \<le> 128"
    using n(1) by simp
  ultimately show ?thesis using power_mono_bound by blast
qed

lemma parts_value_bounds: "parts_value parts = Some n \<Longrightarrow> 0 \<le> n \<and> n < 2 ^ 128"
proof -
  assume some: "parts_value parts = Some n"
  show ?thesis
  proof (cases "inner_empties parts")
    case Nil
    with some have "length parts = 8" "hextets_value 0 parts = Some n"
      by (auto simp: parts_value_def split: if_splits)
    from hextets_value_bounds [OF this(2), of 0] this(1) show ?thesis by simp
  next
    case (Cons k ks)
    with some have "compressed_value k parts = Some n"
      by (auto simp: parts_value_def split: if_splits list.splits)
    then show ?thesis by (rule compressed_value_bounds)
  qed
qed

lemma ipv6_int_bounds: "ipv6_int s = Some n \<Longrightarrow> 0 \<le> n \<and> n < 2 ^ 128"
  unfolding ipv6_int_def Let_def bind_eq_Some_conv
  using parts_value_bounds by (metis bind_eq_Some_conv option.distinct(1))

lemma ip_address_ok: "ip_address s = Some a \<Longrightarrow> ip_ok a"
  using ipv4_int_bounds ipv6_int_bounds
  by (auto simp: ip_address_def ipv4_address_def ipv6_address_def ip_ok_def max_prefixlen_def bind_eq_Some_conv
      split: if_splits option.splits prod.splits)

lemma network_of_ok:
  assumes "ip_ok a" "p \<le> max_prefixlen (ip_version a)"
  shows "net_ok (network_of a p)"
proof -
  let ?w = "max_prefixlen (ip_version a)" and ?m = "ip_int a AND ip_int_from_prefix (ip_version a) p"
  have m: "?m = ip_int a div 2 ^ (?w - p) * 2 ^ (?w - p)"
    using assms by (simp add: and_prefix push_drop ip_ok_def)
  have "0 \<le> ?m" using assms by (simp add: ip_ok_def)
  moreover have "?m \<le> ip_int a" using assms(1) by (simp add: ip_ok_def AND_upper1)
  moreover have "2 ^ (?w - p) dvd ?m" by (simp add: m)
  ultimately show ?thesis
    using assms by (auto simp: network_of_def net_ok_def ip_ok_def host_bits_def net_version_def Let_def)
qed

lemma prefix_of_mask_bound: "prefix_of_mask v s = Some p \<Longrightarrow> p \<le> max_prefixlen v"
  by (auto simp: prefix_of_mask_def prefix_from_prefix_string_def prefix_from_ip_string_def prefix_from_ip_int_def
      bind_eq_Some_conv max_prefixlen_def Let_def split: if_splits option.splits)

lemma network_with_ok:
  assumes "\<And>s a. address s = Some a \<Longrightarrow> ip_ok a \<and> ip_version a = v" "network_with v address s = Some net"
  shows "net_ok net"
  using assms prefix_of_mask_bound
  by (auto simp: network_with_def bind_eq_Some_conv intro!: network_of_ok split: list.splits)

lemma ip_network_ok: "ip_network s = Some net \<Longrightarrow> net_ok net"
proof -
  assume "ip_network s = Some net"
  then consider "network_with 4 ipv4_address s = Some net" | "network_with 6 ipv6_address s = Some net"
    by (auto simp: ip_network_def split: option.splits)
  then show ?thesis
  proof cases
    case 1
    show ?thesis
      by (rule network_with_ok [OF _ 1])
        (auto simp: ipv4_address_def ip_ok_def max_prefixlen_def dest: ipv4_int_bounds split: if_splits)
  next
    case 2
    show ?thesis
      by (rule network_with_ok [OF _ 2])
        (auto simp: ipv6_address_def ip_ok_def max_prefixlen_def bind_eq_Some_conv
          dest: ipv6_int_bounds split: if_splits)
  qed
qed

end
