(* ===== verification/Scope_Guard_Props.thy ===== *)
theory Scope_Guard_Props
  imports Scope_Guard Ipaddress_Props
begin

text \<open>
  What the scope guard guarantees: which addresses, networks, resolved names and destinations it
  accepts, that exclusions win whatever the resolver answers, which exceptions can leave it, and
  where its checks fall short of their comments.
\<close>

section \<open>Well-formed boundaries\<close>

definition in_included :: "scope_definition \<Rightarrow> ip_address \<Rightarrow> bool" where
  "in_included scope ip \<longleftrightarrow> ip \<in> included_ips scope \<or> (\<exists>n\<in>set (included_networks scope). net_contains n ip)"

definition in_excluded :: "scope_definition \<Rightarrow> ip_address \<Rightarrow> bool" where
  "in_excluded scope ip \<longleftrightarrow> ip \<in> excluded_ips scope \<or> (\<exists>n\<in>set (excluded_networks scope). net_contains n ip)"

definition groups_ok :: "target_groups \<Rightarrow> bool" where
  "groups_ok g \<longleftrightarrow> (\<forall>n\<in>set (group_nets g). net_ok n) \<and> (\<forall>a\<in>group_ips g. ip_ok a)"

definition scope_ok :: "scope_definition \<Rightarrow> bool" where
  "scope_ok scope \<longleftrightarrow>
     (\<forall>n\<in>set (included_networks scope) \<union> set (excluded_networks scope). net_ok n) \<and>
     (\<forall>a\<in>included_ips scope \<union> excluded_ips scope. ip_ok a)"

lemma parse_network_ok: "parse_ip_or_network s = Some (Network n) \<Longrightarrow> net_ok n"
  by (auto simp: parse_ip_or_network_def Let_def dest: ip_network_ok split: if_splits)

lemma parse_address_ok: "parse_ip_or_network s = Some (Address a) \<Longrightarrow> ip_ok a"
  by (auto simp: parse_ip_or_network_def Let_def dest: ip_address_ok split: if_splits)

lemma add_target_ok: "groups_ok g \<Longrightarrow> groups_ok (add_target s g)"
  by (auto simp: add_target_def groups_ok_def parse_network_ok parse_address_ok
      split: option.splits ip_or_network.splits)

lemma group_targets_ok: "group_targets items g = Inr g' \<Longrightarrow> groups_ok g \<Longrightarrow> groups_ok g'"
  by (induction items g rule: group_targets.induct) (auto simp: add_target_ok split: json.splits)

lemma targets_of_ok: "targets_of doc key = Inr g \<Longrightarrow> groups_ok g"
  by (auto simp: targets_of_def no_targets_def groups_ok_def [of no_targets, unfolded no_targets_def]
      split: option.splits sum.splits dest!: group_targets_ok [unfolded no_targets_def])

lemma from_engagement_scope_ok: "from_engagement_scope doc egress = Inr scope \<Longrightarrow> scope_ok scope"
  by (auto simp: from_engagement_scope_def bindE_Inr_iff scope_ok_def groups_ok_def dest!: targets_of_ok)

section \<open>Addresses\<close>

lemma is_ip_in_network_eq [simp]: "is_ip_in_network ip net = net_contains net ip"
  by (auto simp: is_ip_in_network_def net_contains_def)

lemma unmapped_idem [simp]: "unmapped (unmapped a) = unmapped a"
  by (cases a) (auto simp: unmapped_def)

lemma validate_ip_iff:
  "validate_ip scope a = Inr () \<longleftrightarrow>
     in_included scope (unmapped a) \<and> \<not> in_excluded scope (unmapped a) \<and>
     \<not> (block_cloud_metadata scope \<and> ip_text (unmapped a) \<in> set METADATA_ADDRESSES)"
  by (auto simp: validate_ip_def Let_def in_included_def in_excluded_def list_ex_iff)

lemma validate_ip_exc: "validate_ip scope a = Inl e \<Longrightarrow> \<exists>v. e = ScopeViolation v"
  by (auto simp: validate_ip_def Let_def split: if_splits)

lemma metadata_hextets:
  "compress_hextets (hextets 0xfd000ec2000000000000000000000254) = [''fd00'', ''ec2'', [], ''254'']"
proof -
  have "hextets 0xfd000ec2000000000000000000000254 = map hex_text [0xfd00, 0xec2, 0, 0, 0, 0, 0, 0x254]"
    by (simp add: hextets_def upt_rec)
  also have "\<dots> = [''fd00'', ''ec2'', ''0'', ''0'', ''0'', ''0'', ''0'', ''254'']"
    by (simp add: hex_text.simps hex_digit_def char_of_def bit_Suc_0_iff)
  finally show ?thesis by (simp add: compress_hextets_def)
qed

lemma metadata_texts:
  "ip_text (IPv4Address 2852039166) = ''169.254.169.254''"
  "ip_text (IPv4Address 1684301000) = ''100.100.100.200''"
  "ip_text (IPv6Address 0xfd000ec2000000000000000000000254 None) = ''fd00:ec2::254''"
  by (simp_all add: metadata_hextets ipv4_text_def to_bytes4_def int_text_def nat_text.simps digit_char_def
      char_of_def bit_Suc_0_iff)

section \<open>Networks\<close>

lemma metadata_step_passes: "metadata_step net s = Inr ()"
  by (simp add: metadata_step_def except_value_error_def split: option.split)

lemma metadata_loop_passes: "each (metadata_step net) xs = Inr ()"
  by (induction xs) (simp_all add: metadata_step_passes)

lemma included_in_Inr: "included_in net incs = Inr () \<Longrightarrow> \<exists>inc\<in>set incs. subnet_of net inc = Some True"
  by (induction incs) (auto split: option.splits if_splits)

lemma included_in_exc: "included_in net incs = Inl e \<Longrightarrow> e = ScopeViolation NetworkOutOfScope \<or> e = VersionTypeError"
  by (induction incs) (auto split: option.splits if_splits)

lemma validate_network_Inr:
  assumes "validate_network scope net = Inr ()"
  shows "\<exists>inc\<in>set (included_networks scope). subnet_of net inc = Some True"
    and "\<forall>exc\<in>excluded_ips scope. \<not> net_contains net exc"
    and "\<forall>exc\<in>set (excluded_networks scope). \<not> overlaps net exc"
  using assms included_in_Inr [of net "included_networks scope"]
  by (auto simp: validate_network_def metadata_loop_passes list_ex_iff net_contains_def split: if_splits)

lemma validate_network_exc:
  "validate_network scope net = Inl e \<Longrightarrow> (\<exists>v. e = ScopeViolation v) \<or> e = VersionTypeError"
  using included_in_exc [of net "included_networks scope" e]
  by (auto simp: validate_network_def metadata_loop_passes split: if_splits)

section \<open>Resolved names\<close>

lemma validate_addresses_Inr:
  "validate_addresses scope ss acc = Inr resolved \<Longrightarrow>
   (\<forall>s\<in>set ss. \<exists>a. parse_ip_or_network s = Some (Address a) \<and> validate_ip scope a = Inr () \<and> unmapped a \<in> resolved) \<and>
   acc \<subseteq> resolved \<and>
   (\<forall>r\<in>resolved. r \<in> acc \<or> (\<exists>s\<in>set ss. \<exists>a. parse_ip_or_network s = Some (Address a) \<and> r = unmapped a))"
proof (induction scope ss acc rule: validate_addresses.induct)
  case (2 scope s ss acc)
  then obtain a where a: "parse_ip_or_network s = Some (Address a)" "validate_ip scope (unmapped a) = Inr ()"
      "validate_addresses scope ss (insert (unmapped a) acc) = Inr resolved"
    by (auto simp: bindE_Inr_iff split: option.splits ip_or_network.splits)
  have "validate_ip scope a = Inr ()" using a(2) by (simp add: validate_ip_iff)
  with 2(1) [OF a(1) refl] a show ?case by fastforce
qed simp

lemma validate_addresses_exc: "validate_addresses scope ss acc = Inl e \<Longrightarrow> \<exists>v. e = ScopeViolation v"
  by (induction scope ss acc rule: validate_addresses.induct)
    (auto simp: bindE_Inl_iff dest: validate_ip_exc split: option.splits ip_or_network.splits)

lemma check_resolved_exc: "check_resolved_destination scope host addrs = Inl e \<Longrightarrow> \<exists>v. e = ScopeViolation v"
  by (auto simp: check_resolved_destination_def Let_def bindE_Inl_iff
      dest: validate_addresses_exc split: if_splits option.splits)

section \<open>What acceptance means\<close>

definition METADATA_IPS :: "ip_address list" where
  "METADATA_IPS = [IPv4Address 2852039166, IPv6Address 0xfd000ec2000000000000000000000254 None, IPv4Address 1684301000]"

definition address_safe :: "scope_definition \<Rightarrow> ip_address \<Rightarrow> bool" where
  "address_safe scope a \<longleftrightarrow> in_included scope a \<and> \<not> in_excluded scope a \<and>
     (block_cloud_metadata scope \<longrightarrow> a \<notin> set METADATA_IPS)"

definition network_safe :: "scope_definition \<Rightarrow> ip_network \<Rightarrow> bool" where
  "network_safe scope net \<longleftrightarrow>
     (\<forall>ip. ip_ok ip \<longrightarrow> net_contains net ip \<longrightarrow> in_included scope ip \<and> \<not> in_excluded scope ip)"

definition names_safe :: "scope_definition \<Rightarrow> string list \<Rightarrow> bool" where
  "names_safe scope texts \<longleftrightarrow>
     list_all (\<lambda>s. case parse_ip_or_network s of Some (Address a) \<Rightarrow> address_safe scope (unmapped a) | _ \<Rightarrow> False) texts"

lemma METADATA_IPS_text: "ip \<in> set METADATA_IPS \<Longrightarrow> ip_text ip \<in> set METADATA_ADDRESSES"
  using metadata_texts by (auto simp: METADATA_IPS_def METADATA_ADDRESSES_def simp del: ip_text.simps)

lemma validate_ip_safe: "validate_ip scope a = Inr () \<Longrightarrow> address_safe scope (unmapped a)"
  using METADATA_IPS_text by (auto simp: validate_ip_iff address_safe_def)

lemma validate_network_safe:
  assumes "scope_ok scope" "net_ok net" "validate_network scope net = Inr ()"
  shows "network_safe scope net"
  unfolding network_safe_def
proof (intro allI impI conjI)
  fix ip
  assume ip: "ip_ok ip" "net_contains net ip"
  obtain inc where "inc \<in> set (included_networks scope)" "subnet_of net inc = Some True"
    using validate_network_Inr(1) [OF assms(3)] by blast
  then show "in_included scope ip"
    using subnet_of_contains [of net inc ip] assms(1,2) ip by (auto simp: in_included_def scope_ok_def)
  show "\<not> in_excluded scope ip"
    using validate_network_Inr(2,3) [OF assms(3)] overlaps_if_common [of net _ ip] assms(1,2) ip
    by (auto simp: in_excluded_def scope_ok_def)
qed

lemma validate_addresses_names: "validate_addresses scope ss acc = Inr resolved \<Longrightarrow> names_safe scope ss"
  using validate_addresses_Inr [of scope ss acc resolved] validate_ip_safe
  by (fastforce simp: names_safe_def list_all_iff)

lemma check_resolved_names:
  "check_resolved_destination scope host addrs = Inr () \<Longrightarrow> addrs \<noteq> [] \<and> names_safe scope addrs"
  by (auto simp: check_resolved_destination_def Let_def bindE_Inr_iff
      dest: validate_addresses_names split: if_splits)

lemma parsed_cases:
  obtains (name) "parse_ip_or_network s = None"
  | (address) a where "parse_ip_or_network s = Some (Address a)"
  | (network) n where "parse_ip_or_network s = Some (Network n)"
  by (metis ip_or_network.exhaust option.exhaust)

text \<open>
  \<open>check_resolved_destination\<close> accepts a host only with the address set it was given: every text of
  it is an address inside the boundary, an IP literal resolves to itself and nothing else, and a
  name lies in an included and in no excluded domain.
\<close>

definition answer_in_scope :: "scope_definition \<Rightarrow> string \<Rightarrow> string list \<Rightarrow> bool" where
  "answer_in_scope scope host addrs \<longleftrightarrow> addrs \<noteq> [] \<and> names_safe scope addrs \<and>
    (let domain = lstrip_dots (rstrip_dots (lower host)) in domain \<noteq> [] \<and>
      (case parse_ip_or_network domain of
         Some (Address a) \<Rightarrow>
           list_all (\<lambda>s. \<exists>b. parse_ip_or_network s = Some (Address b) \<and> unmapped b = unmapped a) addrs
       | _ \<Rightarrow> domain_matches domain (included_domains scope) \<and> \<not> domain_matches domain (excluded_domains scope)))"

lemma resolved_destination_bound:
  assumes "check_resolved_destination scope host addrs = Inr ()"
  shows "answer_in_scope scope host addrs"
proof -
  let ?domain = "lstrip_dots (rstrip_dots (lower host))"
  from assms obtain resolved where r: "validate_addresses scope addrs {} = Inr resolved"
    by (auto simp: check_resolved_destination_def Let_def bindE_Inr_iff split: if_splits)
  have "?domain \<noteq> [] \<and>
      (case parse_ip_or_network ?domain of
         Some (Address a) \<Rightarrow>
           list_all (\<lambda>s. \<exists>b. parse_ip_or_network s = Some (Address b) \<and> unmapped b = unmapped a) addrs
       | _ \<Rightarrow> domain_matches ?domain (included_domains scope) \<and> \<not> domain_matches ?domain (excluded_domains scope))"
    using assms validate_addresses_Inr [OF r]
    by (cases ?domain rule: parsed_cases)
      (fastforce simp: check_resolved_destination_def Let_def r list_all_iff split: if_splits)+
  then show ?thesis using check_resolved_names [OF assms] by (simp add: answer_in_scope_def Let_def)
qed

lemmas check_destination_simps = check_destination_def Let_def bindE_Inr_iff bindE_Inl_iff

text \<open>
  C5. Whatever the resolver answers, an accepted destination lies outside the excluded cloud resources and is an
  included cloud resource, or an address inside the included and outside the excluded targets and not a metadata
  service, or a network all of whose addresses are inside the included and outside the excluded targets, or a name.
  A name lies in no excluded domain, and either it lies in an included domain and does not resolve, or every address
  of the answer is such an address and the name, without its outer dots, lies in an included domain and in no excluded
  one. The one exception is an IP literal written with outer dots: it needs no included domain, and the answer is that
  address alone.
\<close>

theorem accepted_destination_in_scope:
  assumes "scope_ok scope" "check_destination resolver scope d = Inr ()"
  shows "\<exists>host. destination_host (strip d) = Inr host \<and>
    (\<forall>r\<in>excluded_cloud_resources scope. \<not> matches_resource host r) \<and>
    ((\<exists>r\<in>included_cloud_resources scope. matches_resource host r) \<or>
     (case parse_ip_or_network host of
        Some (Address a) \<Rightarrow> address_safe scope (unmapped a)
      | Some (Network n) \<Rightarrow> network_safe scope n
      | None \<Rightarrow>
          \<not> domain_matches (lstrip_dots (lower host)) (excluded_domains scope) \<and>
          (case resolver (lstrip_dots (lower host)) of
             Inr [] \<Rightarrow> domain_matches (lstrip_dots (lower host)) (included_domains scope)
           | Inr ips \<Rightarrow> answer_in_scope scope (lstrip_dots (lower host)) ips
           | Inl _ \<Rightarrow> False)))"
proof -
  from assms(2) obtain host where host: "destination_host (strip d) = Inr host"
    by (auto simp: check_destination_simps split: if_splits)
  show ?thesis
  proof (intro exI conjI)
    show "destination_host (strip d) = Inr host" by (fact host)
    show "\<forall>r\<in>excluded_cloud_resources scope. \<not> matches_resource host r"
      using assms(2) host by (auto simp: check_destination_simps split: if_splits)
  qed (use assms host in \<open>auto simp: check_destination_simps check_domain_def validate_ip_safe
      validate_network_safe parse_network_ok dest!: resolved_destination_bound
      split: if_splits option.splits ip_or_network.splits sum.splits list.splits\<close>)
qed

definition sample_document :: dict where
  "sample_document =
     [(''included_targets'', JList [JStr ''10.0.0.0/24'', JStr ''Corp.internal'']),
      (''excluded_targets'', JList [JStr ''10.0.0.128/25'', JStr ''10.0.0.5'', JStr ''db.corp.internal''])]"

definition sample_scope :: scope_definition where
  "sample_scope = default_scope
     \<lparr>included_networks := [\<lparr>network_address = IPv4Address 0x0A000000, prefixlen = 24\<rparr>],
      included_domains := {''corp.internal''},
      excluded_networks := [\<lparr>network_address = IPv4Address 0x0A000080, prefixlen = 25\<rparr>],
      excluded_ips := {IPv4Address 0x0A000005}, excluded_domains := {''db.corp.internal''}\<rparr>"

lemma sample_targets:
  "parse_ip_or_network ''10.0.0.0/24'' = Some (Network \<lparr>network_address = IPv4Address 0x0A000000, prefixlen = 24\<rparr>)"
  "parse_ip_or_network ''10.0.0.128/25'' = Some (Network \<lparr>network_address = IPv4Address 0x0A000080, prefixlen = 25\<rparr>)"
  "parse_ip_or_network ''10.0.0.5'' = Some (Address (IPv4Address 0x0A000005))"
  "parse_ip_or_network ''10.0.0.15'' = Some (Address (IPv4Address 0x0A00000F))"
  "parse_ip_or_network ''Corp.internal'' = None"
  "parse_ip_or_network ''db.corp.internal'' = None"
  by code_simp+

lemma sample_document_scope: "from_engagement_scope sample_document False = Inr sample_scope"
  by (simp add: from_engagement_scope_def targets_of_def sample_document_def iter_items_def add_target_def
      sample_targets no_targets_def sample_scope_def default_scope_def lower_def lower_char_def lstrip_dots_def char_of_def bit_Suc_0_iff)

lemma sample_accepts: "check_destination (\<lambda>_. Inr []) sample_scope ''10.0.0.15'' = Inr ()"
  by code_simp

theorem accepted_destination_in_scope_witness: "address_safe sample_scope (IPv4Address 0x0A00000F)"
proof -
  have host: "destination_host (strip ''10.0.0.15'') = Inr ''10.0.0.15''" by code_simp
  have "unmapped (IPv4Address 0x0A00000F) = IPv4Address 0x0A00000F" by (simp add: unmapped_def)
  then show ?thesis
    using accepted_destination_in_scope [OF from_engagement_scope_ok [OF sample_document_scope] sample_accepts]
    by (simp add: host sample_targets sample_scope_def default_scope_def)
qed

section \<open>Exclusions\<close>

text \<open>When an excluded target \<open>s\<close> of the engagement covers the host of a destination.\<close>

definition target_hits :: "string \<Rightarrow> string \<Rightarrow> bool" where
  "target_hits s host =
     (case parse_ip_or_network s of
        Some (Address a) \<Rightarrow>
          (case parse_ip_or_network host of
             Some (Address b) \<Rightarrow> unmapped b = a | Some (Network m) \<Rightarrow> net_contains m a | None \<Rightarrow> False)
      | Some (Network n) \<Rightarrow>
          (case parse_ip_or_network host of
             Some (Address b) \<Rightarrow> net_contains n (unmapped b) | Some (Network m) \<Rightarrow> overlaps m n | None \<Rightarrow> False)
      | None \<Rightarrow>
          if CHR ''/'' \<in> set s \<or> CHR '':'' \<in> set s then matches_resource host (lower s)
          else parse_ip_or_network host = None \<and>
            domain_matches (lstrip_dots (lower host)) {lstrip_dots (lower s)})"

definition grouped :: "string \<Rightarrow> target_groups \<Rightarrow> bool" where
  "grouped s g \<longleftrightarrow>
     (case parse_ip_or_network s of
        Some (Address a) \<Rightarrow> a \<in> group_ips g
      | Some (Network n) \<Rightarrow> n \<in> set (group_nets g)
      | None \<Rightarrow> if CHR ''/'' \<in> set s \<or> CHR '':'' \<in> set s then lower s \<in> group_res g
                else lstrip_dots (lower s) \<in> group_doms g)"

lemma add_target_grouped: "grouped s (add_target s g)" "grouped s' g \<Longrightarrow> grouped s' (add_target s g)"
  by (auto simp: grouped_def add_target_def split: option.splits ip_or_network.splits)

lemma group_targets_grouped:
  "group_targets items g = Inr g' \<Longrightarrow> JStr s \<in> set items \<or> grouped s g \<Longrightarrow> grouped s g'"
  by (induction items g rule: group_targets.induct)
    (auto simp: add_target_grouped split: json.splits)

lemma targets_of_grouped:
  "targets_of doc key = Inr g \<Longrightarrow> dict_get doc key = Some (JList items) \<Longrightarrow> JStr s \<in> set items \<Longrightarrow> grouped s g"
  by (auto simp: targets_of_def iter_items_def dest: group_targets_grouped)

lemma domain_matches_mono: "domain_matches d {x} \<Longrightarrow> x \<in> xs \<Longrightarrow> domain_matches d xs"
  by (auto simp: domain_matches_def)

lemma excluded_address_refused: "in_excluded scope (unmapped a) \<Longrightarrow> \<exists>v. validate_ip scope a = violate v"
  using validate_ip_iff [of scope a] validate_ip_exc [of scope a] by (cases "validate_ip scope a") auto

lemma excluded_network_refused:
  assumes "(\<exists>exc\<in>excluded_ips scope. net_contains n exc) \<or> (\<exists>m\<in>set (excluded_networks scope). overlaps n m)"
  shows "\<exists>v. validate_network scope n = violate v"
  using assms by (auto simp: validate_network_def metadata_loop_passes list_ex_iff net_contains_def)

text \<open>
  A target listed under \<^verbatim>\<open>excluded_targets\<close> of the engagement is refused where \<open>target_hits\<close> finds that it covers the
  destination: the same address, an address of the excluded network, a network that contains or overlaps it, the
  domain and its subdomains, the resource and what lies below it; no answer of the resolver and no included network or
  domain changes that. A host that matches an included cloud resource is accepted before the exclusions of addresses
  and domains are looked at, so the statement leaves such hosts out (\<open>resource_before_exclusion\<close>), and an excluded address
  in a mapped or zoned form is not covered (\<open>mapped_exclusion_is_lost\<close>, \<open>zone_escapes_exclusion\<close>).
\<close>

lemma excluded_target_refused:
  assumes "from_engagement_scope doc egress = Inr scope"
    and "dict_get doc ''excluded_targets'' = Some (JList items)" "JStr s \<in> set items"
    and "strip d \<noteq> []" "destination_host (strip d) = Inr host" "target_hits s host"
    and "\<not> (\<exists>r\<in>included_cloud_resources scope. matches_resource host r)"
  shows "\<exists>v. check_destination resolver scope d = Inl (ScopeViolation v)"
proof -
  obtain g where g: "targets_of doc ''excluded_targets'' = Inr g" "excluded_networks scope = group_nets g"
      "excluded_ips scope = group_ips g" "excluded_domains scope = group_doms g"
      "excluded_cloud_resources scope = group_res g"
    using assms(1) by (auto simp: from_engagement_scope_def bindE_Inr_iff)
  have grouped: "grouped s g" by (rule targets_of_grouped [OF g(1) assms(2,3)])
  show ?thesis
  proof (cases "\<exists>r\<in>excluded_cloud_resources scope. matches_resource host r")
    case True
    then show ?thesis using assms(4,5) by (simp add: check_destination_def)
  next
    case False
    then have run: "check_destination resolver scope d = (case parse_ip_or_network host of
          Some (Address a) \<Rightarrow> validate_ip scope a | Some (Network n) \<Rightarrow> validate_network scope n
        | None \<Rightarrow> check_domain resolver scope (lstrip_dots (lower host)))"
      using assms(4,5,7) by (simp add: check_destination_def)
    show ?thesis
      unfolding run using grouped assms(6) False g
      by (cases s rule: parsed_cases; cases host rule: parsed_cases)
        (auto simp: target_hits_def grouped_def in_excluded_def check_domain_def
          intro!: excluded_address_refused excluded_network_refused dest: domain_matches_mono split: if_splits)
  qed
qed

lemma sample_hosts:
  "strip ''10.0.0.200'' = ''10.0.0.200''" "destination_host ''10.0.0.200'' = Inr ''10.0.0.200''"
  "parse_ip_or_network ''10.0.0.200'' = Some (Address (IPv4Address 0x0A0000C8))"
  by code_simp+

lemma excluded_target_refused_witness:
  "\<exists>v. check_destination (\<lambda>_. Inr []) sample_scope ''10.0.0.200'' = Inl (ScopeViolation v)"
proof (rule excluded_target_refused [OF sample_document_scope, of _ "''10.0.0.128/25''" _ "''10.0.0.200''"])
  show "dict_get sample_document ''excluded_targets'' =
      Some (JList [JStr ''10.0.0.128/25'', JStr ''10.0.0.5'', JStr ''db.corp.internal''])"
    by (simp add: sample_document_def)
  have "unmapped (IPv4Address 0x0A0000C8) = IPv4Address 0x0A0000C8" by (simp add: unmapped_def)
  moreover have "net_contains \<lparr>network_address = IPv4Address 0x0A000080, prefixlen = 25\<rparr> (IPv4Address 0x0A0000C8)"
    by code_simp
  ultimately show "target_hits ''10.0.0.128/25'' ''10.0.0.200''"
    by (simp add: target_hits_def sample_hosts sample_targets)
qed (simp_all add: sample_hosts sample_scope_def default_scope_def)

section \<open>Exceptions\<close>

text \<open>
  When the resolver does not raise, a refused destination raises \<open>ScopeViolationError\<close>, except in
  two cases: \<open>urlparse\<close> rejects a malformed bracketed host, or a network of one IP version meets an
  included network of the other version before one that covers it.
\<close>

theorem check_destination_raises:
  assumes "\<And>name. \<exists>ips. resolver name = Inr ips" "check_destination resolver scope d = Inl e"
  shows "(\<exists>v. e = ScopeViolation v) \<or>
    e = PlainValueError \<and> contains ''://'' (strip d) \<and> \<not> netloc_ok (url_netloc (strip d)) \<or>
    e = VersionTypeError \<and>
      (\<exists>host net. destination_host (strip d) = Inr host \<and> parse_ip_or_network host = Some (Network net) \<and>
        (\<exists>inc\<in>set (included_networks scope). net_version inc \<noteq> net_version net))"
proof -
  have incs: "included_in net incs = Inl VersionTypeError \<Longrightarrow> \<exists>inc\<in>set incs. net_version inc \<noteq> net_version net"
    for net incs
    by (induction incs) (auto simp: subnet_of_def split: if_splits)
  have net: "(\<exists>v. e = ScopeViolation v) \<or>
      e = VersionTypeError \<and> (\<exists>inc\<in>set (included_networks scope). net_version inc \<noteq> net_version net)"
    if "validate_network scope net = Inl e" for net
    using that validate_network_exc [OF that] incs [of net "included_networks scope"]
    by (auto simp: validate_network_def metadata_loop_passes split: if_splits)
  have host: "e = PlainValueError \<and> contains ''://'' (strip d) \<and> \<not> netloc_ok (url_netloc (strip d))"
    if "destination_host (strip d) = Inl e"
    using that by (auto simp: destination_host_def url_hostname_def Let_def
        split: if_splits sum.splits option.splits list.splits)
  have domain: "\<exists>v. e = ScopeViolation v" if "check_domain resolver scope dom = Inl e" for dom
    using that assms(1) [of dom] by (auto simp: check_domain_def check_resolved_exc split: if_splits)
  show ?thesis
  proof (cases "destination_host (strip d)")
    case (Inr h)
    then show ?thesis
      using assms(2) validate_ip_exc [of scope _ e] net domain
      by (cases h rule: parsed_cases) (auto simp: check_destination_def Let_def split: if_splits)
  qed (use assms(2) host in \<open>auto simp: check_destination_def Let_def split: if_splits\<close>)
qed

theorem check_destination_raises_witness:
  "\<exists>e. check_destination (\<lambda>_. Inr []) sample_scope ''10.0.0.200'' = Inl e \<and>
     ((\<exists>v. e = ScopeViolation v) \<or> e = PlainValueError \<or> e = VersionTypeError)"
proof -
  have refused: "check_destination (\<lambda>_. Inr []) sample_scope ''10.0.0.200'' = violate AddressInExcludedNetwork"
    by code_simp
  have "\<exists>ips. Inr [] = (Inr ips :: (scope_exc, string list) result)" by blast
  from check_destination_raises [of "\<lambda>_. Inr []", OF this refused] refused show ?thesis by blast
qed

section \<open>Where the guard falls short\<close>

text \<open>
  The metadata check of networks never refuses anything, because the violation it raises is a
  \<open>ValueError\<close> inside a handler that passes over \<open>ValueError\<close>: the network of one metadata address is
  accepted under an included network that covers it, while the address itself is refused.
\<close>

lemma metadata_network_accepted:
  "each (metadata_step net) METADATA_ADDRESSES = Inr () \<and>
   (let scope = default_scope\<lparr>included_networks := [\<lparr>network_address = IPv4Address 0xA9FE0000, prefixlen = 16\<rparr>]\<rparr>
    in check_destination resolver scope ''169.254.169.254/32'' = Inr () \<and>
       check_destination resolver scope ''169.254.169.254'' = Inl (ScopeViolation MetadataAddress))"
proof -
  let ?scope = "default_scope\<lparr>included_networks := [\<lparr>network_address = IPv4Address 0xA9FE0000, prefixlen = 16\<rparr>]\<rparr>"
  have parsed: "parse_ip_or_network ''169.254.169.254/32'' =
      Some (Network \<lparr>network_address = IPv4Address 0xA9FEA9FE, prefixlen = 32\<rparr>)"
    "parse_ip_or_network ''169.254.169.254'' = Some (Address (IPv4Address 0xA9FEA9FE))"
    "destination_host ''169.254.169.254/32'' = Inr ''169.254.169.254/32''"
    "destination_host ''169.254.169.254'' = Inr ''169.254.169.254''"
    "strip ''169.254.169.254/32'' = ''169.254.169.254/32''" "strip ''169.254.169.254'' = ''169.254.169.254''"
    by code_simp+
  have "\<not> net_is_loopback \<lparr>network_address = IPv4Address 0xA9FEA9FE, prefixlen = 32\<rparr>"
    "subnet_of \<lparr>network_address = IPv4Address 0xA9FEA9FE, prefixlen = 32\<rparr>
       \<lparr>network_address = IPv4Address 0xA9FE0000, prefixlen = 16\<rparr> = Some True"
    by code_simp+
  then have "validate_network ?scope \<lparr>network_address = IPv4Address 0xA9FEA9FE, prefixlen = 32\<rparr> = Inr ()"
    by (simp add: validate_network_def metadata_loop_passes default_scope_def)
  moreover have "validate_ip ?scope (IPv4Address 0xA9FEA9FE) = violate MetadataAddress" by code_simp
  ultimately show ?thesis
    by (simp add: metadata_loop_passes check_destination_def parsed default_scope_def)
qed

text \<open>A name that is excluded as a domain is accepted when it matches an included cloud resource.\<close>

lemma resource_before_exclusion:
  "check_destination resolver
     (default_scope\<lparr>included_cloud_resources := {''db.corp''}, excluded_domains := {''db.corp.internal''}\<rparr>) ''db.corp.internal'' = Inr ()"
proof -
  have "strip ''db.corp.internal'' = ''db.corp.internal''" "destination_host ''db.corp.internal'' = Inr ''db.corp.internal''"
    "matches_resource ''db.corp.internal'' ''db.corp''"
    by code_simp+
  then show ?thesis by (simp add: check_destination_def default_scope_def)
qed

text \<open>An IPv6 zone takes an address past the metadata check and past an excluded address.\<close>

lemma zone_escapes_exclusion:
  "let scope = default_scope\<lparr>included_networks := [\<lparr>network_address = IPv6Address (0xfd00 * 2 ^ 112) None, prefixlen = 8\<rparr>],
        excluded_ips := {IPv6Address 0xfd000ec2000000000000000000000254 None}\<rparr>
   in validate_ip scope (IPv6Address 0xfd000ec2000000000000000000000254 (Some ''1'')) = Inr () \<and>
      validate_ip scope (IPv6Address 0xfd000ec2000000000000000000000254 None) = violate MetadataAddress"
proof -
  have "net_contains \<lparr>network_address = IPv6Address (0xfd00 * 2 ^ 112) None, prefixlen = 8\<rparr>
      (IPv6Address 0xfd000ec2000000000000000000000254 zone)" for zone
    by code_simp
  moreover have "unmapped (IPv6Address 0xfd000ec2000000000000000000000254 zone) =
      IPv6Address 0xfd000ec2000000000000000000000254 zone" for zone
    by code_simp
  ultimately show ?thesis
    by (simp add: validate_ip_def metadata_hextets METADATA_ADDRESSES_def default_scope_def)
qed

text \<open>An excluded target written as an IPv4-mapped IPv6 address excludes nothing: the guard compares the
  IPv4 address with the IPv6 one.\<close>

lemma mapped_exclusion_is_lost:
  "let scope = default_scope\<lparr>included_networks := [\<lparr>network_address = IPv4Address 0x0A000000, prefixlen = 24\<rparr>],
        excluded_ips := {IPv6Address 0xFFFF0A000005 None}\<rparr>
   in validate_ip scope (IPv6Address 0xFFFF0A000005 None) = Inr ()"
  by code_simp

text \<open>A scope with networks of both versions makes the inclusion loop raise \<^verbatim>\<open>TypeError\<close> before it
  reaches the network that covers the destination.\<close>

lemma mixed_versions_raise:
  "let scope = default_scope\<lparr>included_networks :=
        [\<lparr>network_address = IPv6Address (0xfd00 * 2 ^ 112) None, prefixlen = 8\<rparr>,
         \<lparr>network_address = IPv4Address 0x0A000000, prefixlen = 24\<rparr>]\<rparr>
   in validate_network scope \<lparr>network_address = IPv4Address 0x0A000000, prefixlen = 28\<rparr> = Inl VersionTypeError"
proof -
  have "\<not> net_is_loopback \<lparr>network_address = IPv4Address 0x0A000000, prefixlen = 28\<rparr>" by code_simp
  then show ?thesis
    by (simp add: validate_network_def metadata_loop_passes default_scope_def subnet_of_def net_version_def)
qed

end
