(* ===== verification/Lab_Journal.thy ===== *)
theory Lab_Journal
  imports Approval_Store Json_Roundtrip
begin

text \<open>
  \<^verbatim>\<open>cops/laboratory/journal.py\<close>: the owner-only journal of laboratory dispatches and case outcomes.

  The table \<^verbatim>\<open>cases\<close> is the list of its rows in the order of insertion. A text column that holds a JSON
  document is the document, normalized as \<^verbatim>\<open>json.loads\<close> reads back what \<^verbatim>\<open>json.dumps(sort_keys=True)\<close>
  wrote; a text that is not JSON is \<open>Unreadable\<close>. What the operating system and SQLite answer while one
  connection is opened is the record \<open>journal_io\<close>. A transaction that raises is rolled back, so every
  operation that fails leaves the rows as they were.
\<close>

unbundle bit_operations_syntax

section \<open>Rows\<close>

datatype lab_exc = LaboratoryGateError string

abbreviation gate :: "string \<Rightarrow> (lab_exc, 'a) result" where
  "gate message \<equiv> Inl (LaboratoryGateError message)"

datatype column = Null | Unreadable | Doc json

record case_row =
  jc_attempt_id :: string
  jc_result_id :: "string option"
  jc_environment_id :: string
  jc_state :: string
  jc_payload :: column
  jc_result :: column
  jc_authorization_id :: "string option"

type_synonym journal = "case_row list"

text \<open>A document as a column holds it; \<open>None\<close> is the \<^verbatim>\<open>ValueError\<close> of an integer too long to print.\<close>

definition dump_column :: "(string \<Rightarrow> pyfloat) \<Rightarrow> json \<Rightarrow> column option" where
  "dump_column pf v = (if ints_printable v then Some (Doc (norm_json pf v)) else None)"

section \<open>Opening a connection\<close>

type_synonym identity = "int \<times> int"

record file_view =
  fv_regular :: bool
  fv_uid :: int
  fv_mode :: int
  fv_identity :: identity

record path_view =
  pv_reopened :: "identity option"
  pv_file :: "file_view option"

definition owner_only :: "int \<Rightarrow> bool" where
  "owner_only mode = (mode AND 63 = 0)"

definition open_parent :: "int \<Rightarrow> file_view option \<Rightarrow> (lab_exc, identity) result" where
  "open_parent euid parent =
     (case parent of
        None \<Rightarrow> gate ''cannot protect laboratory case journal''
      | Some p \<Rightarrow>
          if fv_uid p \<noteq> euid then gate ''laboratory case journal parent must be owned by the operator''
          else if \<not> owner_only (fv_mode p) then gate ''laboratory case journal parent must be owner-only''
          else Inr (fv_identity p))"

definition check_path :: "int \<Rightarrow> identity \<Rightarrow> path_view \<Rightarrow> (lab_exc, identity) result" where
  "check_path euid parent view =
     (case pv_reopened view of
        None \<Rightarrow> gate ''cannot protect laboratory case journal''
      | Some p \<Rightarrow>
          if p \<noteq> parent then gate ''laboratory case journal parent identity changed''
          else case pv_file view of
            None \<Rightarrow> gate ''cannot protect laboratory case journal''
          | Some f \<Rightarrow>
              if \<not> fv_regular f then gate ''laboratory case journal must be a regular file''
              else if fv_uid f \<noteq> euid then gate ''laboratory case journal must be owned by the operator''
              else if \<not> owner_only (fv_mode f) then gate ''laboratory case journal must be owner-only''
              else Inr (fv_identity f))"

text \<open>\<open>io_opened\<close> is the file the descriptor was opened on, \<open>None\<close> an \<^verbatim>\<open>OSError\<close>; \<open>io_connects\<close> and
  \<open>io_sql\<close> say whether SQLite opens the database and executes the statements.\<close>

record journal_io =
  io_euid :: int
  io_parent :: identity
  io_expected :: path_view
  io_opened :: "identity option"
  io_connects :: bool
  io_current :: path_view
  io_sql :: bool

definition connect :: "journal_io \<Rightarrow> (lab_exc, unit) result" where
  "connect io =
     bindE (check_path (io_euid io) (io_parent io) (io_expected io)) (\<lambda>expected.
     case io_opened io of
       None \<Rightarrow> gate ''cannot protect laboratory case journal''
     | Some opened \<Rightarrow>
         if opened \<noteq> expected then gate ''laboratory case journal identity changed''
         else if \<not> io_connects io then gate ''cannot open laboratory case journal''
         else bindE (check_path (io_euid io) (io_parent io) (io_current io)) (\<lambda>current.
           if current \<noteq> opened then gate ''laboratory case journal identity changed while opening'' else Inr ()))"

text \<open>One transaction: a connection, then \<open>body\<close>, whose failure rolls back. \<open>message\<close> is the error of the
  operation's handler for the SQLite errors.\<close>

definition journal_transaction ::
  "journal_io \<Rightarrow> string \<Rightarrow> (journal \<Rightarrow> (lab_exc, 'a \<times> journal) result) \<Rightarrow> journal \<Rightarrow> (journal, lab_exc, 'a) outcome" where
  "journal_transaction io message body j =
     (case bindE (connect io) (\<lambda>_. if io_sql io then body j else gate message) of
        Inl e \<Rightarrow> (Inl e, j)
      | Inr (a, j') \<Rightarrow> (Inr a, j'))"

section \<open>Operations\<close>

definition nonempty_str :: "json option \<Rightarrow> string option" where
  "nonempty_str v = (case v of Some (JStr (c # cs)) \<Rightarrow> Some (c # cs) | _ \<Rightarrow> None)"

definition begin_case ::
  "journal_io \<Rightarrow> (string \<Rightarrow> pyfloat) \<Rightarrow> string \<Rightarrow> string \<Rightarrow> dict \<Rightarrow> journal \<Rightarrow> (journal, lab_exc, unit) outcome" where
  "begin_case io pf attempt environment payload j =
     (case nonempty_str (dict_get payload ''authorization_id'') of
        None \<Rightarrow> (gate ''laboratory dispatch intent requires an authorization identifier'', j)
      | Some aid \<Rightarrow>
          journal_transaction io ''cannot record laboratory dispatch intent'' (\<lambda>rows.
            if list_ex (\<lambda>r. jc_authorization_id r = Some aid) rows
            then gate ''execution authorization has already been used for a dispatch attempt''
            else case dump_column pf (JObj payload) of
              None \<Rightarrow> gate ''cannot record laboratory dispatch intent''
            | Some p \<Rightarrow>
                if select_row jc_attempt_id attempt rows \<noteq> None then gate ''cannot record laboratory dispatch intent''
                else Inr ((), insert_row \<lparr>jc_attempt_id = attempt, jc_result_id = None, jc_environment_id = environment,
                  jc_state = ''dispatching'', jc_payload = p, jc_result = Null, jc_authorization_id = Some aid\<rparr> rows)) j)"

text \<open>\<^verbatim>\<open>SELECT payload_json FROM cases WHERE attempt_id = ? AND state = 'dispatching'\<close>\<close>

definition dispatching_row :: "string \<Rightarrow> journal \<Rightarrow> case_row option" where
  "dispatching_row attempt rows = List.find (\<lambda>r. jc_attempt_id r = attempt \<and> jc_state r = ''dispatching'') rows"

definition pending_row :: "string \<Rightarrow> journal \<Rightarrow> case_row option" where
  "pending_row rid rows = List.find (\<lambda>r. jc_result_id r = Some rid \<and> jc_state r = ''pending'') rows"

definition payload_dict :: "case_row \<Rightarrow> dict option" where
  "payload_dict r = (case jc_payload r of Doc (JObj d) \<Rightarrow> Some d | _ \<Rightarrow> None)"

text \<open>The unique constraint on \<^verbatim>\<open>result_id\<close> when the rows of \<open>attempt\<close> take the value \<open>rid\<close>.\<close>

definition result_id_free :: "string \<Rightarrow> string \<Rightarrow> journal \<Rightarrow> bool" where
  "result_id_free attempt rid rows = list_all (\<lambda>r. jc_result_id r = Some rid \<longrightarrow> jc_attempt_id r = attempt) rows"

definition bind_case ::
  "journal_io \<Rightarrow> (string \<Rightarrow> pyfloat) \<Rightarrow> string \<Rightarrow> string \<Rightarrow> dict \<Rightarrow> journal \<Rightarrow> (journal, lab_exc, unit) outcome" where
  "bind_case io pf attempt rid failure_result j =
     journal_transaction io ''cannot record laboratory dispatch result'' (\<lambda>rows.
       case dispatching_row attempt rows of
         None \<Rightarrow> gate ''laboratory dispatch intent is missing''
       | Some row \<Rightarrow>
           (case Option.bind (payload_dict row) (\<lambda>d. dump_column pf (JObj (dict_set ''failure_result'' (JObj failure_result) d))) of
              None \<Rightarrow> gate ''cannot record laboratory dispatch result''
            | Some p \<Rightarrow>
                if \<not> result_id_free attempt rid rows then gate ''cannot record laboratory dispatch result''
                else let hit = (\<lambda>r. jc_attempt_id r = attempt \<and> jc_state r = ''dispatching'') in
                  if length (filter hit rows) \<noteq> 1 then gate ''laboratory dispatch intent is missing''
                  else Inr ((), update_rows hit (\<lambda>r. r\<lparr>jc_state := ''pending'', jc_result_id := Some rid, jc_payload := p\<rparr>) rows))) j"

definition set_opt :: "string \<Rightarrow> json option \<Rightarrow> dict \<Rightarrow> dict" where
  "set_opt k v d = (case v of None \<Rightarrow> d | Some x \<Rightarrow> dict_set k x d)"

definition mark_unknown ::
  "journal_io \<Rightarrow> (string \<Rightarrow> pyfloat) \<Rightarrow> string \<Rightarrow> string \<Rightarrow> json option \<Rightarrow> string option \<Rightarrow> journal \<Rightarrow> (journal, lab_exc, unit) outcome" where
  "mark_unknown io pf attempt reason evidence cleanup j =
     journal_transaction io ''cannot record uncertain laboratory dispatch'' (\<lambda>rows.
       case dispatching_row attempt rows of
         None \<Rightarrow> gate ''laboratory dispatch intent is missing''
       | Some row \<Rightarrow>
           (case Option.bind (payload_dict row) (\<lambda>d. dump_column pf (JObj
                   (set_opt ''cleanup_receipt_digest'' (map_option JStr cleanup)
                     (set_opt ''durable_evidence'' evidence (dict_set ''failure_reason'' (JStr reason) d))))) of
              None \<Rightarrow> gate ''cannot record uncertain laboratory dispatch''
            | Some p \<Rightarrow> Inr ((), update_rows (\<lambda>r. jc_attempt_id r = attempt) (\<lambda>r. r\<lparr>jc_state := ''unknown'', jc_payload := p\<rparr>) rows))) j"

definition authorization_attempted :: "journal_io \<Rightarrow> string \<Rightarrow> journal \<Rightarrow> (lab_exc, bool) result" where
  "authorization_attempted io aid j =
     fst (journal_transaction io ''cannot inspect laboratory authorization history''
       (\<lambda>rows. Inr (list_ex (\<lambda>r. jc_authorization_id r = Some aid) rows, rows)) j)"

definition finish_case ::
  "journal_io \<Rightarrow> (string \<Rightarrow> pyfloat) \<Rightarrow> string \<Rightarrow> dict \<Rightarrow> string \<Rightarrow> journal \<Rightarrow> (journal, lab_exc, unit) outcome" where
  "finish_case io pf rid result state j =
     (if state \<notin> {''classified'', ''failed''} then (gate ''invalid laboratory case journal state'', j)
      else journal_transaction io ''cannot record laboratory case outcome'' (\<lambda>rows.
        case dump_column pf (JObj result) of
          None \<Rightarrow> gate ''cannot record laboratory case outcome''
        | Some doc \<Rightarrow>
            let hit = (\<lambda>r. jc_result_id r = Some rid \<and> jc_state r = ''pending'') in
            if length (filter hit rows) \<noteq> 1 then gate ''laboratory case is no longer pending''
            else Inr ((), update_rows hit (\<lambda>r. r\<lparr>jc_state := state, jc_result := doc\<rparr>) rows)) j)"

text \<open>\<^verbatim>\<open>payload["failure_result"]\<close> with its \<^verbatim>\<open>["details"]["failure_reason"]\<close> replaced; \<open>None\<close> is the \<^verbatim>\<open>KeyError\<close>
  or \<^verbatim>\<open>TypeError\<close> of a missing or ill-typed member.\<close>

definition failed_result :: "string \<Rightarrow> dict \<Rightarrow> json option" where
  "failed_result reason payload =
     (case dict_get payload ''failure_result'' of
        Some (JObj result) \<Rightarrow>
          (case dict_get result ''details'' of
             Some (JObj details) \<Rightarrow> Some (JObj (dict_set ''details'' (JObj (dict_set ''failure_reason'' (JStr reason) details)) result))
           | _ \<Rightarrow> None)
      | _ \<Rightarrow> None)"

definition fail_case ::
  "journal_io \<Rightarrow> (string \<Rightarrow> pyfloat) \<Rightarrow> string \<Rightarrow> string \<Rightarrow> journal \<Rightarrow> (journal, lab_exc, json) outcome" where
  "fail_case io pf rid reason j =
     journal_transaction io ''cannot record laboratory case failure'' (\<lambda>rows.
       case pending_row rid rows of
         None \<Rightarrow> gate ''laboratory case is no longer pending''
       | Some row \<Rightarrow>
           (case Option.bind (payload_dict row) (failed_result reason) of
              None \<Rightarrow> gate ''cannot record laboratory case failure''
            | Some result \<Rightarrow>
                (case dump_column pf result of
                   None \<Rightarrow> gate ''cannot record laboratory case failure''
                 | Some doc \<Rightarrow> Inr (result,
                     update_rows (\<lambda>r. jc_result_id r = Some rid) (\<lambda>r. r\<lparr>jc_state := ''failed'', jc_result := doc\<rparr>) rows)))) j"

record case_record =
  cs_attempt_id :: string
  cs_result_id :: "string option"
  cs_environment_id :: string
  cs_state :: string
  cs_payload :: json
  cs_result :: "json option"

definition case_record_of :: "case_row \<Rightarrow> (lab_exc, case_record) result" where
  "case_record_of r =
     (case (jc_payload r, jc_result r) of
        (Doc p, Null) \<Rightarrow> Inr \<lparr>cs_attempt_id = jc_attempt_id r, cs_result_id = jc_result_id r, cs_environment_id = jc_environment_id r,
          cs_state = jc_state r, cs_payload = p, cs_result = None\<rparr>
      | (Doc p, Doc v) \<Rightarrow> Inr \<lparr>cs_attempt_id = jc_attempt_id r, cs_result_id = jc_result_id r, cs_environment_id = jc_environment_id r,
          cs_state = jc_state r, cs_payload = p, cs_result = Some v\<rparr>
      | _ \<Rightarrow> gate ''cannot read laboratory case journal'')"

definition journal_records :: "journal_io \<Rightarrow> journal \<Rightarrow> (lab_exc, case_record list) result" where
  "journal_records io j =
     bindE (fst (journal_transaction io ''cannot read laboratory case journal'' (\<lambda>rows. Inr (rows, rows)) j)) (mapE case_record_of)"

section \<open>Opening a journal\<close>

text \<open>\<^verbatim>\<open>_migrate_authorization_ids\<close>; \<open>None\<close> is the \<^verbatim>\<open>ValueError\<close> or the \<^verbatim>\<open>IntegrityError\<close> of the unique index.\<close>

definition migrate_row :: "case_row \<Rightarrow> case_row option" where
  "migrate_row r =
     (case jc_authorization_id r of
        Some _ \<Rightarrow> Some r
      | None \<Rightarrow> map_option (\<lambda>aid. r\<lparr>jc_authorization_id := Some aid\<rparr>)
          (Option.bind (payload_dict r) (\<lambda>d. nonempty_str (dict_get d ''authorization_id''))))"

definition migrate_authorization_ids :: "journal \<Rightarrow> journal option" where
  "migrate_authorization_ids j =
     Option.bind (those (map migrate_row j)) (\<lambda>rows.
       if list_ex (\<lambda>r. jc_authorization_id r = Some []) rows \<or> \<not> distinct (map jc_authorization_id rows) then None
       else Some rows)"

definition recover_row :: "(string \<Rightarrow> pyfloat) \<Rightarrow> case_row \<Rightarrow> case_row option" where
  "recover_row pf r =
     (if jc_state r = ''pending'' then
        map_option (\<lambda>doc. r\<lparr>jc_state := ''failed'', jc_result := doc\<rparr>)
          (Option.bind (Option.bind (payload_dict r)
             (failed_result ''operator case observation missing after controller restart'')) (dump_column pf))
      else if jc_state r = ''dispatching'' then
        map_option (\<lambda>doc. r\<lparr>jc_state := ''unknown'', jc_payload := doc\<rparr>)
          (Option.bind (payload_dict r) (\<lambda>d. dump_column pf
             (JObj (dict_set ''failure_reason'' (JStr ''dispatch outcome unknown after controller restart'') d))))
      else Some r)"

text \<open>\<open>absolute\<close>: the path is absolute; \<open>created\<close>: what the exclusive creation of a missing file answered;
  \<open>checked\<close>: the path as it stands after that.\<close>

definition open_journal ::
  "bool \<Rightarrow> file_view option \<Rightarrow> bool option \<Rightarrow> open_outcome \<Rightarrow> path_view \<Rightarrow> journal_io \<Rightarrow> (string \<Rightarrow> pyfloat) \<Rightarrow> journal \<Rightarrow>
   (journal, lab_exc, unit) outcome" where
  "open_journal absolute parent exists' created checked io pf j =
     (if \<not> absolute then (gate ''laboratory case journal path must be absolute'', j)
      else case open_parent (io_euid io) parent of
        Inl e \<Rightarrow> (Inl e, j)
      | Inr pid \<Rightarrow>
          if exists' = None then (gate ''cannot protect laboratory case journal'', j)
          else if exists' = Some False \<and> created = OpenFailed then (gate ''cannot create laboratory case journal'', j)
          else case check_path (io_euid io) pid checked of
            Inl e \<Rightarrow> (Inl e, j)
          | Inr _ \<Rightarrow>
              journal_transaction (io\<lparr>io_parent := pid\<rparr>) ''laboratory case journal is invalid or unavailable'' (\<lambda>rows.
                case Option.bind (migrate_authorization_ids rows) (\<lambda>rs. those (map (recover_row pf) rs)) of
                  None \<Rightarrow> gate ''laboratory case journal is invalid or unavailable''
                | Some rs \<Rightarrow> Inr ((), rs)) j)"

end
