(* ===== verification/Lab_Journal_Props.thy ===== *)
theory Lab_Journal_Props
  imports Lab_Journal
begin

text \<open>
  The journal as a machine: its operations, restarts included, keep the keys of the table distinct,
  move a case only along its life cycle, never change a closed case, and let an authorization begin
  at most one dispatch.
\<close>

section \<open>Operations\<close>

datatype journal_op =
    Begin journal_io string string dict
  | Bind journal_io string string dict
  | MarkUnknown journal_io string string "json option" "string option"
  | Finish journal_io string dict string
  | Fail journal_io string string
  | Reopen bool "file_view option" "bool option" open_outcome path_view journal_io

definition forget_result :: "('s, 'e, 'a) outcome \<Rightarrow> ('s, 'e, unit) outcome" where
  "forget_result r = (bindE (fst r) (\<lambda>_. Inr ()), snd r)"

fun journal_step :: "(string \<Rightarrow> pyfloat) \<Rightarrow> journal_op \<Rightarrow> journal \<Rightarrow> (journal, lab_exc, unit) outcome" where
  "journal_step pf (Begin io a e p) j = begin_case io pf a e p j"
| "journal_step pf (Bind io a rid f) j = bind_case io pf a rid f j"
| "journal_step pf (MarkUnknown io a reason ev c) j = mark_unknown io pf a reason ev c j"
| "journal_step pf (Finish io rid v st) j = finish_case io pf rid v st j"
| "journal_step pf (Fail io rid reason) j = forget_result (fail_case io pf rid reason j)"
| "journal_step pf (Reopen ab par ex cr ch io) j = open_journal ab par ex cr ch io pf j"

section \<open>The life cycle of a case\<close>

text \<open>The abstract machine of one attempt: \<open>None\<close> before it is recorded.\<close>

inductive case_step :: "string option \<Rightarrow> string option \<Rightarrow> bool" where
  begins: "case_step None (Some ''dispatching'')"
| binds: "case_step (Some ''dispatching'') (Some ''pending'')"
| uncertain: "case_step (Some ''dispatching'') (Some ''unknown'')"
| classified: "case_step (Some ''pending'') (Some ''classified'')"
| failed: "case_step (Some ''pending'') (Some ''failed'')"

inductive_simps case_step_simps: "case_step a b"

definition closed_states :: "string set" where
  "closed_states = {''classified'', ''failed'', ''unknown''}"

definition journal_states :: "string set" where
  "journal_states = {''dispatching'', ''pending''} \<union> closed_states"

text \<open>What an operation may do to one row: nothing, or one step of the life cycle that keeps the
  attempt, its environment and its authorization.\<close>

definition case_row_step :: "case_row \<Rightarrow> case_row \<Rightarrow> bool" where
  "case_row_step r r' \<longleftrightarrow> r' = r \<or>
     jc_attempt_id r' = jc_attempt_id r \<and> jc_environment_id r' = jc_environment_id r \<and>
     jc_authorization_id r' = jc_authorization_id r \<and> case_step (Some (jc_state r)) (Some (jc_state r'))"

text \<open>Later rows are reached by such steps.\<close>

definition row_later :: "case_row \<Rightarrow> case_row \<Rightarrow> bool" where
  "row_later r r' \<longleftrightarrow> case_row_step\<^sup>*\<^sup>* r r'"

definition journal_later :: "journal \<Rightarrow> journal \<Rightarrow> bool" where
  "journal_later j j' \<longleftrightarrow> (\<exists>old new. j' = old @ new \<and> list_all2 row_later j old)"

definition case_row_ok :: "case_row \<Rightarrow> bool" where
  "case_row_ok r \<longleftrightarrow> jc_state r \<in> journal_states \<and> jc_authorization_id r \<notin> {None, Some []} \<and>
     (jc_state r = ''dispatching'' \<longrightarrow> jc_result_id r = None) \<and> (jc_state r = ''pending'' \<longrightarrow> jc_result_id r \<noteq> None) \<and>
     (jc_state r \<in> {''dispatching'', ''pending''} \<longrightarrow> jc_result r = Null)"

definition result_ids :: "journal \<Rightarrow> string list" where
  "result_ids j = List.map_filter jc_result_id j"

definition journal_inv :: "journal \<Rightarrow> bool" where
  "journal_inv j \<longleftrightarrow> distinct (map jc_attempt_id j) \<and> distinct (map jc_authorization_id j) \<and>
     distinct (result_ids j) \<and> list_all case_row_ok j"

lemma case_row_step_refl [simp]: "case_row_step r r"
  by (simp add: case_row_step_def)

lemma row_later_trans: "row_later a b \<Longrightarrow> row_later b c \<Longrightarrow> row_later a c"
  unfolding row_later_def by (rule rtranclp_trans)

lemma row_later_step: "case_row_step a b \<Longrightarrow> row_later a b"
  unfolding row_later_def by (rule r_into_rtranclp)

lemma journal_later_refl: "journal_later j j"
  unfolding journal_later_def by (rule exI [of _ j], rule exI [of _ "[]"])
    (simp add: list_all2_refl row_later_def)

lemma journal_later_trans:
  assumes "journal_later a b" "journal_later b c"
  shows "journal_later a c"
proof -
  from assms(1) obtain o1 n1 where b: "b = o1 @ n1" "list_all2 row_later a o1" by (auto simp: journal_later_def)
  from assms(2) b(1) obtain o2 n2 m where c: "c = (o2 @ m) @ n2" "list_all2 row_later o1 o2"
    by (auto simp: journal_later_def list_all2_append1)
  have "list_all2 row_later a o2" by (rule list_all2_trans [OF row_later_trans b(2) c(2)])
  with c(1) show ?thesis by (auto simp: journal_later_def)
qed

section \<open>What each operation does to the rows\<close>

lemma journal_transaction_cases [consumes 1, case_names kept committed]:
  assumes "journal_transaction io m body j = (out, j')"
  obtains (kept) e where "out = Inl e" "j' = j"
  | (committed) a where "out = Inr a" "connect io = Inr ()" "io_sql io" "body j = Inr (a, j')"
  using assms
  by (cases "bindE (connect io) (\<lambda>_. if io_sql io then body j else gate m)")
    (auto simp: journal_transaction_def bindE_Inr_iff split: if_splits)

text \<open>The three ways the rows change: a new row, a step of some rows, or nothing.\<close>

definition fresh_row :: "case_row \<Rightarrow> journal \<Rightarrow> bool" where
  "fresh_row r j \<longleftrightarrow> case_row_ok r \<and> jc_state r = ''dispatching'' \<and> jc_attempt_id r \<notin> jc_attempt_id ` set j \<and>
     jc_authorization_id r \<notin> jc_authorization_id ` set j"

lemma result_ids_simps [simp]:
  "result_ids [] = []"
  "result_ids (r # j) = (case jc_result_id r of None \<Rightarrow> result_ids j | Some x \<Rightarrow> x # result_ids j)"
  "result_ids (j @ k) = result_ids j @ result_ids k"
  by (simp_all add: result_ids_def List.map_filter_def split: option.split)

lemma set_result_ids: "x \<in> set (result_ids j) \<longleftrightarrow> (\<exists>r\<in>set j. jc_result_id r = Some x)"
  by (induction j) (auto split: option.splits)

lemma insert_fresh:
  assumes "journal_inv j" "fresh_row r j"
  shows "journal_inv (insert_row r j)" "journal_later j (insert_row r j)"
proof -
  show "journal_inv (insert_row r j)"
    using assms by (auto simp: journal_inv_def fresh_row_def insert_row_def case_row_ok_def)
  show "journal_later j (insert_row r j)"
    unfolding journal_later_def insert_row_def
    by (rule exI [of _ j], rule exI [of _ "[r]"]) (simp add: list_all2_refl row_later_def)
qed

lemma rows_step:
  assumes "journal_inv j" "\<And>r. r \<in> set j \<Longrightarrow> case_row_step r (f r) \<and> case_row_ok (f r)"
    and "distinct (result_ids (map f j))"
  shows "journal_inv (map f j)" "journal_later j (map f j)"
proof -
  have keys: "map (\<lambda>r. jc_attempt_id (f r)) j = map jc_attempt_id j"
    "map (\<lambda>r. jc_authorization_id (f r)) j = map jc_authorization_id j"
    using assms(2) by (auto simp: case_row_step_def intro!: map_cong) (metis, metis)
  show "journal_inv (map f j)"
    using assms unfolding journal_inv_def map_map comp_def keys by (auto simp: list_all_iff)
  show "journal_later j (map f j)"
    unfolding journal_later_def
    by (rule exI [of _ "map f j"], rule exI [of _ "[]"])
      (use assms(2) in \<open>auto simp: list_all2_conv_all_nth intro: row_later_step\<close>)
qed

lemma same_result_ids: "(\<And>r. r \<in> set j \<Longrightarrow> jc_result_id (f r) = jc_result_id r) \<Longrightarrow> result_ids (map f j) = result_ids j"
  by (induction j) (auto split: option.split)

lemma result_ids_bind:
  assumes "distinct (map jc_attempt_id j)" "distinct (result_ids j)"
    and "\<And>r. r \<in> set j \<Longrightarrow> hit r \<Longrightarrow> jc_attempt_id r = a \<and> jc_result_id (g r) = Some rid"
    and "\<And>r. r \<in> set j \<Longrightarrow> jc_result_id r = Some rid \<Longrightarrow> jc_attempt_id r = a"
  shows "distinct (result_ids (map (\<lambda>r. if hit r then g r else r) j))"
  using assms
proof (induction j)
  case (Cons r j)
  let ?f = "\<lambda>r. if hit r then g r else r"
  have IH: "distinct (result_ids (map ?f j))"
  proof (rule Cons.IH)
    show "distinct (map jc_attempt_id j)" "distinct (result_ids j)"
      using Cons.prems(1,2) by (auto split: option.splits)
    show "jc_attempt_id q = a \<and> jc_result_id (g q) = Some rid" if "q \<in> set j" "hit q" for q
      by (rule Cons.prems(3)) (simp_all add: that)
    show "jc_attempt_id q = a" if "q \<in> set j" "jc_result_id q = Some rid" for q
      by (rule Cons.prems(4)) (simp_all add: that)
  qed
  have ids: "x \<in> set (result_ids j) \<or> x = rid \<and> (\<exists>q\<in>set j. hit q)" if "x \<in> set (result_ids (map ?f j))" for x
  proof -
    from that obtain q where q: "q \<in> set j" "jc_result_id (?f q) = Some x" by (auto simp: set_result_ids)
    then show ?thesis using Cons.prems(3) [of q] by (cases "hit q") (auto simp: set_result_ids)
  qed
  have other: "jc_attempt_id q \<noteq> jc_attempt_id r" if "q \<in> set j" for q
    using Cons.prems(1) that by (metis distinct.simps(2) image_eqI list.set_map list.simps(9))
  have owner: "\<exists>q\<in>set j. jc_attempt_id q = a" if "rid \<in> set (result_ids (map ?f j))"
    using ids [OF that] Cons.prems(3,4) by (metis list.set_intros(2) set_result_ids)
  show ?case
  proof (cases "hit r")
    case True
    then have r: "jc_attempt_id r = a" "jc_result_id (g r) = Some rid" using Cons.prems(3) by auto
    then have "rid \<notin> set (result_ids (map ?f j))" using owner other by blast
    with True r IH show ?thesis by simp
  next
    case False
    have "x \<notin> set (result_ids (map ?f j))" if x: "jc_result_id r = Some x" for x
    proof
      assume "x \<in> set (result_ids (map ?f j))"
      moreover have "x \<notin> set (result_ids j)" using Cons.prems(2) x by simp
      ultimately have "x = rid" "rid \<in> set (result_ids (map ?f j))" using ids by blast+
      with owner other x Cons.prems(4) [of r] show False by auto
    qed
    with False IH show ?thesis by (simp split: option.split)
  qed
qed simp

definition journal_effect :: "journal \<Rightarrow> journal \<Rightarrow> bool" where
  "journal_effect j j' \<longleftrightarrow> j' = j \<or> (\<exists>r. fresh_row r j \<and> j' = insert_row r j) \<or>
     (\<exists>f. j' = map f j \<and> (\<forall>r\<in>set j. case_row_step r (f r) \<and> case_row_ok (f r)) \<and> distinct (result_ids j'))"

lemma journal_effect_later:
  "journal_inv j \<Longrightarrow> journal_effect j j' \<Longrightarrow> journal_inv j' \<and> journal_later j j'"
  unfolding journal_effect_def using insert_fresh rows_step journal_later_refl by blast

lemma nonempty_str_Some: "nonempty_str v = Some s \<Longrightarrow> v = Some (JStr s) \<and> s \<noteq> []"
  by (auto simp: nonempty_str_def split: option.splits json.splits list.splits)

lemma begin_case_effect: "journal_effect j (snd (begin_case io pf a e p j))"
proof -
  obtain out j' where run: "begin_case io pf a e p j = (out, j')" by (cases "begin_case io pf a e p j") auto
  show ?thesis
  proof (cases "nonempty_str (dict_get p ''authorization_id'')")
    case None
    then show ?thesis by (simp add: begin_case_def journal_effect_def)
  next
    case (Some aid)
    note auth = nonempty_str_Some [OF Some]
    from run [unfolded begin_case_def Some option.case] show ?thesis
    proof (cases rule: journal_transaction_cases)
      case (committed u)
      then obtain doc where j': "j' = insert_row \<lparr>jc_attempt_id = a, jc_result_id = None, jc_environment_id = e,
          jc_state = ''dispatching'', jc_payload = doc, jc_result = Null, jc_authorization_id = Some aid\<rparr> j"
        and new: "select_row jc_attempt_id a j = None" "\<not> list_ex (\<lambda>r. jc_authorization_id r = Some aid) j"
        by (auto split: if_splits option.splits)
      have "fresh_row \<lparr>jc_attempt_id = a, jc_result_id = None, jc_environment_id = e,
          jc_state = ''dispatching'', jc_payload = doc, jc_result = Null, jc_authorization_id = Some aid\<rparr> j"
        using new auth by (auto simp: fresh_row_def case_row_ok_def journal_states_def select_row_None_iff list_ex_iff)
      then show ?thesis using run j' by (auto simp: journal_effect_def)
    qed (simp add: run journal_effect_def)
  qed
qed

lemma find_SomeD: "List.find P xs = Some x \<Longrightarrow> x \<in> set xs \<and> P x"
  by (induction xs) (auto split: if_splits)

text \<open>An update of some open rows, none of which gets another result identifier.\<close>

lemma update_effect:
  assumes "journal_inv j" "\<And>r. r \<in> set j \<Longrightarrow> P r \<Longrightarrow> case_row_step r (g r) \<and> case_row_ok (g r) \<and> jc_result_id (g r) = jc_result_id r"
  shows "journal_effect j (update_rows P g j)"
proof -
  have "result_ids (update_rows P g j) = result_ids j"
    unfolding update_rows_def using assms(2) by (intro same_result_ids) auto
  then show ?thesis
    using assms unfolding journal_effect_def
    by (intro disjI2) (rule exI [of _ "\<lambda>r. if P r then g r else r"], auto simp: update_rows_def journal_inv_def list_all_iff)
qed

lemma bind_case_effect:
  assumes "journal_inv j"
  shows "journal_effect j (snd (bind_case io pf a rid f j))"
proof -
  obtain out j' where run: "bind_case io pf a rid f j = (out, j')" by (cases "bind_case io pf a rid f j") auto
  let ?hit = "\<lambda>r. jc_attempt_id r = a \<and> jc_state r = ''dispatching''"
  from run [unfolded bind_case_def] show ?thesis
  proof (cases rule: journal_transaction_cases)
    case (committed u)
    then obtain p where free: "result_id_free a rid j"
      and j': "j' = update_rows ?hit (\<lambda>r. r\<lparr>jc_state := ''pending'', jc_result_id := Some rid, jc_payload := p\<rparr>) j"
      by (auto simp: Let_def split: if_splits option.splits)
    have "distinct (result_ids j')"
      unfolding j' update_rows_def
      by (rule result_ids_bind [where a = a and rid = rid])
        (use assms free in \<open>auto simp: journal_inv_def result_id_free_def list_all_iff\<close>)
    moreover have "case_row_step r (r\<lparr>jc_state := ''pending'', jc_result_id := Some rid, jc_payload := p\<rparr>) \<and>
        case_row_ok (r\<lparr>jc_state := ''pending'', jc_result_id := Some rid, jc_payload := p\<rparr>)"
      if "r \<in> set j" "?hit r" for r
      using that assms by (auto simp: case_row_step_def case_row_ok_def journal_states_def case_step.intros journal_inv_def list_all_iff)
    moreover have "case_row_ok r" if "r \<in> set j" for r using that assms by (auto simp: journal_inv_def list_all_iff)
    ultimately show ?thesis
      using run j' unfolding journal_effect_def
      by (intro disjI2) (rule exI [of _ "\<lambda>r. if ?hit r then r\<lparr>jc_state := ''pending'', jc_result_id := Some rid, jc_payload := p\<rparr> else r"],
        auto simp: update_rows_def)
  qed (simp add: run journal_effect_def)
qed

lemma unique_attempt:
  "journal_inv j \<Longrightarrow> r \<in> set j \<Longrightarrow> q \<in> set j \<Longrightarrow> jc_attempt_id r = jc_attempt_id q \<Longrightarrow> r = q"
  by (auto simp: journal_inv_def distinct_map dest: inj_onD)

lemma unique_result_id:
  "distinct (result_ids j) \<Longrightarrow> r \<in> set j \<Longrightarrow> q \<in> set j \<Longrightarrow> jc_result_id r = Some x \<Longrightarrow> jc_result_id q = Some x \<Longrightarrow> r = q"
proof (induction j)
  case (Cons y j)
  show ?case
  proof (cases "r = y \<or> q = y")
    case True
    then show ?thesis using Cons.prems set_result_ids [of x j] by (auto split: option.splits)
  next
    case False
    then show ?thesis using Cons.prems by (intro Cons.IH) (auto split: option.splits)
  qed
qed simp

lemma mark_unknown_effect:
  assumes "journal_inv j"
  shows "journal_effect j (snd (mark_unknown io pf a reason ev c j))"
proof -
  obtain out j' where run: "mark_unknown io pf a reason ev c j = (out, j')"
    by (cases "mark_unknown io pf a reason ev c j") auto
  from run [unfolded mark_unknown_def] show ?thesis
  proof (cases rule: journal_transaction_cases)
    case (committed u)
    then obtain p row where row: "dispatching_row a j = Some row"
      and j': "j' = update_rows (\<lambda>r. jc_attempt_id r = a) (\<lambda>r. r\<lparr>jc_state := ''unknown'', jc_payload := p\<rparr>) j"
      by (auto split: if_splits option.splits)
    from row have "row \<in> set j" "jc_attempt_id row = a" "jc_state row = ''dispatching''"
      by (auto simp: dispatching_row_def dest: find_SomeD)
    then have "jc_state r = ''dispatching''" if "r \<in> set j" "jc_attempt_id r = a" for r
      using unique_attempt [OF assms that(1)] that(2) by force
    then have "journal_effect j j'"
      unfolding j' using assms
      by (intro update_effect) (auto simp: case_row_step_def case_row_ok_def journal_states_def closed_states_def case_step.intros
          journal_inv_def list_all_iff)
    then show ?thesis by (simp add: run)
  qed (simp add: run journal_effect_def)
qed

lemma finish_case_effect:
  assumes "journal_inv j"
  shows "journal_effect j (snd (finish_case io pf rid v st j))"
proof (cases "st \<in> {''classified'', ''failed''}")
  case True
  obtain out j' where run: "finish_case io pf rid v st j = (out, j')" by (cases "finish_case io pf rid v st j") auto
  have closed: "\<not> st \<notin> {''classified'', ''failed''}" using True by simp
  from run [unfolded finish_case_def if_not_P [OF closed]] show ?thesis
  proof (cases rule: journal_transaction_cases)
    case (committed u)
    then obtain doc where j': "j' = update_rows (\<lambda>r. jc_result_id r = Some rid \<and> jc_state r = ''pending'')
        (\<lambda>r. r\<lparr>jc_state := st, jc_result := doc\<rparr>) j"
      by (auto simp: Let_def split: if_splits option.splits)
    have "journal_effect j j'"
      unfolding j' using assms True
      by (intro update_effect) (auto simp: case_row_step_def case_row_ok_def journal_states_def closed_states_def case_step.intros
          journal_inv_def list_all_iff)
    then show ?thesis by (simp add: run)
  qed (simp add: run journal_effect_def)
qed (simp add: finish_case_def journal_effect_def)

lemma fail_case_effect:
  assumes "journal_inv j"
  shows "journal_effect j (snd (fail_case io pf rid reason j))"
proof -
  obtain out j' where run: "fail_case io pf rid reason j = (out, j')" by (cases "fail_case io pf rid reason j") auto
  from run [unfolded fail_case_def] show ?thesis
  proof (cases rule: journal_transaction_cases)
    case (committed u)
    then obtain doc row where row: "pending_row rid j = Some row"
      and j': "j' = update_rows (\<lambda>r. jc_result_id r = Some rid) (\<lambda>r. r\<lparr>jc_state := ''failed'', jc_result := doc\<rparr>) j"
      by (auto split: if_splits option.splits)
    from row have "row \<in> set j" "jc_result_id row = Some rid" "jc_state row = ''pending''"
      by (auto simp: pending_row_def dest: find_SomeD)
    then have "jc_state r = ''pending''" if "r \<in> set j" "jc_result_id r = Some rid" for r
      using unique_result_id [of j r row rid] that assms by (auto simp: journal_inv_def)
    then have "journal_effect j j'"
      unfolding j' using assms
      by (intro update_effect) (auto simp: case_row_step_def case_row_ok_def journal_states_def closed_states_def case_step.intros
          journal_inv_def list_all_iff)
    then show ?thesis by (simp add: run)
  qed (simp add: run journal_effect_def)
qed

lemma those_map_SomeD: "those (map f xs) = Some ys \<Longrightarrow> ys = map (\<lambda>x. the (f x)) xs \<and> (\<forall>x\<in>set xs. f x \<noteq> None)"
  by (induction xs arbitrary: ys) (auto split: option.splits)

lemma those_map_Some: "(\<And>x. x \<in> set xs \<Longrightarrow> f x = Some (g x)) \<Longrightarrow> those (map f xs) = Some (map g xs)"
  by (induction xs) auto

lemma migrate_inv: "journal_inv j \<Longrightarrow> migrate_authorization_ids j = Some j"
proof -
  assume inv: "journal_inv j"
  have "those (map migrate_row j) = Some (map id j)"
    using inv by (intro those_map_Some) (auto simp: migrate_row_def journal_inv_def list_all_iff case_row_ok_def split: option.split)
  then show ?thesis
    using inv by (auto simp: migrate_authorization_ids_def journal_inv_def list_all_iff list_ex_iff case_row_ok_def)
qed

lemma open_journal_Inr:
  assumes "open_journal ab par ex cr ch io pf j = (Inr u, j')"
  shows "Option.bind (migrate_authorization_ids j) (\<lambda>rs. those (map (recover_row pf) rs)) = Some j'"
  using assms by (auto simp: open_journal_def journal_transaction_def split: if_splits sum.splits option.splits prod.splits)
    (auto simp: bindE_Inr_iff split: if_splits option.splits)

lemma open_journal_Inl: "open_journal ab par ex cr ch io pf j = (Inl e, j') \<Longrightarrow> j' = j"
  by (auto simp: open_journal_def journal_transaction_def split: if_splits sum.splits option.splits prod.splits)

lemma recover_row_step:
  "case_row_ok r \<Longrightarrow> recover_row pf r = Some r' \<Longrightarrow>
   case_row_step r r' \<and> case_row_ok r' \<and> jc_result_id r' = jc_result_id r \<and> jc_state r' \<in> closed_states"
  by (auto simp: recover_row_def case_row_step_def case_row_ok_def journal_states_def closed_states_def case_step.intros
      bind_eq_Some_conv split: if_splits)

lemma open_journal_effect:
  assumes "journal_inv j"
  shows "journal_effect j (snd (open_journal ab par ex cr ch io pf j))"
proof (cases "open_journal ab par ex cr ch io pf j")
  case (Pair out j')
  show ?thesis
  proof (cases out)
    case (Inr u)
    have some: "those (map (recover_row pf) j) = Some j'"
      using open_journal_Inr [OF Pair [unfolded Inr]] migrate_inv [OF assms] by simp
    note j' = those_map_SomeD [OF some]
    have "case_row_step r (the (recover_row pf r)) \<and> case_row_ok (the (recover_row pf r)) \<and>
        jc_result_id (the (recover_row pf r)) = jc_result_id r" if "r \<in> set j" for r
      using that j' recover_row_step [of r pf] assms by (fastforce simp: journal_inv_def list_all_iff)
    moreover from this have "result_ids j' = result_ids j"
      using j' same_result_ids [of j "\<lambda>r. the (recover_row pf r)"] by simp
    ultimately show ?thesis
      using j' assms unfolding Pair snd_conv journal_effect_def
      by (intro disjI2) (rule exI [of _ "\<lambda>r. the (recover_row pf r)"], auto simp: journal_inv_def)
  qed (use Pair open_journal_Inl in \<open>auto simp: journal_effect_def\<close>)
qed

lemma journal_step_effect: "journal_inv j \<Longrightarrow> journal_effect j (snd (journal_step pf x j))"
  by (cases x) (simp_all add: begin_case_effect bind_case_effect mark_unknown_effect finish_case_effect
      fail_case_effect open_journal_effect forget_result_def)

interpretation case_journal: guarded_machine "journal_step pf" journal_inv journal_later
  for pf :: "string \<Rightarrow> pyfloat"
  by unfold_locales
    (use journal_effect_later journal_step_effect in \<open>blast intro: journal_later_refl journal_later_trans\<close>)+

section \<open>One dispatch for an authorization\<close>

definition authorization_used :: "string \<Rightarrow> journal \<Rightarrow> bool" where
  "authorization_used aid j \<longleftrightarrow> list_ex (\<lambda>r. jc_authorization_id r = Some aid) j"

fun begins_dispatch :: "(string \<Rightarrow> pyfloat) \<Rightarrow> journal_op \<Rightarrow> journal \<Rightarrow> string \<Rightarrow> bool" where
  "begins_dispatch pf (Begin io a e p) j aid \<longleftrightarrow>
     is_ok (fst (begin_case io pf a e p j)) \<and> nonempty_str (dict_get p ''authorization_id'') = Some aid"
| "begins_dispatch pf _ j aid \<longleftrightarrow> False"

lemma later_authorizations: "row_later r r' \<Longrightarrow> jc_authorization_id r' = jc_authorization_id r"
  unfolding row_later_def by (induction rule: rtranclp_induct) (auto simp: case_row_step_def)

lemma used_later: "journal_later j j' \<Longrightarrow> authorization_used aid j \<Longrightarrow> authorization_used aid j'"
  by (fastforce simp: journal_later_def authorization_used_def list_ex_iff in_set_conv_nth list_all2_conv_all_nth
      dest: later_authorizations)

lemma begin_case_Inr:
  assumes "begin_case io pf a e p j = (Inr u, j')" "nonempty_str (dict_get p ''authorization_id'') = Some aid"
  shows "\<not> authorization_used aid j \<and> authorization_used aid j'"
  using assms(1) [unfolded begin_case_def assms(2) option.case]
  by (cases rule: journal_transaction_cases)
    (auto simp: authorization_used_def list_ex_iff insert_row_def split: if_splits option.splits)

interpretation dispatches: one_time_machine "journal_step pf" journal_inv authorization_used "begins_dispatch pf"
  for pf :: "string \<Rightarrow> pyfloat"
proof unfold_locales
  fix j x aid
  assume inv: "journal_inv j"
  show "journal_inv (snd (journal_step pf x j))" by (rule case_journal.step_inv [OF inv])
  show "authorization_used aid (snd (journal_step pf x j))" if "authorization_used aid j"
    using used_later [OF case_journal.step_mono [OF inv] that] .
  show "\<not> authorization_used aid j" if "begins_dispatch pf x j aid"
    using that begin_case_Inr by (cases x) (auto simp: is_ok_iff, metis prod.collapse)
  show "authorization_used aid (snd (journal_step pf x j))" if "begins_dispatch pf x j aid"
    using that begin_case_Inr by (cases x) (auto simp: is_ok_iff, metis prod.collapse)
qed

text \<open>
  C12. In every sequence of journal operations, restarts and failed operations included, an execution
  authorization begins at most one dispatch.
\<close>

theorem authorization_dispatched_once:
  assumes "journal_inv j" "i < k" "k < length ops"
    and "begins_dispatch pf (ops ! i) (run_ops (journal_step pf) (take i ops) j) aid"
  shows "\<not> begins_dispatch pf (ops ! k) (run_ops (journal_step pf) (take k ops) j) aid"
  using assms by (rule dispatches.no_second_grant)

definition sample_view :: path_view where
  "sample_view = \<lparr>pv_reopened = Some (1, 2), pv_file = Some \<lparr>fv_regular = True, fv_uid = 7, fv_mode = 6 * 64, fv_identity = (1, 3)\<rparr>\<rparr>"

definition sample_io :: journal_io where
  "sample_io = \<lparr>io_euid = 7, io_parent = (1, 2), io_expected = sample_view, io_opened = Some (1, 3), io_connects = True,
     io_current = sample_view, io_sql = True\<rparr>"

definition sample_payload :: dict where
  "sample_payload = [(''authorization_id'', JStr ''auth-1'')]"

abbreviation float_nan :: "string \<Rightarrow> pyfloat" where
  "float_nan \<equiv> \<lambda>_. NanF"

lemma empty_journal_inv: "journal_inv []"
  by (simp add: journal_inv_def)

lemma connect_sample [simp]: "connect sample_io = Inr ()" "io_sql sample_io"
  by code_simp+

lemma sample_auth: "nonempty_str (dict_get sample_payload ''authorization_id'') = Some ''auth-1''"
  by code_simp

theorem authorization_dispatched_once_witness:
  "\<not> begins_dispatch float_nan (Begin sample_io ''a2'' ''env'' sample_payload)
     (run_ops (journal_step float_nan) [Begin sample_io ''a1'' ''env'' sample_payload] []) ''auth-1''"
proof -
  let ?ops = "[Begin sample_io ''a1'' ''env'' sample_payload, Begin sample_io ''a2'' ''env'' sample_payload]"
  have "is_ok (fst (begin_case sample_io float_nan ''a1'' ''env'' sample_payload []))" by code_simp
  then have "begins_dispatch float_nan (?ops ! 0) (run_ops (journal_step float_nan) (take 0 ?ops) []) ''auth-1''"
    by (simp add: sample_auth)
  from authorization_dispatched_once [OF empty_journal_inv _ _ this, of 1] show ?thesis by simp
qed

section \<open>Cases\<close>

definition case_state :: "string \<Rightarrow> journal \<Rightarrow> string option" where
  "case_state a j = map_option jc_state (select_row jc_attempt_id a j)"

lemma select_row_map:
  "(\<And>r. r \<in> set j \<Longrightarrow> key (f r) = key r) \<Longrightarrow> select_row key k (map f j) = map_option f (select_row key k j)"
  by (induction j) auto

lemma effect_case_step:
  assumes "journal_effect j j'"
  shows "case_state a j' = case_state a j \<or> case_step (case_state a j) (case_state a j')"
  using assms unfolding journal_effect_def
proof (elim disjE exE conjE)
  fix r assume "fresh_row r j" "j' = insert_row r j"
  then show ?thesis
    by (auto simp: case_state_def select_insert_row fresh_row_def case_step.intros
        select_row_None_iff [symmetric] split: option.splits)
next
  fix f assume f: "j' = map f j" "\<forall>r\<in>set j. case_row_step r (f r) \<and> case_row_ok (f r)"
  then have "select_row jc_attempt_id a j' = map_option f (select_row jc_attempt_id a j)"
    by (auto simp: case_row_step_def intro!: select_row_map)
  moreover have "f r = r \<or> case_step (Some (jc_state r)) (Some (jc_state (f r)))"
    if "select_row jc_attempt_id a j = Some r" for r
    using f(2) select_row_SomeD [OF that] by (auto simp: case_row_step_def)
  ultimately show ?thesis
    by (cases "select_row jc_attempt_id a j") (auto simp: case_state_def)
qed simp

text \<open>
  C20. The journal implements the life cycle of a case: every operation on the whole table, whether it
  succeeds or raises, leaves each attempt where it was or moves it by one step of the abstract machine
  (recorded, then pending or unknown, and from pending classified or failed).
\<close>

theorem journal_refines_case_cycle:
  assumes "journal_inv j" "snd (journal_step pf x j) = j'"
  shows "case_state a j' = case_state a j \<or> case_step (case_state a j) (case_state a j')"
  using effect_case_step [OF journal_step_effect [OF assms(1)]] assms(2) by blast

theorem journal_refines_case_cycle_witness:
  "case_step None (case_state ''a1'' (snd (journal_step float_nan (Begin sample_io ''a1'' ''env'' sample_payload) [])))"
proof -
  have "case_state ''a1'' (snd (journal_step float_nan (Begin sample_io ''a1'' ''env'' sample_payload) [])) =
      Some ''dispatching''"
    by code_simp
  moreover have "case_state ''a1'' [] = None" by (simp add: case_state_def)
  ultimately show ?thesis
    using journal_refines_case_cycle [OF empty_journal_inv refl, of "''a1''" float_nan "Begin sample_io ''a1'' ''env'' sample_payload"]
    by (metis option.distinct(1))
qed

lemma closed_row_later: "row_later r r' \<Longrightarrow> jc_state r \<in> closed_states \<Longrightarrow> r' = r"
  unfolding row_later_def
  by (induction rule: rtranclp_induct) (auto simp: case_row_step_def closed_states_def case_step_simps)

text \<open>
  A case that is classified, failed or unknown is never changed again: its row, outcome included,
  stands in the table after any sequence of operations and restarts.
\<close>

theorem closed_case_is_final:
  assumes "journal_inv j" "r \<in> set j" "jc_state r \<in> {''classified'', ''failed'', ''unknown''}"
  shows "r \<in> set (run_ops (journal_step pf) ops j)"
proof -
  from case_journal.run_mono [OF assms(1), of pf ops] obtain old new where
    run: "run_ops (journal_step pf) ops j = old @ new" "list_all2 row_later j old"
    by (auto simp: journal_later_def)
  from assms(2) obtain n where n: "n < length j" "j ! n = r" by (auto simp: in_set_conv_nth)
  with run(2) have "row_later r (old ! n)" "n < length old" by (auto simp: list_all2_conv_all_nth)
  with closed_row_later [of r] assms(3) have "old ! n = r" by (auto simp: closed_states_def)
  with \<open>n < length old\<close> run(1) show ?thesis by (metis Un_iff nth_mem set_append)
qed

definition sample_closed :: case_row where
  "sample_closed = \<lparr>jc_attempt_id = ''a1'', jc_result_id = Some ''r1'', jc_environment_id = ''env'', jc_state = ''failed'',
     jc_payload = Doc (JObj []), jc_result = Doc (JObj []), jc_authorization_id = Some ''auth-1''\<rparr>"

theorem closed_case_is_final_witness:
  "sample_closed \<in> set (run_ops (journal_step float_nan) [Fail sample_io ''r1'' ''late'', Begin sample_io ''a2'' ''env'' sample_payload] [sample_closed])"
  by (rule closed_case_is_final)
    (simp_all add: sample_closed_def journal_inv_def case_row_ok_def journal_states_def closed_states_def)

text \<open>
  C36. Opening a journal, an older one without authorization identifiers included, either raises and leaves
  the table unchanged or leaves no case open: every row that was dispatching is unknown, every
  pending one failed, the others are as they were, and the authorizations are present and distinct.
\<close>

theorem restart_closes_cases:
  assumes "open_journal absolute parent exists' created checked io pf j = (out, j')"
  shows "(\<exists>e. out = Inl e \<and> j' = j) \<or>
    out = Inr () \<and> distinct (map jc_authorization_id j') \<and> map jc_attempt_id j' = map jc_attempt_id j \<and>
    map jc_state j' = map (\<lambda>r. if jc_state r = ''pending'' then ''failed''
       else if jc_state r = ''dispatching'' then ''unknown'' else jc_state r) j \<and>
    list_all (\<lambda>r. \<exists>aid. jc_authorization_id r = Some aid \<and> aid \<noteq> []) j'"
proof (cases out)
  case (Inr u)
  from open_journal_Inr [OF assms [unfolded Inr]] obtain rs where
    rs: "migrate_authorization_ids j = Some rs" "those (map (recover_row pf) rs) = Some j'"
    by (auto simp: bind_eq_Some_conv)
  from rs(1) have m: "those (map migrate_row j) = Some rs" "\<not> list_ex (\<lambda>r. jc_authorization_id r = Some []) rs"
      "distinct (map jc_authorization_id rs)"
    by (auto simp: migrate_authorization_ids_def bind_eq_Some_conv split: if_splits)
  note j' = those_map_SomeD [OF rs(2)] and migrated = those_map_SomeD [OF m(1)]
  have rec: "jc_authorization_id (the (recover_row pf r)) = jc_authorization_id r \<and>
      jc_attempt_id (the (recover_row pf r)) = jc_attempt_id r \<and>
      jc_state (the (recover_row pf r)) = (if jc_state r = ''pending'' then ''failed''
         else if jc_state r = ''dispatching'' then ''unknown'' else jc_state r)" if "r \<in> set rs" for r
    using that j' by (fastforce simp: recover_row_def split: if_splits)
  have mig: "jc_authorization_id (the (migrate_row r)) \<noteq> None \<and>
      jc_attempt_id (the (migrate_row r)) = jc_attempt_id r \<and> jc_state (the (migrate_row r)) = jc_state r"
    if "r \<in> set j" for r
    using that migrated by (fastforce simp: migrate_row_def split: option.splits)
  have "map jc_authorization_id j' = map jc_authorization_id rs" using rec by (simp add: j')
  moreover have "jc_authorization_id r \<noteq> None \<and> jc_authorization_id r \<noteq> Some []" if "r \<in> set rs" for r
    using that m(2) migrated mig by (auto simp: list_ex_iff)
  moreover have "map jc_attempt_id j' = map jc_attempt_id rs" "map jc_attempt_id rs = map jc_attempt_id j"
    using rec mig j' migrated by simp_all
  moreover have "map jc_state j' = map (\<lambda>r. if jc_state r = ''pending'' then ''failed''
       else if jc_state r = ''dispatching'' then ''unknown'' else jc_state r) rs"
    using rec j' by simp
  moreover have "map (\<lambda>r. if jc_state r = ''pending'' then ''failed''
       else if jc_state r = ''dispatching'' then ''unknown'' else jc_state r) rs = map (\<lambda>r. if jc_state r = ''pending'' then ''failed''
       else if jc_state r = ''dispatching'' then ''unknown'' else jc_state r) j"
    using mig migrated by simp
  moreover have "\<exists>aid. jc_authorization_id r = Some aid \<and> aid \<noteq> []" if "r \<in> set j'" for r
    using that calculation(2) rec j' by (metis (no_types, lifting) image_iff list.set_map not_None_eq)
  ultimately show ?thesis
    using m(3) by (simp add: Inr list_all_iff)
qed (use assms open_journal_Inl in blast)

theorem restart_closes_cases_witness:
  "map jc_state (snd (open_journal True (Some \<lparr>fv_regular = False, fv_uid = 7, fv_mode = 7 * 64, fv_identity = (1, 2)\<rparr>)
     (Some True) AlreadyExists sample_view sample_io float_nan
     (snd (begin_case sample_io float_nan ''a1'' ''env'' sample_payload [])))) = [''unknown'']"
proof -
  let ?j = "snd (begin_case sample_io float_nan ''a1'' ''env'' sample_payload [])"
  let ?run = "open_journal True (Some \<lparr>fv_regular = False, fv_uid = 7, fv_mode = 7 * 64, fv_identity = (1, 2)\<rparr>)
     (Some True) AlreadyExists sample_view sample_io float_nan ?j"
  have "is_ok (fst ?run)" by code_simp
  moreover have "map jc_state ?j = [''dispatching'']" by code_simp
  moreover have "?run = (fst ?run, snd ?run)" by simp
  note restart_closes_cases [OF this]
  ultimately show ?thesis by (auto simp: is_ok_iff)
qed

end
