(* ===== verification/Urlsplit.thy ===== *)
theory Urlsplit
  imports Ipaddress
begin

text \<open>
  \<^verbatim>\<open>urllib.parse.urlsplit\<close> (CPython 3.11) with the attributes of its result that the gateway checks
  read: scheme, network location, path, query, fragment, host name, port, user name and password.
  \<open>Inl ()\<close> is a \<^verbatim>\<open>ValueError\<close>.
\<close>

record url_parts =
  up_scheme :: string
  up_netloc :: string
  up_path :: string
  up_query :: string
  up_fragment :: string

definition clean_url :: "string \<Rightarrow> string" where
  "clean_url url = filter (\<lambda>c. c \<notin> {CHR 0x09, CHR 0x0A, CHR 0x0D}) (dropWhile (\<lambda>c. (of_char c :: nat) \<le> 32) url)"

definition url_scheme :: "string \<Rightarrow> string" where
  "url_scheme url = (if strip_scheme url = url then [] else lower (before_char (CHR '':'') url))"

definition after_netloc :: "string \<Rightarrow> string" where
  "after_netloc rest = (if prefix ''//'' rest then dropWhile (\<lambda>c. c \<notin> set ''/?#'') (drop 2 rest) else rest)"

definition urlsplit :: "string \<Rightarrow> (unit, url_parts) result" where
  "urlsplit url =
     (let cleaned = clean_url url; netloc = url_netloc url;
          tail = after_netloc (strip_scheme cleaned); head = before_char (CHR ''#'') tail
      in if \<not> netloc_ok netloc then Inl ()
         else Inr \<lparr>up_scheme = url_scheme cleaned, up_netloc = netloc, up_path = before_char (CHR ''?'') head,
           up_query = after_char (CHR ''?'') head, up_fragment = after_char (CHR ''#'') tail\<rparr>)"

definition up_hostname :: "url_parts \<Rightarrow> string option" where
  "up_hostname u = netloc_hostname (up_netloc u)"

definition port_text :: "string \<Rightarrow> string" where
  "port_text netloc =
     (let info = after_last_char (CHR ''@'') netloc in
      if CHR ''['' \<in> set info then after_char (CHR '':'') (after_char (CHR '']'') (after_char (CHR ''['') info))
      else after_char (CHR '':'') info)"

definition up_port :: "url_parts \<Rightarrow> (unit, int option) result" where
  "up_port u =
     (let p = port_text (up_netloc u) in
      if p = [] then Inr None
      else if \<not> list_all is_digit p \<or> MAX_INT_DIGITS < length p \<or> 65535 < nat_of_digits p then Inl ()
      else Inr (Some (nat_of_digits p)))"

text \<open>\<^verbatim>\<open>username\<close> and \<^verbatim>\<open>password\<close>; \<open>None\<close> where the property is \<^verbatim>\<open>None\<close>.\<close>

definition userinfo :: "string \<Rightarrow> string option" where
  "userinfo netloc =
     (if CHR ''@'' \<in> set netloc then Some (take (length netloc - length (after_last_char (CHR ''@'') netloc) - 1) netloc) else None)"

definition up_username :: "url_parts \<Rightarrow> string option" where
  "up_username u = map_option (before_char (CHR '':'')) (userinfo (up_netloc u))"

definition up_password :: "url_parts \<Rightarrow> string option" where
  "up_password u = Option.bind (userinfo (up_netloc u)) (\<lambda>i. if CHR '':'' \<in> set i then Some (after_char (CHR '':'') i) else None)"

end
