(* ===== verification/Base64.thy ===== *)
theory Base64
  imports Prelude
begin

text \<open>
  Python's \<^verbatim>\<open>base64.b64encode\<close> and \<^verbatim>\<open>base64.b64decode(s, validate=True)\<close> (CPython 3.11): a byte is a
  natural number below 256. The decoder is the state machine of \<^verbatim>\<open>binascii.a2b_base64\<close> in strict mode;
  \<open>b64_roundtrip\<close> shows that it reads back what the encoder writes.
\<close>

definition b64_char :: "nat \<Rightarrow> char" where
  "b64_char n = char_of
     (if n < 26 then 65 + n else if n < 52 then 71 + n else if n < 62 then n - 4 else if n = 62 then 43 else 47)"

definition b64_val :: "char \<Rightarrow> nat option" where
  "b64_val c = (let k = (of_char c :: nat) in
     if 65 \<le> k \<and> k \<le> 90 then Some (k - 65)
     else if 97 \<le> k \<and> k \<le> 122 then Some (k - 71)
     else if 48 \<le> k \<and> k \<le> 57 then Some (k + 4)
     else if k = 43 then Some 62
     else if k = 47 then Some 63
     else None)"

fun b64encode :: "nat list \<Rightarrow> string" where
  "b64encode [] = []"
| "b64encode [a] = [b64_char (a div 4), b64_char (a mod 4 * 16), CHR ''='', CHR ''='']"
| "b64encode [a, b] = [b64_char (a div 4), b64_char (a mod 4 * 16 + b div 16), b64_char (b mod 16 * 4), CHR ''='']"
| "b64encode (a # b # c # bs) =
     b64_char (a div 4) # b64_char (a mod 4 * 16 + b div 16) # b64_char (b mod 16 * 4 + c div 64) # b64_char (c mod 64) #
     b64encode bs"

text \<open>The state: the position in the group of four, the bits carried over, the padding seen in this group,
  and whether padding has started.\<close>

fun b64_scan :: "string \<Rightarrow> nat \<Rightarrow> nat \<Rightarrow> nat \<Rightarrow> bool \<Rightarrow> nat list option" where
  "b64_scan [] pos left pads started = (if pos = 0 then Some [] else None)"
| "b64_scan (c # s) pos left pads started =
     (if c = CHR ''='' then
        if 2 \<le> pos \<and> 4 \<le> pos + Suc pads then (if s = [] then Some [] else None)
        else b64_scan s pos left (if 2 \<le> pos then Suc pads else pads) True
      else case b64_val c of
        None \<Rightarrow> None
      | Some v \<Rightarrow>
          if started then None
          else if pos = 0 then b64_scan s 1 v 0 started
          else if pos = 1 then map_option (\<lambda>bs. (left * 4 + v div 16) # bs) (b64_scan s 2 (v mod 16) 0 started)
          else if pos = 2 then map_option (\<lambda>bs. (left * 16 + v div 4) # bs) (b64_scan s 3 (v mod 4) 0 started)
          else map_option (\<lambda>bs. (left * 64 + v) # bs) (b64_scan s 0 0 0 started))"

definition b64decode :: "string \<Rightarrow> nat list option" where
  "b64decode s = (if prefix ''='' s then None else b64_scan s 0 0 0 False)"

lemma b64_val_char [simp]: "n < 64 \<Longrightarrow> b64_val (b64_char n) = Some n"
  by (auto simp: b64_val_def b64_char_def Let_def)

lemma b64_char_not_pad [simp]: "n < 64 \<Longrightarrow> b64_char n \<noteq> CHR ''=''"
  using b64_val_char [of n] by (auto simp: b64_val_def)

lemma sextets:
  fixes a b c :: nat
  assumes "a < 256" "b < 256" "c < 256"
  shows "a div 4 < 64" "a mod 4 * 16 + b div 16 < 64" "b mod 16 * 4 + c div 64 < 64" "c mod 64 < 64"
    "a mod 4 * 16 < 64" "b mod 16 * 4 < 64"
proof -
  have "b div 16 < 16" "c div 64 < 4" using assms by auto
  moreover have "a mod 4 \<le> 3" "b mod 16 \<le> 15" by (simp_all add: less_Suc_eq_le [symmetric])
  ultimately show "a mod 4 * 16 + b div 16 < 64" "b mod 16 * 4 + c div 64 < 64" "a mod 4 * 16 < 64" "b mod 16 * 4 < 64"
    by linarith+
  show "a div 4 < 64" "c mod 64 < 64" using assms by auto
qed

lemma low_div: "b < 256 \<Longrightarrow> b div 16 div 16 = 0" "b < 256 \<Longrightarrow> b div 16 mod 16 = b div 16"
    "c < 256 \<Longrightarrow> c div 64 div 4 = 0" "c < 256 \<Longrightarrow> c div 64 mod 4 = c div 64" for b c :: nat
  by (auto simp: div_mult2_eq [symmetric])

lemma b64_scan_encode: "list_all (\<lambda>b. b < 256) bs \<Longrightarrow> b64_scan (b64encode bs) 0 0 0 False = Some bs"
proof (induction bs rule: b64encode.induct)
  case (2 a)
  then show ?case using sextets [of a 0 0] by simp
next
  case (3 a b)
  then show ?case using sextets [of a b 0] by (simp add: low_div)
next
  case (4 a b c bs)
  then show ?case using sextets [of a b c] by (simp add: low_div)
qed simp

lemma b64encode_head: "list_all (\<lambda>b. b < 256) bs \<Longrightarrow> \<not> prefix ''='' (b64encode bs)"
  by (induction bs rule: b64encode.induct) (auto simp: sextets(1) [of _ 0 0] dest: sym)

lemma b64_roundtrip: "list_all (\<lambda>b. b < 256) bs \<Longrightarrow> b64decode (b64encode bs) = Some bs"
  by (simp add: b64decode_def b64encode_head b64_scan_encode)

lemma b64encode_length: "3 * length (b64encode bs) \<ge> 4 * length bs"
  by (induction bs rule: b64encode.induct) auto

end
