(* ===== verification/Gateway_Dispatch.thy ===== *)
theory Gateway_Dispatch
  imports Urlsplit Base64 Approval_Store
begin

text \<open>
  \<^verbatim>\<open>cops/execution/gateway_dispatch.py\<close>: signed, one-use dispatch grants of the operator gateway, their
  trust store, the durable replay store, the check before transport, the gateway emulator and the
  envelope that carries a grant with its request body.

  Ed25519 and SHA-256 are arguments (\<open>ed_sign\<close>, \<open>ed_verify\<close>, \<open>sha\<close>), as are the clock, the file status and
  the provider's handler. The table \<^verbatim>\<open>consumed_dispatches\<close> is the list of its rows; the calls of the handler
  are logged beside it. A text beyond Latin-1 in a file or an envelope is taken as malformed.
\<close>

section \<open>Checks of single values\<close>

datatype gateway_exc =
    Denied
  | SigningFailed
  | TrustUnavailable
  | Replayed
  | StoreUnavailable
  | ResponseInvalid
  | FailedAfterConsumption
  | GatewayTypeError
  | GatewayEvidence evidence_error

definition GATEWAY_DISPATCH_SCHEMA :: string where
  "GATEWAY_DISPATCH_SCHEMA = ''cops.operator-gateway-dispatch/v2''"

definition GATEWAY_DISPATCH_TRUST_SCHEMA :: string where
  "GATEWAY_DISPATCH_TRUST_SCHEMA = ''cops.operator-gateway-dispatch-trust-store/v1''"

definition GATEWAY_DISPATCH_ENVELOPE_SCHEMA :: string where
  "GATEWAY_DISPATCH_ENVELOPE_SCHEMA = ''cops.operator-gateway-envelope/v2''"

definition MAX_GATEWAY_DISPATCH_TTL_SECONDS :: int where
  "MAX_GATEWAY_DISPATCH_TTL_SECONDS = 300"

definition MAX_GRANT_BYTES :: int where
  "MAX_GRANT_BYTES = 16 * 1024"

definition MAX_TRUST_BYTES :: int where
  "MAX_TRUST_BYTES = 64 * 1024"

definition MAX_BODY_BYTES :: int where
  "MAX_BODY_BYTES = 16 * 1024 * 1024"

definition MAX_ENVELOPE_BYTES :: int where
  "MAX_ENVELOPE_BYTES = 16 * 1024 * 1024 + MAX_GRANT_BYTES"

definition token_ok :: "string \<Rightarrow> bool" where
  "token_ok s \<longleftrightarrow> (case s of
       [] \<Rightarrow> False
     | c # cs \<Rightarrow> is_alnum_ascii c \<and> length cs \<le> 127 \<and> list_all (\<lambda>x. is_alnum_ascii x \<or> x \<in> set ''._:/-'') cs)"

definition lower_hex :: "char \<Rightarrow> bool" where
  "lower_hex c \<longleftrightarrow> is_digit c \<or> c \<in> set ''abcdef''"

definition hash_ok :: "string \<Rightarrow> bool" where
  "hash_ok s \<longleftrightarrow> length s = 64 \<and> list_all lower_hex s"

definition signature_ok :: "string \<Rightarrow> bool" where
  "signature_ok s \<longleftrightarrow> length s = 128 \<and> list_all lower_hex s"

definition visible_ascii :: "char \<Rightarrow> bool" where
  "visible_ascii c \<longleftrightarrow> 0x21 \<le> (of_char c :: nat) \<and> (of_char c :: nat) \<le> 0x7E"

text \<open>\<^verbatim>\<open>urlsplit(value)\<close> with its \<^verbatim>\<open>hostname\<close> and \<^verbatim>\<open>port\<close>; \<open>None\<close> is the \<^verbatim>\<open>ValueError\<close>.\<close>

definition split_url :: "string \<Rightarrow> (url_parts \<times> string option \<times> int option) option" where
  "split_url value =
     (case urlsplit value of
        Inl _ \<Rightarrow> None
      | Inr u \<Rightarrow> (case up_port u of Inl _ \<Rightarrow> None | Inr port \<Rightarrow> Some (u, up_hostname u, port)))"

definition spiffe_ok :: "string \<Rightarrow> bool" where
  "spiffe_ok value \<longleftrightarrow>
     length value \<le> 255 \<and> prefix ''spiffe://'' value \<and>
     (case split_url value of
        Some (u, Some host, None) \<Rightarrow>
          is_ascii host \<and> up_netloc u = host \<and> prefix ''/'' (up_path u) \<and> up_path u \<noteq> ''/'' \<and>
          up_query u = [] \<and> up_fragment u = [] \<and> list_all visible_ascii value
      | _ \<Rightarrow> False)"

definition falsy_opt :: "string option \<Rightarrow> bool" where
  "falsy_opt v \<longleftrightarrow> v = None \<or> v = Some []"

definition request_target_ok :: "string \<Rightarrow> bool" where
  "request_target_ok value \<longleftrightarrow>
     length value \<le> 2048 \<and> value = strip value \<and>
     (case split_url value of
        Some (u, Some host, None) \<Rightarrow>
          up_scheme u = ''https'' \<and> up_netloc u \<noteq> [] \<and> falsy_opt (up_username u) \<and> falsy_opt (up_password u) \<and>
          up_query u = [] \<and> up_fragment u = [] \<and> up_netloc u = host \<and> is_ascii host \<and>
          ''https://'' @ up_netloc u @ (if up_path u = [] then ''/'' else up_path u) = value
      | _ \<Rightarrow> False)"

definition endpoint_origin_ok :: "string \<Rightarrow> bool" where
  "endpoint_origin_ok value \<longleftrightarrow>
     length value \<le> 2048 \<and> value = strip value \<and>
     (case split_url value of
        Some (u, Some host, port) \<Rightarrow>
          (let authority = (case port of None \<Rightarrow> host | Some p \<Rightarrow> host @ '':'' @ int_text p) in
           up_scheme u = ''https'' \<and> up_username u = None \<and> up_password u = None \<and> up_path u = [] \<and>
           up_query u = [] \<and> up_fragment u = [] \<and> CHR '':'' \<notin> set host \<and> is_ascii host \<and>
           up_netloc u = authority \<and> value = ''https://'' @ authority)
      | _ \<Rightarrow> False)"

definition gateway_path_ok :: "string \<Rightarrow> bool" where
  "gateway_path_ok value \<longleftrightarrow>
     prefix ''/'' value \<and> \<not> prefix ''//'' value \<and> length value \<le> 2048 \<and> list_all visible_ascii value \<and>
     CHR ''?'' \<notin> set value \<and> CHR ''#'' \<notin> set value \<and> backslash \<notin> set value \<and> CHR ''%'' \<notin> set value \<and>
     list_all (\<lambda>seg. seg \<noteq> ''.'' \<and> seg \<noteq> ''..'') (split_on (CHR ''/'') value)"

section \<open>Grants\<close>

record gateway_grant =
  gg_schema_version :: string
  gg_dispatch_id :: string
  gg_authorization_id :: string
  gg_action_plan_id :: string
  gg_plan_digest :: string
  gg_worker_spiffe_id :: string
  gg_provider :: string
  gg_account_or_project_kind :: string
  gg_account_or_project :: string
  gg_region :: string
  gg_model :: string
  gg_gateway_endpoint_id :: string
  gg_request_target :: string
  gg_body_sha256 :: string
  gg_body_bytes :: int
  gg_issued_at :: string
  gg_expires_at :: string
  gg_key_id :: string
  gg_algorithm :: string
  gg_signature :: string

definition unsigned_dict :: "gateway_grant \<Rightarrow> dict" where
  "unsigned_dict g = [
     (''schema_version'', JStr (gg_schema_version g)),
     (''dispatch_id'', JStr (gg_dispatch_id g)),
     (''authorization_id'', JStr (gg_authorization_id g)),
     (''action_plan_id'', JStr (gg_action_plan_id g)),
     (''plan_digest'', JStr (gg_plan_digest g)),
     (''worker_spiffe_id'', JStr (gg_worker_spiffe_id g)),
     (''provider'', JStr (gg_provider g)),
     (''account_or_project_kind'', JStr (gg_account_or_project_kind g)),
     (''account_or_project'', JStr (gg_account_or_project g)),
     (''region'', JStr (gg_region g)),
     (''model'', JStr (gg_model g)),
     (''gateway_endpoint_id'', JStr (gg_gateway_endpoint_id g)),
     (''request_target'', JStr (gg_request_target g)),
     (''body_sha256'', JStr (gg_body_sha256 g)),
     (''body_bytes'', JInt (gg_body_bytes g)),
     (''issued_at'', JStr (gg_issued_at g)),
     (''expires_at'', JStr (gg_expires_at g)),
     (''key_id'', JStr (gg_key_id g)),
     (''algorithm'', JStr (gg_algorithm g))]"

definition grant_to_dict :: "gateway_grant \<Rightarrow> dict" where
  "grant_to_dict g = unsigned_dict g @ [(''signature'', JStr (gg_signature g))]"

definition GRANT_FIELDS :: "string list" where
  "GRANT_FIELDS = [''schema_version'', ''dispatch_id'', ''authorization_id'', ''action_plan_id'', ''plan_digest'', ''worker_spiffe_id'',
     ''provider'', ''account_or_project_kind'', ''account_or_project'', ''region'', ''model'', ''gateway_endpoint_id'', ''request_target'',
     ''body_sha256'', ''body_bytes'', ''issued_at'', ''expires_at'', ''key_id'', ''algorithm'', ''signature'']"

text \<open>Microseconds on the time line; \<open>None\<close> is refused by \<^verbatim>\<open>_require_time\<close>.\<close>

definition window_ok :: "string \<Rightarrow> string \<Rightarrow> bool" where
  "window_ok issued expires =
     (case (parse_timestamp issued, parse_timestamp expires) of
        (Some i, Some e) \<Rightarrow> i < e \<and> e - i \<le> MAX_GATEWAY_DISPATCH_TTL_SECONDS * 1000000
      | _ \<Rightarrow> False)"

definition grant_tokens :: "gateway_grant \<Rightarrow> string list" where
  "grant_tokens g = [gg_dispatch_id g, gg_authorization_id g, gg_action_plan_id g, gg_provider g, gg_account_or_project g, gg_region g,
     gg_model g, gg_gateway_endpoint_id g, gg_key_id g]"

definition grant_valid :: "bool \<Rightarrow> gateway_grant \<Rightarrow> bool" where
  "grant_valid require_signature g \<longleftrightarrow>
     gg_schema_version g = GATEWAY_DISPATCH_SCHEMA \<and> gg_algorithm g = ''ed25519'' \<and>
     list_all token_ok (grant_tokens g) \<and>
     gg_account_or_project_kind g \<in> {''account'', ''project''} \<and>
     hash_ok (gg_plan_digest g) \<and> spiffe_ok (gg_worker_spiffe_id g) \<and> request_target_ok (gg_request_target g) \<and>
     hash_ok (gg_body_sha256 g) \<and> 0 \<le> gg_body_bytes g \<and> gg_body_bytes g \<le> MAX_BODY_BYTES \<and>
     window_ok (gg_issued_at g) (gg_expires_at g) \<and>
     (if require_signature then signature_ok (gg_signature g) else gg_signature g = [])"

definition validate_grant :: "bool \<Rightarrow> gateway_grant \<Rightarrow> (gateway_exc, unit) result" where
  "validate_grant require_signature g = guardE (grant_valid require_signature g) Denied"

definition grant_of_dict :: "dict \<Rightarrow> int \<Rightarrow> gateway_grant" where
  "grant_of_dict d n = \<lparr>gg_schema_version = get_text d ''schema_version'', gg_dispatch_id = get_text d ''dispatch_id'',
     gg_authorization_id = get_text d ''authorization_id'', gg_action_plan_id = get_text d ''action_plan_id'',
     gg_plan_digest = get_text d ''plan_digest'', gg_worker_spiffe_id = get_text d ''worker_spiffe_id'', gg_provider = get_text d ''provider'',
     gg_account_or_project_kind = get_text d ''account_or_project_kind'', gg_account_or_project = get_text d ''account_or_project'',
     gg_region = get_text d ''region'', gg_model = get_text d ''model'', gg_gateway_endpoint_id = get_text d ''gateway_endpoint_id'',
     gg_request_target = get_text d ''request_target'', gg_body_sha256 = get_text d ''body_sha256'', gg_body_bytes = n,
     gg_issued_at = get_text d ''issued_at'', gg_expires_at = get_text d ''expires_at'', gg_key_id = get_text d ''key_id'',
     gg_algorithm = get_text d ''algorithm'', gg_signature = get_text d ''signature''\<rparr>"

text \<open>The fields that are checked before \<^verbatim>\<open>account_or_project_kind not in {...}\<close>, which raises \<^verbatim>\<open>TypeError\<close> for
  a list or a dictionary.\<close>

definition kind_reached :: "dict \<Rightarrow> bool" where
  "kind_reached d \<longleftrightarrow>
     get_str d ''schema_version'' = Some GATEWAY_DISPATCH_SCHEMA \<and> get_str d ''algorithm'' = Some ''ed25519'' \<and>
     list_all (\<lambda>k. case get_str d k of Some s \<Rightarrow> token_ok s | None \<Rightarrow> False)
       [''dispatch_id'', ''authorization_id'', ''action_plan_id'', ''provider'', ''account_or_project'', ''region'', ''model'',
        ''gateway_endpoint_id'', ''key_id'']"

definition unhashable :: "json option \<Rightarrow> bool" where
  "unhashable v = (case v of Some (JList _) \<Rightarrow> True | Some (JObj _) \<Rightarrow> True | _ \<Rightarrow> False)"

definition grant_from_dict :: "json \<Rightarrow> (gateway_exc, gateway_grant) result" where
  "grant_from_dict value =
     (case value of
        JObj d \<Rightarrow>
          if dict_keys d \<noteq> set GRANT_FIELDS then Inl Denied
          else if kind_reached d \<and> unhashable (dict_get d ''account_or_project_kind'') then Inl GatewayTypeError
          else if \<not> list_all (\<lambda>k. k = ''body_bytes'' \<or> get_str d k \<noteq> None) GRANT_FIELDS then Inl Denied
          else (case dict_get d ''body_bytes'' of
             Some (JInt n) \<Rightarrow> bindE (validate_grant True (grant_of_dict d n)) (\<lambda>_. Inr (grant_of_dict d n))
           | _ \<Rightarrow> Inl Denied)
      | _ \<Rightarrow> Inl Denied)"

definition unsigned_bytes :: "gateway_grant \<Rightarrow> (evidence_error, nat list) result" where
  "unsigned_bytes g = canonical (JObj (unsigned_dict g)) MAX_GRANT_BYTES DEFAULT_DEPTH"

definition hex_bytes :: "nat list \<Rightarrow> string" where
  "hex_bytes bs = concat (map (\<lambda>b. [hex_digit (b div 16), hex_digit (b mod 16)]) bs)"

fun fromhex :: "string \<Rightarrow> nat list option" where
  "fromhex [] = Some []"
| "fromhex [c] = None"
| "fromhex (c # d # s) =
     (case (hex_val c, hex_val d, fromhex s) of
        (Some x, Some y, Some bs) \<Rightarrow> Some ((x * 16 + y) # bs)
      | _ \<Rightarrow> None)"

text \<open>\<open>ed_sign\<close> is the caller's key; \<open>None\<close> is an error of the key object. An \<^verbatim>\<open>EvidenceError\<close> is a \<^verbatim>\<open>ValueError\<close>.\<close>

definition sign_gateway_dispatch ::
  "(nat list \<Rightarrow> nat list option) \<Rightarrow> gateway_grant \<Rightarrow> (gateway_exc, gateway_grant) result" where
  "sign_gateway_dispatch ed_sign g =
     bindE (validate_grant False g) (\<lambda>_.
     case unsigned_bytes g of
       Inl _ \<Rightarrow> Inl SigningFailed
     | Inr b \<Rightarrow>
         (case ed_sign b of
            None \<Rightarrow> Inl SigningFailed
          | Some sig \<Rightarrow>
              let signed = g\<lparr>gg_signature := hex_bytes sig\<rparr> in
              bindE (validate_grant True signed) (\<lambda>_. Inr signed)))"

section \<open>Trust store\<close>

type_synonym gateway_keys = "(string \<times> nat list) list"

definition GatewayDispatchTrustStore :: "gateway_keys \<Rightarrow> (gateway_exc, gateway_keys) result" where
  "GatewayDispatchTrustStore keys =
     bindE (guardE (list_all (\<lambda>(k, b). token_ok k \<and> length b = 32) keys \<and> keys \<noteq> []) Denied) (\<lambda>_. Inr keys)"

definition private_file :: "int \<Rightarrow> path_status \<Rightarrow> bool" where
  "private_file euid st \<longleftrightarrow> ps_kind st = RegularFile \<and> ps_uid st = euid \<and> ps_mode st AND 63 = 0"

definition trust_entry :: "json \<Rightarrow> (string \<times> nat list) option" where
  "trust_entry entry =
     (case entry of
        JObj d \<Rightarrow>
          if dict_keys d \<noteq> {''key_id'', ''algorithm'', ''public_key_hex''} \<or> get_str d ''algorithm'' \<noteq> Some ''ed25519'' then None
          else (case (get_str d ''key_id'', get_str d ''public_key_hex'') of
             (Some k, Some h) \<Rightarrow> if token_ok k \<and> hash_ok h then map_option (Pair k) (fromhex h) else None
           | _ \<Rightarrow> None)
      | _ \<Rightarrow> None)"

fun trust_entries :: "json list \<Rightarrow> gateway_keys \<Rightarrow> (gateway_exc, gateway_keys) result" where
  "trust_entries [] keys = Inr keys"
| "trust_entries (entry # entries) keys =
     (case trust_entry entry of
        None \<Rightarrow> Inl Denied
      | Some key \<Rightarrow> if fst key \<in> fst ` set keys then Inl Denied else trust_entries entries (keys @ [key]))"

text \<open>\<open>opened\<close>: the status of the opened descriptor and what one \<^verbatim>\<open>os.read\<close> returns; \<open>None\<close> is an \<^verbatim>\<open>OSError\<close>.\<close>

definition trust_store_of_file ::
  "(string \<Rightarrow> pyfloat) \<Rightarrow> int \<Rightarrow> (path_status \<times> nat list) option \<Rightarrow> (gateway_exc, gateway_keys) result" where
  "trust_store_of_file pf euid opened =
     (case opened of
        None \<Rightarrow> Inl TrustUnavailable
      | Some (st, raw) \<Rightarrow>
          if \<not> private_file euid st \<or> int (length raw) > MAX_TRUST_BYTES then Inl Denied
          else case Option.bind (utf8_decode raw) (\<lambda>s. case loads (plain_hooks pf) s of Inr (JObj d) \<Rightarrow> Some d | _ \<Rightarrow> None) of
            None \<Rightarrow> Inl Denied
          | Some d \<Rightarrow>
              if dict_keys d \<noteq> {''schema_version'', ''keys''} \<or> get_str d ''schema_version'' \<noteq> Some GATEWAY_DISPATCH_TRUST_SCHEMA
              then Inl Denied
              else (case dict_get d ''keys'' of
                 Some (JList (e # es)) \<Rightarrow> bindE (trust_entries (e # es) []) GatewayDispatchTrustStore
               | _ \<Rightarrow> Inl Denied))"

text \<open>The cryptography the module calls: SHA-256 in hexadecimal and the Ed25519 verification of a public key.\<close>

record gateway_crypto =
  gc_sha256 :: "nat list \<Rightarrow> string"
  gc_verify :: "nat list \<Rightarrow> nat list \<Rightarrow> nat list \<Rightarrow> bool"

definition verify_signature :: "gateway_crypto \<Rightarrow> gateway_keys \<Rightarrow> gateway_grant \<Rightarrow> (gateway_exc, unit) result" where
  "verify_signature cr keys g =
     guardE (case (map_of keys (gg_key_id g), fromhex (gg_signature g), unsigned_bytes g) of
        (Some key, Some sig, Inr b) \<Rightarrow> gc_verify cr key sig b
      | _ \<Rightarrow> False) Denied"

text \<open>\<open>now\<close> is \<^verbatim>\<open>current_time_iso\<close>, or the text of \<^verbatim>\<open>utc_now()\<close> where it is \<^verbatim>\<open>None\<close>.\<close>

definition verify_gateway_dispatch ::
  "gateway_crypto \<Rightarrow> gateway_keys \<Rightarrow> string \<Rightarrow> gateway_grant \<Rightarrow> (gateway_exc, unit) result" where
  "verify_gateway_dispatch cr keys now g =
     bindE (validate_grant True g) (\<lambda>_.
     case (parse_timestamp now, parse_timestamp (gg_issued_at g), parse_timestamp (gg_expires_at g)) of
       (Some t, Some i, Some e) \<Rightarrow> if t < i \<or> e < t then Inl Denied else verify_signature cr keys g
     | _ \<Rightarrow> Inl Denied)"

definition gateway_dispatch_descriptor_digest :: "gateway_crypto \<Rightarrow> gateway_grant \<Rightarrow> (gateway_exc, string) result" where
  "gateway_dispatch_descriptor_digest cr g =
     bindE (validate_grant True g) (\<lambda>_.
     case unsigned_bytes g of Inl e \<Rightarrow> Inl (GatewayEvidence e) | Inr b \<Rightarrow> Inr (gc_sha256 cr b))"

section \<open>Replay store\<close>

record consumed_dispatch =
  cd_dispatch_id :: string
  cd_authorization_id :: string
  cd_descriptor_digest :: string
  cd_consumed_at :: string

text \<open>\<open>rp_file\<close>: the status of the store's file after it was opened or created, \<open>None\<close> an \<^verbatim>\<open>OSError\<close>; \<open>rp_sql\<close>: SQLite
  executes the statements.\<close>

record replay_io =
  rp_euid :: int
  rp_file :: "path_status option"
  rp_sql :: bool

definition prepare_replay_store :: "replay_io \<Rightarrow> (gateway_exc, unit) result" where
  "prepare_replay_store io =
     guardE (case rp_file io of None \<Rightarrow> False | Some st \<Rightarrow> private_file (rp_euid io) st) StoreUnavailable"

text \<open>The unique constraints on the dispatch and on the authorization identifier.\<close>

definition violates_unique :: "gateway_grant \<Rightarrow> consumed_dispatch list \<Rightarrow> bool" where
  "violates_unique g rows \<longleftrightarrow>
     \<not> distinct (map cd_authorization_id rows) \<or>
     list_ex (\<lambda>r. cd_dispatch_id r = gg_dispatch_id g \<or> cd_authorization_id r = gg_authorization_id g) rows"

definition replay_consume ::
  "gateway_crypto \<Rightarrow> replay_io \<Rightarrow> string \<Rightarrow> gateway_grant \<Rightarrow> consumed_dispatch list \<Rightarrow>
   (consumed_dispatch list, gateway_exc, string \<times> string) outcome" where
  "replay_consume cr io now g rows =
     (case bindE (validate_grant True g) (\<lambda>_. prepare_replay_store io) of
        Inl e \<Rightarrow> (Inl e, rows)
      | Inr _ \<Rightarrow>
          if parse_timestamp now = None \<or> \<not> rp_sql io then (Inl StoreUnavailable, rows)
          else if \<not> distinct (map cd_authorization_id rows) then (Inl Replayed, rows)
          else case gateway_dispatch_descriptor_digest cr g of
            Inl _ \<Rightarrow> (Inl StoreUnavailable, rows)
          | Inr h \<Rightarrow>
              if violates_unique g rows then (Inl Replayed, rows)
              else (Inr (h, now), insert_row \<lparr>cd_dispatch_id = gg_dispatch_id g, cd_authorization_id = gg_authorization_id g,
                cd_descriptor_digest = h, cd_consumed_at = now\<rparr> rows))"

section \<open>Endpoints and transport\<close>

record gateway_endpoint =
  ge_gateway_endpoint_id :: string
  ge_gateway_identity :: string
  ge_endpoint_origin :: string
  ge_gateway_path :: string
  ge_provider :: string
  ge_account_or_project_kind :: string
  ge_account_or_project :: string
  ge_region :: string
  ge_model :: string
  ge_request_target :: string

definition GatewayDispatchEndpoint :: "gateway_endpoint \<Rightarrow> (gateway_exc, gateway_endpoint) result" where
  "GatewayDispatchEndpoint e =
     bindE (guardE (list_all token_ok [ge_gateway_endpoint_id e, ge_provider e, ge_account_or_project e, ge_region e, ge_model e] \<and>
         spiffe_ok (ge_gateway_identity e) \<and> endpoint_origin_ok (ge_endpoint_origin e) \<and> gateway_path_ok (ge_gateway_path e) \<and>
         ge_account_or_project_kind e \<in> {''account'', ''project''} \<and> request_target_ok (ge_request_target e)) Denied) (\<lambda>_. Inr e)"

record authorizer =
  ta_trust_store :: gateway_keys
  ta_endpoints :: "(string \<times> gateway_endpoint) list"

definition GatewayDispatchTransportAuthorizer ::
  "gateway_keys \<Rightarrow> (string \<times> gateway_endpoint) list \<Rightarrow> (gateway_exc, authorizer) result" where
  "GatewayDispatchTransportAuthorizer keys endpoints =
     bindE (guardE (endpoints \<noteq> [] \<and> list_all (\<lambda>(k, e). k = ge_gateway_endpoint_id e) endpoints) Denied) (\<lambda>_.
       Inr \<lparr>ta_trust_store = keys, ta_endpoints = endpoints\<rparr>)"

record transport_request =
  tr_action_plan_id :: string
  tr_plan_digest :: string
  tr_worker_spiffe_id :: string
  tr_request_target :: string
  tr_body :: "nat list"
  tr_endpoint_origin :: string
  tr_gateway_path :: string

definition body_matches :: "gateway_crypto \<Rightarrow> gateway_grant \<Rightarrow> nat list \<Rightarrow> bool" where
  "body_matches cr g body \<longleftrightarrow> int (length body) = gg_body_bytes g \<and> gc_sha256 cr body = gg_body_sha256 g"

definition verify_for_transport ::
  "gateway_crypto \<Rightarrow> authorizer \<Rightarrow> string \<Rightarrow> gateway_grant \<Rightarrow> transport_request \<Rightarrow> (gateway_exc, gateway_endpoint) result" where
  "verify_for_transport cr ta now g rq =
     bindE (verify_gateway_dispatch cr (ta_trust_store ta) now g) (\<lambda>_.
     if tr_action_plan_id rq \<noteq> gg_action_plan_id g \<or> tr_plan_digest rq \<noteq> gg_plan_digest g \<or>
        tr_worker_spiffe_id rq \<noteq> gg_worker_spiffe_id g \<or> tr_request_target rq \<noteq> gg_request_target g \<or>
        \<not> body_matches cr g (tr_body rq)
     then Inl Denied
     else case map_of (ta_endpoints ta) (gg_gateway_endpoint_id g) of
       None \<Rightarrow> Inl Denied
     | Some e \<Rightarrow>
         if ge_provider e \<noteq> gg_provider g \<or> ge_account_or_project_kind e \<noteq> gg_account_or_project_kind g \<or>
            ge_account_or_project e \<noteq> gg_account_or_project g \<or> ge_region e \<noteq> gg_region g \<or> ge_model e \<noteq> gg_model g \<or>
            ge_request_target e \<noteq> gg_request_target g \<or> ge_endpoint_origin e \<noteq> tr_endpoint_origin rq \<or>
            ge_gateway_path e \<noteq> tr_gateway_path rq
         then Inl Denied else Inr e)"

section \<open>The gateway emulator\<close>

record gateway_response =
  gr_status_code :: int
  gr_media_type :: string
  gr_body :: "nat list"

definition GatewayDispatchResponse :: "gateway_response \<Rightarrow> (gateway_exc, gateway_response) result" where
  "GatewayDispatchResponse r =
     bindE (guardE (200 \<le> gr_status_code r \<and> gr_status_code r \<le> 599 \<and> gr_media_type r = ''application/json'' \<and>
         int (length (gr_body r)) \<le> 1048576) ResponseInvalid) (\<lambda>_. Inr r)"

record gateway_invocation =
  gi_dispatch_id :: string
  gi_authorization_id :: string
  gi_action_plan_id :: string
  gi_plan_digest :: string
  gi_gateway_endpoint_id :: string
  gi_gateway_identity :: string
  gi_descriptor_digest :: string
  gi_body_sha256 :: string
  gi_body_bytes :: int
  gi_body :: "nat list"
  gi_endpoint :: gateway_endpoint

text \<open>What a call of the handler gives: \<^verbatim>\<open>None\<close>, a response object, a value of another type, or an exception.\<close>

datatype handled = HandledNone | HandledResponse gateway_response | HandledOther | HandlerRaised

record gateway_receipt =
  rc_gateway_receipt_id :: string
  rc_dispatch_id :: string
  rc_authorization_id :: string
  rc_action_plan_id :: string
  rc_plan_digest :: string
  rc_gateway_endpoint_id :: string
  rc_gateway_identity :: string
  rc_descriptor_digest :: string
  rc_body_sha256 :: string
  rc_body_bytes :: int
  rc_decision :: string
  rc_consumed_at :: string
  rc_response :: "gateway_response option"

record emulator =
  em_authorizer :: authorizer
  em_action_plan_id :: string
  em_plan_digest :: string
  em_worker_spiffe_id :: string
  em_endpoint_origin :: string
  em_gateway_path :: string
  em_handler :: "(gateway_invocation \<Rightarrow> handled) option"

definition GatewayDispatchEmulator :: "emulator \<Rightarrow> (gateway_exc, emulator) result" where
  "GatewayDispatchEmulator em =
     bindE (guardE (token_ok (em_action_plan_id em) \<and> hash_ok (em_plan_digest em) \<and> spiffe_ok (em_worker_spiffe_id em) \<and>
         endpoint_origin_ok (em_endpoint_origin em) \<and> gateway_path_ok (em_gateway_path em)) Denied) (\<lambda>_. Inr em)"

text \<open>One call of \<^verbatim>\<open>dispatch\<close>: the grant, what the peer presents, and the time and files of the moment.\<close>

record dispatch_call =
  dc_grant :: gateway_grant
  dc_worker_spiffe_id :: string
  dc_request_target :: string
  dc_body :: "nat list"
  dc_now :: string
  dc_io :: replay_io

definition preflight :: "gateway_crypto \<Rightarrow> emulator \<Rightarrow> dispatch_call \<Rightarrow> (gateway_exc, gateway_endpoint) result" where
  "preflight cr em dc =
     bindE (verify_for_transport cr (em_authorizer em) (dc_now dc) (dc_grant dc)
         \<lparr>tr_action_plan_id = em_action_plan_id em, tr_plan_digest = em_plan_digest em, tr_worker_spiffe_id = dc_worker_spiffe_id dc,
          tr_request_target = dc_request_target dc, tr_body = dc_body dc, tr_endpoint_origin = em_endpoint_origin em,
          tr_gateway_path = em_gateway_path em\<rparr>) (\<lambda>e.
     if dc_worker_spiffe_id dc \<noteq> em_worker_spiffe_id em \<or> ge_endpoint_origin e \<noteq> em_endpoint_origin em \<or>
        ge_gateway_path e \<noteq> em_gateway_path em
     then Inl Denied else Inr e)"

definition invocation_of :: "dispatch_call \<Rightarrow> gateway_endpoint \<Rightarrow> string \<Rightarrow> gateway_invocation" where
  "invocation_of dc e h = (let g = dc_grant dc in
     \<lparr>gi_dispatch_id = gg_dispatch_id g, gi_authorization_id = gg_authorization_id g, gi_action_plan_id = gg_action_plan_id g,
      gi_plan_digest = gg_plan_digest g, gi_gateway_endpoint_id = ge_gateway_endpoint_id e, gi_gateway_identity = ge_gateway_identity e,
      gi_descriptor_digest = h, gi_body_sha256 = gg_body_sha256 g, gi_body_bytes = gg_body_bytes g, gi_body = dc_body dc, gi_endpoint = e\<rparr>)"

definition receipt_of :: "gateway_crypto \<Rightarrow> dispatch_call \<Rightarrow> gateway_endpoint \<Rightarrow> string \<Rightarrow> string \<Rightarrow> gateway_response option \<Rightarrow> gateway_receipt" where
  "receipt_of cr dc e h consumed_at response = (let g = dc_grant dc in
     \<lparr>rc_gateway_receipt_id = gc_sha256 cr (map of_char (h @ '':'' @ consumed_at)), rc_dispatch_id = gg_dispatch_id g,
      rc_authorization_id = gg_authorization_id g, rc_action_plan_id = gg_action_plan_id g, rc_plan_digest = gg_plan_digest g,
      rc_gateway_endpoint_id = ge_gateway_endpoint_id e, rc_gateway_identity = ge_gateway_identity e, rc_descriptor_digest = h,
      rc_body_sha256 = gg_body_sha256 g, rc_body_bytes = gg_body_bytes g, rc_decision = ''accepted'', rc_consumed_at = consumed_at,
      rc_response = response\<rparr>)"

text \<open>The durable rows, and the calls the handler has received.\<close>

record gateway_state =
  gs_consumed :: "consumed_dispatch list"
  gs_handled :: "gateway_invocation list"

definition dispatch :: "gateway_crypto \<Rightarrow> emulator \<Rightarrow> dispatch_call \<Rightarrow> gateway_state \<Rightarrow> (gateway_state, gateway_exc, gateway_receipt) outcome" where
  "dispatch cr em dc st =
     (case preflight cr em dc of
        Inl x \<Rightarrow> (Inl x, st)
      | Inr e \<Rightarrow>
          (case replay_consume cr (dc_io dc) (dc_now dc) (dc_grant dc) (gs_consumed st) of
             (Inl x, rows) \<Rightarrow> (Inl x, st\<lparr>gs_consumed := rows\<rparr>)
           | (Inr (h, consumed_at), rows) \<Rightarrow>
               (case em_handler em of
                  None \<Rightarrow> (Inr (receipt_of cr dc e h consumed_at None), st\<lparr>gs_consumed := rows\<rparr>)
                | Some handler \<Rightarrow>
                    let call = invocation_of dc e h; st' = st\<lparr>gs_consumed := rows, gs_handled := gs_handled st @ [call]\<rparr> in
                    (case handler call of
                       HandledNone \<Rightarrow> (Inr (receipt_of cr dc e h consumed_at None), st')
                     | HandledResponse r \<Rightarrow> (Inr (receipt_of cr dc e h consumed_at (Some r)), st')
                     | _ \<Rightarrow> (Inl FailedAfterConsumption, st')))))"

section \<open>Envelopes\<close>

definition encode_gateway_dispatch_envelope :: "gateway_crypto \<Rightarrow> gateway_grant \<Rightarrow> nat list \<Rightarrow> (gateway_exc, nat list) result" where
  "encode_gateway_dispatch_envelope cr g body =
     bindE (validate_grant True g) (\<lambda>_.
     if \<not> body_matches cr g body then Inl Denied
     else case canonical (JObj [(''schema_version'', JStr GATEWAY_DISPATCH_ENVELOPE_SCHEMA), (''grant'', JObj (grant_to_dict g)),
            (''body_base64'', JStr (b64encode body)), (''body_sha256'', JStr (gg_body_sha256 g)), (''body_bytes'', JInt (int (length body)))])
            MAX_ENVELOPE_BYTES DEFAULT_DEPTH of
       Inl e \<Rightarrow> Inl (GatewayEvidence e)
     | Inr b \<Rightarrow> Inr b)"

definition decode_body :: "gateway_crypto \<Rightarrow> dict \<Rightarrow> gateway_grant \<Rightarrow> nat list option" where
  "decode_body cr d g =
     (case (get_str d ''body_base64'', dict_get d ''body_bytes'') of
        (Some text_form, Some (JInt n)) \<Rightarrow>
          if n < 0 then None
          else (case b64decode text_form of
             None \<Rightarrow> None
           | Some body \<Rightarrow>
               if int (length body) \<noteq> n \<or> get_str d ''body_sha256'' \<noteq> Some (gc_sha256 cr body) \<or>
                  int (length body) \<noteq> gg_body_bytes g \<or> get_str d ''body_sha256'' \<noteq> Some (gg_body_sha256 g)
               then None else Some body)
      | _ \<Rightarrow> None)"

text \<open>Every failure inside the \<^verbatim>\<open>try\<close>, a \<^verbatim>\<open>TypeError\<close> of the grant included, is refused alike.\<close>

definition decode_gateway_dispatch_envelope ::
  "gateway_crypto \<Rightarrow> (string \<Rightarrow> pyfloat) \<Rightarrow> nat list \<Rightarrow> (gateway_exc, gateway_grant \<times> nat list) result" where
  "decode_gateway_dispatch_envelope cr pf value =
     (if int (length value) > MAX_ENVELOPE_BYTES then Inl Denied
      else case Option.bind (utf8_decode value) (\<lambda>s. case loads (plain_hooks pf) s of Inr (JObj d) \<Rightarrow> Some d | _ \<Rightarrow> None) of
        None \<Rightarrow> Inl Denied
      | Some d \<Rightarrow>
          if dict_keys d \<noteq> {''schema_version'', ''grant'', ''body_base64'', ''body_sha256'', ''body_bytes''} \<or>
             get_str d ''schema_version'' \<noteq> Some GATEWAY_DISPATCH_ENVELOPE_SCHEMA
          then Inl Denied
          else (case dict_get d ''grant'' of
             None \<Rightarrow> Inl Denied
           | Some v \<Rightarrow>
               (case grant_from_dict v of
                  Inl _ \<Rightarrow> Inl Denied
                | Inr g \<Rightarrow> (case decode_body cr d g of None \<Rightarrow> Inl Denied | Some body \<Rightarrow> Inr (g, body)))))"

definition dispatch_envelope ::
  "gateway_crypto \<Rightarrow> (string \<Rightarrow> pyfloat) \<Rightarrow> emulator \<Rightarrow> nat list \<Rightarrow> string \<Rightarrow> string \<Rightarrow> replay_io \<Rightarrow> gateway_state \<Rightarrow>
   (gateway_state, gateway_exc, gateway_receipt) outcome" where
  "dispatch_envelope cr pf em envelope worker now io st =
     (case decode_gateway_dispatch_envelope cr pf envelope of
        Inl x \<Rightarrow> (Inl x, st)
      | Inr (g, body) \<Rightarrow> dispatch cr em \<lparr>dc_grant = g, dc_worker_spiffe_id = worker, dc_request_target = gg_request_target g,
          dc_body = body, dc_now = now, dc_io = io\<rparr> st)"

end
