(* ===== verification/Gateway_Dispatch_Props.thy ===== *)
theory Gateway_Dispatch_Props
  imports Gateway_Dispatch Canonical_Props
begin

text \<open>
  The gateway dispatches only what a signed, current grant describes, consumes a grant before its handler
  runs and at most once, refuses without consuming anything, and an envelope carries grant and
  body unchanged.
\<close>

section \<open>What a dispatch does\<close>

lemma replay_consume_cases:
  assumes "replay_consume cr io now g rows = (out, rows')"
  shows "(\<exists>x. out = Inl x \<and> rows' = rows) \<or>
    (\<exists>h. out = Inr (h, now) \<and> gateway_dispatch_descriptor_digest cr g = Inr h \<and> \<not> violates_unique g rows \<and>
      rows' = insert_row \<lparr>cd_dispatch_id = gg_dispatch_id g, cd_authorization_id = gg_authorization_id g,
        cd_descriptor_digest = h, cd_consumed_at = now\<rparr> rows)"
  using assms by (auto simp: replay_consume_def split: sum.splits if_splits)

text \<open>Nothing changes, or the grant is consumed; then the handler, where there is one, has been called.\<close>

lemma dispatch_cases [consumes 1, case_names refused consumed]:
  assumes "dispatch cr em dc st = (out, st')"
  obtains x where "out = Inl x" "st' = st" "x \<noteq> FailedAfterConsumption"
  | e h where "preflight cr em dc = Inr e" "\<not> violates_unique (dc_grant dc) (gs_consumed st)"
      "gateway_dispatch_descriptor_digest cr (dc_grant dc) = Inr h"
      "gs_consumed st' = insert_row \<lparr>cd_dispatch_id = gg_dispatch_id (dc_grant dc),
         cd_authorization_id = gg_authorization_id (dc_grant dc), cd_descriptor_digest = h, cd_consumed_at = dc_now dc\<rparr> (gs_consumed st)"
      "gs_handled st' = gs_handled st @ (if em_handler em = None then [] else [invocation_of dc e h])"
      "out = Inl FailedAfterConsumption \<or> (\<exists>r. out = Inr (receipt_of cr dc e h (dc_now dc) r))"
proof (cases "preflight cr em dc")
  case (Inl x)
  have "x \<noteq> FailedAfterConsumption"
    using Inl by (auto simp: preflight_def verify_for_transport_def verify_gateway_dispatch_def validate_grant_def
        verify_signature_def bindE_Inl_iff split: if_splits option.splits)
  then show ?thesis using assms Inl that(1) by (auto simp: dispatch_def)
next
  case (Inr e)
  obtain res rows where run: "replay_consume cr (dc_io dc) (dc_now dc) (dc_grant dc) (gs_consumed st) = (res, rows)"
    by (cases "replay_consume cr (dc_io dc) (dc_now dc) (dc_grant dc) (gs_consumed st)") auto
  from replay_consume_cases [OF run] show ?thesis
  proof (elim disjE exE conjE)
    fix x assume x: "res = Inl x" "rows = gs_consumed st"
    have "x \<noteq> FailedAfterConsumption"
      using run x by (auto simp: replay_consume_def validate_grant_def prepare_replay_store_def bindE_Inl_iff
          split: sum.splits if_splits)
    then show ?thesis using assms Inr run x that(1) by (auto simp: dispatch_def)
  next
    fix h assume h: "res = Inr (h, dc_now dc)" "gateway_dispatch_descriptor_digest cr (dc_grant dc) = Inr h"
        "\<not> violates_unique (dc_grant dc) (gs_consumed st)"
        "rows = insert_row \<lparr>cd_dispatch_id = gg_dispatch_id (dc_grant dc), cd_authorization_id = gg_authorization_id (dc_grant dc),
          cd_descriptor_digest = h, cd_consumed_at = dc_now dc\<rparr> (gs_consumed st)"
    show ?thesis
      by (rule that(2) [OF Inr h(3,2)]) (use assms Inr run h in \<open>auto simp: dispatch_def Let_def split: option.splits handled.splits\<close>)
  qed
qed

section \<open>Runs\<close>

definition gateway_inv :: "gateway_state \<Rightarrow> bool" where
  "gateway_inv st \<longleftrightarrow> distinct (map cd_dispatch_id (gs_consumed st)) \<and> distinct (map cd_authorization_id (gs_consumed st)) \<and>
     distinct (map gi_authorization_id (gs_handled st)) \<and>
     set (map gi_authorization_id (gs_handled st)) \<subseteq> set (map cd_authorization_id (gs_consumed st))"

definition gateway_later :: "gateway_state \<Rightarrow> gateway_state \<Rightarrow> bool" where
  "gateway_later st st' \<longleftrightarrow> prefix (gs_consumed st) (gs_consumed st') \<and> prefix (gs_handled st) (gs_handled st')"

lemma dispatch_inv:
  assumes "gateway_inv st" "dispatch cr em dc st = (out, st')"
  shows "gateway_inv st' \<and> gateway_later st st'"
  using assms(2)
proof (cases rule: dispatch_cases)
  case (consumed e h)
  then show ?thesis
    using assms(1) by (auto simp: gateway_inv_def gateway_later_def insert_row_def violates_unique_def list_ex_iff invocation_of_def Let_def)
qed (use assms(1) in \<open>auto simp: gateway_later_def\<close>)

interpretation gateway: guarded_machine "dispatch cr em" gateway_inv gateway_later
  for cr :: gateway_crypto and em :: emulator
proof unfold_locales
  fix st dc
  assume "gateway_inv st"
  then show "gateway_inv (snd (dispatch cr em dc st))" "gateway_later st (snd (dispatch cr em dc st))"
    by (metis dispatch_inv prod.collapse)+
qed (auto simp: gateway_later_def)

text \<open>The one-time resources: dispatch identifiers (\<open>Inl\<close>) and authorization identifiers (\<open>Inr\<close>).\<close>

fun spent :: "string + string \<Rightarrow> gateway_state \<Rightarrow> bool" where
  "spent (Inl did) st \<longleftrightarrow> did \<in> cd_dispatch_id ` set (gs_consumed st)"
| "spent (Inr aid) st \<longleftrightarrow> aid \<in> cd_authorization_id ` set (gs_consumed st)"

definition consumes :: "gateway_crypto \<Rightarrow> emulator \<Rightarrow> dispatch_call \<Rightarrow> gateway_state \<Rightarrow> string + string \<Rightarrow> bool" where
  "consumes cr em dc st k \<longleftrightarrow> gs_consumed (snd (dispatch cr em dc st)) \<noteq> gs_consumed st \<and>
     k \<in> {Inl (gg_dispatch_id (dc_grant dc)), Inr (gg_authorization_id (dc_grant dc))}"

lemma unique_fresh:
  "\<not> violates_unique g rows \<Longrightarrow>
   gg_dispatch_id g \<notin> cd_dispatch_id ` set rows \<and> gg_authorization_id g \<notin> cd_authorization_id ` set rows"
  by (auto simp: violates_unique_def list_ex_iff)

lemma consumes_spends:
  assumes "consumes cr em dc st k"
  shows "\<not> spent k st \<and> spent k (snd (dispatch cr em dc st))"
proof -
  have "dispatch cr em dc st = (fst (dispatch cr em dc st), snd (dispatch cr em dc st))" by simp
  then show ?thesis
  proof (cases rule: dispatch_cases)
    case (consumed e h)
    from unique_fresh [OF consumed(2)] assms consumed(4) show ?thesis by (auto simp: consumes_def)
  qed (use assms in \<open>simp add: consumes_def\<close>)
qed

interpretation gateway_grants: one_time_machine "dispatch cr em" gateway_inv spent "consumes cr em"
  for cr :: gateway_crypto and em :: emulator
proof unfold_locales
  fix st dc k
  assume inv: "gateway_inv st"
  show "gateway_inv (snd (dispatch cr em dc st))" by (rule gateway.step_inv [OF inv])
  show "spent k (snd (dispatch cr em dc st))" if "spent k st"
    using that gateway.step_mono [OF inv, of cr em dc] by (cases k) (auto simp: gateway_later_def dest: set_mono_prefix)
qed (use consumes_spends in blast)+

section \<open>Theorems\<close>

text \<open>
  C7. Over any sequence of dispatch calls, failing ones included, a dispatch identifier and an authorization
  identifier are consumed at most once.
\<close>

theorem gateway_grant_consumed_once:
  assumes "gateway_inv st" "i < j" "j < length calls"
    and "consumes cr em (calls ! i) (run_ops (dispatch cr em) (take i calls) st) k"
  shows "\<not> consumes cr em (calls ! j) (run_ops (dispatch cr em) (take j calls) st) k"
  using assms by (rule gateway_grants.no_second_grant)

definition sample_crypto :: gateway_crypto where
  "sample_crypto = \<lparr>gc_sha256 = (\<lambda>_. replicate 64 (CHR ''a'')), gc_verify = (\<lambda>key sig _. key = replicate 32 1 \<and> sig = replicate 64 0)\<rparr>"

definition sample_grant :: gateway_grant where
  "sample_grant = \<lparr>gg_schema_version = GATEWAY_DISPATCH_SCHEMA, gg_dispatch_id = ''d1'', gg_authorization_id = ''a1'',
     gg_action_plan_id = ''p1'', gg_plan_digest = replicate 64 (CHR ''b''), gg_worker_spiffe_id = ''spiffe://td/w'', gg_provider = ''p'',
     gg_account_or_project_kind = ''account'', gg_account_or_project = ''x'', gg_region = ''r'', gg_model = ''m'',
     gg_gateway_endpoint_id = ''e1'', gg_request_target = ''https://h/v'', gg_body_sha256 = replicate 64 (CHR ''a''), gg_body_bytes = 2,
     gg_issued_at = ''2026-01-01T00:00:00Z'', gg_expires_at = ''2026-01-01T00:05:00Z'', gg_key_id = ''k1'', gg_algorithm = ''ed25519'',
     gg_signature = replicate 128 (CHR ''0'')\<rparr>"

definition sample_endpoint :: gateway_endpoint where
  "sample_endpoint = \<lparr>ge_gateway_endpoint_id = ''e1'', ge_gateway_identity = ''spiffe://td/g'', ge_endpoint_origin = ''https://g'',
     ge_gateway_path = ''/d'', ge_provider = ''p'', ge_account_or_project_kind = ''account'', ge_account_or_project = ''x'', ge_region = ''r'',
     ge_model = ''m'', ge_request_target = ''https://h/v''\<rparr>"

definition sample_emulator :: emulator where
  "sample_emulator = \<lparr>em_authorizer = \<lparr>ta_trust_store = [(''k1'', replicate 32 1)], ta_endpoints = [(''e1'', sample_endpoint)]\<rparr>,
     em_action_plan_id = ''p1'', em_plan_digest = replicate 64 (CHR ''b''), em_worker_spiffe_id = ''spiffe://td/w'',
     em_endpoint_origin = ''https://g'', em_gateway_path = ''/d'', em_handler = Some (\<lambda>_. HandlerRaised)\<rparr>"

definition sample_call :: dispatch_call where
  "sample_call = \<lparr>dc_grant = sample_grant, dc_worker_spiffe_id = ''spiffe://td/w'', dc_request_target = ''https://h/v'', dc_body = [1, 2],
     dc_now = ''2026-01-01T00:01:00Z'', dc_io = \<lparr>rp_euid = 7, rp_file = Some \<lparr>ps_kind = RegularFile, ps_uid = 7, ps_mode = 6 * 64\<rparr>, rp_sql = True\<rparr>\<rparr>"

definition no_dispatches :: gateway_state where
  "no_dispatches = \<lparr>gs_consumed = [], gs_handled = []\<rparr>"

lemma sample_checks:
  "spiffe_ok ''spiffe://td/w''" "request_target_ok ''https://h/v''"
  "window_ok ''2026-01-01T00:00:00Z'' ''2026-01-01T00:05:00Z''"
  "list_all token_ok (grant_tokens sample_grant)" "hash_ok (replicate 64 (CHR ''b''))" "hash_ok (replicate 64 (CHR ''a''))"
  "signature_ok (replicate 128 (CHR ''0''))" "fromhex (replicate 128 (CHR ''0'')) = Some (replicate 64 0)"
  "is_ok (unsigned_bytes sample_grant)"
  by code_simp+

lemma sample_times:
  "parse_timestamp ''2026-01-01T00:00:00Z'' = Some 63902822400000000"
  "parse_timestamp ''2026-01-01T00:01:00Z'' = Some 63902822460000000"
  "parse_timestamp ''2026-01-01T00:05:00Z'' = Some 63902822700000000"
  by code_simp+

lemma sample_grant_valid: "grant_valid True sample_grant"
  using sample_checks by (simp add: grant_valid_def sample_grant_def MAX_BODY_BYTES_def)

lemma sample_unsigned: obtains b where "unsigned_bytes sample_grant = Inr b"
  using sample_checks(9) by (auto simp: is_ok_iff)

lemma sample_preflight: "preflight sample_crypto sample_emulator sample_call = Inr sample_endpoint"
proof -
  obtain b where b: "unsigned_bytes sample_grant = Inr b" by (rule sample_unsigned)
  have "verify_gateway_dispatch sample_crypto [(''k1'', replicate 32 1)] ''2026-01-01T00:01:00Z'' sample_grant = Inr ()"
    using sample_checks(8) sample_times sample_grant_valid b
    by (simp add: verify_gateway_dispatch_def validate_grant_def verify_signature_def sample_crypto_def sample_grant_def)
  then show ?thesis
    by (simp add: preflight_def verify_for_transport_def sample_emulator_def sample_call_def sample_endpoint_def
        body_matches_def sample_crypto_def) (simp add: sample_grant_def)
qed

lemma sample_consumes: "consumes sample_crypto sample_emulator sample_call no_dispatches (Inr ''a1'')"
proof -
  obtain b where "unsigned_bytes sample_grant = Inr b" by (rule sample_unsigned)
  then have "replay_consume sample_crypto (dc_io sample_call) (dc_now sample_call) sample_grant [] =
      (Inr (replicate 64 (CHR ''a''), dc_now sample_call), [\<lparr>cd_dispatch_id = ''d1'', cd_authorization_id = ''a1'',
        cd_descriptor_digest = replicate 64 (CHR ''a''), cd_consumed_at = dc_now sample_call\<rparr>])"
    using sample_times(2) sample_grant_valid
    by (simp add: replay_consume_def validate_grant_def prepare_replay_store_def private_file_def sample_call_def
        gateway_dispatch_descriptor_digest_def violates_unique_def insert_row_def sample_crypto_def)
      (simp add: sample_grant_def)
  moreover have "dc_grant sample_call = sample_grant" by (simp add: sample_call_def)
  ultimately show ?thesis
    using sample_preflight
    by (simp add: consumes_def dispatch_def no_dispatches_def sample_emulator_def Let_def) (simp add: sample_grant_def)
qed

lemma no_dispatches_inv: "gateway_inv no_dispatches"
  by (simp add: gateway_inv_def no_dispatches_def)

theorem gateway_grant_consumed_once_witness:
  "\<not> consumes sample_crypto sample_emulator sample_call
     (run_ops (dispatch sample_crypto sample_emulator) [sample_call] no_dispatches) (Inr ''a1'')"
  using gateway_grant_consumed_once [OF no_dispatches_inv, of 0 1 "[sample_call, sample_call]"] sample_consumes by simp

text \<open>
  C6. Whenever a dispatch changes anything, so also whenever the handler is called, the grant is
  well-formed and current, lives at most 300 seconds, carries a signature that verifies over its canonical
  bytes under the trusted key it names, and the plan, worker, target, body and configured endpoint are
  the ones it names; the change is exactly the consumption of the grant and at most one call of the handler.
\<close>

theorem dispatch_only_as_granted:
  assumes "dispatch cr em dc st = (out, st')" "st' \<noteq> st"
  shows "\<exists>e h i t x key sig b. let g = dc_grant dc in
    grant_valid True g \<and> unsigned_bytes g = Inr b \<and> h = gc_sha256 cr b \<and>
    map_of (ta_trust_store (em_authorizer em)) (gg_key_id g) = Some key \<and> fromhex (gg_signature g) = Some sig \<and> gc_verify cr key sig b \<and>
    parse_timestamp (gg_issued_at g) = Some i \<and> parse_timestamp (dc_now dc) = Some t \<and> parse_timestamp (gg_expires_at g) = Some x \<and>
    i \<le> t \<and> t \<le> x \<and> x - i \<le> 300 * 1000000 \<and>
    gg_action_plan_id g = em_action_plan_id em \<and> gg_plan_digest g = em_plan_digest em \<and>
    gg_worker_spiffe_id g = dc_worker_spiffe_id dc \<and> dc_worker_spiffe_id dc = em_worker_spiffe_id em \<and>
    gg_request_target g = dc_request_target dc \<and> int (length (dc_body dc)) = gg_body_bytes g \<and> gc_sha256 cr (dc_body dc) = gg_body_sha256 g \<and>
    map_of (ta_endpoints (em_authorizer em)) (gg_gateway_endpoint_id g) = Some e \<and>
    ge_provider e = gg_provider g \<and> ge_account_or_project e = gg_account_or_project g \<and> ge_region e = gg_region g \<and> ge_model e = gg_model g \<and>
    ge_request_target e = gg_request_target g \<and>
    gs_consumed st' = gs_consumed st @ [\<lparr>cd_dispatch_id = gg_dispatch_id g, cd_authorization_id = gg_authorization_id g,
      cd_descriptor_digest = h, cd_consumed_at = dc_now dc\<rparr>] \<and>
    gs_handled st' = gs_handled st @ (if em_handler em = None then [] else [invocation_of dc e h])"
  using assms(1)
proof (cases rule: dispatch_cases)
  case (consumed e h)
  have window: "x - i \<le> 300 * 1000000" if "grant_valid True (dc_grant dc)"
      "parse_timestamp (gg_issued_at (dc_grant dc)) = Some i" "parse_timestamp (gg_expires_at (dc_grant dc)) = Some x" for i x
    using that by (auto simp: grant_valid_def window_ok_def MAX_GATEWAY_DISPATCH_TTL_SECONDS_def)
  from consumed(1) obtain key sig b i t x where
    v: "grant_valid True (dc_grant dc)" "unsigned_bytes (dc_grant dc) = Inr b"
      "map_of (ta_trust_store (em_authorizer em)) (gg_key_id (dc_grant dc)) = Some key"
      "fromhex (gg_signature (dc_grant dc)) = Some sig" "gc_verify cr key sig b"
      "parse_timestamp (gg_issued_at (dc_grant dc)) = Some i" "parse_timestamp (dc_now dc) = Some t"
      "parse_timestamp (gg_expires_at (dc_grant dc)) = Some x" "i \<le> t" "t \<le> x"
    by (auto simp: preflight_def verify_for_transport_def verify_gateway_dispatch_def verify_signature_def validate_grant_def bindE_Inr_iff
        split: if_splits option.splits sum.splits)
  have h: "h = gc_sha256 cr b"
    using consumed(3) v(1,2) by (simp add: gateway_dispatch_descriptor_digest_def validate_grant_def)
  show ?thesis
    unfolding Let_def
    by (rule exI [of _ e], rule exI [of _ h], rule exI [of _ i], rule exI [of _ t], rule exI [of _ x], rule exI [of _ key],
        rule exI [of _ sig], rule exI [of _ b])
      (use consumed(1,4,5) v h window [OF v(1,6,8)] in \<open>auto simp: preflight_def verify_for_transport_def bindE_Inr_iff
        body_matches_def insert_row_def split: if_splits option.splits\<close>)
qed (use assms(2) in simp)

theorem dispatch_only_as_granted_witness:
  "gg_worker_spiffe_id sample_grant = em_worker_spiffe_id sample_emulator \<and>
   snd (dispatch sample_crypto sample_emulator sample_call no_dispatches) \<noteq> no_dispatches"
proof -
  have changed: "snd (dispatch sample_crypto sample_emulator sample_call no_dispatches) \<noteq> no_dispatches"
    using sample_consumes by (auto simp: consumes_def)
  from dispatch_only_as_granted [OF prod.collapse [symmetric] this] changed show ?thesis
    by (auto simp: Let_def sample_call_def)
qed

text \<open>
  C34. A refused dispatch leaves the replay store and the handler's log as they were, and a failure of the
  handler is reported only after the grant has been consumed for good.
\<close>

theorem refused_dispatch_consumes_nothing:
  assumes "dispatch cr em dc st = (Inl x, st')"
  shows "(x = FailedAfterConsumption \<longleftrightarrow> gs_consumed st' \<noteq> gs_consumed st) \<and>
    (x = FailedAfterConsumption \<longrightarrow> gg_authorization_id (dc_grant dc) \<in> cd_authorization_id ` set (gs_consumed st')) \<and>
    (x \<noteq> FailedAfterConsumption \<longrightarrow> st' = st)"
  using assms
proof (cases rule: dispatch_cases)
  case (consumed e h)
  then show ?thesis by (auto simp: insert_row_def)
qed auto

theorem refused_dispatch_consumes_nothing_witness:
  "snd (dispatch sample_crypto sample_emulator (sample_call\<lparr>dc_request_target := []\<rparr>) no_dispatches) = no_dispatches"
proof -
  let ?run = "dispatch sample_crypto sample_emulator (sample_call\<lparr>dc_request_target := []\<rparr>) no_dispatches"
  have "\<not> is_ok (verify_for_transport cr ta now sample_grant
      \<lparr>tr_action_plan_id = a, tr_plan_digest = b, tr_worker_spiffe_id = c, tr_request_target = [], tr_body = d,
       tr_endpoint_origin = e, tr_gateway_path = f\<rparr>)" for cr ta now a b c d e f
    by (auto simp: verify_for_transport_def bindE_Inr_iff sample_grant_def is_ok_iff split: if_splits option.splits)
  then have "\<not> is_ok (preflight sample_crypto sample_emulator (sample_call\<lparr>dc_request_target := []\<rparr>))"
    by (auto simp: preflight_def is_ok_iff bindE_Inr_iff sample_call_def split: if_splits)
  then obtain x where run: "?run = (Inl x, no_dispatches)"
    by (cases "preflight sample_crypto sample_emulator (sample_call\<lparr>dc_request_target := []\<rparr>)")
      (auto simp: dispatch_def)
  from refused_dispatch_consumes_nothing [OF run] show ?thesis by (auto simp: run)
qed

section \<open>Signing and verifying\<close>

lemma hex_val_digit: "k < 16 \<Longrightarrow> hex_val (hex_digit k) = Some k"
  by (auto simp: hex_val_def hex_digit_def Let_def)

lemma fromhex_hex_bytes: "list_all (\<lambda>b. b < 256) bs \<Longrightarrow> fromhex (hex_bytes bs) = Some bs"
  by (induction bs) (auto simp: hex_bytes_def hex_val_digit less_mult_imp_div_less)

text \<open>
  A grant signed by a key whose public part the trust store holds under the grant's key identifier
  verifies at every moment of its window. The two hypotheses on Ed25519 are its documented behaviour: a
  signature is a byte string, and it verifies under the public key for the message signed.
\<close>

theorem signed_grant_verifies:
  assumes "sign_gateway_dispatch ed_sign g = Inr sg" "map_of keys (gg_key_id g) = Some key"
    and sign_bytes: "\<And>b sig. ed_sign b = Some sig \<Longrightarrow> list_all (\<lambda>x. x < 256) sig"
    and sign_verifies: "\<And>b sig. ed_sign b = Some sig \<Longrightarrow> gc_verify cr key sig b"
    and "parse_timestamp now = Some t" "parse_timestamp (gg_issued_at g) = Some i" "parse_timestamp (gg_expires_at g) = Some e"
    and "i \<le> t" "t \<le> e"
  shows "verify_gateway_dispatch cr keys now sg = Inr ()"
proof -
  from assms(1) obtain b sig where s: "unsigned_bytes g = Inr b" "ed_sign b = Some sig" "sg = g\<lparr>gg_signature := hex_bytes sig\<rparr>"
      "grant_valid True sg"
    by (auto simp: sign_gateway_dispatch_def bindE_Inr_iff validate_grant_def Let_def split: sum.splits option.splits)
  have "unsigned_bytes sg = Inr b" using s(1,3) by (simp add: unsigned_bytes_def unsigned_dict_def)
  moreover have "fromhex (gg_signature sg) = Some sig"
    using s(3) fromhex_hex_bytes [OF sign_bytes [OF s(2)]] by simp
  ultimately show ?thesis
    using s(2-4) assms(2,5-9) sign_verifies
    by (simp add: verify_gateway_dispatch_def validate_grant_def verify_signature_def)
qed

definition sample_sign :: "nat list \<Rightarrow> nat list option" where
  "sample_sign b = Some (replicate 64 0)"

theorem signed_grant_verifies_witness:
  "sign_gateway_dispatch sample_sign (sample_grant\<lparr>gg_signature := []\<rparr>) = Inr sample_grant \<and>
   verify_gateway_dispatch sample_crypto [(''k1'', replicate 32 1)] ''2026-01-01T00:05:00Z'' sample_grant = Inr ()"
proof -
  obtain b where b: "unsigned_bytes sample_grant = Inr b" by (rule sample_unsigned)
  have "hex_bytes (replicate 64 0) = replicate 128 (CHR ''0'')" by code_simp
  then have signed: "sample_grant\<lparr>gg_signature := hex_bytes (replicate 64 0)\<rparr> = sample_grant" by (simp add: sample_grant_def)
  have "unsigned_bytes (sample_grant\<lparr>gg_signature := []\<rparr>) = Inr b"
    using b by (simp add: unsigned_bytes_def unsigned_dict_def)
  moreover have "grant_valid False (sample_grant\<lparr>gg_signature := []\<rparr>)"
    using sample_grant_valid by (simp add: grant_valid_def grant_tokens_def)
  ultimately have sign: "sign_gateway_dispatch sample_sign (sample_grant\<lparr>gg_signature := []\<rparr>) = Inr sample_grant"
    using signed sample_grant_valid by (simp add: sign_gateway_dispatch_def validate_grant_def sample_sign_def Let_def)
  have "verify_gateway_dispatch sample_crypto [(''k1'', replicate 32 1)] ''2026-01-01T00:05:00Z'' sample_grant = Inr ()"
  proof (rule signed_grant_verifies [OF sign])
    show "parse_timestamp ''2026-01-01T00:05:00Z'' = Some 63902822700000000" by (rule sample_times)
    show "parse_timestamp (gg_issued_at (sample_grant\<lparr>gg_signature := []\<rparr>)) = Some 63902822400000000"
      "parse_timestamp (gg_expires_at (sample_grant\<lparr>gg_signature := []\<rparr>)) = Some 63902822700000000"
      using sample_times by (simp_all add: sample_grant_def)
  qed (auto simp: sample_sign_def sample_crypto_def sample_grant_def list_all_iff)
  with sign show ?thesis by simp
qed

section \<open>Envelopes\<close>

lemma dict_get_norm:
  "distinct (map fst d) \<Longrightarrow>
   dict_get (sort_key fst (map (map_prod id (norm_json pf)) d)) k = map_option (norm_json pf) (dict_get d k)"
proof -
  assume d: "distinct (map fst d)"
  have "dict_get (map (map_prod id f) d) k = map_option f (dict_get d k)" for f :: "json \<Rightarrow> json"
    by (induction d) auto
  with d show ?thesis by (simp add: dict_get_sorted)
qed

lemma dict_keys_norm: "dict_keys (sort_key fst (map (map_prod id (norm_json pf)) d)) = fst ` set d"
  by (force simp: dict_keys_def)

lemma grant_keys: "map fst (grant_to_dict g) = GRANT_FIELDS" "distinct GRANT_FIELDS"
  by (simp_all add: grant_to_dict_def unsigned_dict_def GRANT_FIELDS_def)

lemma grant_fields:
  "dict_get (grant_to_dict g) ''body_bytes'' = Some (JInt (gg_body_bytes g))"
  "dict_get (grant_to_dict g) ''account_or_project_kind'' = Some (JStr (gg_account_or_project_kind g))"
  "k \<in> set GRANT_FIELDS \<Longrightarrow> k \<noteq> ''body_bytes'' \<Longrightarrow> \<exists>s. dict_get (grant_to_dict g) k = Some (JStr s)"
  by (auto simp: grant_to_dict_def unsigned_dict_def GRANT_FIELDS_def)

lemma grant_read_back:
  assumes "\<And>k. dict_get D k = map_option (norm_json pf) (dict_get (grant_to_dict g) k)"
  shows "grant_of_dict D (gg_body_bytes g) = g"
  unfolding grant_of_dict_def get_text_def assms
  by (simp add: grant_to_dict_def unsigned_dict_def)

lemma grant_from_norm:
  assumes "grant_valid True g"
  shows "grant_from_dict (norm_json pf (JObj (grant_to_dict g))) = Inr g"
proof -
  define D where "D = sort_key fst (map (map_prod id (norm_json pf)) (grant_to_dict g))"
  have get: "dict_get D k = map_option (norm_json pf) (dict_get (grant_to_dict g) k)" for k
    unfolding D_def by (rule dict_get_norm) (simp add: grant_keys)
  have keys: "dict_keys D = set GRANT_FIELDS"
    unfolding D_def dict_keys_norm by (metis grant_keys(1) list.set_map)
  have strs: "list_all (\<lambda>k. k = ''body_bytes'' \<or> get_str D k \<noteq> None) GRANT_FIELDS"
    using grant_fields(3) [of _ g] by (fastforce simp: list_all_iff get_str_def get)
  have kind: "\<not> unhashable (dict_get D ''account_or_project_kind'')"
    by (simp add: get grant_fields unhashable_def)
  have "grant_from_dict (JObj D) = bindE (validate_grant True (grant_of_dict D (gg_body_bytes g))) (\<lambda>_. Inr (grant_of_dict D (gg_body_bytes g)))"
    using keys strs kind by (simp add: grant_from_dict_def get grant_fields)
  with grant_read_back [OF get] assms show ?thesis by (simp add: D_def validate_grant_def)
qed

definition envelope_dict :: "gateway_grant \<Rightarrow> nat list \<Rightarrow> dict" where
  "envelope_dict g body = [(''schema_version'', JStr GATEWAY_DISPATCH_ENVELOPE_SCHEMA), (''grant'', JObj (grant_to_dict g)),
     (''body_base64'', JStr (b64encode body)), (''body_sha256'', JStr (gg_body_sha256 g)), (''body_bytes'', JInt (int (length body)))]"

lemma encode_Inr:
  assumes "encode_gateway_dispatch_envelope cr g body = Inr env"
  shows "grant_valid True g" "body_matches cr g body" "canonical (JObj (envelope_dict g body)) MAX_ENVELOPE_BYTES DEFAULT_DEPTH = Inr env"
  using assms by (auto simp: encode_gateway_dispatch_envelope_def envelope_dict_def validate_grant_def bindE_Inr_iff split: if_splits sum.splits)

lemma envelope_ok:
  assumes "ints_printable (JObj (envelope_dict g body))"
  shows "json_ok (JObj (envelope_dict g body))"
  using assms grant_keys
  by (simp add: envelope_dict_def grant_to_dict_def unsigned_dict_def)

text \<open>
  An envelope carries its grant and body unchanged: what \<open>encode_gateway_dispatch_envelope\<close> writes,
  \<open>decode_gateway_dispatch_envelope\<close> reads back as the same grant and the same body.
\<close>

theorem envelope_roundtrip:
  assumes "encode_gateway_dispatch_envelope cr g body = Inr env" "list_all (\<lambda>b. b < 256) body"
  shows "decode_gateway_dispatch_envelope cr pf env = Inr (g, body)"
proof -
  note enc = encode_Inr [OF assms(1)] and can = canonical_okD [OF encode_Inr(3) [OF assms(1)]]
  define D where "D = sort_key fst (map (map_prod id (norm_json pf)) (envelope_dict g body))"
  have keys: "distinct (map fst (envelope_dict g body))" by (simp add: envelope_dict_def)
  have get: "dict_get D k = map_option (norm_json pf) (dict_get (envelope_dict g body) k)" for k
    unfolding D_def by (rule dict_get_norm [OF keys])
  have "loads (plain_hooks pf) (dumps False (JObj (envelope_dict g body))) = Inr (JObj D)"
    unfolding D_def using loads_dumps [OF plain_hooks_keep envelope_ok [OF can(5)]] by simp
  then have doc: "Option.bind (utf8_decode env) (\<lambda>s. case loads (plain_hooks pf) s of Inr (JObj d) \<Rightarrow> Some d | _ \<Rightarrow> None) = Some D"
    using can(1) by (simp add: utf8_decode_utf8)
  have dk: "dict_keys D = {''schema_version'', ''grant'', ''body_base64'', ''body_sha256'', ''body_bytes''}"
    unfolding D_def dict_keys_norm by (simp add: envelope_dict_def)
  have items: "get_str D ''schema_version'' = Some GATEWAY_DISPATCH_ENVELOPE_SCHEMA"
    "dict_get D ''grant'' = Some (norm_json pf (JObj (grant_to_dict g)))" "get_str D ''body_base64'' = Some (b64encode body)"
    "get_str D ''body_sha256'' = Some (gg_body_sha256 g)" "dict_get D ''body_bytes'' = Some (JInt (int (length body)))"
    by (simp_all add: get_str_def get envelope_dict_def del: norm_json.simps(7))
  have "decode_body cr D g = Some body"
    using enc(2) items b64_roundtrip [OF assms(2)] by (simp add: decode_body_def body_matches_def)
  then show ?thesis
    using can(2) doc dk items(1,2) grant_from_norm [OF enc(1), of pf]
    by (simp add: decode_gateway_dispatch_envelope_def del: norm_json.simps)
qed

text \<open>
  The size of an envelope bounds the body below the 16 MiB that a grant may name: base64 takes four
  characters for three bytes.
\<close>

lemma envelope_body_bound:
  assumes "encode_gateway_dispatch_envelope cr g body = Inr env"
  shows "4 * int (length body) \<le> 3 * MAX_ENVELOPE_BYTES" "int (length body) \<le> 12595200"
proof -
  note can = canonical_okD [OF encode_Inr(3) [OF assms]]
  have "floats_shown (JObj (envelope_dict g body))" by (simp add: envelope_dict_def grant_to_dict_def unsigned_dict_def)
  from least_bytes_le [OF this, of False] have "least_bytes (JObj (envelope_dict g body)) \<le> int (length (dumps False (JObj (envelope_dict g body))))" .
  moreover have "int (length (b64encode body)) \<le> least_bytes (JObj (envelope_dict g body))"
    using least_bytes_pos [of "JObj (grant_to_dict g)"] least_bytes_pos [of "JInt (int (length body))"]
    by (simp add: envelope_dict_def del: least_bytes.simps(3) least_bytes.simps(7)) (simp add: least_bytes.simps(7))
  moreover have "length (dumps False (JObj (envelope_dict g body))) \<le> length env"
    using can(1) length_utf8 by blast
  ultimately have "int (length (b64encode body)) \<le> MAX_ENVELOPE_BYTES" using can(2) by linarith
  then show "4 * int (length body) \<le> 3 * MAX_ENVELOPE_BYTES" using b64encode_length [of body] by linarith
  then show "int (length body) \<le> 12595200" by (simp add: MAX_ENVELOPE_BYTES_def MAX_GRANT_BYTES_def)
qed

lemma sample_encodes: "is_ok (encode_gateway_dispatch_envelope sample_crypto sample_grant [1, 2])"
proof -
  have "is_ok (canonical (JObj (envelope_dict sample_grant [1, 2])) MAX_ENVELOPE_BYTES DEFAULT_DEPTH)" by code_simp
  moreover have "body_matches sample_crypto sample_grant [1, 2]" by code_simp
  ultimately show ?thesis
    using sample_grant_valid
    by (auto simp: encode_gateway_dispatch_envelope_def envelope_dict_def validate_grant_def is_ok_iff)
qed

theorem envelope_roundtrip_witness:
  "\<exists>env. encode_gateway_dispatch_envelope sample_crypto sample_grant [1, 2] = Inr env \<and>
     decode_gateway_dispatch_envelope sample_crypto (\<lambda>_. NanF) env = Inr (sample_grant, [1, 2])"
proof -
  obtain env where env: "encode_gateway_dispatch_envelope sample_crypto sample_grant [1, 2] = Inr env"
    using sample_encodes by (auto simp: is_ok_iff)
  from envelope_roundtrip [OF env, of "\<lambda>_. NanF"] env show ?thesis by simp
qed

text \<open>
  A grant may name a body of up to 16 MiB, but no body above 12595200 bytes can be put into an
  envelope: the limit on the envelope leaves no room for base64. There are valid grants of that size.
\<close>

theorem large_body_has_no_envelope:
  "(12595200 < gg_body_bytes g \<longrightarrow> \<not> is_ok (encode_gateway_dispatch_envelope cr g body)) \<and>
   grant_valid True (sample_grant\<lparr>gg_body_bytes := 12595201\<rparr>)"
proof
  show "12595200 < gg_body_bytes g \<longrightarrow> \<not> is_ok (encode_gateway_dispatch_envelope cr g body)"
    using envelope_body_bound(2) [of cr g body] encode_Inr(2) [of cr g body]
    by (fastforce simp: is_ok_iff body_matches_def)
  show "grant_valid True (sample_grant\<lparr>gg_body_bytes := 12595201\<rparr>)"
    using sample_grant_valid by (simp add: grant_valid_def grant_tokens_def MAX_BODY_BYTES_def)
qed

end
