(* ===== verification/Redaction.thy ===== *)
theory Redaction
  imports Authorization Canonical_Props Contracts_Props
begin

text \<open>
  \<^verbatim>\<open>cops/execution/redaction.py\<close>: exact masking of registered secrets and substitution of sensitive
  patterns.

  A compiled pattern is what its \<^verbatim>\<open>sub\<close> method does with a replacement template. The six default
  patterns are sequences of elements (a literal, alternatives, a bounded run of a character class, a word
  boundary) matched with Python's backtracking order: every element offers the lengths it can take,
  in order of preference, and the first choice that lets the rest match is taken.
\<close>

section \<open>Replacing text\<close>

text \<open>\<^verbatim>\<open>s.split(needle)\<close>, and \<^verbatim>\<open>s.replace(needle, new)\<close> as \<^verbatim>\<open>new.join(s.split(needle))\<close>.\<close>

fun split_text :: "string \<Rightarrow> string \<Rightarrow> string list" where
  "split_text needle [] = [[]]"
| "split_text needle (c # s) =
     (if prefix needle (c # s) then [] # split_text needle (drop (length needle - 1) s)
      else case split_text needle s of [] \<Rightarrow> [[c]] | p # ps \<Rightarrow> (c # p) # ps)"

fun join_text :: "string \<Rightarrow> string list \<Rightarrow> string" where
  "join_text new [] = []"
| "join_text new [p] = p"
| "join_text new (p # q # ps) = p @ new @ join_text new (q # ps)"

definition replace_text :: "string \<Rightarrow> string \<Rightarrow> string \<Rightarrow> string" where
  "replace_text needle new s = join_text new (split_text needle s)"

section \<open>Patterns\<close>

datatype element =
    Literal bool string
  | Alternatives bool "string list"
  | Run "char \<Rightarrow> bool" nat "nat option" bool
  | WordBoundary

text \<open>\<^verbatim>\<open>\w\<close> for code points below 256.\<close>

definition is_word :: "char \<Rightarrow> bool" where
  "is_word c \<longleftrightarrow> is_alnum_ascii c \<or> c = CHR ''_'' \<or>
     (let k = (of_char c :: nat) in k \<in> {170, 178, 179, 181, 185, 186, 188, 189, 190} \<or> 192 \<le> k \<and> k \<noteq> 215 \<and> k \<noteq> 247)"

definition at_boundary :: "char option \<Rightarrow> string \<Rightarrow> bool" where
  "at_boundary prev rest \<longleftrightarrow>
     (case prev of None \<Rightarrow> False | Some c \<Rightarrow> is_word c) \<noteq> (case rest of [] \<Rightarrow> False | c # _ \<Rightarrow> is_word c)"

definition starts_with :: "bool \<Rightarrow> string \<Rightarrow> string \<Rightarrow> bool" where
  "starts_with ignore_case w rest =
     (if ignore_case then prefix (map lower_char w) (map lower_char rest) else prefix w rest)"

fun choices :: "element \<Rightarrow> char option \<Rightarrow> string \<Rightarrow> nat list" where
  "choices (Literal ic w) prev rest = (if starts_with ic w rest then [length w] else [])"
| "choices (Alternatives ic ws) prev rest = map length (filter (\<lambda>w. starts_with ic w rest) ws)"
| "choices (Run P lo hi greedy) prev rest =
     (let m = length (takeWhile P rest); top = (case hi of None \<Rightarrow> m | Some h \<Rightarrow> min h m)
      in if greedy then rev [lo..<Suc top] else [lo..<Suc top])"
| "choices WordBoundary prev rest = (if at_boundary prev rest then [0] else [])"

fun first_some :: "('a \<Rightarrow> 'b option) \<Rightarrow> 'a list \<Rightarrow> 'b option" where
  "first_some f [] = None"
| "first_some f (x # xs) = (case f x of None \<Rightarrow> first_some f xs | Some y \<Rightarrow> Some y)"

text \<open>The length of the match at a position: \<open>prev\<close> is the character before it, \<open>rest\<close> the text from it on.\<close>

primrec match_here :: "element list \<Rightarrow> char option \<Rightarrow> string \<Rightarrow> nat option" where
  "match_here [] = (\<lambda>prev rest. Some 0)"
| "match_here (e # es) = (\<lambda>prev rest.
     first_some (\<lambda>n. map_option ((+) n) (match_here es (if n = 0 then prev else Some (rest ! (n - 1))) (drop n rest)))
       (choices e prev rest))"

function substitute :: "element list \<Rightarrow> (string \<Rightarrow> string) \<Rightarrow> char option \<Rightarrow> string \<Rightarrow> string" where
  "substitute es repl prev [] = []"
| "substitute es repl prev (c # s) =
     (case match_here es prev (c # s) of
        Some (Suc n) \<Rightarrow> repl (take (Suc n) (c # s)) @ substitute es repl (Some ((c # s) ! n)) (drop n s)
      | _ \<Rightarrow> c # substitute es repl (Some c) s)"
  by pat_completeness auto

termination
  by (relation "measure (\<lambda>(es, repl, prev, rest). length rest)") auto

datatype template = Whole string | AfterGroup1 string

type_synonym pattern_sub = "template \<Rightarrow> string \<Rightarrow> string"

definition is_az :: "char \<Rightarrow> bool" where
  "is_az c \<longleftrightarrow> is_lower c \<or> is_upper c"

definition any_char :: "char \<Rightarrow> bool" where
  "any_char c = True"

definition key_banner :: "string \<Rightarrow> element list" where
  "key_banner word = [Literal False (''-----'' @ word @ '' ''), Run (\<lambda>c. is_upper c \<or> c = CHR '' '') 0 None True,
     Literal False ''PRIVATE KEY-----'']"

definition PRIVATE_KEY :: "element list" where
  "PRIVATE_KEY = key_banner ''BEGIN'' @ [Run any_char 0 None False] @ key_banner ''END''"

definition BEARER_TOKEN :: "element list" where
  "BEARER_TOKEN = [WordBoundary, Literal True ''Bearer'', Run is_py_space 1 None True,
     Run (\<lambda>c. is_alnum_ascii c \<or> c \<in> set ''_-.'') 16 None True, WordBoundary]"

definition GITHUB_TOKEN :: "element list" where
  "GITHUB_TOKEN = [WordBoundary, Alternatives False [''ghp'', ''gho'', ''ghu'', ''ghs'', ''ghr''], Literal False ''_'',
     Run (\<lambda>c. is_alnum_ascii c \<or> c = CHR ''_'') 36 None True, WordBoundary]"

definition AWS_KEY :: "element list" where
  "AWS_KEY = [WordBoundary, Literal False ''AKIA'', Run (\<lambda>c. is_digit c \<or> is_upper c) 16 (Some 16) True, WordBoundary]"

definition jwt_part :: element where
  "jwt_part = Run word_char 10 None True"

definition JWT :: "element list" where
  "JWT = [WordBoundary, Literal False ''eyJ'', jwt_part, Literal False ''.eyJ'', jwt_part, Literal False ''.'', jwt_part, WordBoundary]"

definition PASSWORD_NAMES :: "string list" where
  "PASSWORD_NAMES = [''password'', ''passwd'', ''secret'', ''api_key'', ''token'']"

definition PASSWORD_PARAM :: "element list" where
  "PASSWORD_PARAM = [Alternatives True PASSWORD_NAMES, Run is_py_space 0 None True, Run (\<lambda>c. c \<in> set '':='') 1 (Some 1) True,
     Run is_py_space 0 None True,
     Run (\<lambda>c. \<not> is_py_space c \<and> c \<notin> {CHR '';'', CHR '','', dquote, quote_char, CHR ''&''}) 4 None True]"

text \<open>Group 1 of the password pattern is the name at the start of the match; the other patterns use no group.\<close>

definition name_group :: "string \<Rightarrow> string" where
  "name_group m = (case filter (\<lambda>w. starts_with True w m) PASSWORD_NAMES of [] \<Rightarrow> [] | w # _ \<Rightarrow> take (length w) m)"

definition compiled :: "element list \<Rightarrow> pattern_sub" where
  "compiled es t s = substitute es (\<lambda>m. case t of Whole r \<Rightarrow> r | AfterGroup1 r \<Rightarrow> name_group m @ r) None s"

definition DEFAULT_SENSITIVE_PATTERNS :: "(string \<times> pattern_sub) list" where
  "DEFAULT_SENSITIVE_PATTERNS = [
     (''PRIVATE_KEY'', compiled PRIVATE_KEY), (''BEARER_TOKEN'', compiled BEARER_TOKEN), (''GITHUB_TOKEN'', compiled GITHUB_TOKEN),
     (''AWS_KEY'', compiled AWS_KEY), (''JWT'', compiled JWT), (''PASSWORD_PARAM'', compiled PASSWORD_PARAM)]"

section \<open>The redactor\<close>

datatype redact_exc = SecretValueError

record redactor =
  rd_known_secrets :: "string list"
  rd_patterns :: "(string \<times> pattern_sub) list"

definition add_secret :: "json \<Rightarrow> redactor \<Rightarrow> (redactor, redact_exc, unit) outcome" where
  "add_secret secret r =
     (case secret of
        JStr (c # cs) \<Rightarrow>
          if c # cs \<in> set (rd_known_secrets r) then (Inr (), r)
          else (Inr (), r\<lparr>rd_known_secrets := sort_key (\<lambda>s. - int (length s)) (rd_known_secrets r @ [c # cs])\<rparr>)
      | _ \<Rightarrow> (Inl SecretValueError, r))"

fun add_secrets :: "json list \<Rightarrow> redactor \<Rightarrow> (redactor, redact_exc, unit) outcome" where
  "add_secrets [] r = (Inr (), r)"
| "add_secrets (s # ss) r = (case add_secret s r of (Inl e, r') \<Rightarrow> (Inl e, r') | (Inr _, r') \<Rightarrow> add_secrets ss r')"

definition StreamRedactor :: "json list \<Rightarrow> (string \<times> pattern_sub) list \<Rightarrow> (redact_exc, redactor) result" where
  "StreamRedactor known_secrets custom_patterns =
     (case add_secrets known_secrets \<lparr>rd_known_secrets = [], rd_patterns = []\<rparr> of
        (Inl e, _) \<Rightarrow> Inl e
      | (Inr _, r) \<Rightarrow> Inr (r\<lparr>rd_patterns := (if custom_patterns = [] then DEFAULT_SENSITIVE_PATTERNS else custom_patterns)\<rparr>))"

definition clear_secrets :: "redactor \<Rightarrow> redactor" where
  "clear_secrets r = r\<lparr>rd_known_secrets := []\<rparr>"

definition SECRET_MARK :: string where
  "SECRET_MARK = ''[REDACTED:SECRET]''"

definition mask_secret :: "string \<Rightarrow> string \<Rightarrow> string" where
  "mask_secret secret s = (if contains secret s then replace_text secret SECRET_MARK s else s)"

definition mask_known :: "string list \<Rightarrow> string \<Rightarrow> string" where
  "mask_known secrets s = foldl (\<lambda>r secret. mask_secret secret r) s secrets"

definition template_of :: "string \<Rightarrow> template" where
  "template_of label =
     (if label = ''PRIVATE_KEY'' then Whole ''[REDACTED:PRIVATE_KEY]''
      else if label = ''BEARER_TOKEN'' then Whole ''Bearer [REDACTED:TOKEN]''
      else if label = ''PASSWORD_PARAM'' then AfterGroup1 ''=[REDACTED:CREDENTIAL]''
      else Whole (''[REDACTED:'' @ label @ '']''))"

definition redact :: "redactor \<Rightarrow> string \<Rightarrow> string" where
  "redact r s =
     (if s = [] then s
      else foldl (\<lambda>t (label, sub). sub (template_of label) t) (mask_known (rd_known_secrets r) s) (rd_patterns r))"

text \<open>Bytes that decode to code points below 256; \<open>None\<close> for the others.\<close>

definition redact_bytes :: "redactor \<Rightarrow> nat list \<Rightarrow> nat list option" where
  "redact_bytes r data = map_option (\<lambda>s. utf8 (redact r s)) (utf8_decode data)"

end
