(* ===== verification/Redaction_Props.thy ===== *)
theory Redaction_Props
  imports Redaction
begin

text \<open>
  Masking removes every registered secret: no text of a secret without square brackets survives in the masked
  text, whatever the order and overlaps of the secrets. Registering keeps the secrets non-empty,
  distinct and longest first.
\<close>

section \<open>Occurrences\<close>

lemma contains_Nil [simp]: "contains x [] \<longleftrightarrow> x = []"
  by (simp add: contains_iff)

lemma contains_empty: "contains [] s"
  by (cases s) (simp_all add: contains_def)

lemma contains_Cons: "contains x (c # s) \<longleftrightarrow> prefix x (c # s) \<or> contains x s"
  by (auto simp: contains_def)

lemma contains_refl [simp]: "contains x x"
  unfolding contains_iff by (metis append.left_neutral append.right_neutral)

lemma contains_trans: "contains x y \<Longrightarrow> contains y z \<Longrightarrow> contains x z"
  unfolding contains_iff by (metis append.assoc)

lemma contains_part: "contains x b \<Longrightarrow> contains x (a @ b @ c)"
  unfolding contains_iff by (metis append.assoc)

text \<open>A character that the searched text lacks cuts the haystack.\<close>

lemma contains_cut:
  assumes "c \<notin> set x" "contains x (a @ c # b)"
  shows "contains x a \<or> contains x b"
proof -
  from assms(2) obtain p q where "a @ c # b = p @ x @ q" by (auto simp: contains_iff)
  then consider us where "a = p @ us" "us @ c # b = x @ q" | us where "a @ us = p" "c # b = us @ x @ q"
    by (auto simp: append_eq_append_conv2)
  then show ?thesis
  proof cases
    case 1
    then consider vs where "us = x @ vs" | vs where "x = us @ vs" "c # b = vs @ q"
      by (auto simp: append_eq_append_conv2)
    then show ?thesis
    proof cases
      case 1
      with \<open>a = p @ us\<close> show ?thesis by (auto simp: contains_iff)
    next
      case 2
      with assms(1) have "vs = []" by (cases vs) auto
      with 2 \<open>a = p @ us\<close> show ?thesis using contains_part [of x us p "[]"] by simp
    qed
  next
    case 2
    then show ?thesis
    proof (cases us)
      case Nil
      with 2 assms(1) have "x = []" by (cases x) auto
      then show ?thesis by (simp add: contains_empty)
    next
      case (Cons d ds)
      with 2 show ?thesis by (auto simp: contains_iff)
    qed
  qed
qed

section \<open>Splitting and joining\<close>

lemma split_text_nonempty: "split_text n s \<noteq> []"
  by (induction n s rule: split_text.induct) (auto split: list.split)

lemma split_text_head: "split_text n s = p # ps \<Longrightarrow> prefix p s"
  by (induction n s arbitrary: p ps rule: split_text.induct) (auto split: if_splits list.splits)

lemma split_text_parts: "p \<in> set (split_text n s) \<Longrightarrow> contains p s"
proof (induction n s arbitrary: p rule: split_text.induct)
  case (2 n c s)
  show ?case
  proof (cases "prefix n (c # s)")
    case True
    with 2 consider "p = []" | "contains p (drop (length n - 1) s)" by auto
    then show ?thesis
    proof cases
      case 2
      then have "contains p s" using contains_part [of p "drop (length n - 1) s" "take (length n - 1) s" "[]"] by simp
      then show ?thesis by (simp add: contains_Cons)
    qed (simp add: contains_Cons)
  next
    case False
    obtain q qs where q: "split_text n s = q # qs" using split_text_nonempty [of n s] by (cases "split_text n s") auto
    with 2(3) False consider "p = c # q" | "p \<in> set (split_text n s)" by auto
    then show ?thesis
    proof cases
      case 1
      then show ?thesis using split_text_head [OF q] by (simp add: contains_Cons)
    qed (use 2(2) False in \<open>auto simp: contains_Cons\<close>)
  qed
qed simp

lemma split_text_free: "n \<noteq> [] \<Longrightarrow> p \<in> set (split_text n s) \<Longrightarrow> \<not> contains n p"
proof (induction n s arbitrary: p rule: split_text.induct)
  case (2 n c s)
  show ?case
  proof (cases "prefix n (c # s)")
    case False
    obtain q qs where q: "split_text n s = q # qs" using split_text_nonempty [of n s] by (cases "split_text n s") auto
    have "\<not> prefix n (c # q)" using False split_text_head [OF q] by (metis prefix_order.trans Cons_prefix_Cons)
    with 2 False q show ?thesis by (auto simp: contains_Cons)
  qed (use 2 in auto)
qed simp

definition SECRET_INNER :: string where
  "SECRET_INNER = ''REDACTED:SECRET''"

lemma mark_parts: "SECRET_MARK = CHR ''['' # SECRET_INNER @ [CHR '']'']"
  by (simp add: SECRET_MARK_def SECRET_INNER_def)

definition maskable :: "string \<Rightarrow> bool" where
  "maskable x \<longleftrightarrow> x \<noteq> [] \<and> CHR ''['' \<notin> set x \<and> CHR '']'' \<notin> set x \<and> \<not> contains x SECRET_MARK"

lemma join_mark_contains:
  assumes "maskable x" "contains x (join_text SECRET_MARK ps)"
  shows "\<exists>p\<in>set ps. contains x p"
  using assms(2)
proof (induction SECRET_MARK ps rule: join_text.induct)
  case (3 p q ps)
  have open': "CHR ''['' \<notin> set x" and close: "CHR '']'' \<notin> set x" and inner: "\<not> contains x SECRET_INNER"
    using assms(1) contains_part [of x SECRET_INNER "[CHR ''['']" "[CHR '']'']"] by (auto simp: maskable_def mark_parts)
  from 3(2) have "contains x (p @ CHR ''['' # (SECRET_INNER @ CHR '']'' # join_text SECRET_MARK (q # ps)))"
    by (simp add: mark_parts)
  from contains_cut [OF open' this] contains_cut [OF close, of SECRET_INNER] inner
  have "contains x p \<or> contains x (join_text SECRET_MARK (q # ps))" by blast
  with 3(1) show ?case by auto
qed (use assms(1) in \<open>auto simp: maskable_def\<close>)

lemma mask_secret_free: "maskable x \<Longrightarrow> \<not> contains x (mask_secret x s)"
  using join_mark_contains [of x "split_text x s"] split_text_free [of x _ s]
  by (auto simp: mask_secret_def replace_text_def maskable_def)

lemma mask_secret_keeps: "maskable x \<Longrightarrow> contains x (mask_secret y s) \<Longrightarrow> contains x s"
  using join_mark_contains [of x "split_text y s"] split_text_parts [of _ y s]
  by (auto simp: mask_secret_def replace_text_def split: if_splits intro: contains_trans)

lemma mask_known_keeps: "maskable x \<Longrightarrow> contains x (mask_known ys s) \<Longrightarrow> contains x s"
  by (induction ys arbitrary: s) (auto simp: mask_known_def dest: mask_secret_keeps)

lemma mask_known_free: "maskable x \<Longrightarrow> x \<in> set ys \<Longrightarrow> \<not> contains x (mask_known ys s)"
proof (induction ys arbitrary: s)
  case (Cons y ys)
  have step: "mask_known (y # ys) s = mask_known ys (mask_secret y s)" by (simp add: mask_known_def)
  show ?case
  proof (cases "x = y")
    case True
    then show ?thesis
      unfolding step using mask_known_keeps [OF Cons.prems(1)] mask_secret_free [OF Cons.prems(1)] by blast
  qed (use Cons step in auto)
qed simp

section \<open>Registered secrets\<close>

definition redactor_inv :: "redactor \<Rightarrow> bool" where
  "redactor_inv r \<longleftrightarrow> distinct (rd_known_secrets r) \<and> [] \<notin> set (rd_known_secrets r) \<and>
     sorted (map (\<lambda>s. - int (length s)) (rd_known_secrets r))"

lemma add_secret_inv: "redactor_inv r \<Longrightarrow> redactor_inv (snd (add_secret s r))"
  by (auto simp: add_secret_def redactor_inv_def split: json.split list.split)

lemma add_secrets_inv: "redactor_inv r \<Longrightarrow> redactor_inv (snd (add_secrets ss r))"
proof (induction ss r rule: add_secrets.induct)
  case (2 s ss r)
  then show ?case using add_secret_inv [of r s] by (cases "add_secret s r") (auto split: sum.split)
qed simp

lemma add_secret_known:
  assumes "add_secret s r = (Inr u, r')"
  shows "\<exists>x. s = JStr x \<and> x \<noteq> [] \<and> set (rd_known_secrets r') = insert x (set (rd_known_secrets r)) \<and> rd_patterns r' = rd_patterns r"
  using assms by (auto simp: add_secret_def split: json.splits list.splits if_splits)

lemma add_secrets_known:
  assumes "add_secrets (map JStr xs) r = (out, r')"
  shows "(out = Inr () \<longleftrightarrow> [] \<notin> set xs) \<and>
    (out = Inr () \<longrightarrow> set (rd_known_secrets r') = set xs \<union> set (rd_known_secrets r)) \<and> rd_patterns r' = rd_patterns r"
  using assms
proof (induction xs arbitrary: r)
  case (Cons x xs)
  show ?case
  proof (cases "add_secret (JStr x) r")
    case (Pair o1 r1)
    show ?thesis
    proof (cases o1)
      case (Inl e)
      with Pair Cons.prems have "x = []" "out = Inl e" "r' = r"
        by (auto simp: add_secret_def split: list.splits if_splits)
      then show ?thesis by simp
    next
      case (Inr u)
      from add_secret_known [OF Pair [unfolded Inr]] have r1: "x \<noteq> []" "set (rd_known_secrets r1) = insert x (set (rd_known_secrets r))"
          "rd_patterns r1 = rd_patterns r" by auto
      from Cons.prems Pair Inr have "add_secrets (map JStr xs) r1 = (out, r')" by simp
      from Cons.IH [OF this] r1 show ?thesis by auto
    qed
  qed
qed auto

section \<open>Substituted patterns\<close>

text \<open>Every substitution inserts a left part and a label in square brackets; a text that lacks the brackets can appear
  only in the label or at the end of the left part.\<close>

lemma contains_appendD: "\<not> contains x (a @ b) \<Longrightarrow> \<not> contains x a \<and> \<not> contains x b"
  using contains_part [of x a "[]" b] contains_part [of x b a "[]"] by auto

lemma contains_append_cases:
  assumes "contains x (a @ b)"
  obtains "contains x a" | "contains x b" | u v where "x = u @ v" "v \<noteq> []" "prefix v b"
proof -
  from assms obtain p q where "a @ b = p @ x @ q" by (auto simp: contains_iff)
  then consider us where "a = p @ us" "us @ b = x @ q" | us where "a @ us = p" "b = us @ x @ q"
    by (auto simp: append_eq_append_conv2)
  then show thesis
  proof cases
    case 1
    then consider vs where "us = x @ vs" | vs where "x = us @ vs" "b = vs @ q" by (auto simp: append_eq_append_conv2)
    then show thesis
    proof cases
      case 1
      with \<open>a = p @ us\<close> show thesis using that(1) by (auto simp: contains_iff)
    next
      case 2
      show thesis
      proof (cases "vs = []")
        case True
        with 2(1) \<open>a = p @ us\<close> show thesis using that(1) contains_part [of x x p "[]"] by simp
      qed (use 2 that(3) in auto)
    qed
  next
    case 2
    then show thesis using that(2) by (auto simp: contains_iff)
  qed
qed

lemma substitute_free:
  assumes br: "CHR ''['' \<notin> set x" "CHR '']'' \<notin> set x"
    and ins: "\<And>k m. \<not> contains x (k @ m) \<Longrightarrow>
      \<exists>left label. repl m = left @ CHR ''['' # label @ [CHR '']''] \<and> \<not> contains x (k @ left) \<and> \<not> contains x label"
  shows "\<not> contains x (k @ s) \<Longrightarrow> \<not> contains x (k @ substitute es repl prev s)"
proof (induction "length s" arbitrary: k prev s rule: less_induct)
  case less
  show ?case
  proof (cases s)
    case (Cons c t)
    show ?thesis
    proof (cases "\<exists>n. match_here es prev (c # t) = Some (Suc n)")
      case True
      then obtain n where n: "match_here es prev (c # t) = Some (Suc n)" by blast
      let ?m = "take (Suc n) (c # t)" and ?rest = "substitute es repl (Some ((c # t) ! n)) (drop n t)"
      have parts: "k @ s = (k @ ?m) @ drop n t" by (simp add: Cons)
      from less.prems [unfolded parts] have free: "\<not> contains x (k @ ?m)" "\<not> contains x (drop n t)"
        using contains_appendD by blast+
      from ins [OF free(1)] obtain left label where r: "repl ?m = left @ CHR ''['' # label @ [CHR '']'']"
        "\<not> contains x (k @ left)" "\<not> contains x label" by blast
      have "\<not> contains x ?rest"
        using less.hyps [of "drop n t" "[]" "Some ((c # t) ! n)"] free(2) by (simp add: Cons)
      with contains_cut [OF br(1), of "k @ left" "label @ CHR '']'' # ?rest"] contains_cut [OF br(2), of label ?rest] r
      show ?thesis by (auto simp: Cons n)
    next
      case False
      then have "substitute es repl prev (c # t) = c # substitute es repl (Some c) t"
        by (auto split: option.split nat.split)
      with less.hyps [of t "k @ [c]" "Some c"] less.prems show ?thesis by (simp add: Cons)
    qed
  qed (use less.prems in simp)
qed

text \<open>What the patterns of the code insert.\<close>

definition INSERTED :: "string list" where
  "INSERTED = [''[REDACTED:SECRET]'', ''[REDACTED:PRIVATE_KEY]'', ''Bearer [REDACTED:TOKEN]'', ''[REDACTED:GITHUB_TOKEN]'',
     ''[REDACTED:AWS_KEY]'', ''[REDACTED:JWT]'', ''=[REDACTED:CREDENTIAL]'']"

text \<open>A secret that no inserted text contains, without square brackets, spaces and equals signs, and that does not end in a
  beginning of \<^verbatim>\<open>Bearer\<close>.\<close>

definition plain_secret :: "string \<Rightarrow> bool" where
  "plain_secret x \<longleftrightarrow> x \<noteq> [] \<and> list_all (\<lambda>c. c \<notin> set ''[]= '') x \<and> list_all (\<lambda>t. \<not> contains x t) INSERTED \<and>
     list_all (\<lambda>n. \<not> suffix (take n ''Bearer'') x) [1..<7]"

lemma plain_secretD:
  assumes "plain_secret x"
  shows "x \<noteq> []" "CHR ''['' \<notin> set x" "CHR '']'' \<notin> set x" "CHR ''='' \<notin> set x" "CHR '' '' \<notin> set x" "\<not> contains x SECRET_MARK"
    "\<And>t. t \<in> set INSERTED \<Longrightarrow> \<not> contains x t"
  using assms by (auto simp: plain_secret_def list_all_iff INSERTED_def SECRET_MARK_def)

lemma label_free: "contains x label \<Longrightarrow> contains x (left @ CHR ''['' # label @ [CHR '']''])"
  using contains_part [of x label "left @ [CHR ''['']" "[CHR '']'']"] by simp

lemma bearer_free:
  assumes "plain_secret x" "\<not> contains x k"
  shows "\<not> contains x (k @ ''Bearer '')"
proof
  assume "contains x (k @ ''Bearer '')"
  then have "contains x ((k @ ''Bearer'') @ CHR '' '' # [])" by simp
  then have "contains x (k @ ''Bearer'')"
    using contains_cut [OF plain_secretD(5) [OF assms(1)], of "k @ ''Bearer''" "[]"] plain_secretD(1) [OF assms(1)] by simp
  then show False
  proof (cases rule: contains_append_cases)
    case 2
    then have "contains x ''Bearer [REDACTED:TOKEN]''" using contains_part [of x "''Bearer''" "[]" "'' [REDACTED:TOKEN]''"] by simp
    then show False using plain_secretD(7) [OF assms(1)] by (auto simp: INSERTED_def)
  next
    case (3 u v)
    then have "v = take (length v) ''Bearer''" "length v < 7" "0 < length v"
      by (auto simp: prefix_def take_append dest: arg_cong [where f = length])
    then have "suffix (take (length v) ''Bearer'') x" "length v \<in> set [1..<7]" using 3(1) by (simp_all add: suffix_def Suc_le_eq)
    then show False using assms(1) unfolding plain_secret_def list_all_iff by blast
  qed (use assms(2) in simp)
qed

lemma name_group_prefix: "prefix (name_group m) m"
  by (auto simp: name_group_def take_is_prefix split: list.split)

lemma name_free:
  assumes "plain_secret x" "\<not> contains x (k @ m)"
  shows "\<not> contains x (k @ name_group m @ ''='')"
proof
  assume "contains x (k @ name_group m @ ''='')"
  then have "contains x ((k @ name_group m) @ CHR ''='' # [])" by simp
  then have "contains x (k @ name_group m)"
    using contains_cut [OF plain_secretD(4) [OF assms(1)], of "k @ name_group m" "[]"] plain_secretD(1) [OF assms(1)] by simp
  moreover obtain rest where "m = name_group m @ rest" using name_group_prefix [of m] by (auto simp: prefix_def)
  ultimately show False using assms(2) contains_appendD [of x "k @ name_group m" rest] by (metis append.assoc)
qed

definition inserted_text :: "template \<Rightarrow> string \<Rightarrow> string" where
  "inserted_text t m = (case t of Whole r \<Rightarrow> r | AfterGroup1 r \<Rightarrow> name_group m @ r)"

lemma default_templates:
  assumes "plain_secret x" "label \<in> set (map fst DEFAULT_SENSITIVE_PATTERNS)" "\<not> contains x (k @ m)"
  shows "\<exists>left inner. inserted_text (template_of label) m = left @ CHR ''['' # inner @ [CHR '']''] \<and> \<not> contains x (k @ left) \<and> \<not> contains x inner"
proof -
  note k = conjunct1 [OF contains_appendD [OF assms(3)]]
  have inner: "\<not> contains x inner" if "left @ CHR ''['' # inner @ [CHR '']''] \<in> set INSERTED" for left inner
    using plain_secretD(7) [OF assms(1) that] label_free by blast
  have "label = ''PRIVATE_KEY'' \<or> label = ''BEARER_TOKEN'' \<or> label = ''GITHUB_TOKEN'' \<or> label = ''AWS_KEY'' \<or> label = ''JWT'' \<or> label = ''PASSWORD_PARAM''"
    using assms(2) by (simp add: DEFAULT_SENSITIVE_PATTERNS_def)
  then show ?thesis
  proof (elim disjE)
    assume l: "label = ''PRIVATE_KEY''"
    show ?thesis using inner [of "[]" "''REDACTED:PRIVATE_KEY''"] k
      by (intro exI [of _ "[]"] exI [of _ "''REDACTED:PRIVATE_KEY''"]) (simp add: l inserted_text_def template_of_def INSERTED_def)
  next
    assume l: "label = ''BEARER_TOKEN''"
    show ?thesis using inner [of "''Bearer ''" "''REDACTED:TOKEN''"] bearer_free [OF assms(1) k]
      by (intro exI [of _ "''Bearer ''"] exI [of _ "''REDACTED:TOKEN''"]) (simp add: l inserted_text_def template_of_def INSERTED_def)
  next
    assume l: "label = ''GITHUB_TOKEN''"
    show ?thesis using inner [of "[]" "''REDACTED:GITHUB_TOKEN''"] k
      by (intro exI [of _ "[]"] exI [of _ "''REDACTED:GITHUB_TOKEN''"]) (simp add: l inserted_text_def template_of_def INSERTED_def)
  next
    assume l: "label = ''AWS_KEY''"
    show ?thesis using inner [of "[]" "''REDACTED:AWS_KEY''"] k
      by (intro exI [of _ "[]"] exI [of _ "''REDACTED:AWS_KEY''"]) (simp add: l inserted_text_def template_of_def INSERTED_def)
  next
    assume l: "label = ''JWT''"
    show ?thesis using inner [of "[]" "''REDACTED:JWT''"] k
      by (intro exI [of _ "[]"] exI [of _ "''REDACTED:JWT''"]) (simp add: l inserted_text_def template_of_def INSERTED_def)
  next
    assume l: "label = ''PASSWORD_PARAM''"
    show ?thesis using inner [of "''=''" "''REDACTED:CREDENTIAL''"] name_free [OF assms(1,3)]
      by (intro exI [of _ "name_group m @ ''=''"] exI [of _ "''REDACTED:CREDENTIAL''"]) (simp add: l inserted_text_def template_of_def INSERTED_def)
  qed
qed

lemma compiled_free:
  assumes "plain_secret x" "label \<in> set (map fst DEFAULT_SENSITIVE_PATTERNS)" "\<not> contains x s"
  shows "\<not> contains x (compiled es (template_of label) s)"
  using substitute_free [OF plain_secretD(2,3) [OF assms(1)] default_templates [OF assms(1,2)], where k = "[]" and s = s and es = es and prev = None] assms(3)
  by (simp add: compiled_def inserted_text_def)

lemma patterns_free:
  assumes "plain_secret x" "list_all (\<lambda>(label, sub). label \<in> set (map fst DEFAULT_SENSITIVE_PATTERNS) \<and> (\<exists>es. sub = compiled es)) ps"
  shows "\<not> contains x s \<Longrightarrow> \<not> contains x (foldl (\<lambda>t (label, sub). sub (template_of label) t) s ps)"
  using assms(2)
proof (induction ps arbitrary: s)
  case (Cons p ps)
  then obtain label es where p: "p = (label, compiled es)" "label \<in> set (map fst DEFAULT_SENSITIVE_PATTERNS)" by (cases p) auto
  have "\<not> contains x (compiled es (template_of label) s)" using compiled_free [OF assms(1) p(2)] Cons.prems(1) by blast
  with Cons.IH Cons.prems(2) show ?case by (simp add: p(1))
qed simp

lemma default_patterns: "list_all (\<lambda>(label, sub). label \<in> set (map fst DEFAULT_SENSITIVE_PATTERNS) \<and> (\<exists>es. sub = compiled es)) DEFAULT_SENSITIVE_PATTERNS"
  by (auto simp: DEFAULT_SENSITIVE_PATTERNS_def)

lemma redact_free:
  assumes "plain_secret x" "x \<in> set (rd_known_secrets r)" "rd_patterns r = DEFAULT_SENSITIVE_PATTERNS"
  shows "\<not> contains x (redact r s)"
proof (cases s)
  case (Cons c t)
  have "maskable x" using plain_secretD [OF assms(1)] by (simp add: maskable_def)
  from patterns_free [OF assms(1) default_patterns mask_known_free [OF this assms(2), of s]]
  show ?thesis by (simp add: redact_def Cons assms(3))
qed (use plain_secretD(1) [OF assms(1)] in \<open>simp add: redact_def\<close>)

text \<open>
  C33. Redaction removes registered secrets. A secret registered with a redactor that uses the patterns of the module
  does not occur in any text that \<^verbatim>\<open>redact\<close> returns, whatever other secrets are registered, how they overlap, and what
  the patterns match and insert. The secret has no square bracket, space or equals sign, does not end in a beginning of
  \<^verbatim>\<open>Bearer\<close>, and is not part of a text that the code inserts, such as \<^verbatim>\<open>CREDENTIAL\<close>: that one is
  shown again by the label of a later pattern (\<open>inserted_secret_shown\<close>).
\<close>

theorem registered_secret_is_masked:
  assumes "add_secrets (map JStr xs) r = (Inr (), r')" "x \<in> set xs" "rd_patterns r = DEFAULT_SENSITIVE_PATTERNS" "plain_secret x"
  shows "\<not> contains x (redact r' s)"
  by (rule redact_free) (use add_secrets_known [OF assms(1)] assms(2-4) in auto)

definition demo_redactor :: redactor where
  "demo_redactor = \<lparr>rd_known_secrets = [], rd_patterns = DEFAULT_SENSITIVE_PATTERNS\<rparr>"

theorem registered_secret_is_masked_witness:
  "\<not> contains ''hunter2'' (redact (snd (add_secrets [JStr ''hunter2'', JStr ''er2x''] demo_redactor)) ''token: hunthunter2er2x'')"
proof -
  have run: "add_secrets (map JStr [''hunter2'', ''er2x'']) demo_redactor = (Inr (), snd (add_secrets [JStr ''hunter2'', JStr ''er2x''] demo_redactor))"
    by (simp add: add_secret_def)
  have "plain_secret ''hunter2''" by code_simp
  from registered_secret_is_masked [OF run _ _ this] show ?thesis by (simp add: demo_redactor_def)
qed

text \<open>A registered secret that is part of an inserted text is shown by the redaction of a text that does not contain it.\<close>

lemma inserted_secret_shown:
  "\<not> contains ''CREDENTIAL'' ''token=abcd''"
  "redact (snd (add_secrets [JStr ''CREDENTIAL''] demo_redactor)) ''token=abcd'' = ''token=[REDACTED:CREDENTIAL]''"
proof -
  show "\<not> contains ''CREDENTIAL'' ''token=abcd''" by code_simp
  have known: "mask_known [''CREDENTIAL''] ''token=abcd'' = ''token=abcd''" by code_simp
  have "compiled PRIVATE_KEY (template_of ''PRIVATE_KEY'') ''token=abcd'' = ''token=abcd''"
    "compiled BEARER_TOKEN (template_of ''BEARER_TOKEN'') ''token=abcd'' = ''token=abcd''"
    "compiled GITHUB_TOKEN (template_of ''GITHUB_TOKEN'') ''token=abcd'' = ''token=abcd''"
    "compiled AWS_KEY (template_of ''AWS_KEY'') ''token=abcd'' = ''token=abcd''"
    "compiled JWT (template_of ''JWT'') ''token=abcd'' = ''token=abcd''"
    "compiled PASSWORD_PARAM (template_of ''PASSWORD_PARAM'') ''token=abcd'' = ''token=[REDACTED:CREDENTIAL]''"
    by code_simp+
  then show "redact (snd (add_secrets [JStr ''CREDENTIAL''] demo_redactor)) ''token=abcd'' = ''token=[REDACTED:CREDENTIAL]''"
    by (simp add: redact_def add_secret_def demo_redactor_def known DEFAULT_SENSITIVE_PATTERNS_def)
qed

end
