(* ===== verification/Credentials.thy ===== *)
theory Credentials
  imports Redaction_Props Control
begin

text \<open>
  \<^verbatim>\<open>cops/execution/credentials.py\<close>: credential values released for one approved operation.

  The approval control is the worker's client of \<open>Control\<close>, so the provenance of a receipt is the one the
  client keeps. The provider is an argument: what a direct call answers, and what the child process of
  the bounded lookup does. The references the provider is asked for are logged, and the redactor is state. A plan's
  credential references are strings, as the contract of plans demands.
\<close>

section \<open>Data\<close>

datatype credential_exc = CredentialResolutionError string | CredentialEvidence evidence_error

abbreviation unresolved :: "string \<Rightarrow> (credential_exc, 'a) result" where
  "unresolved message \<equiv> Inl (CredentialResolutionError message)"

record credential_grant =
  cg_reference :: string
  cg_environment_variable :: string
  cg_plan_id :: string
  cg_plan_digest :: string
  cg_engagement_id :: string
  cg_worker_identity :: string
  cg_target :: string
  cg_step_id :: string
  cg_tool :: string
  cg_tool_version :: string
  cg_action :: string
  cg_operation_index :: int
  cg_operation_digest :: string

definition CREDENTIAL_ENVIRONMENT_PREFIX :: string where
  "CREDENTIAL_ENVIRONMENT_PREFIX = ''COPS_CREDENTIAL_''"

definition environment_name :: "string \<Rightarrow> bool" where
  "environment_name s \<longleftrightarrow> (case s of
       [] \<Rightarrow> False
     | c # cs \<Rightarrow> (is_lower c \<or> is_upper c \<or> c = CHR ''_'') \<and> list_all (\<lambda>x. is_alnum_ascii x \<or> x = CHR ''_'') cs)"

definition authorization_digest_ok :: "string \<Rightarrow> bool" where
  "authorization_digest_ok s \<longleftrightarrow> length s = 64 \<and> list_all (\<lambda>c. is_digit c \<or> c \<in> set ''abcdef'') s"

section \<open>The provider\<close>

datatype direct_answer = Returned json | RaisedTimeout | RaisedOther

datatype child_answer = ChildSent json | ChildFailed | ChildStalled | ChildExited

record provider =
  pr_resolve :: "string \<Rightarrow> direct_answer"
  pr_child :: "string \<Rightarrow> child_answer"
  pr_supports_deadline :: bool
  pr_can_fork :: bool

datatype lookup = Got json | TimedOut | LookupFailed

definition direct_lookup :: "direct_answer \<Rightarrow> lookup" where
  "direct_lookup a = (case a of Returned v \<Rightarrow> Got v | RaisedTimeout \<Rightarrow> TimedOut | RaisedOther \<Rightarrow> LookupFailed)"

definition child_lookup :: "child_answer \<Rightarrow> lookup" where
  "child_lookup a = (case a of ChildSent v \<Rightarrow> Got v | ChildFailed \<Rightarrow> LookupFailed | ChildStalled \<Rightarrow> TimedOut | ChildExited \<Rightarrow> LookupFailed)"

text \<open>The answer, and whether the provider was asked; \<open>now\<close> is the reading of the monotonic clock.\<close>

definition resolve_provider :: "provider \<Rightarrow> string \<Rightarrow> rat option \<Rightarrow> rat \<Rightarrow> lookup \<times> bool" where
  "resolve_provider pr reference deadline now =
     (case deadline of
        None \<Rightarrow> (direct_lookup (pr_resolve pr reference), True)
      | Some d \<Rightarrow>
          if d - now \<le> 0 then (TimedOut, False)
          else if pr_supports_deadline pr then (direct_lookup (pr_resolve pr reference), True)
          else if \<not> pr_can_fork pr then (LookupFailed, False)
          else (child_lookup (pr_child pr reference), True))"

section \<open>Checks\<close>

record resolver =
  rs_provider :: provider
  rs_grants :: "credential_grant list"
  rs_control :: client

record credential_state =
  ce_redactor :: redactor
  ce_lookups :: "string list"

record operation_request =
  or_plan :: action_plan
  or_receipt :: receipt_ref
  or_worker_identity :: string
  or_operation :: json
  or_operation_index :: int
  or_deadline :: "rat option"

definition plan_operation_list :: "action_plan \<Rightarrow> json list" where
  "plan_operation_list plan = (case thaw (plan_operations plan) of JList vs \<Rightarrow> vs | _ \<Rightarrow> [])"

definition plan_references :: "action_plan \<Rightarrow> string set" where
  "plan_references plan =
     (case thaw (plan_credential_references plan) of JList vs \<Rightarrow> {s. JStr s \<in> set vs} | _ \<Rightarrow> {})"

definition grant_selected :: "string \<Rightarrow> dict \<Rightarrow> int \<Rightarrow> credential_grant \<Rightarrow> bool" where
  "grant_selected pid d index g \<longleftrightarrow>
     cg_plan_id g = pid \<and> cg_operation_index g = index \<and>
     get_str d ''step_id'' = Some (cg_step_id g) \<and> get_str d ''tool'' = Some (cg_tool g) \<and>
     get_str d ''tool_version'' = Some (cg_tool_version g) \<and> get_str d ''action'' = Some (cg_action g)"

definition matching_grants :: "resolver \<Rightarrow> string \<Rightarrow> dict \<Rightarrow> int \<Rightarrow> credential_grant list" where
  "matching_grants rs pid d index = filter (grant_selected pid d index) (rs_grants rs)"

definition has_grant_for_operation :: "resolver \<Rightarrow> action_plan \<Rightarrow> json \<Rightarrow> int \<Rightarrow> bool" where
  "has_grant_for_operation rs plan operation index =
     (case operation of JObj d \<Rightarrow> matching_grants rs (plan_id plan) d index \<noteq> [] | _ \<Rightarrow> False)"

definition validate_authorization_receipt :: "action_plan \<Rightarrow> control_receipt \<Rightarrow> string \<Rightarrow> (credential_exc, unit) result" where
  "validate_authorization_receipt plan r worker =
     (if [] \<in> set [re_authorization_id r, re_authorization_digest r, re_action_plan_id r, re_plan_digest r, re_engagement_id r,
            re_worker_identity r, re_target r]
      then unresolved ''credential consumption receipt is invalid''
      else if \<not> authorization_digest_ok (re_authorization_digest r) then unresolved ''credential consumption receipt is invalid''
      else if re_action_plan_id r \<noteq> plan_id plan \<or> re_plan_digest r \<noteq> plan_digest plan \<or> re_engagement_id r \<noteq> plan_engagement_id plan \<or>
              re_worker_identity r \<noteq> worker \<or> re_target r \<noteq> plan_target plan
      then unresolved ''credential consumption receipt does not match the operation''
      else Inr ())"

definition grant_bound :: "action_plan \<Rightarrow> string \<Rightarrow> string \<Rightarrow> credential_grant \<Rightarrow> bool" where
  "grant_bound plan worker h g \<longleftrightarrow>
     cg_plan_digest g = plan_digest plan \<and> cg_engagement_id g = plan_engagement_id plan \<and> cg_worker_identity g = worker \<and>
     cg_target g = plan_target plan \<and> cg_operation_digest g = h"

text \<open>The loop over the grants: the references seen so far, in order.\<close>

fun check_grants :: "action_plan \<Rightarrow> string \<Rightarrow> string \<Rightarrow> credential_grant list \<Rightarrow> string list \<Rightarrow> (credential_exc, string list) result" where
  "check_grants plan worker h [] seen = Inr seen"
| "check_grants plan worker h (g # gs) seen =
     (if cg_reference g \<notin> plan_references plan then unresolved ''credential grant is not declared by the approved plan''
      else if \<not> grant_bound plan worker h g then unresolved ''no credential grant matches the approved operation''
      else if cg_reference g \<in> set seen then unresolved ''credential grants contain a duplicate reference binding''
      else check_grants plan worker h gs (seen @ [cg_reference g]))"

definition grant_metadata_ok :: "credential_grant \<Rightarrow> bool" where
  "grant_metadata_ok g \<longleftrightarrow> cg_reference g \<noteq> [] \<and> environment_name (cg_environment_variable g) \<and>
     prefix CREDENTIAL_ENVIRONMENT_PREFIX (cg_environment_variable g) \<and> cg_environment_variable g \<noteq> CREDENTIAL_ENVIRONMENT_PREFIX"

fun check_environment :: "credential_grant list \<Rightarrow> string list \<Rightarrow> (credential_exc, unit) result" where
  "check_environment [] seen = Inr ()"
| "check_environment (g # gs) seen =
     (if \<not> grant_metadata_ok g then unresolved ''credential grant metadata is invalid''
      else if cg_environment_variable g \<in> set seen then unresolved ''credential grants contain a duplicate environment binding''
      else check_environment gs (seen @ [cg_environment_variable g]))"

text \<open>Everything before the first lookup: the grants to resolve. \<open>sha\<close> is SHA-256; \<open>expected\<close> the references a
  mediator asks for.\<close>

definition provenance :: "resolver \<Rightarrow> receipt_ref \<Rightarrow> (credential_exc, unit) result" where
  "provenance rs r =
     (case validate_receipt_provenance (rs_control rs) r of
        Inl _ \<Rightarrow> unresolved ''credential consumption receipt provenance is invalid''
      | Inr r' \<Rightarrow> if fst r' = fst r then Inr () else unresolved ''credential consumption receipt provenance is invalid'')"

definition check_operation :: "(nat list \<Rightarrow> string) \<Rightarrow> resolver \<Rightarrow> operation_request \<Rightarrow> (credential_exc, dict \<times> string) result" where
  "check_operation sha rs rq =
     bindE (provenance rs (or_receipt rq)) (\<lambda>_.
     case or_operation rq of
       JObj d \<Rightarrow>
         bindE (validate_authorization_receipt (or_plan rq) (snd (or_receipt rq)) (or_worker_identity rq)) (\<lambda>_.
         let ops = plan_operation_list (or_plan rq); i = or_operation_index rq in
         if i < 0 \<or> int (length ops) \<le> i \<or> \<not> py_eq (JObj d) (ops ! nat i)
         then unresolved ''credential request is outside the approved plan''
         else (case digest sha (JObj d) DEFAULT_BYTES DEFAULT_DEPTH of
            Inl e \<Rightarrow> Inl (CredentialEvidence e)
          | Inr h \<Rightarrow> Inr (d, h)))
     | _ \<Rightarrow> unresolved ''credential request operation is invalid'')"

definition approved_grants ::
  "(nat list \<Rightarrow> string) \<Rightarrow> resolver \<Rightarrow> operation_request \<Rightarrow> string set option \<Rightarrow> (credential_exc, credential_grant list) result" where
  "approved_grants sha rs rq expected =
     bindE (check_operation sha rs rq) (\<lambda>(d, h).
     let gs = matching_grants rs (plan_id (or_plan rq)) d (or_operation_index rq) in
     if gs = [] then
       (if expected \<noteq> None \<and> expected \<noteq> Some {} then unresolved ''credential request does not match the approved operation grants''
        else Inr [])
     else bindE (check_grants (or_plan rq) (or_worker_identity rq) h gs []) (\<lambda>seen.
       if expected \<noteq> None \<and> expected \<noteq> Some (set seen)
       then unresolved ''credential request does not match the approved operation grants''
       else bindE (check_environment gs []) (\<lambda>_. Inr gs)))"

section \<open>Resolution\<close>

definition value_of_lookup :: "lookup \<Rightarrow> (credential_exc, string) result" where
  "value_of_lookup found =
     (case found of
        TimedOut \<Rightarrow> unresolved ''credential provider resolution timed out''
      | LookupFailed \<Rightarrow> unresolved ''credential provider resolution failed''
      | Got v \<Rightarrow>
          (case v of
             JStr s \<Rightarrow> if s = [] \<or> CHR 0x00 \<in> set s then unresolved ''credential provider returned an invalid value'' else Inr s
           | _ \<Rightarrow> unresolved ''credential provider returned an invalid value''))"

text \<open>The lookups, in the order of the grants; \<open>clock n\<close> is the reading before the \<open>n\<close>-th. Returns the values and the
  references asked for.\<close>

fun lookup_all ::
  "provider \<Rightarrow> rat option \<Rightarrow> (nat \<Rightarrow> rat) \<Rightarrow> nat \<Rightarrow> credential_grant list \<Rightarrow> (credential_exc, (string \<times> string) list) result \<times> string list" where
  "lookup_all pr deadline clock n [] = (Inr [], [])"
| "lookup_all pr deadline clock n (g # gs) =
     (let (found, was_asked) = resolve_provider pr (cg_reference g) deadline (clock n);
          asked = (if was_asked then [cg_reference g] else [])
      in case value_of_lookup found of
           Inl e \<Rightarrow> (Inl e, asked)
         | Inr v \<Rightarrow>
             (let (rest, later) = lookup_all pr deadline clock (Suc n) gs
              in (bindE rest (\<lambda>values. Inr ((cg_reference g, v) # values)), asked @ later)))"

definition resolve_values ::
  "(nat list \<Rightarrow> string) \<Rightarrow> resolver \<Rightarrow> (nat \<Rightarrow> rat) \<Rightarrow> operation_request \<Rightarrow> string set option \<Rightarrow> credential_state \<Rightarrow>
   (credential_state, credential_exc, (string \<times> string) list) outcome" where
  "resolve_values sha rs clock rq expected st =
     (case approved_grants sha rs rq expected of
        Inl e \<Rightarrow> (Inl e, st)
      | Inr [] \<Rightarrow> (Inr [], st)
      | Inr gs \<Rightarrow>
          (case lookup_all (rs_provider rs) (or_deadline rq) clock 0 gs of
             (Inl e, asked) \<Rightarrow> (Inl e, st\<lparr>ce_lookups := ce_lookups st @ asked\<rparr>)
           | (Inr values, asked) \<Rightarrow>
               (case add_secrets (map (\<lambda>(_, v). JStr v) values) (ce_redactor st) of
                  (Inl _, r) \<Rightarrow> (unresolved ''credential redactor registration failed'', st\<lparr>ce_redactor := r, ce_lookups := ce_lookups st @ asked\<rparr>)
                | (Inr _, r) \<Rightarrow> (Inr values, st\<lparr>ce_redactor := r, ce_lookups := ce_lookups st @ asked\<rparr>))))"

definition resolve_for_operation ::
  "(nat list \<Rightarrow> string) \<Rightarrow> resolver \<Rightarrow> (nat \<Rightarrow> rat) \<Rightarrow> operation_request \<Rightarrow> credential_state \<Rightarrow>
   (credential_state, credential_exc, (string \<times> string) list) outcome" where
  "resolve_for_operation sha rs clock rq st =
     (case resolve_values sha rs clock rq None st of
        (Inl e, st') \<Rightarrow> (Inl e, st')
      | (Inr values, st') \<Rightarrow>
          (Inr (case or_operation rq of
             JObj d \<Rightarrow> map (\<lambda>g. (cg_environment_variable g, the (map_of values (cg_reference g))))
               (matching_grants rs (plan_id (or_plan rq)) d (or_operation_index rq))
           | _ \<Rightarrow> []), st'))"

definition resolve_values_for_operation ::
  "(nat list \<Rightarrow> string) \<Rightarrow> resolver \<Rightarrow> (nat \<Rightarrow> rat) \<Rightarrow> operation_request \<Rightarrow> string list \<Rightarrow> credential_state \<Rightarrow>
   (credential_state, credential_exc, (string \<times> string) list) outcome" where
  "resolve_values_for_operation sha rs clock rq references st =
     (if \<not> distinct references \<or> [] \<in> set references then (unresolved ''credential request references are invalid'', st)
      else resolve_values sha rs clock rq (Some (set references)) st)"

end
