(* ===== verification/Credentials_Props.thy ===== *)
theory Credentials_Props
  imports Credentials Models_Props
begin

text \<open>
  A credential value leaves the resolver only for a receipt the approval control issued, for the
  operation of the plan it was issued for, through a grant that names plan, worker, target and operation; the
  provider is asked only after all of that holds; and every value handed out is registered with the redactor.
\<close>

section \<open>Checks\<close>

lemma check_operation_Inr:
  assumes "check_operation sha rs rq = Inr (d, h)"
  shows "map_of (cl_issued (rs_control rs)) (fst (or_receipt rq)) = Some (snd (or_receipt rq))"
    and "or_operation rq = JObj d"
    and "validate_authorization_receipt (or_plan rq) (snd (or_receipt rq)) (or_worker_identity rq) = Inr ()"
    and "0 \<le> or_operation_index rq \<and> or_operation_index rq < int (length (plan_operation_list (or_plan rq)))"
    and "py_eq (JObj d) (plan_operation_list (or_plan rq) ! nat (or_operation_index rq))"
    and "digest sha (JObj d) DEFAULT_BYTES DEFAULT_DEPTH = Inr h"
  using assms
  by (auto simp: check_operation_def provenance_def validate_receipt_provenance_def bindE_Inr_iff Let_def
      split: json.splits if_splits sum.splits)

lemma check_grants_Inr:
  "check_grants plan worker h gs seen = Inr seen' \<Longrightarrow>
   (\<forall>g\<in>set gs. cg_reference g \<in> plan_references plan \<and> grant_bound plan worker h g) \<and>
   seen' = seen @ map cg_reference gs \<and> distinct (map cg_reference gs) \<and> set (map cg_reference gs) \<inter> set seen = {}"
  by (induction plan worker h gs seen rule: check_grants.induct) (auto split: if_splits)

lemma check_environment_Inr:
  "check_environment gs seen = Inr () \<Longrightarrow>
   (\<forall>g\<in>set gs. grant_metadata_ok g) \<and> distinct (map cg_environment_variable gs) \<and>
   set (map cg_environment_variable gs) \<inter> set seen = {}"
  by (induction gs seen rule: check_environment.induct) (auto split: if_splits)

text \<open>What holds of every grant that passed the checks.\<close>

definition grant_approved :: "(nat list \<Rightarrow> string) \<Rightarrow> resolver \<Rightarrow> operation_request \<Rightarrow> credential_grant \<Rightarrow> bool" where
  "grant_approved sha rs rq g \<longleftrightarrow> g \<in> set (rs_grants rs) \<and> grant_metadata_ok g \<and> cg_reference g \<in> plan_references (or_plan rq) \<and>
     (\<exists>d h. or_operation rq = JObj d \<and> digest sha (JObj d) DEFAULT_BYTES DEFAULT_DEPTH = Inr h \<and>
       grant_selected (plan_id (or_plan rq)) d (or_operation_index rq) g \<and> grant_bound (or_plan rq) (or_worker_identity rq) h g)"

text \<open>The request is for an operation of the plan and carries a receipt the control issued for that plan and worker.\<close>

definition request_approved :: "resolver \<Rightarrow> operation_request \<Rightarrow> bool" where
  "request_approved rs rq \<longleftrightarrow>
     (let r = snd (or_receipt rq); plan = or_plan rq; i = or_operation_index rq in
      map_of (cl_issued (rs_control rs)) (fst (or_receipt rq)) = Some r \<and>
      re_action_plan_id r = plan_id plan \<and> re_plan_digest r = plan_digest plan \<and> re_engagement_id r = plan_engagement_id plan \<and>
      re_worker_identity r = or_worker_identity rq \<and> re_target r = plan_target plan \<and>
      0 \<le> i \<and> i < int (length (plan_operation_list plan)) \<and> py_eq (or_operation rq) (plan_operation_list plan ! nat i))"

lemma approved_grants_Inr:
  assumes "approved_grants sha rs rq expected = Inr gs"
  shows "request_approved rs rq" "\<forall>g\<in>set gs. grant_approved sha rs rq g" "distinct (map cg_reference gs)"
    "distinct (map cg_environment_variable gs)" "\<And>E. expected = Some E \<Longrightarrow> E = set (map cg_reference gs)"
    "\<And>d. or_operation rq = JObj d \<Longrightarrow> gs = matching_grants rs (plan_id (or_plan rq)) d (or_operation_index rq)"
proof -
  from assms obtain d h where dh: "check_operation sha rs rq = Inr (d, h)"
    by (auto simp: approved_grants_def bindE_Inr_iff)
  note op = check_operation_Inr [OF dh]
  let ?gs = "matching_grants rs (plan_id (or_plan rq)) d (or_operation_index rq)"
  show "request_approved rs rq"
    using op by (auto simp: request_approved_def Let_def validate_authorization_receipt_def split: if_splits)
  have gs: "gs = ?gs" and all: "?gs = [] \<or> (\<exists>seen. check_grants (or_plan rq) (or_worker_identity rq) h ?gs [] = Inr seen \<and>
      check_environment ?gs [] = Inr () \<and> (\<forall>E. expected = Some E \<longrightarrow> E = set seen))"
    and none: "?gs = [] \<longrightarrow> (\<forall>E. expected = Some E \<longrightarrow> E = {})"
    using assms dh by (auto simp: approved_grants_def Let_def bindE_Inr_iff split: if_splits)
  show "\<And>d. or_operation rq = JObj d \<Longrightarrow> gs = matching_grants rs (plan_id (or_plan rq)) d (or_operation_index rq)"
    using gs op(2) by simp
  show "distinct (map cg_reference gs)" "distinct (map cg_environment_variable gs)"
      "\<And>E. expected = Some E \<Longrightarrow> E = set (map cg_reference gs)"
    using all none gs by (auto dest!: check_grants_Inr check_environment_Inr)
  have "grant_bound (or_plan rq) (or_worker_identity rq) h g \<and> grant_metadata_ok g \<and> cg_reference g \<in> plan_references (or_plan rq)"
    if "g \<in> set gs" for g
    using all that gs by (auto dest!: check_grants_Inr check_environment_Inr)
  then show "\<forall>g\<in>set gs. grant_approved sha rs rq g"
    using op(2,6) gs by (auto simp: grant_approved_def matching_grants_def)
qed

text \<open>All that a request has to satisfy, for the whole operation: its receipt, the operation itself, each of its grants, and
  the grants together with the references a mediator expects.\<close>

definition operation_grants :: "resolver \<Rightarrow> operation_request \<Rightarrow> credential_grant list" where
  "operation_grants rs rq =
     (case or_operation rq of JObj d \<Rightarrow> matching_grants rs (plan_id (or_plan rq)) d (or_operation_index rq) | _ \<Rightarrow> [])"

definition operation_checks :: "(nat list \<Rightarrow> string) \<Rightarrow> resolver \<Rightarrow> operation_request \<Rightarrow> string set option \<Rightarrow> bool" where
  "operation_checks sha rs rq expected \<longleftrightarrow>
     request_approved rs rq \<and>
     validate_authorization_receipt (or_plan rq) (snd (or_receipt rq)) (or_worker_identity rq) = Inr () \<and>
     (\<exists>d h. or_operation rq = JObj d \<and> digest sha (JObj d) DEFAULT_BYTES DEFAULT_DEPTH = Inr h) \<and>
     list_all (grant_approved sha rs rq) (operation_grants rs rq) \<and>
     distinct (map cg_reference (operation_grants rs rq)) \<and> distinct (map cg_environment_variable (operation_grants rs rq)) \<and>
     (expected = None \<or> expected = Some (set (map cg_reference (operation_grants rs rq))))"

lemma approved_grants_checks:
  assumes "approved_grants sha rs rq expected = Inr gs"
  shows "operation_checks sha rs rq expected" "gs = operation_grants rs rq"
proof -
  from assms obtain d h where dh: "check_operation sha rs rq = Inr (d, h)"
    by (auto simp: approved_grants_def bindE_Inr_iff)
  note op = check_operation_Inr [OF dh] and ok = approved_grants_Inr [OF assms]
  show gs: "gs = operation_grants rs rq" using ok(6) [OF op(2)] by (simp add: operation_grants_def op(2))
  show "operation_checks sha rs rq expected"
    using op(2,3,6) ok(1-5) unfolding gs by (cases expected) (auto simp: operation_checks_def list_all_iff)
qed

section \<open>Lookups\<close>

lemma lookup_all_Inr:
  "lookup_all pr dl clock n gs = (Inr vals, asked) \<Longrightarrow>
   map fst vals = map cg_reference gs \<and> asked = map cg_reference gs \<and>
   (\<forall>(r, v)\<in>set vals. v \<noteq> [] \<and> (\<exists>m. value_of_lookup (fst (resolve_provider pr r dl (clock m))) = Inr v))"
proof (induction pr dl clock n gs arbitrary: vals asked rule: lookup_all.induct)
  case (2 pr dl clock n g gs)
  obtain found was where res: "resolve_provider pr (cg_reference g) dl (clock n) = (found, was)" by fastforce
  obtain rest later where rest: "lookup_all pr dl clock (Suc n) gs = (rest, later)" by fastforce
  from 2(2) res rest obtain v vs where v: "value_of_lookup found = Inr v" "rest = Inr vs" "vals = (cg_reference g, v) # vs"
      "asked = (if was then [cg_reference g] else []) @ later"
    by (auto simp: bindE_Inr_iff Let_def split: sum.splits)
  have was: "was" using res v(1) by (auto simp: resolve_provider_def value_of_lookup_def split: option.splits if_splits)
  have "v \<noteq> []" using v(1) by (auto simp: value_of_lookup_def split: lookup.splits json.splits if_splits)
  moreover have "value_of_lookup (fst (resolve_provider pr (cg_reference g) dl (clock n))) = Inr v" using res v(1) by simp
  moreover have "map fst vs = map cg_reference gs \<and> later = map cg_reference gs \<and>
      (\<forall>(r, v)\<in>set vs. v \<noteq> [] \<and> (\<exists>m. value_of_lookup (fst (resolve_provider pr r dl (clock m))) = Inr v))"
    using 2(1) [OF refl res [symmetric] refl v(1)] rest v(2) by simp
  ultimately show ?case using v was by auto
qed simp

lemma lookup_all_asked:
  "lookup_all pr dl clock n gs = (out, asked) \<Longrightarrow> prefix asked (map cg_reference gs)"
proof (induction pr dl clock n gs arbitrary: out asked rule: lookup_all.induct)
  case (2 pr dl clock n g gs)
  obtain found was where res: "resolve_provider pr (cg_reference g) dl (clock n) = (found, was)" by fastforce
  obtain rest later where rest: "lookup_all pr dl clock (Suc n) gs = (rest, later)" by fastforce
  have "was \<and> prefix later (map cg_reference gs)" if "value_of_lookup found = Inr v" for v
    using 2(1) [OF refl res [symmetric] refl that] rest res that
    by (auto simp: resolve_provider_def value_of_lookup_def split: option.splits if_splits)
  then show ?case using 2(2) res rest by (auto simp: Let_def split: sum.splits if_splits)
qed simp

lemma add_secrets_accepts: "list_all (\<lambda>v. v \<noteq> []) xs \<Longrightarrow> fst (add_secrets (map JStr xs) r) = Inr ()"
  by (induction xs arbitrary: r) (auto simp: add_secret_def split: list.split)

lemma resolve_values_Inr:
  assumes "resolve_values sha rs clock rq expected st = (Inr vals, st')"
  obtains gs where "approved_grants sha rs rq expected = Inr gs" "map fst vals = map cg_reference gs"
    "\<forall>(r, v)\<in>set vals. v \<noteq> [] \<and> (\<exists>m. value_of_lookup (fst (resolve_provider (rs_provider rs) r (or_deadline rq) (clock m))) = Inr v)"
    "snd ` set vals \<subseteq> set (rd_known_secrets (ce_redactor st'))"
proof -
  from assms obtain gs where gs: "approved_grants sha rs rq expected = Inr gs"
    by (auto simp: resolve_values_def split: sum.splits)
  show thesis
  proof (cases gs)
    case Nil
    with gs assms show ?thesis by (intro that [of gs]) (auto simp: resolve_values_def)
  next
    case (Cons g gs')
    obtain r asked where look: "lookup_all (rs_provider rs) (or_deadline rq) clock 0 gs = (r, asked)" by fastforce
    obtain o1 red where add: "add_secrets (map (\<lambda>(_, v). JStr v) vals) (ce_redactor st) = (o1, red)" by fastforce
    from assms gs Cons look add have res: "r = Inr vals" "o1 = Inr ()" "ce_redactor st' = red"
      by (auto simp: resolve_values_def split: sum.splits prod.splits)
    have "map (\<lambda>(_, v). JStr v) vals = map JStr (map snd vals)" by (simp add: case_prod_beta)
    then have "add_secrets (map JStr (map snd vals)) (ce_redactor st) = (Inr (), red)" using add res(2) by (simp only:)
    from add_secrets_known [OF this] res(3) have "snd ` set vals \<subseteq> set (rd_known_secrets (ce_redactor st'))" by auto
    with lookup_all_Inr [OF look [unfolded res(1)]] gs show ?thesis by (intro that [of gs]) auto
  qed
qed

section \<open>Theorems\<close>

text \<open>
  C8. Every variable of the environment that \<open>resolve_for_operation\<close> hands out carries the value the provider gave
  for a reference the approved plan declares, through a grant of the resolver that names this plan, its
  digest, the worker, the target and the digest of this operation, under a \<open>COPS_CREDENTIAL_\<close> name; the
  request carries a receipt that the approval control issued for that plan and worker; and the value
  is registered with the redactor.
\<close>

theorem credentials_released_as_granted:
  assumes "resolve_for_operation sha rs clock rq st = (Inr env, st')" "(var, v) \<in> set env"
  shows "request_approved rs rq \<and> v \<in> set (rd_known_secrets (ce_redactor st')) \<and>
    (\<exists>g n. grant_approved sha rs rq g \<and> cg_environment_variable g = var \<and>
      value_of_lookup (fst (resolve_provider (rs_provider rs) (cg_reference g) (or_deadline rq) (clock n))) = Inr v) \<and>
    distinct (map fst env)"
proof -
  obtain r st1 where run: "resolve_values sha rs clock rq None st = (r, st1)" by fastforce
  with assms(1) obtain vals where vals: "r = Inr vals" "st1 = st'"
    by (auto simp: resolve_for_operation_def split: sum.splits)
  from resolve_values_Inr [OF run [unfolded vals]] obtain gs where gs: "approved_grants sha rs rq None = Inr gs"
      "map fst vals = map cg_reference gs"
      "\<forall>(r, v)\<in>set vals. v \<noteq> [] \<and> (\<exists>m. value_of_lookup (fst (resolve_provider (rs_provider rs) r (or_deadline rq) (clock m))) = Inr v)"
      "snd ` set vals \<subseteq> set (rd_known_secrets (ce_redactor st'))" by blast
  note ok = approved_grants_Inr [OF gs(1)]
  obtain d where d: "or_operation rq = JObj d" using assms run vals by (auto simp: resolve_for_operation_def split: json.splits)
  have env: "env = map (\<lambda>g. (cg_environment_variable g, the (map_of vals (cg_reference g)))) gs"
    using assms(1) run vals d ok(6) [OF d] by (simp add: resolve_for_operation_def)
  from assms(2) env obtain g where g: "g \<in> set gs" "var = cg_environment_variable g" "v = the (map_of vals (cg_reference g))" by auto
  have "cg_reference g \<in> fst ` set vals" using g(1) gs(2) by (metis image_eqI list.set_map)
  then obtain u where "map_of vals (cg_reference g) = Some u" by (metis map_of_eq_None_iff not_None_eq)
  with g(3) have "(cg_reference g, v) \<in> set vals" by (simp add: map_of_SomeD)
  moreover have "distinct (map fst env)" using ok(4) by (simp add: env comp_def)
  ultimately show ?thesis using gs(3,4) ok(1,2) g(1,2) by fastforce
qed

text \<open>
  A value handed out for an operation does not occur in output masked with the redactor the resolver
  leaves behind, as long as it has no square brackets and is not part of the mask.
\<close>

theorem released_value_is_masked:
  assumes "resolve_values sha rs clock rq expected st = (Inr vals, st')" "(r, v) \<in> set vals"
    and "CHR ''['' \<notin> set v" "CHR '']'' \<notin> set v" "\<not> contains v SECRET_MARK"
  shows "\<not> contains v (mask_known (rd_known_secrets (ce_redactor st')) output)"
proof -
  obtain gs where "\<forall>(r, v)\<in>set vals. v \<noteq> [] \<and>
        (\<exists>m. value_of_lookup (fst (resolve_provider (rs_provider rs) r (or_deadline rq) (clock m))) = Inr v)"
      "snd ` set vals \<subseteq> set (rd_known_secrets (ce_redactor st'))"
    by (rule resolve_values_Inr [OF assms(1)])
  then have "v \<noteq> []" "v \<in> set (rd_known_secrets (ce_redactor st'))" using assms(2) by force+
  with mask_known_free [of v] assms(3-5) show ?thesis by (auto simp: maskable_def)
qed

text \<open>
  C32. The provider is asked only after every check of the whole operation has passed: the receipt and its bindings,
  the operation of the plan, each grant of the operation, no reference and no variable granted twice, and the references
  a mediator expects. Then it is asked for the references of these grants, in their order, up to the first failure;
  when a lookup fails the redactor is left as it was, and when all succeed all references were asked. A request that
  fails any of the checks is refused and changes neither redactor nor lookups.
\<close>

theorem provider_asked_after_approval:
  assumes "resolve_values sha rs clock rq expected st = (out, st')"
  shows "if operation_checks sha rs rq expected
    then \<exists>asked. ce_lookups st' = ce_lookups st @ asked \<and> prefix asked (map cg_reference (operation_grants rs rq)) \<and>
      (case out of Inl e \<Rightarrow> ce_redactor st' = ce_redactor st | Inr vals \<Rightarrow> asked = map cg_reference (operation_grants rs rq))
    else st' = st \<and> (\<exists>e. out = Inl e)"
proof (cases "approved_grants sha rs rq expected")
  case (Inl e)
  then have "st' = st \<and> out = Inl e" using assms by (simp add: resolve_values_def)
  then show ?thesis by auto
next
  case (Inr gs)
  note checks = approved_grants_checks [OF Inr]
  show ?thesis
  proof (cases gs)
    case Nil
    then show ?thesis using assms Inr checks by (auto simp: resolve_values_def)
  next
    case (Cons g gs')
    obtain r asked where look: "lookup_all (rs_provider rs) (or_deadline rq) clock 0 gs = (r, asked)" by fastforce
    note pre = lookup_all_asked [OF look]
    show ?thesis
    proof (cases r)
      case (Inl e)
      then show ?thesis using assms Inr Cons look pre checks by (auto simp: resolve_values_def)
    next
      case (Inr vals)
      note all = lookup_all_Inr [OF look [unfolded Inr]]
      have pairs: "map (\<lambda>(_, v). JStr v) vals = map JStr (map snd vals)" by (simp add: case_prod_beta)
      have "fst (add_secrets (map JStr (map snd vals)) (ce_redactor st)) = Inr ()"
        by (rule add_secrets_accepts) (use all in \<open>auto simp: list_all_iff\<close>)
      then obtain red where "add_secrets (map (\<lambda>(_, v). JStr v) vals) (ce_redactor st) = (Inr (), red)"
        unfolding pairs by (metis prod.collapse)
      then show ?thesis
        using assms \<open>approved_grants sha rs rq expected = Inr gs\<close> Cons look Inr all checks by (auto simp: resolve_values_def)
    qed
  qed
qed

text \<open>
  A mediator receives exactly the references it asked for, never more and never fewer than the
  grants of the operation.
\<close>

theorem mediator_gets_what_it_asked:
  assumes "resolve_values_for_operation sha rs clock rq references st = (Inr vals, st')"
  shows "set (map fst vals) = set references \<and> distinct (map fst vals)"
proof -
  from assms have run: "resolve_values sha rs clock rq (Some (set references)) st = (Inr vals, st')"
    by (auto simp: resolve_values_for_operation_def split: if_splits)
  obtain gs where gs: "approved_grants sha rs rq (Some (set references)) = Inr gs" "map fst vals = map cg_reference gs"
    by (rule resolve_values_Inr [OF run])
  with approved_grants_Inr(3,5) [OF gs(1)] show ?thesis by simp
qed

section \<open>An example\<close>

definition demo_operation :: json where
  "demo_operation = JObj [(''step_id'', JStr ''s1''), (''tool'', JStr ''curl''), (''tool_version'', JStr ''8''), (''action'', JStr ''get'')]"

definition credential_plan :: action_plan where
  "credential_plan = demo_action_plan\<lparr>plan_operations := freeze (JList [demo_operation]),
     plan_credential_references := freeze (JList [JStr ''vault/x''])\<rparr>"

definition credential_sha :: "nat list \<Rightarrow> string" where
  "credential_sha _ = replicate 64 (CHR ''a'')"

definition credential_receipt :: receipt_ref where
  "credential_receipt = (7, \<lparr>re_authorization_id = ''auth-1'', re_authorization_digest = replicate 64 (CHR ''b''),
     re_action_plan_id = plan_id credential_plan, re_plan_digest = plan_digest credential_plan,
     re_engagement_id = plan_engagement_id credential_plan, re_worker_identity = ''w'', re_target = plan_target credential_plan\<rparr>)"

definition demo_credential_grant :: credential_grant where
  "demo_credential_grant = \<lparr>cg_reference = ''vault/x'', cg_environment_variable = ''COPS_CREDENTIAL_X'', cg_plan_id = plan_id credential_plan,
     cg_plan_digest = plan_digest credential_plan, cg_engagement_id = plan_engagement_id credential_plan, cg_worker_identity = ''w'',
     cg_target = plan_target credential_plan, cg_step_id = ''s1'', cg_tool = ''curl'', cg_tool_version = ''8'', cg_action = ''get'',
     cg_operation_index = 0, cg_operation_digest = replicate 64 (CHR ''a'')\<rparr>"

definition demo_resolver :: resolver where
  "demo_resolver = \<lparr>rs_provider = \<lparr>pr_resolve = (\<lambda>_. Returned (JStr ''hunter2'')), pr_child = (\<lambda>_. ChildFailed),
       pr_supports_deadline = True, pr_can_fork = False\<rparr>, rs_grants = [demo_credential_grant],
     rs_control = \<lparr>cl_expected_authority_uid = 0, cl_worker_uid = None, cl_worker_gid = None, cl_issued = [credential_receipt]\<rparr>\<rparr>"

definition credential_request :: operation_request where
  "credential_request = \<lparr>or_plan = credential_plan, or_receipt = credential_receipt, or_worker_identity = ''w'', or_operation = demo_operation,
     or_operation_index = 0, or_deadline = Some 5\<rparr>"

definition demo_state :: credential_state where
  "demo_state = \<lparr>ce_redactor = \<lparr>rd_known_secrets = [], rd_patterns = []\<rparr>, ce_lookups = []\<rparr>"

lemma demo_checked: "is_ok (check_operation credential_sha demo_resolver credential_request)"
  by code_simp

lemma demo_match: "JObj d = demo_operation \<Longrightarrow> matching_grants demo_resolver (plan_id credential_plan) d 0 = [demo_credential_grant]"
  by (simp add: matching_grants_def demo_resolver_def grant_selected_def demo_credential_grant_def demo_operation_def get_str_def)

lemma demo_resolved:
  "resolve_values credential_sha demo_resolver (\<lambda>_. 0) credential_request (Some {''vault/x''}) demo_state =
     (Inr [(''vault/x'', ''hunter2'')], \<lparr>ce_redactor = \<lparr>rd_known_secrets = [''hunter2''], rd_patterns = []\<rparr>, ce_lookups = [''vault/x'']\<rparr>)"
  "resolve_values credential_sha demo_resolver (\<lambda>_. 0) credential_request None demo_state =
     (Inr [(''vault/x'', ''hunter2'')], \<lparr>ce_redactor = \<lparr>rd_known_secrets = [''hunter2''], rd_patterns = []\<rparr>, ce_lookups = [''vault/x'']\<rparr>)"
proof -
  obtain d h where dh: "check_operation credential_sha demo_resolver credential_request = Inr (d, h)"
    using demo_checked by (auto simp: is_ok_iff)
  have d: "JObj d = demo_operation" and h: "h = replicate 64 (CHR ''a'')"
    using check_operation_Inr(2,6) [OF dh] by (auto simp: credential_request_def digest_def bindE_Inr_iff credential_sha_def)
  note match = demo_match [OF d]
  have refs: "plan_references credential_plan = {''vault/x''}" by (simp add: plan_references_def credential_plan_def)
  have meta: "grant_metadata_ok demo_credential_grant" by code_simp
  have "check_grants credential_plan ''w'' h [demo_credential_grant] [] = Inr [''vault/x'']"
    using refs h by (simp add: grant_bound_def demo_credential_grant_def)
  then have ok: "approved_grants credential_sha demo_resolver credential_request E = Inr [demo_credential_grant]"
    if "E = None \<or> E = Some {''vault/x''}" for E
    using that dh match meta by (auto simp: approved_grants_def credential_request_def)
  have "lookup_all (rs_provider demo_resolver) (or_deadline credential_request) (\<lambda>_. 0) 0 [demo_credential_grant] =
      (Inr [(''vault/x'', ''hunter2'')], [''vault/x''])"
    by (simp add: resolve_provider_def direct_lookup_def value_of_lookup_def demo_resolver_def credential_request_def demo_credential_grant_def)
  then show "resolve_values credential_sha demo_resolver (\<lambda>_. 0) credential_request (Some {''vault/x''}) demo_state =
     (Inr [(''vault/x'', ''hunter2'')], \<lparr>ce_redactor = \<lparr>rd_known_secrets = [''hunter2''], rd_patterns = []\<rparr>, ce_lookups = [''vault/x'']\<rparr>)"
    "resolve_values credential_sha demo_resolver (\<lambda>_. 0) credential_request None demo_state =
     (Inr [(''vault/x'', ''hunter2'')], \<lparr>ce_redactor = \<lparr>rd_known_secrets = [''hunter2''], rd_patterns = []\<rparr>, ce_lookups = [''vault/x'']\<rparr>)"
    using ok by (simp_all add: resolve_values_def demo_state_def add_secret_def)
qed

theorem credentials_released_as_granted_witness:
  "request_approved demo_resolver credential_request \<and>
   fst (resolve_for_operation credential_sha demo_resolver (\<lambda>_. 0) credential_request demo_state) = Inr [(''COPS_CREDENTIAL_X'', ''hunter2'')]"
proof -
  obtain d where d: "demo_operation = JObj d" by (simp add: demo_operation_def)
  have rq: "or_operation credential_request = JObj d" "or_plan credential_request = credential_plan" "or_operation_index credential_request = 0"
    by (simp_all add: credential_request_def d)
  have run: "resolve_for_operation credential_sha demo_resolver (\<lambda>_. 0) credential_request demo_state =
      (Inr [(''COPS_CREDENTIAL_X'', ''hunter2'')], \<lparr>ce_redactor = \<lparr>rd_known_secrets = [''hunter2''], rd_patterns = []\<rparr>, ce_lookups = [''vault/x'']\<rparr>)"
    by (simp add: resolve_for_operation_def demo_resolved(2) rq demo_match [OF d [symmetric]]) (simp add: demo_credential_grant_def)
  from credentials_released_as_granted [OF run, of "''COPS_CREDENTIAL_X''" "''hunter2''"] run show ?thesis by simp
qed

theorem released_value_is_masked_witness:
  "\<not> contains ''hunter2'' (mask_known (rd_known_secrets (ce_redactor (snd
     (resolve_values credential_sha demo_resolver (\<lambda>_. 0) credential_request None demo_state)))) ''login hunter2'')"
  using released_value_is_masked [OF demo_resolved(2), of "''vault/x''" "''hunter2''" "''login hunter2''"]
  by (simp add: demo_resolved SECRET_MARK_def contains_Cons)

theorem provider_asked_after_approval_witness:
  "operation_checks credential_sha demo_resolver credential_request None \<and>
   ce_lookups (snd (resolve_values credential_sha demo_resolver (\<lambda>_. 0) credential_request None demo_state)) = [''vault/x''] \<and>
   map cg_reference (operation_grants demo_resolver credential_request) = [''vault/x'']"
proof -
  have "ce_lookups demo_state = []" by (simp add: demo_state_def)
  then show ?thesis using provider_asked_after_approval [OF demo_resolved(2)] by (auto simp: demo_resolved(2) split: if_splits)
qed

theorem mediator_gets_what_it_asked_witness:
  "\<exists>vals st. resolve_values_for_operation credential_sha demo_resolver (\<lambda>_. 0) credential_request [''vault/x''] demo_state = (Inr vals, st) \<and>
     set (map fst vals) = {''vault/x''}"
proof -
  have run: "resolve_values_for_operation credential_sha demo_resolver (\<lambda>_. 0) credential_request [''vault/x''] demo_state =
     (Inr [(''vault/x'', ''hunter2'')], \<lparr>ce_redactor = \<lparr>rd_known_secrets = [''hunter2''], rd_patterns = []\<rparr>, ce_lookups = [''vault/x'']\<rparr>)"
    using demo_resolved(1) by (simp add: resolve_values_for_operation_def)
  from mediator_gets_what_it_asked [OF run] run show ?thesis by auto
qed

end
