(* ===== verification/Workflow.thy ===== *)
theory Workflow
  imports Models Ipaddress
begin

text \<open>
  \<^verbatim>\<open>cops/workflows/contracts.py\<close>: strict workflow definitions.

  A definition is the validated document itself. A code of \<^verbatim>\<open>WorkflowContractError\<close> is carried as it is;
  \<open>WorkflowTypeError\<close> stands for the \<^verbatim>\<open>TypeError\<close> or \<^verbatim>\<open>AttributeError\<close> of an operation on a value of the wrong
  type that no check has excluded. The search for cycles is the recursive \<^verbatim>\<open>visit\<close>: the set of stages being
  visited is the same before and after a call, so it is passed down, and the set of finished ones is returned.
\<close>

section \<open>Values\<close>

datatype workflow_exc = WorkflowContractError string | WorkflowTypeError

abbreviation wf_refuse :: "string \<Rightarrow> (workflow_exc, 'a) result" where
  "wf_refuse code \<equiv> Inl (WorkflowContractError code)"

definition WORKFLOW_SCHEMA_VERSION :: string where
  "WORKFLOW_SCHEMA_VERSION = ''cops.workflow-definition/v1''"

definition JSON_TYPES :: "string list" where
  "JSON_TYPES = [''string'', ''integer'', ''number'', ''boolean'', ''object'', ''array'', ''null'']"

definition value_matches_type :: "json \<Rightarrow> string \<Rightarrow> bool" where
  "value_matches_type v type_name =
     (if type_name = ''string'' then (case v of JStr _ \<Rightarrow> True | _ \<Rightarrow> False)
      else if type_name = ''integer'' then (case v of JInt _ \<Rightarrow> True | _ \<Rightarrow> False)
      else if type_name = ''number'' then (case v of JInt _ \<Rightarrow> True | JFloat _ \<Rightarrow> True | _ \<Rightarrow> False)
      else if type_name = ''boolean'' then (case v of JBool _ \<Rightarrow> True | _ \<Rightarrow> False)
      else if type_name = ''object'' then (case v of JObj _ \<Rightarrow> True | _ \<Rightarrow> False)
      else if type_name = ''array'' then (case v of JList _ \<Rightarrow> True | _ \<Rightarrow> False)
      else v = JNull)"

definition wf_keys :: "json \<Rightarrow> string list \<Rightarrow> string list \<Rightarrow> string \<Rightarrow> (workflow_exc, dict) result" where
  "wf_keys v required optional code =
     (case v of
        JObj d \<Rightarrow> if list_all (\<lambda>k. dict_get d k \<noteq> None) required \<and> list_all (\<lambda>(k, _). k \<in> set (required @ optional)) d then Inr d
                   else wf_refuse code
      | _ \<Rightarrow> wf_refuse code)"

definition identifier_char :: "char \<Rightarrow> bool" where
  "identifier_char c \<longleftrightarrow> is_alnum_ascii c \<or> c \<in> {CHR ''_'', CHR ''.'', CHR ''-''}"

definition wf_identifier :: "json \<Rightarrow> string \<Rightarrow> (workflow_exc, string) result" where
  "wf_identifier v code =
     (case v of
        JStr s \<Rightarrow> if 1 \<le> length s \<and> length s \<le> 128 \<and> list_all identifier_char s then Inr s else wf_refuse code
      | _ \<Rightarrow> wf_refuse code)"

text \<open>\<^verbatim>\<open>v in {...}\<close> for a set of strings: a list or a dictionary cannot be hashed.\<close>

definition one_of :: "json \<Rightarrow> string list \<Rightarrow> (workflow_exc, bool) result" where
  "one_of v names =
     (case v of
        JStr s \<Rightarrow> Inr (s \<in> set names)
      | JList _ \<Rightarrow> Inl WorkflowTypeError
      | JObj _ \<Rightarrow> Inl WorkflowTypeError
      | _ \<Rightarrow> Inr False)"

definition type_of :: "dict \<Rightarrow> (workflow_exc, string) result" where
  "type_of spec =
     bindE (one_of (get_or_none spec ''type'') JSON_TYPES) (\<lambda>known.
       if known then (case get_or_none spec ''type'' of JStr s \<Rightarrow> Inr s | _ \<Rightarrow> Inl WorkflowTypeError)
       else wf_refuse ''unknown_type'')"

definition is_int_in :: "json \<Rightarrow> int \<Rightarrow> int \<Rightarrow> bool" where
  "is_int_in v lo hi = (case v of JInt i \<Rightarrow> lo \<le> i \<and> i \<le> hi | _ \<Rightarrow> False)"

definition is_bool :: "json \<Rightarrow> bool" where
  "is_bool v = (case v of JBool _ \<Rightarrow> True | _ \<Rightarrow> False)"

definition is_str :: "json \<Rightarrow> bool" where
  "is_str v = (case v of JStr _ \<Rightarrow> True | _ \<Rightarrow> False)"

definition is_obj :: "json \<Rightarrow> bool" where
  "is_obj v = (case v of JObj _ \<Rightarrow> True | _ \<Rightarrow> False)"

definition is_str_list :: "json \<Rightarrow> bool" where
  "is_str_list v = (case v of JList vs \<Rightarrow> list_all is_str vs | _ \<Rightarrow> False)"

definition str_list :: "json \<Rightarrow> string list" where
  "str_list v = (case v of JList vs \<Rightarrow> map (\<lambda>x. case x of JStr s \<Rightarrow> s | _ \<Rightarrow> []) vs | _ \<Rightarrow> [])"

definition obj_of :: "json \<Rightarrow> dict" where
  "obj_of v = (case v of JObj d \<Rightarrow> d | _ \<Rightarrow> [])"

section \<open>Type maps and bindings\<close>

definition check_spec :: "bool \<Rightarrow> string \<times> json \<Rightarrow> (workflow_exc, unit) result" where
  "check_spec allow_source entry = (case entry of (name, spec) \<Rightarrow>
     bindE (wf_identifier (JStr name) ''field_name'') (\<lambda>_.
     bindE (wf_keys spec (if allow_source then [''type'', ''source''] else [''type''])
              (if allow_source then [''source''] else [''required'', ''default'']) ''type_spec'') (\<lambda>d.
     bindE (type_of d) (\<lambda>t.
     bindE (guardE (case dict_get d ''required'' of None \<Rightarrow> True | Some v \<Rightarrow> is_bool v) (WorkflowContractError ''required_flag'')) (\<lambda>_.
     bindE (guardE (case dict_get d ''default'' of None \<Rightarrow> True | Some v \<Rightarrow> value_matches_type v t) (WorkflowContractError ''default_type'')) (\<lambda>_.
       guardE (\<not> allow_source \<or> is_str (get_or_none d ''source'')) (WorkflowContractError ''output_source'')))))))"

definition validate_type_map :: "json \<Rightarrow> bool \<Rightarrow> (workflow_exc, unit) result" where
  "validate_type_map v allow_source =
     (case v of
        JObj d \<Rightarrow> if length d > 256 then wf_refuse ''type_map'' else bindE (mapE (check_spec allow_source) d) (\<lambda>_. Inr ())
      | _ \<Rightarrow> wf_refuse ''type_map'')"

definition binding_shape :: "dict \<Rightarrow> bool" where
  "binding_shape d \<longleftrightarrow> dict_keys d \<in> {{''type'', ''source''}, {''type'', ''value''}}"

definition check_binding_spec :: "string \<times> json \<Rightarrow> (workflow_exc, unit) result" where
  "check_binding_spec entry = (case entry of (name, binding) \<Rightarrow>
     bindE (wf_identifier (JStr name) ''binding_name'') (\<lambda>_.
     case binding of
       JObj d \<Rightarrow>
         if \<not> binding_shape d then wf_refuse ''binding_shape''
         else bindE (type_of d) (\<lambda>t.
           bindE (guardE (case dict_get d ''source'' of None \<Rightarrow> True | Some v \<Rightarrow> is_str v) (WorkflowContractError ''binding_source'')) (\<lambda>_.
             case dict_get d ''value'' of
               None \<Rightarrow> Inr ()
             | Some v \<Rightarrow>
                 if \<not> value_matches_type v t then wf_refuse ''binding_value_type''
                 else if \<not> is_ok (canonical v 1048576 DEFAULT_DEPTH) then wf_refuse ''binding_value''
                 else Inr ()))
     | _ \<Rightarrow> wf_refuse ''binding_shape''))"

definition validate_bindings :: "json \<Rightarrow> (workflow_exc, unit) result" where
  "validate_bindings v =
     (case v of
        JObj d \<Rightarrow> if length d > 256 then wf_refuse ''bindings'' else bindE (mapE check_binding_spec d) (\<lambda>_. Inr ())
      | _ \<Rightarrow> wf_refuse ''bindings'')"

section \<open>Stages\<close>

definition literal_ok :: "json \<Rightarrow> bool" where
  "literal_ok v = (case v of JStr s \<Rightarrow> s \<noteq> [] \<and> \<not> contains ''${'' s | _ \<Rightarrow> False)"

definition optional_ok :: "dict \<Rightarrow> string \<Rightarrow> (json \<Rightarrow> bool) \<Rightarrow> bool" where
  "optional_ok d k P = (case dict_get d k of None \<Rightarrow> True | Some v \<Rightarrow> P v)"

definition validate_limits :: "json \<Rightarrow> (workflow_exc, unit) result" where
  "validate_limits v =
     bindE (wf_keys v [''max_duration_seconds'', ''max_output_bytes'', ''egress_allowed''] [] ''limits_shape'') (\<lambda>d.
       guardE (is_int_in (get_or_none d ''max_duration_seconds'') 1 604800 \<and>
               is_int_in (get_or_none d ''max_output_bytes'') 1 104857600 \<and>
               is_bool (get_or_none d ''egress_allowed'')) (WorkflowContractError ''limits''))"

definition validate_action :: "json \<Rightarrow> (workflow_exc, unit) result" where
  "validate_action v =
     bindE (wf_keys v [''target'', ''specialist_id'', ''tool'', ''tool_version'', ''action'', ''timeout_seconds'', ''limits'']
              [''credential_references'', ''expected_evidence'', ''side_effects'', ''platform_prerequisites'', ''cleanup'',
               ''egress_policy'', ''idempotent''] ''action_shape'') (\<lambda>a.
     bindE (guardE (list_all (\<lambda>k. literal_ok (get_or_none a k)) [''target'', ''specialist_id'', ''tool'', ''tool_version'', ''action''])
              (WorkflowContractError ''literal_action_binding'')) (\<lambda>_.
     bindE (guardE (is_int_in (get_or_none a ''timeout_seconds'') 1 86400) (WorkflowContractError ''timeout'')) (\<lambda>_.
     bindE (guardE (optional_ok a ''idempotent'' is_bool) (WorkflowContractError ''idempotent_flag'')) (\<lambda>_.
     bindE (validate_limits (get_or_none a ''limits'')) (\<lambda>_.
     bindE (guardE (list_all (\<lambda>k. optional_ok a k is_str_list)
               [''credential_references'', ''expected_evidence'', ''side_effects'', ''platform_prerequisites''])
              (WorkflowContractError ''action_list'')) (\<lambda>_.
     bindE (guardE (optional_ok a ''cleanup'' is_obj) (WorkflowContractError ''cleanup'')) (\<lambda>_.
       guardE (optional_ok a ''egress_policy'' is_obj) (WorkflowContractError ''egress_policy''))))))))"

definition validate_retry :: "dict \<Rightarrow> (workflow_exc, unit) result" where
  "validate_retry stage =
     bindE (wf_keys (case dict_get stage ''retry'' of None \<Rightarrow> JObj [(''max_attempts'', JInt 1)] | Some v \<Rightarrow> v) [''max_attempts''] []
              ''retry_shape'') (\<lambda>r.
       guardE (is_int_in (get_or_none r ''max_attempts'') 1 10) (WorkflowContractError ''retry_value''))"

definition validate_condition :: "dict \<Rightarrow> (workflow_exc, unit) result" where
  "validate_condition stage =
     (case dict_get stage ''condition'' of
        None \<Rightarrow> Inr ()
      | Some v \<Rightarrow>
          bindE (wf_keys v [''source'', ''operator''] [''value''] ''condition_shape'') (\<lambda>c.
          bindE (one_of (get_or_none c ''operator'') [''exists'', ''eq'', ''not_eq'']) (\<lambda>known.
            if \<not> known then wf_refuse ''condition_operator''
            else guardE (get_or_none c ''operator'' = JStr ''exists'' \<or> dict_get c ''value'' \<noteq> None)
                   (WorkflowContractError ''condition_value''))))"

definition validate_stage :: "json \<Rightarrow> (workflow_exc, dict) result" where
  "validate_stage v =
     bindE (wf_keys v [''stage_id'', ''depends_on'', ''inputs'', ''outputs'', ''action''] [''condition'', ''retry''] ''stage_shape'') (\<lambda>s.
     bindE (wf_identifier (get_or_none s ''stage_id'') ''stage_id'') (\<lambda>_.
     bindE (guardE (is_str_list (get_or_none s ''depends_on'')) (WorkflowContractError ''dependencies'')) (\<lambda>_.
     bindE (guardE (distinct (str_list (get_or_none s ''depends_on''))) (WorkflowContractError ''duplicate_dependency'')) (\<lambda>_.
     bindE (validate_bindings (get_or_none s ''inputs'')) (\<lambda>_.
     bindE (validate_type_map (get_or_none s ''outputs'') False) (\<lambda>_.
     bindE (guardE (list_all (\<lambda>(_, spec). dict_get (obj_of spec) ''default'' = None \<and> dict_get (obj_of spec) ''required'' = None)
               (obj_of (get_or_none s ''outputs''))) (WorkflowContractError ''stage_output_spec'')) (\<lambda>_.
     bindE (validate_action (get_or_none s ''action'')) (\<lambda>_.
     bindE (validate_retry s) (\<lambda>_.
     bindE (validate_condition s) (\<lambda>_. Inr s))))))))))"

text \<open>What later code reads of a stage.\<close>

definition stage_id :: "dict \<Rightarrow> string" where
  "stage_id s = (case get_or_none s ''stage_id'' of JStr i \<Rightarrow> i | _ \<Rightarrow> [])"

definition depends_on :: "dict \<Rightarrow> string list" where
  "depends_on s = str_list (get_or_none s ''depends_on'')"

definition stage_inputs :: "dict \<Rightarrow> dict" where
  "stage_inputs s = obj_of (get_or_none s ''inputs'')"

definition stage_outputs :: "dict \<Rightarrow> dict" where
  "stage_outputs s = obj_of (get_or_none s ''outputs'')"

definition stage_condition :: "dict \<Rightarrow> dict option" where
  "stage_condition s = map_option obj_of (dict_get s ''condition'')"

definition max_attempts :: "dict \<Rightarrow> int" where
  "max_attempts s =
     (case dict_get s ''retry'' of
        None \<Rightarrow> 1
      | Some r \<Rightarrow> (case dict_get (obj_of r) ''max_attempts'' of Some (JInt i) \<Rightarrow> i | _ \<Rightarrow> 1))"

type_synonym stage_map = "(string \<times> dict) list"

fun collect_stages :: "json list \<Rightarrow> stage_map \<Rightarrow> (workflow_exc, stage_map) result" where
  "collect_stages [] seen = Inr seen"
| "collect_stages (v # vs) seen =
     bindE (validate_stage v) (\<lambda>s.
       if dict_get seen (stage_id s) \<noteq> None then wf_refuse ''duplicate_stage''
       else collect_stages vs (seen @ [(stage_id s, s)]))"

section \<open>Sources\<close>

datatype source_ref = WorkflowInput string | StageOutput string string

definition parse_source :: "json \<Rightarrow> (workflow_exc, source_ref) result" where
  "parse_source source =
     (case source of
        JStr s \<Rightarrow>
          (case split_on (CHR ''.'') s of
             [a, b, c] \<Rightarrow> if a = ''workflow'' \<and> b = ''input'' then Inr (WorkflowInput c) else wf_refuse ''invalid_source''
           | [a, b, c, d] \<Rightarrow> if a = ''stage'' \<and> c = ''output'' then Inr (StageOutput b d) else wf_refuse ''invalid_source''
           | _ \<Rightarrow> wf_refuse ''invalid_source'')
      | _ \<Rightarrow> Inl WorkflowTypeError)"

definition spec_type :: "json \<Rightarrow> json" where
  "spec_type spec = get_or_none (obj_of spec) ''type''"

definition source_type :: "json \<Rightarrow> stage_map \<Rightarrow> dict \<Rightarrow> (workflow_exc, json) result" where
  "source_type source stages inputs =
     bindE (parse_source source) (\<lambda>r.
       case r of
         WorkflowInput name \<Rightarrow>
           (case dict_get inputs name of None \<Rightarrow> wf_refuse ''missing_input_ref'' | Some spec \<Rightarrow> Inr (spec_type spec))
       | StageOutput name output \<Rightarrow>
           (case Option.bind (dict_get stages name) (\<lambda>s. dict_get (stage_outputs s) output) of
              None \<Rightarrow> wf_refuse ''missing_output_ref''
            | Some spec \<Rightarrow> Inr (spec_type spec)))"

section \<open>The graph\<close>

definition guarded_by :: "dict \<Rightarrow> json \<Rightarrow> bool" where
  "guarded_by s source =
     (case stage_condition s of
        None \<Rightarrow> False
      | Some c \<Rightarrow> dict_get c ''operator'' = Some (JStr ''exists'') \<and> dict_get c ''source'' = Some source)"

definition optional_input :: "json \<Rightarrow> bool" where
  "optional_input spec \<longleftrightarrow> dict_get (obj_of spec) ''required'' = Some (JBool False) \<and> dict_get (obj_of spec) ''default'' = None"

definition graph_binding :: "stage_map \<Rightarrow> dict \<Rightarrow> dict \<Rightarrow> string \<times> json \<Rightarrow> (workflow_exc, unit) result" where
  "graph_binding stages inputs s entry =
     (let b = obj_of (snd entry) in
      case dict_get b ''source'' of
        None \<Rightarrow> Inr ()
      | Some source \<Rightarrow>
          bindE (source_type source stages inputs) (\<lambda>t.
            if t \<noteq> get_or_none b ''type'' then wf_refuse ''binding_source_type''
            else bindE (parse_source source) (\<lambda>r.
              case r of
                StageOutput _ _ \<Rightarrow> Inr ()
              | WorkflowInput name \<Rightarrow>
                  (case dict_get inputs name of
                     None \<Rightarrow> Inl WorkflowTypeError
                   | Some spec \<Rightarrow>
                       guardE (\<not> (optional_input spec \<and> \<not> guarded_by s source))
                         (WorkflowContractError ''unguarded_optional_input_binding'')))))"

definition graph_condition :: "stage_map \<Rightarrow> dict \<Rightarrow> dict \<Rightarrow> (workflow_exc, unit) result" where
  "graph_condition stages inputs s =
     (case stage_condition s of
        None \<Rightarrow> Inr ()
      | Some c \<Rightarrow>
          bindE (source_type (get_or_none c ''source'') stages inputs) (\<lambda>t.
            guardE (get_or_none c ''operator'' = JStr ''exists'' \<or>
                value_matches_type (get_or_none c ''value'') (case t of JStr n \<Rightarrow> n | _ \<Rightarrow> []))
              (WorkflowContractError ''condition_value_type'')))"

definition stage_sources :: "dict \<Rightarrow> json list" where
  "stage_sources s =
     concat (map (\<lambda>(_, b). case dict_get (obj_of b) ''source'' of None \<Rightarrow> [] | Some v \<Rightarrow> [v]) (stage_inputs s)) @
     (case stage_condition s of None \<Rightarrow> [] | Some c \<Rightarrow> [get_or_none c ''source''])"

definition graph_source :: "stage_map \<Rightarrow> dict \<Rightarrow> dict \<Rightarrow> json \<Rightarrow> (workflow_exc, unit) result" where
  "graph_source stages inputs s source =
     bindE (parse_source source) (\<lambda>r.
     bindE (source_type source stages inputs) (\<lambda>_.
       case r of
         WorkflowInput _ \<Rightarrow> Inr ()
       | StageOutput owner _ \<Rightarrow> guardE (owner \<in> set (depends_on s)) (WorkflowContractError ''undeclared_output_dependency'')))"

definition graph_stage :: "stage_map \<Rightarrow> dict \<Rightarrow> dict \<Rightarrow> (workflow_exc, unit) result" where
  "graph_stage stages inputs s =
     bindE (guardE (list_all (\<lambda>d. dict_get stages d \<noteq> None) (depends_on s)) (WorkflowContractError ''missing_dependency'')) (\<lambda>_.
     bindE (mapE (graph_binding stages inputs s) (stage_inputs s)) (\<lambda>_.
     bindE (graph_condition stages inputs s) (\<lambda>_.
     bindE (mapE (graph_source stages inputs s) (stage_sources s)) (\<lambda>_. Inr ()))))"

text \<open>The stages that are not being visited: each nested call of the search has fewer of them.\<close>

definition unvisited :: "stage_map \<Rightarrow> string set \<Rightarrow> nat" where
  "unvisited stages visiting = card (dict_keys stages - visiting)"

lemma unvisited_less:
  assumes "i \<notin> visiting" "dict_get stages i = Some s"
  shows "unvisited stages (insert i visiting) < unvisited stages visiting"
proof -
  have "i \<in> dict_keys stages - visiting" using assms dict_get_None_iff [of stages i] by auto
  moreover have "dict_keys stages - insert i visiting = (dict_keys stages - visiting) - {i}" by auto
  moreover have "finite (dict_keys stages - visiting)" by (simp add: dict_keys_def)
  ultimately show ?thesis by (metis card_Diff1_less unvisited_def)
qed

text \<open>\<^verbatim>\<open>visit\<close>, and the loop over the dependencies of a stage or over all stages.\<close>

function visit_stage :: "stage_map \<Rightarrow> string set \<Rightarrow> string \<Rightarrow> string set \<Rightarrow> (workflow_exc, string set) result"
  and visit_stages :: "stage_map \<Rightarrow> string set \<Rightarrow> string list \<Rightarrow> string set \<Rightarrow> (workflow_exc, string set) result" where
  "visit_stage stages visiting i visited =
     (if i \<in> visiting then wf_refuse ''dependency_cycle''
      else if i \<in> visited then Inr visited
      else case dict_get stages i of
        None \<Rightarrow> Inl WorkflowTypeError
      | Some s \<Rightarrow> bindE (visit_stages stages (insert i visiting) (depends_on s) visited) (\<lambda>v. Inr (insert i v)))"
| "visit_stages stages visiting [] visited = Inr visited"
| "visit_stages stages visiting (i # is) visited =
     bindE (visit_stage stages visiting i visited) (visit_stages stages visiting is)"
  by pat_completeness auto

termination
proof (relation "measures [\<lambda>x. case x of Inl (g, v, _) \<Rightarrow> unvisited g v | Inr (g, v, _) \<Rightarrow> unvisited g v,
    \<lambda>x. case x of Inl _ \<Rightarrow> 0 | Inr (_, _, is, _) \<Rightarrow> Suc (length is)]", goal_cases)
  case (2 stages visiting i visited s)
  then show ?case by (simp add: unvisited_less)
qed auto

definition validate_graph :: "stage_map \<Rightarrow> dict \<Rightarrow> (workflow_exc, unit) result" where
  "validate_graph stages inputs =
     bindE (mapE (\<lambda>(_, s). graph_stage stages inputs s) stages) (\<lambda>_.
     bindE (visit_stages stages {} (map fst stages) {}) (\<lambda>_. Inr ()))"

definition check_output :: "stage_map \<Rightarrow> string \<times> json \<Rightarrow> (workflow_exc, unit) result" where
  "check_output stages entry =
     (let spec = obj_of (snd entry); source = get_or_none spec ''source'' in
      bindE (parse_source source) (\<lambda>r.
        case r of
          WorkflowInput _ \<Rightarrow> wf_refuse ''workflow_output_type''
        | StageOutput _ _ \<Rightarrow>
            bindE (source_type source stages []) (\<lambda>t.
              guardE (t = get_or_none spec ''type'') (WorkflowContractError ''workflow_output_type''))))"

definition validate_workflow_outputs :: "json \<Rightarrow> stage_map \<Rightarrow> (workflow_exc, unit) result" where
  "validate_workflow_outputs v stages =
     bindE (validate_type_map v True) (\<lambda>_. bindE (mapE (check_output stages) (obj_of v)) (\<lambda>_. Inr ()))"

section \<open>The definition\<close>

definition BUDGET_BOUNDS :: "(string \<times> int) list" where
  "BUDGET_BOUNDS = [(''max_stages'', 256), (''max_total_attempts'', 1024), (''max_output_bytes'', 104857600), (''max_evidence_refs'', 10000)]"

definition budget_of :: "dict \<Rightarrow> string \<Rightarrow> int" where
  "budget_of doc k = (case dict_get (obj_of (get_or_none doc ''budget'')) k of Some (JInt i) \<Rightarrow> i | _ \<Rightarrow> 0)"

definition validate_budget :: "json \<Rightarrow> (workflow_exc, unit) result" where
  "validate_budget v =
     bindE (wf_keys v [''max_stages'', ''max_total_attempts'', ''max_output_bytes'', ''max_evidence_refs''] [] ''budget_shape'') (\<lambda>b.
       guardE (list_all (\<lambda>(k, maximum). is_int_in (get_or_none b k) 1 maximum) BUDGET_BOUNDS) (WorkflowContractError ''budget_value''))"

definition stage_values :: "dict \<Rightarrow> json list" where
  "stage_values doc = (case get_or_none doc ''stages'' of JList vs \<Rightarrow> vs | _ \<Rightarrow> [])"

definition validate_workflow :: "json \<Rightarrow> (workflow_exc, dict) result" where
  "validate_workflow v =
     bindE (wf_keys v [''schema_version'', ''workflow_id'', ''engagement_id'', ''scenario_id'', ''inputs'', ''outputs'', ''budget'', ''stages'']
              [''description''] ''workflow_shape'') (\<lambda>doc.
     bindE (guardE (get_or_none doc ''schema_version'' = JStr WORKFLOW_SCHEMA_VERSION) (WorkflowContractError ''schema_version'')) (\<lambda>_.
     bindE (mapE (\<lambda>k. wf_identifier (get_or_none doc k) k) [''workflow_id'', ''engagement_id'', ''scenario_id'']) (\<lambda>_.
     bindE (guardE (optional_ok doc ''description'' (\<lambda>d. case d of JStr t \<Rightarrow> length t \<le> 4096 | _ \<Rightarrow> False))
              (WorkflowContractError ''description'')) (\<lambda>_.
     bindE (validate_type_map (get_or_none doc ''inputs'') False) (\<lambda>_.
     bindE (validate_budget (get_or_none doc ''budget'')) (\<lambda>_.
     bindE (guardE (stage_values doc \<noteq> [] \<and> int (length (stage_values doc)) \<le> budget_of doc ''max_stages'')
              (WorkflowContractError ''stage_budget'')) (\<lambda>_.
     bindE (collect_stages (stage_values doc) []) (\<lambda>stages.
     bindE (guardE (sum_list (map (max_attempts \<circ> snd) stages) \<le> budget_of doc ''max_total_attempts'')
              (WorkflowContractError ''attempt_budget'')) (\<lambda>_.
     bindE (validate_graph stages (obj_of (get_or_none doc ''inputs''))) (\<lambda>_.
     bindE (validate_workflow_outputs (get_or_none doc ''outputs'') stages) (\<lambda>_. Inr doc)))))))))))"

definition WorkflowDefinition_from_dict :: "json \<Rightarrow> (workflow_exc, dict) result" where
  "WorkflowDefinition_from_dict document =
     (if is_ok (canonical document (2 * 1024 * 1024) DEFAULT_DEPTH) then validate_workflow document
      else wf_refuse ''invalid_json'')"

text \<open>The properties of a definition.\<close>

definition definition_stages :: "dict \<Rightarrow> stage_map" where
  "definition_stages doc = map (\<lambda>v. (stage_id (obj_of v), obj_of v)) (stage_values doc)"

definition definition_inputs :: "dict \<Rightarrow> dict" where
  "definition_inputs doc = obj_of (get_or_none doc ''inputs'')"

definition definition_outputs :: "dict \<Rightarrow> dict" where
  "definition_outputs doc = obj_of (get_or_none doc ''outputs'')"

definition definition_digest :: "(nat list \<Rightarrow> string) \<Rightarrow> dict \<Rightarrow> (evidence_error, string) result" where
  "definition_digest sha doc = digest sha (JObj doc) DEFAULT_BYTES DEFAULT_DEPTH"

definition find_stage :: "dict \<Rightarrow> string \<Rightarrow> (workflow_exc, dict) result" where
  "find_stage doc i = (case dict_get (definition_stages doc) i of None \<Rightarrow> wf_refuse ''unknown_stage'' | Some s \<Rightarrow> Inr s)"

end
