(* ===== verification/Canonical_Size.thy ===== *)
theory Canonical_Size
  imports Canonical_Props
begin

text \<open>An upper bound of the canonical text of a document, and that small documents are within the limits of
  \<^verbatim>\<open>canonical\<close>.\<close>

text \<open>An upper bound of the canonical size that is easy to evaluate.\<close>

primrec most_bytes :: "json \<Rightarrow> nat" where
  "most_bytes JNull = 4"
| "most_bytes (JBool b) = 5"
| "most_bytes (JInt i) = length (int_text i)"
| "most_bytes (JFloat f) = length (float_text f)"
| "most_bytes (JStr s) = 6 * length s + 2"
| "most_bytes (JList vs) = 2 + sum_list (map (\<lambda>n. n + 1) (map most_bytes vs))"
| "most_bytes (JObj d) = 2 + sum_list (map (\<lambda>(k, n). 6 * length k + 4 + n) (map (map_prod id most_bytes) d))"

lemma str_text_most: "length (str_text ea s) \<le> 6 * length s + 2"
proof (induction s)
  case (Cons c s)
  have "length (escape_char ea c) \<le> 6" by (simp add: escape_char_def Let_def)
  then show ?case using Cons by (simp add: str_text_def)
qed (simp add: str_text_def)

lemma join_comma_most: "length (join_comma ts) \<le> sum_list (map (\<lambda>t. length t + 1) ts)"
  by (induction ts rule: join_comma.induct) auto

lemma dumps_most: "length (dumps ea v) \<le> most_bytes v"
proof (induction v)
  case (JStr s)
  show ?case using str_text_most [of ea s] by simp
next
  case (JList vs)
  have "sum_list (map (\<lambda>v. length (dumps ea v) + 1) vs) \<le> sum_list (map (\<lambda>v. most_bytes v + 1) vs)"
    using JList by (intro sum_list_mono) auto
  then show ?case using join_comma_most [of "map (dumps ea) vs"] by (simp add: comp_def del: sum_list_Suc)
next
  case (JObj d)
  have "length (member_text ea x) + 1 \<le> 6 * length (fst x) + 4 + most_bytes (snd x)" if "x \<in> set d" for x
    using JObj.IH [of x "snd x"] that str_text_most [of ea "fst x"] by (cases x) (auto simp: snds.simps)
  then have "sum_list (map (\<lambda>x. length (member_text ea x) + 1) d) \<le> sum_list (map (\<lambda>x. 6 * length (fst x) + 4 + most_bytes (snd x)) d)"
    by (intro sum_list_mono) auto
  moreover have "length (join_comma (map (member_text ea) (sort_key fst d))) \<le> sum_list (map (\<lambda>x. length (member_text ea x) + 1) (sort_key fst d))"
    using join_comma_most [of "map (member_text ea) (sort_key fst d)"] by (simp add: comp_def del: sum_list_Suc)
  ultimately show ?case unfolding sum_list_sort_key
    by (simp add: dumps_obj comp_def case_prod_beta del: dumps.simps sum_list_Suc)
qed auto

lemma utf8_most: "length (utf8 s) \<le> 2 * length s"
  by (induction s) (auto simp: utf8_def Let_def)

lemma canonical_small:
  assumes "floats_shown v" "jdepth v \<le> md" "floats_finite v" "ints_printable v" "limits_valid mb md" "2 * int (most_bytes v) \<le> mb"
  shows "canonical v mb md = Inr (utf8 (dumps False v))"
  using utf8_most [of "dumps False v"] dumps_most [of False v] assms by (intro canonical_okI) linarith+

end
