(* ===== verification/Workflow_Props.thy ===== *)
theory Workflow_Props
  imports Workflow Canonical_Size
begin

text \<open>
  What an accepted workflow definition satisfies: its stages have distinct names and form an acyclic
  graph, and every source it names exists, has the declared type and belongs to a declared dependency.
\<close>

section \<open>Lists of checks\<close>

lemma mapE_Inr_all: "mapE f xs = Inr ys \<Longrightarrow> x \<in> set xs \<Longrightarrow> \<exists>y. f x = Inr y"
  by (induction xs arbitrary: ys) (auto simp: bindE_Inr_iff)

lemma wf_keys_Inr: "wf_keys v required optional code = Inr d \<Longrightarrow> v = JObj d \<and> (\<forall>k \<in> set required. dict_get d k \<noteq> None)"
  by (auto simp: wf_keys_def list_all_iff split: json.splits if_splits)

lemma validate_stage_obj: "validate_stage v = Inr s \<Longrightarrow> s = obj_of v"
  by (auto simp: validate_stage_def bindE_Inr_iff obj_of_def dest!: wf_keys_Inr)

lemma collect_stages_Inr:
  "collect_stages vs seen = Inr stages \<Longrightarrow> distinct (map fst seen) \<Longrightarrow>
   stages = seen @ map (\<lambda>v. (stage_id (obj_of v), obj_of v)) vs \<and> distinct (map fst stages) \<and>
   (\<forall>v \<in> set vs. validate_stage v = Inr (obj_of v))"
proof (induction vs seen rule: collect_stages.induct)
  case (2 v vs seen)
  from "2.prems"(1) obtain s where s: "validate_stage v = Inr s" "dict_get seen (stage_id s) = None"
      "collect_stages vs (seen @ [(stage_id s, s)]) = Inr stages"
    by (auto simp: bindE_Inr_iff split: if_splits)
  then have "distinct (map fst (seen @ [(stage_id s, s)]))"
    using "2.prems"(2) by (auto simp: dict_get_None_iff dict_keys_def)
  then have IH: "stages = (seen @ [(stage_id s, s)]) @ map (\<lambda>v. (stage_id (obj_of v), obj_of v)) vs"
      "distinct (map fst stages)" "\<forall>v \<in> set vs. validate_stage v = Inr (obj_of v)"
    using "2.IH" [OF _ s(3)] s(2) by blast+
  have "s = obj_of v" by (rule validate_stage_obj [OF s(1)])
  then show ?case using IH(1,3) s(1) by (intro conjI IH(2)) auto
qed simp

section \<open>The search for cycles\<close>

definition dependencies :: "stage_map \<Rightarrow> (string \<times> string) set" where
  "dependencies stages = {(d, i). \<exists>s. dict_get stages i = Some s \<and> d \<in> set (depends_on s)}"

definition closed_stages :: "stage_map \<Rightarrow> bool" where
  "closed_stages stages \<longleftrightarrow> (\<forall>(i, s) \<in> set stages. \<forall>d \<in> set (depends_on s). dict_get stages d \<noteq> None)"

text \<open>A stage is grounded when its dependencies are: no infinite chain of dependencies leaves it.\<close>

inductive grounded :: "stage_map \<Rightarrow> string \<Rightarrow> bool" for stages where
  "dict_get stages i = Some s \<Longrightarrow> (\<And>d. d \<in> set (depends_on s) \<Longrightarrow> grounded stages d) \<Longrightarrow> grounded stages i"

lemma grounded_no_loop: "grounded stages i \<Longrightarrow> (i, i) \<notin> (dependencies stages)\<^sup>+"
proof (induction rule: grounded.induct)
  case (1 i s)
  show ?case
  proof
    assume "(i, i) \<in> (dependencies stages)\<^sup>+"
    then obtain d where d: "(i, d) \<in> (dependencies stages)\<^sup>*" "(d, i) \<in> dependencies stages"
      by (meson tranclD2)
    then have "d \<in> set (depends_on s)" using 1(1) by (auto simp: dependencies_def)
    moreover have "(d, d) \<in> (dependencies stages)\<^sup>+" using d by (meson rtrancl_into_trancl2)
    ultimately show False using 1 by blast
  qed
qed

lemma visit_sound:
  "visit_stage stages visiting i visited = Inr v \<Longrightarrow> \<forall>j \<in> visited. grounded stages j \<Longrightarrow>
     visited \<subseteq> v \<and> i \<in> v \<and> (\<forall>j \<in> v. grounded stages j)"
  "visit_stages stages visiting is visited = Inr v \<Longrightarrow> \<forall>j \<in> visited. grounded stages j \<Longrightarrow>
     visited \<subseteq> v \<and> set is \<subseteq> v \<and> (\<forall>j \<in> v. grounded stages j)"
proof (induction stages visiting i visited and stages visiting "is" visited arbitrary: v and v
    rule: visit_stage_visit_stages.induct)
  case (1 stages visiting i visited)
  show ?case
  proof (cases "i \<in> visited")
    case True
    then show ?thesis using 1(2,3) by (auto split: if_splits)
  next
    case False
    then obtain s w where s: "i \<notin> visiting" "dict_get stages i = Some s"
        "visit_stages stages (insert i visiting) (depends_on s) visited = Inr w" "v = insert i w"
      using 1(2) by (auto simp: bindE_Inr_iff split: if_splits option.splits)
    from 1(1) [OF s(1) False s(2,3) 1(3)] have "visited \<subseteq> w" "set (depends_on s) \<subseteq> w" "\<forall>j \<in> w. grounded stages j" by auto
    then show ?thesis using s by (auto intro: grounded.intros)
  qed
next
  case (3 stages visiting i "is" visited)
  from 3(3) obtain u where u: "visit_stage stages visiting i visited = Inr u" "visit_stages stages visiting is u = Inr v"
    by (auto simp del: visit_stage.simps simp: bindE_Inr_iff)
  from 3(1) [OF u(1) 3(4)] 3(2) [OF u(2)] show ?case by auto
qed simp

lemma visit_complete:
  "grounded stages i \<Longrightarrow> (\<And>j. (j, i) \<in> (dependencies stages)\<^sup>* \<Longrightarrow> j \<notin> visiting) \<Longrightarrow>
   \<exists>v. visit_stage stages visiting i visited = Inr v"
proof (induction arbitrary: visiting visited rule: grounded.induct)
  case (1 i s)
  have step: "(d, i) \<in> dependencies stages" if "d \<in> set (depends_on s)" for d
    using that 1(1) by (auto simp: dependencies_def)
  have loop: "\<exists>v. visit_stages stages (insert i visiting) is visited = Inr v" if "set is \<subseteq> set (depends_on s)" for "is" visited
    using that
  proof (induction "is" arbitrary: visited)
    case (Cons d ds)
    then have d: "d \<in> set (depends_on s)" by simp
    have "j \<notin> insert i visiting" if j: "(j, d) \<in> (dependencies stages)\<^sup>*" for j
    proof -
      have "(j, i) \<in> (dependencies stages)\<^sup>+" using j step [OF d] by (rule rtrancl_into_trancl1)
      moreover have "grounded stages i" using 1 by (auto intro: grounded.intros)
      ultimately show ?thesis using grounded_no_loop [of stages i] 1(4) [of j] by (auto dest: trancl_into_rtrancl)
    qed
    then obtain u where "visit_stage stages (insert i visiting) d visited = Inr u" using 1(3) [OF d] by blast
    then show ?case using Cons by (simp del: visit_stage.simps)
  qed simp
  have "i \<notin> visiting" using 1(4) by blast
  then show ?case using 1(1) loop [of "depends_on s" visited] by auto
qed

lemma visit_error:
  "visit_stage stages visiting i visited = Inl e \<Longrightarrow> closed_stages stages \<Longrightarrow> dict_get stages i \<noteq> None \<Longrightarrow>
     e = WorkflowContractError ''dependency_cycle''"
  "visit_stages stages visiting is visited = Inl e \<Longrightarrow> closed_stages stages \<Longrightarrow> \<forall>i \<in> set is. dict_get stages i \<noteq> None \<Longrightarrow>
     e = WorkflowContractError ''dependency_cycle''"
proof (induction stages visiting i visited and stages visiting "is" visited
    rule: visit_stage_visit_stages.induct)
  case (1 stages visiting i visited)
  then obtain s where s: "dict_get stages i = Some s" by blast
  then have "(i, s) \<in> set stages" by (simp add: dict_get_def map_of_SomeD)
  then have "\<forall>d \<in> set (depends_on s). dict_get stages d \<noteq> None" using 1(3) by (auto simp: closed_stages_def)
  then show ?case using 1(1) [OF _ _ s] 1(2,3) s by (auto simp: bindE_Inl_iff split: if_splits)
next
  case (3 stages visiting i "is" visited)
  then show ?case by (auto simp del: visit_stage.simps simp: bindE_Inl_iff)
qed simp

lemma acyclic_grounded:
  assumes "acyclic (dependencies stages)" "closed_stages stages" "dict_get stages i \<noteq> None"
  shows "grounded stages i"
proof -
  have "dependencies stages \<subseteq> (\<Union>(_, s) \<in> set stages. set (depends_on s)) \<times> dict_keys stages"
    by (auto simp: dependencies_def dict_get_def dict_keys_def image_iff dest!: map_of_SomeD) force
  then have "finite (dependencies stages)" by (rule finite_subset) (auto simp: dict_keys_def)
  then have "wf (dependencies stages)" using assms(1) by (rule finite_acyclic_wf)
  then show ?thesis using assms(3)
  proof (induction i rule: wf_induct_rule)
    case (less i)
    then obtain s where s: "dict_get stages i = Some s" by blast
    then have "(i, s) \<in> set stages" by (simp add: dict_get_def map_of_SomeD)
    with s show ?case using less(1) assms(2)
      by (intro grounded.intros [of stages i s]) (auto simp: closed_stages_def dependencies_def)
  qed
qed

lemma visit_stages_iff:
  assumes "closed_stages stages"
  shows "visit_stages stages {} (map fst stages) {} = Inr v \<Longrightarrow> \<forall>i \<in> dict_keys stages. grounded stages i"
    "is_ok (visit_stages stages {} (map fst stages) {}) \<longleftrightarrow> acyclic (dependencies stages)"
proof -
  show g: "visit_stages stages {} (map fst stages) {} = Inr v \<Longrightarrow> \<forall>i \<in> dict_keys stages. grounded stages i" for v
    using visit_sound(2) [of stages "{}" "map fst stages" "{}" v] by (auto simp: dict_keys_def)
  show "is_ok (visit_stages stages {} (map fst stages) {}) \<longleftrightarrow> acyclic (dependencies stages)"
  proof
    assume "is_ok (visit_stages stages {} (map fst stages) {})"
    then have ground: "\<forall>i \<in> dict_keys stages. grounded stages i" using g by (auto simp: is_ok_iff)
    show "acyclic (dependencies stages)"
      unfolding acyclic_def
    proof (intro allI notI)
      fix i assume loop: "(i, i) \<in> (dependencies stages)\<^sup>+"
      then obtain s where "dict_get stages i = Some s" by (auto simp: dependencies_def dest!: tranclD2)
      then have "i \<in> dict_keys stages" using dict_get_None_iff [of stages i] by auto
      then show False using ground grounded_no_loop loop by blast
    qed
  next
    assume ac: "acyclic (dependencies stages)"
    have "\<exists>v. visit_stages stages {} is visited = Inr v" if "set is \<subseteq> dict_keys stages" for "is" visited
      using that
    proof (induction "is" arbitrary: visited)
      case (Cons i "is")
      have "grounded stages i" using acyclic_grounded [OF ac assms] Cons(2) by (auto simp: dict_get_None_iff)
      then obtain u where "visit_stage stages {} i visited = Inr u" using visit_complete [of stages i "{}" visited] by auto
      then show ?case using Cons by (simp del: visit_stage.simps)
    qed simp
    then show "is_ok (visit_stages stages {} (map fst stages) {})" by (auto simp: is_ok_iff dict_keys_def)
  qed
qed

section \<open>Accepted definitions\<close>

text \<open>The checks of an accepted definition, in the terms of its properties.\<close>

lemma accepted_definition:
  assumes "WorkflowDefinition_from_dict v = Inr doc"
  shows "v = JObj doc" "distinct (map fst (definition_stages doc))" "definition_stages doc \<noteq> []"
    "\<And>i s. (i, s) \<in> set (definition_stages doc) \<Longrightarrow> validate_stage (JObj s) = Inr s \<and> stage_id s = i"
    "\<And>i s. (i, s) \<in> set (definition_stages doc) \<Longrightarrow> graph_stage (definition_stages doc) (definition_inputs doc) s = Inr ()"
    "is_ok (visit_stages (definition_stages doc) {} (map fst (definition_stages doc)) {})"
    "validate_type_map (JObj (definition_inputs doc)) False = Inr ()"
    "\<And>k spec. (k, spec) \<in> set (definition_outputs doc) \<Longrightarrow> check_output (definition_stages doc) (k, spec) = Inr ()"
    "sum_list (map (max_attempts \<circ> snd) (definition_stages doc)) \<le> budget_of doc ''max_total_attempts''"
    "validate_budget (get_or_none doc ''budget'') = Inr ()"
proof -
  from assms obtain stages where v: "v = JObj doc"
    and c: "collect_stages (stage_values doc) [] = Inr stages" "stage_values doc \<noteq> []"
    and g: "validate_graph stages (obj_of (get_or_none doc ''inputs'')) = Inr ()"
    and o: "validate_workflow_outputs (get_or_none doc ''outputs'') stages = Inr ()"
    and i: "validate_type_map (get_or_none doc ''inputs'') False = Inr ()"
    and b: "sum_list (map (max_attempts \<circ> snd) stages) \<le> budget_of doc ''max_total_attempts''"
      "validate_budget (get_or_none doc ''budget'') = Inr ()"
    by (auto simp: WorkflowDefinition_from_dict_def validate_workflow_def bindE_Inr_iff dest!: wf_keys_Inr split: if_splits)
  have st: "stages = definition_stages doc" and d: "distinct (map fst stages)"
    and vs: "\<forall>v \<in> set (stage_values doc). validate_stage v = Inr (obj_of v)"
    using collect_stages_Inr [OF c(1)] by (auto simp: definition_stages_def)
  show "v = JObj doc" by (rule v)
  show "distinct (map fst (definition_stages doc))" using d st by simp
  show "definition_stages doc \<noteq> []" using c(2) by (simp add: definition_stages_def)
  show "sum_list (map (max_attempts \<circ> snd) (definition_stages doc)) \<le> budget_of doc ''max_total_attempts''"
    using b(1) st by simp
  show "validate_budget (get_or_none doc ''budget'') = Inr ()" by (rule b(2))
  show "validate_stage (JObj s) = Inr s \<and> stage_id s = j" if "(j, s) \<in> set (definition_stages doc)" for j s
  proof -
    from that obtain x where x: "x \<in> set (stage_values doc)" "s = obj_of x" "j = stage_id (obj_of x)"
      by (auto simp: definition_stages_def)
    with vs have "validate_stage x = Inr s" by blast
    then have "x = JObj s" by (auto simp: validate_stage_def bindE_Inr_iff dest!: wf_keys_Inr)
    then show ?thesis using \<open>validate_stage x = Inr s\<close> x by simp
  qed
  from g obtain ys where ys: "mapE (\<lambda>(_, s). graph_stage stages (obj_of (get_or_none doc ''inputs'')) s) stages = Inr ys"
    and vis: "is_ok (visit_stages stages {} (map fst stages) {})"
    by (auto simp: validate_graph_def bindE_Inr_iff is_ok_iff)
  show "graph_stage (definition_stages doc) (definition_inputs doc) s = Inr ()"
    if "(j, s) \<in> set (definition_stages doc)" for j s
    using mapE_Inr_all [OF ys, of "(j, s)"] that by (simp add: st definition_inputs_def)
  show "is_ok (visit_stages (definition_stages doc) {} (map fst (definition_stages doc)) {})" using vis st by simp
  show "validate_type_map (JObj (definition_inputs doc)) False = Inr ()"
    using i by (auto simp: definition_inputs_def validate_type_map_def obj_of_def split: json.splits)
  from o obtain zs where zs: "mapE (check_output stages) (obj_of (get_or_none doc ''outputs'')) = Inr zs"
    by (auto simp: validate_workflow_outputs_def bindE_Inr_iff)
  show "check_output (definition_stages doc) (k, spec) = Inr ()" if "(k, spec) \<in> set (definition_outputs doc)" for k spec
    using mapE_Inr_all [OF zs, of "(k, spec)"] that by (simp add: st definition_outputs_def)
qed

lemma accepted_closed:
  assumes "WorkflowDefinition_from_dict v = Inr doc"
  shows "closed_stages (definition_stages doc)"
  using accepted_definition(5) [OF assms]
  by (fastforce simp: closed_stages_def graph_stage_def bindE_Inr_iff list_all_iff)

text \<open>
  C24. An accepted workflow definition is an acyclic graph of distinctly named stages whose dependencies all
  exist, within its stage and attempt budgets; and the search for cycles is exact: for stages whose
  dependencies exist it ends without an error exactly when there is no cycle, and it reports a cycle
  otherwise.
\<close>

theorem accepted_workflow_is_acyclic:
  "(WorkflowDefinition_from_dict v = Inr doc \<longrightarrow>
      acyclic (dependencies (definition_stages doc)) \<and> closed_stages (definition_stages doc) \<and>
      distinct (map fst (definition_stages doc)) \<and>
      sum_list (map (max_attempts \<circ> snd) (definition_stages doc)) \<le> budget_of doc ''max_total_attempts'') \<and>
   (closed_stages stages \<longrightarrow>
      is_ok (visit_stages stages {} (map fst stages) {}) = acyclic (dependencies stages) \<and>
      (\<not> acyclic (dependencies stages) \<longrightarrow>
        visit_stages stages {} (map fst stages) {} = Inl (WorkflowContractError ''dependency_cycle'')))"
proof (intro conjI impI)
  assume ok: "WorkflowDefinition_from_dict v = Inr doc"
  show "closed_stages (definition_stages doc)" by (rule accepted_closed [OF ok])
  then show "acyclic (dependencies (definition_stages doc))" using visit_stages_iff(2) accepted_definition(6) [OF ok] by blast
  show "distinct (map fst (definition_stages doc))"
    "sum_list (map (max_attempts \<circ> snd) (definition_stages doc)) \<le> budget_of doc ''max_total_attempts''"
    by (rule accepted_definition [OF ok])+
next
  assume c: "closed_stages stages"
  show "is_ok (visit_stages stages {} (map fst stages) {}) = acyclic (dependencies stages)" by (rule visit_stages_iff(2) [OF c])
  then show "visit_stages stages {} (map fst stages) {} = Inl (WorkflowContractError ''dependency_cycle'')"
    if "\<not> acyclic (dependencies stages)"
    using that visit_error(2) [of stages "{}" "map fst stages" "{}", OF _ c]
    by (cases "visit_stages stages {} (map fst stages) {}") (auto simp: dict_get_None_iff dict_keys_def)
qed


section \<open>An example\<close>

text \<open>Two stages: the second takes the output of the first and an input of the workflow.\<close>

definition sample_action :: "string \<Rightarrow> json" where
  "sample_action tool = JObj [(''target'', JStr ''host-a''), (''specialist_id'', JStr ''recon''), (''tool'', JStr tool), (''tool_version'', JStr ''1''),
     (''action'', JStr ''scan''), (''timeout_seconds'', JInt 60), (''limits'', JObj [(''max_duration_seconds'', JInt 60),
     (''max_output_bytes'', JInt 4096), (''egress_allowed'', JBool False)]), (''idempotent'', JBool True)]"

definition scan_stage :: dict where
  "scan_stage = [(''stage_id'', JStr ''scan''), (''depends_on'', JList []),
     (''inputs'', JObj [(''cidr'', JObj [(''type'', JStr ''string''), (''source'', JStr ''workflow.input.cidr'')])]),
     (''outputs'', JObj [(''hosts'', JObj [(''type'', JStr ''array'')])]), (''action'', sample_action ''nmap''),
     (''retry'', JObj [(''max_attempts'', JInt 2)])]"

definition report_stage :: dict where
  "report_stage = [(''stage_id'', JStr ''report''), (''depends_on'', JList [JStr ''scan'']),
     (''inputs'', JObj [(''hosts'', JObj [(''type'', JStr ''array''), (''source'', JStr ''stage.scan.output.hosts'')]),
        (''level'', JObj [(''type'', JStr ''integer''), (''value'', JInt 3)])]),
     (''outputs'', JObj []), (''action'', sample_action ''notes''),
     (''condition'', JObj [(''source'', JStr ''stage.scan.output.hosts''), (''operator'', JStr ''exists'')])]"

definition sample_workflow :: dict where
  "sample_workflow = [(''schema_version'', JStr WORKFLOW_SCHEMA_VERSION), (''workflow_id'', JStr ''wf-1''), (''engagement_id'', JStr ''eng-1''),
     (''scenario_id'', JStr ''scn-1''), (''inputs'', JObj [(''cidr'', JObj [(''type'', JStr ''string'')])]),
     (''outputs'', JObj [(''hosts'', JObj [(''type'', JStr ''array''), (''source'', JStr ''stage.scan.output.hosts'')])]),
     (''budget'', JObj [(''max_stages'', JInt 2), (''max_total_attempts'', JInt 3), (''max_output_bytes'', JInt 8192), (''max_evidence_refs'', JInt 8)]),
     (''stages'', JList [JObj scan_stage, JObj report_stage])]"

lemmas sample_defs = sample_workflow_def scan_stage_def report_stage_def sample_action_def WORKFLOW_SCHEMA_VERSION_def

lemma sample_shown: "floats_shown (JObj sample_workflow)" "jdepth (JObj sample_workflow) \<le> 32" "floats_finite (JObj sample_workflow)"
    "ints_printable (JObj sample_workflow)"
  by (simp_all add: sample_defs nat_text.simps MAX_INT_DIGITS_def)

lemma sample_size: "most_bytes (JObj sample_workflow) \<le> 20000"
  by (simp add: sample_defs int_text_def nat_text.simps)

lemma sample_canonical: "canonical (JObj sample_workflow) (2 * 1024 * 1024) DEFAULT_DEPTH = Inr (utf8 (dumps False (JObj sample_workflow)))"
  by (rule canonical_small [OF sample_shown]) (use sample_size in \<open>auto simp: limits_valid_def\<close>)

lemma sample_valid: "validate_workflow (JObj sample_workflow) = Inr sample_workflow"
  by code_simp

lemma sample_accepted: "WorkflowDefinition_from_dict (JObj sample_workflow) = Inr sample_workflow"
  unfolding WorkflowDefinition_from_dict_def using sample_canonical sample_valid by (simp only: is_ok.simps if_True)

theorem accepted_workflow_is_acyclic_witness:
  "WorkflowDefinition_from_dict (JObj sample_workflow) = Inr sample_workflow \<and> acyclic (dependencies (definition_stages sample_workflow)) \<and>
   \<not> acyclic (dependencies [(''a'', [(''depends_on'', JList [JStr ''b''])]), (''b'', [(''depends_on'', JList [JStr ''a''])])]) \<and>
   visit_stages [(''a'', [(''depends_on'', JList [JStr ''b''])]), (''b'', [(''depends_on'', JList [JStr ''a''])])] {} [''a'', ''b''] {} =
     Inl (WorkflowContractError ''dependency_cycle'')"
proof -
  let ?g = "[(''a'', [(''depends_on'', JList [JStr ''b''])]), (''b'', [(''depends_on'', JList [JStr ''a''])])]"
  have c: "closed_stages ?g" by (simp add: closed_stages_def depends_on_def str_list_def get_or_none_def)
  have v: "visit_stages ?g {} [''a'', ''b''] {} = Inl (WorkflowContractError ''dependency_cycle'')" by code_simp
  show ?thesis
    using accepted_workflow_is_acyclic [of "JObj sample_workflow" sample_workflow ?g] sample_accepted c v by (simp del: visit_stages.simps)
qed

end
