(* ===== verification/Workflow_Runtime.thy ===== *)
theory Workflow_Runtime
  imports Workflow Control
begin

text \<open>
  \<^verbatim>\<open>cops/workflows/runtime.py\<close>: what a run of a workflow computes from its definition and its state.

  The state of a run is the JSON document the runner keeps and persists. A code of \<^verbatim>\<open>WorkflowRuntimeError\<close> is
  carried as it is; the other constructors of \<open>runtime_exc\<close> are the exceptions that pass through: those of
  definitions, plans, canonical bytes, approval control, files and the executor, and the \<^verbatim>\<open>TypeError\<close>,
  \<^verbatim>\<open>KeyError\<close> or \<^verbatim>\<open>AttributeError\<close> of a document that no check has excluded (\<open>RuntimeType\<close>).
\<close>

section \<open>Errors and access\<close>

datatype runtime_exc =
    WorkflowRuntimeError string
  | RuntimeWorkflow workflow_exc
  | RuntimePlan contract_exc
  | RuntimeEvidence evidence_error
  | RuntimeControl control_exc
  | RuntimeType
  | RuntimeIO
  | ExecutorError

abbreviation wr_raise :: "string \<Rightarrow> (runtime_exc, 'a) result" where
  "wr_raise code \<equiv> Inl (WorkflowRuntimeError code)"

definition tagE :: "('e \<Rightarrow> 'f) \<Rightarrow> ('e, 'a) result \<Rightarrow> ('f, 'a) result" where
  "tagE tag r = (case r of Inl e \<Rightarrow> Inl (tag e) | Inr a \<Rightarrow> Inr a)"

text \<open>\<^verbatim>\<open>except Exception\<close>, and the handlers that catch only \<^verbatim>\<open>WorkflowRuntimeError\<close>.\<close>

definition exceptE :: "string \<Rightarrow> ('e, 'a) result \<Rightarrow> (runtime_exc, 'a) result" where
  "exceptE code r = tagE (\<lambda>_. WorkflowRuntimeError code) r"

definition except_runtime :: "string \<Rightarrow> (runtime_exc, 'a) result \<Rightarrow> (runtime_exc, 'a) result" where
  "except_runtime code r =
     (case r of Inl (WorkflowRuntimeError _) \<Rightarrow> wr_raise code | _ \<Rightarrow> r)"

datatype access_error = KeyError | AccessTypeError

definition get_item :: "json \<Rightarrow> string \<Rightarrow> (access_error, json) result" where
  "get_item v k =
     (case v of
        JObj d \<Rightarrow> (case dict_get d k of None \<Rightarrow> Inl KeyError | Some x \<Rightarrow> Inr x)
      | _ \<Rightarrow> Inl AccessTypeError)"

section \<open>Inputs and bindings\<close>

text \<open>\<^verbatim>\<open>_validate_inputs\<close>: one declared input, then all of them.\<close>

definition input_value :: "dict \<Rightarrow> string \<times> json \<Rightarrow> (workflow_exc, json option) result" where
  "input_value inputs entry = (case entry of (name, spec) \<Rightarrow>
     let d = obj_of spec;
         chosen = (case dict_get inputs name of Some v \<Rightarrow> Some v | None \<Rightarrow> dict_get d ''default'')
     in case chosen of
          None \<Rightarrow> if get_or_none d ''required'' = JBool False then Inr None else wf_refuse ''missing_workflow_input''
        | Some v \<Rightarrow>
            if value_matches_type v (case spec_type spec of JStr t \<Rightarrow> t | _ \<Rightarrow> []) then Inr (Some v)
            else wf_refuse ''workflow_input_type'')"

fun collect_inputs :: "dict \<Rightarrow> dict \<Rightarrow> (workflow_exc, dict) result" where
  "collect_inputs inputs [] = Inr []"
| "collect_inputs inputs (entry # specs) =
     bindE (input_value inputs entry) (\<lambda>v.
     bindE (collect_inputs inputs specs) (\<lambda>rest.
       Inr (case v of None \<Rightarrow> rest | Some x \<Rightarrow> (fst entry, x) # rest)))"

definition validate_inputs :: "dict \<Rightarrow> json \<Rightarrow> (workflow_exc, dict) result" where
  "validate_inputs doc inputs =
     (case inputs of
        JObj given \<Rightarrow>
          if dict_keys given \<subseteq> dict_keys (definition_inputs doc) then collect_inputs given (definition_inputs doc)
          else wf_refuse ''workflow_inputs''
      | _ \<Rightarrow> wf_refuse ''workflow_inputs'')"

definition resolve_source :: "json \<Rightarrow> dict \<Rightarrow> dict \<Rightarrow> (runtime_exc, json) result" where
  "resolve_source source inputs state =
     (case source of
        JStr s \<Rightarrow>
          let parts = split_on (CHR ''.'') s in
          if take 2 parts = [''workflow'', ''input''] then
            (case drop 2 parts of
               name # _ \<Rightarrow> (case dict_get inputs name of None \<Rightarrow> wr_raise ''missing_bound_input'' | Some v \<Rightarrow> Inr v)
             | [] \<Rightarrow> wr_raise ''missing_bound_input'')
          else
            (case bindE (get_item (JObj state) ''stages'') (\<lambda>stages.
                   if length parts < 2 then Inl KeyError
                   else bindE (get_item stages (parts ! 1)) (\<lambda>stage.
                     bindE (get_item stage ''outputs'') (\<lambda>outputs.
                       if length parts < 4 then Inl KeyError else get_item outputs (parts ! 3)))) of
               Inl KeyError \<Rightarrow> wr_raise ''invalid_persisted_output''
             | Inl AccessTypeError \<Rightarrow> Inl RuntimeType
             | Inr v \<Rightarrow> Inr v)
      | _ \<Rightarrow> Inl RuntimeType)"

definition binding_value :: "dict \<Rightarrow> dict \<Rightarrow> string \<times> json \<Rightarrow> (runtime_exc, string \<times> json) result" where
  "binding_value inputs state entry =
     (let b = obj_of (snd entry) in
      case dict_get b ''value'' of
        Some v \<Rightarrow> Inr (fst entry, v)
      | None \<Rightarrow> bindE (resolve_source (get_or_none b ''source'') inputs state) (\<lambda>v. Inr (fst entry, v)))"

definition resolve_bindings :: "dict \<Rightarrow> dict \<Rightarrow> dict \<Rightarrow> (runtime_exc, dict) result" where
  "resolve_bindings bindings inputs state =
     bindE (mapE (binding_value inputs state) bindings) (\<lambda>resolved.
       if list_all (\<lambda>((_, v), (_, b)). value_matches_type v (case spec_type b of JStr t \<Rightarrow> t | _ \<Rightarrow> [])) (zip resolved bindings)
       then Inr resolved else wr_raise ''binding_runtime_type'')"

definition condition_matches :: "dict option \<Rightarrow> dict \<Rightarrow> dict \<Rightarrow> (runtime_exc, bool) result" where
  "condition_matches condition inputs state =
     (case condition of
        None \<Rightarrow> Inr True
      | Some c \<Rightarrow>
          (case resolve_source (get_or_none c ''source'') inputs state of
             Inl (WorkflowRuntimeError _) \<Rightarrow> Inr (
               if get_or_none c ''operator'' = JStr ''exists'' then False
               else py_eq JNull (get_or_none c ''value'') = (get_or_none c ''operator'' = JStr ''eq''))
           | Inl e \<Rightarrow> Inl e
           | Inr actual \<Rightarrow> Inr (
               if get_or_none c ''operator'' = JStr ''exists'' then True
               else py_eq actual (get_or_none c ''value'') = (get_or_none c ''operator'' = JStr ''eq''))))"

section \<open>The order of the stages\<close>

text \<open>
  \<^verbatim>\<open>_topological_order\<close>: the stages seen are the stages listed, so one list is both. The recursive \<^verbatim>\<open>visit\<close>
  does not look for cycles; it runs on fuel here, and \<open>None\<close> is a search that does not end or meets an
  unknown stage.
\<close>

fun fold_option :: "('a \<Rightarrow> 's \<Rightarrow> 's option) \<Rightarrow> 'a list \<Rightarrow> 's \<Rightarrow> 's option" where
  "fold_option f [] s = Some s"
| "fold_option f (x # xs) s = Option.bind (f x s) (fold_option f xs)"

primrec order_visit :: "nat \<Rightarrow> stage_map \<Rightarrow> string \<Rightarrow> string list \<Rightarrow> string list option" where
  "order_visit 0 stages i listed = None"
| "order_visit (Suc n) stages i listed =
     (if i \<in> set listed then Some listed
      else case dict_get stages i of
        None \<Rightarrow> None
      | Some s \<Rightarrow> map_option (\<lambda>r. r @ [i]) (fold_option (order_visit n stages) (depends_on s) listed))"

definition topological_order :: "stage_map \<Rightarrow> string list option" where
  "topological_order stages = fold_option (order_visit (Suc (length stages)) stages) (map fst stages) []"

section \<open>Plans\<close>

definition stage_action :: "dict \<Rightarrow> dict" where
  "stage_action s = obj_of (get_or_none s ''action'')"

definition action_text :: "dict \<Rightarrow> string \<Rightarrow> string" where
  "action_text action k = (case get_or_none action k of JStr t \<Rightarrow> t | _ \<Rightarrow> [])"

definition is_idempotent :: "dict \<Rightarrow> bool" where
  "is_idempotent action = (get_or_none action ''idempotent'' = JBool True)"

definition doc_text :: "dict \<Rightarrow> string \<Rightarrow> string" where
  "doc_text doc k = (case get_or_none doc k of JStr t \<Rightarrow> t | _ \<Rightarrow> [])"

definition plan_operation :: "string \<Rightarrow> int \<Rightarrow> dict \<Rightarrow> dict \<Rightarrow> bool \<Rightarrow> dict" where
  "plan_operation sid attempt action resolved idempotent =
     [(''step_id'', JStr (sid @ ''-'' @ int_text attempt)), (''tool'', get_or_none action ''tool''),
      (''tool_version'', get_or_none action ''tool_version''), (''action'', get_or_none action ''action''), (''arguments'', JObj resolved),
      (''timeout_seconds'', get_or_none action ''timeout_seconds''), (''idempotent'', JBool idempotent)] @
     concat (map (\<lambda>k. case dict_get action k of None \<Rightarrow> [] | Some v \<Rightarrow> [(k, v)])
       [''cleanup'', ''expected_evidence'', ''side_effects'', ''egress_policy''])"

definition get_list :: "dict \<Rightarrow> string \<Rightarrow> json" where
  "get_list d k = (case dict_get d k of None \<Rightarrow> JList [] | Some v \<Rightarrow> v)"

definition compile_plan_with ::
  "validator \<Rightarrow> dict \<Rightarrow> string \<Rightarrow> string \<Rightarrow> dict \<Rightarrow> string \<Rightarrow> int \<Rightarrow> bool \<Rightarrow> (runtime_exc, action_plan) result" where
  "compile_plan_with env doc run_id sid resolved created_at attempt idempotent =
     bindE (tagE RuntimeWorkflow (find_stage doc sid)) (\<lambda>s.
     let action = stage_action s in
     bindE (tagE RuntimeEvidence (definition_digest (v_sha env) doc)) (\<lambda>h.
     bindE (tagE RuntimeEvidence (digest (v_sha env) (JObj [(''workflow_digest'', JStr h), (''run_id'', JStr run_id), (''stage_id'', JStr sid),
              (''attempt'', JInt attempt), (''inputs'', JObj resolved)]) DEFAULT_BYTES DEFAULT_DEPTH)) (\<lambda>identity.
       tagE RuntimePlan (ActionPlan_create env (Some (''plan-'' @ take 24 identity))
         \<lparr>pa_schema_version = [], pa_plan_id = [], pa_engagement_id = doc_text doc ''engagement_id'',
          pa_scenario_id = doc_text doc ''scenario_id'', pa_status = ''draft'', pa_target = action_text action ''target'',
          pa_specialist_id = action_text action ''specialist_id'',
          pa_operations = JList [JObj (plan_operation sid attempt action resolved idempotent)],
          pa_limits = get_or_none action ''limits'', pa_credential_references = get_list action ''credential_references'',
          pa_plan_digest = [], pa_created_at = created_at, pa_platform_prerequisites = get_list action ''platform_prerequisites'',
          pa_batch = JNull, pa_offline_research = JNull\<rparr>))))"

definition compile_action_plan ::
  "validator \<Rightarrow> dict \<Rightarrow> string \<Rightarrow> string \<Rightarrow> dict \<Rightarrow> string \<Rightarrow> int \<Rightarrow> (runtime_exc, action_plan) result" where
  "compile_action_plan env doc run_id sid resolved created_at attempt =
     bindE (tagE RuntimeWorkflow (find_stage doc sid)) (\<lambda>s.
       compile_plan_with env doc run_id sid resolved created_at attempt (is_idempotent (stage_action s)))"

text \<open>\<^verbatim>\<open>_validated_attempt_plan\<close>: the saved plan, and whether only the plan of the previous compiler matches it.\<close>

definition expected_plans ::
  "validator \<Rightarrow> dict \<Rightarrow> string \<Rightarrow> string \<Rightarrow> dict \<Rightarrow> dict \<Rightarrow> int \<Rightarrow> (runtime_exc, action_plan \<times> action_plan \<times> action_plan option) result" where
  "expected_plans env doc run_id sid resolved snapshot attempt =
     bindE (tagE RuntimePlan (ActionPlan_from_dict env (dict_set ''status'' (JStr ''draft'') snapshot))) (\<lambda>plan.
     bindE (compile_action_plan env doc run_id sid resolved (plan_created_at plan) attempt) (\<lambda>expected.
     bindE (tagE RuntimeWorkflow (find_stage doc sid)) (\<lambda>s.
       if dict_get (stage_action s) ''idempotent'' \<noteq> None then Inr (plan, expected, None)
       else bindE (compile_plan_with env doc run_id sid resolved (plan_created_at plan) attempt True) (\<lambda>legacy.
         Inr (plan, expected, Some legacy)))))"

definition same_snapshot :: "action_plan \<Rightarrow> dict \<Rightarrow> bool" where
  "same_snapshot plan snapshot = py_eq (JObj (approved_snapshot True plan)) (JObj snapshot)"

definition validated_attempt_plan ::
  "validator \<Rightarrow> dict \<Rightarrow> string \<Rightarrow> string \<Rightarrow> dict \<Rightarrow> dict \<Rightarrow> (runtime_exc, action_plan \<times> bool) result" where
  "validated_attempt_plan env doc run_id sid resolved attempt_record =
     (case (dict_get attempt_record ''plan'', dict_get attempt_record ''attempt'') of
        (Some (JObj snapshot), Some (JInt attempt)) \<Rightarrow>
          bindE (exceptE ''state_tampering'' (expected_plans env doc run_id sid resolved snapshot attempt)) (\<lambda>(plan, expected, legacy).
            let legacy_matches = (case legacy of None \<Rightarrow> False | Some l \<Rightarrow> same_snapshot l snapshot) in
            if \<not> same_snapshot plan snapshot then wr_raise ''state_tampering''
            else if \<not> same_snapshot expected snapshot \<and> \<not> legacy_matches then wr_raise ''state_tampering''
            else Inr (plan, legacy_matches))
      | _ \<Rightarrow> wr_raise ''state_tampering'')"

section \<open>Receipts\<close>

definition receipt_matches :: "control_receipt \<Rightarrow> string \<Rightarrow> action_plan \<Rightarrow> string \<Rightarrow> bool" where
  "receipt_matches r authorization_id plan worker \<longleftrightarrow>
     re_authorization_id r = authorization_id \<and> re_action_plan_id r = plan_id plan \<and> re_plan_digest r = plan_digest plan \<and>
     re_engagement_id r = plan_engagement_id plan \<and> re_worker_identity r = worker \<and> re_target r = plan_target plan"

definition RECEIPT_FIELDS :: "string list" where
  "RECEIPT_FIELDS = [''authorization_id'', ''authorization_digest'', ''action_plan_id'', ''plan_digest'', ''engagement_id'',
     ''worker_identity'', ''target'']"

definition receipt_to_dict :: "control_receipt \<Rightarrow> dict" where
  "receipt_to_dict r = zip RECEIPT_FIELDS (map JStr [re_authorization_id r, re_authorization_digest r, re_action_plan_id r,
     re_plan_digest r, re_engagement_id r, re_worker_identity r, re_target r])"

definition receipt_from_record :: "dict \<Rightarrow> (runtime_exc, control_receipt) result" where
  "receipt_from_record attempt_record =
     (case dict_get attempt_record ''receipt'' of
        Some (JObj p) \<Rightarrow>
          if dict_keys p \<noteq> set RECEIPT_FIELDS \<or> \<not> list_all (\<lambda>(_, v). case v of JStr (c # cs) \<Rightarrow> True | _ \<Rightarrow> False) p
          then wr_raise ''state_tampering''
          else let h = doc_text p ''authorization_digest'' in
            if length h \<noteq> 64 \<or> \<not> list_all (\<lambda>c. c \<in> set ''0123456789abcdef'') h then wr_raise ''state_tampering''
            else Inr \<lparr>re_authorization_id = doc_text p ''authorization_id'', re_authorization_digest = h,
              re_action_plan_id = doc_text p ''action_plan_id'', re_plan_digest = doc_text p ''plan_digest'',
              re_engagement_id = doc_text p ''engagement_id'', re_worker_identity = doc_text p ''worker_identity'',
              re_target = doc_text p ''target''\<rparr>
      | _ \<Rightarrow> wr_raise ''state_tampering'')"

end
