(* ===== verification/Workflow_Runtime_Props.thy ===== *)
theory Workflow_Runtime_Props
  imports Workflow_Props Workflow_Runtime
begin

text \<open>
  An accepted definition can be run: its stages have an order in which every dependency comes first, the
  search for it ends, and the inputs of a stage whose dependencies have succeeded can always be bound
  to values of the declared types.
\<close>

section \<open>The order of the stages\<close>

abbreviation reaches :: "stage_map \<Rightarrow> string \<Rightarrow> string set" where
  "reaches stages i \<equiv> {j. (j, i) \<in> (dependencies stages)\<^sup>*}"

definition ordered_stages :: "stage_map \<Rightarrow> string list \<Rightarrow> bool" where
  "ordered_stages stages listed \<longleftrightarrow> distinct listed \<and>
     (\<forall>xs i ys. listed = xs @ i # ys \<longrightarrow> (\<exists>s. dict_get stages i = Some s \<and> set (depends_on s) \<subseteq> set xs))"

lemma ordered_snoc:
  assumes "ordered_stages stages w" "i \<notin> set w" "dict_get stages i = Some s" "set (depends_on s) \<subseteq> set w"
  shows "ordered_stages stages (w @ [i])"
  unfolding ordered_stages_def
proof (intro conjI allI impI)
  show "distinct (w @ [i])" using assms(1,2) by (simp add: ordered_stages_def)
  fix xs j ys assume eq: "w @ [i] = xs @ j # ys"
  show "\<exists>s. dict_get stages j = Some s \<and> set (depends_on s) \<subseteq> set xs"
  proof (cases ys rule: rev_cases)
    case Nil
    then show ?thesis using eq assms(3,4) by simp
  next
    case (snoc zs z)
    then have "w = xs @ j # zs" using eq by simp
    then show ?thesis using assms(1) by (simp add: ordered_stages_def)
  qed
qed

lemma fold_visit_sound:
  assumes "\<And>i listed r. i \<in> set is \<Longrightarrow> f i listed = Some r \<Longrightarrow> ordered_stages stages listed \<Longrightarrow>
      ordered_stages stages r \<and> insert i (set listed) \<subseteq> set r \<and> set r \<subseteq> set listed \<union> reaches stages i"
  shows "fold_option f is listed = Some r \<Longrightarrow> ordered_stages stages listed \<Longrightarrow>
      ordered_stages stages r \<and> set is \<union> set listed \<subseteq> set r \<and> set r \<subseteq> set listed \<union> (\<Union>i \<in> set is. reaches stages i)"
  using assms
proof (induction "is" arbitrary: listed)
  case (Cons i "is")
  from Cons.prems(1) obtain u where u: "f i listed = Some u" "fold_option f is u = Some r"
    by (auto simp: bind_eq_Some_conv)
  have v: "ordered_stages stages u \<and> insert i (set listed) \<subseteq> set u \<and> set u \<subseteq> set listed \<union> reaches stages i"
    by (rule Cons.prems(3) [OF _ u(1) Cons.prems(2)]) simp
  have "ordered_stages stages r \<and> set is \<union> set u \<subseteq> set r \<and> set r \<subseteq> set u \<union> (\<Union>i \<in> set is. reaches stages i)"
    by (rule Cons.IH [OF u(2) conjunct1 [OF v] Cons.prems(3)]) simp_all
  with v show ?case by auto
qed simp

lemma order_visit_sound:
  assumes "acyclic (dependencies stages)"
  shows "order_visit n stages i listed = Some r \<Longrightarrow> ordered_stages stages listed \<Longrightarrow>
    ordered_stages stages r \<and> insert i (set listed) \<subseteq> set r \<and> set r \<subseteq> set listed \<union> reaches stages i"
proof (induction n arbitrary: i listed r)
  case (Suc n)
  show ?case
  proof (cases "i \<in> set listed")
    case False
    then obtain s w where s: "dict_get stages i = Some s" "fold_option (order_visit n stages) (depends_on s) listed = Some w" "r = w @ [i]"
      using Suc.prems(1) by (auto split: option.splits)
    have w: "ordered_stages stages w" "set (depends_on s) \<union> set listed \<subseteq> set w"
        "set w \<subseteq> set listed \<union> (\<Union>d \<in> set (depends_on s). reaches stages d)"
      using fold_visit_sound [OF Suc.IH s(2) Suc.prems(2)] by blast+
    have step: "(d, i) \<in> dependencies stages" if "d \<in> set (depends_on s)" for d
      using that s(1) by (auto simp: dependencies_def)
    have "i \<notin> set w"
    proof
      assume "i \<in> set w"
      then obtain d where d: "d \<in> set (depends_on s)" "(i, d) \<in> (dependencies stages)\<^sup>*" using w(3) False by auto
      then have "(i, i) \<in> (dependencies stages)\<^sup>+" using step by (meson rtrancl_into_trancl1)
      then show False using assms by (auto simp: acyclic_def)
    qed
    then have "ordered_stages stages r" using ordered_snoc [OF w(1) _ s(1)] w(2) s(3) by simp
    moreover have "set r \<subseteq> set listed \<union> reaches stages i"
      using w(3) s(3) step by (auto intro: rtrancl_into_rtrancl)
    ultimately show ?thesis using w(2) s(3) by auto
  qed (use Suc.prems in auto)
qed simp

lemma reaches_finite:
  assumes "closed_stages stages" "dict_get stages i \<noteq> None"
  shows "reaches stages i \<subseteq> dict_keys stages" "finite (reaches stages i)" "card (reaches stages i) \<le> length stages"
proof -
  have "dict_get stages j \<noteq> None" if "(j, i) \<in> (dependencies stages)\<^sup>*" for j
    using that assms(2)
  proof (induction rule: converse_rtrancl_induct)
    case (step j k)
    then obtain s where "dict_get stages k = Some s" "j \<in> set (depends_on s)" by (auto simp: dependencies_def)
    then show ?case using assms(1) by (auto simp: closed_stages_def dict_get_def dest!: map_of_SomeD)
  qed
  then show sub: "reaches stages i \<subseteq> dict_keys stages" by (auto simp: dict_get_None_iff)
  then show "finite (reaches stages i)" by (rule finite_subset) (simp add: dict_keys_def)
  have "card (reaches stages i) \<le> card (dict_keys stages)" by (rule card_mono [OF _ sub]) (simp add: dict_keys_def)
  also have "\<dots> \<le> length stages" unfolding dict_keys_def by (metis card_length length_map set_map)
  finally show "card (reaches stages i) \<le> length stages" .
qed

lemma order_visit_ends:
  assumes "acyclic (dependencies stages)" "closed_stages stages"
  shows "dict_get stages i \<noteq> None \<Longrightarrow> card (reaches stages i) \<le> n \<Longrightarrow> \<exists>r. order_visit n stages i listed = Some r"
proof (induction n arbitrary: i listed)
  case 0
  then have "reaches stages i = {}" using reaches_finite [OF assms(2)] by simp
  moreover have "i \<in> reaches stages i" by simp
  ultimately show ?case by blast
next
  case (Suc n)
  then obtain s where s: "dict_get stages i = Some s" by blast
  have dep: "dict_get stages d \<noteq> None \<and> card (reaches stages d) \<le> n" if d: "d \<in> set (depends_on s)" for d
  proof -
    have step: "(d, i) \<in> dependencies stages" using d s by (auto simp: dependencies_def)
    have known: "dict_get stages d \<noteq> None" using assms(2) s d by (auto simp: closed_stages_def dict_get_def dest!: map_of_SomeD)
    have "i \<notin> reaches stages d"
      using step assms(1) by (auto simp: acyclic_def dest: rtrancl_into_trancl1)
    moreover have "reaches stages d \<subseteq> reaches stages i" using step by (auto intro: rtrancl_into_rtrancl)
    ultimately have "reaches stages d \<subset> reaches stages i" by auto
    then have "card (reaches stages d) < card (reaches stages i)"
      by (rule psubset_card_mono [OF reaches_finite(2) [OF assms(2) Suc.prems(1)]])
    then show ?thesis using known Suc.prems(2) by linarith
  qed
  have "\<exists>r. fold_option (order_visit n stages) ds w = Some r" if "set ds \<subseteq> set (depends_on s)" for ds w
    using that
  proof (induction ds arbitrary: w)
    case (Cons d ds)
    then have d: "dict_get stages d \<noteq> None" "card (reaches stages d) \<le> n" using dep by simp_all
    obtain u where "order_visit n stages d w = Some u" using Suc.IH [OF d] by blast
    moreover obtain r where "fold_option (order_visit n stages) ds u = Some r" using Cons by force
    ultimately show ?case by simp
  qed simp
  then obtain r where "fold_option (order_visit n stages) (depends_on s) listed = Some r" by blast
  then show ?case using s by simp
qed

lemma topological_order_exact:
  assumes "acyclic (dependencies stages)" "closed_stages stages"
  obtains order where "topological_order stages = Some order" "ordered_stages stages order" "set order = dict_keys stages"
proof -
  let ?n = "Suc (length stages)"
  have "\<exists>r. fold_option (order_visit ?n stages) ds w = Some r" if "set ds \<subseteq> dict_keys stages" for ds w
    using that
  proof (induction ds arbitrary: w)
    case (Cons d ds)
    then have d: "dict_get stages d \<noteq> None" by (simp add: dict_get_None_iff)
    then obtain u where "order_visit ?n stages d w = Some u"
      using order_visit_ends [OF assms d, of ?n w] reaches_finite(3) [OF assms(2) d] by auto
    then show ?case using Cons by (auto simp del: order_visit.simps)
  qed simp
  then obtain order where order: "fold_option (order_visit ?n stages) (map fst stages) [] = Some order"
    by (metis dict_keys_def list.set_map order_refl)
  have "ordered_stages stages order \<and> set (map fst stages) \<union> set [] \<subseteq> set order \<and>
      set order \<subseteq> set [] \<union> (\<Union>i \<in> set (map fst stages). reaches stages i)"
    by (rule fold_visit_sound [OF order_visit_sound [OF assms(1), of ?n] order]) (simp_all add: ordered_stages_def del: order_visit.simps)
  moreover have "reaches stages i \<subseteq> dict_keys stages" if "i \<in> dict_keys stages" for i
    using reaches_finite(1) [OF assms(2)] that by (simp add: dict_get_None_iff)
  ultimately have "ordered_stages stages order" "set order = dict_keys stages" by (auto simp: dict_keys_def) blast+
  then show ?thesis using that order by (simp add: topological_order_def)
qed

text \<open>
  C25. The search for an order of the stages ends on every accepted definition, and lists every stage exactly once,
  each after all its dependencies.
\<close>

theorem accepted_workflow_order:
  assumes "WorkflowDefinition_from_dict v = Inr doc"
  shows "\<exists>order. topological_order (definition_stages doc) = Some order \<and> distinct order \<and>
    set order = dict_keys (definition_stages doc) \<and>
    (\<forall>xs i ys s. order = xs @ i # ys \<and> dict_get (definition_stages doc) i = Some s \<longrightarrow> set (depends_on s) \<subseteq> set xs)"
proof -
  have closed: "closed_stages (definition_stages doc)" by (rule accepted_closed [OF assms])
  then have "acyclic (dependencies (definition_stages doc))" using visit_stages_iff(2) accepted_definition(6) [OF assms] by blast
  from topological_order_exact [OF this closed] obtain order where "topological_order (definition_stages doc) = Some order"
      "ordered_stages (definition_stages doc) order" "set order = dict_keys (definition_stages doc)" .
  then show ?thesis by (force simp: ordered_stages_def)
qed

theorem accepted_workflow_order_witness:
  "WorkflowDefinition_from_dict (JObj sample_workflow) = Inr sample_workflow \<and>
   topological_order (definition_stages sample_workflow) = Some [''scan'', ''report''] \<and> distinct [''scan'', ''report''] \<and>
   set [''scan'', ''report''] = dict_keys (definition_stages sample_workflow)"
proof -
  have found: "topological_order (definition_stages sample_workflow) = Some [''scan'', ''report'']" by code_simp
  from accepted_workflow_order [OF sample_accepted] show ?thesis
    unfolding found option.inject by (elim exE conjE) (intro conjI sample_accepted refl; hypsubst; assumption)
qed

section \<open>Bindings\<close>

text \<open>A dependency that has succeeded: the state holds all its declared outputs, with the declared types.\<close>

definition spec_name :: "json \<Rightarrow> string" where
  "spec_name spec = (case spec_type spec of JStr t \<Rightarrow> t | _ \<Rightarrow> [])"

definition outputs_typed :: "dict \<Rightarrow> dict \<Rightarrow> string \<Rightarrow> bool" where
  "outputs_typed doc state d \<longleftrightarrow>
     (\<exists>s stages st outs. dict_get (definition_stages doc) d = Some s \<and> dict_get state ''stages'' = Some (JObj stages) \<and>
        dict_get stages d = Some (JObj st) \<and> dict_get st ''outputs'' = Some (JObj outs) \<and>
        (\<forall>k spec. dict_get (stage_outputs s) k = Some spec \<longrightarrow>
           (\<exists>v. dict_get outs k = Some v \<and> value_matches_type v (spec_name spec))))"

lemma collect_inputs_keys: "collect_inputs given specs = Inr inputs \<Longrightarrow> dict_keys inputs \<subseteq> dict_keys specs"
proof (induction given specs arbitrary: inputs rule: collect_inputs.induct)
  case (2 given entry specs)
  from "2.prems" obtain v rest where v: "collect_inputs given specs = Inr rest"
      "inputs = (case v of None \<Rightarrow> rest | Some x \<Rightarrow> (fst entry, x) # rest)"
    by (auto simp: bindE_Inr_iff)
  then show ?case using "2.IH" [OF v(1)] by (cases v) (auto simp: dict_keys_def)
qed simp

lemma collect_inputs_get:
  "collect_inputs given specs = Inr inputs \<Longrightarrow> distinct (map fst specs) \<Longrightarrow> dict_get specs k = Some spec \<Longrightarrow>
   (case dict_get inputs k of Some v \<Rightarrow> value_matches_type v (spec_name spec) | None \<Rightarrow> optional_input spec)"
proof (induction given specs arbitrary: inputs rule: collect_inputs.induct)
  case (2 given entry specs)
  obtain name sp where entry: "entry = (name, sp)" by (cases entry)
  from "2.prems"(1) obtain v rest where v: "input_value given entry = Inr v" "collect_inputs given specs = Inr rest"
      "inputs = (case v of None \<Rightarrow> rest | Some x \<Rightarrow> (fst entry, x) # rest)"
    by (auto simp: bindE_Inr_iff)
  show ?case
  proof (cases "name = k")
    case True
    have "dict_keys rest \<subseteq> dict_keys specs" by (rule collect_inputs_keys [OF v(2)])
    then have "dict_get rest k = None" using "2.prems"(2) True entry by (auto simp: dict_get_None_iff dict_keys_def)
    moreover have "spec = sp" using "2.prems"(3) True entry by simp
    ultimately show ?thesis using v(1,3) True
      by (auto simp: input_value_def entry spec_name_def optional_input_def get_or_none_def Let_def split: option.splits if_splits)
  next
    case False
    then show ?thesis using "2.IH" [OF v(2)] "2.prems"(2,3) v(3) entry by (auto split: option.splits)
  qed
qed simp

lemma parse_source_text:
  assumes "parse_source source = Inr r"
  obtains t where "source = JStr t"
    "split_on (CHR ''.'') t = (case r of WorkflowInput n \<Rightarrow> [''workflow'', ''input'', n] | StageOutput d k \<Rightarrow> [''stage'', d, ''output'', k])"
  using assms by (auto simp: parse_source_def split: json.splits list.splits if_splits)

lemma resolve_input:
  assumes "parse_source source = Inr (WorkflowInput n)"
  shows "resolve_source source inputs state = (case dict_get inputs n of None \<Rightarrow> wr_raise ''missing_bound_input'' | Some v \<Rightarrow> Inr v)"
  by (rule parse_source_text [OF assms]) (simp add: resolve_source_def)

lemma resolve_output:
  assumes "parse_source source = Inr (StageOutput d k)" "outputs_typed doc state d"
    and "source_type source (definition_stages doc) inputs' = Inr t"
  shows "\<exists>v. resolve_source source inputs state = Inr v \<and> value_matches_type v (case t of JStr n \<Rightarrow> n | _ \<Rightarrow> [])"
proof -
  from assms(2) obtain s stages st outs where o: "dict_get (definition_stages doc) d = Some s" "dict_get state ''stages'' = Some (JObj stages)"
      "dict_get stages d = Some (JObj st)" "dict_get st ''outputs'' = Some (JObj outs)"
    and typed: "\<And>j spec. dict_get (stage_outputs s) j = Some spec \<Longrightarrow>
        \<exists>v. dict_get outs j = Some v \<and> value_matches_type v (spec_name spec)"
    unfolding outputs_typed_def by blast
  from assms(3) obtain spec where spec: "dict_get (stage_outputs s) k = Some spec" "t = spec_type spec"
    by (auto simp: source_type_def assms(1) o(1) bindE_Inr_iff split: option.splits)
  obtain v where "dict_get outs k = Some v" "value_matches_type v (spec_name spec)" using typed [OF spec(1)] by blast
  moreover obtain path where "source = JStr path" "split_on (CHR ''.'') path = [''stage'', d, ''output'', k]"
    using parse_source_text [OF assms(1)] by auto
  ultimately show ?thesis by (simp add: resolve_source_def get_item_def o spec(2) spec_name_def)
qed

lemma type_of_Inr: "type_of d = Inr t \<Longrightarrow> get_or_none d ''type'' = JStr t"
  by (auto simp: type_of_def bindE_Inr_iff split: if_splits json.splits)

lemma binding_spec_cases:
  assumes "check_binding_spec (name, b) = Inr ()"
  obtains (literal) v t where "dict_get (obj_of b) ''value'' = Some v" "spec_type b = JStr t" "value_matches_type v t"
  | (bound) source where "dict_get (obj_of b) ''value'' = None" "dict_get (obj_of b) ''source'' = Some source"
proof -
  obtain d where b: "b = JObj d" using assms by (cases b) (simp_all add: check_binding_spec_def bindE_Inr_iff)
  from assms obtain t where t: "binding_shape d" "type_of d = Inr t"
    by (auto simp: b check_binding_spec_def bindE_Inr_iff split: if_splits)
  have matches: "value_matches_type v t" if "dict_get d ''value'' = Some v" for v
    using assms that t by (auto simp: b check_binding_spec_def bindE_Inr_iff split: if_splits)
  have keys: "dict_keys d = {''type'', ''source''} \<or> dict_keys d = {''type'', ''value''}"
    using t(1) unfolding binding_shape_def by blast
  show ?thesis
  proof (cases "dict_get d ''value''")
    case None
    then have "''value'' \<notin> dict_keys d" by (simp add: dict_get_None_iff)
    then have "dict_keys d \<noteq> {''type'', ''value''}" by (rule contrapos_nn) simp
    then have "dict_keys d = {''type'', ''source''}" using keys by (simp only: simp_thms)
    then have "''source'' \<in> dict_keys d" by simp
    then have "dict_get d ''source'' \<noteq> None" by (simp add: dict_get_None_iff)
    then show ?thesis using None bound by (simp add: b obj_of_def) blast
  next
    case (Some v)
    then show ?thesis using matches [OF Some] type_of_Inr [OF t(2)] literal by (simp add: b obj_of_def spec_type_def)
  qed
qed

lemma stage_checks:
  assumes "WorkflowDefinition_from_dict v = Inr doc" "(i, s) \<in> set (definition_stages doc)" "(name, b) \<in> set (stage_inputs s)"
  shows "check_binding_spec (name, b) = Inr ()" "graph_binding (definition_stages doc) (definition_inputs doc) s (name, b) = Inr ()"
    "\<And>source. dict_get (obj_of b) ''source'' = Some source \<Longrightarrow>
       graph_source (definition_stages doc) (definition_inputs doc) s source = Inr ()"
proof -
  have "validate_stage (JObj s) = Inr s" using accepted_definition(4) [OF assms(1,2)] by simp
  then have "validate_bindings (get_or_none s ''inputs'') = Inr ()"
    by (auto simp: validate_stage_def bindE_Inr_iff dest!: wf_keys_Inr)
  then obtain ys where "mapE check_binding_spec (stage_inputs s) = Inr ys"
    by (auto simp: validate_bindings_def stage_inputs_def obj_of_def bindE_Inr_iff split: json.splits if_splits)
  from mapE_Inr_all [OF this assms(3)] show "check_binding_spec (name, b) = Inr ()" by simp
  from accepted_definition(5) [OF assms(1,2)] obtain ys zs where
      ys: "mapE (graph_binding (definition_stages doc) (definition_inputs doc) s) (stage_inputs s) = Inr ys"
    and zs: "mapE (graph_source (definition_stages doc) (definition_inputs doc) s) (stage_sources s) = Inr zs"
    by (auto simp: graph_stage_def bindE_Inr_iff)
  from mapE_Inr_all [OF ys assms(3)] show "graph_binding (definition_stages doc) (definition_inputs doc) s (name, b) = Inr ()" by simp
  show "graph_source (definition_stages doc) (definition_inputs doc) s source = Inr ()"
    if "dict_get (obj_of b) ''source'' = Some source" for source
  proof -
    have "source \<in> set (stage_sources s)" using that assms(3) by (force simp: stage_sources_def)
    from mapE_Inr_all [OF zs this] show ?thesis by simp
  qed
qed

lemma mapE_all2:
  "(\<And>x. x \<in> set xs \<Longrightarrow> \<exists>y. f x = Inr y \<and> P x y) \<Longrightarrow> \<exists>ys. mapE f xs = Inr ys \<and> list_all2 P xs ys"
proof (induction xs)
  case (Cons x xs)
  then obtain ys y where "mapE f xs = Inr ys" "list_all2 P xs ys" "f x = Inr y" "P x y" by force
  then show ?case by auto
qed simp

definition typed_binding :: "string \<times> json \<Rightarrow> string \<times> json \<Rightarrow> bool" where
  "typed_binding b x \<longleftrightarrow> fst x = fst b \<and> value_matches_type (snd x) (spec_name (snd b))"

lemma zip_all2: "list_all2 P xs ys \<Longrightarrow> (\<And>x y. P x y \<Longrightarrow> Q (y, x)) \<Longrightarrow> list_all Q (zip ys xs)"
  by (induction rule: list_all2_induct) auto

lemma bound_input:
  assumes ok: "WorkflowDefinition_from_dict v = Inr doc" "distinct (map fst (definition_inputs doc))" "validate_inputs doc given = Inr inputs"
    and cond: "condition_matches (stage_condition s) inputs state = Inr True"
    and src: "parse_source source = Inr (WorkflowInput n)" "source_type source stages (definition_inputs doc) = Inr t"
    and guard: "\<And>spec. dict_get (definition_inputs doc) n = Some spec \<Longrightarrow> \<not> (optional_input spec \<and> \<not> guarded_by s source)"
  shows "\<exists>v. resolve_source source inputs state = Inr v \<and> value_matches_type v (case t of JStr k \<Rightarrow> k | _ \<Rightarrow> [])"
proof -
  from src obtain spec where spec: "dict_get (definition_inputs doc) n = Some spec" "t = spec_type spec"
    by (auto simp: source_type_def bindE_Inr_iff split: option.splits)
  from ok(3) have "collect_inputs (obj_of given) (definition_inputs doc) = Inr inputs"
    by (auto simp: validate_inputs_def obj_of_def split: json.splits if_splits)
  from collect_inputs_get [OF this ok(2) spec(1)] have got:
      "case dict_get inputs n of Some v \<Rightarrow> value_matches_type v (spec_name spec) | None \<Rightarrow> optional_input spec" .
  show ?thesis
  proof (cases "dict_get inputs n")
    case None
    then have "guarded_by s source" using got guard [OF spec(1)] by simp
    then obtain c where c: "stage_condition s = Some c" "dict_get c ''operator'' = Some (JStr ''exists'')" "dict_get c ''source'' = Some source"
      by (auto simp: guarded_by_def split: option.splits)
    then show ?thesis using cond None resolve_input [OF src(1), of inputs state] by (simp add: condition_matches_def get_or_none_def)
  next
    case (Some v)
    then show ?thesis using got resolve_input [OF src(1), of inputs state] spec(2) by (simp add: spec_name_def)
  qed
qed

lemma binding_value_typed:
  assumes ok: "WorkflowDefinition_from_dict v = Inr doc" "distinct (map fst (definition_inputs doc))" "validate_inputs doc given = Inr inputs"
    and s: "(i, s) \<in> set (definition_stages doc)" "\<forall>d \<in> set (depends_on s). outputs_typed doc state d"
    and cond: "condition_matches (stage_condition s) inputs state = Inr True"
    and entry: "(name, b) \<in> set (stage_inputs s)"
  shows "\<exists>x. binding_value inputs state (name, b) = Inr (name, x) \<and> value_matches_type x (spec_name b)"
proof (cases rule: binding_spec_cases [OF stage_checks(1) [OF ok(1) s(1) entry]])
  case (1 x t)
  then show ?thesis by (simp add: binding_value_def spec_name_def)
next
  case (2 source)
  have "graph_binding (definition_stages doc) (definition_inputs doc) s (name, b) = Inr ()" by (rule stage_checks(2) [OF ok(1) s(1) entry])
  note checked = this [unfolded graph_binding_def, simplified 2(2) Let_def snd_conv option.case]
  then have t: "source_type source (definition_stages doc) (definition_inputs doc) = Inr (spec_type b)"
    by (auto simp: bindE_Inr_iff spec_type_def split: if_splits)
  obtain r where r: "parse_source source = Inr r" using checked t by (auto simp: bindE_Inr_iff split: if_splits)
  have guard: "\<not> (optional_input spec \<and> \<not> guarded_by s source)"
    if "r = WorkflowInput n" "dict_get (definition_inputs doc) n = Some spec" for n spec
    using checked by (simp add: t r that spec_type_def split: if_splits)
  have "\<exists>x. resolve_source source inputs state = Inr x \<and> value_matches_type x (spec_name b)"
  proof (cases r)
    case (WorkflowInput n)
    then show ?thesis using bound_input [OF ok cond _ t, of n] r guard [OF WorkflowInput] by (simp add: spec_name_def)
  next
    case (StageOutput d k)
    then have "d \<in> set (depends_on s)"
      using stage_checks(3) [OF ok(1) s(1) entry 2(2)] r by (auto simp: graph_source_def bindE_Inr_iff split: if_splits)
    then show ?thesis using resolve_output [OF _ _ t, of d k state inputs] r StageOutput s(2) by (simp add: spec_name_def)
  qed
  then show ?thesis using 2 by (auto simp: binding_value_def get_or_none_def)
qed

text \<open>
  C26. Stages of an accepted definition do not get stuck on their inputs: when the workflow inputs were accepted,
  all dependencies of a stage hold their declared outputs and its condition is met, its bindings
  resolve, and each value has the declared type. (Documents are dictionaries, so the names of the inputs
  are distinct.)
\<close>

theorem bindings_never_stuck:
  assumes "WorkflowDefinition_from_dict v = Inr doc" "distinct (map fst (definition_inputs doc))"
    and "validate_inputs doc given = Inr inputs" "dict_get (definition_stages doc) i = Some s"
    and "\<forall>d \<in> set (depends_on s). outputs_typed doc state d"
    and "condition_matches (stage_condition s) inputs state = Inr True"
  shows "\<exists>resolved. resolve_bindings (stage_inputs s) inputs state = Inr resolved \<and> list_all2 typed_binding (stage_inputs s) resolved"
proof -
  have s: "(i, s) \<in> set (definition_stages doc)" using assms(4) by (simp add: dict_get_def map_of_SomeD)
  have "\<exists>y. binding_value inputs state e = Inr y \<and> typed_binding e y" if e: "e \<in> set (stage_inputs s)" for e
  proof -
    have "(fst e, snd e) \<in> set (stage_inputs s)" using e by simp
    from binding_value_typed [OF assms(1-3) s assms(5,6) this] show ?thesis by (auto simp: typed_binding_def)
  qed
  then obtain resolved where r: "mapE (binding_value inputs state) (stage_inputs s) = Inr resolved"
      "list_all2 typed_binding (stage_inputs s) resolved"
    using mapE_all2 [of "stage_inputs s" "binding_value inputs state" typed_binding] by metis
  have "list_all (\<lambda>((_, x), (_, b)). value_matches_type x (spec_name b)) (zip resolved (stage_inputs s))"
    by (rule zip_all2 [OF r(2)]) (simp add: typed_binding_def case_prod_unfold)
  then show ?thesis using r by (simp add: resolve_bindings_def spec_name_def case_prod_unfold)
qed

definition sample_state :: dict where
  "sample_state = [(''stages'', JObj [(''scan'', JObj [(''status'', JStr ''success''), (''outputs'', JObj [(''hosts'', JList [JStr ''h1''])])])])]"

lemma sample_report: "dict_get (definition_stages sample_workflow) ''report'' = Some report_stage"
    "dict_get (definition_stages sample_workflow) ''scan'' = Some scan_stage"
    "distinct (map fst (definition_inputs sample_workflow))"
    "validate_inputs sample_workflow (JObj [(''cidr'', JStr ''10.0.0.0/8'')]) = Inr [(''cidr'', JStr ''10.0.0.0/8'')]"
    "condition_matches (stage_condition report_stage) inputs sample_state = Inr True"
    "depends_on report_stage = [''scan'']" "stage_outputs scan_stage = [(''hosts'', JObj [(''type'', JStr ''array'')])]"
  by code_simp+

lemma sample_outputs_typed: "outputs_typed sample_workflow sample_state ''scan''"
  unfolding outputs_typed_def
  by (rule exI [of _ scan_stage])
    (simp add: sample_report sample_state_def spec_name_def spec_type_def get_or_none_def obj_of_def value_matches_type_def)

theorem bindings_never_stuck_witness:
  "WorkflowDefinition_from_dict (JObj sample_workflow) = Inr sample_workflow \<and> outputs_typed sample_workflow sample_state ''scan'' \<and>
   (\<exists>resolved. resolve_bindings (stage_inputs report_stage) [(''cidr'', JStr ''10.0.0.0/8'')] sample_state = Inr resolved \<and>
      list_all2 typed_binding (stage_inputs report_stage) resolved)"
  using bindings_never_stuck [OF sample_accepted sample_report(3,4,1) _ sample_report(5)] sample_accepted sample_outputs_typed sample_report(6)
  by simp

end
