(* ===== verification/Workflow_Run.thy ===== *)
theory Workflow_Run
  imports Workflow_Runtime
begin

text \<open>
  \<^verbatim>\<open>WorkflowRunner\<close> of \<^verbatim>\<open>cops/workflows/runtime.py\<close>: stage results, budgets, the persisted state and the run itself.

  A method that touches the outside is a function on \<open>runner\<close>: the approval client and the retained receipts, the
  files of the state directory as bytes, and a log of what the executor was asked. What the outside
  answers at each call is a function of the number of calls made before (\<open>answers\<close>), so that a reply may
  be anything at any moment; a write that fails stands for a stop of the process at that point as well.
  The state document of a run is a local value: an exception leaves only the runner behind. The dictionaries that the code
  shares between the state and its local variables are always the last attempt of the current stage.
\<close>

section \<open>Stage results and budgets\<close>

record stage_result =
  sr_status :: string
  sr_outputs :: dict
  sr_evidence_refs :: "json list"
  sr_reason :: json

datatype executed = Executed stage_result | NotAResult | ExecuteRaised

definition output_limit :: "dict \<Rightarrow> int" where
  "output_limit s = (case get_or_none (obj_of (get_or_none (stage_action s) ''limits'')) ''max_output_bytes'' of JInt n \<Rightarrow> n | _ \<Rightarrow> 0)"

definition filled_text :: "json \<Rightarrow> bool" where
  "filled_text v = (case v of JStr (c # cs) \<Rightarrow> True | _ \<Rightarrow> False)"

definition validate_stage_result :: "executed \<Rightarrow> dict \<Rightarrow> (runtime_exc, stage_result) result" where
  "validate_stage_result reply s =
     (case reply of
        ExecuteRaised \<Rightarrow> Inl ExecutorError
      | NotAResult \<Rightarrow> wr_raise ''invalid_stage_result''
      | Executed r \<Rightarrow>
          if sr_status r \<notin> {''success'', ''failed'', ''partial''} then wr_raise ''invalid_stage_result''
          else if \<not> dict_keys (sr_outputs r) \<subseteq> dict_keys (stage_outputs s) then wr_raise ''undeclared_stage_output''
          else if sr_status r = ''success'' \<and> dict_keys (sr_outputs r) \<noteq> dict_keys (stage_outputs s) then wr_raise ''missing_stage_output''
          else if \<not> list_all (\<lambda>(k, v). value_matches_type v
                    (case map_option spec_type (dict_get (stage_outputs s) k) of Some (JStr t) \<Rightarrow> t | _ \<Rightarrow> [])) (sr_outputs r)
          then wr_raise ''stage_output_type''
          else if \<not> list_all filled_text (sr_evidence_refs r) then wr_raise ''invalid_evidence_ref''
          else bindE (exceptE ''stage_output_budget_exceeded'' (canonical (JObj (sr_outputs r)) (output_limit s) DEFAULT_DEPTH)) (\<lambda>_. Inr r))"

definition evidence_length :: "json \<Rightarrow> (runtime_exc, int) result" where
  "evidence_length st =
     (case dict_get (obj_of st) ''evidence_refs'' of None \<Rightarrow> Inr 0 | Some v \<Rightarrow> tagE (\<lambda>_. RuntimeType) (py_len v))"

definition output_length :: "json \<Rightarrow> (runtime_exc, int) result" where
  "output_length st =
     bindE (tagE RuntimeEvidence (canonical (case dict_get (obj_of st) ''outputs'' of None \<Rightarrow> JObj [] | Some v \<Rightarrow> v) DEFAULT_BYTES DEFAULT_DEPTH))
       (\<lambda>b. Inr (int (length b)))"

definition check_budgets :: "dict \<Rightarrow> dict \<Rightarrow> (runtime_exc, unit) result" where
  "check_budgets doc stages =
     bindE (mapE (\<lambda>(_, st). evidence_length st) stages) (\<lambda>counts.
     bindE (mapE (\<lambda>(_, st). output_length st) stages) (\<lambda>sizes.
       if sum_list counts > budget_of doc ''max_evidence_refs'' then wr_raise ''evidence_budget_exceeded''
       else if sum_list sizes > budget_of doc ''max_output_bytes'' then wr_raise ''output_budget_exceeded''
       else Inr ()))"

section \<open>The state document\<close>

definition state_stages :: "dict \<Rightarrow> dict" where
  "state_stages state = obj_of (get_or_none state ''stages'')"

definition stage_state :: "dict \<Rightarrow> string \<Rightarrow> dict option" where
  "stage_state state sid = map_option obj_of (dict_get (state_stages state) sid)"

definition set_stage :: "string \<Rightarrow> dict \<Rightarrow> dict \<Rightarrow> dict" where
  "set_stage sid st state = dict_set ''stages'' (JObj (dict_set sid (JObj st) (state_stages state))) state"

definition stage_attempts :: "dict \<Rightarrow> json list" where
  "stage_attempts st = (case get_or_none st ''attempts'' of JList vs \<Rightarrow> vs | _ \<Rightarrow> [])"

definition status_is :: "dict \<Rightarrow> string \<Rightarrow> bool" where
  "status_is st status = (get_or_none st ''status'' = JStr status)"

definition status_in :: "dict \<Rightarrow> string list \<Rightarrow> bool" where
  "status_in st names = list_ex (status_is st) names"

definition update_last_attempt :: "(dict \<Rightarrow> dict) \<Rightarrow> dict \<Rightarrow> dict" where
  "update_last_attempt f st =
     (case rev (stage_attempts st) of
        [] \<Rightarrow> st
      | a # older \<Rightarrow> dict_set ''attempts'' (JList (rev older @ [JObj (f (obj_of a))])) st)"

definition update_stage :: "string \<Rightarrow> (dict \<Rightarrow> dict) \<Rightarrow> dict \<Rightarrow> dict" where
  "update_stage sid f state = (case stage_state state sid of None \<Rightarrow> state | Some st \<Rightarrow> set_stage sid (f st) state)"

definition consumed_ids :: "dict \<Rightarrow> json list" where
  "consumed_ids state = (case get_or_none state ''consumed_authorizations'' of JList vs \<Rightarrow> vs | _ \<Rightarrow> [])"

definition initial_state :: "string \<Rightarrow> string \<Rightarrow> string \<Rightarrow> dict" where
  "initial_state run_id h inputs_digest =
     [(''schema_version'', JStr ''cops.workflow-run-state/v1''), (''run_id'', JStr run_id), (''workflow_digest'', JStr h),
      (''inputs_digest'', JStr inputs_digest), (''status'', JStr ''running''), (''stages'', JObj []), (''consumed_authorizations'', JList [])]"

section \<open>Validation of a persisted state\<close>

abbreviation state_tampered :: "(runtime_exc, 'a) result" where
  "state_tampered \<equiv> wr_raise ''state_tampering''"

definition ATTEMPT_STATUSES :: "string list" where
  "ATTEMPT_STATUSES = [''planned'', ''authorized'', ''interrupted'', ''success'', ''failed'', ''partial'']"

text \<open>\<^verbatim>\<open>status in {...}\<close>.\<close>

definition known_status :: "json \<Rightarrow> string list \<Rightarrow> (runtime_exc, bool) result" where
  "known_status v names = tagE (\<lambda>_. RuntimeType) (one_of v names)"

definition verify_envelope :: "(nat list \<Rightarrow> string) \<Rightarrow> json \<Rightarrow> string \<Rightarrow> (runtime_exc, dict) result" where
  "verify_envelope sha envelope code =
     (case envelope of
        JObj d \<Rightarrow>
          if dict_keys d \<noteq> {''payload'', ''digest''} then wr_raise code
          else (case dict_get d ''payload'' of
             Some (JObj p) \<Rightarrow>
               bindE (tagE RuntimeEvidence (digest sha (JObj p) DEFAULT_BYTES DEFAULT_DEPTH)) (\<lambda>h.
                 if dict_get d ''digest'' = Some (JStr h) then Inr p else wr_raise code)
           | _ \<Rightarrow> wr_raise code)
      | _ \<Rightarrow> wr_raise code)"

text \<open>What the loops over stages and attempts carry: the authorizations of planned and of later attempts.\<close>

record seen_ids =
  si_recorded :: "string list"
  si_consumed :: "string list"

text \<open>One attempt of a stage: number \<open>n\<close>, the last of them or not.\<close>

definition check_attempt ::
  "validator \<Rightarrow> dict \<Rightarrow> string \<Rightarrow> string \<Rightarrow> string \<Rightarrow> json list \<Rightarrow> dict \<Rightarrow> int \<Rightarrow> int \<Rightarrow> bool \<Rightarrow> json \<Rightarrow> seen_ids \<Rightarrow>
   (runtime_exc, bool \<times> seen_ids) result" where
  "check_attempt env doc run_id worker sid consumed resolved attempts_allowed n is_last v seen =
     (case v of
        JObj rec \<Rightarrow>
          if \<not> py_eq (get_or_none rec ''attempt'') (JInt n) \<or> n > attempts_allowed then state_tampered
          else (case get_str rec ''authorization_id'' of
             None \<Rightarrow> state_tampered
           | Some aid \<Rightarrow>
               if aid = [] \<or> aid \<in> set (si_recorded seen) then state_tampered
               else bindE (known_status (get_or_none rec ''status'') ATTEMPT_STATUSES) (\<lambda>known.
                 if \<not> known \<or> \<not> is_last \<and> \<not> status_in rec [''interrupted'', ''failed'', ''partial''] then state_tampered
                 else bindE (validated_attempt_plan env doc run_id sid resolved rec) (\<lambda>(plan, legacy).
                   if status_is rec ''planned'' then
                     (if JStr aid \<in> set consumed \<or> dict_get rec ''receipt'' \<noteq> None \<or> dict_get rec ''authorization_digest'' \<noteq> None then state_tampered
                      else Inr (legacy, seen\<lparr>si_recorded := aid # si_recorded seen\<rparr>))
                   else bindE (receipt_from_record rec) (\<lambda>r.
                     if \<not> receipt_matches r aid plan worker then state_tampered
                     else Inr (legacy, seen\<lparr>si_recorded := aid # si_recorded seen,
                            si_consumed := re_authorization_id r # si_consumed seen\<rparr>)))))
      | _ \<Rightarrow> state_tampered)"

fun check_attempts ::
  "validator \<Rightarrow> dict \<Rightarrow> string \<Rightarrow> string \<Rightarrow> string \<Rightarrow> json list \<Rightarrow> dict \<Rightarrow> int \<Rightarrow> int \<Rightarrow> json list \<Rightarrow> seen_ids \<Rightarrow>
   (runtime_exc, bool list \<times> seen_ids) result" where
  "check_attempts env doc run_id worker sid consumed resolved attempts_allowed n [] seen = Inr ([], seen)"
| "check_attempts env doc run_id worker sid consumed resolved attempts_allowed n (v # vs) seen =
     bindE (check_attempt env doc run_id worker sid consumed resolved attempts_allowed n (vs = []) v seen) (\<lambda>(legacy, seen').
     bindE (check_attempts env doc run_id worker sid consumed resolved attempts_allowed (n + 1) vs seen') (\<lambda>(rest, seen'').
       Inr (legacy # rest, seen'')))"

definition check_stage_state ::
  "validator \<Rightarrow> dict \<Rightarrow> string \<Rightarrow> string \<Rightarrow> dict \<Rightarrow> dict \<Rightarrow> json list \<Rightarrow> string \<times> json \<Rightarrow> seen_ids \<Rightarrow> (runtime_exc, seen_ids) result" where
  "check_stage_state env doc run_id worker inputs state consumed entry seen =
     (case (dict_get (definition_stages doc) (fst entry), snd entry) of
        (Some s, JObj st) \<Rightarrow>
          if status_is st ''skipped'' then
            (if get_or_none st ''attempts'' = JList [] \<and> get_or_none st ''outputs'' = JObj [] \<and> get_or_none st ''evidence_refs'' = JList []
             then Inr seen else state_tampered)
          else bindE (known_status (get_or_none st ''status'') ATTEMPT_STATUSES) (\<lambda>known.
            if \<not> known then state_tampered
            else (case get_or_none st ''attempts'' of
               JList vs \<Rightarrow>
                 (case rev vs of
                    JObj latest # _ \<Rightarrow>
                      if get_or_none latest ''status'' \<noteq> get_or_none st ''status'' then state_tampered
                      else bindE (except_runtime ''state_tampering'' (resolve_bindings (stage_inputs s) inputs state)) (\<lambda>resolved.
                        bindE (check_attempts env doc run_id worker (fst entry) consumed resolved (max_attempts s) 1 vs seen) (\<lambda>(legacy, seen').
                          if \<not> is_idempotent (stage_action s) \<and> length vs > 1 \<and>
                             (dict_get (stage_action s) ''idempotent'' \<noteq> None \<or> \<not> list_all (\<lambda>l. l) legacy)
                          then state_tampered else Inr seen'))
                  | _ \<Rightarrow> state_tampered)
             | _ \<Rightarrow> state_tampered))
      | _ \<Rightarrow> state_tampered)"

fun check_stage_states ::
  "validator \<Rightarrow> dict \<Rightarrow> string \<Rightarrow> string \<Rightarrow> dict \<Rightarrow> dict \<Rightarrow> json list \<Rightarrow> dict \<Rightarrow> seen_ids \<Rightarrow> (runtime_exc, seen_ids) result" where
  "check_stage_states env doc run_id worker inputs state consumed [] seen = Inr seen"
| "check_stage_states env doc run_id worker inputs state consumed (entry # entries) seen =
     bindE (check_stage_state env doc run_id worker inputs state consumed entry seen)
       (check_stage_states env doc run_id worker inputs state consumed entries)"

definition validate_persisted_state ::
  "validator \<Rightarrow> dict \<Rightarrow> string \<Rightarrow> dict \<Rightarrow> dict \<Rightarrow> string \<Rightarrow> (runtime_exc, unit) result" where
  "validate_persisted_state env doc run_id inputs state worker =
     (case (get_or_none state ''stages'', get_or_none state ''consumed_authorizations'') of
        (JObj stages, JList consumed) \<Rightarrow>
          if \<not> list_all filled_text consumed \<or> \<not> distinct consumed then state_tampered
          else bindE (check_stage_states env doc run_id worker inputs state consumed stages \<lparr>si_recorded = [], si_consumed = []\<rparr>) (\<lambda>seen.
            if JStr ` set (si_consumed seen) \<noteq> set consumed then state_tampered else Inr ())
      | _ \<Rightarrow> state_tampered)"

section \<open>The runner\<close>

text \<open>A call of the executor: the plan, the receipt object, the idempotency key and, for the record, the client and what
  the state file held at that moment.\<close>

record execution =
  ex_plan :: action_plan
  ex_receipt :: receipt_ref
  ex_key :: string
  ex_client :: client
  ex_durable :: "nat list option"

record runner =
  ru_client :: client
  ru_pending :: "(string \<times> receipt_ref) list"
  ru_files :: "(string \<times> nat list) list"
  ru_calls :: nat
  ru_executed :: "execution list"
  ru_cleaned :: "(action_plan \<times> string) list"

text \<open>\<open>an_artifact\<close>: \<open>None\<close> when the whole result file is written, otherwise the number of bytes before the failure.\<close>

record answers =
  an_validator :: validator
  an_floats :: "string \<Rightarrow> pyfloat"
  an_ready :: "(control_exc, unit) result"
  an_mkdir :: bool
  an_consume :: "nat \<Rightarrow> string \<Rightarrow> action_plan \<Rightarrow> string \<Rightarrow> client \<Rightarrow> (client, control_exc, receipt_ref) outcome"
  an_execute :: "nat \<Rightarrow> action_plan \<Rightarrow> receipt_ref \<Rightarrow> string \<Rightarrow> executed"
  an_cleanup :: "nat \<Rightarrow> bool"
  an_cancelled :: "nat \<Rightarrow> bool"
  an_clock :: "nat \<Rightarrow> string"
  an_write :: "nat \<Rightarrow> bool"
  an_artifact :: "nat \<Rightarrow> nat option"

type_synonym 'a running = "runner \<Rightarrow> (runner, runtime_exc, 'a) outcome"

definition bindR :: "'a running \<Rightarrow> ('a \<Rightarrow> 'b running) \<Rightarrow> 'b running" where
  "bindR m f ru = (case m ru of (Inl e, ru') \<Rightarrow> (Inl e, ru') | (Inr a, ru') \<Rightarrow> f a ru')"

definition liftR :: "(runtime_exc, 'a) result \<Rightarrow> 'a running" where
  "liftR r ru = (r, ru)"

definition ask :: "(nat \<Rightarrow> 'a) \<Rightarrow> 'a running" where
  "ask f ru = (Inr (f (ru_calls ru)), ru\<lparr>ru_calls := Suc (ru_calls ru)\<rparr>)"

abbreviation an_sha :: "answers \<Rightarrow> nat list \<Rightarrow> string" where
  "an_sha an \<equiv> v_sha (an_validator an)"

abbreviation wf_digest :: "answers \<Rightarrow> json \<Rightarrow> (runtime_exc, string) result" where
  "wf_digest an v \<equiv> tagE RuntimeEvidence (digest (an_sha an) v DEFAULT_BYTES DEFAULT_DEPTH)"

definition put_file :: "string \<Rightarrow> nat list \<Rightarrow> unit running" where
  "put_file name bytes ru = (Inr (), ru\<lparr>ru_files := dict_set name bytes (ru_files ru)\<rparr>)"

definition state_envelope :: "(nat list \<Rightarrow> string) \<Rightarrow> dict \<Rightarrow> (runtime_exc, nat list) result" where
  "state_envelope sha state =
     bindE (tagE RuntimeEvidence (digest sha (JObj state) DEFAULT_BYTES DEFAULT_DEPTH)) (\<lambda>h.
       tagE RuntimeEvidence (canonical (JObj [(''payload'', JObj state), (''digest'', JStr h)]) (104857600 + 2097152) DEFAULT_DEPTH))"

definition write_state :: "answers \<Rightarrow> string \<Rightarrow> dict \<Rightarrow> unit running" where
  "write_state an name state =
     bindR (liftR (state_envelope (an_sha an) state)) (\<lambda>bytes.
     bindR (ask (an_write an)) (\<lambda>ok.
       if ok then put_file name bytes else liftR (Inl RuntimeIO)))"

definition artifact_payload :: "string \<Rightarrow> string \<Rightarrow> int \<Rightarrow> stage_result \<Rightarrow> dict" where
  "artifact_payload run_id sid attempt r =
     [(''schema_version'', JStr ''cops.workflow-stage-result/v1''), (''run_id'', JStr run_id), (''stage_id'', JStr sid),
      (''attempt'', JInt attempt), (''status'', JStr (sr_status r)), (''outputs'', JObj (sr_outputs r)),
      (''evidence_refs'', JList (sr_evidence_refs r)), (''reason'', sr_reason r)]"

definition artifact_name :: "answers \<Rightarrow> json \<Rightarrow> string \<Rightarrow> json \<Rightarrow> (runtime_exc, string) result" where
  "artifact_name an run_id sid attempt =
     bindE (wf_digest an (JObj [(''run_id'', run_id), (''stage_id'', JStr sid), (''attempt'', attempt)])) (\<lambda>h.
       Inr (''stage-'' @ take 32 h @ ''.json''))"

definition create_artifact :: "answers \<Rightarrow> string \<Rightarrow> nat list \<Rightarrow> unit running" where
  "create_artifact an name encoded ru =
     (case dict_get (ru_files ru) name of
        Some old \<Rightarrow> (if old = encoded then Inr () else wr_raise ''duplicate_output_write'', ru)
      | None \<Rightarrow>
          bindR (ask (an_artifact an)) (\<lambda>stopped.
            case stopped of
              None \<Rightarrow> put_file name encoded
            | Some n \<Rightarrow> bindR (put_file name (take n encoded)) (\<lambda>_. liftR (Inl RuntimeIO))) ru)"

definition persist_artifact :: "answers \<Rightarrow> string \<Rightarrow> string \<Rightarrow> int \<Rightarrow> stage_result \<Rightarrow> int \<Rightarrow> dict running" where
  "persist_artifact an run_id sid attempt r max_output_bytes =
     (let payload = JObj (artifact_payload run_id sid attempt r) in
      bindR (liftR (wf_digest an payload)) (\<lambda>h.
      bindR (liftR (artifact_name an (JStr run_id) sid (JInt attempt))) (\<lambda>name.
      bindR (liftR (tagE RuntimeEvidence (canonical (JObj [(''payload'', payload), (''digest'', JStr h)]) (max_output_bytes + 1048576) DEFAULT_DEPTH))) (\<lambda>encoded.
      bindR (create_artifact an name encoded) (\<lambda>_.
        liftR (Inr [(''file'', JStr name), (''digest'', JStr h)]))))))"

section \<open>Loading\<close>

definition same_artifact :: "dict \<Rightarrow> string \<Rightarrow> dict \<Rightarrow> dict \<Rightarrow> bool" where
  "same_artifact state sid rec payload \<longleftrightarrow>
     py_eq (get_or_none payload ''run_id'') (get_or_none state ''run_id'') \<and>
     py_eq (get_or_none payload ''stage_id'') (JStr sid) \<and>
     py_eq (get_or_none payload ''attempt'') (get_or_none rec ''attempt'') \<and>
     py_eq (get_or_none payload ''status'') (get_or_none rec ''status'') \<and>
     py_eq (get_or_none payload ''reason'') (case dict_get rec ''reason'' of None \<Rightarrow> JStr [] | Some v \<Rightarrow> v)"

definition verify_artifact ::
  "answers \<Rightarrow> (string \<times> nat list) list \<Rightarrow> dict \<Rightarrow> string \<Rightarrow> dict \<Rightarrow> bool \<Rightarrow> dict \<Rightarrow> (runtime_exc, unit) result" where
  "verify_artifact an files state sid st is_last rec =
     (if \<not> truthy (get_or_none rec ''artifact'') then Inr ()
      else bindE (artifact_name an (get_or_none state ''run_id'') sid (get_or_none rec ''attempt'')) (\<lambda>name.
        case get_or_none rec ''artifact'' of
          JObj artifact \<Rightarrow>
            if dict_keys artifact \<noteq> {''file'', ''digest''} \<or> dict_get artifact ''file'' \<noteq> Some (JStr name) then wr_raise ''output_tampering''
            else (case dict_get files name of
               None \<Rightarrow> wr_raise ''missing_stage_artifact''
             | Some raw \<Rightarrow>
                 bindE (exceptE ''output_tampering'' (decode_json (an_floats an) raw 106954752 DEFAULT_DEPTH)) (\<lambda>envelope.
                 bindE (verify_envelope (an_sha an) envelope ''output_tampering'') (\<lambda>payload.
                   if \<not> same_artifact state sid rec payload then wr_raise ''output_tampering''
                   else bindE (wf_digest an (JObj payload)) (\<lambda>h.
                     if dict_get artifact ''digest'' \<noteq> Some (JStr h) then wr_raise ''output_tampering''
                     else if is_last \<and> py_eq (get_or_none st ''status'') (get_or_none payload ''status'') then
                       (case (dict_get payload ''outputs'', dict_get payload ''evidence_refs'') of
                          (Some outs, Some refs) \<Rightarrow>
                            if py_eq (get_or_none st ''outputs'') outs \<and> py_eq (get_or_none st ''evidence_refs'') refs
                            then Inr () else wr_raise ''output_tampering''
                        | (Some outs, None) \<Rightarrow> if py_eq (get_or_none st ''outputs'') outs then Inl RuntimeType else wr_raise ''output_tampering''
                        | _ \<Rightarrow> Inl RuntimeType)
                     else Inr ()))))
        | _ \<Rightarrow> wr_raise ''output_tampering''))"

fun verify_attempt_artifacts ::
  "answers \<Rightarrow> (string \<times> nat list) list \<Rightarrow> dict \<Rightarrow> string \<Rightarrow> dict \<Rightarrow> json list \<Rightarrow> (runtime_exc, unit) result" where
  "verify_attempt_artifacts an files state sid st [] = Inr ()"
| "verify_attempt_artifacts an files state sid st (v # vs) =
     bindE (verify_artifact an files state sid st (vs = []) (obj_of v)) (\<lambda>_. verify_attempt_artifacts an files state sid st vs)"

definition verify_artifacts :: "answers \<Rightarrow> (string \<times> nat list) list \<Rightarrow> dict \<Rightarrow> (runtime_exc, unit) result" where
  "verify_artifacts an files state =
     bindE (mapE (\<lambda>(sid, st). verify_attempt_artifacts an files state sid (obj_of st) (stage_attempts (obj_of st))) (state_stages state))
       (\<lambda>_. Inr ())"

definition read_state :: "(nat list \<Rightarrow> string) \<Rightarrow> (string \<Rightarrow> pyfloat) \<Rightarrow> nat list \<Rightarrow> int \<Rightarrow> (runtime_exc, dict) result" where
  "read_state sha pf raw max_output_bytes =
     bindE (exceptE ''state_tampering'' (decode_json pf raw (max_output_bytes + 2097152) DEFAULT_DEPTH)) (\<lambda>envelope.
       verify_envelope sha envelope ''state_tampering'')"

definition load_state :: "answers \<Rightarrow> (string \<times> nat list) list \<Rightarrow> nat list \<Rightarrow> dict \<Rightarrow> string \<Rightarrow> dict \<Rightarrow> string \<Rightarrow> (runtime_exc, dict) result" where
  "load_state an files raw doc run_id inputs worker =
     bindE (read_state (an_sha an) (an_floats an) raw (budget_of doc ''max_output_bytes'')) (\<lambda>state.
     if dict_get state ''run_id'' \<noteq> Some (JStr run_id) then wr_raise ''resume_binding_mismatch''
     else bindE (tagE RuntimeEvidence (definition_digest (an_sha an) doc)) (\<lambda>h.
       if dict_get state ''workflow_digest'' \<noteq> Some (JStr h) then wr_raise ''resume_binding_mismatch''
       else bindE (wf_digest an (JObj inputs)) (\<lambda>hi.
         if dict_get state ''inputs_digest'' \<noteq> Some (JStr hi) then wr_raise ''resume_binding_mismatch''
         else bindE (validate_persisted_state (an_validator an) doc run_id inputs state worker) (\<lambda>_.
           bindE (verify_artifacts an files state) (\<lambda>_. Inr state)))))"

definition load_or_create_state :: "answers \<Rightarrow> string \<Rightarrow> dict \<Rightarrow> string \<Rightarrow> dict \<Rightarrow> string \<Rightarrow> dict running" where
  "load_or_create_state an name doc run_id inputs worker ru =
     (case dict_get (ru_files ru) name of
        Some raw \<Rightarrow> (load_state an (ru_files ru) raw doc run_id inputs worker, ru)
      | None \<Rightarrow>
          bindR (liftR (tagE RuntimeEvidence (definition_digest (an_sha an) doc))) (\<lambda>h.
          bindR (liftR (wf_digest an (JObj inputs))) (\<lambda>hi.
          let state = initial_state run_id h hi in
          bindR (write_state an name state) (\<lambda>_. liftR (Inr state)))) ru)"

section \<open>Receipts and cleanup\<close>

definition release_provenance :: "receipt_ref \<Rightarrow> unit running" where
  "release_provenance r ru =
     (case release_receipt_provenance r (ru_client ru) of
        (out, cl) \<Rightarrow> (tagE RuntimeControl out, ru\<lparr>ru_client := cl\<rparr>))"

definition retain_receipt :: "string \<Rightarrow> receipt_ref \<Rightarrow> unit running" where
  "retain_receipt aid r ru = (Inr (), ru\<lparr>ru_pending := dict_set aid r (ru_pending ru)\<rparr>)"

definition release_pending_receipt :: "string \<Rightarrow> unit running" where
  "release_pending_receipt aid ru =
     (case dict_get (ru_pending ru) aid of
        None \<Rightarrow> (Inl RuntimeType, ru)
      | Some r \<Rightarrow>
          bindR (release_provenance r) (\<lambda>_ ru'. (Inr (), ru'\<lparr>ru_pending := filter (\<lambda>(k, _). k \<noteq> aid) (ru_pending ru')\<rparr>)) ru)"

text \<open>\<^verbatim>\<open>_reconcile_authorized_attempt\<close>; the client returns the receipt it is given, so \<^verbatim>\<open>verified is not trusted\<close> is false.\<close>

definition reconcile_authorized_attempt :: "dict \<Rightarrow> unit running" where
  "reconcile_authorized_attempt st ru =
     (case rev (stage_attempts st) of
        [] \<Rightarrow> (Inl RuntimeType, ru)
      | a # _ \<Rightarrow>
          bindR (liftR (receipt_from_record (obj_of a))) (\<lambda>persisted ru.
            case dict_get (ru_pending ru) (re_authorization_id persisted) of
              None \<Rightarrow> (wr_raise ''unreconciled_authorization'', ru)
            | Some trusted \<Rightarrow>
                if \<not> is_ok (validate_receipt_provenance (ru_client ru) trusted) \<or> snd trusted \<noteq> persisted
                then (wr_raise ''unreconciled_authorization'', ru)
                else release_pending_receipt (re_authorization_id persisted) ru) ru)"

definition interrupt_stage :: "dict \<Rightarrow> dict" where
  "interrupt_stage st = update_last_attempt (dict_set ''status'' (JStr ''interrupted'')) (dict_set ''status'' (JStr ''interrupted'') st)"

fun reconcile_stages :: "answers \<Rightarrow> string \<Rightarrow> string list \<Rightarrow> dict \<Rightarrow> dict running" where
  "reconcile_stages an name [] state = liftR (Inr state)"
| "reconcile_stages an name (sid # sids) state =
     (case stage_state state sid of
        None \<Rightarrow> reconcile_stages an name sids state
      | Some st \<Rightarrow>
          if status_is st ''authorized'' then
            bindR (reconcile_authorized_attempt st) (\<lambda>_.
            let state' = set_stage sid (interrupt_stage st) state in
            bindR (write_state an name state') (\<lambda>_. reconcile_stages an name sids state'))
          else reconcile_stages an name sids state)"

definition idempotency_key :: "answers \<Rightarrow> dict \<Rightarrow> string \<Rightarrow> string \<Rightarrow> (runtime_exc, string) result" where
  "idempotency_key an doc run_id sid =
     bindE (tagE RuntimeEvidence (definition_digest (an_sha an) doc)) (\<lambda>h.
       wf_digest an (JObj [(''workflow_digest'', JStr h), (''run_id'', JStr run_id), (''stage_id'', JStr sid)]))"

definition cleanup_stage :: "answers \<Rightarrow> string \<Rightarrow> string \<Rightarrow> dict \<Rightarrow> action_plan \<Rightarrow> string \<Rightarrow> dict \<Rightarrow> dict running" where
  "cleanup_stage an name sid s plan key state =
     (if dict_get (stage_action s) ''cleanup'' = None then liftR (Inr state)
      else bindR (ask (an_cleanup an)) (\<lambda>ok ru.
        let ru' = ru\<lparr>ru_cleaned := ru_cleaned ru @ [(plan, key)]\<rparr> in
        if \<not> ok then (Inl ExecutorError, ru')
        else let state' = update_stage sid (update_last_attempt (dict_set ''cleanup_completed'' (JBool True))) state in
          bindR (write_state an name state') (\<lambda>_. liftR (Inr state')) ru'))"

definition resume_cleanup :: "answers \<Rightarrow> string \<Rightarrow> dict \<Rightarrow> string \<Rightarrow> string \<Rightarrow> dict \<Rightarrow> dict \<Rightarrow> dict \<Rightarrow> dict running" where
  "resume_cleanup an name doc run_id sid s st state =
     (case rev (stage_attempts st) of
        [] \<Rightarrow> liftR (Inr state)
      | a # _ \<Rightarrow>
          let rec = obj_of a in
          if dict_get (stage_action s) ''cleanup'' = None \<or> \<not> status_in rec [''failed'', ''partial'', ''interrupted''] \<or>
             dict_get rec ''cleanup_completed'' = Some (JBool True)
          then liftR (Inr state)
          else (case dict_get rec ''plan'' of
             Some (JObj snapshot) \<Rightarrow>
               bindR (liftR (exceptE ''state_tampering'' (ActionPlan_from_dict (an_validator an) (dict_set ''status'' (JStr ''draft'') snapshot)))) (\<lambda>plan.
               bindR (liftR (idempotency_key an doc run_id sid)) (\<lambda>key. cleanup_stage an name sid s plan key state))
           | _ \<Rightarrow> liftR state_tampered))"

section \<open>One attempt\<close>

definition authorization_for :: "(string \<times> string) list \<Rightarrow> string \<Rightarrow> int \<Rightarrow> string option" where
  "authorization_for authorization_ids sid attempt =
     (case dict_get authorization_ids (sid @ '':'' @ int_text attempt) of
        Some (c # cs) \<Rightarrow> Some (c # cs)
      | _ \<Rightarrow> (if attempt = 1 then (case dict_get authorization_ids sid of Some (c # cs) \<Rightarrow> Some (c # cs) | _ \<Rightarrow> None) else None))"

text \<open>A new attempt: its plan, its authorization and the durable record of both.\<close>

definition plan_attempt ::
  "answers \<Rightarrow> string \<Rightarrow> dict \<Rightarrow> string \<Rightarrow> string \<Rightarrow> dict \<Rightarrow> (string \<times> string) list \<Rightarrow> int \<Rightarrow> dict \<Rightarrow> (string \<times> action_plan \<times> dict) running" where
  "plan_attempt an name doc run_id sid resolved authorization_ids attempt state =
     bindR (ask (an_clock an)) (\<lambda>created_at.
     bindR (liftR (compile_action_plan (an_validator an) doc run_id sid resolved created_at attempt)) (\<lambda>plan.
     case authorization_for authorization_ids sid attempt of
       None \<Rightarrow> liftR (wr_raise ''missing_stage_authorization'')
     | Some aid \<Rightarrow>
         if JStr aid \<in> set (consumed_ids state) then liftR (wr_raise ''replayed_authorization'')
         else
           let attempts = (case stage_state state sid of None \<Rightarrow> [] | Some st \<Rightarrow> stage_attempts st);
               rec = [(''attempt'', JInt attempt), (''authorization_id'', JStr aid), (''plan'', JObj (approved_snapshot True plan)),
                      (''status'', JStr ''planned'')];
               state' = set_stage sid [(''status'', JStr ''planned''), (''attempts'', JList (attempts @ [JObj rec])), (''outputs'', JObj []),
                      (''evidence_refs'', JList [])] state
           in bindR (write_state an name state') (\<lambda>_. liftR (Inr (aid, plan, state')))))"

text \<open>An attempt that was planned before: its saved plan and authorization.\<close>

definition resume_planned :: "answers \<Rightarrow> dict \<Rightarrow> string \<Rightarrow> string \<Rightarrow> dict \<Rightarrow> dict \<Rightarrow> (string \<times> action_plan) running" where
  "resume_planned an doc run_id sid resolved rec =
     (case dict_get rec ''authorization_id'' of
        Some (JStr aid) \<Rightarrow>
          bindR (liftR (validated_attempt_plan (an_validator an) doc run_id sid resolved rec)) (\<lambda>(plan, _). liftR (Inr (aid, plan)))
      | _ \<Rightarrow> liftR (Inl RuntimeType))"

text \<open>The consumption of the approval; a receipt that does not match is released before the error leaves.\<close>

definition consume_approval_for :: "answers \<Rightarrow> string \<Rightarrow> action_plan \<Rightarrow> string \<Rightarrow> receipt_ref running" where
  "consume_approval_for an aid plan worker ru =
     (if dict_get (ru_pending ru) aid \<noteq> None then (wr_raise ''unreconciled_authorization'', ru)
      else bindR (ask (an_consume an)) (\<lambda>consume ru.
        case consume aid plan worker (ru_client ru) of
          (Inl e, cl) \<Rightarrow> (Inl (RuntimeControl e), ru\<lparr>ru_client := cl\<rparr>)
        | (Inr r, cl) \<Rightarrow>
            let ru1 = ru\<lparr>ru_client := cl\<rparr>;
                refuse = (\<lambda>e. bindR (release_provenance r) (\<lambda>_. liftR (Inl e)) ru1)
            in case validate_receipt_provenance cl r of
                 Inl e \<Rightarrow> refuse (RuntimeControl e)
               | Inr _ \<Rightarrow>
                   if \<not> receipt_matches (snd r) aid plan worker
                   then refuse (RuntimeControl (ApprovalControlError ''approval authority receipt does not match the workflow stage plan''))
                   else bindR (retain_receipt aid r) (\<lambda>_. liftR (Inr r)) ru1) ru)"

definition mark_authorized :: "string \<Rightarrow> string \<Rightarrow> control_receipt \<Rightarrow> dict \<Rightarrow> dict" where
  "mark_authorized sid aid r state =
     update_stage sid (\<lambda>st. dict_set ''status'' (JStr ''authorized'')
       (update_last_attempt (\<lambda>rec. dict_set ''status'' (JStr ''authorized'') (dict_set ''receipt'' (JObj (receipt_to_dict r)) rec)) st))
       (dict_set ''consumed_authorizations'' (JList (consumed_ids state @ [JStr aid])) state)"

definition call_executor :: "answers \<Rightarrow> string \<Rightarrow> action_plan \<Rightarrow> receipt_ref \<Rightarrow> string \<Rightarrow> executed running" where
  "call_executor an name plan r key =
     bindR (ask (\<lambda>n. an_execute an n plan r key)) (\<lambda>reply ru.
       (Inr reply, ru\<lparr>ru_executed := ru_executed ru @
          [\<lparr>ex_plan = plan, ex_receipt = r, ex_key = key, ex_client = ru_client ru, ex_durable = dict_get (ru_files ru) name\<rparr>]\<rparr>))"

definition without_stage :: "string \<Rightarrow> dict \<Rightarrow> dict" where
  "without_stage sid stages = filter (\<lambda>(k, _). k \<noteq> sid) stages"

definition check_prospective_budgets :: "dict \<Rightarrow> dict \<Rightarrow> string \<Rightarrow> stage_result \<Rightarrow> (runtime_exc, unit) result" where
  "check_prospective_budgets doc state sid r =
     check_budgets doc (without_stage sid (state_stages state) @
       [(sid, JObj [(''outputs'', JObj (sr_outputs r)), (''evidence_refs'', JList (sr_evidence_refs r))])])"

definition record_result :: "string \<Rightarrow> dict \<Rightarrow> stage_result \<Rightarrow> dict \<Rightarrow> dict" where
  "record_result sid artifact r state =
     update_stage sid (\<lambda>st. dict_set ''evidence_refs'' (JList (sr_evidence_refs r)) (dict_set ''outputs'' (JObj (sr_outputs r))
       (dict_set ''status'' (JStr (sr_status r))
         (update_last_attempt (\<lambda>rec. dict_set ''reason'' (sr_reason r) (dict_set ''artifact'' (JObj artifact)
           (dict_set ''status'' (JStr (sr_status r)) rec))) st)))) state"

text \<open>From the consumed approval to the recorded result.\<close>

definition execute_attempt ::
  "answers \<Rightarrow> string \<Rightarrow> dict \<Rightarrow> string \<Rightarrow> string \<Rightarrow> dict \<Rightarrow> int \<Rightarrow> string \<Rightarrow> action_plan \<Rightarrow> string \<Rightarrow> receipt_ref \<Rightarrow> dict \<Rightarrow>
   (stage_result \<times> dict) running" where
  "execute_attempt an name doc run_id sid s attempt aid plan key r state =
     (let state1 = mark_authorized sid aid (snd r) state in
      bindR (write_state an name state1) (\<lambda>_.
      bindR (call_executor an name plan r key) (\<lambda>reply.
      bindR (liftR (validate_stage_result reply s)) (\<lambda>res.
      bindR (liftR (check_prospective_budgets doc state1 sid res)) (\<lambda>_.
      bindR (persist_artifact an run_id sid attempt res (output_limit s)) (\<lambda>artifact.
      let state2 = record_result sid artifact res state1 in
      bindR (liftR (check_budgets doc (state_stages state2))) (\<lambda>_.
      bindR (write_state an name state2) (\<lambda>_.
      bindR (release_pending_receipt aid) (\<lambda>_.
        liftR (Inr (res, state2)))))))))))"

text \<open>How the loop over attempts goes on: the next attempt, the end of the loop, or the return of the run.\<close>

datatype attempt_flow = NextAttempt dict | StageDone bool dict | RunEnds dict

definition end_run :: "answers \<Rightarrow> string \<Rightarrow> string \<Rightarrow> dict \<Rightarrow> dict running" where
  "end_run an name status state =
     (let state' = dict_set ''status'' (JStr status) state in bindR (write_state an name state') (\<lambda>_. liftR (Inr state')))"

definition prepare_attempt ::
  "answers \<Rightarrow> string \<Rightarrow> dict \<Rightarrow> string \<Rightarrow> string \<Rightarrow> dict \<Rightarrow> (string \<times> string) list \<Rightarrow> dict option \<Rightarrow> int \<Rightarrow> dict \<Rightarrow>
   (string \<times> action_plan \<times> dict) running" where
  "prepare_attempt an name doc run_id sid resolved authorization_ids planned attempt state =
     (case planned of
        Some rec \<Rightarrow>
          if dict_get rec ''attempt'' = Some (JInt attempt)
          then bindR (resume_planned an doc run_id sid resolved rec) (\<lambda>(aid, plan). liftR (Inr (aid, plan, state)))
          else plan_attempt an name doc run_id sid resolved authorization_ids attempt state
      | None \<Rightarrow> plan_attempt an name doc run_id sid resolved authorization_ids attempt state)"

definition conclude_attempt :: "answers \<Rightarrow> string \<Rightarrow> string \<Rightarrow> dict \<Rightarrow> action_plan \<Rightarrow> string \<Rightarrow> stage_result \<times> dict \<Rightarrow> attempt_flow running" where
  "conclude_attempt an name sid s plan key finished = (case finished of (res, state) \<Rightarrow>
     if sr_status res = ''success'' then liftR (Inr (StageDone True state))
     else bindR (cleanup_stage an name sid s plan key state) (\<lambda>state'.
       liftR (Inr (if is_idempotent (stage_action s) then NextAttempt state' else StageDone False state'))))"

definition run_attempt ::
  "answers \<Rightarrow> string \<Rightarrow> dict \<Rightarrow> string \<Rightarrow> string \<Rightarrow> string \<Rightarrow> dict \<Rightarrow> dict \<Rightarrow> (string \<times> string) list \<Rightarrow> dict option \<Rightarrow> int \<Rightarrow> dict \<Rightarrow> attempt_flow running" where
  "run_attempt an name doc run_id worker sid s resolved authorization_ids planned attempt state =
     bindR (ask (an_cancelled an)) (\<lambda>cancelled.
     if cancelled then bindR (end_run an name ''cancelled'' state) (\<lambda>st. liftR (Inr (RunEnds st)))
     else if int (length (consumed_ids state)) \<ge> budget_of doc ''max_total_attempts'' then liftR (wr_raise ''attempt_budget_exhausted'')
     else
       bindR (prepare_attempt an name doc run_id sid resolved authorization_ids planned attempt state) (\<lambda>(aid, plan, state1).
       bindR (liftR (idempotency_key an doc run_id sid)) (\<lambda>key.
       bindR (consume_approval_for an aid plan worker) (\<lambda>r.
       bindR (execute_attempt an name doc run_id sid s attempt aid plan key r state1)
         (conclude_attempt an name sid s plan key)))))"

fun run_attempts ::
  "answers \<Rightarrow> string \<Rightarrow> dict \<Rightarrow> string \<Rightarrow> string \<Rightarrow> string \<Rightarrow> dict \<Rightarrow> dict \<Rightarrow> (string \<times> string) list \<Rightarrow> dict option \<Rightarrow> int list \<Rightarrow> dict \<Rightarrow> attempt_flow running" where
  "run_attempts an name doc run_id worker sid s resolved authorization_ids planned [] state = liftR (Inr (StageDone False state))"
| "run_attempts an name doc run_id worker sid s resolved authorization_ids planned (n # ns) state =
     bindR (run_attempt an name doc run_id worker sid s resolved authorization_ids planned n state) (\<lambda>flow.
       case flow of
         NextAttempt state' \<Rightarrow> run_attempts an name doc run_id worker sid s resolved authorization_ids None ns state'
       | _ \<Rightarrow> liftR (Inr flow))"

section \<open>One stage, and the run\<close>

datatype stage_flow = NextStage dict | Returned dict

definition run_ready_stage ::
  "answers \<Rightarrow> string \<Rightarrow> dict \<Rightarrow> string \<Rightarrow> string \<Rightarrow> dict \<Rightarrow> (string \<times> string) list \<Rightarrow> string \<Rightarrow> dict \<Rightarrow> dict option \<Rightarrow> dict \<Rightarrow> stage_flow running" where
  "run_ready_stage an name doc run_id worker inputs authorization_ids sid s existing state =
     bindR (liftR (resolve_bindings (stage_inputs s) inputs state)) (\<lambda>resolved.
     let attempts = (case existing of None \<Rightarrow> [] | Some st \<Rightarrow> stage_attempts st);
         planned = (case existing of
             Some st \<Rightarrow> (if status_is st ''planned'' then (case rev attempts of a # _ \<Rightarrow> Some (obj_of a) | [] \<Rightarrow> None) else None)
           | None \<Rightarrow> None);
         start = (case planned of
             Some rec \<Rightarrow> (case dict_get rec ''attempt'' of Some (JInt n) \<Rightarrow> n | _ \<Rightarrow> 0)
           | None \<Rightarrow> int (length attempts) + 1)
     in bindR (run_attempts an name doc run_id worker sid s resolved authorization_ids planned [start..max_attempts s] state) (\<lambda>flow.
       case flow of
         RunEnds st \<Rightarrow> liftR (Inr (Returned st))
       | StageDone True st \<Rightarrow> liftR (Inr (NextStage st))
       | StageDone False st \<Rightarrow> bindR (end_run an name ''partial_failure'' st) (\<lambda>st'. liftR (Inr (Returned st')))
       | NextAttempt st \<Rightarrow> bindR (end_run an name ''partial_failure'' st) (\<lambda>st'. liftR (Inr (Returned st')))))"

definition dependencies_met :: "dict \<Rightarrow> dict \<Rightarrow> bool" where
  "dependencies_met s state =
     list_all (\<lambda>d. case stage_state state d of None \<Rightarrow> False | Some st \<Rightarrow> status_is st ''success'') (depends_on s)"

definition skipped_stage :: dict where
  "skipped_stage = [(''status'', JStr ''skipped''), (''attempts'', JList []), (''outputs'', JObj []), (''evidence_refs'', JList [])]"

definition run_stage ::
  "answers \<Rightarrow> string \<Rightarrow> dict \<Rightarrow> string \<Rightarrow> string \<Rightarrow> dict \<Rightarrow> (string \<times> string) list \<Rightarrow> string \<Rightarrow> dict \<Rightarrow> stage_flow running" where
  "run_stage an name doc run_id worker inputs authorization_ids sid state =
     (case dict_get (definition_stages doc) sid of
        None \<Rightarrow> liftR (Inl RuntimeType)
      | Some s \<Rightarrow>
          let existing = stage_state state sid in
          if (case existing of None \<Rightarrow> False | Some st \<Rightarrow> status_in st [''success'', ''skipped'']) then liftR (Inr (NextStage state))
          else bindR (case existing of None \<Rightarrow> liftR (Inr state) | Some st \<Rightarrow> resume_cleanup an name doc run_id sid s st state) (\<lambda>state1.
            let existing1 = stage_state state1 sid;
                finish = (\<lambda>status. bindR (end_run an name status state1) (\<lambda>st. liftR (Inr (Returned st))))
            in bindR (ask (an_cancelled an)) (\<lambda>cancelled.
              if cancelled then finish ''cancelled''
              else if (case existing1 of None \<Rightarrow> False | Some st \<Rightarrow> status_in st [''failed'', ''partial'', ''interrupted'']) \<and>
                      \<not> is_idempotent (stage_action s) then finish ''partial_failure''
              else if \<not> dependencies_met s state1 then finish ''partial_failure''
              else bindR (liftR (condition_matches (stage_condition s) inputs state1)) (\<lambda>runs.
                if \<not> runs then
                  let state2 = set_stage sid skipped_stage state1 in
                  bindR (write_state an name state2) (\<lambda>_. liftR (Inr (NextStage state2)))
                else run_ready_stage an name doc run_id worker inputs authorization_ids sid s existing1 state1))))"

fun run_stages ::
  "answers \<Rightarrow> string \<Rightarrow> dict \<Rightarrow> string \<Rightarrow> string \<Rightarrow> dict \<Rightarrow> (string \<times> string) list \<Rightarrow> string list \<Rightarrow> dict \<Rightarrow> dict running" where
  "run_stages an name doc run_id worker inputs authorization_ids [] state = end_run an name ''success'' state"
| "run_stages an name doc run_id worker inputs authorization_ids (sid # sids) state =
     bindR (run_stage an name doc run_id worker inputs authorization_ids sid state) (\<lambda>flow.
       case flow of
         Returned st \<Rightarrow> liftR (Inr st)
       | NextStage st \<Rightarrow> run_stages an name doc run_id worker inputs authorization_ids sids st)"

record run_outcome =
  wo_run_id :: json
  wo_status :: json
  wo_outputs :: dict
  wo_stages :: dict

definition run_result_of :: "dict \<Rightarrow> dict \<Rightarrow> (runtime_exc, run_outcome) result" where
  "run_result_of doc state =
     bindE (if get_or_none state ''status'' = JStr ''success''
            then mapE (\<lambda>(k, spec). bindE (resolve_source (get_or_none (obj_of spec) ''source'') [] state) (\<lambda>v. Inr (k, v))) (definition_outputs doc)
            else Inr []) (\<lambda>outputs.
       Inr \<lparr>wo_run_id = get_or_none state ''run_id'', wo_status = get_or_none state ''status'', wo_outputs = outputs,
         wo_stages = state_stages state\<rparr>)"

definition state_file :: "answers \<Rightarrow> string \<Rightarrow> (runtime_exc, string) result" where
  "state_file an run_id =
     bindE (wf_digest an (JObj [(''run_id'', JStr run_id)])) (\<lambda>h. Inr (''run-'' @ take 32 h @ ''.json''))"

definition run_loaded :: "answers \<Rightarrow> string \<Rightarrow> dict \<Rightarrow> string \<Rightarrow> string \<Rightarrow> dict \<Rightarrow> (string \<times> string) list \<Rightarrow> dict \<Rightarrow> run_outcome running" where
  "run_loaded an name doc run_id worker inputs authorization_ids state =
     bindR (reconcile_stages an name (map fst (state_stages state)) state) (\<lambda>state1.
     bindR (liftR (case topological_order (definition_stages doc) of None \<Rightarrow> Inl RuntimeType | Some order \<Rightarrow> Inr order)) (\<lambda>order.
     bindR (run_stages an name doc run_id worker inputs authorization_ids order state1) (\<lambda>state2.
       liftR (run_result_of doc state2))))"

definition run_workflow :: "answers \<Rightarrow> dict \<Rightarrow> string \<Rightarrow> json \<Rightarrow> (string \<times> string) list \<Rightarrow> string \<Rightarrow> run_outcome running" where
  "run_workflow an doc run_id inputs authorization_ids worker =
     bindR (liftR (tagE RuntimeWorkflow (validate_inputs doc inputs))) (\<lambda>given.
     bindR (liftR (tagE RuntimeControl (an_ready an))) (\<lambda>_.
     bindR (liftR (if an_mkdir an then Inr () else Inl RuntimeIO)) (\<lambda>_.
     bindR (liftR (state_file an run_id)) (\<lambda>name.
     bindR (load_or_create_state an name doc run_id given worker) (\<lambda>state.
       run_loaded an name doc run_id worker given authorization_ids state)))))"

end
