(* ===== verification/Workflow_Run_Props.thy ===== *)
theory Workflow_Run_Props
  imports Workflow_Run Canonical_Size
begin

text \<open>
  What a run of a workflow may ask of the executor. The facts are about the log of a run: a method extends the
  log by executions that satisfy a predicate, and methods compose by \<open>bindR\<close>. The predicate of the main theorem
  ties an execution to a consumed approval and to what is already on disk.
\<close>

section \<open>Reading and writing the state document\<close>

lemma state_stages_set [simp]: "state_stages (dict_set ''stages'' (JObj d) state) = d"
  by (simp add: state_stages_def get_or_none_def dict_get_set obj_of_def)

lemma state_stages_other [simp]: "k \<noteq> ''stages'' \<Longrightarrow> state_stages (dict_set k v state) = state_stages state"
  by (simp add: state_stages_def get_or_none_def dict_get_set)

lemma stage_state_set_stage: "stage_state (set_stage sid st state) i = (if i = sid then Some st else stage_state state i)"
  by (simp add: stage_state_def set_stage_def dict_get_set obj_of_def)

lemma consumed_set_stage [simp]: "consumed_ids (set_stage sid st state) = consumed_ids state"
  by (simp add: consumed_ids_def set_stage_def get_or_none_def dict_get_set)

lemma consumed_update_stage [simp]: "consumed_ids (update_stage sid f state) = consumed_ids state"
  by (simp add: update_stage_def split: option.splits)

lemma stage_state_consumed [simp]: "stage_state (dict_set ''consumed_authorizations'' v state) i = stage_state state i"
  by (simp add: stage_state_def)

lemma stage_state_update_stage:
  "stage_state (update_stage sid f state) sid = map_option f (stage_state state sid)"
  by (auto simp: update_stage_def stage_state_set_stage split: option.splits)

lemma consumed_mark_authorized: "consumed_ids (mark_authorized sid aid r state) = consumed_ids state @ [JStr aid]"
  by (simp add: mark_authorized_def) (simp add: consumed_ids_def get_or_none_def dict_get_set)

text \<open>A stage that waits for the result of the attempt with this receipt.\<close>

definition awaits_result :: "dict \<Rightarrow> string \<Rightarrow> control_receipt \<Rightarrow> bool" where
  "awaits_result state sid r \<longleftrightarrow>
     (case stage_state state sid of
        None \<Rightarrow> False
      | Some st \<Rightarrow> status_is st ''authorized'' \<and>
          (case rev (stage_attempts st) of
             [] \<Rightarrow> False
           | a # _ \<Rightarrow> status_is (obj_of a) ''authorized'' \<and> dict_get (obj_of a) ''receipt'' = Some (JObj (receipt_to_dict r))))"

definition has_attempt :: "dict \<Rightarrow> string \<Rightarrow> bool" where
  "has_attempt state sid \<longleftrightarrow> (case stage_state state sid of None \<Rightarrow> False | Some st \<Rightarrow> stage_attempts st \<noteq> [])"

lemma attempts_other [simp]: "k \<noteq> ''attempts'' \<Longrightarrow> stage_attempts (dict_set k v st) = stage_attempts st"
  by (simp add: stage_attempts_def get_or_none_def dict_get_set)

lemma attempts_set [simp]: "stage_attempts (dict_set ''attempts'' (JList vs) st) = vs"
  by (simp add: stage_attempts_def get_or_none_def dict_get_set)

lemma status_set [simp]: "status_is (dict_set ''status'' (JStr s) d) t \<longleftrightarrow> s = t"
  by (simp add: status_is_def get_or_none_def dict_get_set)

lemma mark_authorized_awaits:
  assumes "has_attempt state sid"
  shows "awaits_result (mark_authorized sid aid r state) sid r"
proof -
  from assms obtain st where st: "stage_state state sid = Some st" "stage_attempts st \<noteq> []"
    by (auto simp: has_attempt_def split: option.splits)
  then obtain a older where "rev (stage_attempts st) = a # older" by (cases "rev (stage_attempts st)") auto
  with st(1) show ?thesis
    by (simp add: awaits_result_def mark_authorized_def stage_state_update_stage update_last_attempt_def obj_of_def dict_get_set)
qed

section \<open>Relations that the methods keep\<close>

definition keeps :: "(runner \<Rightarrow> runner \<Rightarrow> bool) \<Rightarrow> 'a running \<Rightarrow> bool" where
  "keeps later m \<longleftrightarrow> (\<forall>ru. later ru (snd (m ru)))"

lemma keepsI: "(\<And>ru. later ru (snd (m ru))) \<Longrightarrow> keeps later m"
  by (simp add: keeps_def)

lemma keeps_at: "keeps later m \<Longrightarrow> later ru (snd (m ru))"
  by (simp add: keeps_def)

lemma keepsD: "keeps later m \<Longrightarrow> m ru = (x, ru') \<Longrightarrow> later ru ru'"
  by (metis keeps_def snd_conv)

lemma bindR_cases:
  "bindR m f ru = (x, ru') \<Longrightarrow>
   (\<exists>e. m ru = (Inl e, ru') \<and> x = Inl e) \<or> (\<exists>a ru1. m ru = (Inr a, ru1) \<and> f a ru1 = (x, ru'))"
  by (auto simp: bindR_def split: prod.splits sum.splits)

text \<open>The contract of a method that neither retains a receipt nor calls the executor: what is kept when counters, files and the
  client change and when retained receipts are dropped.\<close>

locale run_relation =
  fixes later :: "runner \<Rightarrow> runner \<Rightarrow> bool"
  assumes later_refl: "later ru ru"
    and later_trans: "later ru ru1 \<Longrightarrow> later ru1 ru2 \<Longrightarrow> later ru ru2"
    and later_calls: "later ru (ru\<lparr>ru_calls := n\<rparr>)"
    and later_files: "later ru (ru\<lparr>ru_files := fs\<rparr>)"
    and later_client: "later ru (ru\<lparr>ru_client := cl\<rparr>)"
    and later_dropped: "later ru (ru\<lparr>ru_pending := filter P (ru_pending ru)\<rparr>)"
begin

lemma later_bind:
  assumes "later ru (snd (m ru))" "\<And>a ru'. m ru = (Inr a, ru') \<Longrightarrow> later ru' (snd (f a ru'))"
  shows "later ru (snd (bindR m f ru))"
proof (cases "m ru")
  case (Pair x ru')
  then show ?thesis using assms by (cases x) (auto simp: bindR_def intro: later_trans)
qed

lemma keeps_bind_post:
  "keeps later m \<Longrightarrow> (\<And>a ru ru'. m ru = (Inr a, ru') \<Longrightarrow> later ru' (snd (f a ru'))) \<Longrightarrow> keeps later (bindR m f)"
  by (simp add: keeps_def later_bind)

lemma keeps_bind: "keeps later m \<Longrightarrow> (\<And>a. keeps later (f a)) \<Longrightarrow> keeps later (bindR m f)"
  by (rule keeps_bind_post) (auto simp: keeps_def)

lemma keeps_lift: "keeps later (liftR r)"
  by (simp add: keeps_def liftR_def later_refl)

lemma keeps_ask: "keeps later (ask f)"
  by (simp add: keeps_def ask_def later_calls)

lemma keeps_put_file: "keeps later (put_file name bytes)"
  by (simp add: keeps_def put_file_def later_files)

lemma keeps_write_state: "keeps later (write_state an name state)"
  unfolding write_state_def by (intro keeps_bind keeps_lift keeps_ask) (simp add: keeps_put_file keeps_lift)

lemma keeps_end_run: "keeps later (end_run an name status state)"
  unfolding end_run_def Let_def by (intro keeps_bind keeps_lift keeps_write_state)

lemma keeps_create_artifact: "keeps later (create_artifact an name encoded)"
proof (rule keepsI)
  fix ru
  have "keeps later (bindR (ask (an_artifact an)) (\<lambda>stopped. case stopped of None \<Rightarrow> put_file name encoded
      | Some n \<Rightarrow> bindR (put_file name (take n encoded)) (\<lambda>_. liftR (Inl RuntimeIO))))"
    by (intro keeps_bind keeps_ask) (simp split: option.split add: keeps_put_file keeps_lift keeps_bind)
  then show "later ru (snd (create_artifact an name encoded ru))"
    by (simp add: create_artifact_def later_refl keeps_def split: option.split)
qed

lemma keeps_persist_artifact: "keeps later (persist_artifact an run_id sid attempt r limit)"
  unfolding persist_artifact_def Let_def by (intro keeps_bind keeps_lift keeps_create_artifact)

lemma keeps_release_provenance: "keeps later (release_provenance r)"
  by (simp add: keeps_def release_provenance_def later_client split: prod.split)

lemma keeps_drop: "keeps later (\<lambda>ru. (x, ru\<lparr>ru_pending := filter P (ru_pending ru)\<rparr>))"
  by (simp add: keeps_def later_dropped)

lemma keeps_release_pending: "keeps later (release_pending_receipt aid)"
proof (rule keepsI)
  fix ru
  have "keeps later (bindR (release_provenance r) (\<lambda>_ ru'. (Inr (), ru'\<lparr>ru_pending := filter (\<lambda>(k, _). k \<noteq> aid) (ru_pending ru')\<rparr>)))" for r
    by (intro keeps_bind keeps_release_provenance keeps_drop)
  then show "later ru (snd (release_pending_receipt aid ru))"
    by (simp add: release_pending_receipt_def later_refl keeps_def split: option.split)
qed

lemma keeps_reconcile_attempt: "keeps later (reconcile_authorized_attempt st)"
proof (rule keepsI)
  fix ru
  show "later ru (snd (reconcile_authorized_attempt st ru))"
    using keeps_release_pending
    by (auto simp: reconcile_authorized_attempt_def bindR_def liftR_def later_refl keeps_def split: list.split option.split sum.split prod.split)
qed

lemma keeps_reconcile: "keeps later (reconcile_stages an name sids state)"
proof (induction sids arbitrary: state)
  case (Cons sid sids)
  show ?case
    by (cases "stage_state state sid")
      (simp_all add: Cons Let_def keeps_bind keeps_reconcile_attempt keeps_write_state)
qed (simp add: keeps_lift)

lemma keeps_load: "keeps later (load_or_create_state an name doc run_id inputs worker)"
proof (rule keepsI)
  fix ru
  have "keeps later (bindR (liftR (tagE RuntimeEvidence (definition_digest (an_sha an) doc))) (\<lambda>h.
      bindR (liftR (wf_digest an (JObj inputs))) (\<lambda>hi.
      let state = initial_state run_id h hi in bindR (write_state an name state) (\<lambda>_. liftR (Inr state)))))"
    unfolding Let_def by (intro keeps_bind keeps_lift keeps_write_state)
  then show "later ru (snd (load_or_create_state an name doc run_id inputs worker ru))"
    by (simp add: load_or_create_state_def later_refl keeps_def split: option.split)
qed

end

section \<open>The log of a run\<close>

definition executed_properly :: "answers \<Rightarrow> dict \<Rightarrow> string \<Rightarrow> execution \<Rightarrow> bool" where
  "executed_properly an doc worker e \<longleftrightarrow>
     (let r = snd (ex_receipt e) in
      receipt_matches r (re_authorization_id r) (ex_plan e) worker \<and>
      is_ok (validate_receipt_provenance (ex_client e) (ex_receipt e)) \<and>
      (\<exists>state sid bytes. state_envelope (an_sha an) state = Inr bytes \<and> ex_durable e = Some bytes \<and> awaits_result state sid r \<and>
         JStr (re_authorization_id r) \<in> set (consumed_ids state) \<and>
         int (length (consumed_ids state)) \<le> budget_of doc ''max_total_attempts''))"

definition more_executions :: "(execution \<Rightarrow> bool) \<Rightarrow> runner \<Rightarrow> runner \<Rightarrow> bool" where
  "more_executions good ru ru' \<longleftrightarrow> (\<exists>new. ru_executed ru' = ru_executed ru @ new \<and> list_all good new)"

lemma no_execution: "ru_executed ru' = ru_executed ru \<Longrightarrow> more_executions good ru ru'"
  by (simp add: more_executions_def)

interpretation executions: run_relation "more_executions good" for good
proof unfold_locales
  show "more_executions good ru ru2" if "more_executions good ru ru1" "more_executions good ru1 ru2" for ru ru1 ru2
    using that by (force simp: more_executions_def)
qed (simp_all add: no_execution)

lemma keeps_no_execution: "(\<And>ru. ru_executed (snd (m ru)) = ru_executed ru) \<Longrightarrow> keeps (more_executions good) m"
  by (simp add: keeps_def no_execution)

lemma write_state_facts:
  assumes "write_state an name state ru = (Inr (), ru')"
  obtains bytes where "state_envelope (an_sha an) state = Inr bytes" "dict_get (ru_files ru') name = Some bytes"
    "ru_client ru' = ru_client ru" "ru_executed ru' = ru_executed ru"
  using assms
  by (auto simp: write_state_def bindR_def liftR_def ask_def put_file_def dict_get_set split: sum.splits if_splits)

lemma consume_facts:
  assumes "consume_approval_for an aid plan worker ru = (Inr r, ru')"
  shows "receipt_matches (snd r) aid plan worker" "is_ok (validate_receipt_provenance (ru_client ru') r)"
  using assms
  by (auto simp: consume_approval_for_def bindR_def liftR_def ask_def Let_def retain_receipt_def split: sum.splits if_splits prod.splits)

lemma keeps_retain: "keeps (more_executions good) (retain_receipt aid r)"
  by (rule keeps_no_execution) (simp add: retain_receipt_def)

lemma keeps_consume: "keeps (more_executions good) (consume_approval_for an aid plan worker)"
  by (rule keeps_no_execution)
    (auto simp: consume_approval_for_def bindR_def liftR_def ask_def Let_def retain_receipt_def release_provenance_def
      split: sum.splits if_splits prod.splits)

lemma keeps_cleanup: "keeps (more_executions good) (cleanup_stage an name sid s plan key state)"
proof (rule keepsI)
  fix ru
  have w: "keeps (more_executions good) (bindR (write_state an name st) (\<lambda>_. liftR (Inr st)))" for st
    by (intro executions.keeps_bind executions.keeps_write_state executions.keeps_lift)
  have e: "more_executions good (ru\<lparr>ru_calls := n, ru_cleaned := c\<rparr>) ru' \<Longrightarrow> more_executions good ru ru'" for n c ru'
    by (simp add: more_executions_def)
  show "more_executions good ru (snd (cleanup_stage an name sid s plan key state ru))"
    using w by (auto simp: cleanup_stage_def bindR_def [of "ask f" for f] ask_def liftR_def Let_def keeps_def no_execution intro: e)
qed

lemma execute_attempt_logs:
  assumes r: "receipt_matches (snd r) aid plan worker" "is_ok (validate_receipt_provenance (ru_client ru) r)"
    and state: "has_attempt state sid" "int (length (consumed_ids state)) < budget_of doc ''max_total_attempts''"
  shows "more_executions (executed_properly an doc worker) ru (snd (execute_attempt an name doc run_id sid s attempt aid plan key r state ru))"
proof -
  let ?state = "mark_authorized sid aid (snd r) state"
  have logged: "more_executions (executed_properly an doc worker) ru1 (snd (call_executor an name plan r key ru1))"
    if w: "write_state an name ?state ru = (Inr u, ru1)" for u ru1
  proof -
    have w': "write_state an name ?state ru = (Inr (), ru1)" using w by simp
    obtain bytes where b: "state_envelope (an_sha an) ?state = Inr bytes" "dict_get (ru_files ru1) name = Some bytes"
        "ru_client ru1 = ru_client ru" using write_state_facts [OF w'] by metis
    have "re_authorization_id (snd r) = aid" using r(1) by (simp add: receipt_matches_def)
    then have "executed_properly an doc worker
        \<lparr>ex_plan = plan, ex_receipt = r, ex_key = key, ex_client = ru_client ru1, ex_durable = Some bytes\<rparr>"
      using r b state mark_authorized_awaits [OF state(1), of aid "snd r"]
      by (auto simp: executed_properly_def Let_def consumed_mark_authorized)
    then show ?thesis by (simp add: call_executor_def bindR_def ask_def more_executions_def b(2))
  qed
  show ?thesis unfolding execute_attempt_def Let_def
  proof (rule executions.later_bind, goal_cases)
    case 1
    show ?case by (rule keeps_at [OF executions.keeps_write_state])
  next
    case (2 u ru1)
    show ?case
    proof (rule executions.later_bind, goal_cases)
      case 1
      show ?case by (rule logged [OF 2])
    next
      case (2 reply ru2)
      have "keeps (more_executions (executed_properly an doc worker)) (bindR (liftR (validate_stage_result reply s)) (\<lambda>res.
          bindR (liftR (check_prospective_budgets doc ?state sid res)) (\<lambda>_.
          bindR (persist_artifact an run_id sid attempt res (output_limit s)) (\<lambda>artifact.
          bindR (liftR (check_budgets doc (state_stages (record_result sid artifact res ?state)))) (\<lambda>_.
          bindR (write_state an name (record_result sid artifact res ?state)) (\<lambda>_.
          bindR (release_pending_receipt aid) (\<lambda>_. liftR (Inr (res, record_result sid artifact res ?state)))))))))"
        by (intro executions.keeps_bind executions.keeps_lift executions.keeps_persist_artifact executions.keeps_write_state
            executions.keeps_release_pending)
      then show ?case by (simp add: keeps_def)
    qed
  qed
qed

section \<open>Attempts, stages, runs\<close>

lemma keeps_plan_attempt: "keeps (more_executions good) (plan_attempt an name doc run_id sid resolved authorization_ids attempt state)"
  unfolding plan_attempt_def Let_def
  by (intro executions.keeps_bind executions.keeps_lift executions.keeps_ask)
    (simp split: option.split add: executions.keeps_lift executions.keeps_bind executions.keeps_write_state)

lemma keeps_prepared: "keeps (more_executions good) (prepare_attempt an name doc run_id sid resolved authorization_ids planned attempt state)"
  by (auto simp: prepare_attempt_def resume_planned_def keeps_plan_attempt split: option.split json.split prod.split
      intro!: executions.keeps_bind executions.keeps_lift)

lemma plan_attempt_facts:
  assumes "plan_attempt an name doc run_id sid resolved authorization_ids attempt state ru = (Inr (aid, plan, state'), ru')"
  shows "has_attempt state' sid" "consumed_ids state' = consumed_ids state"
  using assms
  by (auto simp: plan_attempt_def bindR_def liftR_def ask_def Let_def has_attempt_def stage_state_set_stage stage_attempts_def get_or_none_def
      split: sum.splits option.splits if_splits prod.splits)

lemma prepared_facts:
  assumes "prepare_attempt an name doc run_id sid resolved authorization_ids planned attempt state ru = (Inr (aid, plan, state'), ru')"
    and "planned \<noteq> None \<Longrightarrow> has_attempt state sid"
  shows "has_attempt state' sid" "consumed_ids state' = consumed_ids state"
proof -
  consider "plan_attempt an name doc run_id sid resolved authorization_ids attempt state ru = (Inr (aid, plan, state'), ru')"
    | "planned \<noteq> None" "state' = state"
    using assms(1)
    by (auto simp: prepare_attempt_def resume_planned_def bindR_def liftR_def split: option.splits if_splits json.splits sum.splits prod.splits)
  then have "has_attempt state' sid \<and> consumed_ids state' = consumed_ids state"
  proof cases
    case 1
    then show ?thesis using plan_attempt_facts [OF 1] by simp
  next
    case 2
    then show ?thesis using assms(2) by simp
  qed
  then show "has_attempt state' sid" "consumed_ids state' = consumed_ids state" by simp_all
qed

lemma keeps_conclude: "keeps (more_executions good) (conclude_attempt an name sid s plan key x)"
  by (cases x) (simp add: conclude_attempt_def executions.keeps_lift executions.keeps_bind keeps_cleanup)

lemma consume_execute_logs:
  assumes "has_attempt state sid" "int (length (consumed_ids state)) < budget_of doc ''max_total_attempts''"
  shows "keeps (more_executions (executed_properly an doc worker)) (bindR (consume_approval_for an aid plan worker) (\<lambda>r.
    bindR (execute_attempt an name doc run_id sid s attempt aid plan key r state) (conclude_attempt an name sid s plan key)))"
proof (rule executions.keeps_bind_post [OF keeps_consume])
  fix r ru ru'
  assume "consume_approval_for an aid plan worker ru = (Inr r, ru')"
  note executed = execute_attempt_logs [OF consume_facts [OF this] assms]
  show "more_executions (executed_properly an doc worker) ru'
      (snd (bindR (execute_attempt an name doc run_id sid s attempt aid plan key r state) (conclude_attempt an name sid s plan key) ru'))"
    by (rule executions.later_bind) (rule executed keeps_at [OF keeps_conclude])+
qed

lemma run_attempt_logs:
  assumes "planned \<noteq> None \<Longrightarrow> has_attempt state sid"
  shows "keeps (more_executions (executed_properly an doc worker))
    (run_attempt an name doc run_id worker sid s resolved authorization_ids planned attempt state)"
proof -
  have prepared: "keeps (more_executions (executed_properly an doc worker))
      (bindR (prepare_attempt an name doc run_id sid resolved authorization_ids planned attempt state) (\<lambda>(aid, plan, state1).
        bindR (liftR (idempotency_key an doc run_id sid)) (\<lambda>key.
        bindR (consume_approval_for an aid plan worker) (\<lambda>r.
        bindR (execute_attempt an name doc run_id sid s attempt aid plan key r state1) (conclude_attempt an name sid s plan key)))))"
    if b: "int (length (consumed_ids state)) < budget_of doc ''max_total_attempts''"
  proof (rule executions.keeps_bind_post [OF keeps_prepared])
    fix x ru ru'
    assume p: "prepare_attempt an name doc run_id sid resolved authorization_ids planned attempt state ru = (Inr x, ru')"
    obtain aid plan state1 where x: "x = (aid, plan, state1)" by (cases x)
    note f = prepared_facts [OF p [unfolded x] assms]
    show "more_executions (executed_properly an doc worker) ru' (snd ((case x of (aid, plan, state1) \<Rightarrow>
        bindR (liftR (idempotency_key an doc run_id sid)) (\<lambda>key.
        bindR (consume_approval_for an aid plan worker) (\<lambda>r.
        bindR (execute_attempt an name doc run_id sid s attempt aid plan key r state1) (conclude_attempt an name sid s plan key)))) ru'))"
      unfolding x prod.case
      by (rule keeps_at, intro executions.keeps_bind executions.keeps_lift consume_execute_logs) (use f b in simp_all)
  qed
  show ?thesis
    unfolding run_attempt_def
    by (intro executions.keeps_bind executions.keeps_ask)
      (auto intro: prepared executions.keeps_lift executions.keeps_end_run executions.keeps_bind)
qed

lemma run_attempts_logs:
  "(planned \<noteq> None \<Longrightarrow> has_attempt state sid) \<Longrightarrow> keeps (more_executions (executed_properly an doc worker))
    (run_attempts an name doc run_id worker sid s resolved authorization_ids planned ns state)"
proof (induction ns arbitrary: planned state)
  case (Cons n ns)
  have "keeps (more_executions (executed_properly an doc worker))
      (case flow of NextAttempt state' \<Rightarrow> run_attempts an name doc run_id worker sid s resolved authorization_ids None ns state'
        | _ \<Rightarrow> liftR (Inr flow))" for flow
    using Cons.IH [of None] by (cases flow) (simp_all add: executions.keeps_lift)
  then show ?case using run_attempt_logs [OF Cons.prems] by (simp add: executions.keeps_bind)
qed (simp add: executions.keeps_lift)

lemma run_ready_stage_logs:
  assumes "existing = stage_state state sid"
  shows "keeps (more_executions (executed_properly an doc worker))
    (run_ready_stage an name doc run_id worker inputs authorization_ids sid s existing state)"
proof -
  let ?planned = "case existing of
      Some st \<Rightarrow> (if status_is st ''planned'' then (case rev (stage_attempts st) of a # _ \<Rightarrow> Some (obj_of a) | [] \<Rightarrow> None) else None)
    | None \<Rightarrow> None"
  have "has_attempt state sid" if "?planned \<noteq> None"
    using that by (auto simp: assms has_attempt_def split: option.splits if_splits)
  note attempts = run_attempts_logs [OF this]
  show ?thesis
    unfolding run_ready_stage_def Let_def
    by (intro executions.keeps_bind executions.keeps_lift)
      (auto intro!: executions.keeps_bind executions.keeps_lift executions.keeps_end_run attempts
        split: attempt_flow.splits bool.splits option.splits if_splits list.splits)
qed

lemma keeps_resume_cleanup: "keeps (more_executions good) (resume_cleanup an name doc run_id sid s st state)"
  by (auto simp: resume_cleanup_def Let_def split: list.split option.split json.split
      intro!: executions.keeps_bind executions.keeps_lift keeps_cleanup)

lemma run_stage_logs:
  "keeps (more_executions (executed_properly an doc worker)) (run_stage an name doc run_id worker inputs authorization_ids sid state)"
  unfolding run_stage_def Let_def
  by (auto split: option.split intro!: executions.keeps_bind executions.keeps_lift executions.keeps_ask executions.keeps_end_run
      executions.keeps_write_state run_ready_stage_logs keeps_resume_cleanup)

lemma run_stages_logs:
  "keeps (more_executions (executed_properly an doc worker)) (run_stages an name doc run_id worker inputs authorization_ids sids state)"
proof (induction sids arbitrary: state)
  case (Cons sid sids)
  have "keeps (more_executions (executed_properly an doc worker)) (case flow of
      Returned st \<Rightarrow> liftR (Inr st) | NextStage st \<Rightarrow> run_stages an name doc run_id worker inputs authorization_ids sids st)" for flow
    using Cons.IH by (cases flow) (simp_all add: executions.keeps_lift)
  then show ?case using run_stage_logs by (simp add: executions.keeps_bind)
qed (simp add: executions.keeps_end_run)

lemma run_loaded_logs:
  "keeps (more_executions (executed_properly an doc worker)) (run_loaded an name doc run_id worker inputs authorization_ids state)"
  unfolding run_loaded_def
  by (intro executions.keeps_bind executions.keeps_lift executions.keeps_reconcile run_stages_logs)

text \<open>
  C9. Nothing is executed without a matching, consumed approval that is already on disk. Whatever the approval
  authority, the executor, the clock and the disk answer, each call of the executor that a run makes has a receipt
  for exactly that plan and this worker, issued by this client and not released; and at that moment the state file of the
  run holds the tamper-evident form of a state that lists the authorization as consumed, shows the stage
  as awaiting this very receipt, and counts no more consumed authorizations than the attempt budget. So a stop
  at any later point finds the attempt on disk.
\<close>

theorem execution_needs_durable_approval:
  "\<exists>new. ru_executed (snd (run_workflow an doc run_id inputs authorization_ids worker ru)) = ru_executed ru @ new \<and>
     list_all (executed_properly an doc worker) new"
proof -
  have "keeps (more_executions (executed_properly an doc worker)) (run_workflow an doc run_id inputs authorization_ids worker)"
    unfolding run_workflow_def by (intro executions.keeps_bind executions.keeps_lift executions.keeps_load run_loaded_logs)
  from keeps_at [OF this, of ru] show ?thesis by (simp add: more_executions_def)
qed

section \<open>Resuming after a stop\<close>

definition quiet :: "runner \<Rightarrow> runner \<Rightarrow> bool" where
  "quiet ru ru' \<longleftrightarrow> ru_executed ru' = ru_executed ru \<and> ru_cleaned ru' = ru_cleaned ru \<and> set (ru_pending ru') \<subseteq> set (ru_pending ru)"

interpretation quiet_steps: run_relation quiet
  by unfold_locales (auto simp: quiet_def)

definition retained :: "runner \<Rightarrow> control_receipt \<Rightarrow> bool" where
  "retained ru r \<longleftrightarrow> (\<exists>i. (re_authorization_id r, i, r) \<in> set (ru_pending ru))"

lemma retained_before: "quiet ru ru' \<Longrightarrow> retained ru' r \<Longrightarrow> retained ru r"
  by (auto simp: quiet_def retained_def)

text \<open>The receipt that the last attempt of a stage records.\<close>

definition last_receipt :: "dict \<Rightarrow> (runtime_exc, control_receipt) result" where
  "last_receipt st = (case rev (stage_attempts st) of [] \<Rightarrow> Inl RuntimeType | a # _ \<Rightarrow> receipt_from_record (obj_of a))"

lemma reconciled_attempt:
  assumes "reconcile_authorized_attempt st ru = (Inr u, ru')"
  shows "\<exists>r. last_receipt st = Inr r \<and> retained ru r"
  using assms
  by (auto simp: reconcile_authorized_attempt_def last_receipt_def retained_def bindR_def liftR_def dict_get_def
      split: list.splits sum.splits option.splits if_splits prod.splits dest!: map_of_SomeD)

lemma reconciled_stages:
  assumes "reconcile_stages an name sids state ru = (Inr state', ru')" "stage_state state sid = Some st" "sid \<in> set sids"
    "status_is st ''authorized''"
  shows "\<exists>r. last_receipt st = Inr r \<and> retained ru r"
  using assms
proof (induction sids arbitrary: state ru)
  case (Cons i sids)
  consider (unchanged) "reconcile_stages an name sids state ru = (Inr state', ru')" "sid \<in> set sids"
    | (reconciled) old u ru1 v ru2 where "stage_state state i = Some old" "status_is old ''authorized''" "reconcile_authorized_attempt old ru = (Inr u, ru1)"
      "write_state an name (set_stage i (interrupt_stage old) state) ru1 = (Inr v, ru2)"
      "reconcile_stages an name sids (set_stage i (interrupt_stage old) state) ru2 = (Inr state', ru')"
    using Cons.prems by (auto simp: Let_def split: option.splits if_splits dest!: bindR_cases)
  then show ?case
  proof cases
    case unchanged
    then show ?thesis using Cons.IH [OF unchanged(1)] Cons.prems by simp
  next
    case reconciled
    show ?thesis
    proof (cases "i = sid")
      case True
      then show ?thesis using reconciled_attempt [OF reconciled(3)] reconciled(1) Cons.prems(2) by simp
    next
      case False
      then have "\<exists>r. last_receipt st = Inr r \<and> retained ru2 r"
        using Cons.IH [OF reconciled(5)] Cons.prems by (simp add: stage_state_set_stage)
      moreover have "quiet ru ru2"
        by (rule quiet_steps.later_trans [OF keepsD [OF quiet_steps.keeps_reconcile_attempt reconciled(3)]
            keepsD [OF quiet_steps.keeps_write_state reconciled(4)]])
      ultimately show ?thesis using retained_before by blast
    qed
  qed
qed simp

text \<open>
  C13. A resumed run fails closed. When the state has a stage whose last attempt consumed an approval without a
  recorded result, and the runner does not retain exactly the receipt that the state records (after a restart of the
  process, or when the record was altered), the run ends with an error before any stage is executed or cleaned up,
  and no receipt is added to those retained.
\<close>

theorem resume_fails_closed:
  assumes "stage_state state sid = Some st" "status_is st ''authorized''"
    and "\<nexists>r. last_receipt st = Inr r \<and> retained ru r"
  shows "\<exists>e ru'. run_loaded an name doc run_id worker inputs authorization_ids state ru = (Inl e, ru') \<and> quiet ru ru'"
proof -
  have "sid \<in> set (map fst (state_stages state))"
    using assms(1) by (auto simp: stage_state_def dict_get_def dest!: map_of_SomeD intro: rev_image_eqI)
  then obtain e ru' where "reconcile_stages an name (map fst (state_stages state)) state ru = (Inl e, ru')"
    using reconciled_stages [of an name "map fst (state_stages state)" state ru _ _ sid st] assms
    by (cases "reconcile_stages an name (map fst (state_stages state)) state ru") (metis sum.exhaust)
  then show ?thesis using keepsD [OF quiet_steps.keeps_reconcile] by (auto simp: run_loaded_def bindR_def)
qed

definition waiting_receipt :: control_receipt where
  "waiting_receipt = \<lparr>re_authorization_id = ''auth-1'', re_authorization_digest = replicate 64 CHR ''0'', re_action_plan_id = ''plan-1'',
     re_plan_digest = ''d'', re_engagement_id = ''eng-1'', re_worker_identity = ''worker-1'', re_target = ''host-a''\<rparr>"

definition waiting_stage :: dict where
  "waiting_stage = [(''status'', JStr ''authorized''), (''attempts'', JList [JObj [(''receipt'', JObj (receipt_to_dict waiting_receipt))]])]"

definition restarted :: runner where
  "restarted = \<lparr>ru_client = \<lparr>cl_expected_authority_uid = 10, cl_worker_uid = None, cl_worker_gid = None, cl_issued = []\<rparr>, ru_pending = [],
     ru_files = [], ru_calls = 0, ru_executed = [], ru_cleaned = []\<rparr>"

theorem resume_fails_closed_witness:
  "last_receipt waiting_stage = Inr waiting_receipt \<and>
   (\<forall>an. \<exists>e ru'. run_loaded an ''run.json'' [] ''run-1'' ''worker-1'' [] [] [(''stages'', JObj [(''scan'', JObj waiting_stage)])] restarted =
      (Inl e, ru') \<and> quiet restarted ru')"
proof -
  have receipt: "last_receipt waiting_stage = Inr waiting_receipt" by code_simp
  have st: "stage_state [(''stages'', JObj [(''scan'', JObj waiting_stage)])] ''scan'' = Some waiting_stage"
    "status_is waiting_stage ''authorized''"
    by (simp_all add: stage_state_def state_stages_def get_or_none_def obj_of_def waiting_stage_def status_is_def)
  have "\<nexists>r. last_receipt waiting_stage = Inr r \<and> retained restarted r" by (simp add: retained_def restarted_def)
  from resume_fails_closed [OF st this] receipt show ?thesis by blast
qed

section \<open>The state file\<close>

definition envelope_of :: "json \<Rightarrow> string \<Rightarrow> json" where
  "envelope_of payload h = JObj [(''payload'', payload), (''digest'', JStr h)]"

lemma envelope_text:
  "dumps False (envelope_of payload h) = ''{'' @ str_text False ''digest'' @ '':'' @ str_text False h @ '','' @ str_text False ''payload'' @ '':'' @ dumps False payload @ ''}''"
  by (simp add: envelope_of_def)

lemma utf8_length: "length (utf8 (s @ t)) = length (utf8 s) + length (utf8 t)"
  by (simp add: utf8_append)

lemma envelope_parts:
  fixes x :: nat
  assumes "h \<le> 2 * (6 * 64 + 2)" "k \<le> 2 * 38" "l \<le> 2 * 44" "a \<le> 2" "b \<le> 2" "c \<le> 2" "d \<le> 2"
  shows "a + (k + (b + (h + (c + (l + (b + (x + d))))))) \<le> x + 4096"
  using assms by simp

lemma envelope_size:
  assumes "length h = 64"
  shows "length (utf8 (dumps False (envelope_of payload h))) \<le> length (utf8 (dumps False payload)) + 4096"
proof -
  have "length (utf8 (str_text False h)) \<le> 2 * (6 * 64 + 2)"
    using utf8_most [of "str_text False h"] str_text_most [of False h] assms by simp
  moreover have "length (utf8 (str_text False ''digest'')) \<le> 2 * 38" "length (utf8 (str_text False ''payload'')) \<le> 2 * 44"
    using utf8_most [of "str_text False ''digest''"] str_text_most [of False "''digest''"]
      utf8_most [of "str_text False ''payload''"] str_text_most [of False "''payload''"] by simp_all
  moreover have "length (utf8 ''{'') \<le> 2" "length (utf8 '':'') \<le> 2" "length (utf8 '','') \<le> 2" "length (utf8 ''}'') \<le> 2"
    using utf8_most [of "''{''"] utf8_most [of "'':''"] utf8_most [of "'',''"] utf8_most [of "''}''"] by simp_all
  ultimately show ?thesis unfolding envelope_text utf8_length by (rule envelope_parts)
qed

lemma digest_norm:
  assumes "json_ok v" "floats_reparse pf v" "canonical v mb md = Inr b"
  shows "canonical (norm_json pf v) mb md = Inr b"
  using canonical_okI [OF norm_measures(4) [OF assms(1,2)]] norm_measures [OF assms(1,2)] canonical_okD [OF assms(3)] by simp

text \<open>
  C27. What the runner writes it can read. The file of a state that \<^verbatim>\<open>_write_state\<close> could encode passes the checks of
  \<^verbatim>\<open>_load_or_create_state\<close> on its size, its nesting and its digest under every output budget, and gives back
  the same document with its keys sorted.
\<close>

theorem written_state_reads_back:
  assumes "\<And>b. length (sha b) = 64" "json_ok (JObj state)" "floats_reparse pf (JObj state)"
    and "state_envelope sha state = Inr bytes" "0 \<le> max_output_bytes"
  shows "\<exists>p. read_state sha pf bytes max_output_bytes = Inr p \<and> JObj p = norm_json pf (JObj state)"
proof -
  from assms(4) obtain raw where raw: "canonical (JObj state) DEFAULT_BYTES DEFAULT_DEPTH = Inr raw"
    and envelope: "canonical (envelope_of (JObj state) (sha raw)) (104857600 + 2097152) DEFAULT_DEPTH = Inr bytes"
    by (auto simp: state_envelope_def digest_def bindE_Inr_iff tagE_def envelope_of_def split: sum.splits)
  obtain p where p: "norm_json pf (JObj state) = JObj p" by simp
  have normal: "norm_json pf (envelope_of (JObj state) (sha raw)) = JObj [(''digest'', JStr (sha raw)), (''payload'', JObj p)]"
    using p by (simp add: envelope_of_def)
  have "length bytes \<le> length (utf8 (dumps False (JObj state))) + 4096"
    unfolding canonical_okD(1) [OF envelope] by (rule envelope_size [OF assms(1)])
  then have "length bytes \<le> length raw + 4096" by (simp only: canonical_okD(1) [OF raw, symmetric])
  then have "int (length bytes) \<le> max_output_bytes + 2097152" using canonical_okD(2) [OF raw] assms(5) by simp
  then have "decode_json pf bytes (max_output_bytes + 2097152) DEFAULT_DEPTH = Inr (JObj [(''digest'', JStr (sha raw)), (''payload'', JObj p)])"
    using decode_bytes [OF _ _ envelope, of pf "max_output_bytes + 2097152"] normal assms(2,3,5)
    by (simp add: envelope_of_def limits_valid_def)
  moreover have "digest sha (JObj p) DEFAULT_BYTES DEFAULT_DEPTH = Inr (sha raw)"
    using digest_norm [OF assms(2,3) raw] p by (simp add: digest_def)
  ultimately show ?thesis using p by (auto simp: read_state_def exceptE_def tagE_def verify_envelope_def dict_keys_def)
qed

lemma first_state_small:
  "\<exists>bytes. state_envelope (\<lambda>_. replicate 64 CHR ''a'') (initial_state ''run-1'' ''wf'' ''in'') = Inr bytes"
proof -
  let ?s = "JObj (initial_state ''run-1'' ''wf'' ''in'')" and ?h = "replicate 64 CHR ''a''"
  have "canonical ?s DEFAULT_BYTES DEFAULT_DEPTH = Inr (utf8 (dumps False ?s))"
    by (rule canonical_small) (simp_all add: initial_state_def limits_valid_def)
  moreover have "canonical (envelope_of ?s ?h) (104857600 + 2097152) DEFAULT_DEPTH = Inr (utf8 (dumps False (envelope_of ?s ?h)))"
    by (rule canonical_small) (simp_all add: envelope_of_def initial_state_def limits_valid_def)
  ultimately show ?thesis by (simp only: state_envelope_def digest_def envelope_of_def bindE_def tagE_def sum.case sum.inject ex_simps simp_thms)
qed

theorem written_state_reads_back_witness:
  "\<exists>bytes. state_envelope (\<lambda>_. replicate 64 CHR ''a'') (initial_state ''run-1'' ''wf'' ''in'') = Inr bytes \<and>
     (\<exists>p. read_state (\<lambda>_. replicate 64 CHR ''a'') (\<lambda>_. NanF) bytes 4096 = Inr p \<and>
        JObj p = norm_json (\<lambda>_. NanF) (JObj (initial_state ''run-1'' ''wf'' ''in'')))"
proof -
  have ok: "json_ok (JObj (initial_state ''run-1'' ''wf'' ''in''))" "floats_reparse (\<lambda>_. NanF) (JObj (initial_state ''run-1'' ''wf'' ''in''))"
    by (simp_all add: initial_state_def)
  obtain bytes where "state_envelope (\<lambda>_. replicate 64 CHR ''a'') (initial_state ''run-1'' ''wf'' ''in'') = Inr bytes"
    using first_state_small by blast
  with written_state_reads_back [OF _ ok this, of 4096] show ?thesis by (auto simp del: norm_json.simps)
qed

end
