(* ===== verification/Handoff.thy ===== *)
theory Handoff
  imports Authorization Ipaddress
begin

text \<open>
  \<^verbatim>\<open>cops/routing/catalog.py\<close> and \<^verbatim>\<open>cops/routing/handoff.py\<close>: the registry of specialists and the handoff of an
  approved plan from a planner to a specialist, a skeptic and an auditor.

  A handoff is the record of \<open>Models\<close>; an operation returns its error or value with the handoff as it then is, since
  the code changes the object also when it raises. What the checkout holds (registry, capability catalog,
  skill files) is read anew by each call, so an operation takes one \<open>checkout\<close> per read. The text of a value in a
  message (\<^verbatim>\<open>str\<close>, \<^verbatim>\<open>repr\<close>) and the order in which a set is listed are parameters of \<open>texts\<close>. A
  \<^verbatim>\<open>TypeError\<close>, \<^verbatim>\<open>KeyError\<close> or \<^verbatim>\<open>AttributeError\<close> on a document of another shape than annotated is \<open>HandoffType\<close>.
\<close>

section \<open>The registry of specialists\<close>

record texts =
  tx_str :: "json \<Rightarrow> string"
  tx_repr :: "json \<Rightarrow> string"
  tx_set_list :: "json list \<Rightarrow> json list"

definition py_str :: "texts \<Rightarrow> json \<Rightarrow> string" where
  "py_str tx v =
     (case v of
        JStr s \<Rightarrow> s
      | JInt i \<Rightarrow> int_text i
      | JBool b \<Rightarrow> (if b then ''True'' else ''False'')
      | JNull \<Rightarrow> ''None''
      | _ \<Rightarrow> tx_str tx v)"

record specialist_profile =
  sp_id :: string
  sp_display_name :: string
  sp_domain :: string
  sp_criticality :: string
  sp_interactive_authorization_required :: bool
  sp_description :: string
  sp_primary_plugin :: string
  sp_skills :: "string list"
  sp_tools :: "string list"
  sp_contract_file :: string
  sp_intent_keywords :: "string list"
  sp_triad_defaults :: "dict option"
  sp_symptom_triggers :: "string list"
  sp_artifact_triggers :: "string list"
  sp_anti_triggers :: "string list"
  sp_example_prompts :: "string list"
  sp_purpose :: string
  sp_required_permissions :: "string list"
  sp_capabilities :: "string list"

datatype catalog_exc = SpecialistCatalogError string | CatalogOther

datatype registry_file = RegistryMissing | RegistryNotJson string | RegistryUnreadable | RegistryJson json

text \<open>Fields of an entry: a missing one is a \<^verbatim>\<open>KeyError\<close> with the name of the field.\<close>

datatype entry_exc = FieldMissing string | EntryOther

definition entry_field :: "dict \<Rightarrow> string \<Rightarrow> (entry_exc, json) result" where
  "entry_field d k = (case dict_get d k of None \<Rightarrow> Inl (FieldMissing k) | Some v \<Rightarrow> Inr v)"

definition texts_of :: "texts \<Rightarrow> json \<Rightarrow> (entry_exc, string list) result" where
  "texts_of tx v = (case iter_items v of Inl _ \<Rightarrow> Inl EntryOther | Inr vs \<Rightarrow> Inr (map (py_str tx) vs))"

definition optional_texts :: "texts \<Rightarrow> dict \<Rightarrow> string \<Rightarrow> (entry_exc, string list) result" where
  "optional_texts tx d k = (case dict_get d k of None \<Rightarrow> Inr [] | Some v \<Rightarrow> texts_of tx v)"

text \<open>\<^verbatim>\<open>dict(...)\<close> of an object; the lists of pairs that it would take as well are refused here.\<close>

definition triad_defaults_of :: "dict \<Rightarrow> (entry_exc, dict option) result" where
  "triad_defaults_of d =
     (case dict_get d ''triad_defaults'' of
        None \<Rightarrow> Inr None
      | Some (JObj t) \<Rightarrow> Inr (Some t)
      | _ \<Rightarrow> Inl EntryOther)"

definition profile_of :: "texts \<Rightarrow> string \<Rightarrow> dict \<Rightarrow> (entry_exc, specialist_profile) result" where
  "profile_of tx pid d =
     bindE (entry_field d ''display_name'') (\<lambda>display_name.
     bindE (entry_field d ''domain'') (\<lambda>domain.
     bindE (entry_field d ''criticality'') (\<lambda>criticality.
     bindE (entry_field d ''interactive_authorization_required'') (\<lambda>interactive.
     bindE (entry_field d ''description'') (\<lambda>description.
     bindE (entry_field d ''primary_plugin'') (\<lambda>primary_plugin.
     bindE (bindE (entry_field d ''skills'') (texts_of tx)) (\<lambda>skills.
     bindE (bindE (entry_field d ''tools'') (texts_of tx)) (\<lambda>tools.
     bindE (entry_field d ''contract_file'') (\<lambda>contract_file.
     bindE (optional_texts tx d ''intent_keywords'') (\<lambda>intent_keywords.
     bindE (optional_texts tx d ''capabilities'') (\<lambda>capabilities.
     bindE (triad_defaults_of d) (\<lambda>triad_defaults.
     bindE (optional_texts tx d ''symptom_triggers'') (\<lambda>symptom_triggers.
     bindE (optional_texts tx d ''artifact_triggers'') (\<lambda>artifact_triggers.
     bindE (optional_texts tx d ''anti_triggers'') (\<lambda>anti_triggers.
     bindE (optional_texts tx d ''example_prompts'') (\<lambda>example_prompts.
     bindE (optional_texts tx d ''required_permissions'') (\<lambda>required_permissions.
       Inr \<lparr>sp_id = pid, sp_display_name = py_str tx display_name, sp_domain = py_str tx domain,
         sp_criticality = py_str tx criticality, sp_interactive_authorization_required = truthy interactive,
         sp_description = py_str tx description, sp_primary_plugin = py_str tx primary_plugin, sp_skills = skills,
         sp_tools = tools, sp_contract_file = py_str tx contract_file, sp_intent_keywords = map lower intent_keywords,
         sp_triad_defaults = triad_defaults, sp_symptom_triggers = map lower symptom_triggers,
         sp_artifact_triggers = map lower artifact_triggers, sp_anti_triggers = map lower anti_triggers,
         sp_example_prompts = example_prompts,
         sp_purpose = py_str tx (case dict_get d ''purpose'' of None \<Rightarrow> description | Some v \<Rightarrow> v),
         sp_required_permissions = required_permissions, sp_capabilities = capabilities\<rparr>)))))))))))))))))"

definition catalog_error :: "string \<Rightarrow> (catalog_exc, 'a) result" where
  "catalog_error message = Inl (SpecialistCatalogError message)"

fun load_entries :: "texts \<Rightarrow> string \<Rightarrow> int \<Rightarrow> string list \<Rightarrow> json list \<Rightarrow> (catalog_exc, specialist_profile list) result" where
  "load_entries tx path n seen [] = Inr []"
| "load_entries tx path n seen (v # vs) =
     (case v of
        JObj d \<Rightarrow>
          let pid = strip (case dict_get d ''id'' of None \<Rightarrow> [] | Some x \<Rightarrow> py_str tx x) in
          if pid = [] then catalog_error (''entry ['' @ int_text n @ ''] in '' @ path @ '' has missing or empty id'')
          else if pid \<in> set seen then catalog_error (''duplicate specialist profile id: '' @ pid)
          else (case profile_of tx pid d of
              Inl (FieldMissing k) \<Rightarrow> catalog_error (''entry '' @ quoted pid @ '' is missing required field: '' @ quoted k)
            | Inl EntryOther \<Rightarrow> Inl CatalogOther
            | Inr p \<Rightarrow> bindE (load_entries tx path (n + 1) (pid # seen) vs) (\<lambda>ps. Inr (p # ps)))
      | _ \<Rightarrow> catalog_error (''entry ['' @ int_text n @ ''] in '' @ path @ '' must be an object''))"

definition load_specialists_registry :: "texts \<Rightarrow> string \<Rightarrow> registry_file \<Rightarrow> (catalog_exc, specialist_profile list) result" where
  "load_specialists_registry tx path registry =
     (case registry of
        RegistryMissing \<Rightarrow> catalog_error (''specialist registry file not found: '' @ path)
      | RegistryNotJson message \<Rightarrow> catalog_error (''invalid JSON in '' @ path @ '': '' @ message)
      | RegistryUnreadable \<Rightarrow> Inl CatalogOther
      | RegistryJson (JObj d) \<Rightarrow>
          (case dict_get d ''specialists'' of
             Some (JList vs) \<Rightarrow> load_entries tx path 0 [] vs
           | _ \<Rightarrow> catalog_error (path @ '' must contain a top-level '' @ quoted ''specialists'' @ '' array''))
      | RegistryJson _ \<Rightarrow> catalog_error (path @ '' must contain a top-level '' @ quoted ''specialists'' @ '' array''))"

text \<open>What one read of the checkout finds. A skill file outside the directory of skills counts as missing.\<close>

datatype skill_file = SkillMissing | SkillUnreadable | SkillFile "nat list"

record checkout =
  ck_path :: string
  ck_registry :: registry_file
  ck_capabilities :: "json option"
  ck_skill :: "string \<Rightarrow> skill_file"

definition get_specialist :: "texts \<Rightarrow> checkout \<Rightarrow> string \<Rightarrow> (catalog_exc, specialist_profile) result" where
  "get_specialist tx ck i =
     bindE (load_specialists_registry tx (ck_path ck) (ck_registry ck)) (\<lambda>profiles.
       case find (\<lambda>p. sp_id p = i) profiles of
         Some p \<Rightarrow> Inr p
       | None \<Rightarrow> catalog_error (''unknown specialist profile id: '' @ quoted i))"

section \<open>Workflow targets\<close>

datatype handoff_exc =
    HandoffError string
  | MissingCapabilityError string
  | ConflictingEvidenceError string
  | InvalidHandoffResultError string
  | AuthorizationExpansionError string
  | MaterialPlanModifiedError string
  | HandoffCatalog catalog_exc
  | HandoffContract contract_exc
  | HandoffType

definition lacking :: "string \<Rightarrow> (handoff_exc, 'a) result" where
  "lacking message = Inl (MissingCapabilityError message)"

definition skill_char :: "char \<Rightarrow> bool" where
  "skill_char c \<longleftrightarrow> is_lower c \<or> is_digit c"

definition SKILL_ID :: "string \<Rightarrow> bool" where
  "SKILL_ID s = (case s of [] \<Rightarrow> False | c # cs \<Rightarrow> skill_char c \<and> list_all (\<lambda>x. skill_char x \<or> x = CHR ''-'') cs)"

fun join_crlf :: "string \<Rightarrow> string" where
  "join_crlf (c # d # s) =
     (if of_char c = (13 :: nat) \<and> of_char d = (10 :: nat) then d # join_crlf s else c # join_crlf (d # s))"
| "join_crlf s = s"

definition line_break :: "char \<Rightarrow> bool" where
  "line_break c \<longleftrightarrow> (of_char c :: nat) \<in> {10, 11, 12, 13, 28, 29, 30, 133}"

fun split_lines :: "string \<Rightarrow> string \<Rightarrow> string list" where
  "split_lines cur [] = (if cur = [] then [] else [rev cur])"
| "split_lines cur (c # s) = (if line_break c then rev cur # split_lines [] s else split_lines (c # cur) s)"

definition splitlines :: "string \<Rightarrow> string list" where
  "splitlines s = split_lines [] (join_crlf s)"

definition strip_quotes :: "string \<Rightarrow> string" where
  "strip_quotes s =
     (let q = (\<lambda>c. c = quote_char \<or> of_char c = (34 :: nat)) in rev (dropWhile q (rev (dropWhile q s))))"

definition frontmatter_names :: "string list \<Rightarrow> string list" where
  "frontmatter_names lines =
     concat (map (\<lambda>line.
       if CHR '':'' \<in> set line \<and> strip (before_char CHR '':'' line) = ''name''
       then [strip_quotes (strip (after_char CHR '':'' line))] else []) lines)"

definition check_skill_text :: "string \<Rightarrow> nat list \<Rightarrow> (handoff_exc, unit) result" where
  "check_skill_text skill bytes =
     (case utf8_decode bytes of
        None \<Rightarrow> lacking (''Workflow skill '' @ quoted skill @ '' cannot be read'')
      | Some s \<Rightarrow>
          (case splitlines s of
             first # rest \<Rightarrow>
               if first \<noteq> ''---'' \<or> ''---'' \<notin> set rest then lacking (''Workflow skill '' @ quoted skill @ '' has invalid frontmatter'')
               else if frontmatter_names (takeWhile (\<lambda>l. l \<noteq> ''---'') rest) \<noteq> [skill]
               then lacking (''Workflow skill '' @ quoted skill @ '' has a mismatched frontmatter name'')
               else Inr ()
           | [] \<Rightarrow> lacking (''Workflow skill '' @ quoted skill @ '' has invalid frontmatter'')))"

definition registered_specialist :: "string \<Rightarrow> json \<Rightarrow> bool" where
  "registered_specialist i entry =
     (case entry of JObj d \<Rightarrow> dict_get d ''id'' = Some (JStr i) \<and> dict_get d ''kind'' = Some (JStr ''specialist'') | _ \<Rightarrow> False)"

definition check_capability :: "checkout \<Rightarrow> string \<Rightarrow> (handoff_exc, unit) result" where
  "check_capability ck capability =
     (case ck_capabilities ck of
        Some (JObj d) \<Rightarrow>
          (case dict_get d ''capabilities'' of
             None \<Rightarrow> lacking ''Capability catalog is unavailable or invalid''
           | Some (JList items) \<Rightarrow>
               if list_ex (registered_specialist capability) items then Inr ()
               else lacking (''Workflow capability '' @ quoted capability @ '' is not registered as a specialist'')
           | Some _ \<Rightarrow> lacking (''Workflow capability '' @ quoted capability @ '' is not registered as a specialist''))
      | _ \<Rightarrow> lacking ''Capability catalog is unavailable or invalid'')"

definition target_of_skill :: "(nat list \<Rightarrow> string) \<Rightarrow> string \<Rightarrow> string \<Rightarrow> nat list \<Rightarrow> dict" where
  "target_of_skill sha skill capability bytes =
     [(''skill_id'', JStr skill), (''capability_id'', JStr capability), (''implementation'', JStr (''.agents/skills/'' @ skill @ ''/SKILL.md'')),
      (''implementation_digest'', JStr (''sha256:'' @ sha bytes))]"

definition resolve_skill :: "(nat list \<Rightarrow> string) \<Rightarrow> texts \<Rightarrow> checkout \<Rightarrow> string \<Rightarrow> string \<Rightarrow> (handoff_exc, dict) result" where
  "resolve_skill sha tx ck skill specialist_id =
     (case get_specialist tx ck specialist_id of
        Inl (SpecialistCatalogError _) \<Rightarrow> lacking (''Workflow recipient '' @ quoted specialist_id @ '' is unavailable'')
      | Inl e \<Rightarrow> Inl (HandoffCatalog e)
      | Inr profile \<Rightarrow>
          if skill \<notin> set (sp_skills profile) then lacking (''Workflow skill '' @ quoted skill @ '' is not declared by '' @ quoted specialist_id)
          else bindE (check_capability ck specialist_id) (\<lambda>_.
            case ck_skill ck skill of
              SkillMissing \<Rightarrow> lacking (''Workflow skill '' @ quoted skill @ '' has no local implementation'')
            | SkillUnreadable \<Rightarrow> lacking (''Workflow skill '' @ quoted skill @ '' cannot be read'')
            | SkillFile bytes \<Rightarrow> bindE (check_skill_text skill bytes) (\<lambda>_. Inr (target_of_skill sha skill specialist_id bytes))))"

definition resolve_workflow_target ::
  "(nat list \<Rightarrow> string) \<Rightarrow> texts \<Rightarrow> checkout \<Rightarrow> json \<Rightarrow> string \<Rightarrow> (handoff_exc, dict) result" where
  "resolve_workflow_target sha tx ck target specialist_id =
     (case target of
        JObj t \<Rightarrow>
          (case dict_get t ''skill_id'' of
             Some (JStr skill) \<Rightarrow>
               if \<not> SKILL_ID skill then lacking (''Invalid workflow skill identifier: '' @ tx_repr tx (JStr skill))
               else if dict_get t ''capability_id'' \<noteq> Some (JStr specialist_id)
               then lacking ''Workflow capability does not match the recipient specialist''
               else resolve_skill sha tx ck skill specialist_id
           | _ \<Rightarrow> lacking (''Invalid workflow skill identifier: '' @ tx_repr tx (get_or_none t ''skill_id'')))
      | _ \<Rightarrow> lacking ''Handoff has no workflow target'')"

definition handoff_get :: "json \<Rightarrow> string \<Rightarrow> (handoff_exc, json option) result" where
  "handoff_get v k = (case v of JObj d \<Rightarrow> Inr (dict_get d k) | _ \<Rightarrow> Inl HandoffType)"

definition handoff_items :: "json \<Rightarrow> (handoff_exc, json list) result" where
  "handoff_items v = (case iter_items v of Inl _ \<Rightarrow> Inl HandoffType | Inr vs \<Rightarrow> Inr vs)"

text \<open>\<^verbatim>\<open>doc.get(k, default)\<close> where the code then uses a string.\<close>

definition text_field :: "json \<Rightarrow> string \<Rightarrow> string \<Rightarrow> (handoff_exc, string) result" where
  "text_field v k fallback =
     bindE (handoff_get v k) (\<lambda>x. case x of None \<Rightarrow> Inr fallback | Some (JStr s) \<Rightarrow> Inr s | Some _ \<Rightarrow> Inl HandoffType)"

definition list_field :: "json \<Rightarrow> string \<Rightarrow> (handoff_exc, json) result" where
  "list_field v k = bindE (handoff_get v k) (\<lambda>x. Inr (case x of None \<Rightarrow> JList [] | Some y \<Rightarrow> y))"

definition contractE :: "(contract_exc, 'a) result \<Rightarrow> (handoff_exc, 'a) result" where
  "contractE r = (case r of Inl e \<Rightarrow> Inl (HandoffContract e) | Inr a \<Rightarrow> Inr a)"

definition checksumE :: "(evidence_error, 'a) result \<Rightarrow> (handoff_exc, 'a) result" where
  "checksumE r = (case r of Inl e \<Rightarrow> Inl (HandoffContract (Evidence e)) | Inr a \<Rightarrow> Inr a)"

definition catalogE :: "(catalog_exc, 'a) result \<Rightarrow> (handoff_exc, 'a) result" where
  "catalogE r = (case r of Inl e \<Rightarrow> Inl (HandoffCatalog e) | Inr a \<Rightarrow> Inr a)"

text \<open>\<^verbatim>\<open>_verify_workflow_target\<close>\<close>

definition verify_workflow_target :: "(nat list \<Rightarrow> string) \<Rightarrow> texts \<Rightarrow> checkout \<Rightarrow> specialist_handoff \<Rightarrow> (handoff_exc, unit) result" where
  "verify_workflow_target sha tx ck x =
     bindE (handoff_items (sh_transition_log x)) (\<lambda>entries.
     bindE (case accepted_entries entries of Inl _ \<Rightarrow> Inl HandoffType | Inr ds \<Rightarrow> Inr ds) (\<lambda>accepted.
     bindE (handoff_get (sh_task x) ''workflow_target'') (\<lambda>target.
     let differs = lacking ''Workflow target checksum differs from the accepted transition'' in
     case (target, accepted) of
       (Some (JObj t), [d]) \<Rightarrow>
         bindE (checksumE (workflow_target_checksum sha (JObj t))) (\<lambda>h.
           if dict_get d ''workflow_target_checksum'' \<noteq> Some (JStr h) then differs
           else bindE (handoff_get (sh_recipient x) ''specialist_id'') (\<lambda>recipient.
             case recipient of
               Some (JStr specialist_id) \<Rightarrow>
                 bindE (resolve_workflow_target sha tx ck (JObj t) specialist_id) (\<lambda>resolved.
                   if py_eq (JObj t) (JObj resolved) then Inr ()
                   else lacking ''Workflow target differs from the current local implementation'')
             | _ \<Rightarrow> Inl HandoffType))
     | _ \<Rightarrow> differs)))"

section \<open>The digest of the material fields\<close>

definition material_operation :: "texts \<Rightarrow> json \<Rightarrow> json" where
  "material_operation tx op =
     (case op of
        JObj d \<Rightarrow>
          JObj (map (\<lambda>(k, fallback). (k, case dict_get d k of None \<Rightarrow> fallback | Some v \<Rightarrow> v))
            [(''step_id'', JStr []), (''tool'', JStr []), (''action'', JStr []), (''arguments'', JObj [])])
      | _ \<Rightarrow> JStr (py_str tx op))"

definition sorted_effects :: "json \<Rightarrow> (handoff_exc, json) result" where
  "sorted_effects v =
     (if \<not> truthy v then Inr (JList [])
      else bindE (handoff_items v) (\<lambda>vs.
        if list_all (\<lambda>x. case x of JStr _ \<Rightarrow> True | _ \<Rightarrow> False) vs
        then Inr (JList (map JStr (sort (map (\<lambda>x. case x of JStr s \<Rightarrow> s | _ \<Rightarrow> []) vs))))
        else Inl HandoffType))"

definition compute_material_plan_digest ::
  "(nat list \<Rightarrow> string) \<Rightarrow> texts \<Rightarrow> string \<Rightarrow> json \<Rightarrow> string \<Rightarrow> string \<Rightarrow> json \<Rightarrow> json \<Rightarrow> (handoff_exc, string) result" where
  "compute_material_plan_digest sha tx target operations specialist_id operator allowed_effects limits =
     bindE (handoff_items operations) (\<lambda>ops.
     bindE (sorted_effects allowed_effects) (\<lambda>effects.
     let normalized = JObj [(''allowed_effects'', effects), (''limits'', if truthy limits then limits else JObj []),
           (''operations'', JList (map (material_operation tx) ops)), (''operator'', JStr (strip operator)),
           (''specialist_id'', JStr (strip specialist_id)), (''target'', JStr (strip target))]
     in if ints_printable normalized then Inr (''sha256:'' @ sha (utf8 (dumps True normalized))) else Inl HandoffType))"

section \<open>Proposal\<close>

record proposal =
  pr_task_description :: string
  pr_sender_id :: string
  pr_specialist_id :: "string option"
  pr_workflow_skill_id :: "string option"
  pr_capability_id :: "string option"
  pr_required_capabilities :: "string list option"
  pr_operations :: "json option"
  pr_deliverable :: "string option"
  pr_handoff_id :: "string option"

text \<open>
  Without a specialist the code asks \<^verbatim>\<open>route_request\<close> and then reads \<^verbatim>\<open>selected_profile\<close>, which a routing decision does
  not have: the call raises whatever the router decides.
\<close>

definition chosen_specialist :: "proposal \<Rightarrow> (handoff_exc, string) result" where
  "chosen_specialist p = (case pr_specialist_id p of None \<Rightarrow> Inl HandoffType | Some i \<Rightarrow> Inr i)"

definition required_of :: "proposal \<Rightarrow> specialist_profile \<Rightarrow> string list" where
  "required_of p profile =
     (case pr_required_capabilities p of
        Some (c # cs) \<Rightarrow> c # cs
      | _ \<Rightarrow> (case pr_workflow_skill_id p of
          Some (c # cs) \<Rightarrow> [c # cs]
        | _ \<Rightarrow> (if sp_skills profile = [] then [''general-assessment''] else take 1 (sp_skills profile))))"

definition handoff_task :: "proposal \<Rightarrow> specialist_profile \<Rightarrow> string \<Rightarrow> json \<Rightarrow> dict" where
  "handoff_task p profile target ops =
     [(''task_description'', JStr (pr_task_description p)), (''target'', JStr target),
      (''required_capabilities'', JList (map JStr (required_of p profile))), (''operations'', ops),
      (''deliverable'', JStr (case pr_deliverable p of Some (c # cs) \<Rightarrow> c # cs | _ \<Rightarrow> ''Technical findings and verification evidence for '' @ target))] @
     (case (pr_workflow_skill_id p, pr_capability_id p) of
        (Some skill, Some capability) \<Rightarrow> [(''workflow_target'', JObj [(''skill_id'', JStr skill), (''capability_id'', JStr capability)])]
      | _ \<Rightarrow> [])"

definition validate_handoff :: "validator \<Rightarrow> specialist_handoff \<Rightarrow> (handoff_exc, unit) result" where
  "validate_handoff env x =
     bindE (contractE (validate_contract env (SpecialistHandoff_to_dict x) (Some ''specialist_handoff''))) (\<lambda>_. Inr ())"

text \<open>\<open>uuid\<close> is the hexadecimal text of the new identifier, \<open>now_iso\<close> what \<^verbatim>\<open>utc_now()\<close> returns.\<close>

definition propose_specialist_handoff ::
  "validator \<Rightarrow> texts \<Rightarrow> checkout \<Rightarrow> string \<Rightarrow> string \<Rightarrow> dict \<Rightarrow> dict \<Rightarrow> proposal \<Rightarrow> (handoff_exc, specialist_handoff) result" where
  "propose_specialist_handoff env tx ck now_iso uuid eng plan p =
     bindE (text_field (JObj eng) ''engagement_id'' []) (\<lambda>eng_id.
     bindE (text_field (JObj plan) ''plan_id'' []) (\<lambda>plan_id.
     bindE (text_field (JObj eng) ''operator'' (pr_sender_id p)) (\<lambda>operator.
     bindE (text_field (JObj plan) ''target'' []) (\<lambda>target.
     bindE (chosen_specialist p) (\<lambda>selected.
     bindE (catalogE (get_specialist tx ck selected)) (\<lambda>profile.
     if (pr_workflow_skill_id p = None) \<noteq> (pr_capability_id p = None)
     then Inl (HandoffError ''Both workflow_skill_id and capability_id are required to declare a workflow target'')
     else
     bindE (case pr_operations p of Some ops \<Rightarrow> Inr ops | None \<Rightarrow> list_field (JObj plan) ''operations'') (\<lambda>ops.
     bindE (case dict_get eng ''rules_of_engagement'' of None \<Rightarrow> Inr (JList []) | Some roe \<Rightarrow> list_field roe ''allowed_actions'') (\<lambda>allowed.
     bindE (compute_material_plan_digest (v_sha env) tx target ops selected operator allowed
              (case dict_get plan ''limits'' of None \<Rightarrow> JObj [] | Some l \<Rightarrow> l)) (\<lambda>material.
     let x = \<lparr>sh_schema_version = ''cops.specialist-handoff/v1'',
           sh_handoff_id = (case pr_handoff_id p of Some (c # cs) \<Rightarrow> c # cs | _ \<Rightarrow> ''hnd-'' @ take 12 uuid),
           sh_engagement_id = eng_id, sh_action_plan_id = plan_id, sh_status = ''proposed'',
           sh_sender = JObj [(''role'', JStr ''planner''), (''identifier'', JStr (pr_sender_id p))],
           sh_recipient = JObj [(''role'', JStr ''specialist''), (''specialist_id'', JStr selected)],
           sh_task = JObj (handoff_task p profile target ops), sh_material_plan_digest = material,
           sh_approval_status = (if dict_get plan ''status'' = Some (JStr ''approved'') then ''approved'' else ''pending''),
           sh_created_at = now_iso,
           sh_transition_log = JList [log_entry now_iso ''none'' ''proposed'' (pr_sender_id p)
             (Some (''Proposal created for specialist '' @ selected))],
           sh_evidence = JObj [(''evidence_envelopes'', JList []), (''findings'', JList [])], sh_rejection_reason = JNull\<rparr>
     in bindE (validate_handoff env x) (\<lambda>_. Inr x))))))))))"

section \<open>Acceptance\<close>

type_synonym handoff_outcome = "(specialist_handoff, handoff_exc, unit) outcome"

text \<open>The move to \<^verbatim>\<open>rejected\<close> with its reason, before the exception is raised.\<close>

definition reject_handoff :: "string \<Rightarrow> string \<Rightarrow> string \<Rightarrow> string \<Rightarrow> handoff_exc \<Rightarrow> specialist_handoff \<Rightarrow> handoff_outcome" where
  "reject_handoff now_iso actor notes reason e x =
     (case SpecialistHandoff_transition_to now_iso ''rejected'' actor (Some notes) x of
        (Inl c, x') \<Rightarrow> (Inl (HandoffContract c), x')
      | (Inr _, x') \<Rightarrow> (Inl e, x'\<lparr>sh_rejection_reason := JStr reason\<rparr>))"

text \<open>\<^verbatim>\<open>except MissingCapabilityError\<close>: the handoff is rejected with the message; other exceptions pass.\<close>

definition reject_if_lacking :: "string \<Rightarrow> string \<Rightarrow> (handoff_exc, 'a) result \<Rightarrow> ('a \<Rightarrow> handoff_outcome) \<Rightarrow> specialist_handoff \<Rightarrow> handoff_outcome" where
  "reject_if_lacking now_iso actor r f x =
     (case r of
        Inl (MissingCapabilityError m) \<Rightarrow> reject_handoff now_iso actor m m (MissingCapabilityError m) x
      | Inl e \<Rightarrow> (Inl e, x)
      | Inr a \<Rightarrow> f a)"

definition move_handoff :: "string \<Rightarrow> string \<Rightarrow> string \<Rightarrow> string \<Rightarrow> specialist_handoff \<Rightarrow> (specialist_handoff \<Rightarrow> handoff_outcome) \<Rightarrow> handoff_outcome" where
  "move_handoff now_iso next_state actor notes x f =
     (case SpecialistHandoff_transition_to now_iso next_state actor (Some notes) x of
        (Inl c, x') \<Rightarrow> (Inl (HandoffContract c), x')
      | (Inr _, x') \<Rightarrow> f x')"

definition normal_name :: "string \<Rightarrow> string" where
  "normal_name s = map (\<lambda>c. if c = CHR ''-'' \<or> c = CHR ''_'' then CHR '' '' else c) (lower s)"

definition capability_matches :: "string \<Rightarrow> string \<Rightarrow> bool" where
  "capability_matches req cap \<longleftrightarrow> contains (lower req) (lower cap) \<or> contains (normal_name req) (normal_name cap)"

definition available_capabilities :: "specialist_profile \<Rightarrow> string list" where
  "available_capabilities p = sp_skills p @ sp_tools p @ [sp_primary_plugin p] @ sp_capabilities p @ [sp_domain p]"

definition missing_capabilities :: "specialist_profile \<Rightarrow> string list \<Rightarrow> string list" where
  "missing_capabilities p required = filter (\<lambda>req. \<not> list_ex (capability_matches req) (available_capabilities p)) required"

definition text_items :: "json \<Rightarrow> (handoff_exc, string list) result" where
  "text_items v = bindE (handoff_items v) (mapE (\<lambda>x. case x of JStr s \<Rightarrow> Inr s | _ \<Rightarrow> Inl HandoffType))"

definition set_task_target :: "dict \<Rightarrow> specialist_handoff \<Rightarrow> specialist_handoff" where
  "set_task_target t x = (case sh_task x of JObj d \<Rightarrow> x\<lparr>sh_task := JObj (dict_set ''workflow_target'' (JObj t) d)\<rparr> | _ \<Rightarrow> x)"

definition set_last_checksum :: "string \<Rightarrow> specialist_handoff \<Rightarrow> specialist_handoff" where
  "set_last_checksum h x =
     (case sh_transition_log x of
        JList es \<Rightarrow> (case rev es of
            JObj d # older \<Rightarrow> x\<lparr>sh_transition_log := JList (rev older @ [JObj (dict_set ''workflow_target_checksum'' (JStr h) d)])\<rparr>
          | _ \<Rightarrow> x)
      | _ \<Rightarrow> x)"

definition accept_resolved :: "validator \<Rightarrow> string \<Rightarrow> string \<Rightarrow> dict \<Rightarrow> specialist_handoff \<Rightarrow> handoff_outcome" where
  "accept_resolved env now_iso specialist_id resolved x =
     move_handoff now_iso ''accepted'' specialist_id (''Accepted by '' @ specialist_id @ '' with full capability coverage'') (set_task_target resolved x) (\<lambda>x1.
       case workflow_target_checksum (v_sha env) (JObj resolved) of
         Inl e \<Rightarrow> (Inl (HandoffContract (Evidence e)), x1)
       | Inr h \<Rightarrow> let x2 = set_last_checksum h x1 in (validate_handoff env x2, x2))"

definition accept_covered :: "validator \<Rightarrow> texts \<Rightarrow> checkout \<Rightarrow> string \<Rightarrow> string \<Rightarrow> specialist_handoff \<Rightarrow> specialist_profile \<Rightarrow> handoff_outcome" where
  "accept_covered env tx ck now_iso specialist_id x profile =
     (case bindE (list_field (sh_task x) ''required_capabilities'') text_items of
        Inl e \<Rightarrow> (Inl e, x)
      | Inr required \<Rightarrow>
          let missing = missing_capabilities profile required; shown = tx_repr tx (JList (map JStr missing)) in
          if missing \<noteq> [] then
            reject_handoff now_iso specialist_id (''Missing required capabilities: '' @ shown)
              (''Specialist lacks required capabilities: '' @ shown)
              (MissingCapabilityError (''Specialist '' @ quoted specialist_id @ '' lacks required capabilities: '' @ shown)) x
          else reject_if_lacking now_iso specialist_id
            (bindE (handoff_get (sh_task x) ''workflow_target'') (\<lambda>t.
               resolve_workflow_target (v_sha env) tx ck (case t of None \<Rightarrow> JNull | Some v \<Rightarrow> v) specialist_id))
            (\<lambda>resolved. accept_resolved env now_iso specialist_id resolved x) x)"

text \<open>\<open>ck\<close> is read for the profile, \<open>ck'\<close> for the workflow target.\<close>

definition accept_specialist_handoff ::
  "validator \<Rightarrow> texts \<Rightarrow> checkout \<Rightarrow> checkout \<Rightarrow> string \<Rightarrow> string \<Rightarrow> specialist_handoff \<Rightarrow> handoff_outcome" where
  "accept_specialist_handoff env tx ck ck' now_iso specialist_id x =
     (if sh_status x \<noteq> ''proposed''
      then (Inl (HandoffError (''Cannot accept handoff in status '' @ quoted (sh_status x) @ '', expected '' @ quoted ''proposed'')), x)
      else case handoff_get (sh_recipient x) ''specialist_id'' of
        Inl e \<Rightarrow> (Inl e, x)
      | Inr recipient \<Rightarrow>
          if recipient \<noteq> Some (JStr specialist_id)
          then (Inl (HandoffError (''Specialist '' @ quoted specialist_id @ '' does not match handoff recipient '' @
                  quoted (py_str tx (case recipient of None \<Rightarrow> JNull | Some v \<Rightarrow> v)))), x)
          else case get_specialist tx ck specialist_id of
            Inl (SpecialistCatalogError _) \<Rightarrow>
              let reason = ''Workflow recipient '' @ quoted specialist_id @ '' is unavailable'' in
              reject_handoff now_iso specialist_id reason reason (MissingCapabilityError reason) x
          | Inl e \<Rightarrow> (Inl (HandoffCatalog e), x)
          | Inr profile \<Rightarrow> accept_covered env tx ck' now_iso specialist_id x profile)"

section \<open>Review by the skeptic\<close>

text \<open>\<^verbatim>\<open>a.get(k) or a.get(l)\<close>\<close>

definition first_true :: "dict \<Rightarrow> string \<Rightarrow> string \<Rightarrow> json" where
  "first_true d k l = (if truthy (get_or_none d k) then get_or_none d k else get_or_none d l)"

definition hash_fails :: "json \<Rightarrow> bool" where
  "hash_fails v = (case v of JList _ \<Rightarrow> True | JObj _ \<Rightarrow> True | _ \<Rightarrow> False)"

definition observed :: "(json \<times> json) list \<Rightarrow> json \<Rightarrow> json option" where
  "observed facts subject = map_option snd (find (\<lambda>(k, _). py_eq k subject) facts)"

definition envelope_ref :: "string \<Rightarrow> dict \<Rightarrow> json" where
  "envelope_ref fresh d =
     (if truthy (get_or_none d ''envelope_id'') then get_or_none d ''envelope_id''
      else case dict_get d ''ref'' of None \<Rightarrow> JStr (''env-'' @ take 8 fresh) | Some v \<Rightarrow> v)"

text \<open>The loop over the submitted envelopes: the references, or the text of a contradiction. \<open>fresh n\<close> is the new
  identifier drawn for the \<open>n\<close>-th envelope.\<close>

fun inspect_envelopes :: "texts \<Rightarrow> (nat \<Rightarrow> string) \<Rightarrow> nat \<Rightarrow> (json \<times> json) list \<Rightarrow> json list \<Rightarrow> (handoff_exc, json list) result" where
  "inspect_envelopes tx fresh n facts [] = Inr []"
| "inspect_envelopes tx fresh n facts (v # vs) =
     (case v of
        JObj d \<Rightarrow>
          let subject = first_true d ''subject'' ''target''; fact = first_true d ''fact'' ''observed_state'';
              go = (\<lambda>facts'. bindE (inspect_envelopes tx fresh (Suc n) facts' vs) (\<lambda>refs. Inr (envelope_ref (fresh n) d # refs)))
          in if \<not> truthy subject \<or> \<not> truthy fact then go facts
             else if hash_fails subject then Inl HandoffType
             else (case observed facts subject of
                 None \<Rightarrow> go ((subject, fact) # facts)
               | Some earlier \<Rightarrow>
                   if \<not> py_eq earlier fact
                   then Inl (ConflictingEvidenceError (''Conflicting observations for subject '' @ quoted (py_str tx subject) @ '': '' @
                          quoted (py_str tx earlier) @ '' vs '' @ quoted (py_str tx fact)))
                   else go ((subject, fact) # facts))
      | JStr s \<Rightarrow> bindE (inspect_envelopes tx fresh (Suc n) facts vs) (\<lambda>refs. Inr (JStr s # refs))
      | _ \<Rightarrow> inspect_envelopes tx fresh (Suc n) facts vs)"

text \<open>\<^verbatim>\<open>list(set(evidence.get(k, []) + added))\<close>\<close>

definition merged_list :: "texts \<Rightarrow> json \<Rightarrow> string \<Rightarrow> json list \<Rightarrow> (handoff_exc, json) result" where
  "merged_list tx evidence k added =
     bindE (list_field evidence k) (\<lambda>old.
       case old of
         JList vs \<Rightarrow> if list_ex hash_fails (vs @ added) then Inl HandoffType else Inr (JList (tx_set_list tx (vs @ added)))
       | _ \<Rightarrow> Inl HandoffType)"

record review =
  rw_evidence_envelopes :: "json list"
  rw_findings :: "json list"
  rw_contradictory_evidence :: "json list"
  rw_objection :: string

definition attach_evidence :: "validator \<Rightarrow> texts \<Rightarrow> string \<Rightarrow> string \<Rightarrow> json list \<Rightarrow> json list \<Rightarrow> specialist_handoff \<Rightarrow> handoff_outcome" where
  "attach_evidence env tx now_iso skeptic_id refs findings x =
     (let current = (if truthy (sh_evidence x) then sh_evidence x else JObj []) in
      case bindE (merged_list tx current ''evidence_envelopes'' refs) (\<lambda>envelopes.
             bindE (merged_list tx current ''findings'' findings) (\<lambda>found. Inr (envelopes, found))) of
        Inl e \<Rightarrow> (Inl e, x)
      | Inr (envelopes, found) \<Rightarrow>
          move_handoff now_iso ''in_review'' skeptic_id (''Skeptic review passed by '' @ skeptic_id)
            (x\<lparr>sh_evidence := JObj [(''evidence_envelopes'', envelopes), (''findings'', found),
                (''notes'', JStr (''Reviewed and verified by skeptic '' @ skeptic_id))]\<rparr>)
            (\<lambda>x1. (validate_handoff env x1, x1)))"

definition review_evidence :: "validator \<Rightarrow> texts \<Rightarrow> (nat \<Rightarrow> string) \<Rightarrow> string \<Rightarrow> string \<Rightarrow> review \<Rightarrow> specialist_handoff \<Rightarrow> handoff_outcome" where
  "review_evidence env tx fresh now_iso skeptic_id rw x =
     (if rw_objection rw \<noteq> [] then
        let reason = ''Skeptic objection: '' @ rw_objection rw in
        reject_handoff now_iso skeptic_id reason reason
          (ConflictingEvidenceError (''Skeptic '' @ quoted skeptic_id @ '' rejected evidence: '' @ rw_objection rw)) x
      else if rw_contradictory_evidence rw \<noteq> [] then
        let reason = ''Contradictory evidence detected in submitted telemetry envelopes'' in
        reject_handoff now_iso skeptic_id reason reason (ConflictingEvidenceError reason) x
      else case inspect_envelopes tx fresh 0 [] (rw_evidence_envelopes rw) of
        Inl (ConflictingEvidenceError reason) \<Rightarrow> reject_handoff now_iso skeptic_id reason reason (ConflictingEvidenceError reason) x
      | Inl e \<Rightarrow> (Inl e, x)
      | Inr refs \<Rightarrow> attach_evidence env tx now_iso skeptic_id refs (rw_findings rw) x)"

text \<open>\<open>ck\<close> is read for the workflow target, \<open>ck'\<close> for the profile of the skeptic.\<close>

definition review_with_skeptic ::
  "validator \<Rightarrow> texts \<Rightarrow> checkout \<Rightarrow> checkout \<Rightarrow> (nat \<Rightarrow> string) \<Rightarrow> string \<Rightarrow> string \<Rightarrow> review \<Rightarrow> specialist_handoff \<Rightarrow> handoff_outcome" where
  "review_with_skeptic env tx ck ck' fresh now_iso skeptic_id rw x =
     (if sh_status x \<noteq> ''accepted''
      then (Inl (HandoffError (''Cannot perform skeptic review on handoff in status '' @ quoted (sh_status x) @ '', expected '' @ quoted ''accepted'')), x)
      else reject_if_lacking now_iso skeptic_id (verify_workflow_target (v_sha env) tx ck x) (\<lambda>_.
        case get_specialist tx ck' skeptic_id of
          Inl e \<Rightarrow> (Inl (HandoffCatalog e), x)
        | Inr _ \<Rightarrow> review_evidence env tx fresh now_iso skeptic_id rw x) x)"

section \<open>Audit\<close>

record candidate =
  ca_target :: string
  ca_operations :: "json option"
  ca_operator :: "string option"
  ca_allowed_effects :: "json option"
  ca_limits :: "json option"

definition expansion :: "string \<Rightarrow> string \<Rightarrow> string \<Rightarrow> specialist_handoff \<Rightarrow> handoff_outcome" where
  "expansion now_iso auditor_id reason x =
     reject_handoff now_iso auditor_id reason reason (AuthorizationExpansionError reason) (x\<lparr>sh_approval_status := ''reapproval_required''\<rparr>)"

definition tool_of :: "json \<Rightarrow> json list" where
  "tool_of op = (case op of JObj d \<Rightarrow> [get_or_none d ''tool''] | _ \<Rightarrow> [])"

text \<open>The first tool of the operations that the approved plan does not declare.\<close>

fun unapproved_tool :: "json list \<Rightarrow> json list \<Rightarrow> (handoff_exc, json option) result" where
  "unapproved_tool approved [] = Inr None"
| "unapproved_tool approved (t # ts) =
     (if \<not> truthy t \<or> approved = [] then unapproved_tool approved ts
      else if hash_fails t then Inl HandoffType
      else if list_ex (py_eq t) approved then unapproved_tool approved ts
      else Inr (Some t))"

definition checked_tools :: "json \<Rightarrow> json \<Rightarrow> (handoff_exc, json option) result" where
  "checked_tools approved_ops ops =
     bindE (handoff_items approved_ops) (\<lambda>approved.
     let tools = concat (map tool_of approved) in
     if list_ex hash_fails tools then Inl HandoffType
     else bindE (handoff_items ops) (\<lambda>checked. unapproved_tool tools (concat (map tool_of checked))))"

text \<open>\<^verbatim>\<open>material_modified\<close>\<close>

definition material_modified :: "candidate \<Rightarrow> json \<Rightarrow> json \<Rightarrow> json \<Rightarrow> string \<Rightarrow> specialist_handoff \<Rightarrow> bool" where
  "material_modified ca approved_ops ops limits sender_operator x \<longleftrightarrow>
     (case ca_operator ca of None \<Rightarrow> False | Some who \<Rightarrow> strip who \<noteq> sender_operator) \<or>
     (case ca_operations ca of None \<Rightarrow> False | Some c \<Rightarrow> \<not> py_eq c approved_ops) \<or>
     ca_allowed_effects ca \<noteq> None \<or>
     (case ca_limits ca of None \<Rightarrow> False | Some l \<Rightarrow> \<not> py_eq l limits) \<or>
     \<not> py_eq ops approved_ops \<or> sh_approval_status x = ''reapproval_required''"

definition complete_handoff :: "validator \<Rightarrow> texts \<Rightarrow> checkout \<Rightarrow> string \<Rightarrow> string \<Rightarrow> specialist_handoff \<Rightarrow> handoff_outcome" where
  "complete_handoff env tx ck now_iso auditor_id x =
     (case handoff_get (sh_task x) ''deliverable'' of
        Inl e \<Rightarrow> (Inl e, x)
      | Inr deliverable \<Rightarrow>
          if (case deliverable of Some (JStr s) \<Rightarrow> strip s = [] | _ \<Rightarrow> True) then
            let reason = ''Handoff deliverable is empty or missing'' in
            reject_handoff now_iso auditor_id reason reason (InvalidHandoffResultError reason) x
          else reject_if_lacking now_iso auditor_id (verify_workflow_target (v_sha env) tx ck x) (\<lambda>_.
            move_handoff now_iso ''completed'' auditor_id (''Audited and approved by '' @ auditor_id) (x\<lparr>sh_approval_status := ''approved''\<rparr>)
              (\<lambda>x1. (validate_handoff env x1, x1))) x)"

definition audit_material ::
  "validator \<Rightarrow> texts \<Rightarrow> checkout \<Rightarrow> string \<Rightarrow> string \<Rightarrow> candidate \<Rightarrow> json \<Rightarrow> json \<Rightarrow> json \<Rightarrow> specialist_handoff \<Rightarrow> handoff_outcome" where
  "audit_material env tx ck now_iso auditor_id ca approved_ops ops limits x =
     (case text_field (sh_sender x) ''identifier'' [] of
        Inl e \<Rightarrow> (Inl e, x)
      | Inr sender \<Rightarrow>
          if material_modified ca approved_ops ops limits (strip sender) x then
            let reason = ''Material plan field changed; reapproval is required before execution.'' in
            reject_handoff now_iso auditor_id reason reason (MaterialPlanModifiedError reason) (x\<lparr>sh_approval_status := ''reapproval_required''\<rparr>)
          else complete_handoff env tx ck now_iso auditor_id x)"

definition audit_operations ::
  "validator \<Rightarrow> texts \<Rightarrow> checkout \<Rightarrow> string \<Rightarrow> string \<Rightarrow> candidate \<Rightarrow> dict \<Rightarrow> json \<Rightarrow> specialist_handoff \<Rightarrow> handoff_outcome" where
  "audit_operations env tx ck now_iso auditor_id ca plan approved_ops x =
     (case bindE (case ca_operations ca of Some ops \<Rightarrow> Inr ops | None \<Rightarrow> list_field (sh_task x) ''operations'') (\<lambda>ops.
             bindE (checked_tools approved_ops ops) (\<lambda>bad. Inr (ops, bad))) of
        Inl e \<Rightarrow> (Inl e, x)
      | Inr (ops, Some tool) \<Rightarrow>
          expansion now_iso auditor_id (''Attempted authorization expansion: unapproved tool '' @ quoted (py_str tx tool) @
            '' not declared in approved action plan'') x
      | Inr (ops, None) \<Rightarrow>
          audit_material env tx ck now_iso auditor_id ca approved_ops ops (case dict_get plan ''limits'' of None \<Rightarrow> JObj [] | Some l \<Rightarrow> l) x)"

definition audit_plan ::
  "validator \<Rightarrow> texts \<Rightarrow> checkout \<Rightarrow> string \<Rightarrow> string \<Rightarrow> candidate \<Rightarrow> dict \<Rightarrow> specialist_handoff \<Rightarrow> handoff_outcome" where
  "audit_plan env tx ck now_iso auditor_id ca plan x =
     (case bindE (text_field (JObj plan) ''target'' []) (\<lambda>approved.
             bindE (list_field (JObj plan) ''operations'') (\<lambda>ops.
             bindE (if ca_target ca \<noteq> [] then Inr (ca_target ca) else text_field (sh_task x) ''target'' []) (\<lambda>checked.
               Inr (strip approved, ops, strip checked)))) of
        Inl e \<Rightarrow> (Inl e, x)
      | Inr (approved_target, approved_ops, check_target) \<Rightarrow>
          if check_target \<noteq> approved_target then
            expansion now_iso auditor_id (''Attempted authorization expansion: target '' @ quoted check_target @
              '' differs from approved plan target '' @ quoted approved_target) x
          else audit_operations env tx ck now_iso auditor_id ca plan approved_ops x)"

text \<open>The three reads of the checkout: the workflow target, the profile of the auditor, the workflow target again.\<close>

definition audit_and_approve_handoff ::
  "validator \<Rightarrow> texts \<Rightarrow> checkout \<Rightarrow> checkout \<Rightarrow> checkout \<Rightarrow> string \<Rightarrow> string \<Rightarrow> dict \<Rightarrow> candidate \<Rightarrow> specialist_handoff \<Rightarrow> handoff_outcome" where
  "audit_and_approve_handoff env tx ck ck' ck'' now_iso auditor_id plan ca x =
     (if sh_status x \<noteq> ''in_review''
      then (Inl (HandoffError (''Cannot audit handoff in status '' @ quoted (sh_status x) @ '', expected '' @ quoted ''in_review'')), x)
      else reject_if_lacking now_iso auditor_id (verify_workflow_target (v_sha env) tx ck x) (\<lambda>_.
        case get_specialist tx ck' auditor_id of
          Inl e \<Rightarrow> (Inl (HandoffCatalog e), x)
        | Inr _ \<Rightarrow> audit_plan env tx ck'' now_iso auditor_id ca plan x) x)"

section \<open>The whole triad\<close>

definition no_candidate :: candidate where
  "no_candidate = \<lparr>ca_target = [], ca_operations = None, ca_operator = None, ca_allowed_effects = None, ca_limits = None\<rparr>"

text \<open>A default that is not a string is no registered identifier.\<close>

definition triad_member :: "specialist_profile \<Rightarrow> string option \<Rightarrow> string \<Rightarrow> string \<Rightarrow> (handoff_exc, string) result" where
  "triad_member profile given k fallback =
     (case given of
        Some (c # cs) \<Rightarrow> Inr (c # cs)
      | _ \<Rightarrow> (case dict_get (case sp_triad_defaults profile of None \<Rightarrow> [] | Some d \<Rightarrow> d) k of
            None \<Rightarrow> Inr fallback
          | Some (JStr s) \<Rightarrow> Inr s
          | Some _ \<Rightarrow> Inl (HandoffCatalog CatalogOther)))"

record triad_world =
  tw_checkout :: "nat \<Rightarrow> checkout"
  tw_time :: "nat \<Rightarrow> string"
  tw_uuid :: "nat \<Rightarrow> string"

text \<open>What the whole workflow passes on to the proposal.\<close>

definition triad_proposal :: "proposal \<Rightarrow> proposal" where
  "triad_proposal p = p\<lparr>pr_required_capabilities := None, pr_operations := None, pr_deliverable := None, pr_handoff_id := None\<rparr>"

definition on_success :: "handoff_outcome \<Rightarrow> (specialist_handoff \<Rightarrow> (handoff_exc, 'a) result) \<Rightarrow> (handoff_exc, 'a) result" where
  "on_success out f = (case out of (Inl e, _) \<Rightarrow> Inl e | (Inr _, x) \<Rightarrow> f x)"

definition execute_triad_handoff_workflow ::
  "validator \<Rightarrow> texts \<Rightarrow> triad_world \<Rightarrow> dict \<Rightarrow> dict \<Rightarrow> proposal \<Rightarrow> string option \<Rightarrow> string option \<Rightarrow> json list \<Rightarrow> json list \<Rightarrow>
   (handoff_exc, specialist_handoff) result" where
  "execute_triad_handoff_workflow env tx tw eng plan p skeptic_id auditor_id envelopes findings =
     bindE (propose_specialist_handoff env tx (tw_checkout tw 0) (tw_time tw 0) (tw_uuid tw 0) eng plan (triad_proposal p)) (\<lambda>x0.
     bindE (chosen_specialist p) (\<lambda>spec_id.
     bindE (catalogE (get_specialist tx (tw_checkout tw 1) spec_id)) (\<lambda>profile.
     on_success (accept_specialist_handoff env tx (tw_checkout tw 2) (tw_checkout tw 3) (tw_time tw 1) spec_id x0) (\<lambda>x1.
     bindE (triad_member profile skeptic_id ''skeptic_profile_id'' ''cops-threat-hunter'') (\<lambda>skeptic.
     on_success (review_with_skeptic env tx (tw_checkout tw 4) (tw_checkout tw 5) (\<lambda>n. tw_uuid tw (Suc n)) (tw_time tw 2) skeptic
         \<lparr>rw_evidence_envelopes = envelopes, rw_findings = findings, rw_contradictory_evidence = [], rw_objection = []\<rparr> x1) (\<lambda>x2.
     bindE (triad_member profile auditor_id ''auditor_profile_id'' ''cops-compliance-auditor'') (\<lambda>auditor.
     on_success (audit_and_approve_handoff env tx (tw_checkout tw 6) (tw_checkout tw 7) (tw_checkout tw 8) (tw_time tw 3) auditor plan
         no_candidate x2) Inr)))))))"

end
