(* ===== verification/Handoff_Props.thy ===== *)
theory Handoff_Props
  imports Handoff Canonical_Size
begin

text \<open>
  What a completed handoff guarantees, what a refused operation leaves behind, and the order of the whole
  triad. The moves of a handoff are opened once (\<open>transition_facts\<close>, \<open>ends\<close>).
\<close>

section \<open>Moves\<close>

lemma transition_facts:
  assumes "SpecialistHandoff_transition_to now_iso next_state actor notes x = (r, x')"
  obtains (refused) c where "r = Inl c" "x' = x"
  | (moved) es where "r = Inr ()" "sh_transition_log x = JList es"
      "x' = x\<lparr>sh_transition_log := JList (es @ [log_entry now_iso (sh_status x) next_state actor notes]), sh_status := next_state\<rparr>"
proof (cases "moved ''specialist_handoff'' (sh_status x) next_state")
  case (Inl c)
  then show ?thesis using assms refused [of c] by (simp add: SpecialistHandoff_transition_to_def)
next
  case (Inr st)
  then have "st = next_state" by (simp add: moved_def split: sum.splits)
  note t = assms [unfolded SpecialistHandoff_transition_to_def Inr this sum.case]
  show ?thesis
  proof (cases "\<exists>es. sh_transition_log x = JList es")
    case True
    then obtain es where es: "sh_transition_log x = JList es" by blast
    show ?thesis by (rule moved [OF _ es]) (use t es in simp_all)
  next
    case False
    then have "r = Inl (Evidence ValueTypeError)" "x' = x" using t by (auto split: json.splits)
    then show ?thesis by (rule refused)
  qed
qed

text \<open>How an operation ends. With an error the handoff is unmoved (\<open>same\<close>), or rejected with a reason, or the error was raised
  after the move (\<open>late\<close>), as the validation at the end does; otherwise a property of the new handoff holds (\<open>good\<close>).\<close>

definition ends ::
  "(specialist_handoff \<Rightarrow> bool) \<Rightarrow> (handoff_exc \<Rightarrow> specialist_handoff \<Rightarrow> bool) \<Rightarrow> (specialist_handoff \<Rightarrow> bool) \<Rightarrow> handoff_outcome \<Rightarrow> bool" where
  "ends same late good out =
     (case out of
        (Inl e, x') \<Rightarrow> same x' \<or> sh_status x' = ''rejected'' \<and> sh_rejection_reason x' \<noteq> JNull \<or> late e x'
      | (Inr _, x') \<Rightarrow> good x')"

lemma ends_same [simp]: "same x \<Longrightarrow> ends same late good (Inl e, x)"
  by (simp add: ends_def)

lemma ends_late: "late e x' \<Longrightarrow> ends same late good (Inl e, x')"
  by (simp add: ends_def)

lemma reject_ends: "same y \<Longrightarrow> ends same late good (reject_handoff now_iso actor notes reason e y)"
proof -
  obtain r x' where t: "SpecialistHandoff_transition_to now_iso ''rejected'' actor (Some notes) y = (r, x')" by fastforce
  assume "same y"
  then show ?thesis by (cases rule: transition_facts [OF t]) (auto simp: reject_handoff_def ends_def t)
qed

lemma ends_lacking:
  assumes "same x" "\<And>a. r = Inr a \<Longrightarrow> ends same late good (f a)"
  shows "ends same late good (reject_if_lacking now_iso actor r f x)"
  using assms by (auto simp: reject_if_lacking_def intro: reject_ends split: sum.split handoff_exc.split)

lemma ends_move:
  assumes "same y" "\<And>es. sh_transition_log y = JList es \<Longrightarrow> ends same late good (f (y\<lparr>sh_transition_log :=
      JList (es @ [log_entry now_iso (sh_status y) next_state actor (Some notes)]), sh_status := next_state\<rparr>))"
  shows "ends same late good (move_handoff now_iso next_state actor notes y f)"
proof -
  obtain r x' where t: "SpecialistHandoff_transition_to now_iso next_state actor (Some notes) y = (r, x')" by fastforce
  then show ?thesis using assms
    by (cases rule: transition_facts [OF t]) (auto simp: move_handoff_def)
qed

lemma ends_validated:
  "(validate_handoff env x' = Inr () \<Longrightarrow> good x') \<Longrightarrow> (\<And>e. validate_handoff env x' = Inl e \<Longrightarrow> late e x') \<Longrightarrow>
   ends same late good (validate_handoff env x', x')"
  by (cases "validate_handoff env x'") (auto simp: ends_def)

lemma endsD: "ends same late good out \<Longrightarrow> out = (Inr u, x') \<Longrightarrow> good x'"
  by (simp add: ends_def)

section \<open>Audit\<close>

definition limits_of_plan :: "dict \<Rightarrow> json" where
  "limits_of_plan plan = (case dict_get plan ''limits'' of None \<Rightarrow> JObj [] | Some l \<Rightarrow> l)"

text \<open>The material fields are those of the approved plan: the candidate's target and operations where a candidate is given,
  the task's own otherwise; a candidate operator is the sender, candidate limits are the plan's, no effects are given.\<close>

definition within_plan :: "candidate \<Rightarrow> dict \<Rightarrow> specialist_handoff \<Rightarrow> bool" where
  "within_plan ca plan x \<longleftrightarrow>
     (\<exists>approved checked. text_field (JObj plan) ''target'' [] = Inr approved \<and> strip checked = strip approved \<and>
        (if ca_target ca \<noteq> [] then checked = ca_target ca else text_field (sh_task x) ''target'' [] = Inr checked)) \<and>
     (\<exists>approved ops. list_field (JObj plan) ''operations'' = Inr approved \<and> py_eq ops approved \<and>
        (case ca_operations ca of Some c \<Rightarrow> ops = c | None \<Rightarrow> list_field (sh_task x) ''operations'' = Inr ops)) \<and>
     (case ca_operator ca of None \<Rightarrow> True
      | Some who \<Rightarrow> (\<exists>sender. text_field (sh_sender x) ''identifier'' [] = Inr sender \<and> strip who = strip sender)) \<and>
     ca_allowed_effects ca = None \<and> (case ca_limits ca of None \<Rightarrow> True | Some l \<Rightarrow> py_eq l (limits_of_plan plan)) \<and>
     sh_approval_status x \<noteq> ''reapproval_required''"

text \<open>What an audit that completes the handoff has checked and does; \<open>ck\<close>, \<open>ck'\<close> and \<open>ck''\<close> are the checkouts of its three looks.\<close>

definition has_deliverable :: "specialist_handoff \<Rightarrow> bool" where
  "has_deliverable x \<longleftrightarrow> (\<exists>s. handoff_get (sh_task x) ''deliverable'' = Inr (Some (JStr s)) \<and> strip s \<noteq> [])"

definition audit_checks ::
  "validator \<Rightarrow> texts \<Rightarrow> checkout \<Rightarrow> checkout \<Rightarrow> checkout \<Rightarrow> string \<Rightarrow> dict \<Rightarrow> candidate \<Rightarrow> specialist_handoff \<Rightarrow> bool" where
  "audit_checks env tx ck ck' ck'' auditor_id plan ca x \<longleftrightarrow>
     sh_status x = ''in_review'' \<and> is_ok (get_specialist tx ck' auditor_id) \<and> within_plan ca plan x \<and> has_deliverable x \<and>
     verify_workflow_target (v_sha env) tx ck x = Inr () \<and> verify_workflow_target (v_sha env) tx ck'' x = Inr ()"

definition completion :: "string \<Rightarrow> string \<Rightarrow> specialist_handoff \<Rightarrow> specialist_handoff \<Rightarrow> bool" where
  "completion now_iso auditor_id x x' \<longleftrightarrow>
     (\<exists>es. sh_transition_log x = JList es \<and>
        x' = x\<lparr>sh_approval_status := ''approved'', sh_status := ''completed'', sh_transition_log :=
          JList (es @ [log_entry now_iso ''in_review'' ''completed'' auditor_id (Some (''Audited and approved by '' @ auditor_id))])\<rparr>)"

text \<open>The end of an audit: completed and valid, or an error that leaves the handoff as it was but for its approval status, or
  rejects it, or comes from the validation of a handoff that passed all checks.\<close>

definition audit_ends ::
  "validator \<Rightarrow> texts \<Rightarrow> checkout \<Rightarrow> checkout \<Rightarrow> checkout \<Rightarrow> string \<Rightarrow> string \<Rightarrow> dict \<Rightarrow> candidate \<Rightarrow> specialist_handoff \<Rightarrow> handoff_outcome \<Rightarrow> bool" where
  "audit_ends env tx ck ck' ck'' now_iso auditor_id plan ca x =
     ends (\<lambda>x'. x' = x\<lparr>sh_approval_status := sh_approval_status x'\<rparr>)
       (\<lambda>e x'. audit_checks env tx ck ck' ck'' auditor_id plan ca x \<and> completion now_iso auditor_id x x' \<and> validate_handoff env x' = Inl e)
       (\<lambda>x'. audit_checks env tx ck ck' ck'' auditor_id plan ca x \<and> completion now_iso auditor_id x x' \<and> validate_handoff env x' = Inr ())"

lemma complete_ends:
  assumes "sh_status x = ''in_review''" "is_ok (get_specialist tx ck' auditor_id)"
    and "within_plan ca plan x" "verify_workflow_target (v_sha env) tx ck x = Inr ()"
  shows "audit_ends env tx ck ck' ck'' now_iso auditor_id plan ca x (complete_handoff env tx ck'' now_iso auditor_id x)"
proof -
  have "audit_ends env tx ck ck' ck'' now_iso auditor_id plan ca x (reject_if_lacking now_iso auditor_id
      (verify_workflow_target (v_sha env) tx ck'' x) (\<lambda>_. move_handoff now_iso ''completed'' auditor_id (''Audited and approved by '' @ auditor_id)
        (x\<lparr>sh_approval_status := ''approved''\<rparr>) (\<lambda>x1. (validate_handoff env x1, x1))) x)" if "has_deliverable x"
    unfolding audit_ends_def
  proof (rule ends_lacking, simp, rule ends_move, simp, goal_cases)
    case (1 u es)
    show ?case by (rule ends_validated) (use assms that 1 in \<open>auto simp: audit_checks_def completion_def\<close>)
  qed
  moreover have "audit_ends env tx ck ck' ck'' now_iso auditor_id plan ca x (reject_handoff now_iso auditor_id r r e x)" for r e
    unfolding audit_ends_def by (rule reject_ends) simp
  ultimately show ?thesis
    by (auto simp: complete_handoff_def has_deliverable_def audit_ends_def Let_def split: sum.split option.split json.split)
qed

lemma material_ends:
  assumes x: "sh_status x = ''in_review''" "is_ok (get_specialist tx ck' auditor_id)" "verify_workflow_target (v_sha env) tx ck x = Inr ()"
    and target: "text_field (JObj plan) ''target'' [] = Inr approved" "strip checked = strip approved"
      "if ca_target ca \<noteq> [] then checked = ca_target ca else text_field (sh_task x) ''target'' [] = Inr checked"
    and ops: "list_field (JObj plan) ''operations'' = Inr aops"
      "case ca_operations ca of Some c \<Rightarrow> ops = c | None \<Rightarrow> list_field (sh_task x) ''operations'' = Inr ops"
  shows "audit_ends env tx ck ck' ck'' now_iso auditor_id plan ca x
    (audit_material env tx ck'' now_iso auditor_id ca aops ops (limits_of_plan plan) x)"
proof (cases "text_field (sh_sender x) ''identifier'' []")
  case (Inr sender)
  show ?thesis
  proof (cases "material_modified ca aops ops (limits_of_plan plan) (strip sender) x")
    case True
    then show ?thesis unfolding audit_ends_def by (simp add: audit_material_def Inr Let_def reject_ends)
  next
    case False
    then have "within_plan ca plan x" unfolding within_plan_def
      using target ops Inr by (auto simp: material_modified_def split: option.splits)
    then show ?thesis using complete_ends [OF x(1,2) _ x(3)] Inr False by (simp add: audit_material_def)
  qed
qed (simp add: audit_material_def audit_ends_def)

lemma expansion_ends: "audit_ends env tx ck ck' ck'' now_iso auditor_id plan ca x (expansion now_iso auditor_id reason x)"
  unfolding audit_ends_def expansion_def by (rule reject_ends) simp

lemma audit_error: "audit_ends env tx ck ck' ck'' now_iso auditor_id plan ca x (Inl e, x)"
  by (simp add: audit_ends_def)

lemma audit_plan_ends:
  assumes x: "sh_status x = ''in_review''" "is_ok (get_specialist tx ck' auditor_id)" "verify_workflow_target (v_sha env) tx ck x = Inr ()"
  shows "audit_ends env tx ck ck' ck'' now_iso auditor_id plan ca x (audit_plan env tx ck'' now_iso auditor_id ca plan x)"
proof -
  have ops: "audit_ends env tx ck ck' ck'' now_iso auditor_id plan ca x (audit_operations env tx ck'' now_iso auditor_id ca plan aops x)"
    if "text_field (JObj plan) ''target'' [] = Inr approved" "strip checked = strip approved"
      "if ca_target ca \<noteq> [] then checked = ca_target ca else text_field (sh_task x) ''target'' [] = Inr checked"
      "list_field (JObj plan) ''operations'' = Inr aops" for approved checked aops
    using material_ends [OF x that]
    by (auto simp: audit_operations_def limits_of_plan_def expansion_ends audit_error bindE_Inr_iff split: sum.split option.splits)
  show ?thesis
    by (auto simp: audit_plan_def expansion_ends audit_error bindE_Inr_iff split: sum.split if_splits intro: ops)
qed

lemma completed_ends:
  "audit_ends env tx ck ck' ck'' now_iso auditor_id plan ca x (audit_and_approve_handoff env tx ck ck' ck'' now_iso auditor_id plan ca x)"
proof (cases "sh_status x = ''in_review''")
  case True
  have "audit_ends env tx ck ck' ck'' now_iso auditor_id plan ca x (case get_specialist tx ck' auditor_id of
      Inl e \<Rightarrow> (Inl (HandoffCatalog e), x) | Inr _ \<Rightarrow> audit_plan env tx ck'' now_iso auditor_id ca plan x)"
    if "verify_workflow_target (v_sha env) tx ck x = Inr ()"
    using audit_plan_ends [OF True _ that] by (cases "get_specialist tx ck' auditor_id") (simp_all add: audit_error is_ok_iff)
  then show ?thesis using True unfolding audit_and_approve_handoff_def audit_ends_def by (auto intro!: ends_lacking)
qed (simp add: audit_and_approve_handoff_def audit_error)

text \<open>
  C30. An audit completes a handoff only when all its checks passed. For every task, candidate, plan and state of the
  checkout, an audit that returns has completed and validated the handoff, and then the handoff was in review, the auditor is registered, the
  target and operations that were compared - the candidate's where a candidate gives them, the handoff's own otherwise - are those of
  the approved plan, a candidate operator is the sender, no candidate effects were given, candidate limits are the plan's, no reapproval was
  pending, the deliverable is not blank, and the workflow target matched the accepted checksum and the local implementation both before and
  after the checks. An audit that raises leaves the handoff as it was but for its approval status, or rejected with a reason,
  or completed, all checks passed, with the error of the final validation: no handoff becomes completed without the checks.
\<close>

theorem completed_within_plan:
  "case audit_and_approve_handoff env tx ck ck' ck'' now_iso auditor_id plan ca x of
     (Inl e, x') \<Rightarrow> x' = x\<lparr>sh_approval_status := sh_approval_status x'\<rparr> \<or>
       sh_status x' = ''rejected'' \<and> sh_rejection_reason x' \<noteq> JNull \<or>
       audit_checks env tx ck ck' ck'' auditor_id plan ca x \<and> completion now_iso auditor_id x x' \<and> validate_handoff env x' = Inl e
   | (Inr _, x') \<Rightarrow>
       audit_checks env tx ck ck' ck'' auditor_id plan ca x \<and> completion now_iso auditor_id x x' \<and> validate_handoff env x' = Inr ()"
  using completed_ends [of env tx ck ck' ck'' now_iso auditor_id plan ca x] unfolding audit_ends_def ends_def .

section \<open>Acceptance and review\<close>

definition accepted_by ::
  "validator \<Rightarrow> texts \<Rightarrow> checkout \<Rightarrow> string \<Rightarrow> string \<Rightarrow> specialist_handoff \<Rightarrow> specialist_handoff \<Rightarrow> bool" where
  "accepted_by env tx ck now_iso specialist_id x x' \<longleftrightarrow>
     sh_status x = ''proposed'' \<and> sh_status x' = ''accepted'' \<and> validate_handoff env x' = Inr () \<and>
     (\<exists>t resolved h es. handoff_get (sh_task x) ''workflow_target'' = Inr (Some t) \<and>
        resolve_workflow_target (v_sha env) tx ck t specialist_id = Inr resolved \<and>
        workflow_target_checksum (v_sha env) (JObj resolved) = Inr h \<and> sh_transition_log x = JList es \<and>
        x' = set_last_checksum h ((set_task_target resolved x)\<lparr>sh_transition_log := JList (es @
          [log_entry now_iso ''proposed'' ''accepted'' specialist_id (Some (''Accepted by '' @ specialist_id @ '' with full capability coverage''))]),
          sh_status := ''accepted''\<rparr>))"

lemma set_task_target_fields [simp]:
  "sh_status (set_task_target t x) = sh_status x" "sh_transition_log (set_task_target t x) = sh_transition_log x"
  by (simp_all add: set_task_target_def split: json.split)

lemma set_last_checksum_status [simp]: "sh_status (set_last_checksum h x) = sh_status x"
  by (simp add: set_last_checksum_def split: json.split list.split)

definition stays :: "specialist_handoff \<Rightarrow> specialist_handoff \<Rightarrow> bool" where
  "stays x x' \<longleftrightarrow> sh_status x' = sh_status x \<and> sh_transition_log x' = sh_transition_log x"

lemma stays_refl [simp]: "stays x x"
  by (simp add: stays_def)

abbreviation accept_ends ::
  "validator \<Rightarrow> texts \<Rightarrow> checkout \<Rightarrow> string \<Rightarrow> string \<Rightarrow> specialist_handoff \<Rightarrow> handoff_outcome \<Rightarrow> bool" where
  "accept_ends env tx ck now_iso specialist_id x \<equiv>
     ends (stays x) (\<lambda>_ x'. sh_status x' = ''accepted'') (accepted_by env tx ck now_iso specialist_id x)"

lemma accept_resolved_ends:
  assumes "sh_status x = ''proposed''" "handoff_get (sh_task x) ''workflow_target'' = Inr (Some t)"
    and "resolve_workflow_target (v_sha env) tx ck t specialist_id = Inr resolved"
  shows "accept_ends env tx ck now_iso specialist_id x (accept_resolved env now_iso specialist_id resolved x)"
  unfolding accept_resolved_def
proof (rule ends_move, simp add: stays_def, goal_cases)
  case (1 es)
  show ?case
  proof (cases "workflow_target_checksum (v_sha env) (JObj resolved)")
    case (Inr h)
    then show ?thesis unfolding Let_def
      by (simp, intro ends_validated) (use assms 1 in \<open>simp_all add: accepted_by_def\<close>)
  qed (simp add: ends_late)
qed

lemma accept_covered_ends:
  assumes "sh_status x = ''proposed''"
  shows "accept_ends env tx ck now_iso specialist_id x (accept_covered env tx ck now_iso specialist_id x profile)"
proof -
  have "accept_ends env tx ck now_iso specialist_id x (reject_if_lacking now_iso specialist_id
      (bindE (handoff_get (sh_task x) ''workflow_target'') (\<lambda>t.
         resolve_workflow_target (v_sha env) tx ck (case t of None \<Rightarrow> JNull | Some v \<Rightarrow> v) specialist_id))
      (\<lambda>resolved. accept_resolved env now_iso specialist_id resolved x) x)"
  proof (rule ends_lacking, simp, goal_cases)
    case (1 resolved)
    then obtain t where t: "handoff_get (sh_task x) ''workflow_target'' = Inr t"
        "resolve_workflow_target (v_sha env) tx ck (case t of None \<Rightarrow> JNull | Some v \<Rightarrow> v) specialist_id = Inr resolved"
      by (auto simp: bindE_Inr_iff)
    then obtain v where "t = Some v" by (cases t) (simp_all add: resolve_workflow_target_def lacking_def)
    then show ?case using accept_resolved_ends [OF assms] t by simp
  qed
  then show ?thesis by (simp add: accept_covered_def Let_def reject_ends split: sum.split)
qed

lemma accepted_ends: "accept_ends env tx ck' now_iso specialist_id x (accept_specialist_handoff env tx ck ck' now_iso specialist_id x)"
  using accept_covered_ends [of x]
  by (auto simp: accept_specialist_handoff_def Let_def reject_ends split: sum.split catalog_exc.split)

definition reviewed_by ::
  "validator \<Rightarrow> texts \<Rightarrow> checkout \<Rightarrow> string \<Rightarrow> string \<Rightarrow> specialist_handoff \<Rightarrow> specialist_handoff \<Rightarrow> bool" where
  "reviewed_by env tx ck now_iso skeptic_id x x' \<longleftrightarrow>
     sh_status x = ''accepted'' \<and> verify_workflow_target (v_sha env) tx ck x = Inr () \<and> validate_handoff env x' = Inr () \<and>
     (\<exists>es evidence. sh_transition_log x = JList es \<and>
        x' = x\<lparr>sh_evidence := evidence, sh_transition_log := JList (es @
          [log_entry now_iso ''accepted'' ''in_review'' skeptic_id (Some (''Skeptic review passed by '' @ skeptic_id))]), sh_status := ''in_review''\<rparr>)"

abbreviation review_ends ::
  "validator \<Rightarrow> texts \<Rightarrow> checkout \<Rightarrow> string \<Rightarrow> string \<Rightarrow> specialist_handoff \<Rightarrow> handoff_outcome \<Rightarrow> bool" where
  "review_ends env tx ck now_iso skeptic_id x \<equiv>
     ends (stays x) (\<lambda>_ x'. sh_status x' = ''in_review'') (reviewed_by env tx ck now_iso skeptic_id x)"

lemma attach_ends:
  assumes "sh_status x = ''accepted''" "verify_workflow_target (v_sha env) tx ck x = Inr ()"
  shows "review_ends env tx ck now_iso skeptic_id x (attach_evidence env tx now_iso skeptic_id refs findings x)"
proof -
  have "review_ends env tx ck now_iso skeptic_id x
      (move_handoff now_iso ''in_review'' skeptic_id (''Skeptic review passed by '' @ skeptic_id) (x\<lparr>sh_evidence := evidence\<rparr>)
        (\<lambda>x1. (validate_handoff env x1, x1)))" for evidence
  proof (rule ends_move, simp add: stays_def, goal_cases)
    case (1 es)
    show ?case by (rule ends_validated) (use assms 1 in \<open>simp_all add: reviewed_by_def, intro exI [of _ evidence] refl\<close>)
  qed
  then show ?thesis by (auto simp: attach_evidence_def Let_def split: sum.split)
qed

lemma reviewed_ends:
  "review_ends env tx ck now_iso skeptic_id x (review_with_skeptic env tx ck ck' fresh now_iso skeptic_id rw x)"
proof (cases "sh_status x = ''accepted''")
  case True
  have "review_ends env tx ck now_iso skeptic_id x (review_evidence env tx fresh now_iso skeptic_id rw x)"
    if "verify_workflow_target (v_sha env) tx ck x = Inr ()"
    using attach_ends [OF True that]
    by (auto simp: review_evidence_def Let_def reject_ends split: sum.split handoff_exc.split)
  then show ?thesis using True unfolding review_with_skeptic_def
    by (auto intro!: ends_lacking split: sum.split)
qed (simp add: review_with_skeptic_def)

section \<open>The whole triad\<close>

definition doc_text_of :: "json \<Rightarrow> string \<Rightarrow> string" where
  "doc_text_of v k = (case v of JObj d \<Rightarrow> (case dict_get d k of Some (JStr s) \<Rightarrow> s | _ \<Rightarrow> []) | _ \<Rightarrow> [])"

definition log_steps :: "specialist_handoff \<Rightarrow> (string \<times> string) list" where
  "log_steps x = (case sh_transition_log x of
     JList es \<Rightarrow> map (\<lambda>e. (doc_text_of e ''to_status'', doc_text_of e ''actor'')) es | _ \<Rightarrow> [])"

lemma on_success_Inr_iff: "on_success out f = Inr y \<longleftrightarrow> (\<exists>u x. out = (Inr u, x) \<and> f x = Inr y)"
  by (auto simp: on_success_def split: prod.splits sum.splits)

lemma entry_step [simp]:
  "doc_text_of (log_entry now_iso a b actor notes) ''to_status'' = b" "doc_text_of (log_entry now_iso a b actor notes) ''actor'' = actor"
  by (simp_all add: doc_text_of_def log_entry_def)

lemma checksum_step:
  assumes "sh_transition_log y = JList (es @ [log_entry now_iso a b actor notes])"
  shows "log_steps (set_last_checksum h y) = log_steps y"
proof -
  obtain d where d: "log_entry now_iso a b actor notes = JObj d" by (simp add: log_entry_def)
  then have "log_steps (set_last_checksum h y) = map (\<lambda>e. (doc_text_of e ''to_status'', doc_text_of e ''actor''))
      (es @ [JObj (dict_set ''workflow_target_checksum'' (JStr h) d)])"
    using assms by (simp add: set_last_checksum_def log_steps_def)
  then show ?thesis using assms d by (simp add: log_steps_def doc_text_of_def dict_get_set)
qed

lemma accepted_steps:
  assumes "accepted_by env tx ck now_iso specialist_id x x'"
  shows "log_steps x' = log_steps x @ [(''accepted'', specialist_id)]"
proof -
  from assms obtain resolved h es where es: "sh_transition_log x = JList es"
    and x': "x' = set_last_checksum h ((set_task_target resolved x)\<lparr>sh_transition_log := JList (es @
      [log_entry now_iso ''proposed'' ''accepted'' specialist_id (Some (''Accepted by '' @ specialist_id @ '' with full capability coverage''))]),
      sh_status := ''accepted''\<rparr>)" unfolding accepted_by_def by blast
  show ?thesis unfolding x' by (subst checksum_step, simp) (simp add: log_steps_def es)
qed

lemma reviewed_steps: "reviewed_by env tx ck now_iso skeptic_id x x' \<Longrightarrow> log_steps x' = log_steps x @ [(''in_review'', skeptic_id)]"
  by (auto simp: reviewed_by_def log_steps_def)

lemma within_plan_kept:
  "within_plan ca plan x \<Longrightarrow> sh_task x' = sh_task x \<Longrightarrow> sh_sender x' = sh_sender x \<Longrightarrow> sh_approval_status x' \<noteq> ''reapproval_required'' \<Longrightarrow>
   within_plan ca plan x'"
  by (simp only: within_plan_def simp_thms)

lemma completion_facts:
  assumes "audit_checks env tx ck ck' ck'' auditor_id plan ca x \<and> completion now_iso auditor_id x x' \<and> valid"
  shows "log_steps x' = log_steps x @ [(''completed'', auditor_id)]" "sh_status x' = ''completed''" "sh_approval_status x' = ''approved''"
    "within_plan ca plan x'"
  using assms by (auto simp: audit_checks_def completion_def log_steps_def elim: within_plan_kept)

lemma proposed_steps:
  "propose_specialist_handoff env tx ck now_iso uuid eng plan p = Inr x \<Longrightarrow> log_steps x = [(''proposed'', pr_sender_id p)]"
  by (auto simp: propose_specialist_handoff_def bindE_Inr_iff Let_def log_steps_def split: if_splits)

text \<open>
  C31. A handoff that comes out of the whole workflow went through all four hands in order: it was proposed by the planner,
  accepted by the chosen specialist, reviewed by the skeptic and completed by the auditor, each recorded once; it is approved, and
  the target and operations of its task are those of the plan.
\<close>

theorem triad_runs_in_order:
  assumes "execute_triad_handoff_workflow env tx tw eng plan p skeptic_id auditor_id envelopes findings = Inr x"
  shows "\<exists>specialist skeptic auditor. pr_specialist_id p = Some specialist \<and>
    log_steps x = [(''proposed'', pr_sender_id p), (''accepted'', specialist), (''in_review'', skeptic), (''completed'', auditor)] \<and>
    sh_status x = ''completed'' \<and> sh_approval_status x = ''approved'' \<and> within_plan no_candidate plan x"
proof -
  from assms obtain x0 spec skeptic auditor u1 u2 u3 x1 x2 where
      x0: "propose_specialist_handoff env tx (tw_checkout tw 0) (tw_time tw 0) (tw_uuid tw 0) eng plan (triad_proposal p) = Inr x0"
      "chosen_specialist p = Inr spec"
    and x1: "accept_specialist_handoff env tx (tw_checkout tw 2) (tw_checkout tw 3) (tw_time tw 1) spec x0 = (Inr u1, x1)"
    and x2: "review_with_skeptic env tx (tw_checkout tw 4) (tw_checkout tw 5) (\<lambda>n. tw_uuid tw (Suc n)) (tw_time tw 2) skeptic
        \<lparr>rw_evidence_envelopes = envelopes, rw_findings = findings, rw_contradictory_evidence = [], rw_objection = []\<rparr> x1 = (Inr u2, x2)"
    and x3: "audit_and_approve_handoff env tx (tw_checkout tw 6) (tw_checkout tw 7) (tw_checkout tw 8) (tw_time tw 3) auditor plan
        no_candidate x2 = (Inr u3, x)"
    unfolding execute_triad_handoff_workflow_def bindE_Inr_iff on_success_Inr_iff sum.inject by blast
  have spec: "pr_specialist_id p = Some spec" using x0(2) by (simp add: chosen_specialist_def split: option.splits)
  note a = completion_facts [OF endsD [OF completed_ends [unfolded audit_ends_def] x3]]
  have "log_steps x = [(''proposed'', pr_sender_id p), (''accepted'', spec), (''in_review'', skeptic), (''completed'', auditor)]"
    using a(1) reviewed_steps [OF endsD [OF reviewed_ends x2]] accepted_steps [OF endsD [OF accepted_ends x1]] proposed_steps [OF x0(1)]
    by (simp add: triad_proposal_def)
  then show ?thesis using spec a by blast
qed

section \<open>An example\<close>

definition demo_texts :: texts where
  "demo_texts = \<lparr>tx_str = (\<lambda>_. []), tx_repr = (\<lambda>_. []), tx_set_list = (\<lambda>xs. xs)\<rparr>"

definition open_validator :: validator where
  "open_validator = \<lparr>v_search = (\<lambda>_ _. True), v_schemas = (\<lambda>_. Some (JObj [])), v_sha = (\<lambda>_. ''0''), v_semantics = (\<lambda>_ _. Inr ())\<rparr>"

definition registry_entry :: "string \<Rightarrow> json" where
  "registry_entry i = JObj [(''id'', JStr i), (''display_name'', JStr i), (''domain'', JStr ''d''), (''criticality'', JStr ''normal''),
     (''interactive_authorization_required'', JBool True), (''description'', JStr ''e''), (''primary_plugin'', JStr ''p''),
     (''skills'', JList [JStr ''sk'']), (''tools'', JList []), (''contract_file'', JStr ''c'')]"

definition skill_bytes :: "nat list" where
  "skill_bytes = utf8 (''---'' @ [char_of (10 :: nat)] @ ''name: sk'' @ [char_of (10 :: nat)] @ ''---'')"

definition demo_checkout :: checkout where
  "demo_checkout = \<lparr>ck_path = ''r'', ck_registry = RegistryJson (JObj [(''specialists'', JList [registry_entry ''s'', registry_entry ''k'', registry_entry ''u''])]),
     ck_capabilities = Some (JObj [(''capabilities'', JList [JObj [(''id'', JStr ''s''), (''kind'', JStr ''specialist'')]])]),
     ck_skill = (\<lambda>_. SkillFile skill_bytes)\<rparr>"

definition demo_profile :: "string \<Rightarrow> specialist_profile" where
  "demo_profile i = \<lparr>sp_id = i, sp_display_name = i, sp_domain = ''d'', sp_criticality = ''normal'', sp_interactive_authorization_required = True,
     sp_description = ''e'', sp_primary_plugin = ''p'', sp_skills = [''sk''], sp_tools = [], sp_contract_file = ''c'', sp_intent_keywords = [],
     sp_triad_defaults = None, sp_symptom_triggers = [], sp_artifact_triggers = [], sp_anti_triggers = [], sp_example_prompts = [],
     sp_purpose = ''e'', sp_required_permissions = [], sp_capabilities = []\<rparr>"

lemma demo_specialists:
  "get_specialist demo_texts demo_checkout ''s'' = Inr (demo_profile ''s'')"
  "get_specialist demo_texts demo_checkout ''k'' = Inr (demo_profile ''k'')"
  "get_specialist demo_texts demo_checkout ''u'' = Inr (demo_profile ''u'')"
  by code_simp+

definition demo_target :: dict where
  "demo_target = [(''skill_id'', JStr ''sk''), (''capability_id'', JStr ''s''), (''implementation'', JStr ''.agents/skills/sk/SKILL.md''),
     (''implementation_digest'', JStr ''sha256:0'')]"

lemma target_resolved: "resolve_workflow_target (\<lambda>_. ''0'') demo_texts demo_checkout (JObj [(''skill_id'', JStr ''sk''), (''capability_id'', JStr ''s'')]) ''s'' = Inr demo_target"
  "resolve_workflow_target (\<lambda>_. ''0'') demo_texts demo_checkout (JObj demo_target) ''s'' = Inr demo_target"
  by code_simp+

definition demo_task :: "dict \<Rightarrow> json" where
  "demo_task target = JObj [(''task_description'', JStr ''t''), (''target'', JStr ''h''), (''required_capabilities'', JList [JStr ''sk'']),
     (''operations'', JList []), (''deliverable'', JStr ''Technical findings and verification evidence for h''), (''workflow_target'', JObj target)]"

definition demo_handoff :: "string \<Rightarrow> dict \<Rightarrow> json list \<Rightarrow> json \<Rightarrow> specialist_handoff" where
  "demo_handoff status target entries evidence = \<lparr>sh_schema_version = ''cops.specialist-handoff/v1'', sh_handoff_id = ''hnd-aaaa'', sh_engagement_id = ''eng-demo'',
     sh_action_plan_id = ''plan-demo'', sh_status = status, sh_sender = JObj [(''role'', JStr ''planner''), (''identifier'', JStr ''op'')],
     sh_recipient = JObj [(''role'', JStr ''specialist''), (''specialist_id'', JStr ''s'')], sh_task = demo_task target,
     sh_material_plan_digest = ''sha256:0'', sh_approval_status = ''approved'', sh_created_at = ''n'', sh_transition_log = JList entries,
     sh_evidence = evidence, sh_rejection_reason = JNull\<rparr>"

definition accepted_entry :: dict where
  "accepted_entry = [(''from_status'', JStr ''proposed''), (''to_status'', JStr ''accepted''), (''actor'', JStr ''s''), (''timestamp'', JStr ''n''),
     (''notes'', JStr ''Accepted by s with full capability coverage''), (''workflow_target_checksum'', JStr ''sha256:0'')]"

definition demo_entries :: "json list" where
  "demo_entries =
     [log_entry ''n'' ''none'' ''proposed'' ''op'' (Some ''Proposal created for specialist s''),
      JObj accepted_entry,
      log_entry ''n'' ''accepted'' ''in_review'' ''k'' (Some ''Skeptic review passed by k''),
      log_entry ''n'' ''in_review'' ''completed'' ''u'' (Some ''Audited and approved by u'')]"

definition no_evidence :: json where
  "no_evidence = JObj [(''evidence_envelopes'', JList []), (''findings'', JList [])]"

definition reviewed_evidence :: json where
  "reviewed_evidence = JObj [(''evidence_envelopes'', JList []), (''findings'', JList []), (''notes'', JStr ''Reviewed and verified by skeptic k'')]"

definition demo_open_target :: dict where
  "demo_open_target = [(''skill_id'', JStr ''sk''), (''capability_id'', JStr ''s'')]"

definition demo_proposed :: specialist_handoff where
  "demo_proposed = demo_handoff ''proposed'' demo_open_target (take 1 demo_entries) no_evidence"

definition demo_accepted :: specialist_handoff where
  "demo_accepted = demo_handoff ''accepted'' demo_target (take 2 demo_entries) no_evidence"

definition demo_reviewed :: specialist_handoff where
  "demo_reviewed = demo_handoff ''in_review'' demo_target (take 3 demo_entries) reviewed_evidence"

definition demo_completed :: specialist_handoff where
  "demo_completed = demo_handoff ''completed'' demo_target demo_entries reviewed_evidence"

lemmas demo_stage_defs = demo_proposed_def demo_accepted_def demo_reviewed_def demo_completed_def

lemmas demo_defs = demo_handoff_def demo_task_def demo_entries_def accepted_entry_def demo_open_target_def demo_target_def no_evidence_def reviewed_evidence_def
  SpecialistHandoff_to_dict_def log_entry_def opt_item_def

lemma proposed_canonical: "canonical (JObj (SpecialistHandoff_to_dict demo_proposed)) DEFAULT_BYTES DEFAULT_DEPTH
    = Inr (utf8 (dumps False (JObj (SpecialistHandoff_to_dict demo_proposed))))"
  by (rule canonical_small) (simp_all add: demo_stage_defs demo_defs limits_valid_def)

lemma accepted_canonical: "canonical (JObj (SpecialistHandoff_to_dict demo_accepted)) DEFAULT_BYTES DEFAULT_DEPTH
    = Inr (utf8 (dumps False (JObj (SpecialistHandoff_to_dict demo_accepted))))"
  by (rule canonical_small) (simp_all add: demo_stage_defs demo_defs limits_valid_def)

lemma reviewed_canonical: "canonical (JObj (SpecialistHandoff_to_dict demo_reviewed)) DEFAULT_BYTES DEFAULT_DEPTH
    = Inr (utf8 (dumps False (JObj (SpecialistHandoff_to_dict demo_reviewed))))"
  by (rule canonical_small) (simp_all add: demo_stage_defs demo_defs limits_valid_def)

lemma completed_canonical: "canonical (JObj (SpecialistHandoff_to_dict demo_completed)) DEFAULT_BYTES DEFAULT_DEPTH
    = Inr (utf8 (dumps False (JObj (SpecialistHandoff_to_dict demo_completed))))"
  by (rule canonical_small) (simp_all add: demo_stage_defs demo_defs limits_valid_def)

lemma target_canonical: "canonical (JObj demo_target) DEFAULT_BYTES DEFAULT_DEPTH = Inr (utf8 (dumps False (JObj demo_target)))"
  by (rule canonical_small) (simp_all add: demo_target_def limits_valid_def)

lemma target_checksum: "workflow_target_checksum (\<lambda>_. ''0'') (JObj demo_target) = Inr ''sha256:0''"
  by (simp only: workflow_target_checksum_def digest_def target_canonical bindE_simps) simp

lemma open_valid:
  assumes "canonical (JObj d) DEFAULT_BYTES DEFAULT_DEPTH = Inr b" "schema_of d = Inr (Specialist_handoff_k, ''specialist-handoff.schema.json'')"
    "primary_id_ok Specialist_handoff_k d = Inr ()" "check_schema (\<lambda>_ _. True) (JObj d) (sub_schema (JObj [])) = Inr ()"
    "specialist_handoff_rules (\<lambda>_. ''0'') d = Inr ()"
  shows "validate_contract open_validator d (Some ''specialist_handoff'') = Inr d"
  unfolding validate_contract_limits_def open_validator_def validator.simps option.case assms(1) assms(2) wrapE_def bindE_simps sum.case prod.case
    assms(3) assms(4)
  by (simp add: assms(5) dash_to_underscore_def)

lemma stage_rules:
  assumes "check_id d ''handoff_id'' Specialist_handoff_k = Inr ()" "check_id d ''engagement_id'' Engagement_k = Inr ()"
    "check_id d ''action_plan_id'' Action_plan_k = Inr ()" "field d ''status'' = Inr (JStr s)"
    "in_names (JStr s) [''accepted'', ''in_review'', ''completed''] = Inr True" "field d ''task'' = Inr (demo_task demo_target)"
    "field d ''transition_log'' = Inr (JList es)" "accepted_entries es = Inr [e]" "get_str e ''workflow_target_checksum'' = Some ''sha256:0''"
  shows "specialist_handoff_rules (\<lambda>_. ''0'') d = Inr ()"
proof -
  have "obj_get (demo_task demo_target) ''workflow_target'' = Inr (Some (JObj demo_target))" "resolved_target (Some (JObj demo_target))"
    by code_simp+
  then show ?thesis by (simp add: specialist_handoff_rules_def assms target_checksum_rules_def target_checksum liftE_def iter_items_def)
qed

lemma accepted_rules: "specialist_handoff_rules (\<lambda>_. ''0'') (SpecialistHandoff_to_dict demo_accepted) = Inr ()"
  by (rule stage_rules [of _ "''accepted''" "take 2 demo_entries" accepted_entry]; code_simp)

lemma reviewed_rules: "specialist_handoff_rules (\<lambda>_. ''0'') (SpecialistHandoff_to_dict demo_reviewed) = Inr ()"
  by (rule stage_rules [of _ "''in_review''" "take 3 demo_entries" accepted_entry]; code_simp)

lemma completed_rules: "specialist_handoff_rules (\<lambda>_. ''0'') (SpecialistHandoff_to_dict demo_completed) = Inr ()"
  by (rule stage_rules [of _ "''completed''" "demo_entries" accepted_entry]; code_simp)

lemma proposed_rules: "specialist_handoff_rules (\<lambda>_. ''0'') (SpecialistHandoff_to_dict demo_proposed) = Inr ()"
  by code_simp

lemma open_handoff:
  assumes "canonical (JObj (SpecialistHandoff_to_dict x)) DEFAULT_BYTES DEFAULT_DEPTH = Inr b"
    "specialist_handoff_rules (\<lambda>_. ''0'') (SpecialistHandoff_to_dict x) = Inr ()"
    "schema_of (SpecialistHandoff_to_dict x) = Inr (Specialist_handoff_k, ''specialist-handoff.schema.json'')"
    "primary_id_ok Specialist_handoff_k (SpecialistHandoff_to_dict x) = Inr ()"
    "check_schema (\<lambda>_ _. True) (JObj (SpecialistHandoff_to_dict x)) (sub_schema (JObj [])) = Inr ()"
  shows "validate_handoff open_validator x = Inr ()"
  using open_valid [OF assms(1) assms(3) assms(4) assms(5) assms(2)] by (simp only: validate_handoff_def contractE_def bindE_simps sum.case)

lemma proposed_valid: "validate_handoff open_validator demo_proposed = Inr ()"
  by (rule open_handoff [OF proposed_canonical proposed_rules]; code_simp)

lemma accepted_valid: "validate_handoff open_validator demo_accepted = Inr ()"
  by (rule open_handoff [OF accepted_canonical accepted_rules]; code_simp)

lemma reviewed_valid: "validate_handoff open_validator demo_reviewed = Inr ()"
  by (rule open_handoff [OF reviewed_canonical reviewed_rules]; code_simp)

lemma completed_valid: "validate_handoff open_validator demo_completed = Inr ()"
  by (rule open_handoff [OF completed_canonical completed_rules]; code_simp)

definition demo_engagement_doc :: dict where
  "demo_engagement_doc = [(''engagement_id'', JStr ''eng-demo''), (''operator'', JStr ''op'')]"

definition demo_plan_doc :: dict where
  "demo_plan_doc = [(''plan_id'', JStr ''plan-demo''), (''target'', JStr ''h''), (''status'', JStr ''approved''), (''operations'', JList [])]"

definition demo_proposal :: proposal where
  "demo_proposal = \<lparr>pr_task_description = ''t'', pr_sender_id = ''op'', pr_specialist_id = Some ''s'', pr_workflow_skill_id = Some ''sk'',
     pr_capability_id = Some ''s'', pr_required_capabilities = None, pr_operations = None, pr_deliverable = None, pr_handoff_id = None\<rparr>"

lemma demo_material: "compute_material_plan_digest (\<lambda>_. ''0'') demo_texts ''h'' (JList []) ''s'' ''op'' (JList []) (JObj []) = Inr ''sha256:0''"
  by code_simp

lemma demo_step_proposed:
  "propose_specialist_handoff open_validator demo_texts demo_checkout ''n'' ''aaaa'' demo_engagement_doc demo_plan_doc demo_proposal = Inr demo_proposed"
  using proposed_valid
  by (simp add: propose_specialist_handoff_def demo_engagement_doc_def demo_plan_doc_def demo_proposal_def text_field_def list_field_def handoff_get_def
    chosen_specialist_def demo_specialists catalogE_def handoff_task_def required_of_def demo_profile_def demo_material [folded open_validator_def]
    demo_proposed_def demo_defs Let_def open_validator_def)

lemma demo_verified:
  assumes "handoff_items (sh_transition_log x) = Inr es" "accepted_entries es = Inr [accepted_entry]"
    "handoff_get (sh_task x) ''workflow_target'' = Inr (Some (JObj demo_target))" "handoff_get (sh_recipient x) ''specialist_id'' = Inr (Some (JStr ''s''))"
  shows "verify_workflow_target (\<lambda>_. ''0'') demo_texts demo_checkout x = Inr ()"
proof -
  have "dict_get accepted_entry ''workflow_target_checksum'' = Some (JStr ''sha256:0'')" "py_eq (JObj demo_target) (JObj demo_target)" by code_simp+
  then show ?thesis by (simp add: verify_workflow_target_def assms target_checksum checksumE_def target_resolved Let_def)
qed

lemma accepted_verified: "verify_workflow_target (\<lambda>_. ''0'') demo_texts demo_checkout demo_accepted = Inr ()"
  by (rule demo_verified [of _ "take 2 demo_entries"]; code_simp)

lemma reviewed_verified: "verify_workflow_target (\<lambda>_. ''0'') demo_texts demo_checkout demo_reviewed = Inr ()"
  by (rule demo_verified [of _ "take 3 demo_entries"]; code_simp)

lemma demo_moves: "moved ''specialist_handoff'' ''proposed'' ''accepted'' = Inr ''accepted''" "moved ''specialist_handoff'' ''accepted'' ''in_review'' = Inr ''in_review''"
  "moved ''specialist_handoff'' ''in_review'' ''completed'' = Inr ''completed''"
  by code_simp+

lemma target_resolved_step:
  "accept_resolved open_validator ''n'' ''s'' demo_target demo_proposed = (Inr (), demo_accepted)"
proof -
  have step: "SpecialistHandoff_transition_to ''n'' ''accepted'' ''s'' (Some (''Accepted by '' @ ''s'' @ '' with full capability coverage'')) (set_task_target demo_target demo_proposed)
      = (Inr (), demo_accepted\<lparr>sh_transition_log := JList [hd demo_entries,
          log_entry ''n'' ''proposed'' ''accepted'' ''s'' (Some ''Accepted by s with full capability coverage'')]\<rparr>)" by code_simp
  have "set_last_checksum ''sha256:0'' (demo_accepted\<lparr>sh_transition_log := JList [hd demo_entries,
          log_entry ''n'' ''proposed'' ''accepted'' ''s'' (Some ''Accepted by s with full capability coverage'')]\<rparr>) = demo_accepted" by code_simp
  then show ?thesis
    by (simp add: accept_resolved_def move_handoff_def step [simplified] open_validator_def target_checksum accepted_valid [unfolded open_validator_def])
qed

lemma demo_step_accepted:
  "accept_specialist_handoff open_validator demo_texts demo_checkout demo_checkout ''n'' ''s'' demo_proposed = (Inr (), demo_accepted)"
proof -
  have "sh_status demo_proposed = ''proposed''" "handoff_get (sh_recipient demo_proposed) ''specialist_id'' = Inr (Some (JStr ''s''))"
    "bindE (list_field (sh_task demo_proposed) ''required_capabilities'') text_items = Inr [''sk'']" "missing_capabilities (demo_profile ''s'') [''sk''] = []"
    "handoff_get (sh_task demo_proposed) ''workflow_target'' = Inr (Some (JObj [(''skill_id'', JStr ''sk''), (''capability_id'', JStr ''s'')]))"
    by code_simp+
  then show ?thesis
    by (simp add: accept_specialist_handoff_def accept_covered_def demo_specialists reject_if_lacking_def target_resolved target_resolved_step
      open_validator_def Let_def) (simp add: target_resolved_step [unfolded open_validator_def])
qed

definition demo_review :: review where
  "demo_review = \<lparr>rw_evidence_envelopes = [], rw_findings = [], rw_contradictory_evidence = [], rw_objection = []\<rparr>"

lemma demo_step_reviewed:
  "review_with_skeptic open_validator demo_texts demo_checkout demo_checkout fresh ''n'' ''k'' demo_review demo_accepted = (Inr (), demo_reviewed)"
proof -
  have facts: "sh_status demo_accepted = ''accepted''" "truthy (sh_evidence demo_accepted)"
    "merged_list demo_texts (sh_evidence demo_accepted) ''evidence_envelopes'' [] = Inr (JList [])"
    "merged_list demo_texts (sh_evidence demo_accepted) ''findings'' [] = Inr (JList [])" by code_simp+
  have step: "SpecialistHandoff_transition_to ''n'' ''in_review'' ''k'' (Some (''Skeptic review passed by '' @ ''k'')) (demo_accepted\<lparr>sh_evidence :=
      JObj [(''evidence_envelopes'', JList []), (''findings'', JList []), (''notes'', JStr (''Reviewed and verified by skeptic '' @ ''k''))]\<rparr>)
      = (Inr (), demo_reviewed)" by code_simp
  have v: "verify_workflow_target (v_sha open_validator) demo_texts demo_checkout demo_accepted = Inr ()"
    using accepted_verified by (simp add: open_validator_def)
  show ?thesis
    by (simp add: review_with_skeptic_def reject_if_lacking_def facts v demo_specialists review_evidence_def demo_review_def attach_evidence_def
      move_handoff_def step [simplified] reviewed_valid)
qed

lemma demo_step_completed:
  "audit_and_approve_handoff open_validator demo_texts demo_checkout demo_checkout demo_checkout ''n'' ''u'' demo_plan_doc no_candidate demo_reviewed
     = (Inr (), demo_completed)"
proof -
  have facts: "sh_status demo_reviewed = ''in_review''" "text_field (JObj demo_plan_doc) ''target'' [] = Inr ''h''" "list_field (JObj demo_plan_doc) ''operations'' = Inr (JList [])"
    "text_field (sh_task demo_reviewed) ''target'' [] = Inr ''h''" "list_field (sh_task demo_reviewed) ''operations'' = Inr (JList [])"
    "checked_tools (JList []) (JList []) = Inr None" "text_field (sh_sender demo_reviewed) ''identifier'' [] = Inr ''op''"
    "material_modified no_candidate (JList []) (JList []) (JObj []) (strip ''op'') demo_reviewed = False" "dict_get demo_plan_doc ''limits'' = None"
    "handoff_get (sh_task demo_reviewed) ''deliverable'' = Inr (Some (JStr ''Technical findings and verification evidence for h''))"
    "(strip ''Technical findings and verification evidence for h'' = []) = False"
    "ca_target no_candidate = []" "ca_operations no_candidate = None"
    by code_simp+
  have step: "SpecialistHandoff_transition_to ''n'' ''completed'' ''u'' (Some (''Audited and approved by '' @ ''u'')) (demo_reviewed\<lparr>sh_approval_status := ''approved''\<rparr>)
      = (Inr (), demo_completed)" by code_simp
  have v: "verify_workflow_target (v_sha open_validator) demo_texts demo_checkout demo_reviewed = Inr ()"
    using reviewed_verified by (simp add: open_validator_def)
  show ?thesis
    by (simp add: audit_and_approve_handoff_def reject_if_lacking_def facts v demo_specialists audit_plan_def audit_operations_def audit_material_def
      complete_handoff_def move_handoff_def step [simplified] completed_valid Let_def)
qed

definition demo_triad :: triad_world where
  "demo_triad = \<lparr>tw_checkout = (\<lambda>_. demo_checkout), tw_time = (\<lambda>_. ''n''), tw_uuid = (\<lambda>_. ''aaaa'')\<rparr>"

lemma demo_triad_run:
  "execute_triad_handoff_workflow open_validator demo_texts demo_triad demo_engagement_doc demo_plan_doc demo_proposal (Some ''k'') (Some ''u'') [] [] = Inr demo_completed"
proof -
  have facts: "triad_proposal demo_proposal = demo_proposal" "chosen_specialist demo_proposal = Inr ''s''"
    "triad_member (demo_profile ''s'') (Some ''k'') ''skeptic_profile_id'' ''cops-threat-hunter'' = Inr ''k''"
    "triad_member (demo_profile ''s'') (Some ''u'') ''auditor_profile_id'' ''cops-compliance-auditor'' = Inr ''u''" by code_simp+
  show ?thesis
    by (simp add: execute_triad_handoff_workflow_def demo_triad_def facts demo_step_proposed demo_specialists catalogE_def demo_step_accepted on_success_def
      demo_step_reviewed [unfolded demo_review_def] demo_step_completed)
qed

theorem triad_runs_in_order_witness:
  "execute_triad_handoff_workflow open_validator demo_texts demo_triad demo_engagement_doc demo_plan_doc demo_proposal (Some ''k'') (Some ''u'') [] []
     = Inr demo_completed \<and>
   log_steps demo_completed = [(''proposed'', ''op''), (''accepted'', ''s''), (''in_review'', ''k''), (''completed'', ''u'')] \<and>
   within_plan no_candidate demo_plan_doc demo_completed"
proof -
  have "log_steps demo_completed = [(''proposed'', ''op''), (''accepted'', ''s''), (''in_review'', ''k''), (''completed'', ''u'')]" by code_simp
  then show ?thesis using triad_runs_in_order [OF demo_triad_run] demo_triad_run by blast
qed

end
