(* ===== verification/Attestation.thy ===== *)
theory Attestation
  imports Gateway_Dispatch
begin

text \<open>
  \<^verbatim>\<open>cops/execution/supervisor_attestation.py\<close>: the supervisor of a remote worker signs the exchange of a request and an
  authorized run, and the caller verifies the signature against its own request before it uses the run.

  Documents are values of \<open>json\<close>; an argument annotated \<^verbatim>\<open>object\<close> is one too. SHA-256, HMAC and the conversion of a
  decimal text are parameters. A \<open>SupervisorAttestationError\<close> carries its message, \<open>AttestationOther\<close> is an
  exception of \<^verbatim>\<open>canonical\<close> that the module lets pass.
\<close>

section \<open>Names and keys\<close>

datatype attestation_exc = SupervisorAttestationError string | AttestationOther evidence_error

abbreviation distrust_response :: "string \<Rightarrow> (attestation_exc, 'a) result" where
  "distrust_response message \<equiv> Inl (SupervisorAttestationError message)"

record attestation_world =
  aw_sha :: "nat list \<Rightarrow> string"
  aw_hmac :: "nat list \<Rightarrow> nat list \<Rightarrow> string"
  aw_float :: "string \<Rightarrow> pyfloat"

definition ATTESTED_AUTHORIZED_RUN_SCHEMA :: string where
  "ATTESTED_AUTHORIZED_RUN_SCHEMA = ''cops.attested-remote-authorized-run/v1''"

definition SUPERVISOR_ATTESTATION_SCHEMA :: string where
  "SUPERVISOR_ATTESTATION_SCHEMA = ''cops.supervisor-response-attestation/v1''"

definition SSH_PROTOCOL :: string where
  "SSH_PROTOCOL = ''cops.remote-worker/v1''"

definition identity_text :: "string \<Rightarrow> bool" where
  "identity_text s \<longleftrightarrow> (case s of
       [] \<Rightarrow> False
     | c # cs \<Rightarrow> is_alnum_ascii c \<and> length cs \<le> 127 \<and> list_all (\<lambda>x. is_alnum_ascii x \<or> x \<in> set ''._:-'') cs)"

definition nonce_text :: "string \<Rightarrow> bool" where
  "nonce_text s \<longleftrightarrow> length s = 43 \<and> list_all (\<lambda>x. is_alnum_ascii x \<or> x \<in> set ''_-'') s"

definition validate_exchange_nonce :: "json \<Rightarrow> (attestation_exc, string) result" where
  "validate_exchange_nonce v =
     (case v of
        JStr s \<Rightarrow> if nonce_text s then Inr s else distrust_response ''remote exchange nonce is invalid''
      | _ \<Rightarrow> distrust_response ''remote exchange nonce is invalid'')"

definition validate_attestation_key_id :: "json \<Rightarrow> (attestation_exc, string) result" where
  "validate_attestation_key_id v =
     (case v of
        JStr s \<Rightarrow> if identity_text s then Inr s else distrust_response ''supervisor attestation key ID is invalid''
      | _ \<Rightarrow> distrust_response ''supervisor attestation key ID is invalid'')"

text \<open>
  The key file: the components of its path above it as \<^verbatim>\<open>lstat\<close> describes them (\<open>None\<close> is an \<^verbatim>\<open>OSError\<close>; a link is no
  directory), and the opened file.
\<close>

record path_component =
  pc_directory :: bool
  pc_uid :: int
  pc_mode :: int

record key_file =
  kf_absolute :: bool
  kf_name :: string
  kf_ancestors :: "path_component option list"
  kf_opened :: "file_status option"

definition mode_bit :: "int \<Rightarrow> int \<Rightarrow> bool" where
  "mode_bit mode b \<longleftrightarrow> (mode div b) mod 2 = 1"

text \<open>\<^verbatim>\<open>mode & 0o022\<close> and \<^verbatim>\<open>mode & stat.S_ISVTX\<close>\<close>

definition shared_writable :: "path_component \<Rightarrow> bool" where
  "shared_writable c \<longleftrightarrow> (mode_bit (pc_mode c) 2 \<or> mode_bit (pc_mode c) 16) \<and> \<not> (pc_uid c = 0 \<and> mode_bit (pc_mode c) 512)"

fun validate_ancestor_directories :: "path_component option list \<Rightarrow> (attestation_exc, unit) result" where
  "validate_ancestor_directories [] = Inr ()"
| "validate_ancestor_directories (a # as) =
     (case a of
        None \<Rightarrow> distrust_response ''supervisor attestation key ancestry is unavailable''
      | Some c \<Rightarrow>
          if \<not> pc_directory c then distrust_response ''supervisor attestation key ancestry is unsafe''
          else if shared_writable c then distrust_response ''supervisor attestation key ancestry is writable''
          else validate_ancestor_directories as)"

definition key_bytes :: "nat list \<Rightarrow> nat list option" where
  "key_bytes raw =
     (if list_all (\<lambda>b. b < 128) raw \<and> hash_ok (map char_of raw) then fromhex (map char_of raw) else None)"

definition load_attestation_key :: "int \<Rightarrow> key_file \<Rightarrow> (attestation_exc, nat list) result" where
  "load_attestation_key euid f =
     (if \<not> kf_absolute f \<or> kf_name f \<in> set [[], ''.'', ''..''] then distrust_response ''supervisor attestation key path is invalid''
      else bindE (validate_ancestor_directories (kf_ancestors f)) (\<lambda>_.
        case kf_opened f of
          None \<Rightarrow> distrust_response ''supervisor attestation key is unavailable''
        | Some st \<Rightarrow>
            if \<not> fs_regular st \<or> fs_uid st \<noteq> euid \<or> fs_mode st mod 64 \<noteq> 0
            then distrust_response ''supervisor attestation key file is not protected''
            else (case key_bytes (take 66 (fs_bytes st)) of
                None \<Rightarrow> distrust_response ''supervisor attestation key encoding is invalid''
              | Some key \<Rightarrow> Inr key)))"

section \<open>The claims of an exchange\<close>

record remote_exchange =
  ex_request_id :: json
  ex_exchange_nonce :: json
  ex_host :: json
  ex_worker_identity :: json
  ex_authorization_id :: json
  ex_action_plan :: json
  ex_timeout_seconds :: json
  ex_max_output_bytes :: json
  ex_endpoint_identity_digest :: "string option"

definition has_keys :: "dict \<Rightarrow> string list \<Rightarrow> bool" where
  "has_keys d ks \<longleftrightarrow> set (map fst d) = set ks"

text \<open>Inside the \<^verbatim>\<open>try\<close> block a missing key or a value that has no digest is one and the same refusal.\<close>

definition binding_invalid :: "(attestation_exc, 'a) result" where
  "binding_invalid = distrust_response ''supervisor attestation binding fields are invalid''"

definition claimed :: "dict \<Rightarrow> string \<Rightarrow> (attestation_exc, json) result" where
  "claimed d k = (case dict_get d k of None \<Rightarrow> binding_invalid | Some v \<Rightarrow> Inr v)"

definition claimed_digest :: "attestation_world \<Rightarrow> dict \<Rightarrow> (attestation_exc, json) result" where
  "claimed_digest w d = (case digest (aw_sha w) (JObj d) DEFAULT_BYTES DEFAULT_DEPTH of Inl _ \<Rightarrow> binding_invalid | Inr h \<Rightarrow> Inr (JStr h))"

definition exchange_claims :: "attestation_world \<Rightarrow> remote_exchange \<Rightarrow> dict \<Rightarrow> dict \<Rightarrow> dict \<Rightarrow> (attestation_exc, dict) result" where
  "exchange_claims w ex plan outcome_doc receipt =
     bindE (claimed receipt ''authorization_digest'') (\<lambda>authorization_digest.
     bindE (claimed plan ''plan_id'') (\<lambda>plan_id.
     bindE (claimed plan ''plan_digest'') (\<lambda>plan_digest.
     bindE (claimed_digest w plan) (\<lambda>action_plan_digest.
     bindE (claimed plan ''engagement_id'') (\<lambda>engagement_id.
     bindE (claimed plan ''target'') (\<lambda>target.
     bindE (claimed_digest w outcome_doc) (\<lambda>result_digest.
     bindE (claimed_digest w receipt) (\<lambda>receipt_digest.
       Inr [(''request_id'', ex_request_id ex), (''exchange_nonce'', ex_exchange_nonce ex), (''host'', ex_host ex),
         (''worker_identity'', ex_worker_identity ex), (''authorization_id'', ex_authorization_id ex),
         (''authorization_digest'', authorization_digest), (''action_plan_id'', plan_id), (''plan_digest'', plan_digest),
         (''action_plan_digest'', action_plan_digest), (''engagement_id'', engagement_id), (''target'', target),
         (''timeout_seconds'', ex_timeout_seconds ex), (''max_output_bytes'', ex_max_output_bytes ex),
         (''result_digest'', result_digest), (''receipt_digest'', receipt_digest)]))))))))"

definition cleanup_claim :: "attestation_world \<Rightarrow> dict \<Rightarrow> (attestation_exc, dict) result" where
  "cleanup_claim w run =
     (case dict_get run ''cleanup_receipt'' of
        None \<Rightarrow> Inr []
      | Some (JObj d) \<Rightarrow> bindE (claimed_digest w d) (\<lambda>h. Inr [(''cleanup_receipt_digest'', h)])
      | Some _ \<Rightarrow> distrust_response ''supervisor cleanup receipt is invalid'')"

definition endpoint_claim :: "remote_exchange \<Rightarrow> dict" where
  "endpoint_claim ex = (case ex_endpoint_identity_digest ex of None \<Rightarrow> [] | Some h \<Rightarrow> [(''endpoint_identity_digest'', JStr h)])"

definition run_fields :: "dict \<Rightarrow> bool" where
  "run_fields run \<longleftrightarrow> has_keys run [''schema_version'', ''result'', ''approval_receipt''] \<or>
     has_keys run [''schema_version'', ''result'', ''approval_receipt'', ''cleanup_receipt'']"

definition build_claims :: "attestation_world \<Rightarrow> remote_exchange \<Rightarrow> dict \<Rightarrow> (attestation_exc, dict) result" where
  "build_claims w ex run =
     bindE (validate_exchange_nonce (ex_exchange_nonce ex)) (\<lambda>_.
     case ex_action_plan ex of
       JObj plan \<Rightarrow>
         if \<not> run_fields run then distrust_response ''supervisor authorized run fields are invalid''
         else (case (dict_get run ''result'', dict_get run ''approval_receipt'') of
             (Some (JObj outcome_doc), Some (JObj receipt)) \<Rightarrow>
               bindE (exchange_claims w ex plan outcome_doc receipt) (\<lambda>claims.
               bindE (cleanup_claim w run) (\<lambda>cleanup. Inr (claims @ cleanup @ endpoint_claim ex)))
           | _ \<Rightarrow> distrust_response ''supervisor authorized run payload is invalid'')
     | _ \<Rightarrow> distrust_response ''supervisor attestation binding document is invalid'')"

section \<open>Signing\<close>

definition unsigned_attestation :: "string \<Rightarrow> dict \<Rightarrow> dict" where
  "unsigned_attestation key_id claims =
     [(''schema_version'', JStr SUPERVISOR_ATTESTATION_SCHEMA), (''key_id'', JStr key_id), (''claims'', JObj claims)]"

definition attestation_mac :: "attestation_world \<Rightarrow> nat list \<Rightarrow> dict \<Rightarrow> (attestation_exc, string) result" where
  "attestation_mac w key u =
     (case canonical (JObj u) DEFAULT_BYTES DEFAULT_DEPTH of
        Inl e \<Rightarrow> Inl (AttestationOther e)
      | Inr bytes \<Rightarrow> Inr (aw_hmac w key bytes))"

definition decode_line :: "attestation_world \<Rightarrow> nat list \<Rightarrow> string \<Rightarrow> (attestation_exc, dict) result" where
  "decode_line w raw label =
     (if raw = [] \<or> last raw \<noteq> 10 \<or> count_list raw 10 \<noteq> 1 then distrust_response (''supervisor '' @ label @ '' framing is invalid'')
      else case decode_json (aw_float w) (butlast raw) (4 * 1024 * 1024) 32 of
        Inl _ \<Rightarrow> distrust_response (''supervisor '' @ label @ '' JSON is invalid'')
      | Inr (JObj d) \<Rightarrow> Inr d
      | Inr _ \<Rightarrow> distrust_response (''supervisor '' @ label @ '' must be an object''))"

definition REQUEST_PAYLOAD_FIELDS :: "string list" where
  "REQUEST_PAYLOAD_FIELDS =
     [''schema_version'', ''authorization_id'', ''action_plan'', ''timeout_seconds'', ''max_output_bytes'', ''exchange_nonce'']"

definition endpoint_digest :: "attestation_world \<Rightarrow> dict \<Rightarrow> (attestation_exc, string option) result" where
  "endpoint_digest w request_payload =
     (case dict_get request_payload ''endpoint_identity'' of
        None \<Rightarrow> Inr None
      | Some (JObj d) \<Rightarrow>
          (case digest (aw_sha w) (JObj d) DEFAULT_BYTES DEFAULT_DEPTH of Inl e \<Rightarrow> Inl (AttestationOther e) | Inr h \<Rightarrow> Inr (Some h))
      | Some _ \<Rightarrow> distrust_response ''supervisor endpoint identity is invalid'')"

text \<open>The exchange that a request describes.\<close>

definition exchange_of :: "dict \<Rightarrow> dict \<Rightarrow> string option \<Rightarrow> remote_exchange" where
  "exchange_of request payload endpoint =
     \<lparr>ex_request_id = get_or_none request ''request_id'', ex_exchange_nonce = get_or_none payload ''exchange_nonce'',
      ex_host = get_or_none request ''expected_host'', ex_worker_identity = get_or_none request ''expected_worker_id'',
      ex_authorization_id = get_or_none payload ''authorization_id'', ex_action_plan = get_or_none payload ''action_plan'',
      ex_timeout_seconds = get_or_none payload ''timeout_seconds'', ex_max_output_bytes = get_or_none payload ''max_output_bytes'',
      ex_endpoint_identity_digest = endpoint\<rparr>"

definition check_exchange :: "dict \<Rightarrow> dict \<Rightarrow> (attestation_exc, unit) result" where
  "check_exchange request response =
     (let req = get_or_none request; res = get_or_none response in
      if \<not> has_keys request [''protocol'', ''request_id'', ''expected_host'', ''expected_worker_id'', ''payload''] \<or>
         \<not> has_keys response [''protocol'', ''request_id'', ''host'', ''worker_id'', ''payload'']
      then distrust_response ''supervisor exchange fields are invalid''
      else if req ''protocol'' \<noteq> JStr SSH_PROTOCOL \<or> res ''protocol'' \<noteq> JStr SSH_PROTOCOL
      then distrust_response ''supervisor exchange protocol is invalid''
      else if \<not> py_eq (res ''request_id'') (req ''request_id'') then distrust_response ''supervisor exchange request ID mismatch''
      else if \<not> py_eq (res ''host'') (req ''expected_host'') \<or> \<not> py_eq (res ''worker_id'') (req ''expected_worker_id'')
      then distrust_response ''supervisor exchange endpoint binding mismatch''
      else Inr ())"

definition claims_from_documents :: "attestation_world \<Rightarrow> dict \<Rightarrow> dict \<Rightarrow> (attestation_exc, dict \<times> dict) result" where
  "claims_from_documents w request response =
     bindE (check_exchange request response) (\<lambda>_.
     case (get_or_none request ''payload'', get_or_none response ''payload'') of
       (JObj payload, JObj run) \<Rightarrow>
         if \<not> has_keys payload REQUEST_PAYLOAD_FIELDS \<and> \<not> has_keys payload (REQUEST_PAYLOAD_FIELDS @ [''endpoint_identity''])
         then distrust_response ''supervisor execution payload is invalid''
         else bindE (endpoint_digest w payload) (\<lambda>endpoint.
           bindE (build_claims w (exchange_of request payload endpoint) run) (\<lambda>claims. Inr (claims, run)))
     | _ \<Rightarrow> distrust_response ''supervisor execution payload is invalid'')"

record attestor =
  at_key_id :: string
  at_key :: "nat list"

definition SupervisorResponseAttestor :: "json \<Rightarrow> nat list \<Rightarrow> (attestation_exc, attestor) result" where
  "SupervisorResponseAttestor key_id key =
     bindE (validate_attestation_key_id key_id) (\<lambda>i.
       if length key \<noteq> 32 then distrust_response ''supervisor attestation key must contain 32 bytes''
       else Inr \<lparr>at_key_id = i, at_key = key\<rparr>)"

definition attestor_from_file :: "int \<Rightarrow> json \<Rightarrow> key_file \<Rightarrow> (attestation_exc, attestor) result" where
  "attestor_from_file euid key_id f = bindE (load_attestation_key euid f) (SupervisorResponseAttestor key_id)"

definition attested_run :: "dict \<Rightarrow> string \<Rightarrow> dict \<Rightarrow> string \<Rightarrow> dict" where
  "attested_run run key_id claims mac =
     [(''schema_version'', JStr ATTESTED_AUTHORIZED_RUN_SCHEMA), (''authorized_run'', JObj run),
      (''attestation'', JObj (unsigned_attestation key_id claims @ [(''mac'', JStr mac)]))]"

definition attest :: "attestation_world \<Rightarrow> attestor \<Rightarrow> nat list \<Rightarrow> nat list \<Rightarrow> (attestation_exc, nat list) result" where
  "attest w a request response =
     bindE (decode_line w request ''request'') (\<lambda>req.
     bindE (decode_line w response ''response'') (\<lambda>res.
     bindE (claims_from_documents w req res) (\<lambda>(claims, run).
     bindE (attestation_mac w (at_key a) (unsigned_attestation (at_key_id a) claims)) (\<lambda>mac.
       case canonical (JObj (dict_set ''payload'' (JObj (attested_run run (at_key_id a) claims mac)) res)) DEFAULT_BYTES DEFAULT_DEPTH of
         Inl e \<Rightarrow> Inl (AttestationOther e)
       | Inr bytes \<Rightarrow> Inr (bytes @ [10])))))"

section \<open>Verification\<close>

text \<open>The checks on the form of the payload: the run, the claims and the MAC it carries.\<close>

definition attested_parts :: "string \<Rightarrow> dict \<Rightarrow> (attestation_exc, dict \<times> json \<times> string) result" where
  "attested_parts key_id payload =
     (if \<not> has_keys payload [''schema_version'', ''authorized_run'', ''attestation'']
      then distrust_response ''remote attested response fields are invalid''
      else if get_or_none payload ''schema_version'' \<noteq> JStr ATTESTED_AUTHORIZED_RUN_SCHEMA
      then distrust_response ''remote attested response schema is unsupported''
      else case (get_or_none payload ''authorized_run'', get_or_none payload ''attestation'') of
        (JObj run, JObj attestation) \<Rightarrow>
          if \<not> has_keys attestation [''schema_version'', ''key_id'', ''claims'', ''mac'']
          then distrust_response ''remote response attestation fields are invalid''
          else if get_or_none attestation ''schema_version'' \<noteq> JStr SUPERVISOR_ATTESTATION_SCHEMA
          then distrust_response ''remote response attestation schema is unsupported''
          else if get_or_none attestation ''key_id'' \<noteq> JStr key_id
          then distrust_response ''remote response attestation key ID mismatch''
          else (case get_or_none attestation ''mac'' of
              JStr mac \<Rightarrow>
                if hash_ok mac then Inr (run, get_or_none attestation ''claims'', mac)
                else distrust_response ''remote response attestation MAC is invalid''
            | _ \<Rightarrow> distrust_response ''remote response attestation MAC is invalid'')
      | _ \<Rightarrow> distrust_response ''remote attested response payload is invalid'')"

definition verify_attested_authorized_run ::
  "attestation_world \<Rightarrow> string \<Rightarrow> nat list \<Rightarrow> remote_exchange \<Rightarrow> dict \<Rightarrow> (attestation_exc, dict) result" where
  "verify_attested_authorized_run w key_id key ex payload =
     bindE (validate_attestation_key_id (JStr key_id)) (\<lambda>_.
     bindE (validate_exchange_nonce (ex_exchange_nonce ex)) (\<lambda>_.
     if length key \<noteq> 32 then distrust_response ''supervisor attestation key must contain 32 bytes''
     else bindE (attested_parts key_id payload) (\<lambda>(run, claims, mac).
       bindE (build_claims w ex run) (\<lambda>expected.
       if \<not> py_eq claims (JObj expected) then distrust_response ''remote response attestation binding mismatch''
       else bindE (attestation_mac w key (unsigned_attestation key_id expected)) (\<lambda>good.
         if mac = good then Inr run else distrust_response ''remote response attestation verification failed'')))))"

end
