(* ===== verification/Attestation_Props.thy ===== *)
theory Attestation_Props
  imports Attestation Authorization_Props Canonical_Size
begin

text \<open>What the signature of a remote exchange pins down, and that a signed exchange verifies.\<close>

section \<open>Documents and their fields\<close>

definition same_value :: "json \<Rightarrow> json \<Rightarrow> bool" where
  "same_value v u \<longleftrightarrow> norm_json text_float v = norm_json text_float u"

lemma get_normed:
  "distinct (map fst d) \<Longrightarrow> dict_get (sort_key fst (map (map_prod id f) d)) k = map_option f (dict_get d k)"
  by (subst dict_get_sorted) (simp_all add: comp_def dict_get_def map_prod_def case_prod_beta map_of_map)

lemma norm_get:
  assumes "json_ok (JObj d)" "json_ok (JObj e)" "norm_json pf (JObj d) = norm_json pf (JObj e)"
  shows "map_option (norm_json pf) (dict_get d k) = map_option (norm_json pf) (dict_get e k)"
  using get_normed [of d "norm_json pf" k] get_normed [of e "norm_json pf" k] assms by simp

lemma json_ok_obj: "json_ok (JObj d) \<longleftrightarrow> distinct (map fst d) \<and> list_all json_ok (map snd d)"
  by (auto simp: list_all_iff)

lemma json_ok_get: "json_ok (JObj d) \<Longrightarrow> dict_get d k = Some v \<Longrightarrow> json_ok v"
  by (auto simp: list_all_iff dict_get_def dest: map_of_SomeD)

lemma json_ok_get_or_none: "json_ok (JObj d) \<Longrightarrow> json_ok (get_or_none d k)"
  using json_ok_get [of d k] by (simp add: get_or_none_def split: option.split del: json_ok.simps(7))

section \<open>The claims\<close>

definition exchange_values :: "remote_exchange \<Rightarrow> json list" where
  "exchange_values ex = [ex_request_id ex, ex_exchange_nonce ex, ex_host ex, ex_worker_identity ex, ex_authorization_id ex,
     ex_action_plan ex, ex_timeout_seconds ex, ex_max_output_bytes ex]"

definition exchange_ok :: "remote_exchange \<Rightarrow> bool" where
  "exchange_ok ex = list_all json_ok (exchange_values ex)"

definition document_digest :: "attestation_world \<Rightarrow> json \<Rightarrow> json" where
  "document_digest w v = JStr (aw_sha w (utf8 (dumps False v)))"

lemma claimed_digest_ok: "claimed_digest w d = Inr h \<Longrightarrow> h = document_digest w (JObj d)"
  by (auto simp: claimed_digest_def binding_invalid_def document_digest_def split: sum.splits dest: digest_value)

lemma claimed_ok: "claimed d k = Inr v \<longleftrightarrow> dict_get d k = Some v"
  by (simp add: claimed_def binding_invalid_def split: option.split)

lemma exchange_claims_value:
  assumes "exchange_claims w ex plan outcome_doc receipt = Inr claims"
  obtains ad pid pd eid t where "dict_get receipt ''authorization_digest'' = Some ad" "dict_get plan ''plan_id'' = Some pid"
    "dict_get plan ''plan_digest'' = Some pd" "dict_get plan ''engagement_id'' = Some eid" "dict_get plan ''target'' = Some t"
    "claims = [(''request_id'', ex_request_id ex), (''exchange_nonce'', ex_exchange_nonce ex), (''host'', ex_host ex),
         (''worker_identity'', ex_worker_identity ex), (''authorization_id'', ex_authorization_id ex),
         (''authorization_digest'', ad), (''action_plan_id'', pid), (''plan_digest'', pd),
         (''action_plan_digest'', document_digest w (JObj plan)), (''engagement_id'', eid), (''target'', t),
         (''timeout_seconds'', ex_timeout_seconds ex), (''max_output_bytes'', ex_max_output_bytes ex),
         (''result_digest'', document_digest w (JObj outcome_doc)), (''receipt_digest'', document_digest w (JObj receipt))]"
  using assms unfolding exchange_claims_def bindE_Inr_iff claimed_ok sum.inject by (blast dest: claimed_digest_ok)

lemma cleanup_claim_value:
  assumes "cleanup_claim w run = Inr cleanup"
  shows "cleanup = (case dict_get run ''cleanup_receipt'' of None \<Rightarrow> [] | Some v \<Rightarrow> [(''cleanup_receipt_digest'', document_digest w v)])"
  using assms by (auto simp: cleanup_claim_def bindE_Inr_iff split: option.splits json.splits dest: claimed_digest_ok)

lemma build_claims_parts:
  assumes "build_claims w ex run = Inr c"
  obtains plan outcome_doc receipt claims cleanup where "ex_action_plan ex = JObj plan" "dict_get run ''result'' = Some (JObj outcome_doc)"
    "dict_get run ''approval_receipt'' = Some (JObj receipt)" "exchange_claims w ex plan outcome_doc receipt = Inr claims"
    "cleanup_claim w run = Inr cleanup" "c = claims @ cleanup @ endpoint_claim ex"
  using assms by (auto simp: build_claims_def bindE_Inr_iff split: json.splits option.splits if_splits)

lemma claims_ok:
  assumes "build_claims w ex run = Inr c" "exchange_ok ex" "json_ok (JObj run)"
  shows "json_ok (JObj c)"
proof -
  from assms(1) obtain plan outcome_doc receipt claims cleanup where p: "ex_action_plan ex = JObj plan" "dict_get run ''result'' = Some (JObj outcome_doc)"
    "dict_get run ''approval_receipt'' = Some (JObj receipt)" "exchange_claims w ex plan outcome_doc receipt = Inr claims"
    "cleanup_claim w run = Inr cleanup" "c = claims @ cleanup @ endpoint_claim ex" by (rule build_claims_parts)
  have plan: "json_ok (JObj plan)" using assms(2) p(1) by (simp add: exchange_ok_def exchange_values_def del: json_ok.simps(7))
  note receipt = json_ok_get [OF assms(3) p(3)]
  from p(4) show ?thesis
  proof (rule exchange_claims_value)
    fix ad pid pd eid t
    assume g: "dict_get receipt ''authorization_digest'' = Some ad" "dict_get plan ''plan_id'' = Some pid"
      "dict_get plan ''plan_digest'' = Some pd" "dict_get plan ''engagement_id'' = Some eid" "dict_get plan ''target'' = Some t"
      and c: "claims = [(''request_id'', ex_request_id ex), (''exchange_nonce'', ex_exchange_nonce ex), (''host'', ex_host ex),
         (''worker_identity'', ex_worker_identity ex), (''authorization_id'', ex_authorization_id ex),
         (''authorization_digest'', ad), (''action_plan_id'', pid), (''plan_digest'', pd),
         (''action_plan_digest'', document_digest w (JObj plan)), (''engagement_id'', eid), (''target'', t),
         (''timeout_seconds'', ex_timeout_seconds ex), (''max_output_bytes'', ex_max_output_bytes ex),
         (''result_digest'', document_digest w (JObj outcome_doc)), (''receipt_digest'', document_digest w (JObj receipt))]"
    note fields = json_ok_get [OF receipt g(1)] json_ok_get [OF plan g(2)] json_ok_get [OF plan g(3)] json_ok_get [OF plan g(4)] json_ok_get [OF plan g(5)]
    show ?thesis unfolding json_ok_obj p(6) c cleanup_claim_value [OF p(5)] endpoint_claim_def
      using fields assms(2) by (simp add: exchange_ok_def exchange_values_def document_digest_def split: option.split)
  qed
qed

text \<open>The value that a claim has, by its name, in terms of exchange and run.\<close>

definition claim_value :: "attestation_world \<Rightarrow> remote_exchange \<Rightarrow> dict \<Rightarrow> string \<Rightarrow> json option" where
  "claim_value w ex run k = Option.bind (map_of
     [(''request_id'', Some (ex_request_id ex)), (''exchange_nonce'', Some (ex_exchange_nonce ex)), (''host'', Some (ex_host ex)),
      (''worker_identity'', Some (ex_worker_identity ex)), (''authorization_id'', Some (ex_authorization_id ex)),
      (''action_plan_digest'', Some (document_digest w (ex_action_plan ex))),
      (''timeout_seconds'', Some (ex_timeout_seconds ex)), (''max_output_bytes'', Some (ex_max_output_bytes ex)),
      (''result_digest'', map_option (document_digest w) (dict_get run ''result'')),
      (''receipt_digest'', map_option (document_digest w) (dict_get run ''approval_receipt'')),
      (''cleanup_receipt_digest'', map_option (document_digest w) (dict_get run ''cleanup_receipt'')),
      (''endpoint_identity_digest'', map_option JStr (ex_endpoint_identity_digest ex))] k) id"

definition CLAIM_NAMES :: "string list" where
  "CLAIM_NAMES = [''request_id'', ''exchange_nonce'', ''host'', ''worker_identity'', ''authorization_id'', ''action_plan_digest'', ''timeout_seconds'',
     ''max_output_bytes'', ''result_digest'', ''receipt_digest'', ''cleanup_receipt_digest'', ''endpoint_identity_digest'']"

lemma claims_get:
  assumes "build_claims w ex run = Inr c"
  shows "list_all (\<lambda>k. dict_get c k = claim_value w ex run k) CLAIM_NAMES"
proof -
  from assms obtain plan outcome_doc receipt claims cleanup where p: "ex_action_plan ex = JObj plan" "dict_get run ''result'' = Some (JObj outcome_doc)"
    "dict_get run ''approval_receipt'' = Some (JObj receipt)" "exchange_claims w ex plan outcome_doc receipt = Inr claims"
    "cleanup_claim w run = Inr cleanup" "c = claims @ cleanup @ endpoint_claim ex" by (rule build_claims_parts)
  show ?thesis
    by (rule exchange_claims_value [OF p(4)]; unfold p(6) cleanup_claim_value [OF p(5)] endpoint_claim_def CLAIM_NAMES_def claim_value_def)
      (simp add: p(1) p(2,3) [unfolded dict_get_def] dict_get_def split: option.split)
qed

section \<open>Verification\<close>

definition signed_document :: "attestation_world \<Rightarrow> string \<Rightarrow> remote_exchange \<Rightarrow> dict \<Rightarrow> json" where
  "signed_document w key_id ex run =
     (case build_claims w ex run of Inl _ \<Rightarrow> JNull | Inr claims \<Rightarrow> JObj (unsigned_attestation key_id claims))"

definition payload_mac :: "dict \<Rightarrow> json" where
  "payload_mac payload = (case get_or_none payload ''attestation'' of JObj a \<Rightarrow> get_or_none a ''mac'' | _ \<Rightarrow> JNull)"

lemma attested_parts_mac: "attested_parts key_id payload = Inr (run, claims, mac) \<Longrightarrow> payload_mac payload = JStr mac \<and> get_or_none payload ''authorized_run'' = JObj run"
  by (auto simp: attested_parts_def payload_mac_def split: json.splits if_splits)

lemma attestation_mac_value: "attestation_mac w key u = Inr m \<Longrightarrow> m = aw_hmac w key (utf8 (dumps False (JObj u)))"
  by (auto simp: attestation_mac_def split: sum.splits dest: canonical_okD(1))

lemma verified_mac:
  assumes "verify_attested_authorized_run w key_id key ex payload = Inr run"
  obtains claims where "build_claims w ex run = Inr claims" "get_or_none payload ''authorized_run'' = JObj run"
    "payload_mac payload = JStr (aw_hmac w key (utf8 (dumps False (JObj (unsigned_attestation key_id claims)))))"
  using assms unfolding verify_attested_authorized_run_def
  by (auto simp: bindE_Inr_iff split: if_splits dest!: attested_parts_mac attestation_mac_value)

lemma unsigned_ok: "json_ok (JObj claims) \<Longrightarrow> json_ok (JObj (unsigned_attestation key_id claims))"
  by (simp add: unsigned_attestation_def)

lemma unsigned_get: "dict_get (unsigned_attestation key_id claims) ''claims'' = Some (JObj claims)"
  "dict_get (unsigned_attestation key_id claims) ''key_id'' = Some (JStr key_id)"
  by (simp_all add: unsigned_attestation_def)

definition same_exchange :: "remote_exchange \<Rightarrow> remote_exchange \<Rightarrow> bool" where
  "same_exchange ex ex' \<longleftrightarrow> list_all2 same_value (exchange_values ex) (exchange_values ex') \<and>
     ex_endpoint_identity_digest ex = ex_endpoint_identity_digest ex'"

definition same_run :: "dict \<Rightarrow> dict \<Rightarrow> bool" where
  "same_run run run' = list_all (\<lambda>k. rel_option same_value (dict_get run k) (dict_get run' k)) [''result'', ''approval_receipt'', ''cleanup_receipt'']"

lemma same_document:
  assumes "document_digest w v = document_digest w u" "separates (aw_sha w) v u" "json_ok v" "json_ok u"
  shows "same_value v u"
  using assms dumps_eq_iff [OF assms(3,4), of False] by (simp add: document_digest_def separates_def same_value_def)

lemma same_field:
  assumes "map_option (norm_json text_float) (map_option (document_digest w) (dict_get run k)) =
      map_option (norm_json text_float) (map_option (document_digest w) (dict_get run' k))"
    "separates (aw_sha w) (get_or_none run k) (get_or_none run' k)" "json_ok (JObj run)" "json_ok (JObj run')"
  shows "rel_option same_value (dict_get run k) (dict_get run' k)"
  using assms same_document [of w "get_or_none run k" "get_or_none run' k"] json_ok_get [OF assms(3)] json_ok_get [OF assms(4)]
  by (cases "dict_get run k"; cases "dict_get run' k") (auto simp: get_or_none_def document_digest_def simp del: json_ok.simps(7))

lemma map_JStr_eq: "map_option JStr a = map_option JStr b \<longleftrightarrow> a = b"
  by (cases a; cases b) auto

text \<open>
  C28. A signature authenticates one exchange. When two verifications under the same key accept payloads with the same
  signature, they were for the same key identifier and the same request: the same request identifier, nonce, host, worker,
  authorization, action plan, time limit and output limit, and the same endpoint identity; and the two runs have the same
  result, approval receipt and cleanup receipt, up to the order of keys and unless HMAC or SHA-256 collides on just these documents.
  A signed response can therefore not be replayed for another request, nor its result exchanged.
\<close>

theorem attestation_binds_exchange:
  assumes "verify_attested_authorized_run w key_id key ex payload = Inr run"
    "verify_attested_authorized_run w key_id' key ex' payload' = Inr run'"
    "payload_mac payload = payload_mac payload'"
    "exchange_ok ex" "exchange_ok ex'" "json_ok (JObj run)" "json_ok (JObj run')"
    "separates (aw_hmac w key) (signed_document w key_id ex run) (signed_document w key_id' ex' run')"
    "separates (aw_sha w) (ex_action_plan ex) (ex_action_plan ex')"
    "separates (aw_sha w) (get_or_none run ''result'') (get_or_none run' ''result'')"
    "separates (aw_sha w) (get_or_none run ''approval_receipt'') (get_or_none run' ''approval_receipt'')"
    "separates (aw_sha w) (get_or_none run ''cleanup_receipt'') (get_or_none run' ''cleanup_receipt'')"
  shows "key_id = key_id' \<and> same_exchange ex ex' \<and> same_run run run'"
proof -
  from assms(1) obtain c where c: "build_claims w ex run = Inr c"
    and m: "payload_mac payload = JStr (aw_hmac w key (utf8 (dumps False (JObj (unsigned_attestation key_id c)))))" by (rule verified_mac)
  from assms(2) obtain c' where c': "build_claims w ex' run' = Inr c'"
    and m': "payload_mac payload' = JStr (aw_hmac w key (utf8 (dumps False (JObj (unsigned_attestation key_id' c')))))" by (rule verified_mac)
  note ok = claims_ok [OF c assms(4,6)] claims_ok [OF c' assms(5,7)]
  have "dumps False (JObj (unsigned_attestation key_id c)) = dumps False (JObj (unsigned_attestation key_id' c'))"
    using assms(3,8) m m' by (simp add: separates_def signed_document_def c c')
  then have u: "norm_json text_float (JObj (unsigned_attestation key_id c)) = norm_json text_float (JObj (unsigned_attestation key_id' c'))"
    using dumps_eq_iff [OF unsigned_ok [OF ok(1)] unsigned_ok [OF ok(2)]] by blast
  note field = norm_get [OF unsigned_ok [OF ok(1)] unsigned_ok [OF ok(2)] u]
  have ids: "key_id = key_id'" using field [of "''key_id''"] by (simp add: unsigned_get)
  have claims: "norm_json text_float (JObj c) = norm_json text_float (JObj c')"
    using field [of "''claims''"] unfolding unsigned_get option.map option.inject .
  have "map_option (norm_json text_float) (claim_value w ex run k) = map_option (norm_json text_float) (claim_value w ex' run' k)"
    if "k \<in> set CLAIM_NAMES" for k
    using norm_get [OF ok claims, of k] claims_get [OF c] claims_get [OF c'] that by (simp add: list_all_iff)
  then have v: "list_all (\<lambda>k. map_option (norm_json text_float) (claim_value w ex run k) = map_option (norm_json text_float) (claim_value w ex' run' k)) CLAIM_NAMES"
    by (simp add: list_all_iff)
  have "document_digest w (ex_action_plan ex) = document_digest w (ex_action_plan ex')"
    using v by (simp add: CLAIM_NAMES_def claim_value_def document_digest_def)
  from same_document [OF this assms(9)] have "same_value (ex_action_plan ex) (ex_action_plan ex')"
    using assms(4,5) by (simp add: exchange_ok_def exchange_values_def)
  then have "same_exchange ex ex'" using v
    by (auto simp: CLAIM_NAMES_def claim_value_def same_exchange_def exchange_values_def same_value_def option.map_comp comp_def map_JStr_eq)
  moreover have "same_run run run'" unfolding same_run_def
    using v same_field [OF _ assms(10,6,7)] same_field [OF _ assms(11,6,7)] same_field [OF _ assms(12,6,7)]
    by (simp add: CLAIM_NAMES_def claim_value_def)
  ultimately show ?thesis using ids by blast
qed

section \<open>A signed exchange verifies\<close>

lemma case_Inr_iff: "(case r of Inl e \<Rightarrow> Inl (f e) | Inr b \<Rightarrow> Inr (g b)) = Inr y \<longleftrightarrow> (\<exists>b. r = Inr b \<and> y = g b)"
  by (cases r) auto

lemma attested_parts_run:
  assumes "hash_ok mac"
  shows "attested_parts key_id (attested_run run key_id claims mac) = Inr (run, JObj claims, mac)"
  using assms by (auto simp: attested_parts_def attested_run_def unsigned_attestation_def has_keys_def get_or_none_def)

lemma attestor_fields: "SupervisorResponseAttestor key_id key = Inr a \<Longrightarrow>
   identity_text (at_key_id a) \<and> at_key a = key \<and> length key = 32"
  by (auto simp: SupervisorResponseAttestor_def validate_attestation_key_id_def bindE_Inr_iff split: json.splits if_splits)

lemma claims_nonce: "build_claims w ex run = Inr c \<Longrightarrow> is_ok (validate_exchange_nonce (ex_exchange_nonce ex))"
  by (auto simp: build_claims_def bindE_Inr_iff is_ok_iff)

lemma signed_run_verifies:
  assumes "SupervisorResponseAttestor key_id key = Inr a" "build_claims w ex run = Inr claims"
    "attestation_mac w key (unsigned_attestation (at_key_id a) claims) = Inr mac" "hash_ok mac" "json_ok (JObj claims)"
  shows "verify_attested_authorized_run w (at_key_id a) key ex (attested_run run (at_key_id a) claims mac) = Inr run"
  using attestor_fields [OF assms(1)] claims_nonce [OF assms(2)] py_eq_refl [OF assms(5)] assms(2,3) attested_parts_run [OF assms(4)]
  by (auto simp: verify_attested_authorized_run_def validate_attestation_key_id_def is_ok_iff simp del: py_eq.simps(9))

lemma exchange_of_ok: "json_ok (JObj req) \<Longrightarrow> json_ok (JObj payload) \<Longrightarrow> exchange_ok (exchange_of req payload endpoint)"
  by (simp add: exchange_ok_def exchange_values_def exchange_of_def json_ok_get_or_none del: json_ok.simps(7))

lemma claims_from_documentsD:
  assumes "claims_from_documents w req res = Inr (claims, run)"
  obtains payload endpoint where "get_or_none req ''payload'' = JObj payload" "get_or_none res ''payload'' = JObj run"
    "endpoint_digest w payload = Inr endpoint" "build_claims w (exchange_of req payload endpoint) run = Inr claims"
  using assms by (auto simp: claims_from_documents_def bindE_Inr_iff split: json.splits if_splits)

text \<open>
  C29. What the supervisor signs, the caller verifies. When the attestor signs a request and a response, the line it returns is the
  canonical text of a document whose payload passes verification under the same key for the request just as it was sent,
  and verification returns the run of the response. The documents have distinct keys and numbers as printed, and the HMAC is
  64 lower-case hexadecimal digits, as \<^verbatim>\<open>hexdigest\<close> returns them.
\<close>

theorem attested_response_verifies:
  assumes "attest w a request response = Inr out" "SupervisorResponseAttestor key_id key = Inr a"
    "decode_line w request ''request'' = Inr req" "decode_line w response ''response'' = Inr res"
    "json_ok (JObj req)" "json_ok (JObj res)" "\<forall>bytes. hash_ok (aw_hmac w key bytes)"
  shows "\<exists>payload endpoint signed p run. get_or_none req ''payload'' = JObj payload \<and> endpoint_digest w payload = Inr endpoint \<and>
    get_or_none res ''payload'' = JObj run \<and> out = utf8 (dumps False (JObj signed)) @ [10] \<and> dict_get signed ''payload'' = Some (JObj p) \<and>
    verify_attested_authorized_run w (at_key_id a) key (exchange_of req payload endpoint) p = Inr run"
proof -
  have key: "at_key a = key" using attestor_fields [OF assms(2)] by blast
  from assms(1) obtain claims run mac bytes where c: "claims_from_documents w req res = Inr (claims, run)"
    and mac: "attestation_mac w key (unsigned_attestation (at_key_id a) claims) = Inr mac"
    and out: "canonical (JObj (dict_set ''payload'' (JObj (attested_run run (at_key_id a) claims mac)) res)) DEFAULT_BYTES DEFAULT_DEPTH = Inr bytes"
      "out = bytes @ [10]"
    by (auto simp: attest_def bindE_Inr_iff assms(3,4) key case_Inr_iff)
  from c obtain payload endpoint where p: "get_or_none req ''payload'' = JObj payload" "get_or_none res ''payload'' = JObj run"
    "endpoint_digest w payload = Inr endpoint" "build_claims w (exchange_of req payload endpoint) run = Inr claims" by (rule claims_from_documentsD)
  have docs: "json_ok (JObj payload)" "json_ok (JObj run)"
    using json_ok_get_or_none [OF assms(5), of "''payload''"] json_ok_get_or_none [OF assms(6), of "''payload''"] unfolding p by blast+
  have "hash_ok mac" using attestation_mac_value [OF mac] assms(7) by simp
  from signed_run_verifies [OF assms(2) p(4) mac this claims_ok [OF p(4) exchange_of_ok [OF assms(5) docs(1)] docs(2)]]
  show ?thesis using p out canonical_okD(1) [OF out(1)] by (auto simp: dict_get_set simp del: dumps.simps)
qed

section \<open>An example\<close>

definition remote_world :: attestation_world where
  "remote_world = \<lparr>aw_sha = (\<lambda>_. ''0''), aw_hmac = (\<lambda>_ _. replicate 64 (CHR ''0'')), aw_float = (\<lambda>_. NanF)\<rparr>"

definition remote_key :: "nat list" where
  "remote_key = replicate 32 0"

definition signed_plan :: dict where
  "signed_plan = [(''engagement_id'', JStr ''e''), (''plan_digest'', JStr ''d''), (''plan_id'', JStr ''p''), (''target'', JStr ''h'')]"

definition demo_payload :: dict where
  "demo_payload = [(''action_plan'', JObj signed_plan), (''authorization_id'', JStr ''a''), (''exchange_nonce'', JStr (replicate 43 (CHR ''n''))),
     (''max_output_bytes'', JInt 9), (''schema_version'', JStr ''v''), (''timeout_seconds'', JInt 5)]"

definition demo_req :: dict where
  "demo_req = [(''expected_host'', JStr ''h''), (''expected_worker_id'', JStr ''w''), (''payload'', JObj demo_payload),
     (''protocol'', JStr SSH_PROTOCOL), (''request_id'', JStr ''r'')]"

definition remote_run :: dict where
  "remote_run = [(''approval_receipt'', JObj [(''authorization_digest'', JStr ''d'')]), (''result'', JObj []), (''schema_version'', JStr ''v'')]"

definition demo_exchange :: remote_exchange where
  "demo_exchange = exchange_of demo_req demo_payload None"

definition demo_claims :: dict where
  "demo_claims = [(''request_id'', JStr ''r''), (''exchange_nonce'', JStr (replicate 43 (CHR ''n''))), (''host'', JStr ''h''),
     (''worker_identity'', JStr ''w''), (''authorization_id'', JStr ''a''), (''authorization_digest'', JStr ''d''), (''action_plan_id'', JStr ''p''),
     (''plan_digest'', JStr ''d''), (''action_plan_digest'', JStr ''0''), (''engagement_id'', JStr ''e''), (''target'', JStr ''h''),
     (''timeout_seconds'', JInt 5), (''max_output_bytes'', JInt 9), (''result_digest'', JStr ''0''), (''receipt_digest'', JStr ''0'')]"

definition demo_attestor :: attestor where
  "demo_attestor = \<lparr>at_key_id = ''k'', at_key = remote_key\<rparr>"

lemma demo_attestor_made: "SupervisorResponseAttestor (JStr ''k'') remote_key = Inr demo_attestor"
  by code_simp

lemma constant_digest:
  assumes "canonical (JObj d) DEFAULT_BYTES DEFAULT_DEPTH = Inr b"
  shows "claimed_digest remote_world d = Inr (JStr ''0'')"
  using assms by (simp add: claimed_digest_def digest_def remote_world_def)

lemma demo_digests: "claimed_digest remote_world signed_plan = Inr (JStr ''0'')" "claimed_digest remote_world [] = Inr (JStr ''0'')"
  "claimed_digest remote_world [(''authorization_digest'', JStr ''d'')] = Inr (JStr ''0'')"
  by (rule constant_digest, rule canonical_small; simp add: signed_plan_def limits_valid_def)+

lemma demo_claims_built: "build_claims remote_world demo_exchange remote_run = Inr demo_claims"
proof -
  have "is_ok (validate_exchange_nonce (ex_exchange_nonce demo_exchange))" "run_fields remote_run" "cleanup_claim remote_world remote_run = Inr []" by code_simp+
  then show ?thesis
    by (auto simp: build_claims_def is_ok_iff exchange_claims_def demo_digests claimed_def demo_exchange_def exchange_of_def demo_req_def demo_payload_def
      remote_run_def endpoint_claim_def get_or_none_def demo_claims_def) (simp add: signed_plan_def)
qed

lemma demo_mac: "attestation_mac remote_world remote_key (unsigned_attestation ''k'' demo_claims) = Inr (replicate 64 (CHR ''0''))"
proof -
  have "canonical (JObj (unsigned_attestation ''k'' demo_claims)) DEFAULT_BYTES DEFAULT_DEPTH
      = Inr (utf8 (dumps False (JObj (unsigned_attestation ''k'' demo_claims))))"
    by (rule canonical_small) (simp_all add: unsigned_attestation_def demo_claims_def SUPERVISOR_ATTESTATION_SCHEMA_def limits_valid_def
      MAX_INT_DIGITS_def nat_text.simps int_text_def)
  then show ?thesis by (simp add: attestation_mac_def remote_world_def)
qed

lemma demo_values_ok: "exchange_ok demo_exchange" "json_ok (JObj remote_run)" "json_ok (JObj demo_claims)"
  by (simp_all add: exchange_ok_def exchange_values_def demo_exchange_def exchange_of_def demo_req_def demo_payload_def remote_run_def demo_claims_def
    signed_plan_def get_or_none_def MAX_INT_DIGITS_def nat_text.simps)

definition demo_attested :: dict where
  "demo_attested = attested_run remote_run ''k'' demo_claims (replicate 64 (CHR ''0''))"

lemma demo_attested_verified: "verify_attested_authorized_run remote_world ''k'' remote_key demo_exchange demo_attested = Inr remote_run"
proof -
  have "hash_ok (replicate 64 (CHR ''0''))" by code_simp
  from signed_run_verifies [OF demo_attestor_made demo_claims_built _ this demo_values_ok(3)] demo_mac
  show ?thesis by (simp add: demo_attestor_def demo_attested_def)
qed

theorem attestation_binds_exchange_witness:
  "verify_attested_authorized_run remote_world ''k'' remote_key demo_exchange demo_attested = Inr remote_run \<and>
   same_exchange demo_exchange demo_exchange \<and> same_run remote_run remote_run"
  using attestation_binds_exchange [OF demo_attested_verified demo_attested_verified refl demo_values_ok(1,1,2,2)] demo_attested_verified
  by (simp add: separates_def)

definition demo_res :: dict where
  "demo_res = [(''host'', JStr ''h''), (''payload'', JObj remote_run), (''protocol'', JStr SSH_PROTOCOL), (''request_id'', JStr ''r''), (''worker_id'', JStr ''w'')]"

definition demo_line :: "dict \<Rightarrow> nat list" where
  "demo_line d = utf8 (dumps False (JObj d)) @ [10]"

lemma decode_demo_line:
  assumes "json_ok (JObj d)" "floats_reparse (aw_float w) (JObj d)" "canonical (JObj d) DEFAULT_BYTES DEFAULT_DEPTH = Inr b"
    "norm_json (aw_float w) (JObj d) = JObj d" "count_list (utf8 (dumps False (JObj d))) 10 = 0"
  shows "decode_line w (demo_line d) label = Inr d"
proof -
  note c = canonical_okD [OF assms(3)]
  have "decode_json (aw_float w) (utf8 (dumps False (JObj d))) (4 * 1024 * 1024) 32 = Inr (JObj d)"
    using decode_bytes [OF assms(1,2,3), of "4 * 1024 * 1024"] c assms(4) by (simp add: limits_valid_def del: dumps.simps norm_json.simps)
  then show ?thesis using assms(5) by (simp add: decode_line_def demo_line_def del: dumps.simps)
qed

lemma demo_req_line: "decode_line remote_world (demo_line demo_req) label = Inr demo_req"
proof (rule decode_demo_line)
  show "json_ok (JObj demo_req)" by (simp add: demo_req_def demo_payload_def signed_plan_def MAX_INT_DIGITS_def nat_text.simps)
  show "floats_reparse (aw_float remote_world) (JObj demo_req)" by (simp add: demo_req_def demo_payload_def signed_plan_def)
  show "canonical (JObj demo_req) DEFAULT_BYTES DEFAULT_DEPTH = Inr (utf8 (dumps False (JObj demo_req)))"
    by (rule canonical_small) (simp_all add: demo_req_def demo_payload_def signed_plan_def SSH_PROTOCOL_def limits_valid_def MAX_INT_DIGITS_def
      nat_text.simps int_text_def)
  show "norm_json (aw_float remote_world) (JObj demo_req) = JObj demo_req" by code_simp
  show "count_list (utf8 (dumps False (JObj demo_req))) 10 = 0" by code_simp
qed

lemma demo_res_line: "decode_line remote_world (demo_line demo_res) label = Inr demo_res"
proof (rule decode_demo_line)
  show "json_ok (JObj demo_res)" by (simp add: demo_res_def remote_run_def)
  show "floats_reparse (aw_float remote_world) (JObj demo_res)" by (simp add: demo_res_def remote_run_def)
  show "canonical (JObj demo_res) DEFAULT_BYTES DEFAULT_DEPTH = Inr (utf8 (dumps False (JObj demo_res)))"
    by (rule canonical_small) (simp_all add: demo_res_def remote_run_def SSH_PROTOCOL_def limits_valid_def)
  show "norm_json (aw_float remote_world) (JObj demo_res) = JObj demo_res" by code_simp
  show "count_list (utf8 (dumps False (JObj demo_res))) 10 = 0" by code_simp
qed

definition demo_signed :: dict where
  "demo_signed = dict_set ''payload'' (JObj demo_attested) demo_res"

lemma demo_attest: "attest remote_world demo_attestor (demo_line demo_req) (demo_line demo_res) = Inr (demo_line demo_signed)"
proof -
  have "is_ok (check_exchange demo_req demo_res)" "get_or_none demo_req ''payload'' = JObj demo_payload" "get_or_none demo_res ''payload'' = JObj remote_run"
    "has_keys demo_payload REQUEST_PAYLOAD_FIELDS" "endpoint_digest remote_world demo_payload = Inr None"
    by code_simp+
  then have "claims_from_documents remote_world demo_req demo_res = Inr (demo_claims, remote_run)"
    using demo_claims_built by (auto simp: claims_from_documents_def is_ok_iff demo_exchange_def)
  moreover have "canonical (JObj demo_signed) DEFAULT_BYTES DEFAULT_DEPTH = Inr (utf8 (dumps False (JObj demo_signed)))"
    by (rule canonical_small) (simp_all add: demo_signed_def demo_attested_def attested_run_def unsigned_attestation_def demo_claims_def
      remote_run_def demo_res_def SUPERVISOR_ATTESTATION_SCHEMA_def ATTESTED_AUTHORIZED_RUN_SCHEMA_def SSH_PROTOCOL_def limits_valid_def
      MAX_INT_DIGITS_def nat_text.simps int_text_def)
  ultimately show ?thesis unfolding demo_line_def [of demo_signed] using demo_mac
    by (simp add: attest_def demo_req_line demo_res_line demo_attestor_def demo_signed_def demo_attested_def del: dumps.simps)
qed

theorem attested_response_verifies_witness:
  "attest remote_world demo_attestor (demo_line demo_req) (demo_line demo_res) = Inr (demo_line demo_signed) \<and>
   (\<exists>endpoint signed p. demo_line demo_signed = utf8 (dumps False (JObj signed)) @ [10] \<and> dict_get signed ''payload'' = Some (JObj p) \<and>
     verify_attested_authorized_run remote_world ''k'' remote_key (exchange_of demo_req demo_payload endpoint) p = Inr remote_run)"
proof -
  have ok: "json_ok (JObj demo_req)" "json_ok (JObj demo_res)"
    by (simp_all add: demo_req_def demo_payload_def signed_plan_def demo_res_def remote_run_def MAX_INT_DIGITS_def nat_text.simps)
  have "hash_ok (replicate 64 (CHR ''0''))" by code_simp
  then have mac: "\<forall>bytes. hash_ok (aw_hmac remote_world remote_key bytes)" by (simp add: remote_world_def)
  have docs: "get_or_none demo_req ''payload'' = JObj demo_payload" "get_or_none demo_res ''payload'' = JObj remote_run" by code_simp+
  from attested_response_verifies [OF demo_attest demo_attestor_made demo_req_line demo_res_line ok mac] demo_attest docs
  show ?thesis by (auto simp: demo_attestor_def simp del: dumps.simps)
qed

end
