(* ===== verification/Spec2Isabelle.thy ===== *)
theory Spec2Isabelle
  imports Lifecycle Json_Roundtrip Budget_Props Canonical_Props Schema_Props Contracts_Props Models_Props
    Authorization_Props Approval_Register Control_Examples Scope_Guard_Props Lab_Journal_Props
    Gateway_Dispatch_Props Credentials_Props Workflow_Runtime_Props Workflow_Run_Props Handoff_Props Attestation_Props
begin

text \<open>
  A verification library for the authenticated-execution core of COPS (\<^verbatim>\<open>src/cops\<close>): what a
  security assessment may do, who allowed it, and what it has used up.

  \<^bold>\<open>The program's parts and how they interact.\<close> An engagement and an action plan are documents checked
  against schemas and rules (\<^verbatim>\<open>evidence\<close>, \<^verbatim>\<open>contracts\<close>). An operator signs an execution
  authorization for one plan and one worker (\<^verbatim>\<open>execution/authorization.py\<close>); it is kept in the
  approval store (\<^verbatim>\<open>execution/store.py\<close>), to which only the approval authority has access. A worker
  asks the authority over a Unix socket to consume the authorization (\<^verbatim>\<open>execution/control.py\<close>): the
  authority verifies it and hands out one durable receipt. Every attempt the worker then makes is
  reserved, dispatched and reconciled in the budget ledger (\<^verbatim>\<open>assessment_budget.py\<close>). Destinations are
  checked against the scope of the engagement (\<^verbatim>\<open>execution/scope_guard.py\<close>); credentials are released for
  one approved operation, against the receipt (\<^verbatim>\<open>execution/credentials.py\<close>), and masked in its output
  (\<^verbatim>\<open>execution/redaction.py\<close>). A request to a provider is carried to the operator's gateway under a signed
  grant for one use (\<^verbatim>\<open>execution/gateway_dispatch.py\<close>), and a laboratory run is recorded in its journal
  before and after it is dispatched (\<^verbatim>\<open>laboratory/journal.py\<close>). A workflow (\<^verbatim>\<open>workflows\<close>) is a graph of stages:
  its runner compiles each stage to a plan, consumes an authorization for it, hands plan and receipt to an
  executor, and keeps a state file from which a stopped run is resumed. A planned task is handed to a specialist of the
  registry, reviewed by a skeptic and completed by an auditor (\<^verbatim>\<open>routing\<close>). The supervisor of a remote worker signs what its worker
  answers, and the caller verifies it against its own request (\<^verbatim>\<open>execution/supervisor_attestation.py\<close>).

  \<^bold>\<open>Theories and sources.\<close>
  \<^item> \<open>Prelude\<close>: results as sums, rows of a table, sequences of operations (\<open>run_ops\<close>) and the locales
    \<open>guarded_machine\<close> (an invariant and an order that every operation keeps) and \<open>one_time_machine\<close> (a
    resource granted at most once), interpreted on the ledger, the approval store, the
    laboratory journal and the gateway's replay store.
  \<^item> \<open>Lifecycle\<close>: \<^verbatim>\<open>contracts/lifecycle.py\<close>, the tables and \<^verbatim>\<open>validate_transition\<close>.
  \<^item> \<open>Json\<close>, \<open>Json_Parse\<close>, \<open>Json_Roundtrip\<close>: the \<^verbatim>\<open>json\<close> module as the sources use it (printing, scanning,
    equality) and that reading back a printed value sorts its keys and changes nothing else.
  \<^item> \<open>Pytime\<close>, \<open>Isoformat\<close>: UTC timestamps, read and printed, and that they agree.
  \<^item> \<open>Canonical\<close>, \<open>Canonical_Props\<close>, \<open>Canonical_Size\<close>: \<^verbatim>\<open>evidence/canonical.py\<close>, canonical bytes, digests, decoding,
    and an upper bound of the size.
  \<^item> \<open>Schema\<close>, \<open>Schema_Props\<close>: \<^verbatim>\<open>evidence/validation.py\<close>, the schema vocabulary, envelopes, receipts.
  \<^item> \<open>Contracts\<close>, \<open>Contracts_Props\<close>: \<^verbatim>\<open>contracts/validation.py\<close>, identifiers and the rules of each contract.
  \<^item> \<open>Models\<close>, \<open>Models_Props\<close>: \<^verbatim>\<open>contracts/models.py\<close>, the classes as records with their conversions,
    transitions and attribute guards.
  \<^item> \<open>Authorization\<close>, \<open>Authorization_Props\<close>: keys, trust store, signing, verification, consumption.
  \<^item> \<open>Approval_Store\<close>, \<open>Approval_Store_Props\<close>, \<open>Approval_Register\<close>: the two tables as lists of rows, every
    method as a transaction on them, permission checks and migration.
  \<^item> \<open>Control\<close>, \<open>Control_Props\<close>, \<open>Control_Examples\<close>: framing, authority, server and client.
  \<^item> \<open>Budget\<close> (operations), \<open>Budget_Text\<close> (stored texts), \<open>Budget_Inv\<close> and \<open>Budget_Steps\<close> (invariant and the
    steps that keep it), \<open>Budget_Machine\<close> (the operations as one machine), \<open>Budget_Props\<close>.
  \<^item> \<open>Ipaddress\<close>, \<open>Ipaddress_Props\<close>, \<open>Urlsplit\<close>, \<open>Base64\<close>: the parts of the modules \<^verbatim>\<open>ipaddress\<close>, \<^verbatim>\<open>urllib.parse\<close>
    and \<^verbatim>\<open>base64\<close> that the sources use.
  \<^item> \<open>Scope_Guard\<close>, \<open>Scope_Guard_Props\<close>: the boundary of an engagement and every check against it.
  \<^item> \<open>Redaction\<close>, \<open>Redaction_Props\<close>: registered secrets, and the patterns as a backtracking matcher.
  \<^item> \<open>Credentials\<close>, \<open>Credentials_Props\<close>: the resolver, over the client of \<open>Control\<close> and the redactor.
  \<^item> \<open>Gateway_Dispatch\<close>, \<open>Gateway_Dispatch_Props\<close>: grants, trust store, replay store, transport checks, the
    emulator with its handler, and envelopes.
  \<^item> \<open>Lab_Journal\<close>, \<open>Lab_Journal_Props\<close>: the table of cases, its operations and its recovery.
  \<^item> \<open>Workflow\<close>, \<open>Workflow_Props\<close>: \<^verbatim>\<open>workflows/contracts.py\<close>, definitions of workflows and their graph.
  \<^item> \<open>Workflow_Runtime\<close>, \<open>Workflow_Runtime_Props\<close>: the functions of \<^verbatim>\<open>workflows/runtime.py\<close> on inputs, bindings,
    order, plans and receipts.
  \<^item> \<open>Workflow_Run\<close>, \<open>Workflow_Run_Props\<close>: \<^verbatim>\<open>WorkflowRunner\<close>, over the client of \<open>Control\<close>: the state file, its
    validation, attempts, stages and the run. The locale \<open>run_relation\<close> is the contract of a method that
    neither retains a receipt nor calls the executor; it is interpreted on the log of executions and on quiet steps.
  \<^item> \<open>Handoff\<close>, \<open>Handoff_Props\<close>: \<^verbatim>\<open>routing/catalog.py\<close> and \<^verbatim>\<open>routing/handoff.py\<close>, the registry of specialists,
    workflow targets in the checkout, and the four steps of a handoff on the record of \<open>Models\<close>.
  \<^item> \<open>Attestation\<close>, \<open>Attestation_Props\<close>: the key, claims, signing and verification of a remote exchange.

  \<^bold>\<open>How state and effects are modelled.\<close> A database is a record of tables, a table the list of its
  rows; a method returns its result (an error or a value) with the new database, and a raised
  exception inside a transaction returns the old one. Concurrency between processes is the order of
  their transactions: theorems quantify over all sequences of operations, and \<open>consume_document\<close> takes
  the operations that others commit between its own transactions. Clocks, file status, process
  identities, received bytes and new identifiers are arguments. The runner of workflows is a state-passing function on
  its client, receipts and files; what the outside answers is a function of the number of calls made so far,
  so a theorem about every such function covers every behaviour of the outside, failing writes included.

  \<^bold>\<open>What is a parameter.\<close> SHA-256, HMAC and Ed25519 (theorems say "up to collisions" or compare with the value
  itself), regular expression search in schemas, the schema files, the
  resolver of host names, the credential provider, the gateway's handler, the semantic checks of \<^verbatim>\<open>reporting\<close>, the
  conversion of a decimal text to a float, and in messages of handoffs the text of a value and the order of a set. Strings are lists of 8-bit characters, read as the code
  points below 256; an escape or byte sequence beyond them is reported as an error.

  \<^bold>\<open>What the lemmas show.\<close> Documents: canonical bytes are exact within the limits and decide equality
  up to key order; accepted documents satisfy their schema and rules; an object is read back from its document
  exactly when the document is an accepted contract; a plan's
  digest pins every field but its status. Authorization: a verified authorization is authentic, current
  and bound to plan, worker and the plan's active engagement, and an issued one verifies. Store: an approval is consumed
  once, for the reason it was granted; retries get the first receipt; migrated rows authorize nothing;
  the store refines a register of one-time tokens. Control: grants go to the pinned worker and are
  recorded, one per authorization, through to the receipt the client accepts; messages are bounded.
  Ledger: budgets and fan-out limits are never exceeded, attempts follow their state machine, receipts are used once,
  cancellation is final, failures and crashes keep the charges. Scope: an accepted destination is an included
  resource or lies inside the included and outside the excluded targets whatever the resolver answers, names included; the
  cases in which a guard of the code has no effect are stated as such. Credentials: values are released only as granted,
  the provider is asked only after every check of the operation, and redacted text holds no registered value that
  cannot come from a label. Gateway: a grant is used
  once and only for what it signs, a refusal consumes nothing, envelopes are read back. Journal: an
  authorization begins one dispatch, cases follow their life cycle, and a restart leaves none open.
  Workflows: an accepted definition is acyclic and has an order, bindings of a ready stage resolve with their
  declared types; nothing is executed without a live receipt for its plan that is already on disk as consumed, a resumed
  run with an unreconciled approval fails before it executes anything, and a written state is read back. Handoffs: every handoff that the workflow completes
  went through its four hands in order, and the audit completes one only when the target, operations and other
  material fields it compares are those of the plan and the workflow target is unchanged. Attestation: a signature belongs to one
  request and one result, and what the supervisor signs the caller verifies.

  \<^bold>\<open>Bounds and fuel.\<close> The JSON scanner runs on fuel of one more than the length of its text, enough for
  every printed value (\<open>loads_dumps\<close>). The stack walk of \<open>canonical\<close> terminates by the number of
  nodes still to visit. Parent walks of the ledger run on fuel of the number of attempts, enough in every
  reachable ledger (\<open>no_internal_failure\<close>). The cycle search of a workflow terminates by the stages not being
  visited; the search for an order, which does not look for cycles, runs on fuel of one more than the number of stages,
  enough for every accepted definition (\<open>accepted_workflow_order\<close>). Everything else is structural.

  \<^bold>\<open>Not modelled.\<close> Opening database files and SQLite connections of the ledger; JSON in UTF-16 or
  UTF-32; the network gateway and its egress rules, the sandbox, processes and SSH (operating-system effects);
  cleanup of subprocesses and evidence files; discovery, the provisioning of laboratories, connectors, reports, the
  classification of requests, playback of workflows, plugins, scripts and the command line: input and output around the modelled
  core, or reports on what it has recorded.
\<close>

end
